(* ===== verification/Prelude.thy ===== *)
theory Prelude
  imports Main "HOL-Library.Word" "HOL-Library.Char_ord" "HOL-Library.List_Lexorder"
begin

text \<open>
  Shared vocabulary of the development: the exceptions the C++ code can raise, the
  result type that carries them, the loops over ranges that may stop at an exception,
  the ordered map (the model of \<open>std::map\<close> and of the JSON object), and the string
  helpers of the standard library and of \<open>mssdk/json/Utils.hpp\<close>.
\<close>

named_theorems res_simps \<open>inversion of results: when a computation returned a value\<close>
named_theorems map_simps \<open>lookup after an update of an ordered map or a JSON object\<close>

section \<open>Exceptions and results\<close>

text \<open>
  Every way in which a modelled function leaves without a value.
  \<^item> \<open>LazyException d\<close>: \<open>LAZY_THROW_EXCEPTION(d)\<close> of \<open>lazyexception.hpp\<close>;
  \<^item> \<open>JsonTypeError n\<close>, \<open>JsonOutOfRange n\<close>, \<open>JsonParseError n\<close>: the exceptions of \<open>nlohmann::json\<close>
    with their number;
  \<^item> \<open>StdInvalidArgument\<close>, \<open>StdOutOfRange\<close>: \<open>std::stoi\<close> and its kin, and
    \<open>std::vector::at\<close>, \<open>std::map::at\<close>;
  \<^item> \<open>JsonParsingFailed\<close>, \<open>JsonMissingKey n\<close>, \<open>JsonTypeMismatch n\<close>: the exceptions of
    \<open>mssdk/json/serialization.hpp\<close> with the name of the member;
  \<^item> \<open>BadOptionalAccess\<close>, \<open>FutureError\<close>: \<open>optional::value\<close> without a value, and a promise
    that is given a second value; \<open>AssertionFailed\<close>: \<open>assert(0)\<close> has been reached;
  \<^item> \<open>Undefined w\<close>: the C++ expression has no defined behaviour (a missing key read
    through a constant JSON value, an \<open>end()\<close> iterator dereferenced, an index out of range).
\<close>

datatype exn =
    LazyException string
  | JsonTypeError nat
  | JsonOutOfRange nat
  | JsonParseError nat
  | StdInvalidArgument string
  | StdOutOfRange string
  | JsonParsingFailed
  | JsonMissingKey string
  | JsonTypeMismatch string
  | BadOptionalAccess
  | FutureError
  | AssertionFailed
  | Undefined string

type_synonym 'a res = "exn + 'a"

definition bindE :: "'a res \<Rightarrow> ('a \<Rightarrow> 'b res) \<Rightarrow> 'b res" where
  "bindE m f = (case m of Inl e \<Rightarrow> Inl e | Inr x \<Rightarrow> f x)"

text \<open>\<open>throwIf c e k\<close> is \<open>if (c) throw e;\<close> followed by \<open>k\<close>.\<close>

definition throwIf :: "bool \<Rightarrow> exn \<Rightarrow> 'a res \<Rightarrow> 'a res" where
  "throwIf c e k = (if c then Inl e else k)"

definition is_ok :: "'a res \<Rightarrow> bool" where
  "is_ok m = (case m of Inl _ \<Rightarrow> False | Inr _ \<Rightarrow> True)"

lemma bindE_simps [simp]: "bindE (Inl e) f = Inl e" "bindE (Inr x) f = f x"
  by (simp_all add: bindE_def)

lemma throwIf_simps [simp]: "throwIf True e k = Inl e" "throwIf False e k = k"
  by (simp_all add: throwIf_def)

lemma is_ok_simps [simp]: "is_ok (Inr x)" "\<not> is_ok (Inl e)"
  by (simp_all add: is_ok_def)

lemma is_ok_iff: "is_ok m \<longleftrightarrow> (\<exists>x. m = Inr x)"
  by (cases m) auto

lemma bindE_Inr_iff [res_simps]: "bindE m f = Inr y \<longleftrightarrow> (\<exists>x. m = Inr x \<and> f x = Inr y)"
  by (cases m) auto

lemma bindE_Inl_iff: "bindE m f = Inl e \<longleftrightarrow> m = Inl e \<or> (\<exists>x. m = Inr x \<and> f x = Inl e)"
  by (cases m) auto

lemma throwIf_Inr_iff [res_simps]: "throwIf c e k = Inr y \<longleftrightarrow> \<not> c \<and> k = Inr y"
  by (simp add: throwIf_def)

lemma throwIf_Inl_iff: "throwIf c e k = Inl e' \<longleftrightarrow> (if c then e' = e else k = Inl e')"
  by (auto simp: throwIf_def)

lemma bindE_assoc: "bindE (bindE m f) g = bindE m (\<lambda>x. bindE (f x) g)"
  by (cases m) auto

section \<open>Loops that may stop at an exception\<close>

text \<open>\<open>mapE f xs\<close>: \<open>for (auto& x : xs) f(x)\<close>, each element replaced by what \<open>f\<close>
  leaves in it. \<open>foldE f xs s\<close>: a loop over \<open>xs\<close> that threads a state.\<close>

fun mapE :: "('a \<Rightarrow> 'b res) \<Rightarrow> 'a list \<Rightarrow> 'b list res" where
  "mapE f [] = Inr []"
| "mapE f (x # xs) = bindE (f x) (\<lambda>y. bindE (mapE f xs) (\<lambda>ys. Inr (y # ys)))"

fun foldE :: "('a \<Rightarrow> 's \<Rightarrow> 's res) \<Rightarrow> 'a list \<Rightarrow> 's \<Rightarrow> 's res" where
  "foldE f [] s = Inr s"
| "foldE f (x # xs) s = bindE (f x s) (foldE f xs)"

text \<open>\<open>findE p xs\<close>: \<open>std::find_if\<close> with a predicate that may throw.\<close>

fun findE :: "('a \<Rightarrow> bool res) \<Rightarrow> 'a list \<Rightarrow> 'a option res" where
  "findE p [] = Inr None"
| "findE p (x # xs) = bindE (p x) (\<lambda>b. if b then Inr (Some x) else findE p xs)"

text \<open>\<open>std::find_if\<close> with a predicate that can fail: the index of the first element accepted.\<close>

fun find_index :: "('a \<Rightarrow> bool res) \<Rightarrow> 'a list \<Rightarrow> nat option res" where
  "find_index p [] = Inr None"
| "find_index p (x # xs) =
     bindE (p x) (\<lambda>found. if found then Inr (Some 0)
       else bindE (find_index p xs) (\<lambda>i. Inr (map_option Suc i)))"

lemma mapE_Inr_iff [res_simps]:
  "mapE f xs = Inr ys \<longleftrightarrow> list_all2 (\<lambda>x y. f x = Inr y) xs ys"
  by (induction xs arbitrary: ys) (auto simp: bindE_Inr_iff list_all2_Cons1)

lemma mapE_Inl: "mapE f xs = Inl e \<Longrightarrow> \<exists>x \<in> set xs. f x = Inl e"
  by (induction xs) (auto simp: bindE_Inl_iff)

lemma mapE_ok: "(\<And>x. x \<in> set xs \<Longrightarrow> is_ok (f x)) \<Longrightarrow> is_ok (mapE f xs)"
  by (induction xs) (auto simp: is_ok_iff bindE_Inr_iff)

lemma mapE_append: "mapE f (xs @ ys) = bindE (mapE f xs) (\<lambda>as. bindE (mapE f ys) (\<lambda>bs. Inr (as @ bs)))"
  by (induction xs) (auto simp: bindE_assoc bindE_def split: sum.splits)

lemma foldE_append: "foldE f (xs @ ys) s = bindE (foldE f xs s) (foldE f ys)"
  by (induction xs arbitrary: s) (simp_all add: bindE_def split: sum.split)

lemma foldE_invariant:
  assumes "foldE f xs s = Inr t" and "I s"
    and "\<And>x u v. x \<in> set xs \<Longrightarrow> I u \<Longrightarrow> f x u = Inr v \<Longrightarrow> I v"
  shows "I t"
  using assms by (induction xs arbitrary: s) (auto simp: bindE_Inr_iff)

lemma foldE_total:
  assumes "I s"
    and "\<And>x u. x \<in> set xs \<Longrightarrow> I u \<Longrightarrow> \<exists>v. f x u = Inr v \<and> I v"
  shows "\<exists>t. foldE f xs s = Inr t \<and> I t"
  using assms
proof (induction xs arbitrary: s)
  case (Cons x xs)
  then obtain v where "f x s = Inr v" "I v" by (metis list.set_intros(1))
  with Cons show ?case by simp
qed simp

lemma findE_Some: "findE p xs = Inr (Some x) \<Longrightarrow> x \<in> set xs \<and> p x = Inr True"
  by (induction xs) (auto simp: bindE_Inr_iff split: if_splits)

lemma findE_None: "findE p xs = Inr None \<Longrightarrow> \<forall>x \<in> set xs. p x = Inr False"
  by (induction xs) (auto simp: bindE_Inr_iff split: if_splits)

lemma findE_pure: "findE (\<lambda>x. Inr (p x)) xs = Inr (find p xs)"
  by (induction xs) auto

lemma findE_cong_pure: "(\<And>x. x \<in> set xs \<Longrightarrow> p x = Inr (q x)) \<Longrightarrow> findE p xs = Inr (find q xs)"
  by (induction xs) auto

section \<open>Ordered maps\<close>

text \<open>
  \<open>std::map\<close>, and the object of \<open>nlohmann::json\<close> which is one: a list of pairs in
  strictly ascending order of the keys. \<open>aset\<close> is \<open>m[k] = v\<close>, \<open>adel\<close> is
  \<open>m.erase(k)\<close>, and \<open>map_of\<close> is \<open>m.find(k)\<close>.
\<close>

fun aset :: "'k::linorder \<Rightarrow> 'v \<Rightarrow> ('k \<times> 'v) list \<Rightarrow> ('k \<times> 'v) list" where
  "aset k v [] = [(k, v)]"
| "aset k v ((a, b) # ps) =
     (if k < a then (k, v) # (a, b) # ps
      else if k = a then (k, v) # ps
      else (a, b) # aset k v ps)"

definition adel :: "'k \<Rightarrow> ('k \<times> 'v) list \<Rightarrow> ('k \<times> 'v) list" where
  "adel k ps = filter (\<lambda>(a, b). a \<noteq> k) ps"

definition ordered :: "('k::linorder \<times> 'v) list \<Rightarrow> bool" where
  "ordered ps = sorted_wrt (<) (map fst ps)"

lemma ordered_simps [simp]:
  "ordered []"
  "ordered ((a, b) # ps) \<longleftrightarrow> (\<forall>x \<in> fst ` set ps. a < x) \<and> ordered ps"
  by (auto simp: ordered_def)

lemma map_of_aset [map_simps]: "map_of (aset k v ps) = (map_of ps)(k \<mapsto> v)"
  by (induction ps) (auto simp: fun_eq_iff)

lemma map_of_adel [map_simps]: "map_of (adel k ps) = (map_of ps)(k := None)"
  by (induction ps) (auto simp: fun_eq_iff adel_def)

lemma fst_set_aset: "fst ` set (aset k v ps) = insert k (fst ` set ps)"
  by (induction k v ps rule: aset.induct) (simp_all add: insert_commute)

lemma ordered_aset [simp]: "ordered ps \<Longrightarrow> ordered (aset k v ps)"
proof (induction ps)
  case (Cons p ps)
  then show ?case by (cases p) (auto simp: fst_set_aset)
qed simp

lemma ordered_adel [simp]: "ordered ps \<Longrightarrow> ordered (adel k ps)"
  by (induction ps) (auto simp: adel_def)

lemma set_aset_subset: "set (aset k v ps) \<subseteq> insert (k, v) (set ps)"
  by (induction ps) (auto split: if_splits)

lemma aset_id:
  assumes "ordered ps" "map_of ps k = Some v"
  shows "aset k v ps = ps"
  using assms
proof (induction ps)
  case (Cons p ps)
  obtain a b where p: "p = (a, b)" by (cases p)
  show ?case
  proof (cases "k = a")
    case True with Cons.prems p show ?thesis by simp
  next
    case False
    then have "map_of ps k = Some v" using Cons.prems p by simp
    then have "k \<in> fst ` set ps" by (force dest: map_of_SomeD)
    then have "a < k" using Cons.prems p by auto
    with False Cons p \<open>map_of ps k = Some v\<close> show ?thesis by auto
  qed
qed simp

lemma adel_id: "map_of ps k = None \<Longrightarrow> adel k ps = ps"
  by (induction ps) (auto simp: adel_def split: if_splits)

text \<open>Two ordered maps with the same lookups are the same list.\<close>

lemma ordered_Cons_eq:
  assumes "ordered ((a, b) # ps)" "ordered ((c, d) # qs)"
    and "map_of ((a, b) # ps) = map_of ((c, d) # qs)"
  shows "a = c \<and> b = d \<and> map_of ps = map_of qs"
proof -
  have pa: "map_of ps a = None" and qc: "map_of qs c = None"
    using assms(1,2) by (force simp: map_of_eq_None_iff)+
  have "a = c"
  proof (rule ccontr)
    assume ac: "a \<noteq> c"
    have "map_of qs a = Some b" using assms(3) ac
      by (metis map_of_Cons_code(2))
    moreover have "map_of ps c = Some d" using assms(3) ac
      by (metis map_of_Cons_code(2))
    ultimately have "a \<in> fst ` set qs" "c \<in> fst ` set ps"
      by (force dest: map_of_SomeD)+
    with assms(1,2) have "c < a" "a < c" by auto
    then show False by simp
  qed
  moreover from this assms(3) have "b = d" by (metis map_of_Cons_code(2) option.inject)
  moreover have "map_of ps x = map_of qs x" for x
  proof (cases "x = a")
    case True with pa qc \<open>a = c\<close> show ?thesis by simp
  next
    case False
    with \<open>a = c\<close> fun_cong [OF assms(3), of x] show ?thesis by simp
  qed
  ultimately show ?thesis by auto
qed

lemma ordered_map_eqI:
  "ordered ps \<Longrightarrow> ordered qs \<Longrightarrow> map_of ps = map_of qs \<Longrightarrow> ps = qs"
proof (induction ps arbitrary: qs)
  case Nil then show ?case by (cases qs) (auto simp: fun_eq_iff split: if_splits)
next
  case (Cons p ps)
  obtain a b where p: "p = (a, b)" by (cases p)
  have "map_of (p # ps) a = Some b" by (simp add: p)
  then have "qs \<noteq> []" using fun_cong [OF Cons.prems(3), of a]
    by (metis map_of.simps(1) option.distinct(1))
  then obtain c d qs' where q: "qs = (c, d) # qs'" by (metis list.exhaust surj_pair)
  have "a = c \<and> b = d \<and> map_of ps = map_of qs'"
    by (rule ordered_Cons_eq) (use Cons.prems in \<open>simp_all only: p q\<close>)
  moreover have "ordered ps" "ordered qs'" using Cons.prems(1,2) by (simp_all add: p q)
  ultimately show ?case using Cons.IH p q by blast
qed

lemma aset_twice: "aset k w (aset k v ps) = aset k w ps"
  by (induction ps) auto

lemma aset_commute: "k \<noteq> l \<Longrightarrow> ordered ps \<Longrightarrow> aset k v (aset l w ps) = aset l w (aset k v ps)"
  by (rule ordered_map_eqI) (auto simp: map_simps)

section \<open>Interface of an ordered map\<close>

text \<open>
  What the clients of \<open>std::map\<close> rely on. The JSON object and the maps indexed by
  payload type or by m-section identifier are instances.
\<close>

locale ordered_map =
  fixes lookup :: "'m \<Rightarrow> 'k \<Rightarrow> 'v option"
    and store :: "'k \<Rightarrow> 'v \<Rightarrow> 'm \<Rightarrow> 'm"
    and remove :: "'k \<Rightarrow> 'm \<Rightarrow> 'm"
    and invar :: "'m \<Rightarrow> bool"
  assumes lookup_store: "lookup (store k v m) = (lookup m)(k \<mapsto> v)"
    and lookup_remove: "lookup (remove k m) = (lookup m)(k := None)"
    and invar_store: "invar m \<Longrightarrow> invar (store k v m)"
    and invar_remove: "invar m \<Longrightarrow> invar (remove k m)"
    and lookup_ext: "invar m \<Longrightarrow> invar m' \<Longrightarrow> lookup m = lookup m' \<Longrightarrow> m = m'"
begin

lemma store_same: "invar m \<Longrightarrow> lookup m k = Some v \<Longrightarrow> store k v m = m"
  by (rule lookup_ext) (auto simp: lookup_store invar_store)

lemma remove_absent: "invar m \<Longrightarrow> lookup m k = None \<Longrightarrow> remove k m = m"
  by (rule lookup_ext) (auto simp: lookup_remove invar_remove)

lemma store_store: "invar m \<Longrightarrow> store k w (store k v m) = store k w m"
  by (rule lookup_ext) (auto simp: lookup_store invar_store)

lemma store_remove: "invar m \<Longrightarrow> store k v (remove k m) = store k v m"
  by (rule lookup_ext) (auto simp: lookup_store lookup_remove invar_store invar_remove)

lemma remove_store: "invar m \<Longrightarrow> remove k (store k v m) = remove k m"
  by (rule lookup_ext) (auto simp: lookup_store lookup_remove invar_store invar_remove)

text \<open>A default is stored only where no value of the right kind is present.\<close>

lemma default_keeps:
  "lookup m k = Some w \<Longrightarrow> lookup (if P w then m else store k v m) k = Some (if P w then w else v)"
  by (auto simp: lookup_store)

end

interpretation amap: ordered_map map_of aset adel ordered
  by unfold_locales (auto simp: map_simps intro: ordered_map_eqI)

section \<open>Strings\<close>

text \<open>\<open>std::isspace\<close> in the "C" locale: space, tab, line feed, vertical tab, form feed,
  carriage return.\<close>

definition is_space :: "char \<Rightarrow> bool" where
  "is_space c = (c = CHR '' '' \<or> c \<in> {CHR 0x09, CHR 0x0A, CHR 0x0B, CHR 0x0C, CHR 0x0D})"

definition is_digit :: "char \<Rightarrow> bool" where
  "is_digit c = (CHR ''0'' \<le> c \<and> c \<le> CHR ''9'')"

text \<open>\<open>::tolower\<close> on ASCII: bit 5 is what distinguishes the two cases of a letter.\<close>

definition to_lower :: "char \<Rightarrow> char" where
  "to_lower c =
     (if CHR ''A'' \<le> c \<and> c \<le> CHR ''Z''
      then (case c of Char b0 b1 b2 b3 b4 b5 b6 b7 \<Rightarrow> Char b0 b1 b2 b3 b4 True b6 b7) else c)"

definition lower :: "string \<Rightarrow> string" where
  "lower s = map to_lower s"

text \<open>
  \<open>std::getline(stream, item, d)\<close> read until it fails: the items between the
  delimiters. An empty rest gives no further item, so a trailing delimiter ends the
  loop and an empty string has no items. \<open>acc\<close> holds the characters read so far in reverse.
\<close>

fun getlines_aux :: "char \<Rightarrow> string \<Rightarrow> string \<Rightarrow> string list" where
  "getlines_aux d acc [] = (if acc = [] then [] else [rev acc])"
| "getlines_aux d acc (c # cs) =
     (if c = d then rev acc # getlines_aux d [] cs else getlines_aux d (c # acc) cs)"

definition getlines :: "char \<Rightarrow> string \<Rightarrow> string list" where
  "getlines d s = getlines_aux d [] s"

text \<open>\<open>sdptransform::trim\<close> (\<open>parser.cpp\<close>): both ends stripped of white space.\<close>

definition trim :: "string \<Rightarrow> string" where
  "trim s = rev (dropWhile is_space (rev (dropWhile is_space s)))"

text \<open>\<open>Utils::split\<close> and \<open>Utils::join\<close> of \<open>json/Utils.hpp\<close>.\<close>

definition split :: "string \<Rightarrow> char \<Rightarrow> string list" where
  "split s d = getlines d s"

fun join :: "string list \<Rightarrow> char \<Rightarrow> string" where
  "join [] d = []"
| "join [x] d = x"
| "join (x # y # ys) d = x @ [d] @ join (y # ys) d"

lemma getlines_aux_nodelim:
  "d \<notin> set s \<Longrightarrow> getlines_aux d acc s = (if acc = [] \<and> s = [] then [] else [rev acc @ s])"
  by (induction s arbitrary: acc) auto

lemma getlines_aux_delim:
  "d \<notin> set s \<Longrightarrow> getlines_aux d acc (s @ d # t) = (rev acc @ s) # getlines_aux d [] t"
  by (induction s arbitrary: acc) auto

lemma getlines_Nil [simp]: "getlines d [] = []"
  by (simp add: getlines_def)

lemma getlines_single: "d \<notin> set s \<Longrightarrow> getlines d s = (if s = [] then [] else [s])"
  by (simp add: getlines_def getlines_aux_nodelim)

lemma getlines_Cons: "d \<notin> set s \<Longrightarrow> getlines d (s @ d # t) = s # getlines d t"
  by (simp add: getlines_def getlines_aux_delim)

lemma getlines_aux_no_delim_in:
  "x \<in> set (getlines_aux d acc s) \<Longrightarrow> d \<notin> set acc \<Longrightarrow> d \<notin> set x"
  by (induction d acc s rule: getlines_aux.induct) (auto split: if_splits)

lemma getlines_no_delim: "x \<in> set (getlines d s) \<Longrightarrow> d \<notin> set x"
  by (auto simp: getlines_def dest: getlines_aux_no_delim_in)

lemma set_join: "set (join xs d) \<subseteq> insert d (\<Union> (set ` set xs))"
  by (induction xs d rule: join.induct) auto

lemma join_nonempty: "xs \<noteq> [] \<Longrightarrow> \<forall>x \<in> set xs. x \<noteq> [] \<Longrightarrow> join xs d \<noteq> []"
  by (cases "(xs, d)" rule: join.cases) auto

text \<open>\<open>split\<close> undoes \<open>join\<close> on parts that are not empty and hold no delimiter.\<close>

lemma split_join:
  assumes "\<forall>x \<in> set xs. d \<notin> set x \<and> x \<noteq> []"
  shows "split (join xs d) d = xs"
  using assms
proof (induction xs d rule: join.induct)
  case (3 x y ys d)
  then show ?case by (simp add: split_def getlines_Cons)
qed (auto simp: split_def getlines_single)

lemma trim_id:
  assumes "\<forall>c \<in> set s. \<not> is_space c"
  shows "trim s = s"
proof -
  have "dropWhile is_space s = s" using assms by (cases s) auto
  moreover have "dropWhile is_space (rev s) = rev s"
    using assms by (cases s rule: rev_cases) auto
  ultimately show ?thesis by (simp add: trim_def)
qed

end
