(* ===== verification/CxxNum.thy ===== *)
theory CxxNum
  imports Prelude
begin

text \<open>
  The numeric text of the C++ standard library as the code uses it: \<open>std::to_string\<close>,
  extraction of an integer or a floating point number from a whole string with
  \<open>istringstream >> noskipws >> x\<close> followed by \<open>eof() && !fail()\<close>,
  \<open>std::stoi\<close>, \<open>std::stoul\<close> and \<open>std::stoull\<close>, the binary64 value of a decimal
  (round to nearest, ties to even) and the default (\<open>%g\<close>, six digits) output of a
  \<open>float\<close>. The target is the Windows build of \<open>mssdk.vcxproj\<close>, where \<open>int\<close> and
  \<open>long\<close> have 32 bits.
\<close>

section \<open>Decimal digits\<close>

definition digit_val :: "char \<Rightarrow> nat" where
  "digit_val c = of_char c - 48"

definition digits_val :: "string \<Rightarrow> nat" where
  "digits_val s = foldl (\<lambda>n c. 10 * n + digit_val c) 0 s"

fun nat_str :: "nat \<Rightarrow> string" where
  "nat_str n =
     (if n < 10 then [char_of (48 + n)]
      else nat_str (n div 10) @ [char_of (48 + n mod 10)])"

declare nat_str.simps [simp del]

definition int_str :: "int \<Rightarrow> string" where
  "int_str i = (if i < 0 then CHR ''-'' # nat_str (nat (- i)) else nat_str (nat i))"

lemma of_char_digit: "n < 10 \<Longrightarrow> of_char (char_of (48 + n) :: char) = (48 + n :: nat)"
  by simp

lemma is_digit_char_of: "n < 10 \<Longrightarrow> is_digit (char_of (48 + n :: nat))"
  by (simp add: is_digit_def less_eq_char_def)

lemma digit_val_char_of: "n < 10 \<Longrightarrow> digit_val (char_of (48 + n :: nat)) = n"
  by (simp add: digit_val_def)

lemma nat_str_digits: "list_all is_digit (nat_str n)"
proof (induction n rule: nat_str.induct)
  case (1 n)
  then show ?case by (subst nat_str.simps) (auto simp: is_digit_char_of)
qed

lemma nat_str_nonempty [simp]: "nat_str n \<noteq> []"
  by (subst nat_str.simps) simp

lemma digits_val_snoc: "digits_val (s @ [c]) = 10 * digits_val s + digit_val c"
  by (simp add: digits_val_def)

lemma digits_val_nat_str [simp]: "digits_val (nat_str n) = n"
proof (induction n rule: nat_str.induct)
  case (1 n)
  show ?case
  proof (cases "n < 10")
    case True
    then show ?thesis by (subst nat_str.simps) (simp add: digits_val_def digit_val_char_of)
  next
    case False
    with 1 have "digits_val (nat_str (n div 10)) = n div 10" by simp
    with False show ?thesis
      by (subst nat_str.simps) (simp add: digits_val_snoc digit_val_char_of)
  qed
qed

lemma nat_str_inj: "nat_str m = nat_str n \<longleftrightarrow> m = n"
  by (metis digits_val_nat_str)

lemma digit_not_special:
  "is_digit c \<Longrightarrow> \<not> is_space c \<and> c \<noteq> CHR ''-'' \<and> c \<noteq> CHR ''+'' \<and> c \<noteq> CHR '' '' \<and> c \<noteq> CHR '';'' \<and> c \<noteq> CHR ''='' \<and> c \<noteq> CHR '','' \<and> c \<noteq> CHR ''.'' \<and> c \<noteq> CHR ''/'' \<and> c \<noteq> CHR '':''"
  by (auto simp: is_digit_def is_space_def less_eq_char_def)

lemma nat_str_chars: "c \<in> set (nat_str n) \<Longrightarrow> is_digit c"
  using nat_str_digits [of n] by (auto simp: list_all_iff)

lemma nat_str_hd: "is_digit (hd (nat_str n))"
  by (rule nat_str_chars [of _ n]) simp

section \<open>Whole-field extraction of integers\<close>

fun take_sign :: "string \<Rightarrow> bool \<times> string" where
  "take_sign [] = (False, [])"
| "take_sign (c # cs) =
     (if c = CHR ''-'' then (True, cs) else if c = CHR ''+'' then (False, cs) else (False, c # cs))"

text \<open>An optional sign and at least one digit, and nothing else.\<close>

definition read_int :: "string \<Rightarrow> int option" where
  "read_int s = (case take_sign s of (neg, ds) \<Rightarrow>
     if ds \<noteq> [] \<and> list_all is_digit ds
     then Some (if neg then - int (digits_val ds) else int (digits_val ds)) else None)"

text \<open>Into a signed type of \<open>w\<close> bits: a value out of range sets \<open>failbit\<close>. Into an
  unsigned type a minus sign is accepted and the value wraps, as \<open>strtoull\<close> does.\<close>

definition stream_int :: "nat \<Rightarrow> string \<Rightarrow> int option" where
  "stream_int w s = (case read_int s of None \<Rightarrow> None
     | Some i \<Rightarrow> if - (2 ^ (w - 1)) \<le> i \<and> i < 2 ^ (w - 1) then Some i else None)"

definition stream_uint :: "nat \<Rightarrow> string \<Rightarrow> int option" where
  "stream_uint w s = (case read_int s of None \<Rightarrow> None
     | Some i \<Rightarrow> if \<bar>i\<bar> < 2 ^ w then Some (i mod 2 ^ w) else None)"

lemma take_sign_digit: "is_digit c \<Longrightarrow> take_sign (c # cs) = (False, c # cs)"
  by (auto simp: is_digit_def less_eq_char_def)

lemma take_sign_nat_str [simp]: "take_sign (nat_str n) = (False, nat_str n)"
  using take_sign_digit [OF nat_str_hd, of n "tl (nat_str n)"] by simp

lemma read_int_nat_str [simp]: "read_int (nat_str n) = Some (int n)"
  by (simp add: read_int_def nat_str_digits)

lemma read_int_int_str [simp]: "read_int (int_str i) = Some i"
proof (cases "i < 0")
  case True
  then show ?thesis by (simp add: int_str_def read_int_def nat_str_digits)
next
  case False
  then show ?thesis by (simp add: int_str_def)
qed

lemma stream_int_int_str:
  "- (2 ^ (w - 1)) \<le> i \<Longrightarrow> i < 2 ^ (w - 1) \<Longrightarrow> stream_int w (int_str i) = Some i"
  by (simp add: stream_int_def)

lemma read_int_Nil [simp]: "read_int [] = None"
  by (simp add: read_int_def)

section \<open>The \<open>sto*\<close> functions\<close>

text \<open>They skip white space, take the longest prefix that is a number and ignore the rest.\<close>

definition strto_prefix :: "string \<Rightarrow> int option" where
  "strto_prefix s = (case take_sign (dropWhile is_space s) of (neg, r) \<Rightarrow>
     let ds = takeWhile is_digit r in
     if ds = [] then None
     else Some (if neg then - int (digits_val ds) else int (digits_val ds)))"

definition stoi :: "string \<Rightarrow> int res" where
  "stoi s = (case strto_prefix s of None \<Rightarrow> Inl (StdInvalidArgument ''stoi'')
     | Some i \<Rightarrow> if - (2 ^ 31) \<le> i \<and> i < 2 ^ 31 then Inr i else Inl (StdOutOfRange ''stoi''))"

definition stoull :: "string \<Rightarrow> 64 word res" where
  "stoull s = (case strto_prefix s of None \<Rightarrow> Inl (StdInvalidArgument ''stoull'')
     | Some i \<Rightarrow> if \<bar>i\<bar> < 2 ^ 64 then Inr (of_int i) else Inl (StdOutOfRange ''stoull''))"

definition stoul :: "string \<Rightarrow> 32 word res" where
  "stoul s = (case strto_prefix s of None \<Rightarrow> Inl (StdInvalidArgument ''stoul'')
     | Some i \<Rightarrow> if \<bar>i\<bar> < 2 ^ 32 then Inr (of_int i) else Inl (StdOutOfRange ''stoul''))"

lemma strto_prefix_digits:
  assumes "list_all is_digit ds" "ds \<noteq> []" "r = [] \<or> \<not> is_digit (hd r)"
  shows "strto_prefix (ds @ r) = Some (int (digits_val ds))"
proof -
  obtain c cs where ds: "ds = c # cs" using assms(2) by (cases ds) auto
  have c: "is_digit c" using assms(1) ds by simp
  have "takeWhile is_digit (ds @ r) = ds"
    using assms(1,3) by (cases r) (simp_all add: list_all_iff)
  moreover have "dropWhile is_space (ds @ r) = ds @ r"
    using digit_not_special [OF c] ds by simp
  ultimately show ?thesis
    using take_sign_digit [OF c, of "cs @ r"] ds by (simp add: strto_prefix_def Let_def)
qed

lemma strto_prefix_nat_str [simp]: "strto_prefix (nat_str n) = Some (int n)"
  using strto_prefix_digits [OF nat_str_digits, of n "[]"] by simp

lemma stoull_nat_str: "n < 2 ^ 64 \<Longrightarrow> stoull (nat_str n) = Inr (of_nat n)"
  by (simp add: stoull_def)

lemma ucast_up_down [simp]: "(ucast (ucast (w :: 32 word) :: 64 word) :: 32 word) = w"
  by (rule ucast_up_ucast_id) (simp add: is_up)

lemma stoull_ssrc: "stoull (nat_str (unat (w :: 32 word))) = Inr (ucast w)"
proof -
  have "unat w < 2 ^ 64" by (rule less_trans [OF unsigned_less]) simp
  then show ?thesis by (simp add: stoull_nat_str)
qed

lemma stoi_nat_str: "n < 2 ^ 31 \<Longrightarrow> stoi (nat_str n) = Inr (int n)"
  by (simp add: stoi_def)

section \<open>Floating point\<close>

text \<open>The decimal literal accepted by the stream: sign, mantissa with an optional point,
  optional exponent, to the end of the string. The result is sign, mantissa as a
  natural number and the power of ten.\<close>

definition read_exp :: "string \<Rightarrow> int option" where
  "read_exp s = (case s of [] \<Rightarrow> Some 0
     | c # r \<Rightarrow> if c = CHR ''e'' \<or> c = CHR ''E'' then read_int r else None)"

definition read_dec :: "string \<Rightarrow> (bool \<times> nat \<times> int) option" where
  "read_dec s = (case take_sign s of (neg, r) \<Rightarrow>
     let ip = takeWhile is_digit r; r1 = dropWhile is_digit r;
         hasp = (r1 \<noteq> [] \<and> hd r1 = CHR ''.'');
         fp = (if hasp then takeWhile is_digit (tl r1) else []);
         r2 = (if hasp then dropWhile is_digit (tl r1) else r1)
     in if ip @ fp = [] then None
        else map_option (\<lambda>e. (neg, digits_val (ip @ fp), e - int (length fp))) (read_exp r2))"

fun blen :: "nat \<Rightarrow> nat" where
  "blen n = (if n = 0 then 0 else Suc (blen (n div 2)))"

declare blen.simps [simp del]

text \<open>\<open>num / (den * 2 ^ e)\<close> as numerator and denominator.\<close>

definition scale2 :: "int \<Rightarrow> nat \<Rightarrow> nat \<Rightarrow> nat \<times> nat" where
  "scale2 e num den = (if e \<ge> 0 then (num, den * 2 ^ nat e) else (num * 2 ^ nat (- e), den))"

definition round_half_even :: "nat \<Rightarrow> nat \<Rightarrow> nat" where
  "round_half_even n d = (let q = n div d; r = n mod d in
     if 2 * r > d \<or> (2 * r = d \<and> odd q) then q + 1 else q)"

text \<open>
  The IEEE 754 encoding of the magnitude \<open>num / den\<close> in a format with \<open>p\<close> bits of
  precision and least exponent \<open>emin\<close>: exponent field times \<open>2 ^ (p - 1)\<close> plus
  fraction. A carry of the rounding moves into the exponent field by itself.
\<close>

definition fp_round :: "nat \<Rightarrow> int \<Rightarrow> nat \<Rightarrow> nat \<Rightarrow> nat" where
  "fp_round p emin num den =
     (if num = 0 then 0
      else let e0 = int (blen num) - int (blen den) - int p;
               e1 = (case scale2 e0 num den of (n, d) \<Rightarrow> if n div d \<ge> 2 ^ p then e0 + 1 else e0);
               e = max e1 emin
           in case scale2 e num den of (n, d) \<Rightarrow>
                nat (e - emin) * 2 ^ (p - 1) + round_half_even n d)"

definition fp_ratio :: "nat \<Rightarrow> int \<Rightarrow> nat \<Rightarrow> nat \<times> nat" where
  "fp_ratio p emin mag =
     (let E = mag div 2 ^ (p - 1); f = mag mod 2 ^ (p - 1);
          (m, e) = (if E = 0 then (f, emin) else (2 ^ (p - 1) + f, emin + int E - 1))
      in if e \<ge> 0 then (m * 2 ^ nat e, 1) else (m, 2 ^ nat (- e)))"

definition dec_ratio :: "nat \<Rightarrow> int \<Rightarrow> nat \<times> nat" where
  "dec_ratio m e = (if e \<ge> 0 then (m * 10 ^ nat e, 1) else (m, 10 ^ nat (- e)))"

definition dbl_inf :: nat where "dbl_inf = 2047 * 2 ^ 52"
definition flt_inf :: nat where "flt_inf = 255 * 2 ^ 23"

definition dbl_mag :: "nat \<times> nat \<Rightarrow> nat" where
  "dbl_mag q = fp_round 53 (- 1074) (fst q) (snd q)"

definition flt_mag :: "nat \<times> nat \<Rightarrow> nat" where
  "flt_mag q = fp_round 24 (- 149) (fst q) (snd q)"

text \<open>Extraction into a \<open>double\<close> and into a \<open>float\<close>: overflow, and underflow to zero, set
  \<open>failbit\<close> (the library of the platform reports both as range errors, and \<open>std::stod\<close> uses
  the same conversion, so that it cannot fail after a successful extraction).\<close>

definition stream_double :: "string \<Rightarrow> 64 word option" where
  "stream_double s = (case read_dec s of None \<Rightarrow> None
     | Some (neg, m, e) \<Rightarrow>
         let b = dbl_mag (dec_ratio m e) in
         if b \<ge> dbl_inf \<or> b = 0 \<and> m \<noteq> 0 then None else Some (of_nat (b + (if neg then 2 ^ 63 else 0))))"

definition stream_float_ok :: "string \<Rightarrow> bool" where
  "stream_float_ok s = (case read_dec s of None \<Rightarrow> False
     | Some (neg, m, e) \<Rightarrow>
         let b = flt_mag (dec_ratio m e) in b < flt_inf \<and> \<not> (b = 0 \<and> m \<noteq> 0))"

text \<open>\<open>static_cast<double>\<close> of an integer, and \<open>==\<close> on doubles.\<close>

definition dbl_of_int :: "int \<Rightarrow> 64 word" where
  "dbl_of_int i = of_nat (dbl_mag (nat \<bar>i\<bar>, 1) + (if i < 0 then 2 ^ 63 else 0))"

definition dbl_nan :: "64 word \<Rightarrow> bool" where
  "dbl_nan a = (unat a mod 2 ^ 63 > dbl_inf)"

definition dbl_zero :: "64 word \<Rightarrow> bool" where
  "dbl_zero a = (unat a mod 2 ^ 63 = 0)"

definition dbl_eq :: "64 word \<Rightarrow> 64 word \<Rightarrow> bool" where
  "dbl_eq a b = (\<not> dbl_nan a \<and> \<not> dbl_nan b \<and> (a = b \<or> dbl_zero a \<and> dbl_zero b))"

text \<open>\<open>static_cast<int64_t>\<close> of a double: truncation towards zero.\<close>

definition dbl_trunc :: "64 word \<Rightarrow> int" where
  "dbl_trunc a = (case fp_ratio 53 (- 1074) (unat a mod 2 ^ 63) of (n, d) \<Rightarrow>
     if unat a \<ge> 2 ^ 63 then - int (n div d) else int (n div d))"

lemma dbl_eq_sym: "dbl_eq a b = dbl_eq b a"
  by (auto simp: dbl_eq_def)

text \<open>Output of a \<open>float\<close> by \<open>operator<<\<close>: six significant digits, no trailing zeros,
  exponent form when the decimal exponent is below -4 or above 5.\<close>

definition dec_exp :: "nat \<Rightarrow> nat \<Rightarrow> int" where
  "dec_exp n d =
     (let k = int (length (nat_str n)) - int (length (nat_str d))
      in if (if k \<ge> 0 then d * 10 ^ nat k \<le> n else d \<le> n * 10 ^ nat (- k)) then k else k - 1)"

definition strip_zeros :: "string \<Rightarrow> string" where
  "strip_zeros s = rev (dropWhile (\<lambda>c. c = CHR ''0'') (rev s))"

definition with_frac :: "string \<Rightarrow> string \<Rightarrow> string" where
  "with_frac ip fp = (if fp = [] then ip else ip @ CHR ''.'' # fp)"

definition pad2 :: "string \<Rightarrow> string" where
  "pad2 s = (if length s < 2 then CHR ''0'' # s else s)"

definition fmt_g6 :: "nat \<Rightarrow> nat \<Rightarrow> string" where
  "fmt_g6 n d =
     (if n = 0 then ''0''
      else let x0 = dec_exp n d;
               (a, b) = (if 5 - x0 \<ge> 0 then (n * 10 ^ nat (5 - x0), d) else (n, d * 10 ^ nat (x0 - 5)));
               q0 = round_half_even a b;
               (q, x) = (if q0 = 10 ^ 6 then (10 ^ 5, x0 + 1) else (q0, x0));
               ds = nat_str q
           in if x < - 4 \<or> x \<ge> 6
              then with_frac (take 1 ds) (strip_zeros (drop 1 ds)) @
                   (if x < 0 then ''e-'' else ''e+'') @ pad2 (nat_str (nat \<bar>x\<bar>))
              else if x \<ge> 0
              then with_frac (take (nat (x + 1)) ds) (strip_zeros (drop (nat (x + 1)) ds))
              else ''0.'' @ replicate (nat (- x - 1)) (CHR ''0'') @ strip_zeros ds)"

text \<open>\<open>config << value.get<float>()\<close>: the double narrowed to a float and printed.\<close>

definition ostream_float :: "64 word \<Rightarrow> string" where
  "ostream_float a =
     (let neg = (unat a \<ge> 2 ^ 63); m = unat a mod 2 ^ 63;
          f = (if m \<ge> dbl_inf then flt_inf else flt_mag (fp_ratio 53 (- 1074) m));
          body = (if m > dbl_inf then ''nan'' else if f \<ge> flt_inf then ''inf''
                  else case fp_ratio 24 (- 149) f of (n, d) \<Rightarrow> fmt_g6 n d)
      in if neg then CHR ''-'' # body else body)"

end
