(* ===== verification/Json.thy ===== *)
theory Json
  imports CxxNum
begin

text \<open>
  JSON values as \<open>nlohmann::json\<close> (\<open>mssdk/json/json.hpp\<close>, version 3.11.2) holds and
  accesses them. The three number kinds are kept apart, as the validators tell them
  apart: \<open>number_integer\<close> (a signed 64-bit word), \<open>number_unsigned\<close> (an unsigned one) and
  \<open>number_float\<close> (the bits of a double). An object is a list of pairs in ascending key
  order, as \<open>std::map\<close> keeps them. An access of the library that throws is an \<open>Inl\<close>
  with the exception's number, and one whose behaviour is undefined is
  \<open>Inl (Undefined _)\<close>.
\<close>

datatype json =
    JNull
  | JBool bool
  | JInt "64 word"
  | JUint "64 word"
  | JFloat "64 word"
  | JString string
  | JArray "json list"
  | JObject "(string \<times> json) list"

type_synonym object = "(string \<times> json) list"

abbreviation jarray_empty :: json where "jarray_empty \<equiv> JArray []"
abbreviation jobject_empty :: json where "jobject_empty \<equiv> JObject []"

section \<open>Kinds\<close>

fun is_object :: "json \<Rightarrow> bool" where
  "is_object (JObject o') = True" | "is_object _ = False"

fun is_array :: "json \<Rightarrow> bool" where
  "is_array (JArray xs) = True" | "is_array _ = False"

fun is_string :: "json \<Rightarrow> bool" where
  "is_string (JString s) = True" | "is_string _ = False"

fun is_boolean :: "json \<Rightarrow> bool" where
  "is_boolean (JBool b) = True" | "is_boolean _ = False"

fun is_number_integer :: "json \<Rightarrow> bool" where
  "is_number_integer (JInt w) = True"
| "is_number_integer (JUint w) = True"
| "is_number_integer _ = False"

fun is_number_unsigned :: "json \<Rightarrow> bool" where
  "is_number_unsigned (JUint w) = True" | "is_number_unsigned _ = False"

fun is_number_float :: "json \<Rightarrow> bool" where
  "is_number_float (JFloat w) = True" | "is_number_float _ = False"

definition is_number :: "json \<Rightarrow> bool" where
  "is_number j = (is_number_integer j \<or> is_number_float j)"

fun is_null :: "json \<Rightarrow> bool" where
  "is_null JNull = True" | "is_null _ = False"

lemma is_object_iff: "is_object j \<longleftrightarrow> (\<exists>m. j = JObject m)" by (cases j) auto
lemma is_array_iff: "is_array j \<longleftrightarrow> (\<exists>xs. j = JArray xs)" by (cases j) auto
lemma is_string_iff: "is_string j \<longleftrightarrow> (\<exists>s. j = JString s)" by (cases j) auto
lemma is_boolean_iff: "is_boolean j \<longleftrightarrow> (\<exists>b. j = JBool b)" by (cases j) auto

lemmas kind_iffs = is_object_iff is_array_iff is_string_iff is_boolean_iff

section \<open>Comparison\<close>

text \<open>\<open>operator==\<close>: numbers compare across their kinds.\<close>

definition num_eq :: "json \<Rightarrow> json \<Rightarrow> bool" where
  "num_eq x y = (case x of
     JInt a \<Rightarrow> (case y of JInt b \<Rightarrow> a = b | JUint b \<Rightarrow> a = b
                | JFloat b \<Rightarrow> dbl_eq (dbl_of_int (sint a)) b | _ \<Rightarrow> False)
   | JUint a \<Rightarrow> (case y of JInt b \<Rightarrow> a = b | JUint b \<Rightarrow> a = b
                | JFloat b \<Rightarrow> dbl_eq (dbl_of_int (uint a)) b | _ \<Rightarrow> False)
   | JFloat a \<Rightarrow> (case y of JInt b \<Rightarrow> dbl_eq a (dbl_of_int (sint b))
                | JUint b \<Rightarrow> dbl_eq a (dbl_of_int (uint b)) | JFloat b \<Rightarrow> dbl_eq a b | _ \<Rightarrow> False)
   | _ \<Rightarrow> False)"

fun json_eq :: "json \<Rightarrow> json \<Rightarrow> bool"
  and json_eqs :: "json list \<Rightarrow> json list \<Rightarrow> bool"
  and json_eqo :: "(string \<times> json) list \<Rightarrow> (string \<times> json) list \<Rightarrow> bool" where
  "json_eq (JArray xs) j = (case j of JArray ys \<Rightarrow> json_eqs xs ys | _ \<Rightarrow> False)"
| "json_eq (JObject xs) j = (case j of JObject ys \<Rightarrow> json_eqo xs ys | _ \<Rightarrow> False)"
| "json_eq JNull j = (j = JNull)"
| "json_eq (JString s) j = (j = JString s)"
| "json_eq (JBool a) j = (j = JBool a)"
| "json_eq (JInt a) j = num_eq (JInt a) j"
| "json_eq (JUint a) j = num_eq (JUint a) j"
| "json_eq (JFloat a) j = num_eq (JFloat a) j"
| "json_eqs [] ys = (ys = [])"
| "json_eqs (x # xs) ys = (case ys of [] \<Rightarrow> False | y # ys' \<Rightarrow> json_eq x y \<and> json_eqs xs ys')"
| "json_eqo [] ys = (ys = [])"
| "json_eqo (p # xs) ys = (case ys of [] \<Rightarrow> False
     | q # ys' \<Rightarrow> fst p = fst q \<and> json_eq (snd p) (snd q) \<and> json_eqo xs ys')"

lemma num_eq_sym: "num_eq a b = num_eq b a"
  by (auto simp: num_eq_def dbl_eq_sym split: json.split)

lemma num_eq_num: "num_eq a b \<Longrightarrow> is_number a \<and> is_number b"
  by (cases a; cases b) (auto simp: num_eq_def is_number_def)

lemma json_eq_string [simp]: "json_eq j (JString s) \<longleftrightarrow> j = JString s"
  by (cases j) (auto simp: num_eq_def)

lemma json_eq_null [simp]: "json_eq j JNull \<longleftrightarrow> j = JNull"
  by (cases j) (auto simp: num_eq_def)

lemma json_eq_int_refl: "is_number_integer j \<Longrightarrow> json_eq j j"
  by (cases j) (auto simp: num_eq_def)

text \<open>Integers are equal when their 64 bits are, whatever their kinds.\<close>

fun int_bits :: "json \<Rightarrow> 64 word option" where
  "int_bits (JInt w) = Some w"
| "int_bits (JUint w) = Some w"
| "int_bits _ = None"

lemma json_eq_ints:
  "is_number_integer a \<Longrightarrow> is_number_integer b \<Longrightarrow> json_eq a b \<longleftrightarrow> int_bits a = int_bits b"
  by (cases a; cases b) (auto simp: num_eq_def)

section \<open>Access\<close>

text \<open>\<open>find\<close> and \<open>contains\<close>: nothing is found in a value that is not an object.\<close>

definition jfind :: "json \<Rightarrow> string \<Rightarrow> json option" where
  "jfind j k = (case j of JObject m \<Rightarrow> map_of m k | _ \<Rightarrow> None)"

definition contains :: "json \<Rightarrow> string \<Rightarrow> bool" where
  "contains j k = (jfind j k \<noteq> None)"

text \<open>\<open>operator[](key) const\<close>: asserts that the key is present.\<close>

definition jidx :: "json \<Rightarrow> string \<Rightarrow> json res" where
  "jidx j k = (case j of
     JObject m \<Rightarrow> (case map_of m k of None \<Rightarrow> Inl (Undefined k) | Some v \<Rightarrow> Inr v)
   | _ \<Rightarrow> Inl (JsonTypeError 305))"

text \<open>\<open>operator[](key)\<close> on a value that can be modified: a null becomes an object and a
  missing key is inserted with the value null. \<open>jref\<close> gives the value and the object
  after it; \<open>jset\<close> is the assignment \<open>j[k] = v\<close>.\<close>

definition jset :: "json \<Rightarrow> string \<Rightarrow> json \<Rightarrow> json res" where
  "jset j k v = (case j of
     JObject m \<Rightarrow> Inr (JObject (aset k v m))
   | JNull \<Rightarrow> Inr (JObject [(k, v)])
   | _ \<Rightarrow> Inl (JsonTypeError 305))"

definition jref :: "json \<Rightarrow> string \<Rightarrow> (json \<times> json) res" where
  "jref j k = (case jfind j k of
     Some v \<Rightarrow> Inr (v, j)
   | None \<Rightarrow> bindE (jset j k JNull) (\<lambda>j'. Inr (JNull, j')))"

text \<open>\<open>at(key)\<close>\<close>

definition jat :: "json \<Rightarrow> string \<Rightarrow> json res" where
  "jat j k = (case j of
     JObject m \<Rightarrow> (case map_of m k of None \<Rightarrow> Inl (JsonOutOfRange 403) | Some v \<Rightarrow> Inr v)
   | _ \<Rightarrow> Inl (JsonTypeError 304))"

text \<open>\<open>erase(key)\<close>\<close>

definition jerase :: "json \<Rightarrow> string \<Rightarrow> json res" where
  "jerase j k = (case j of JObject m \<Rightarrow> Inr (JObject (adel k m)) | _ \<Rightarrow> Inl (JsonTypeError 307))"

text \<open>\<open>push_back\<close>\<close>

definition jpush :: "json \<Rightarrow> json \<Rightarrow> json res" where
  "jpush j v = (case j of JArray xs \<Rightarrow> Inr (JArray (xs @ [v])) | JNull \<Rightarrow> Inr (JArray [v])
     | _ \<Rightarrow> Inl (JsonTypeError 308))"

text \<open>\<open>operator[](index) const\<close>; \<open>jnth_ref\<close> is the one that can modify: it fills the
  array with nulls up to the index.\<close>

definition jnth :: "json \<Rightarrow> nat \<Rightarrow> json res" where
  "jnth j i = (case j of
     JArray xs \<Rightarrow> if i < length xs then Inr (xs ! i) else Inl (Undefined ''index'')
   | _ \<Rightarrow> Inl (JsonTypeError 305))"

definition jnth_ref :: "json \<Rightarrow> nat \<Rightarrow> (json \<times> json) res" where
  "jnth_ref j i = (case j of
     JArray xs \<Rightarrow>
       let ys = (if i < length xs then xs else xs @ replicate (i + 1 - length xs) JNull)
       in Inr (ys ! i, JArray ys)
   | JNull \<Rightarrow> let ys = replicate (i + 1) JNull in Inr (ys ! i, JArray ys)
   | _ \<Rightarrow> Inl (JsonTypeError 305))"

text \<open>The assignment \<open>j[i] = v\<close>.\<close>

definition jnth_set :: "json \<Rightarrow> nat \<Rightarrow> json \<Rightarrow> json res" where
  "jnth_set j i v = bindE (jnth_ref j i) (\<lambda>(_, j'). case j' of
     JArray ys \<Rightarrow> Inr (JArray (ys[i := v])) | _ \<Rightarrow> Inr j')"

text \<open>The elements a range \<open>for\<close> visits, \<open>size()\<close> and \<open>empty()\<close>.\<close>

definition jelems :: "json \<Rightarrow> json list" where
  "jelems j = (case j of JArray xs \<Rightarrow> xs | JObject m \<Rightarrow> map snd m | JNull \<Rightarrow> [] | _ \<Rightarrow> [j])"

definition jsize :: "json \<Rightarrow> nat" where
  "jsize j = length (jelems j)"

text \<open>A default for a key that is missing.\<close>

definition jdefault :: "string \<Rightarrow> json \<Rightarrow> json \<Rightarrow> json res" where
  "jdefault k v j = (if jfind j k = None then jset j k v else Inr j)"

text \<open>\<open>for (auto& x : j)\<close> with a body that can change \<open>x\<close>: the elements of an array, the
  values of an object, nothing for null, the value itself otherwise.\<close>

definition jmapE :: "(json \<Rightarrow> json res) \<Rightarrow> json \<Rightarrow> json res" where
  "jmapE f j = (case j of
     JArray xs \<Rightarrow> bindE (mapE f xs) (\<lambda>ys. Inr (JArray ys))
   | JObject m \<Rightarrow> bindE (mapE f (map snd m)) (\<lambda>vs. Inr (JObject (zip (map fst m) vs)))
   | JNull \<Rightarrow> Inr JNull
   | _ \<Rightarrow> f j)"

text \<open>An initializer list of pairs: the object they make.\<close>

definition jobj :: "(string \<times> json) list \<Rightarrow> json" where
  "jobj ps = JObject (fold (\<lambda>(k, v). aset k v) ps [])"

text \<open>\<open>get<std::string>\<close>, \<open>get<bool>\<close>, \<open>get<T>\<close> for an unsigned type \<open>T\<close>, for \<open>int\<close> and
  for \<open>int64_t\<close>. Numbers are converted with \<open>static_cast\<close>.\<close>

definition get_string :: "json \<Rightarrow> string res" where
  "get_string j = (case j of JString s \<Rightarrow> Inr s | _ \<Rightarrow> Inl (JsonTypeError 302))"

definition get_bool :: "json \<Rightarrow> bool res" where
  "get_bool j = (case j of JBool b \<Rightarrow> Inr b | _ \<Rightarrow> Inl (JsonTypeError 302))"

definition get_uint :: "json \<Rightarrow> ('a :: len) word res" where
  "get_uint j = (case j of
     JUint w \<Rightarrow> Inr (ucast w)
   | JInt w \<Rightarrow> Inr (ucast w)
   | JFloat d \<Rightarrow> (let i = dbl_trunc d in
       if 0 \<le> i \<and> i < 2 ^ LENGTH('a) then Inr (of_int i) else Inl (Undefined ''static_cast''))
   | JBool b \<Rightarrow> Inr (if b then 1 else 0)
   | _ \<Rightarrow> Inl (JsonTypeError 302))"

definition get_int32 :: "json \<Rightarrow> 32 word res" where
  "get_int32 j = (case j of
     JUint w \<Rightarrow> Inr (ucast w)
   | JInt w \<Rightarrow> Inr (ucast w)
   | JFloat d \<Rightarrow> (let i = dbl_trunc d in
       if - (2 ^ 31) \<le> i \<and> i < 2 ^ 31 then Inr (of_int i) else Inl (Undefined ''static_cast''))
   | JBool b \<Rightarrow> Inr (if b then 1 else 0)
   | _ \<Rightarrow> Inl (JsonTypeError 302))"

definition get_int64 :: "json \<Rightarrow> 64 word res" where
  "get_int64 j = (case j of
     JUint w \<Rightarrow> Inr w
   | JInt w \<Rightarrow> Inr w
   | JFloat d \<Rightarrow> (let i = dbl_trunc d in
       if - (2 ^ 63) \<le> i \<and> i < 2 ^ 63 then Inr (of_int i) else Inl (Undefined ''static_cast''))
   | _ \<Rightarrow> Inl (JsonTypeError 302))"

section \<open>Lemmas on access\<close>

named_theorems json_simps \<open>evaluation of JSON accesses on constructors\<close>

lemma jfind_JObject [simp]: "jfind (JObject m) k = map_of m k"
  by (simp add: jfind_def)

lemma jfind_non_object [simp]: "\<not> is_object j \<Longrightarrow> jfind j k = None"
  by (cases j) (auto simp: jfind_def)

lemma jset_JObject [simp]: "jset (JObject m) k v = Inr (JObject (aset k v m))"
  by (simp add: jset_def)

lemma jerase_JObject [simp]: "jerase (JObject m) k = Inr (JObject (adel k m))"
  by (simp add: jerase_def)

lemma jpush_JArray [simp]: "jpush (JArray xs) v = Inr (JArray (xs @ [v]))"
  by (simp add: jpush_def)

lemma jelems_JArray [simp]: "jelems (JArray xs) = xs"
  by (simp add: jelems_def)

lemma get_string_JString [simp]: "get_string (JString s) = Inr s"
  by (simp add: get_string_def)

lemma get_string_Inr [res_simps]: "get_string j = Inr s \<longleftrightarrow> j = JString s"
  by (cases j) (auto simp: get_string_def)

lemma get_bool_JBool [simp]: "get_bool (JBool b) = Inr b"
  by (simp add: get_bool_def)

lemma get_uint_simps [simp]:
  "get_uint (JUint w) = Inr (ucast w)" "get_uint (JInt w) = Inr (ucast w)"
  by (simp_all add: get_uint_def)

lemma jidx_JObject: "jidx (JObject m) k = (case map_of m k of None \<Rightarrow> Inl (Undefined k) | Some v \<Rightarrow> Inr v)"
  by (simp add: jidx_def)

lemma jidx_Some [simp]: "map_of m k = Some v \<Longrightarrow> jidx (JObject m) k = Inr v"
  by (simp add: jidx_def)

lemma jidx_Inr_iff [res_simps]: "jidx j k = Inr v \<longleftrightarrow> jfind j k = Some v"
  by (cases j) (auto simp: jidx_def split: option.splits)

lemma jset_Inr_find: "jset j k v = Inr j' \<Longrightarrow> jfind j' l = (if l = k then Some v else jfind j l)"
  by (cases j) (auto simp: jset_def jfind_def map_simps)

lemma jerase_Inr_find: "jerase j k = Inr j' \<Longrightarrow> jfind j' l = (if l = k then None else jfind j l)"
  by (cases j) (auto simp: jerase_def jfind_def map_simps)

lemma jref_Some [simp]: "jfind j k = Some v \<Longrightarrow> jref j k = Inr (v, j)"
  by (simp add: jref_def)

lemma jfind_Some_object: "jfind j k = Some v \<Longrightarrow> is_object j"
  by (cases j) (auto simp: jfind_def)

lemma map_of_jobj: "jfind (jobj ps) k = map_of (rev ps) k"
proof -
  have "map_of (fold (\<lambda>(k, v). aset k v) ps m) k = (map_of m ++ map_of (rev ps)) k" for m
  proof (induction ps arbitrary: m)
    case (Cons p ps)
    then show ?case by (cases p) (auto simp: map_simps map_add_def split: option.splits)
  qed simp
  then show ?thesis by (simp add: jobj_def)
qed

section \<open>Canonical values\<close>

text \<open>Every object, at any depth, has its keys in strictly ascending order. All values the
  library builds are of this kind.\<close>

primrec jwf :: "json \<Rightarrow> bool" where
  "jwf JNull = True"
| "jwf (JBool b) = True"
| "jwf (JInt w) = True"
| "jwf (JUint w) = True"
| "jwf (JFloat w) = True"
| "jwf (JString s) = True"
| "jwf (JArray xs) = list_all id (map jwf xs)"
| "jwf (JObject m) = (ordered m \<and> list_all snd (map (map_prod id jwf) m))"

lemma jwf_JArray [simp]: "jwf (JArray xs) \<longleftrightarrow> (\<forall>x \<in> set xs. jwf x)"
  by (simp add: list_all_iff)

lemma jwf_JObject: "jwf (JObject m) \<longleftrightarrow> ordered m \<and> (\<forall>p \<in> set m. jwf (snd p))"
  by (auto simp: list_all_iff)

declare jwf.simps(7,8) [simp del]

lemma jwf_empty [simp]: "jwf (JObject [])" "jwf (JArray [])"
  by (simp_all add: jwf_JObject)

lemma jwf_JObject_find: "jwf (JObject m) \<Longrightarrow> map_of m k = Some v \<Longrightarrow> jwf v"
  by (force simp: jwf_JObject dest: map_of_SomeD)

lemma jwf_jfind: "jwf j \<Longrightarrow> jfind j k = Some v \<Longrightarrow> jwf v"
  by (cases j) (auto simp: jfind_def intro: jwf_JObject_find)

lemma jwf_aset: "jwf (JObject m) \<Longrightarrow> jwf v \<Longrightarrow> jwf (JObject (aset k v m))"
  using set_aset_subset [of k v m] by (auto simp: jwf_JObject)

lemma jwf_adel: "jwf (JObject m) \<Longrightarrow> jwf (JObject (adel k m))"
  by (auto simp: jwf_JObject adel_def intro: ordered_adel [unfolded adel_def])

lemma jwf_jset: "jwf j \<Longrightarrow> jwf v \<Longrightarrow> jset j k v = Inr j' \<Longrightarrow> jwf j'"
  by (cases j) (auto simp: jset_def intro: jwf_aset simp: jwf_JObject [of "[_]"])

lemma jwf_jerase: "jwf j \<Longrightarrow> jerase j k = Inr j' \<Longrightarrow> jwf j'"
  by (cases j) (auto simp: jerase_def intro: jwf_adel)

lemma jwf_jobj:
  assumes "\<forall>p \<in> set ps. jwf (snd p)"
  shows "jwf (jobj ps)"
proof -
  have "jwf (JObject m) \<Longrightarrow> jwf (JObject (fold (\<lambda>(k, v). aset k v) ps m))" for m
    using assms
  proof (induction ps arbitrary: m)
    case (Cons p ps)
    then show ?case by (cases p) (simp add: jwf_aset)
  qed simp
  from this [of "[]"] show ?thesis by (simp add: jobj_def jwf_JObject)
qed

lemma jset_id:
  "jwf j \<Longrightarrow> jfind j k = Some v \<Longrightarrow> jset j k v = Inr j"
  by (cases j) (auto simp: jset_def jfind_def jwf_JObject aset_id)

lemma jerase_id: "is_object j \<Longrightarrow> jfind j k = None \<Longrightarrow> jerase j k = Inr j"
  by (cases j) (auto simp: jerase_def jfind_def adel_id)

end
