(* ===== verification/Regex.thy ===== *)
theory Regex
  imports Prelude
begin

text \<open>
  \<open>std::regex\<close> with the ECMAScript grammar, as far as the repository's patterns use it:
  a compiler from pattern text to a syntax tree, and a backtracking matcher that
  tries alternatives from left to right and repetitions greedily, with capture groups.
  \<open>^\<close> and \<open>$\<close> match at the ends of the target only. A matcher call returns all its
  matches in the order in which backtracking would try them, so the first element is
  the match that the library reports.
\<close>

named_theorems compiled \<open>the expressions that the patterns of the repository compile to\<close>

section \<open>Syntax\<close>

datatype citem = CChar char | CRange char char | CDigit | CWord | CSpace | CNotSpace

datatype re =
    Empty
  | Lit char
  | AnyChar
  | Class bool "citem list"
  | Bol
  | Eol
  | Seq re re
  | Alt re re
  | Group nat re
  | Quant nat "nat option" re

definition is_word :: "char \<Rightarrow> bool" where
  "is_word c = (is_digit c \<or> (CHR ''a'' \<le> c \<and> c \<le> CHR ''z'') \<or> (CHR ''A'' \<le> c \<and> c \<le> CHR ''Z'')
     \<or> c = CHR ''_'')"

fun in_item :: "char \<Rightarrow> citem \<Rightarrow> bool" where
  "in_item c (CChar d) = (c = d)"
| "in_item c (CRange a b) = (a \<le> c \<and> c \<le> b)"
| "in_item c CDigit = is_digit c"
| "in_item c CWord = is_word c"
| "in_item c CSpace = is_space c"
| "in_item c CNotSpace = (\<not> is_space c)"

definition in_class :: "bool \<Rightarrow> citem list \<Rightarrow> char \<Rightarrow> bool" where
  "in_class neg items c = (list_ex (in_item c) items \<noteq> neg)"

text \<open>Characters compare after folding the case when the flag \<open>icase\<close> is given.\<close>

definition char_eq :: "bool \<Rightarrow> char \<Rightarrow> char \<Rightarrow> bool" where
  "char_eq ic a b = (if ic then to_lower a = to_lower b else a = b)"

definition is_eol :: "char \<Rightarrow> bool" where
  "is_eol c = (c = CHR 0x0A \<or> c = CHR 0x0D)"

section \<open>Matching\<close>

text \<open>The state of a match: what is left of the target, and the captures so far, the
  latest first.\<close>

type_synonym mstate = "string \<times> (nat \<times> string) list"

text \<open>
  \<open>rep f lo hi fuel\<close> is greedy repetition: \<open>lo\<close> obligatory rounds, then up to \<open>hi\<close>
  further ones. A further round that consumes nothing is rejected, as ECMAScript asks,
  so the length of the rest bounds the number of further rounds (\<open>rep_fuel\<close> below).
\<close>

fun rep :: "(mstate \<Rightarrow> mstate list) \<Rightarrow> nat \<Rightarrow> nat option \<Rightarrow> nat \<Rightarrow> mstate \<Rightarrow> mstate list" where
  "rep f (Suc lo) hi fuel st = concat (map (rep f lo hi fuel) (f st))"
| "rep f 0 (Some 0) fuel st = [st]"
| "rep f 0 hi 0 st = [st]"
| "rep f 0 hi (Suc fuel) st =
     concat (map (rep f 0 (map_option (\<lambda>n. n - 1) hi) fuel)
       (filter (\<lambda>st'. length (fst st') < length (fst st)) (f st))) @ [st]"

text \<open>\<open>run ic L r st\<close>: all matches of \<open>r\<close> from \<open>st\<close> in a target of length \<open>L\<close>.\<close>

primrec run :: "bool \<Rightarrow> nat \<Rightarrow> re \<Rightarrow> mstate \<Rightarrow> mstate list" where
  "run ic L Empty = (\<lambda>st. [st])"
| "run ic L (Lit c) = (\<lambda>st. case fst st of [] \<Rightarrow> [] | x # xs \<Rightarrow> if char_eq ic x c then [(xs, snd st)] else [])"
| "run ic L AnyChar = (\<lambda>st. case fst st of [] \<Rightarrow> [] | x # xs \<Rightarrow> if is_eol x then [] else [(xs, snd st)])"
| "run ic L (Class neg its) = (\<lambda>st. case fst st of [] \<Rightarrow> []
     | x # xs \<Rightarrow> if in_class neg its x then [(xs, snd st)] else [])"
| "run ic L Bol = (\<lambda>st. if length (fst st) = L then [st] else [])"
| "run ic L Eol = (\<lambda>st. if fst st = [] then [st] else [])"
| "run ic L (Seq a b) = (\<lambda>st. concat (map (run ic L b) (run ic L a st)))"
| "run ic L (Alt a b) = (\<lambda>st. run ic L a st @ run ic L b st)"
| "run ic L (Group k r) = (\<lambda>st. map (\<lambda>st'. (fst st',
     (k, take (length (fst st) - length (fst st')) (fst st)) # snd st')) (run ic L r st))"
| "run ic L (Quant lo hi r) = (\<lambda>st. rep (run ic L r) lo (map_option (\<lambda>h. h - lo) hi) (length (fst st)) st)"

record pattern =
  pat_re :: re
  pat_icase :: bool

text \<open>
  \<open>std::regex_search\<close>: the leftmost start position with a match. The result holds the
  text before the match (\<open>prefix()\<close>), group 0 and the captures, and the text after it.
\<close>

record match_result =
  m_prefix :: string
  m_groups :: "(nat \<times> string) list"
  m_suffix :: string

fun search_from :: "pattern \<Rightarrow> nat \<Rightarrow> string \<Rightarrow> string \<Rightarrow> match_result option" where
  "search_from p L pre s =
     (case run (pat_icase p) L (pat_re p) (s, []) of
        st # _ \<Rightarrow> Some \<lparr> m_prefix = rev pre,
            m_groups = (0, take (length s - length (fst st)) s) # snd st, m_suffix = fst st \<rparr>
      | [] \<Rightarrow> (case s of [] \<Rightarrow> None | c # cs \<Rightarrow> search_from p L (c # pre) cs))"

declare search_from.simps [simp del]

definition regex_search :: "pattern \<Rightarrow> string \<Rightarrow> match_result option" where
  "regex_search p s = search_from p (length s) [] s"

text \<open>\<open>std::regex_match\<close>: the first match, in backtracking order, that spans the target.\<close>

definition regex_match :: "pattern \<Rightarrow> string \<Rightarrow> match_result option" where
  "regex_match p s =
     (case filter (\<lambda>st. fst st = []) (run (pat_icase p) (length s) (pat_re p) (s, [])) of
        [] \<Rightarrow> None
      | st # _ \<Rightarrow> Some \<lparr> m_prefix = [], m_groups = (0, s) # snd st, m_suffix = [] \<rparr>)"

text \<open>\<open>match[k].str()\<close>: the empty string for a group that took no part in the match.\<close>

definition mgroup :: "match_result \<Rightarrow> nat \<Rightarrow> string" where
  "mgroup m k = (case map_of (m_groups m) k of Some s \<Rightarrow> s | None \<Rightarrow> [])"

text \<open>
  The successive matches of \<open>std::sregex_iterator\<close>, each with its prefix since the one
  before, and what is left after the last. The patterns it is used with never match the
  empty string; an empty match ends the iteration here. \<open>^\<close> holds at the start of the
  whole target only, so \<open>L\<close> is the length of the whole target throughout.
\<close>

function iter_from :: "pattern \<Rightarrow> nat \<Rightarrow> string \<Rightarrow> match_result list \<times> string" where
  "iter_from p L s =
     (case search_from p L [] s of
        None \<Rightarrow> ([], s)
      | Some m \<Rightarrow> if length (m_suffix m) < length s
                  then (case iter_from p L (m_suffix m) of (ms, r) \<Rightarrow> (m # ms, r))
                  else ([m], m_suffix m))"
  by pat_completeness auto
termination by (relation "measure (\<lambda>(p, L, s). length s)") auto

declare iter_from.simps [simp del]

definition regex_iter :: "pattern \<Rightarrow> string \<Rightarrow> match_result list \<times> string" where
  "regex_iter p s = iter_from p (length s) s"

text \<open>\<open>std::regex_replace(s, p, "")\<close>\<close>

definition regex_remove :: "pattern \<Rightarrow> string \<Rightarrow> string" where
  "regex_remove p s = (case regex_iter p s of (ms, r) \<Rightarrow> concat (map m_prefix ms) @ r)"

section \<open>Compiling a pattern\<close>

text \<open>
  Recursive descent over the pattern text. Groups are numbered by their opening
  parenthesis; the counter \<open>n\<close> is the number of the next group. \<open>None\<close> is a syntax
  error, for which \<open>std::regex\<close> throws. The fuel bounds the nesting of calls; the length
  of the pattern times a small constant is enough for every pattern of the repository
  (theory \<open>GrammarRe\<close> compiles each of them).
\<close>

definition bslash :: char where "bslash = CHR 0x5C"

definition esc_item :: "char \<Rightarrow> citem option" where
  "esc_item c = (if c = CHR ''d'' then Some CDigit else if c = CHR ''w'' then Some CWord
     else if c = CHR ''s'' then Some CSpace else if c = CHR ''S'' then Some CNotSpace
     else if c = CHR ''t'' then Some (CChar (CHR 0x09))
     else if is_word c then None else Some (CChar c))"

text \<open>The items of a bracket expression up to the closing bracket.\<close>

fun p_item :: "string \<Rightarrow> (citem \<times> string) option" where
  "p_item [] = None"
| "p_item (c # cs) =
     (if c = bslash then (case cs of [] \<Rightarrow> None | d # ds \<Rightarrow> map_option (\<lambda>i. (i, ds)) (esc_item d))
      else Some (CChar c, cs))"

fun p_class :: "nat \<Rightarrow> string \<Rightarrow> (citem list \<times> string) option" where
  "p_class 0 s = None"
| "p_class (Suc fuel) s =
     (case s of
        [] \<Rightarrow> None
      | c # cs \<Rightarrow>
          if c = CHR '']'' then Some ([], cs)
          else (case p_item s of
             None \<Rightarrow> None
           | Some (i, r) \<Rightarrow>
               (case (i, r) of
                  (CChar a, d # e # r') \<Rightarrow>
                    if d = CHR ''-'' \<and> e \<noteq> CHR '']''
                    then (case p_item (e # r') of
                            Some (CChar b, r'') \<Rightarrow>
                              map_option (\<lambda>(is, t). (CRange a b # is, t)) (p_class fuel r'')
                          | _ \<Rightarrow> None)
                    else map_option (\<lambda>(is, t). (i # is, t)) (p_class fuel r)
                | _ \<Rightarrow> map_option (\<lambda>(is, t). (i # is, t)) (p_class fuel r))))"

definition esc_re :: "char \<Rightarrow> re option" where
  "esc_re c = map_option (\<lambda>i. case i of CChar d \<Rightarrow> Lit d | _ \<Rightarrow> Class False [i]) (esc_item c)"

definition small_nat :: "char \<Rightarrow> nat option" where
  "small_nat c = map_of [(CHR ''0'', 0), (CHR ''1'', 1), (CHR ''2'', 2), (CHR ''3'', 3)] c"

text \<open>A quantifier after an atom: \<open>*\<close>, \<open>+\<close>, \<open>?\<close>, or \<open>{m,n}\<close> with one-digit bounds.\<close>

fun p_quant :: "re \<Rightarrow> string \<Rightarrow> (re \<times> string) option" where
  "p_quant r [] = Some (r, [])"
| "p_quant r (c # cs) =
     (if c = CHR ''*'' then Some (Quant 0 None r, cs)
      else if c = CHR ''+'' then Some (Quant 1 None r, cs)
      else if c = CHR ''?'' then Some (Quant 0 (Some 1) r, cs)
      else if c = CHR ''{'' then
        (case cs of
           a # k # b # e # t \<Rightarrow>
             if k = CHR '','' \<and> e = CHR ''}''
             then (case (small_nat a, small_nat b) of
                     (Some lo, Some hi) \<Rightarrow> Some (Quant lo (Some hi) r, t) | _ \<Rightarrow> None)
             else None
         | _ \<Rightarrow> None)
      else Some (r, c # cs))"

fun p_alt :: "nat \<Rightarrow> nat \<Rightarrow> string \<Rightarrow> (re \<times> string \<times> nat) option"
  and p_seq :: "nat \<Rightarrow> nat \<Rightarrow> string \<Rightarrow> (re \<times> string \<times> nat) option"
  and p_atom :: "nat \<Rightarrow> nat \<Rightarrow> string \<Rightarrow> (re \<times> string \<times> nat) option" where
  "p_alt 0 n s = None"
| "p_alt (Suc fuel) n s =
     (case p_seq fuel n s of
        None \<Rightarrow> None
      | Some (a, r, n') \<Rightarrow>
          (case r of
             c # cs \<Rightarrow> if c = CHR ''|''
               then map_option (\<lambda>(b, t, n''). (Alt a b, t, n'')) (p_alt fuel n' cs)
               else Some (a, r, n')
           | [] \<Rightarrow> Some (a, r, n')))"
| "p_seq 0 n s = None"
| "p_seq (Suc fuel) n s =
     (case s of
        [] \<Rightarrow> Some (Empty, [], n)
      | c # cs \<Rightarrow>
          if c = CHR ''|'' \<or> c = CHR '')'' then Some (Empty, s, n)
          else (case p_atom fuel n s of
             None \<Rightarrow> None
           | Some (a, r, n') \<Rightarrow>
               (case p_quant a r of
                  None \<Rightarrow> None
                | Some (q, r') \<Rightarrow>
                    map_option (\<lambda>(b, t, n''). (if b = Empty then q else Seq q b, t, n''))
                      (p_seq fuel n' r'))))"
| "p_atom 0 n s = None"
| "p_atom (Suc fuel) n s =
     (case s of
        [] \<Rightarrow> None
      | c # cs \<Rightarrow>
          if c = CHR ''^'' then Some (Bol, cs, n)
          else if c = CHR ''$'' then Some (Eol, cs, n)
          else if c = CHR ''.'' then Some (AnyChar, cs, n)
          else if c = bslash then
            (case cs of [] \<Rightarrow> None | d # ds \<Rightarrow> map_option (\<lambda>r. (r, ds, n)) (esc_re d))
          else if c = CHR ''['' then
            (case cs of
               [] \<Rightarrow> None
             | d # ds \<Rightarrow>
                 if d = CHR ''^''
                 then map_option (\<lambda>(is, t). (Class True is, t, n)) (p_class (length ds) ds)
                 else map_option (\<lambda>(is, t). (Class False is, t, n)) (p_class (length cs) cs))
          else if c = CHR ''('' then
            (if take 2 cs = ''?:''
             then (case p_alt fuel n (drop 2 cs) of
                     Some (r, t, n') \<Rightarrow> (case t of
                         e # t' \<Rightarrow> if e = CHR '')'' then Some (r, t', n') else None | [] \<Rightarrow> None)
                   | None \<Rightarrow> None)
             else (case p_alt fuel (Suc n) cs of
                     Some (r, t, n') \<Rightarrow> (case t of
                         e # t' \<Rightarrow> if e = CHR '')'' then Some (Group n r, t', n') else None | [] \<Rightarrow> None)
                   | None \<Rightarrow> None))
          else if c \<in> set ''*+?{)|]}'' then None
          else Some (Lit c, cs, n))"

definition regex_of :: "string \<Rightarrow> re option" where
  "regex_of s = (case p_alt (2 * length s + 3) 1 s of
     Some (r, [], _) \<Rightarrow> Some r | _ \<Rightarrow> None)"

text \<open>
  A backslash cannot be written in a string literal of the logic, so the patterns are
  written with a grave accent in its place. None of them contains a grave accent.
\<close>

definition cxx :: "string \<Rightarrow> string" where
  "cxx s = map (\<lambda>c. if c = CHR 0x60 then bslash else c) s"

text \<open>A pattern that does not compile matches nothing; \<open>std::regex\<close> throws for it when
  the program starts. No pattern of the repository is of this kind.\<close>

definition mk_re :: "string \<Rightarrow> re" where
  "mk_re s = (case regex_of (cxx s) of Some r \<Rightarrow> r | None \<Rightarrow> Class False [])"

definition regex :: "string \<Rightarrow> pattern" where
  "regex s = \<lparr> pat_re = mk_re s, pat_icase = False \<rparr>"

definition regex_icase :: "string \<Rightarrow> pattern" where
  "regex_icase s = \<lparr> pat_re = mk_re s, pat_icase = True \<rparr>"

text \<open>\<open>std::basic_regex::mark_count\<close>\<close>

primrec groups :: "re \<Rightarrow> nat" where
  "groups Empty = 0" | "groups (Lit c) = 0" | "groups AnyChar = 0" | "groups (Class b is) = 0"
| "groups Bol = 0" | "groups Eol = 0"
| "groups (Seq a b) = groups a + groups b"
| "groups (Alt a b) = groups a + groups b"
| "groups (Group k r) = Suc (groups r)"
| "groups (Quant l h r) = groups r"

end
