(* ===== verification/GrammarRe.thy ===== *)
theory GrammarRe
  imports Regex
begin

text \<open>
  The patterns of \<open>mssdk/json/grammar.cpp\<close> and \<open>parser.cpp\<close> compiled, one lemma for
  each: the expression that the model of \<open>std::regex\<close> makes of the pattern text. The
  lemmas are in the collection \<open>compiled\<close>, so that the simplifier replaces a pattern of
  the grammar by its expression at once.
\<close>

lemma re_v_version [compiled]:
  "mk_re ''^(`d*)$'' =
   Seq (Bol) (Seq (Group 1 (Quant 0 None (Class False [CDigit]))) (Eol))"
  by code_simp

lemma re_o_origin [compiled]:
  "mk_re ''^(`S*) (`d*) (`d*) (`S*) IP(`d) (`S*)'' =
   Seq (Bol) (Seq (Group 1 (Quant 0 None (Class False [CNotSpace]))) (Seq (Lit (CHR '' ''))
   (Seq (Group 2 (Quant 0 None (Class False [CDigit]))) (Seq (Lit (CHR '' '')) (Seq (Group 3
   (Quant 0 None (Class False [CDigit]))) (Seq (Lit (CHR '' '')) (Seq (Group 4 (Quant 0 None
   (Class False [CNotSpace]))) (Seq (Lit (CHR '' '')) (Seq (Lit (CHR ''I'')) (Seq (Lit (CHR
   ''P'')) (Seq (Group 5 (Class False [CDigit])) (Seq (Lit (CHR '' '')) (Group 6 (Quant 0
   None (Class False [CNotSpace])))))))))))))))"
  by code_simp

lemma re_all [compiled]:
  "mk_re ''(.*)'' =
   Group 1 (Quant 0 None (AnyChar))"
  by code_simp

lemma re_t_timing [compiled]:
  "mk_re ''^(`d*) (`d*)'' =
   Seq (Bol) (Seq (Group 1 (Quant 0 None (Class False [CDigit]))) (Seq (Lit (CHR '' ''))
   (Group 2 (Quant 0 None (Class False [CDigit])))))"
  by code_simp

lemma re_c_connection [compiled]:
  "mk_re ''^IN IP(`d) ([^``S/]*)(?:/(`d*))?'' =
   Seq (Bol) (Seq (Lit (CHR ''I'')) (Seq (Lit (CHR ''N'')) (Seq (Lit (CHR '' '')) (Seq (Lit
   (CHR ''I'')) (Seq (Lit (CHR ''P'')) (Seq (Group 1 (Class False [CDigit])) (Seq (Lit (CHR
   '' '')) (Seq (Group 2 (Quant 0 None (Class True [CChar bslash, CChar (CHR ''S''), CChar
   (CHR ''/'')]))) (Quant 0 (Some 1) (Seq (Lit (CHR ''/'')) (Group 3 (Quant 0 None (Class
   False [CDigit])))))))))))))"
  by code_simp

lemma re_b_bandwidth [compiled]:
  "mk_re ''^(TIAS|AS|CT|RR|RS):(`d*)'' =
   Seq (Bol) (Seq (Group 1 (Alt (Seq (Lit (CHR ''T'')) (Seq (Lit (CHR ''I'')) (Seq (Lit (CHR
   ''A'')) (Lit (CHR ''S''))))) (Alt (Seq (Lit (CHR ''A'')) (Lit (CHR ''S''))) (Alt (Seq
   (Lit (CHR ''C'')) (Lit (CHR ''T''))) (Alt (Seq (Lit (CHR ''R'')) (Lit (CHR ''R''))) (Seq
   (Lit (CHR ''R'')) (Lit (CHR ''S'')))))))) (Seq (Lit (CHR '':'')) (Group 2 (Quant 0 None
   (Class False [CDigit])))))"
  by code_simp

lemma re_m_line [compiled]:
  "mk_re ''^(`w*) (`d*)(?:/(`d*))? ([`w`/]*)(?: (.*))?'' =
   Seq (Bol) (Seq (Group 1 (Quant 0 None (Class False [CWord]))) (Seq (Lit (CHR '' '')) (Seq
   (Group 2 (Quant 0 None (Class False [CDigit]))) (Seq (Quant 0 (Some 1) (Seq (Lit (CHR
   ''/'')) (Group 3 (Quant 0 None (Class False [CDigit]))))) (Seq (Lit (CHR '' '')) (Seq
   (Group 4 (Quant 0 None (Class False [CWord, CChar (CHR ''/'')]))) (Quant 0 (Some 1) (Seq
   (Lit (CHR '' '')) (Group 5 (Quant 0 None (AnyChar)))))))))))"
  by code_simp

lemma re_a_rtp [compiled]:
  "mk_re ''^rtpmap:(`d*) ([`w`-`.]*)(?:`s*`/(`d*)(?:`s*`/(`S*))?)?'' =
   Seq (Bol) (Seq (Lit (CHR ''r'')) (Seq (Lit (CHR ''t'')) (Seq (Lit (CHR ''p'')) (Seq (Lit
   (CHR ''m'')) (Seq (Lit (CHR ''a'')) (Seq (Lit (CHR ''p'')) (Seq (Lit (CHR '':'')) (Seq
   (Group 1 (Quant 0 None (Class False [CDigit]))) (Seq (Lit (CHR '' '')) (Seq (Group 2
   (Quant 0 None (Class False [CWord, CChar (CHR ''-''), CChar (CHR ''.'')]))) (Quant 0
   (Some 1) (Seq (Quant 0 None (Class False [CSpace])) (Seq (Lit (CHR ''/'')) (Seq (Group 3
   (Quant 0 None (Class False [CDigit]))) (Quant 0 (Some 1) (Seq (Quant 0 None (Class False
   [CSpace])) (Seq (Lit (CHR ''/'')) (Group 4 (Quant 0 None (Class False
   [CNotSpace]))))))))))))))))))))"
  by code_simp

lemma re_a_fmtp [compiled]:
  "mk_re ''^fmtp:(`d*) (.*)'' =
   Seq (Bol) (Seq (Lit (CHR ''f'')) (Seq (Lit (CHR ''m'')) (Seq (Lit (CHR ''t'')) (Seq (Lit
   (CHR ''p'')) (Seq (Lit (CHR '':'')) (Seq (Group 1 (Quant 0 None (Class False [CDigit])))
   (Seq (Lit (CHR '' '')) (Group 2 (Quant 0 None (AnyChar))))))))))"
  by code_simp

lemma re_a_control [compiled]:
  "mk_re ''^control:(.*)'' =
   Seq (Bol) (Seq (Lit (CHR ''c'')) (Seq (Lit (CHR ''o'')) (Seq (Lit (CHR ''n'')) (Seq (Lit
   (CHR ''t'')) (Seq (Lit (CHR ''r'')) (Seq (Lit (CHR ''o'')) (Seq (Lit (CHR ''l'')) (Seq
   (Lit (CHR '':'')) (Group 1 (Quant 0 None (AnyChar)))))))))))"
  by code_simp

lemma re_a_rtcp [compiled]:
  "mk_re ''^rtcp:(`d*)(?: (`S*) IP(`d) (`S*))?'' =
   Seq (Bol) (Seq (Lit (CHR ''r'')) (Seq (Lit (CHR ''t'')) (Seq (Lit (CHR ''c'')) (Seq (Lit
   (CHR ''p'')) (Seq (Lit (CHR '':'')) (Seq (Group 1 (Quant 0 None (Class False [CDigit])))
   (Quant 0 (Some 1) (Seq (Lit (CHR '' '')) (Seq (Group 2 (Quant 0 None (Class False
   [CNotSpace]))) (Seq (Lit (CHR '' '')) (Seq (Lit (CHR ''I'')) (Seq (Lit (CHR ''P'')) (Seq
   (Group 3 (Class False [CDigit])) (Seq (Lit (CHR '' '')) (Group 4 (Quant 0 None (Class
   False [CNotSpace])))))))))))))))))"
  by code_simp

lemma re_a_rtcpFbTrrInt [compiled]:
  "mk_re ''^rtcp-fb:(`*|`d*) trr-int (`d*)'' =
   Seq (Bol) (Seq (Lit (CHR ''r'')) (Seq (Lit (CHR ''t'')) (Seq (Lit (CHR ''c'')) (Seq (Lit
   (CHR ''p'')) (Seq (Lit (CHR ''-'')) (Seq (Lit (CHR ''f'')) (Seq (Lit (CHR ''b'')) (Seq
   (Lit (CHR '':'')) (Seq (Group 1 (Alt (Lit (CHR ''*'')) (Quant 0 None (Class False
   [CDigit])))) (Seq (Lit (CHR '' '')) (Seq (Lit (CHR ''t'')) (Seq (Lit (CHR ''r'')) (Seq
   (Lit (CHR ''r'')) (Seq (Lit (CHR ''-'')) (Seq (Lit (CHR ''i'')) (Seq (Lit (CHR ''n''))
   (Seq (Lit (CHR ''t'')) (Seq (Lit (CHR '' '')) (Group 2 (Quant 0 None (Class False
   [CDigit])))))))))))))))))))))"
  by code_simp

lemma re_a_rtcpFb [compiled]:
  "mk_re ''^rtcp-fb:(`*|`d*) ([`w`-_]*)(?: ([`w`-_]*))?'' =
   Seq (Bol) (Seq (Lit (CHR ''r'')) (Seq (Lit (CHR ''t'')) (Seq (Lit (CHR ''c'')) (Seq (Lit
   (CHR ''p'')) (Seq (Lit (CHR ''-'')) (Seq (Lit (CHR ''f'')) (Seq (Lit (CHR ''b'')) (Seq
   (Lit (CHR '':'')) (Seq (Group 1 (Alt (Lit (CHR ''*'')) (Quant 0 None (Class False
   [CDigit])))) (Seq (Lit (CHR '' '')) (Seq (Group 2 (Quant 0 None (Class False [CWord,
   CChar (CHR ''-''), CChar (CHR ''_'')]))) (Quant 0 (Some 1) (Seq (Lit (CHR '' '')) (Group
   3 (Quant 0 None (Class False [CWord, CChar (CHR ''-''), CChar (CHR
   ''_'')]))))))))))))))))"
  by code_simp

lemma re_a_ext [compiled]:
  "mk_re ''^extmap:(`d+)(?:`/(`w+))?(?: (urn:ietf:params:rtp-hdrext:encrypt))? (`S*)(?: (`S*))?'' =
   Seq (Bol) (Seq (Lit (CHR ''e'')) (Seq (Lit (CHR ''x'')) (Seq (Lit (CHR ''t'')) (Seq (Lit
   (CHR ''m'')) (Seq (Lit (CHR ''a'')) (Seq (Lit (CHR ''p'')) (Seq (Lit (CHR '':'')) (Seq
   (Group 1 (Quant 1 None (Class False [CDigit]))) (Seq (Quant 0 (Some 1) (Seq (Lit (CHR
   ''/'')) (Group 2 (Quant 1 None (Class False [CWord]))))) (Seq (Quant 0 (Some 1) (Seq (Lit
   (CHR '' '')) (Group 3 (Seq (Lit (CHR ''u'')) (Seq (Lit (CHR ''r'')) (Seq (Lit (CHR
   ''n'')) (Seq (Lit (CHR '':'')) (Seq (Lit (CHR ''i'')) (Seq (Lit (CHR ''e'')) (Seq (Lit
   (CHR ''t'')) (Seq (Lit (CHR ''f'')) (Seq (Lit (CHR '':'')) (Seq (Lit (CHR ''p'')) (Seq
   (Lit (CHR ''a'')) (Seq (Lit (CHR ''r'')) (Seq (Lit (CHR ''a'')) (Seq (Lit (CHR ''m''))
   (Seq (Lit (CHR ''s'')) (Seq (Lit (CHR '':'')) (Seq (Lit (CHR ''r'')) (Seq (Lit (CHR
   ''t'')) (Seq (Lit (CHR ''p'')) (Seq (Lit (CHR ''-'')) (Seq (Lit (CHR ''h'')) (Seq (Lit
   (CHR ''d'')) (Seq (Lit (CHR ''r'')) (Seq (Lit (CHR ''e'')) (Seq (Lit (CHR ''x'')) (Seq
   (Lit (CHR ''t'')) (Seq (Lit (CHR '':'')) (Seq (Lit (CHR ''e'')) (Seq (Lit (CHR ''n''))
   (Seq (Lit (CHR ''c'')) (Seq (Lit (CHR ''r'')) (Seq (Lit (CHR ''y'')) (Seq (Lit (CHR
   ''p'')) (Lit (CHR ''t'')))))))))))))))))))))))))))))))))))))) (Seq (Lit (CHR '' '')) (Seq
   (Group 4 (Quant 0 None (Class False [CNotSpace]))) (Quant 0 (Some 1) (Seq (Lit (CHR '' '')) (Group 5 (Quant 0 None (Class False [CNotSpace])))))))))))))))))"
  by code_simp

lemma re_a_extmapAllowMixed [compiled]:
  "mk_re ''^(extmap-allow-mixed)'' =
   Seq (Bol) (Group 1 (Seq (Lit (CHR ''e'')) (Seq (Lit (CHR ''x'')) (Seq (Lit (CHR ''t''))
   (Seq (Lit (CHR ''m'')) (Seq (Lit (CHR ''a'')) (Seq (Lit (CHR ''p'')) (Seq (Lit (CHR
   ''-'')) (Seq (Lit (CHR ''a'')) (Seq (Lit (CHR ''l'')) (Seq (Lit (CHR ''l'')) (Seq (Lit
   (CHR ''o'')) (Seq (Lit (CHR ''w'')) (Seq (Lit (CHR ''-'')) (Seq (Lit (CHR ''m'')) (Seq
   (Lit (CHR ''i'')) (Seq (Lit (CHR ''x'')) (Seq (Lit (CHR ''e'')) (Lit (CHR
   ''d''))))))))))))))))))))"
  by code_simp

lemma re_a_crypto [compiled]:
  "mk_re ''^crypto:(`d*) ([`w_]*) (`S*)(?: (`S*))?'' =
   Seq (Bol) (Seq (Lit (CHR ''c'')) (Seq (Lit (CHR ''r'')) (Seq (Lit (CHR ''y'')) (Seq (Lit
   (CHR ''p'')) (Seq (Lit (CHR ''t'')) (Seq (Lit (CHR ''o'')) (Seq (Lit (CHR '':'')) (Seq
   (Group 1 (Quant 0 None (Class False [CDigit]))) (Seq (Lit (CHR '' '')) (Seq (Group 2
   (Quant 0 None (Class False [CWord, CChar (CHR ''_'')]))) (Seq (Lit (CHR '' '')) (Seq
   (Group 3 (Quant 0 None (Class False [CNotSpace]))) (Quant 0 (Some 1) (Seq (Lit (CHR '' '')) (Group 4 (Quant 0 None (Class False [CNotSpace])))))))))))))))))"
  by code_simp

lemma re_a_setup [compiled]:
  "mk_re ''^setup:(`w*)'' =
   Seq (Bol) (Seq (Lit (CHR ''s'')) (Seq (Lit (CHR ''e'')) (Seq (Lit (CHR ''t'')) (Seq (Lit
   (CHR ''u'')) (Seq (Lit (CHR ''p'')) (Seq (Lit (CHR '':'')) (Group 1 (Quant 0 None (Class
   False [CWord])))))))))"
  by code_simp

lemma re_a_mid [compiled]:
  "mk_re ''^mid:([^`s]*)'' =
   Seq (Bol) (Seq (Lit (CHR ''m'')) (Seq (Lit (CHR ''i'')) (Seq (Lit (CHR ''d'')) (Seq (Lit
   (CHR '':'')) (Group 1 (Quant 0 None (Class True [CSpace])))))))"
  by code_simp

lemma re_a_msid [compiled]:
  "mk_re ''^msid:(.*)'' =
   Seq (Bol) (Seq (Lit (CHR ''m'')) (Seq (Lit (CHR ''s'')) (Seq (Lit (CHR ''i'')) (Seq (Lit
   (CHR ''d'')) (Seq (Lit (CHR '':'')) (Group 1 (Quant 0 None (AnyChar))))))))"
  by code_simp

lemma re_a_ptime [compiled]:
  "mk_re ''^ptime:(`d*)'' =
   Seq (Bol) (Seq (Lit (CHR ''p'')) (Seq (Lit (CHR ''t'')) (Seq (Lit (CHR ''i'')) (Seq (Lit
   (CHR ''m'')) (Seq (Lit (CHR ''e'')) (Seq (Lit (CHR '':'')) (Group 1 (Quant 0 None (Class
   False [CDigit])))))))))"
  by code_simp

lemma re_a_maxptime [compiled]:
  "mk_re ''^maxptime:(`d*)'' =
   Seq (Bol) (Seq (Lit (CHR ''m'')) (Seq (Lit (CHR ''a'')) (Seq (Lit (CHR ''x'')) (Seq (Lit
   (CHR ''p'')) (Seq (Lit (CHR ''t'')) (Seq (Lit (CHR ''i'')) (Seq (Lit (CHR ''m'')) (Seq
   (Lit (CHR ''e'')) (Seq (Lit (CHR '':'')) (Group 1 (Quant 0 None (Class False
   [CDigit]))))))))))))"
  by code_simp

lemma re_a_direction [compiled]:
  "mk_re ''^(sendrecv|recvonly|sendonly|inactive)'' =
   Seq (Bol) (Group 1 (Alt (Seq (Lit (CHR ''s'')) (Seq (Lit (CHR ''e'')) (Seq (Lit (CHR
   ''n'')) (Seq (Lit (CHR ''d'')) (Seq (Lit (CHR ''r'')) (Seq (Lit (CHR ''e'')) (Seq (Lit
   (CHR ''c'')) (Lit (CHR ''v''))))))))) (Alt (Seq (Lit (CHR ''r'')) (Seq (Lit (CHR ''e''))
   (Seq (Lit (CHR ''c'')) (Seq (Lit (CHR ''v'')) (Seq (Lit (CHR ''o'')) (Seq (Lit (CHR
   ''n'')) (Seq (Lit (CHR ''l'')) (Lit (CHR ''y''))))))))) (Alt (Seq (Lit (CHR ''s'')) (Seq
   (Lit (CHR ''e'')) (Seq (Lit (CHR ''n'')) (Seq (Lit (CHR ''d'')) (Seq (Lit (CHR ''o''))
   (Seq (Lit (CHR ''n'')) (Seq (Lit (CHR ''l'')) (Lit (CHR ''y''))))))))) (Seq (Lit (CHR
   ''i'')) (Seq (Lit (CHR ''n'')) (Seq (Lit (CHR ''a'')) (Seq (Lit (CHR ''c'')) (Seq (Lit
   (CHR ''t'')) (Seq (Lit (CHR ''i'')) (Seq (Lit (CHR ''v'')) (Lit (CHR ''e'')))))))))))))"
  by code_simp

lemma re_a_icelite [compiled]:
  "mk_re ''^(ice-lite)'' =
   Seq (Bol) (Group 1 (Seq (Lit (CHR ''i'')) (Seq (Lit (CHR ''c'')) (Seq (Lit (CHR ''e''))
   (Seq (Lit (CHR ''-'')) (Seq (Lit (CHR ''l'')) (Seq (Lit (CHR ''i'')) (Seq (Lit (CHR
   ''t'')) (Lit (CHR ''e''))))))))))"
  by code_simp

lemma re_a_iceUfrag [compiled]:
  "mk_re ''^ice-ufrag:(`S*)'' =
   Seq (Bol) (Seq (Lit (CHR ''i'')) (Seq (Lit (CHR ''c'')) (Seq (Lit (CHR ''e'')) (Seq (Lit
   (CHR ''-'')) (Seq (Lit (CHR ''u'')) (Seq (Lit (CHR ''f'')) (Seq (Lit (CHR ''r'')) (Seq
   (Lit (CHR ''a'')) (Seq (Lit (CHR ''g'')) (Seq (Lit (CHR '':'')) (Group 1 (Quant 0 None
   (Class False [CNotSpace])))))))))))))"
  by code_simp

lemma re_a_icePwd [compiled]:
  "mk_re ''^ice-pwd:(`S*)'' =
   Seq (Bol) (Seq (Lit (CHR ''i'')) (Seq (Lit (CHR ''c'')) (Seq (Lit (CHR ''e'')) (Seq (Lit
   (CHR ''-'')) (Seq (Lit (CHR ''p'')) (Seq (Lit (CHR ''w'')) (Seq (Lit (CHR ''d'')) (Seq
   (Lit (CHR '':'')) (Group 1 (Quant 0 None (Class False [CNotSpace])))))))))))"
  by code_simp

lemma re_a_fingerprint [compiled]:
  "mk_re ''^fingerprint:(`S*) (`S*)'' =
   Seq (Bol) (Seq (Lit (CHR ''f'')) (Seq (Lit (CHR ''i'')) (Seq (Lit (CHR ''n'')) (Seq (Lit
   (CHR ''g'')) (Seq (Lit (CHR ''e'')) (Seq (Lit (CHR ''r'')) (Seq (Lit (CHR ''p'')) (Seq
   (Lit (CHR ''r'')) (Seq (Lit (CHR ''i'')) (Seq (Lit (CHR ''n'')) (Seq (Lit (CHR ''t''))
   (Seq (Lit (CHR '':'')) (Seq (Group 1 (Quant 0 None (Class False [CNotSpace]))) (Seq (Lit
   (CHR '' '')) (Group 2 (Quant 0 None (Class False [CNotSpace])))))))))))))))))"
  by code_simp

lemma re_a_candidates [compiled]:
  "mk_re ''^candidate:(`S*) (`d*) (`S*) (`d*) (`S*) (`d*) typ (`S*)(?: raddr (`S*) rport (`d*))?(?: tcptype (`S*))?(?: generation (`d*))?(?: network-id (`d*))?(?: network-cost (`d*))?'' =
   Seq (Bol) (Seq (Lit (CHR ''c'')) (Seq (Lit (CHR ''a'')) (Seq (Lit (CHR ''n'')) (Seq (Lit
   (CHR ''d'')) (Seq (Lit (CHR ''i'')) (Seq (Lit (CHR ''d'')) (Seq (Lit (CHR ''a'')) (Seq
   (Lit (CHR ''t'')) (Seq (Lit (CHR ''e'')) (Seq (Lit (CHR '':'')) (Seq (Group 1 (Quant 0
   None (Class False [CNotSpace]))) (Seq (Lit (CHR '' '')) (Seq (Group 2 (Quant 0 None
   (Class False [CDigit]))) (Seq (Lit (CHR '' '')) (Seq (Group 3 (Quant 0 None (Class False
   [CNotSpace]))) (Seq (Lit (CHR '' '')) (Seq (Group 4 (Quant 0 None (Class False
   [CDigit]))) (Seq (Lit (CHR '' '')) (Seq (Group 5 (Quant 0 None (Class False
   [CNotSpace]))) (Seq (Lit (CHR '' '')) (Seq (Group 6 (Quant 0 None (Class False
   [CDigit]))) (Seq (Lit (CHR '' '')) (Seq (Lit (CHR ''t'')) (Seq (Lit (CHR ''y'')) (Seq
   (Lit (CHR ''p'')) (Seq (Lit (CHR '' '')) (Seq (Group 7 (Quant 0 None (Class False
   [CNotSpace]))) (Seq (Quant 0 (Some 1) (Seq (Lit (CHR '' '')) (Seq (Lit (CHR ''r'')) (Seq
   (Lit (CHR ''a'')) (Seq (Lit (CHR ''d'')) (Seq (Lit (CHR ''d'')) (Seq (Lit (CHR ''r''))
   (Seq (Lit (CHR '' '')) (Seq (Group 8 (Quant 0 None (Class False [CNotSpace]))) (Seq (Lit
   (CHR '' '')) (Seq (Lit (CHR ''r'')) (Seq (Lit (CHR ''p'')) (Seq (Lit (CHR ''o'')) (Seq
   (Lit (CHR ''r'')) (Seq (Lit (CHR ''t'')) (Seq (Lit (CHR '' '')) (Group 9 (Quant 0 None
   (Class False [CDigit]))))))))))))))))))) (Seq (Quant 0 (Some 1) (Seq (Lit (CHR '' ''))
   (Seq (Lit (CHR ''t'')) (Seq (Lit (CHR ''c'')) (Seq (Lit (CHR ''p'')) (Seq (Lit (CHR
   ''t'')) (Seq (Lit (CHR ''y'')) (Seq (Lit (CHR ''p'')) (Seq (Lit (CHR ''e'')) (Seq (Lit
   (CHR '' '')) (Group 10 (Quant 0 None (Class False [CNotSpace]))))))))))))) (Seq (Quant 0
   (Some 1) (Seq (Lit (CHR '' '')) (Seq (Lit (CHR ''g'')) (Seq (Lit (CHR ''e'')) (Seq (Lit
   (CHR ''n'')) (Seq (Lit (CHR ''e'')) (Seq (Lit (CHR ''r'')) (Seq (Lit (CHR ''a'')) (Seq
   (Lit (CHR ''t'')) (Seq (Lit (CHR ''i'')) (Seq (Lit (CHR ''o'')) (Seq (Lit (CHR ''n''))
   (Seq (Lit (CHR '' '')) (Group 11 (Quant 0 None (Class False [CDigit])))))))))))))))) (Seq
   (Quant 0 (Some 1) (Seq (Lit (CHR '' '')) (Seq (Lit (CHR ''n'')) (Seq (Lit (CHR ''e''))
   (Seq (Lit (CHR ''t'')) (Seq (Lit (CHR ''w'')) (Seq (Lit (CHR ''o'')) (Seq (Lit (CHR
   ''r'')) (Seq (Lit (CHR ''k'')) (Seq (Lit (CHR ''-'')) (Seq (Lit (CHR ''i'')) (Seq (Lit
   (CHR ''d'')) (Seq (Lit (CHR '' '')) (Group 12 (Quant 0 None (Class False
   [CDigit])))))))))))))))) (Quant 0 (Some 1) (Seq (Lit (CHR '' '')) (Seq (Lit (CHR ''n''))
   (Seq (Lit (CHR ''e'')) (Seq (Lit (CHR ''t'')) (Seq (Lit (CHR ''w'')) (Seq (Lit (CHR
   ''o'')) (Seq (Lit (CHR ''r'')) (Seq (Lit (CHR ''k'')) (Seq (Lit (CHR ''-'')) (Seq (Lit
   (CHR ''c'')) (Seq (Lit (CHR ''o'')) (Seq (Lit (CHR ''s'')) (Seq (Lit (CHR ''t'')) (Seq
   (Lit (CHR '' '')) (Group 13 (Quant 0 None (Class False
   [CDigit])))))))))))))))))))))))))))))))))))))))))))))))))"
  by code_simp

lemma re_a_endOfCandidates [compiled]:
  "mk_re ''^(end-of-candidates)'' =
   Seq (Bol) (Group 1 (Seq (Lit (CHR ''e'')) (Seq (Lit (CHR ''n'')) (Seq (Lit (CHR ''d''))
   (Seq (Lit (CHR ''-'')) (Seq (Lit (CHR ''o'')) (Seq (Lit (CHR ''f'')) (Seq (Lit (CHR
   ''-'')) (Seq (Lit (CHR ''c'')) (Seq (Lit (CHR ''a'')) (Seq (Lit (CHR ''n'')) (Seq (Lit
   (CHR ''d'')) (Seq (Lit (CHR ''i'')) (Seq (Lit (CHR ''d'')) (Seq (Lit (CHR ''a'')) (Seq
   (Lit (CHR ''t'')) (Seq (Lit (CHR ''e'')) (Lit (CHR ''s'')))))))))))))))))))"
  by code_simp

lemma re_a_remoteCandidates [compiled]:
  "mk_re ''^remote-candidates:(.*)'' =
   Seq (Bol) (Seq (Lit (CHR ''r'')) (Seq (Lit (CHR ''e'')) (Seq (Lit (CHR ''m'')) (Seq (Lit
   (CHR ''o'')) (Seq (Lit (CHR ''t'')) (Seq (Lit (CHR ''e'')) (Seq (Lit (CHR ''-'')) (Seq
   (Lit (CHR ''c'')) (Seq (Lit (CHR ''a'')) (Seq (Lit (CHR ''n'')) (Seq (Lit (CHR ''d''))
   (Seq (Lit (CHR ''i'')) (Seq (Lit (CHR ''d'')) (Seq (Lit (CHR ''a'')) (Seq (Lit (CHR
   ''t'')) (Seq (Lit (CHR ''e'')) (Seq (Lit (CHR ''s'')) (Seq (Lit (CHR '':'')) (Group 1
   (Quant 0 None (AnyChar)))))))))))))))))))))"
  by code_simp

lemma re_a_iceOptions [compiled]:
  "mk_re ''^ice-options:(`S*)'' =
   Seq (Bol) (Seq (Lit (CHR ''i'')) (Seq (Lit (CHR ''c'')) (Seq (Lit (CHR ''e'')) (Seq (Lit
   (CHR ''-'')) (Seq (Lit (CHR ''o'')) (Seq (Lit (CHR ''p'')) (Seq (Lit (CHR ''t'')) (Seq
   (Lit (CHR ''i'')) (Seq (Lit (CHR ''o'')) (Seq (Lit (CHR ''n'')) (Seq (Lit (CHR ''s''))
   (Seq (Lit (CHR '':'')) (Group 1 (Quant 0 None (Class False [CNotSpace])))))))))))))))"
  by code_simp

lemma re_a_ssrcs [compiled]:
  "mk_re ''^ssrc:(`d*) ([`w_-]*)(?::(.*))?'' =
   Seq (Bol) (Seq (Lit (CHR ''s'')) (Seq (Lit (CHR ''s'')) (Seq (Lit (CHR ''r'')) (Seq (Lit
   (CHR ''c'')) (Seq (Lit (CHR '':'')) (Seq (Group 1 (Quant 0 None (Class False [CDigit])))
   (Seq (Lit (CHR '' '')) (Seq (Group 2 (Quant 0 None (Class False [CWord, CChar (CHR
   ''_''), CChar (CHR ''-'')]))) (Quant 0 (Some 1) (Seq (Lit (CHR '':'')) (Group 3 (Quant 0
   None (AnyChar)))))))))))))"
  by code_simp

lemma re_a_ssrcGroups [compiled]:
  "mk_re (''^ssrc-group:([!#$%&'' @ [CHR 0x27] @ ''*+-.`w]*) (.*)'') =
   Seq (Bol) (Seq (Lit (CHR ''s'')) (Seq (Lit (CHR ''s'')) (Seq (Lit (CHR ''r'')) (Seq (Lit
   (CHR ''c'')) (Seq (Lit (CHR ''-'')) (Seq (Lit (CHR ''g'')) (Seq (Lit (CHR ''r'')) (Seq
   (Lit (CHR ''o'')) (Seq (Lit (CHR ''u'')) (Seq (Lit (CHR ''p'')) (Seq (Lit (CHR '':''))
   (Seq (Group 1 (Quant 0 None (Class False [CChar (CHR ''!''), CChar (CHR ''#''), CChar
   (CHR ''$''), CChar (CHR ''%''), CChar (CHR ''&''), CChar (CHR 0x27), CChar (CHR ''*''),
   CRange (CHR ''+'') (CHR ''.''), CWord]))) (Seq (Lit (CHR '' '')) (Group 2 (Quant 0 None
   (AnyChar))))))))))))))))"
  by code_simp

lemmas re_a_ssrcGroups_list [compiled] = re_a_ssrcGroups [unfolded append.simps]

lemma re_a_msidSemantic [compiled]:
  "mk_re ''^msid-semantic:`s?(`w*) (`S*)'' =
   Seq (Bol) (Seq (Lit (CHR ''m'')) (Seq (Lit (CHR ''s'')) (Seq (Lit (CHR ''i'')) (Seq (Lit
   (CHR ''d'')) (Seq (Lit (CHR ''-'')) (Seq (Lit (CHR ''s'')) (Seq (Lit (CHR ''e'')) (Seq
   (Lit (CHR ''m'')) (Seq (Lit (CHR ''a'')) (Seq (Lit (CHR ''n'')) (Seq (Lit (CHR ''t''))
   (Seq (Lit (CHR ''i'')) (Seq (Lit (CHR ''c'')) (Seq (Lit (CHR '':'')) (Seq (Quant 0 (Some
   1) (Class False [CSpace])) (Seq (Group 1 (Quant 0 None (Class False [CWord]))) (Seq (Lit
   (CHR '' '')) (Group 2 (Quant 0 None (Class False [CNotSpace]))))))))))))))))))))"
  by code_simp

lemma re_a_groups [compiled]:
  "mk_re ''^group:(`w*) (.*)'' =
   Seq (Bol) (Seq (Lit (CHR ''g'')) (Seq (Lit (CHR ''r'')) (Seq (Lit (CHR ''o'')) (Seq (Lit
   (CHR ''u'')) (Seq (Lit (CHR ''p'')) (Seq (Lit (CHR '':'')) (Seq (Group 1 (Quant 0 None
   (Class False [CWord]))) (Seq (Lit (CHR '' '')) (Group 2 (Quant 0 None (AnyChar)))))))))))"
  by code_simp

lemma re_a_rtcpMux [compiled]:
  "mk_re ''^(rtcp-mux)'' =
   Seq (Bol) (Group 1 (Seq (Lit (CHR ''r'')) (Seq (Lit (CHR ''t'')) (Seq (Lit (CHR ''c''))
   (Seq (Lit (CHR ''p'')) (Seq (Lit (CHR ''-'')) (Seq (Lit (CHR ''m'')) (Seq (Lit (CHR
   ''u'')) (Lit (CHR ''x''))))))))))"
  by code_simp

lemma re_a_rtcpRsize [compiled]:
  "mk_re ''^(rtcp-rsize)'' =
   Seq (Bol) (Group 1 (Seq (Lit (CHR ''r'')) (Seq (Lit (CHR ''t'')) (Seq (Lit (CHR ''c''))
   (Seq (Lit (CHR ''p'')) (Seq (Lit (CHR ''-'')) (Seq (Lit (CHR ''r'')) (Seq (Lit (CHR
   ''s'')) (Seq (Lit (CHR ''i'')) (Seq (Lit (CHR ''z'')) (Lit (CHR ''e''))))))))))))"
  by code_simp

lemma re_a_sctpmap [compiled]:
  "mk_re ''^sctpmap:(`d+) (`S*)(?: (`d*))?'' =
   Seq (Bol) (Seq (Lit (CHR ''s'')) (Seq (Lit (CHR ''c'')) (Seq (Lit (CHR ''t'')) (Seq (Lit
   (CHR ''p'')) (Seq (Lit (CHR ''m'')) (Seq (Lit (CHR ''a'')) (Seq (Lit (CHR ''p'')) (Seq
   (Lit (CHR '':'')) (Seq (Group 1 (Quant 1 None (Class False [CDigit]))) (Seq (Lit (CHR '' '')) (Seq (Group 2 (Quant 0 None (Class False [CNotSpace]))) (Quant 0 (Some 1) (Seq (Lit
   (CHR '' '')) (Group 3 (Quant 0 None (Class False [CDigit]))))))))))))))))"
  by code_simp

lemma re_a_xGoogleFlag [compiled]:
  "mk_re ''x-google-flag:([^`s]*)'' =
   Seq (Lit (CHR ''x'')) (Seq (Lit (CHR ''-'')) (Seq (Lit (CHR ''g'')) (Seq (Lit (CHR
   ''o'')) (Seq (Lit (CHR ''o'')) (Seq (Lit (CHR ''g'')) (Seq (Lit (CHR ''l'')) (Seq (Lit
   (CHR ''e'')) (Seq (Lit (CHR ''-'')) (Seq (Lit (CHR ''f'')) (Seq (Lit (CHR ''l'')) (Seq
   (Lit (CHR ''a'')) (Seq (Lit (CHR ''g'')) (Seq (Lit (CHR '':'')) (Group 1 (Quant 0 None
   (Class True [CSpace]))))))))))))))))"
  by code_simp

lemma re_a_rids [compiled]:
  "mk_re ''^rid:([`d`w]+) (`w+)(?: (.*))?'' =
   Seq (Bol) (Seq (Lit (CHR ''r'')) (Seq (Lit (CHR ''i'')) (Seq (Lit (CHR ''d'')) (Seq (Lit
   (CHR '':'')) (Seq (Group 1 (Quant 1 None (Class False [CDigit, CWord]))) (Seq (Lit (CHR
   '' '')) (Seq (Group 2 (Quant 1 None (Class False [CWord]))) (Quant 0 (Some 1) (Seq (Lit
   (CHR '' '')) (Group 3 (Quant 0 None (AnyChar))))))))))))"
  by code_simp

lemma re_a_imageattrs [compiled]:
  "mk_re ''^imageattr:(`d+|`*)[`s`t]+(send|recv)[`s`t]+(`*|`[`S+`](?:[`s`t]+`[`S+`])*)(?:[`s`t]+(recv|send)[`s`t]+(`*|`[`S+`](?:[`s`t]+`[`S+`])*))?'' =
   Seq (Bol) (Seq (Lit (CHR ''i'')) (Seq (Lit (CHR ''m'')) (Seq (Lit (CHR ''a'')) (Seq (Lit
   (CHR ''g'')) (Seq (Lit (CHR ''e'')) (Seq (Lit (CHR ''a'')) (Seq (Lit (CHR ''t'')) (Seq
   (Lit (CHR ''t'')) (Seq (Lit (CHR ''r'')) (Seq (Lit (CHR '':'')) (Seq (Group 1 (Alt (Quant
   1 None (Class False [CDigit])) (Lit (CHR ''*'')))) (Seq (Quant 1 None (Class False
   [CSpace, CChar (CHR 0x09)])) (Seq (Group 2 (Alt (Seq (Lit (CHR ''s'')) (Seq (Lit (CHR
   ''e'')) (Seq (Lit (CHR ''n'')) (Lit (CHR ''d''))))) (Seq (Lit (CHR ''r'')) (Seq (Lit (CHR
   ''e'')) (Seq (Lit (CHR ''c'')) (Lit (CHR ''v''))))))) (Seq (Quant 1 None (Class False
   [CSpace, CChar (CHR 0x09)])) (Seq (Group 3 (Alt (Lit (CHR ''*'')) (Seq (Lit (CHR ''[''))
   (Seq (Quant 1 None (Class False [CNotSpace])) (Seq (Lit (CHR '']'')) (Quant 0 None (Seq
   (Quant 1 None (Class False [CSpace, CChar (CHR 0x09)])) (Seq (Lit (CHR ''['')) (Seq
   (Quant 1 None (Class False [CNotSpace])) (Lit (CHR '']''))))))))))) (Quant 0 (Some 1)
   (Seq (Quant 1 None (Class False [CSpace, CChar (CHR 0x09)])) (Seq (Group 4 (Alt (Seq (Lit
   (CHR ''r'')) (Seq (Lit (CHR ''e'')) (Seq (Lit (CHR ''c'')) (Lit (CHR ''v''))))) (Seq (Lit
   (CHR ''s'')) (Seq (Lit (CHR ''e'')) (Seq (Lit (CHR ''n'')) (Lit (CHR ''d''))))))) (Seq
   (Quant 1 None (Class False [CSpace, CChar (CHR 0x09)])) (Group 5 (Alt (Lit (CHR ''*''))
   (Seq (Lit (CHR ''['')) (Seq (Quant 1 None (Class False [CNotSpace])) (Seq (Lit (CHR
   '']'')) (Quant 0 None (Seq (Quant 1 None (Class False [CSpace, CChar (CHR 0x09)])) (Seq
   (Lit (CHR ''['')) (Seq (Quant 1 None (Class False [CNotSpace])) (Lit (CHR
   '']''))))))))))))))))))))))))))))))"
  by code_simp

lemma re_a_simulcast [compiled]:
  "mk_re ''^simulcast:(send|recv) ([a-zA-Z0-9`-_~;,]+)(?:`s?(send|recv) ([a-zA-Z0-9`-_~;,]+))?$'' =
   Seq (Bol) (Seq (Lit (CHR ''s'')) (Seq (Lit (CHR ''i'')) (Seq (Lit (CHR ''m'')) (Seq (Lit
   (CHR ''u'')) (Seq (Lit (CHR ''l'')) (Seq (Lit (CHR ''c'')) (Seq (Lit (CHR ''a'')) (Seq
   (Lit (CHR ''s'')) (Seq (Lit (CHR ''t'')) (Seq (Lit (CHR '':'')) (Seq (Group 1 (Alt (Seq
   (Lit (CHR ''s'')) (Seq (Lit (CHR ''e'')) (Seq (Lit (CHR ''n'')) (Lit (CHR ''d''))))) (Seq
   (Lit (CHR ''r'')) (Seq (Lit (CHR ''e'')) (Seq (Lit (CHR ''c'')) (Lit (CHR ''v'')))))))
   (Seq (Lit (CHR '' '')) (Seq (Group 2 (Quant 1 None (Class False [CRange (CHR ''a'') (CHR
   ''z''), CRange (CHR ''A'') (CHR ''Z''), CRange (CHR ''0'') (CHR ''9''), CChar (CHR
   ''-''), CChar (CHR ''_''), CChar (CHR ''~''), CChar (CHR '';''), CChar (CHR '','')])))
   (Seq (Quant 0 (Some 1) (Seq (Quant 0 (Some 1) (Class False [CSpace])) (Seq (Group 3 (Alt
   (Seq (Lit (CHR ''s'')) (Seq (Lit (CHR ''e'')) (Seq (Lit (CHR ''n'')) (Lit (CHR ''d'')))))
   (Seq (Lit (CHR ''r'')) (Seq (Lit (CHR ''e'')) (Seq (Lit (CHR ''c'')) (Lit (CHR
   ''v''))))))) (Seq (Lit (CHR '' '')) (Group 4 (Quant 1 None (Class False [CRange (CHR
   ''a'') (CHR ''z''), CRange (CHR ''A'') (CHR ''Z''), CRange (CHR ''0'') (CHR ''9''), CChar
   (CHR ''-''), CChar (CHR ''_''), CChar (CHR ''~''), CChar (CHR '';''), CChar (CHR
   '','')]))))))) (Eol)))))))))))))))"
  by code_simp

lemma re_a_simulcast_03 [compiled]:
  "mk_re ''^simulcast: (.+)$'' =
   Seq (Bol) (Seq (Lit (CHR ''s'')) (Seq (Lit (CHR ''i'')) (Seq (Lit (CHR ''m'')) (Seq (Lit
   (CHR ''u'')) (Seq (Lit (CHR ''l'')) (Seq (Lit (CHR ''c'')) (Seq (Lit (CHR ''a'')) (Seq
   (Lit (CHR ''s'')) (Seq (Lit (CHR ''t'')) (Seq (Lit (CHR '':'')) (Seq (Lit (CHR '' ''))
   (Seq (Group 1 (Quant 1 None (AnyChar))) (Eol)))))))))))))"
  by code_simp

lemma re_a_framerate [compiled]:
  "mk_re ''^framerate:(`d+(?:$|`.`d+))'' =
   Seq (Bol) (Seq (Lit (CHR ''f'')) (Seq (Lit (CHR ''r'')) (Seq (Lit (CHR ''a'')) (Seq (Lit
   (CHR ''m'')) (Seq (Lit (CHR ''e'')) (Seq (Lit (CHR ''r'')) (Seq (Lit (CHR ''a'')) (Seq
   (Lit (CHR ''t'')) (Seq (Lit (CHR ''e'')) (Seq (Lit (CHR '':'')) (Group 1 (Seq (Quant 1
   None (Class False [CDigit])) (Alt (Eol) (Seq (Lit (CHR ''.'')) (Quant 1 None (Class False
   [CDigit]))))))))))))))))"
  by code_simp

lemma re_a_sourceFilter [compiled]:
  "mk_re ''^source-filter:[`s`t]*(excl|incl) (`S*) (IP4|IP6|`*) (`S*) (.*)'' =
   Seq (Bol) (Seq (Lit (CHR ''s'')) (Seq (Lit (CHR ''o'')) (Seq (Lit (CHR ''u'')) (Seq (Lit
   (CHR ''r'')) (Seq (Lit (CHR ''c'')) (Seq (Lit (CHR ''e'')) (Seq (Lit (CHR ''-'')) (Seq
   (Lit (CHR ''f'')) (Seq (Lit (CHR ''i'')) (Seq (Lit (CHR ''l'')) (Seq (Lit (CHR ''t''))
   (Seq (Lit (CHR ''e'')) (Seq (Lit (CHR ''r'')) (Seq (Lit (CHR '':'')) (Seq (Quant 0 None
   (Class False [CSpace, CChar (CHR 0x09)])) (Seq (Group 1 (Alt (Seq (Lit (CHR ''e'')) (Seq
   (Lit (CHR ''x'')) (Seq (Lit (CHR ''c'')) (Lit (CHR ''l''))))) (Seq (Lit (CHR ''i'')) (Seq
   (Lit (CHR ''n'')) (Seq (Lit (CHR ''c'')) (Lit (CHR ''l''))))))) (Seq (Lit (CHR '' ''))
   (Seq (Group 2 (Quant 0 None (Class False [CNotSpace]))) (Seq (Lit (CHR '' '')) (Seq
   (Group 3 (Alt (Seq (Lit (CHR ''I'')) (Seq (Lit (CHR ''P'')) (Lit (CHR ''4'')))) (Alt (Seq
   (Lit (CHR ''I'')) (Seq (Lit (CHR ''P'')) (Lit (CHR ''6'')))) (Lit (CHR ''*''))))) (Seq
   (Lit (CHR '' '')) (Seq (Group 4 (Quant 0 None (Class False [CNotSpace]))) (Seq (Lit (CHR
   '' '')) (Group 5 (Quant 0 None (AnyChar))))))))))))))))))))))))))"
  by code_simp

lemma re_a_tsRefclk [compiled]:
  "mk_re ''^ts-refclk:(.*)'' =
   Seq (Bol) (Seq (Lit (CHR ''t'')) (Seq (Lit (CHR ''s'')) (Seq (Lit (CHR ''-'')) (Seq (Lit
   (CHR ''r'')) (Seq (Lit (CHR ''e'')) (Seq (Lit (CHR ''f'')) (Seq (Lit (CHR ''c'')) (Seq
   (Lit (CHR ''l'')) (Seq (Lit (CHR ''k'')) (Seq (Lit (CHR '':'')) (Group 1 (Quant 0 None
   (AnyChar)))))))))))))"
  by code_simp

lemma re_a_mediaclk [compiled]:
  "mk_re ''^mediaclk:(.*)'' =
   Seq (Bol) (Seq (Lit (CHR ''m'')) (Seq (Lit (CHR ''e'')) (Seq (Lit (CHR ''d'')) (Seq (Lit
   (CHR ''i'')) (Seq (Lit (CHR ''a'')) (Seq (Lit (CHR ''c'')) (Seq (Lit (CHR ''l'')) (Seq
   (Lit (CHR ''k'')) (Seq (Lit (CHR '':'')) (Group 1 (Quant 0 None (AnyChar))))))))))))"
  by code_simp

end
