(* ===== verification/SdpGrammar.thy ===== *)
theory SdpGrammar
  imports Json GrammarRe
begin

text \<open>
  \<open>sdptransform::grammar\<close> (\<open>mssdk/json/grammar.cpp\<close>): one rule per kind of SDP line, in
  the order of the source, which is the order in which the parser tries them. Each rule
  is a definition of its own, with the pattern text of the source (a grave accent for a
  backslash), and \<open>rulesMap\<close> gathers them by line type.
\<close>

section \<open>Rules\<close>

record rule =
  r_name :: string
  r_push :: string
  r_reg :: pattern
  r_names :: "string list"
  r_types :: "char list"
  r_format :: string
  r_formatFunc :: "json \<Rightarrow> string"

text \<open>\<open>hasValue\<close>: a string that is not empty, or a number.\<close>

definition hasValue :: "json \<Rightarrow> string \<Rightarrow> bool" where
  "hasValue j key = (case jfind j key of
     None \<Rightarrow> False
   | Some (JString s) \<Rightarrow> s \<noteq> []
   | Some v \<Rightarrow> is_number v)"

text \<open>The empty \<open>std::function\<close> of a rule with a fixed format: never called.\<close>

definition noFunc :: "json \<Rightarrow> string" where "noFunc j = []"

definition rule_v_version :: rule where
  "rule_v_version = \<lparr>
     r_name = ''version'', r_push = '''',
     r_reg = regex ''^(`d*)$'',
     r_names = [], r_types = ''d'',
     r_format = ''%d'',
     r_formatFunc = noFunc \<rparr>"

definition rule_o_origin :: rule where
  "rule_o_origin = \<lparr>
     r_name = ''origin'', r_push = '''',
     r_reg = regex ''^(`S*) (`d*) (`d*) (`S*) IP(`d) (`S*)'',
     r_names = [''username'', ''sessionId'', ''sessionVersion'', ''netType'', ''ipVer'', ''address''], r_types = ''suusds'',
     r_format = ''%s %d %d %s IP%d %s'',
     r_formatFunc = noFunc \<rparr>"

definition rule_s_name :: rule where
  "rule_s_name = \<lparr>
     r_name = ''name'', r_push = '''',
     r_reg = regex ''(.*)'',
     r_names = [], r_types = ''s'',
     r_format = ''%s'',
     r_formatFunc = noFunc \<rparr>"

definition rule_i_description :: rule where
  "rule_i_description = \<lparr>
     r_name = ''description'', r_push = '''',
     r_reg = regex ''(.*)'',
     r_names = [], r_types = ''s'',
     r_format = ''%s'',
     r_formatFunc = noFunc \<rparr>"

definition rule_u_uri :: rule where
  "rule_u_uri = \<lparr>
     r_name = ''uri'', r_push = '''',
     r_reg = regex ''(.*)'',
     r_names = [], r_types = ''s'',
     r_format = ''%s'',
     r_formatFunc = noFunc \<rparr>"

definition rule_e_email :: rule where
  "rule_e_email = \<lparr>
     r_name = ''email'', r_push = '''',
     r_reg = regex ''(.*)'',
     r_names = [], r_types = ''s'',
     r_format = ''%s'',
     r_formatFunc = noFunc \<rparr>"

definition rule_p_phone :: rule where
  "rule_p_phone = \<lparr>
     r_name = ''phone'', r_push = '''',
     r_reg = regex ''(.*)'',
     r_names = [], r_types = ''s'',
     r_format = ''%s'',
     r_formatFunc = noFunc \<rparr>"

definition rule_z_timezones :: rule where
  "rule_z_timezones = \<lparr>
     r_name = ''timezones'', r_push = '''',
     r_reg = regex ''(.*)'',
     r_names = [], r_types = ''s'',
     r_format = ''%s'',
     r_formatFunc = noFunc \<rparr>"

definition rule_r_repeats :: rule where
  "rule_r_repeats = \<lparr>
     r_name = ''repeats'', r_push = '''',
     r_reg = regex ''(.*)'',
     r_names = [], r_types = ''s'',
     r_format = ''%s'',
     r_formatFunc = noFunc \<rparr>"

definition rule_t_timing :: rule where
  "rule_t_timing = \<lparr>
     r_name = ''timing'', r_push = '''',
     r_reg = regex ''^(`d*) (`d*)'',
     r_names = [''start'', ''stop''], r_types = ''dd'',
     r_format = ''%d %d'',
     r_formatFunc = noFunc \<rparr>"

definition rule_c_connection :: rule where
  "rule_c_connection = \<lparr>
     r_name = ''connection'', r_push = '''',
     r_reg = regex ''^IN IP(`d) ([^``S/]*)(?:/(`d*))?'',
     r_names = [''version'', ''ip'', ''ttl''], r_types = ''dsd'',
     r_format = '''',
     r_formatFunc = (\<lambda>o'. if hasValue o' ''ttl'' then ''IN IP%d %s/%d'' else ''IN IP%d %s'') \<rparr>"

definition rule_b_bandwidth :: rule where
  "rule_b_bandwidth = \<lparr>
     r_name = '''', r_push = ''bandwidth'',
     r_reg = regex ''^(TIAS|AS|CT|RR|RS):(`d*)'',
     r_names = [''type'', ''limit''], r_types = ''sd'',
     r_format = ''%s:%d'',
     r_formatFunc = noFunc \<rparr>"

definition rule_m_line :: rule where
  "rule_m_line = \<lparr>
     r_name = '''', r_push = '''',
     r_reg = regex ''^(`w*) (`d*)(?:/(`d*))? ([`w`/]*)(?: (.*))?'',
     r_names = [''type'', ''port'', ''numPorts'', ''protocol'', ''payloads''], r_types = ''sddss'',
     r_format = '''',
     r_formatFunc = (\<lambda>o'. if hasValue o' ''numPorts'' then ''%s %d/%d %s %s'' else ''%s %d%v %s %s'') \<rparr>"

definition rule_a_rtp :: rule where
  "rule_a_rtp = \<lparr>
     r_name = '''', r_push = ''rtp'',
     r_reg = regex ''^rtpmap:(`d*) ([`w`-`.]*)(?:`s*`/(`d*)(?:`s*`/(`S*))?)?'',
     r_names = [''payload'', ''codec'', ''rate'', ''encoding''], r_types = ''dsds'',
     r_format = '''',
     r_formatFunc = (\<lambda>o'. if hasValue o' ''encoding'' then ''rtpmap:%d %s/%s/%s''
       else if hasValue o' ''rate'' then ''rtpmap:%d %s/%s'' else ''rtpmap:%d %s'') \<rparr>"

definition rule_a_fmtp :: rule where
  "rule_a_fmtp = \<lparr>
     r_name = '''', r_push = ''fmtp'',
     r_reg = regex ''^fmtp:(`d*) (.*)'',
     r_names = [''payload'', ''config''], r_types = ''ds'',
     r_format = ''fmtp:%d %s'',
     r_formatFunc = noFunc \<rparr>"

definition rule_a_control :: rule where
  "rule_a_control = \<lparr>
     r_name = ''control'', r_push = '''',
     r_reg = regex ''^control:(.*)'',
     r_names = [], r_types = ''s'',
     r_format = ''control:%s'',
     r_formatFunc = noFunc \<rparr>"

definition rule_a_rtcp :: rule where
  "rule_a_rtcp = \<lparr>
     r_name = ''rtcp'', r_push = '''',
     r_reg = regex ''^rtcp:(`d*)(?: (`S*) IP(`d) (`S*))?'',
     r_names = [''port'', ''netType'', ''ipVer'', ''address''], r_types = ''dsds'',
     r_format = '''',
     r_formatFunc = (\<lambda>o'. if hasValue o' ''address'' then ''rtcp:%d %s IP%d %s'' else ''rtcp:%d'') \<rparr>"

definition rule_a_rtcpFbTrrInt :: rule where
  "rule_a_rtcpFbTrrInt = \<lparr>
     r_name = '''', r_push = ''rtcpFbTrrInt'',
     r_reg = regex ''^rtcp-fb:(`*|`d*) trr-int (`d*)'',
     r_names = [''payload'', ''value''], r_types = ''sd'',
     r_format = ''rtcp-fb:%s trr-int %d'',
     r_formatFunc = noFunc \<rparr>"

definition rule_a_rtcpFb :: rule where
  "rule_a_rtcpFb = \<lparr>
     r_name = '''', r_push = ''rtcpFb'',
     r_reg = regex ''^rtcp-fb:(`*|`d*) ([`w`-_]*)(?: ([`w`-_]*))?'',
     r_names = [''payload'', ''type'', ''subtype''], r_types = ''sss'',
     r_format = '''',
     r_formatFunc = (\<lambda>o'. if hasValue o' ''subtype'' then ''rtcp-fb:%s %s %s'' else ''rtcp-fb:%s %s'') \<rparr>"

definition rule_a_ext :: rule where
  "rule_a_ext = \<lparr>
     r_name = '''', r_push = ''ext'',
     r_reg = regex ''^extmap:(`d+)(?:`/(`w+))?(?: (urn:ietf:params:rtp-hdrext:encrypt))? (`S*)(?: (`S*))?'',
     r_names = [''value'', ''direction'', ''encrypt-uri'', ''uri'', ''config''], r_types = ''dssss'',
     r_format = '''',
     r_formatFunc = (\<lambda>o'. ''extmap:%d'' @
       (if hasValue o' ''direction'' then ''/%s'' else ''%v'') @
       (if hasValue o' ''encrypt-uri'' then '' %s'' else ''%v'') @
       '' %s'' @
       (if hasValue o' ''config'' then '' %s'' else '''')) \<rparr>"

definition rule_a_extmapAllowMixed :: rule where
  "rule_a_extmapAllowMixed = \<lparr>
     r_name = ''extmapAllowMixed'', r_push = '''',
     r_reg = regex ''^(extmap-allow-mixed)'',
     r_names = [], r_types = ''s'',
     r_format = ''%s'',
     r_formatFunc = noFunc \<rparr>"

definition rule_a_crypto :: rule where
  "rule_a_crypto = \<lparr>
     r_name = '''', r_push = ''crypto'',
     r_reg = regex ''^crypto:(`d*) ([`w_]*) (`S*)(?: (`S*))?'',
     r_names = [''id'', ''suite'', ''config'', ''sessionConfig''], r_types = ''dsss'',
     r_format = '''',
     r_formatFunc = (\<lambda>o'. if hasValue o' ''sessionConfig'' then ''crypto:%d %s %s %s'' else ''crypto:%d %s %s'') \<rparr>"

definition rule_a_setup :: rule where
  "rule_a_setup = \<lparr>
     r_name = ''setup'', r_push = '''',
     r_reg = regex ''^setup:(`w*)'',
     r_names = [], r_types = ''s'',
     r_format = ''setup:%s'',
     r_formatFunc = noFunc \<rparr>"

definition rule_a_mid :: rule where
  "rule_a_mid = \<lparr>
     r_name = ''mid'', r_push = '''',
     r_reg = regex ''^mid:([^`s]*)'',
     r_names = [], r_types = ''s'',
     r_format = ''mid:%s'',
     r_formatFunc = noFunc \<rparr>"

definition rule_a_msid :: rule where
  "rule_a_msid = \<lparr>
     r_name = ''msid'', r_push = '''',
     r_reg = regex ''^msid:(.*)'',
     r_names = [], r_types = ''s'',
     r_format = ''msid:%s'',
     r_formatFunc = noFunc \<rparr>"

definition rule_a_ptime :: rule where
  "rule_a_ptime = \<lparr>
     r_name = ''ptime'', r_push = '''',
     r_reg = regex ''^ptime:(`d*)'',
     r_names = [], r_types = ''d'',
     r_format = ''ptime:%d'',
     r_formatFunc = noFunc \<rparr>"

definition rule_a_maxptime :: rule where
  "rule_a_maxptime = \<lparr>
     r_name = ''maxptime'', r_push = '''',
     r_reg = regex ''^maxptime:(`d*)'',
     r_names = [], r_types = ''d'',
     r_format = ''maxptime:%d'',
     r_formatFunc = noFunc \<rparr>"

definition rule_a_direction :: rule where
  "rule_a_direction = \<lparr>
     r_name = ''direction'', r_push = '''',
     r_reg = regex ''^(sendrecv|recvonly|sendonly|inactive)'',
     r_names = [], r_types = ''s'',
     r_format = ''%s'',
     r_formatFunc = noFunc \<rparr>"

definition rule_a_icelite :: rule where
  "rule_a_icelite = \<lparr>
     r_name = ''icelite'', r_push = '''',
     r_reg = regex ''^(ice-lite)'',
     r_names = [], r_types = ''s'',
     r_format = ''%s'',
     r_formatFunc = noFunc \<rparr>"

definition rule_a_iceUfrag :: rule where
  "rule_a_iceUfrag = \<lparr>
     r_name = ''iceUfrag'', r_push = '''',
     r_reg = regex ''^ice-ufrag:(`S*)'',
     r_names = [], r_types = ''s'',
     r_format = ''ice-ufrag:%s'',
     r_formatFunc = noFunc \<rparr>"

definition rule_a_icePwd :: rule where
  "rule_a_icePwd = \<lparr>
     r_name = ''icePwd'', r_push = '''',
     r_reg = regex ''^ice-pwd:(`S*)'',
     r_names = [], r_types = ''s'',
     r_format = ''ice-pwd:%s'',
     r_formatFunc = noFunc \<rparr>"

definition rule_a_fingerprint :: rule where
  "rule_a_fingerprint = \<lparr>
     r_name = ''fingerprint'', r_push = '''',
     r_reg = regex ''^fingerprint:(`S*) (`S*)'',
     r_names = [''type'', ''hash''], r_types = ''ss'',
     r_format = ''fingerprint:%s %s'',
     r_formatFunc = noFunc \<rparr>"

definition rule_a_candidates :: rule where
  "rule_a_candidates = \<lparr>
     r_name = '''', r_push = ''candidates'',
     r_reg = regex ''^candidate:(`S*) (`d*) (`S*) (`d*) (`S*) (`d*) typ (`S*)(?: raddr (`S*) rport (`d*))?(?: tcptype (`S*))?(?: generation (`d*))?(?: network-id (`d*))?(?: network-cost (`d*))?'',
     r_names = [''foundation'', ''component'', ''transport'', ''priority'', ''ip'', ''port'', ''type'', ''raddr'', ''rport'', ''tcptype'', ''generation'', ''network-id'', ''network-cost''], r_types = ''sdsdsdssdsdddd'',
     r_format = '''',
     r_formatFunc = (\<lambda>o'. ''candidate:%s %d %s %d %s %d typ %s'' @
       (if hasValue o' ''raddr'' then '' raddr %s rport %d'' else ''%v%v'') @
       (if hasValue o' ''tcptype'' then '' tcptype %s'' else ''%v'') @
       (if hasValue o' ''generation'' then '' generation %d'' else '''') @
       (if hasValue o' ''network-id'' then '' network-id %d'' else ''%v'') @
       (if hasValue o' ''network-cost'' then '' network-cost %d'' else ''%v'')) \<rparr>"

definition rule_a_endOfCandidates :: rule where
  "rule_a_endOfCandidates = \<lparr>
     r_name = ''endOfCandidates'', r_push = '''',
     r_reg = regex ''^(end-of-candidates)'',
     r_names = [], r_types = ''s'',
     r_format = ''%s'',
     r_formatFunc = noFunc \<rparr>"

definition rule_a_remoteCandidates :: rule where
  "rule_a_remoteCandidates = \<lparr>
     r_name = ''remoteCandidates'', r_push = '''',
     r_reg = regex ''^remote-candidates:(.*)'',
     r_names = [], r_types = ''s'',
     r_format = ''remote-candidates:%s'',
     r_formatFunc = noFunc \<rparr>"

definition rule_a_iceOptions :: rule where
  "rule_a_iceOptions = \<lparr>
     r_name = ''iceOptions'', r_push = '''',
     r_reg = regex ''^ice-options:(`S*)'',
     r_names = [], r_types = ''s'',
     r_format = ''ice-options:%s'',
     r_formatFunc = noFunc \<rparr>"

definition rule_a_ssrcs :: rule where
  "rule_a_ssrcs = \<lparr>
     r_name = '''', r_push = ''ssrcs'',
     r_reg = regex ''^ssrc:(`d*) ([`w_-]*)(?::(.*))?'',
     r_names = [''id'', ''attribute'', ''value''], r_types = ''dss'',
     r_format = '''',
     r_formatFunc = (\<lambda>o'. ''ssrc:%d'' @
       (if hasValue o' ''attribute''
        then '' %s'' @ (if hasValue o' ''value'' then '':%s'' else '''') else '''')) \<rparr>"

definition rule_a_ssrcGroups :: rule where
  "rule_a_ssrcGroups = \<lparr>
     r_name = '''', r_push = ''ssrcGroups'',
     r_reg = regex (''^ssrc-group:([!#$%&'' @ [CHR 0x27] @ ''*+-.`w]*) (.*)''),
     r_names = [''semantics'', ''ssrcs''], r_types = ''ss'',
     r_format = ''ssrc-group:%s %s'',
     r_formatFunc = noFunc \<rparr>"

definition rule_a_msidSemantic :: rule where
  "rule_a_msidSemantic = \<lparr>
     r_name = ''msidSemantic'', r_push = '''',
     r_reg = regex ''^msid-semantic:`s?(`w*) (`S*)'',
     r_names = [''semantic'', ''token''], r_types = ''ss'',
     r_format = ''msid-semantic: %s %s'',
     r_formatFunc = noFunc \<rparr>"

definition rule_a_groups :: rule where
  "rule_a_groups = \<lparr>
     r_name = '''', r_push = ''groups'',
     r_reg = regex ''^group:(`w*) (.*)'',
     r_names = [''type'', ''mids''], r_types = ''ss'',
     r_format = ''group:%s %s'',
     r_formatFunc = noFunc \<rparr>"

definition rule_a_rtcpMux :: rule where
  "rule_a_rtcpMux = \<lparr>
     r_name = ''rtcpMux'', r_push = '''',
     r_reg = regex ''^(rtcp-mux)'',
     r_names = [], r_types = ''s'',
     r_format = ''%s'',
     r_formatFunc = noFunc \<rparr>"

definition rule_a_rtcpRsize :: rule where
  "rule_a_rtcpRsize = \<lparr>
     r_name = ''rtcpRsize'', r_push = '''',
     r_reg = regex ''^(rtcp-rsize)'',
     r_names = [], r_types = ''s'',
     r_format = ''%s'',
     r_formatFunc = noFunc \<rparr>"

definition rule_a_sctpmap :: rule where
  "rule_a_sctpmap = \<lparr>
     r_name = ''sctpmap'', r_push = '''',
     r_reg = regex ''^sctpmap:(`d+) (`S*)(?: (`d*))?'',
     r_names = [''sctpmapNumber'', ''app'', ''maxMessageSize''], r_types = ''dsd'',
     r_format = '''',
     r_formatFunc = (\<lambda>o'. if hasValue o' ''maxMessageSize'' then ''sctpmap:%s %s %s'' else ''sctpmap:%s %s'') \<rparr>"

definition rule_a_xGoogleFlag :: rule where
  "rule_a_xGoogleFlag = \<lparr>
     r_name = ''xGoogleFlag'', r_push = '''',
     r_reg = regex ''x-google-flag:([^`s]*)'',
     r_names = [], r_types = ''s'',
     r_format = ''x-google-flag:%s'',
     r_formatFunc = noFunc \<rparr>"

definition rule_a_rids :: rule where
  "rule_a_rids = \<lparr>
     r_name = '''', r_push = ''rids'',
     r_reg = regex ''^rid:([`d`w]+) (`w+)(?: (.*))?'',
     r_names = [''id'', ''direction'', ''params''], r_types = ''sss'',
     r_format = '''',
     r_formatFunc = (\<lambda>o'. if hasValue o' ''params'' then ''rid:%s %s %s'' else ''rid:%s %s'') \<rparr>"

definition rule_a_imageattrs :: rule where
  "rule_a_imageattrs = \<lparr>
     r_name = '''', r_push = ''imageattrs'',
     r_reg = regex ''^imageattr:(`d+|`*)[`s`t]+(send|recv)[`s`t]+(`*|`[`S+`](?:[`s`t]+`[`S+`])*)(?:[`s`t]+(recv|send)[`s`t]+(`*|`[`S+`](?:[`s`t]+`[`S+`])*))?'',
     r_names = [''pt'', ''dir1'', ''attrs1'', ''dir2'', ''attrs2''], r_types = ''sssss'',
     r_format = '''',
     r_formatFunc = (\<lambda>o'. ''imageattr:%s %s %s'' @ (if hasValue o' ''dir2'' then '' %s %s'' else '''')) \<rparr>"

definition rule_a_simulcast :: rule where
  "rule_a_simulcast = \<lparr>
     r_name = ''simulcast'', r_push = '''',
     r_reg = regex ''^simulcast:(send|recv) ([a-zA-Z0-9`-_~;,]+)(?:`s?(send|recv) ([a-zA-Z0-9`-_~;,]+))?$'',
     r_names = [''dir1'', ''list1'', ''dir2'', ''list2''], r_types = ''ssss'',
     r_format = '''',
     r_formatFunc = (\<lambda>o'. ''simulcast:%s %s'' @ (if hasValue o' ''dir2'' then '' %s %s'' else '''')) \<rparr>"

definition rule_a_simulcast_03 :: rule where
  "rule_a_simulcast_03 = \<lparr>
     r_name = ''simulcast_03'', r_push = '''',
     r_reg = regex ''^simulcast: (.+)$'',
     r_names = [''value''], r_types = ''s'',
     r_format = ''simulcast: %s'',
     r_formatFunc = noFunc \<rparr>"

definition rule_a_framerate :: rule where
  "rule_a_framerate = \<lparr>
     r_name = ''framerate'', r_push = '''',
     r_reg = regex ''^framerate:(`d+(?:$|`.`d+))'',
     r_names = [], r_types = ''f'',
     r_format = ''framerate:%s'',
     r_formatFunc = noFunc \<rparr>"

definition rule_a_sourceFilter :: rule where
  "rule_a_sourceFilter = \<lparr>
     r_name = ''sourceFilter'', r_push = '''',
     r_reg = regex ''^source-filter:[`s`t]*(excl|incl) (`S*) (IP4|IP6|`*) (`S*) (.*)'',
     r_names = [''filterMode'', ''netType'', ''addressTypes'', ''destAddress'', ''srcList''], r_types = ''sssss'',
     r_format = ''source-filter: %s %s %s %s %s'',
     r_formatFunc = noFunc \<rparr>"

definition rule_a_tsRefclk :: rule where
  "rule_a_tsRefclk = \<lparr>
     r_name = ''tsRefclk'', r_push = '''',
     r_reg = regex ''^ts-refclk:(.*)'',
     r_names = [], r_types = ''s'',
     r_format = ''ts-refclk:%s'',
     r_formatFunc = noFunc \<rparr>"

definition rule_a_mediaclk :: rule where
  "rule_a_mediaclk = \<lparr>
     r_name = ''mediaclk'', r_push = '''',
     r_reg = regex ''^mediaclk:(.*)'',
     r_names = [], r_types = ''s'',
     r_format = ''mediaclk:%s'',
     r_formatFunc = noFunc \<rparr>"

definition rule_a_invalid :: rule where
  "rule_a_invalid = \<lparr>
     r_name = '''', r_push = ''invalid'',
     r_reg = regex ''(.*)'',
     r_names = [''value''], r_types = ''s'',
     r_format = ''%s'',
     r_formatFunc = noFunc \<rparr>"

section \<open>The map from line type to rules\<close>

definition rules_a :: "rule list" where
  "rules_a = [rule_a_rtp, rule_a_fmtp, rule_a_control, rule_a_rtcp, rule_a_rtcpFbTrrInt, rule_a_rtcpFb, rule_a_ext, rule_a_extmapAllowMixed, rule_a_crypto, rule_a_setup, rule_a_mid, rule_a_msid, rule_a_ptime, rule_a_maxptime, rule_a_direction, rule_a_icelite, rule_a_iceUfrag, rule_a_icePwd, rule_a_fingerprint, rule_a_candidates, rule_a_endOfCandidates, rule_a_remoteCandidates, rule_a_iceOptions, rule_a_ssrcs, rule_a_ssrcGroups, rule_a_msidSemantic, rule_a_groups, rule_a_rtcpMux, rule_a_rtcpRsize, rule_a_sctpmap, rule_a_xGoogleFlag, rule_a_rids, rule_a_imageattrs, rule_a_simulcast, rule_a_simulcast_03, rule_a_framerate, rule_a_sourceFilter, rule_a_tsRefclk, rule_a_mediaclk, rule_a_invalid]"

definition rulesMap :: "(char \<times> rule list) list" where
  "rulesMap = [
     (CHR ''v'', [rule_v_version]),
     (CHR ''o'', [rule_o_origin]),
     (CHR ''s'', [rule_s_name]),
     (CHR ''i'', [rule_i_description]),
     (CHR ''u'', [rule_u_uri]),
     (CHR ''e'', [rule_e_email]),
     (CHR ''p'', [rule_p_phone]),
     (CHR ''z'', [rule_z_timezones]),
     (CHR ''r'', [rule_r_repeats]),
     (CHR ''t'', [rule_t_timing]),
     (CHR ''c'', [rule_c_connection]),
     (CHR ''b'', [rule_b_bandwidth]),
     (CHR ''m'', [rule_m_line]),
     (CHR ''a'', rules_a)]"

definition rules_of :: "char \<Rightarrow> rule list option" where
  "rules_of c = map_of rulesMap c"

definition all_rules :: "rule list" where
  "all_rules = concat (map snd rulesMap)"

lemmas rule_defs =
  rule_v_version_def
  rule_o_origin_def
  rule_s_name_def
  rule_i_description_def
  rule_u_uri_def
  rule_e_email_def
  rule_p_phone_def
  rule_z_timezones_def
  rule_r_repeats_def
  rule_t_timing_def
  rule_c_connection_def
  rule_b_bandwidth_def
  rule_m_line_def
  rule_a_rtp_def
  rule_a_fmtp_def
  rule_a_control_def
  rule_a_rtcp_def
  rule_a_rtcpFbTrrInt_def
  rule_a_rtcpFb_def
  rule_a_ext_def
  rule_a_extmapAllowMixed_def
  rule_a_crypto_def
  rule_a_setup_def
  rule_a_mid_def
  rule_a_msid_def
  rule_a_ptime_def
  rule_a_maxptime_def
  rule_a_direction_def
  rule_a_icelite_def
  rule_a_iceUfrag_def
  rule_a_icePwd_def
  rule_a_fingerprint_def
  rule_a_candidates_def
  rule_a_endOfCandidates_def
  rule_a_remoteCandidates_def
  rule_a_iceOptions_def
  rule_a_ssrcs_def
  rule_a_ssrcGroups_def
  rule_a_msidSemantic_def
  rule_a_groups_def
  rule_a_rtcpMux_def
  rule_a_rtcpRsize_def
  rule_a_sctpmap_def
  rule_a_xGoogleFlag_def
  rule_a_rids_def
  rule_a_imageattrs_def
  rule_a_simulcast_def
  rule_a_simulcast_03_def
  rule_a_framerate_def
  rule_a_sourceFilter_def
  rule_a_tsRefclk_def
  rule_a_mediaclk_def
  rule_a_invalid_def

section \<open>Well-formedness of the grammar\<close>

text \<open>
  What the parser relies on, rule by rule: the pattern compiles, there is a type for
  every name (one type for a rule without names), and every name has a capture group.
\<close>

definition rule_ok :: "rule \<Rightarrow> bool" where
  "rule_ok r =
     (pat_re (r_reg r) \<noteq> Class False []
      \<and> (if r_names r = [] then length (r_types r) = 1 \<and> groups (pat_re (r_reg r)) = 1
         else length (r_names r) \<le> length (r_types r)
              \<and> length (r_names r) = groups (pat_re (r_reg r))))"

lemmas grammar_simps = rule_defs regex_def compiled

lemma rules_a_ok: "list_all rule_ok rules_a"
  by (simp add: rules_a_def rule_ok_def grammar_simps)

lemma all_rules_ok: "list_all rule_ok all_rules"
  using rules_a_ok
  by (simp add: all_rules_def rulesMap_def rule_ok_def grammar_simps)

lemma rules_of_ok: "rules_of c = Some rs \<Longrightarrow> r \<in> set rs \<Longrightarrow> rule_ok r"
  using all_rules_ok
  by (force simp: rules_of_def all_rules_def list_all_iff dest: map_of_SomeD)

end
