(* ===== verification/RegexFacts.thy ===== *)
theory RegexFacts
  imports Regex "HOL-Library.Sublist"
begin

text \<open>
  Facts on the matcher: every result is a suffix of the text it started from, more fuel
  than the text has characters changes nothing, a match splits the text, every capture
  is a part of the text, and a starred character class tries the longest run first.
\<close>

section \<open>What a match consumes\<close>

definition consumes :: "mstate \<Rightarrow> mstate \<Rightarrow> bool" where
  "consumes st st' = suffix (fst st') (fst st)"

lemma consumes_refl [simp]: "consumes st st"
  by (simp add: consumes_def)

lemma consumes_trans: "consumes a b \<Longrightarrow> consumes b c \<Longrightarrow> consumes a c"
  by (auto simp: consumes_def)

lemma consumes_tl [simp]: "x # xs = fst st \<Longrightarrow> consumes st (xs, c)" "fst st = x # xs \<Longrightarrow> consumes st (xs, c)"
  by (cases st; auto simp: consumes_def suffix_ConsI)+

lemma rep_0 [simp]: "rep f 0 hi 0 st = [st]"
  by (cases hi; cases "the hi") auto

lemma rep_Some_0 [simp]: "rep f 0 (Some 0) n st = [st]"
  by simp

lemma rep_Suc: "hi \<noteq> Some 0 \<Longrightarrow> rep f 0 hi (Suc fuel) st =
    concat (map (rep f 0 (map_option (\<lambda>n. n - 1) hi) fuel)
      (filter (\<lambda>st'. length (fst st') < length (fst st)) (f st))) @ [st]"
  by (cases hi) (auto simp: gr0_conv_Suc)

lemma rep_0_consumes:
  assumes "\<And>st st'. st' \<in> set (f st) \<Longrightarrow> consumes st st'"
  shows "st' \<in> set (rep f 0 hi fuel st) \<Longrightarrow> consumes st st'"
proof (induction fuel arbitrary: hi st)
  case (Suc fuel)
  show ?case
  proof (cases "hi = Some 0")
    case False
    with Suc.prems consider "st' = st"
      | u where "u \<in> set (f st)" "st' \<in> set (rep f 0 (map_option (\<lambda>n. n - 1) hi) fuel u)"
      by (auto simp: rep_Suc)
    then show ?thesis by cases (auto dest: assms Suc.IH intro: consumes_trans)
  qed (use Suc.prems in simp)
qed simp

lemma rep_consumes:
  assumes "\<And>st st'. st' \<in> set (f st) \<Longrightarrow> consumes st st'"
  shows "st' \<in> set (rep f lo hi fuel st) \<Longrightarrow> consumes st st'"
proof (induction lo arbitrary: st)
  case (Suc lo)
  then show ?case by (auto dest: assms intro: consumes_trans)
qed (rule rep_0_consumes [OF assms])

lemma run_consumes: "st' \<in> set (run ic L r st) \<Longrightarrow> consumes st st'"
proof (induction r arbitrary: st st')
  case (Seq a b)
  then obtain u where "u \<in> set (run ic L a st)" "st' \<in> set (run ic L b u)" by auto
  then show ?case by (auto dest: Seq.IH intro: consumes_trans)
next
  case (Group k r)
  then obtain u where "u \<in> set (run ic L r st)" "fst st' = fst u" by auto
  with Group.IH [of u st] show ?case by (simp add: consumes_def)
next
  case (Quant lo hi r)
  then show ?case by (auto dest: rep_consumes [rotated])
qed (auto split: list.splits if_splits)

lemma consumes_length: "consumes st st' \<Longrightarrow> length (fst st') \<le> length (fst st)"
  by (auto simp: consumes_def dest: suffix_length_le)

text \<open>More fuel than the text has characters changes nothing.\<close>

lemma rep_fuel_0:
  "length (fst st) \<le> n \<Longrightarrow> n \<le> m \<Longrightarrow> rep f 0 hi m st = rep f 0 hi n st"
proof (induction n arbitrary: m hi st)
  case 0
  then show ?case by (cases m; cases "hi = Some 0") (auto simp: rep_Suc simp del: rep.simps)
next
  case (Suc n)
  then obtain k where m: "m = Suc k" and "n \<le> k" by (cases m) auto
  let ?g = "rep f 0 (map_option (\<lambda>n. n - 1) hi)"
    and ?F = "filter (\<lambda>st'. length (fst st') < length (fst st)) (f st)"
  have "?g k st' = ?g n st'" if "st' \<in> set ?F" for st'
    using that Suc.prems \<open>n \<le> k\<close> by (intro Suc.IH) auto
  then have "map (?g k) ?F = map (?g n) ?F" by (rule map_cong [OF refl])
  then show ?case by (cases "hi = Some 0") (simp_all only: m rep_Suc rep_Some_0 simp_thms)
qed

lemma rep_fuel:
  assumes "\<And>st st'. st' \<in> set (f st) \<Longrightarrow> consumes st st'"
    and "length (fst st) \<le> n" "n \<le> m"
  shows "rep f lo hi m st = rep f lo hi n st"
  using assms(2)
proof (induction lo arbitrary: st)
  case (Suc lo)
  have "rep f lo hi m st' = rep f lo hi n st'" if "st' \<in> set (f st)" for st'
    using that Suc.prems consumes_length [OF assms(1) [OF that]] by (intro Suc.IH) simp
  then show ?case by (simp cong: map_cong)
qed (rule rep_fuel_0 [OF _ assms(3)])

section \<open>What a search reports\<close>

lemma search_from_split:
  "search_from p L pre s = Some m \<Longrightarrow> rev pre @ s = m_prefix m @ mgroup m 0 @ m_suffix m"
proof (induction p L pre s rule: search_from.induct)
  case (1 p L pre s)
  show ?case
  proof (cases "run (pat_icase p) L (pat_re p) (s, [])")
    case Nil
    with 1 show ?thesis by (simp add: search_from.simps [of p L pre s] split: list.splits)
  next
    case (Cons st sts)
    then have "suffix (fst st) s"
      using run_consumes [of st "pat_icase p" L "pat_re p" "(s, [])"] by (simp add: consumes_def)
    then have "take (length s - length (fst st)) s @ fst st = s"
      by (auto simp: suffix_def)
    moreover have "m = \<lparr> m_prefix = rev pre,
        m_groups = (0, take (length s - length (fst st)) s) # snd st, m_suffix = fst st \<rparr>"
      using 1(2) Cons by (simp add: search_from.simps [of p L pre s])
    ultimately show ?thesis by (simp add: mgroup_def)
  qed
qed

text \<open>The prefix, the matched text and the suffix are the searched text.\<close>

lemma search_split: "regex_search p s = Some m \<Longrightarrow> s = m_prefix m @ mgroup m 0 @ m_suffix m"
  using search_from_split [of p "length s" "[]" s m] by (simp add: regex_search_def)

text \<open>A capture holds characters of the searched text only: the rest and the captures
  stay within a set of characters.\<close>

definition within :: "char set \<Rightarrow> mstate \<Rightarrow> bool" where
  "within A st = (set (fst st) \<subseteq> A \<and> (\<forall>w \<in> snd ` set (snd st). set w \<subseteq> A))"

lemma rep_0_within:
  assumes "\<And>st st'. within A st \<Longrightarrow> st' \<in> set (f st) \<Longrightarrow> within A st'"
  shows "within A st \<Longrightarrow> st' \<in> set (rep f 0 hi fuel st) \<Longrightarrow> within A st'"
proof (induction fuel arbitrary: hi st)
  case (Suc fuel)
  show ?case
  proof (cases "hi = Some 0")
    case False
    with Suc.prems(2) consider "st' = st"
      | u where "u \<in> set (f st)" "st' \<in> set (rep f 0 (map_option (\<lambda>n. n - 1) hi) fuel u)"
      by (auto simp: rep_Suc)
    then show ?thesis using Suc.prems(1) by cases (auto dest: assms Suc.IH)
  qed (use Suc.prems in simp)
qed simp

lemma rep_within:
  assumes "\<And>st st'. within A st \<Longrightarrow> st' \<in> set (f st) \<Longrightarrow> within A st'"
  shows "within A st \<Longrightarrow> st' \<in> set (rep f lo hi fuel st) \<Longrightarrow> within A st'"
proof (induction lo arbitrary: st)
  case (Suc lo)
  then obtain u where "u \<in> set (f st)" "st' \<in> set (rep f lo hi fuel u)" by auto
  with assms [OF Suc.prems(1)] Suc.IH show ?case by blast
qed (rule rep_0_within [OF assms])

lemma within_tl: "within A st \<Longrightarrow> fst st = x # xs \<Longrightarrow> within A (xs, snd st)"
  by (simp add: within_def)

lemma run_within: "within A st \<Longrightarrow> st' \<in> set (run ic L r st) \<Longrightarrow> within A st'"
proof (induction r arbitrary: st st')
  case (Seq a b)
  from Seq.prems(2) obtain u where u: "u \<in> set (run ic L a st)" "st' \<in> set (run ic L b u)" by auto
  show ?case by (rule Seq.IH(2) [OF Seq.IH(1) [OF Seq.prems(1) u(1)] u(2)])
next
  case (Alt a b)
  from Alt.prems(2) consider "st' \<in> set (run ic L a st)" | "st' \<in> set (run ic L b st)" by auto
  then show ?case using Alt.IH Alt.prems(1) by cases blast+
next
  case (Group k r)
  from Group.prems(2) obtain u where u: "u \<in> set (run ic L r st)" "fst st' = fst u"
    "snd st' = (k, take (length (fst st) - length (fst st')) (fst st)) # snd u" by auto
  with Group.IH [OF Group.prems(1) u(1)] Group.prems(1) show ?case
    by (auto simp: within_def dest: in_set_takeD)
next
  case (Quant lo hi r)
  show ?case
  proof (rule rep_within [where f = "run ic L r"])
    show "st' \<in> set (rep (run ic L r) lo (map_option (\<lambda>h. h - lo) hi) (length (fst st)) st)"
      using Quant.prems(2) by simp
  qed (use Quant.prems(1) Quant.IH in blast)+
qed (auto intro: within_tl split: list.splits if_splits)

lemma search_from_within:
  "search_from p L pre s = Some m \<Longrightarrow> set s \<subseteq> A \<Longrightarrow> (k, w) \<in> set (m_groups m) \<Longrightarrow> set w \<subseteq> A"
proof (induction p L pre s rule: search_from.induct)
  case (1 p L pre s)
  show ?case
  proof (cases "run (pat_icase p) L (pat_re p) (s, [])")
    case Nil
    then obtain c cs where "s = c # cs" "search_from p L (c # pre) cs = Some m"
      using 1(2) by (auto simp: search_from.simps [of p L pre s] split: list.splits)
    with 1(1) [OF Nil] 1(3,4) show ?thesis by simp
  next
    case (Cons st sts)
    have st: "within A st"
      by (rule run_within [of A "(s, [])" _ "pat_icase p" L "pat_re p"])
        (use 1(3) Cons in \<open>simp_all add: within_def\<close>)
    have "m_groups m = (0, take (length s - length (fst st)) s) # snd st"
      using 1(2) Cons by (auto simp: search_from.simps [of p L pre s])
    with 1(4) consider "w = take (length s - length (fst st)) s" | "(k, w) \<in> set (snd st)" by auto
    then show ?thesis
    proof cases
      case 1
      then show ?thesis using \<open>set s \<subseteq> A\<close> set_take_subset by fastforce
    next
      case 2 then show ?thesis using st by (force simp: within_def)
    qed
  qed
qed

lemma mgroup_search:
  assumes "regex_search p s = Some m"
  shows "set (mgroup m k) \<subseteq> set s"
proof (cases "map_of (m_groups m) k")
  case (Some w)
  then have "(k, w) \<in> set (m_groups m)" by (rule map_of_SomeD)
  with assms Some show ?thesis
    using search_from_within [of p "length s" "[]" s m "set s" k w]
    by (simp add: regex_search_def mgroup_def)
qed (simp add: mgroup_def)

section \<open>Literal words and stars\<close>

fun lits :: "string \<Rightarrow> re" where
  "lits [] = Empty"
| "lits [c] = Lit c"
| "lits (c # d # cs) = Seq (Lit c) (lits (d # cs))"

lemma run_Lit: "run ic L (Lit c) (s, g) = (case s of [] \<Rightarrow> [] | x # xs \<Rightarrow> if char_eq ic x c then [(xs, g)] else [])"
  by (cases s) simp_all

lemma run_lits:
  "run ic L (lits w) (s, g) =
     (if length w \<le> length s \<and> list_all2 (char_eq ic) (take (length w) s) w
      then [(drop (length w) s, g)] else [])"
proof (induction w arbitrary: s rule: lits.induct)
  case (2 c)
  then show ?case by (cases s) (simp_all add: run_Lit del: run.simps)
next
  case (3 c d cs)
  show ?case
  proof (cases s)
    case (Cons x xs)
    then show ?thesis using 3 [of xs] by (cases "char_eq ic x c") (simp_all add: run_Lit del: run.simps(2))
  qed simp
qed simp

text \<open>Greedy repetition of a matcher that takes one character satisfying \<open>P\<close>.\<close>

lemma rep_star:
  assumes f: "\<And>xs. f (xs, c) = (case xs of [] \<Rightarrow> [] | x # ys \<Rightarrow> if P x then [(ys, c)] else [])"
  shows "length s \<le> fuel \<Longrightarrow> rep f 0 None fuel (s, c) =
    map (\<lambda>k. (drop k s, c)) (rev [0..<Suc (length (takeWhile P s))])"
proof (induction fuel arbitrary: s)
  case (Suc fuel)
  show ?case
  proof (cases s)
    case (Cons x xs)
    with Suc show ?thesis
      by (cases "P x")
        (simp_all add: rep_Suc f rev_map upt_conv_Cons map_Suc_upt [symmetric] o_def del: upt_Suc rep.simps)
  qed (simp add: rep_Suc f del: rep.simps)
qed simp

lemma run_AnyChar: "run ic L AnyChar (xs, c) = (case xs of [] \<Rightarrow> [] | x # ys \<Rightarrow> if \<not> is_eol x then [(ys, c)] else [])"
  by (cases xs) simp_all

lemma run_Class_case:
  "run ic L (Class neg its) (xs, c) = (case xs of [] \<Rightarrow> [] | x # ys \<Rightarrow> if in_class neg its x then [(ys, c)] else [])"
  by (cases xs) simp_all

lemma run_star:
  assumes "\<And>xs. run ic L r (xs, c) = (case xs of [] \<Rightarrow> [] | x # ys \<Rightarrow> if P x then [(ys, c)] else [])"
  shows "run ic L (Quant 0 None r) (s, c) = map (\<lambda>k. (drop k s, c)) (rev [0..<Suc (length (takeWhile P s))])"
  using rep_star [OF assms, of s "length s"] by simp

lemma run_plus:
  assumes "\<And>xs. run ic L r (xs, c) = (case xs of [] \<Rightarrow> [] | x # ys \<Rightarrow> if P x then [(ys, c)] else [])"
  shows "run ic L (Quant 1 None r) (s, c) = map (\<lambda>k. (drop k s, c)) (rev [1..<Suc (length (takeWhile P s))])"
proof (cases s)
  case (Cons x xs)
  then show ?thesis
    using rep_star [OF assms, of xs "length s"] assms [of s]
    by (cases "P x") (simp_all add: rev_map map_Suc_upt [symmetric] o_def del: upt_Suc)
qed (simp add: assms)

end
