(* ===== verification/SdpParser.thy ===== *)
theory SdpParser
  imports SdpGrammar RegexFacts
begin

text \<open>
  \<open>sdptransform::parse\<close> and its helpers (\<open>mssdk/json/parser.cpp\<close>): a loop over the lines
  of the text, each valid line tried against the rules of its type, the captures of the
  first rule that matches stored in the session or in the latest media section.
\<close>

section \<open>Typed values\<close>

text \<open>\<open>toType\<close>: \<open>long\<close> of \<open>isInt\<close> has 32 bits on the platform of the program.\<close>

definition toType :: "string \<Rightarrow> char \<Rightarrow> json" where
  "toType str type =
     (if type = CHR ''s'' then JString str
      else if type = CHR ''u'' then
        (case stream_uint 64 str of Some ll \<Rightarrow> JUint (of_int ll) | None \<Rightarrow> JUint 0)
      else if type = CHR ''d'' then
        (case stream_int 64 str of Some ll \<Rightarrow> JInt (of_int ll) | None \<Rightarrow> JInt 0)
      else if type = CHR ''f'' then
        (case stream_double str of Some d \<Rightarrow> JFloat d | None \<Rightarrow> JFloat 0)
      else JNull)"

definition isInt :: "string \<Rightarrow> bool" where
  "isInt str = (stream_int 32 str \<noteq> None)"

definition isFloat :: "string \<Rightarrow> bool" where
  "isFloat str = stream_float_ok str"

section \<open>Storing the captures\<close>

text \<open>\<open>attachProperties\<close>: \<open>msize\<close> is \<open>match.size()\<close> and \<open>sub k\<close> is \<open>match[k].str()\<close>.\<close>

definition attachProperties ::
    "nat \<Rightarrow> (nat \<Rightarrow> string) \<Rightarrow> json \<Rightarrow> string list \<Rightarrow> string \<Rightarrow> char list \<Rightarrow> json res" where
  "attachProperties msize sub location names rawName types =
     (if rawName \<noteq> [] \<and> names = [] then
        (case types of
           [] \<Rightarrow> Inl (Undefined ''types[0]'')
         | t # _ \<Rightarrow> jset location rawName (toType (sub 1) t))
      else
        foldE (\<lambda>(i, name) loc.
            if i + 1 < msize \<and> sub (i + 1) \<noteq> [] then
              (if i < length types then jset loc name (toType (sub (i + 1)) (types ! i))
               else Inl (Undefined ''types[i]''))
            else Inr loc)
          (enumerate 0 names) location)"

text \<open>\<open>parseReg\<close>: a rule with \<open>push\<close> appends a new object to the array of that name, a
  named rule with several names fills the object of that name, any other rule writes
  into the location itself.\<close>

definition needsBlank :: "rule \<Rightarrow> bool" where
  "needsBlank r = (r_name r \<noteq> [] \<and> r_names r \<noteq> [])"

definition parseReg :: "rule \<Rightarrow> json \<Rightarrow> string \<Rightarrow> json res" where
  "parseReg r location content =
     bindE (if r_push r \<noteq> [] \<and> jfind location (r_push r) = None
              then jset location (r_push r) jarray_empty
            else if needsBlank r \<and> jfind location (r_name r) = None
              then jset location (r_name r) jobject_empty
            else Inr location) (\<lambda>loc.
     let m = regex_search (r_reg r) content;
         msize = (case m of None \<Rightarrow> 0 | Some _ \<Rightarrow> groups (pat_re (r_reg r)) + 1);
         sub = (\<lambda>k. case m of None \<Rightarrow> [] | Some mr \<Rightarrow> mgroup mr k);
         attach = (\<lambda>at. attachProperties msize sub at (r_names r) (r_name r) (r_types r))
     in if r_push r \<noteq> [] then
          bindE (attach jobject_empty) (\<lambda>object.
          bindE (jref loc (r_push r)) (\<lambda>(arr, loc').
          bindE (jpush arr object) (\<lambda>arr'. jset loc' (r_push r) arr')))
        else if needsBlank r then
          bindE (jref loc (r_name r)) (\<lambda>(inner, loc').
          bindE (attach inner) (\<lambda>inner'. jset loc' (r_name r) inner'))
        else attach loc)"

section \<open>The parser\<close>

text \<open>The state of the loop: the session, the media sections, and whether \<open>location\<close>
  points at the last media section or at the session.\<close>

record parser =
  p_session :: json
  p_media :: "json list"
  p_in_media :: bool

definition ValidLineRegex :: pattern where
  "ValidLineRegex = regex ''^([a-z])=(.*)''"

definition location_of :: "parser \<Rightarrow> json" where
  "location_of st = (if p_in_media st then last (p_media st) else p_session st)"

definition set_location :: "parser \<Rightarrow> json \<Rightarrow> parser" where
  "set_location st j =
     (if p_in_media st then st \<lparr> p_media := butlast (p_media st) @ [j] \<rparr>
      else st \<lparr> p_session := j \<rparr>)"

text \<open>\<open>if (line[line.length() - 1] == '\r') line.pop_back();\<close>\<close>

definition drop_cr :: "string \<Rightarrow> string" where
  "drop_cr line = (if line \<noteq> [] \<and> last line = CHR 0x0D then butlast line else line)"

definition blank_media :: json where
  "blank_media = jobj [(''rtp'', jarray_empty), (''fmtp'', jarray_empty)]"

text \<open>The body of the loop, once the line is known to be \<open>type=content\<close>.\<close>

definition parse_content :: "char \<Rightarrow> string \<Rightarrow> parser \<Rightarrow> parser res" where
  "parse_content type content st =
     (let st1 = (if type = CHR ''m''
                 then st \<lparr> p_media := p_media st @ [blank_media], p_in_media := True \<rparr> else st)
      in case rules_of type of
           None \<Rightarrow> Inr st1
         | Some rules \<Rightarrow>
             (case find (\<lambda>r. regex_search (r_reg r) content \<noteq> None) rules of
                None \<Rightarrow> Inr st1
              | Some rule \<Rightarrow>
                  bindE (parseReg rule (location_of st1) content) (\<lambda>j. Inr (set_location st1 j))))"

definition parse_line :: "string \<Rightarrow> parser \<Rightarrow> parser res" where
  "parse_line line0 st =
     (let line = drop_cr line0 in
      if regex_search ValidLineRegex line = None then Inr st
      else parse_content (hd line) (drop 2 line) st)"

definition parser_init :: parser where
  "parser_init = \<lparr> p_session = jobject_empty, p_media = [], p_in_media = False \<rparr>"

definition parse :: "string \<Rightarrow> json res" where
  "parse sdp =
     bindE (foldE parse_line (getlines (CHR 0x0A) sdp) parser_init) (\<lambda>st.
     jset (p_session st) ''media'' (JArray (p_media st)))"

section \<open>Parsing the values of attributes\<close>

definition KeyValueRegex :: pattern where
  "KeyValueRegex = regex ''^`s*([^= ]+)(?:`s*=`s*([^ ]+))?$''"

definition WellKnownParameters :: "string \<rightharpoonup> char" where
  "WellKnownParameters = map_of
     [(''profile-level-id'', CHR ''s''), (''packetization-mode'', CHR ''d''), (''profile-id'', CHR ''s'')]"

definition insertParam :: "json \<Rightarrow> string \<Rightarrow> json res" where
  "insertParam j str =
     (case regex_match KeyValueRegex str of
        None \<Rightarrow> Inr j
      | Some m \<Rightarrow>
          let param = mgroup m 1; value = mgroup m 2;
              type = (case WellKnownParameters param of Some t \<Rightarrow> t
                      | None \<Rightarrow> if isInt value then CHR ''d''
                               else if isFloat value then CHR ''f'' else CHR ''s'')
          in jset j param (toType value type))"

definition insert_trimmed :: "string \<Rightarrow> json \<Rightarrow> json res" where
  "insert_trimmed param j =
     (let p = trim param in if p = [] then Inr j else insertParam j p)"

definition parseParams :: "string \<Rightarrow> json res" where
  "parseParams str = foldE insert_trimmed (getlines (CHR '';'') str) jobject_empty"

definition parsePayloads :: "string \<Rightarrow> int list res" where
  "parsePayloads str = mapE stoi (getlines (CHR '' '') str)"

text \<open>One item between brackets: \<open>[x=1280,y=720]\<close>.\<close>

definition image_item :: "string \<Rightarrow> json res" where
  "image_item item =
     foldE insert_trimmed (getlines (CHR '','') (take (length item - 2) (drop 1 item))) jobject_empty"

fun image_items :: "string list \<Rightarrow> json list \<Rightarrow> json res" where
  "image_items [] arr = Inr (JArray arr)"
| "image_items (s # ss) arr =
     (let item = trim s in
      if item = ''*'' then Inr (JString item)
      else if length item < 5 then image_items ss arr
      else bindE (image_item item) (\<lambda>obj. image_items ss (arr @ [obj])))"

definition parseImageAttributes :: "string \<Rightarrow> json res" where
  "parseImageAttributes str = image_items (getlines (CHR '' '') str) []"

definition simulcast_format :: "string \<Rightarrow> json" where
  "simulcast_format format =
     (if hd format \<noteq> CHR ''~''
      then jobj [(''scid'', JString format), (''paused'', JBool False)]
      else jobj [(''scid'', JString (tl format)), (''paused'', JBool True)])"

definition parseSimulcastStreamList :: "string \<Rightarrow> json" where
  "parseSimulcastStreamList str =
     JArray (map (\<lambda>item. JArray (map simulcast_format
         (filter (\<lambda>f. f \<noteq> []) (getlines (CHR '','') item))))
       (filter (\<lambda>item. item \<noteq> []) (getlines (CHR '';'') str)))"

end
