(* ===== verification/SdpShape.thy ===== *)
theory SdpShape
  imports SdpParser
begin

text \<open>
  The schema that the grammar gives to a parsed session, and the proof that parsing
  never fails and always yields a value of this schema. The clients of the parser read
  the fields without checking most of them.
\<close>

section \<open>The shape of what is parsed\<close>

text \<open>
  \<open>field_of r key v\<close>: the rule \<open>r\<close> can store \<open>v\<close> under \<open>key\<close>, that is, \<open>v\<close> has the type
  that the rule gives for that name. \<open>entry_ok\<close> is the schema of a location (the
  session or a media section), read off the grammar: arrays of objects under the \<open>push\<close>
  keys, objects under the names of the rules that need a blank, values elsewhere.
\<close>

definition field_of :: "rule \<Rightarrow> string \<Rightarrow> json \<Rightarrow> bool" where
  "field_of r key v = (\<exists>i < length (r_names r). r_names r ! i = key \<and>
     (\<exists>s. s \<noteq> [] \<and> v = toType s (r_types r ! i)))"

definition object_of :: "(rule \<Rightarrow> bool) \<Rightarrow> json \<Rightarrow> bool" where
  "object_of R e = (is_object e \<and>
     (\<forall>key v. jfind e key = Some v \<longrightarrow> (\<exists>r \<in> set all_rules. R r \<and> field_of r key v)))"

definition push_keys :: "string list" where
  "push_keys = filter (\<lambda>k. k \<noteq> []) (map r_push all_rules)"

definition blank_keys :: "string list" where
  "blank_keys = map r_name (filter (\<lambda>r. needsBlank r \<and> r_push r = []) all_rules)"

definition plain_rule :: "rule \<Rightarrow> bool" where
  "plain_rule r = (r_push r = [] \<and> \<not> needsBlank r)"

definition plain_entry :: "rule \<Rightarrow> string \<Rightarrow> json \<Rightarrow> bool" where
  "plain_entry r key v =
     (if r_name r = [] then field_of r key v
      else key = r_name r \<and> (\<exists>s. v = toType s (hd (r_types r))))"

definition entry_ok :: "string \<Rightarrow> json \<Rightarrow> bool" where
  "entry_ok key v =
     (if key \<in> set push_keys then
        (\<exists>xs. v = JArray xs \<and> (\<forall>x \<in> set xs. object_of (\<lambda>r. r_push r = key) x))
      else if key \<in> set blank_keys then object_of (\<lambda>r. r_name r = key) v
      else (\<exists>r \<in> set all_rules. plain_rule r \<and> plain_entry r key v))"

definition location_ok :: "json \<Rightarrow> bool" where
  "location_ok j = (is_object j \<and> jwf j \<and> (\<forall>k v. jfind j k = Some v \<longrightarrow> entry_ok k v))"

text \<open>The keys that a rule writes into the location itself are no \<open>push\<close> key and no
  name of an object.\<close>

definition direct_keys :: "rule \<Rightarrow> string list" where
  "direct_keys r = (if \<not> plain_rule r then [] else if r_name r \<noteq> [] then [r_name r] else r_names r)"

definition grammar_apart :: bool where
  "grammar_apart =
     (list_all (\<lambda>k. k \<notin> set push_keys \<and> k \<notin> set blank_keys) (concat (map direct_keys all_rules))
      \<and> list_all (\<lambda>k. k \<notin> set push_keys) blank_keys
      \<and> ''media'' \<notin> set push_keys \<and> ''media'' \<notin> set blank_keys
      \<and> ''media'' \<notin> set (concat (map direct_keys all_rules))
      \<and> ''rtp'' \<in> set push_keys \<and> ''fmtp'' \<in> set push_keys)"

lemma push_keys_eq: "set push_keys = {''bandwidth'', ''rtp'', ''fmtp'', ''rtcpFbTrrInt'', ''rtcpFb'', ''ext'',
  ''crypto'', ''candidates'', ''ssrcs'', ''ssrcGroups'', ''groups'',
  ''rids'', ''imageattrs'', ''invalid''}"
  by (simp add: push_keys_def all_rules_def rulesMap_def rules_a_def rule_defs)

lemma blank_keys_eq: "set blank_keys = {''origin'', ''timing'', ''connection'', ''rtcp'', ''fingerprint'',
  ''msidSemantic'', ''sctpmap'', ''simulcast'', ''simulcast_03'', ''sourceFilter''}"
  by (simp add: blank_keys_def needsBlank_def all_rules_def rulesMap_def rules_a_def rule_defs)

lemma direct_keys_eq: "concat (map direct_keys all_rules) = [''version'', ''name'', ''description'', ''uri'', ''email'', ''phone'',
  ''timezones'', ''repeats'', ''type'', ''port'', ''numPorts'',
  ''protocol'', ''payloads'', ''control'', ''extmapAllowMixed'', ''setup'',
  ''mid'', ''msid'', ''ptime'', ''maxptime'', ''direction'', ''icelite'',
  ''iceUfrag'', ''icePwd'', ''endOfCandidates'', ''remoteCandidates'',
  ''iceOptions'', ''rtcpMux'', ''rtcpRsize'', ''xGoogleFlag'',
  ''framerate'', ''tsRefclk'', ''mediaclk'']"
  by (simp add: direct_keys_def plain_rule_def needsBlank_def all_rules_def rulesMap_def rules_a_def rule_defs)

lemma grammar_apart: grammar_apart
  unfolding grammar_apart_def direct_keys_eq push_keys_eq blank_keys_eq list_all_iff
  by (simp add: list_all_iff blank_keys_eq)


section \<open>Storing never fails\<close>

lemma toType_jwf [simp]: "jwf (toType s t)"
  by (auto simp: toType_def split: option.split)

lemma jset_object: "is_object j \<Longrightarrow> \<exists>j'. jset j k v = Inr j' \<and> is_object j'"
  by (auto simp: is_object_iff)

text \<open>\<open>grows P loc loc'\<close>: \<open>loc'\<close> has every key of \<open>loc\<close>, and what is new in it satisfies \<open>P\<close>.\<close>

definition grows :: "(string \<Rightarrow> json \<Rightarrow> bool) \<Rightarrow> json \<Rightarrow> json \<Rightarrow> bool" where
  "grows P loc loc' = (is_object loc' \<and> jwf loc'
     \<and> (\<forall>k v. jfind loc' k = Some v \<longrightarrow> jfind loc k = Some v \<or> P k v)
     \<and> (\<forall>k. jfind loc k \<noteq> None \<longrightarrow> jfind loc' k \<noteq> None))"

lemma grows_refl: "is_object loc \<Longrightarrow> jwf loc \<Longrightarrow> grows P loc loc"
  by (simp add: grows_def)

lemma grows_jset:
  assumes "grows P loc u" "P k v" "jwf v"
  obtains u' where "jset u k v = Inr u'" "grows P loc u'"
proof -
  have "is_object u" "jwf u" using assms(1) by (simp_all add: grows_def)
  then obtain u' where u': "jset u k v = Inr u'" "is_object u'" using jset_object by blast
  moreover have "jwf u'" using jwf_jset [OF \<open>jwf u\<close> assms(3) u'(1)] .
  ultimately have "grows P loc u'"
    using assms(1,2) jset_Inr_find [OF u'(1)] by (auto simp: grows_def)
  with u' that show thesis by blast
qed

definition attached :: "rule \<Rightarrow> string \<Rightarrow> json \<Rightarrow> bool" where
  "attached r k v =
     (if r_name r \<noteq> [] \<and> r_names r = [] then k = r_name r \<and> (\<exists>s. v = toType s (hd (r_types r)))
      else field_of r k v)"

lemma attachProperties_total:
  assumes r: "rule_ok r" and loc: "is_object loc" "jwf loc"
  obtains loc' where
    "attachProperties sz sub loc (r_names r) (r_name r) (r_types r) = Inr loc'"
    "grows (attached r) loc loc'" 
proof (cases "r_name r \<noteq> [] \<and> r_names r = []")
  case True
  with r obtain t ts where t: "r_types r = t # ts" by (cases "r_types r") (auto simp: rule_ok_def)
  obtain u where "jset loc (r_name r) (toType (sub 1) t) = Inr u" "grows (attached r) loc u"
    by (rule grows_jset [OF grows_refl [OF loc], of "attached r" "r_name r" "toType (sub 1) t"])
      (use True t in \<open>auto simp: attached_def\<close>)
  with that t True show thesis by (simp add: attachProperties_def)
next
  case False
  have len: "length (r_names r) \<le> length (r_types r)"
    using r by (cases "r_names r = []") (simp_all add: rule_ok_def)
  define step where "step = (\<lambda>(i, name) u.
            if i + 1 < sz \<and> sub (i + 1) \<noteq> [] then
              (if i < length (r_types r) then jset u name (toType (sub (i + 1)) (r_types r ! i))
               else Inl (Undefined ''types[i]''))
            else Inr u)"
  have "\<exists>t. foldE step (enumerate 0 (r_names r)) loc = Inr t \<and> grows (attached r) loc t"
  proof (rule foldE_total)
    show "grows (attached r) loc loc" by (rule grows_refl [OF loc])
    fix p u assume p: "p \<in> set (enumerate 0 (r_names r))" and u: "grows (attached r) loc u"
    then obtain i where i: "i < length (r_names r)" "p = (i, r_names r ! i)"
      by (auto simp: in_set_enumerate_eq prod_eq_iff)
    show "\<exists>v. step p u = Inr v \<and> grows (attached r) loc v"
    proof (cases "i + 1 < sz \<and> sub (i + 1) \<noteq> []")
      case True
      have "attached r (r_names r ! i) (toType (sub (i + 1)) (r_types r ! i))"
        using i True False by (auto simp: field_of_def attached_def)
      then obtain v where "jset u (r_names r ! i) (toType (sub (i + 1)) (r_types r ! i)) = Inr v" "grows (attached r) loc v"
        using False by (auto intro: grows_jset [OF u])
      with True i len show ?thesis by (simp add: step_def)
    qed (use u i in \<open>auto simp: step_def\<close>)
  qed
  with that False show thesis unfolding attachProperties_def step_def by auto
qed


section \<open>Parsing never fails\<close>

lemma rule_in_push: "r \<in> set all_rules \<Longrightarrow> r_push r \<noteq> [] \<Longrightarrow> r_push r \<in> set push_keys"
  by (auto simp: push_keys_def)

lemma rule_in_blank: "r \<in> set all_rules \<Longrightarrow> needsBlank r \<Longrightarrow> r_push r = [] \<Longrightarrow> r_name r \<in> set blank_keys"
  by (auto simp: blank_keys_def)

lemma blank_not_push: "k \<in> set blank_keys \<Longrightarrow> k \<notin> set push_keys"
  using grammar_apart by (simp add: grammar_apart_def list_all_iff)

lemma direct_not_special:
  assumes "r \<in> set all_rules" "k \<in> set (direct_keys r)"
  shows "k \<notin> set push_keys" "k \<notin> set blank_keys"
  using assms grammar_apart by (auto simp: grammar_apart_def list_all_iff)

lemma location_grows:
  assumes "location_ok loc" "grows entry_ok loc loc'"
  shows "location_ok loc'"
  using assms by (auto simp: location_ok_def grows_def)

lemma grows_mono:
  assumes "grows P loc loc'" "\<And>k v. P k v \<Longrightarrow> Q k v"
  shows "grows Q loc loc'"
  using assms by (fastforce simp: grows_def)

lemma attached_plain:
  assumes "r \<in> set all_rules" "plain_rule r" "attached r k v"
  shows "entry_ok k v"
proof -
  have "k \<in> set (direct_keys r)" "plain_entry r k v"
    using assms(2,3) by (auto simp: attached_def direct_keys_def plain_entry_def plain_rule_def
        needsBlank_def field_of_def split: if_splits)
  with direct_not_special [OF assms(1)] assms(1,2) show ?thesis by (auto simp: entry_ok_def)
qed

lemma attached_object:
  assumes "r \<in> set all_rules" "R r" "r_name r = [] \<or> r_names r \<noteq> []"
    "object_of R e" "grows (attached r) e e'"
  shows "object_of R e'"
  using assms by (fastforce simp: object_of_def grows_def attached_def)


lemma push_unnamed: "r \<in> set all_rules \<Longrightarrow> r_push r \<noteq> [] \<Longrightarrow> r_name r = []"
proof -
  have "list_all (\<lambda>r. r_push r = [] \<or> r_name r = []) all_rules"
    by (simp add: all_rules_def rulesMap_def rules_a_def rule_defs)
  then show "r \<in> set all_rules \<Longrightarrow> r_push r \<noteq> [] \<Longrightarrow> r_name r = []"
    by (auto simp: list_all_iff)
qed

lemma object_of_empty: "object_of R jobject_empty"
  by (simp add: object_of_def)

text \<open>The container a rule needs is created when it is missing, and has the right shape
  afterwards.\<close>

lemma parseReg_push:
  assumes r: "r \<in> set all_rules" "rule_ok r" "r_push r \<noteq> []" and loc: "location_ok loc"
  obtains loc' where "parseReg r loc content = Inr loc'" "grows entry_ok loc loc'"
    "jfind loc' (r_push r) \<noteq> None"
proof -
  let ?k = "r_push r"
  have pk: "?k \<in> set push_keys" using rule_in_push [OF r(1,3)] .
  have "grows entry_ok loc loc" using loc by (simp add: location_ok_def grows_refl)
  then obtain loc1 xs where loc1: "grows entry_ok loc loc1" "jfind loc1 ?k = Some (JArray xs)"
      "(if jfind loc ?k = None then jset loc ?k jarray_empty else Inr loc) = Inr loc1"
      and xs: "\<forall>x \<in> set xs. object_of (\<lambda>q. r_push q = ?k) x"
  proof (cases "jfind loc ?k")
    case None
    have "entry_ok ?k jarray_empty" using pk by (simp add: entry_ok_def)
    with \<open>grows entry_ok loc loc\<close> None that show thesis
      by (elim grows_jset [of entry_ok loc loc ?k jarray_empty]) (auto simp: jset_Inr_find)
  next
    case (Some v)
    with loc have "entry_ok ?k v" by (simp add: location_ok_def)
    with pk Some \<open>grows entry_ok loc loc\<close> that show thesis by (auto simp: entry_ok_def)
  qed
  define m where "m = regex_search (r_reg r) content"
  define sub where "sub = (\<lambda>k. case m of None \<Rightarrow> [] | Some mr \<Rightarrow> mgroup mr k)"
  define sz where "sz = (case m of None \<Rightarrow> 0 | Some _ \<Rightarrow> groups (pat_re (r_reg r)) + 1)"
  obtain e where e: "attachProperties sz sub jobject_empty (r_names r) (r_name r) (r_types r) = Inr e"
      "grows (attached r) jobject_empty e"
    by (rule attachProperties_total [OF r(2), of jobject_empty sz sub]) auto
  have oe: "object_of (\<lambda>q. r_push q = ?k) e"
    by (rule attached_object [OF r(1) _ _ object_of_empty e(2)]) (simp_all add: push_unnamed r)
  have "jwf (JArray (xs @ [e]))" "entry_ok ?k (JArray (xs @ [e]))"
    using jwf_jfind [OF _ loc1(2)] loc1(1) e(2) xs oe pk by (auto simp: grows_def entry_ok_def)
  then obtain loc' where loc': "jset loc1 ?k (JArray (xs @ [e])) = Inr loc'" "grows entry_ok loc loc'"
    by (auto intro: grows_jset [OF loc1(1)])
  have c: "(if r_push r \<noteq> [] \<and> jfind loc ?k = None then jset loc ?k jarray_empty
      else if needsBlank r \<and> jfind loc (r_name r) = None then jset loc (r_name r) jobject_empty
      else Inr loc) = Inr loc1"
    using loc1(3) r(3) push_unnamed [OF r(1,3)]
    by (cases "jfind loc ?k") (simp_all add: needsBlank_def)
  have "parseReg r loc content = Inr loc'"
    unfolding parseReg_def c using loc1(2) r(3) e(1) loc'(1)
    by (simp add: Let_def flip: m_def sub_def sz_def)
  then show thesis using that loc'(2) jset_Inr_find [OF loc'(1), of ?k] by simp
qed


lemma parseReg_blank:
  assumes r: "r \<in> set all_rules" "rule_ok r" "r_push r = []" "needsBlank r" and loc: "location_ok loc"
  obtains loc' where "parseReg r loc content = Inr loc'" "grows entry_ok loc loc'"
proof -
  let ?k = "r_name r"
  have bk: "?k \<in> set blank_keys" using rule_in_blank [OF r(1,4,3)] .
  note entry = entry_ok_def [of ?k] blank_not_push [OF bk] bk
  have "grows entry_ok loc loc" using loc by (simp add: location_ok_def grows_refl)
  then obtain loc1 o' where loc1: "grows entry_ok loc loc1" "jfind loc1 ?k = Some o'"
      "(if jfind loc ?k = None then jset loc ?k jobject_empty else Inr loc) = Inr loc1"
      and o': "object_of (\<lambda>q. r_name q = ?k) o'"
  proof (cases "jfind loc ?k")
    case None
    have "entry_ok ?k jobject_empty" by (simp add: entry object_of_empty)
    with \<open>grows entry_ok loc loc\<close> None that object_of_empty show thesis
      by (elim grows_jset [of entry_ok loc loc ?k jobject_empty]) (auto simp: jset_Inr_find)
  next
    case (Some v)
    with loc have "entry_ok ?k v" by (simp add: location_ok_def)
    with Some \<open>grows entry_ok loc loc\<close> that show thesis by (simp add: entry)
  qed
  define m where "m = regex_search (r_reg r) content"
  define sub where "sub = (\<lambda>k. case m of None \<Rightarrow> [] | Some mr \<Rightarrow> mgroup mr k)"
  define sz where "sz = (case m of None \<Rightarrow> 0 | Some _ \<Rightarrow> groups (pat_re (r_reg r)) + 1)"
  have "is_object o'" "jwf o'"
    using o' loc1 jwf_jfind [OF _ loc1(2)] by (simp_all add: object_of_def grows_def)
  then obtain e where e: "attachProperties sz sub o' (r_names r) (r_name r) (r_types r) = Inr e"
      "grows (attached r) o' e"
    by (rule attachProperties_total [OF r(2)])
  have "object_of (\<lambda>q. r_name q = ?k) e"
    by (rule attached_object [OF r(1) _ _ o' e(2)]) (use r(4) in \<open>simp_all add: needsBlank_def\<close>)
  then obtain loc' where loc': "jset loc1 ?k e = Inr loc'" "grows entry_ok loc loc'"
    using e(2) by (auto simp: entry grows_def [of "attached r"] intro: grows_jset [OF loc1(1), of ?k e])
  have c: "(if r_push r \<noteq> [] \<and> jfind loc (r_push r) = None then jset loc (r_push r) jarray_empty
      else if needsBlank r \<and> jfind loc ?k = None then jset loc ?k jobject_empty
      else Inr loc) = Inr loc1"
    using loc1(3) r(3,4) by (cases "jfind loc ?k") simp_all
  have "parseReg r loc content = Inr loc'"
    unfolding parseReg_def c using loc1(2) r(3,4) e(1) loc'(1)
    by (simp add: Let_def flip: m_def sub_def sz_def)
  then show thesis using that loc'(2) by simp
qed

lemma parseReg_plain:
  assumes r: "r \<in> set all_rules" "rule_ok r" "plain_rule r" and loc: "location_ok loc"
  obtains loc' where "parseReg r loc content = Inr loc'" "grows entry_ok loc loc'"
proof -
  define m where "m = regex_search (r_reg r) content"
  define sub where "sub = (\<lambda>k. case m of None \<Rightarrow> [] | Some mr \<Rightarrow> mgroup mr k)"
  define sz where "sz = (case m of None \<Rightarrow> 0 | Some _ \<Rightarrow> groups (pat_re (r_reg r)) + 1)"
  have "is_object loc" "jwf loc" using loc by (simp_all add: location_ok_def)
  then obtain loc' where e: "attachProperties sz sub loc (r_names r) (r_name r) (r_types r) = Inr loc'"
      "grows (attached r) loc loc'"
    by (rule attachProperties_total [OF r(2)])
  have "grows entry_ok loc loc'"
    by (rule grows_mono [OF e(2)]) (rule attached_plain [OF r(1,3)])
  moreover have "parseReg r loc content = Inr loc'"
    using r(3) e(1) by (simp add: parseReg_def plain_rule_def Let_def flip: m_def sub_def sz_def)
  ultimately show thesis using that by simp
qed

lemma parseReg_total:
  assumes "r \<in> set all_rules" "rule_ok r" "location_ok loc"
  obtains loc' where "parseReg r loc content = Inr loc'" "grows entry_ok loc loc'"
  using assms parseReg_push [of r loc content] parseReg_blank [of r loc content]
    parseReg_plain [of r loc content] by (metis plain_rule_def)


definition media_ok :: "json \<Rightarrow> bool" where
  "media_ok m = (location_ok m \<and> contains m ''rtp'' \<and> contains m ''fmtp'')"

definition parser_ok :: "parser \<Rightarrow> bool" where
  "parser_ok st = (location_ok (p_session st) \<and> (\<forall>m \<in> set (p_media st). media_ok m)
     \<and> (p_in_media st \<longrightarrow> p_media st \<noteq> []))"

lemma rules_of_all: "rules_of c = Some rs \<Longrightarrow> r \<in> set rs \<Longrightarrow> r \<in> set all_rules"
  by (force simp: rules_of_def all_rules_def dest: map_of_SomeD)

lemma blank_media_ok: "media_ok blank_media"
proof -
  have keys: "k \<in> {''rtp'', ''fmtp''} \<and> v = JArray []" if "jfind blank_media k = Some v" for k v
    using that by (auto simp: blank_media_def map_of_jobj split: if_splits)
  have "entry_ok k v" if "jfind blank_media k = Some v" for k v
  proof -
    have "k \<in> set push_keys" using keys [OF that] grammar_apart by (auto simp: grammar_apart_def)
    with keys [OF that] show ?thesis by (simp add: entry_ok_def)
  qed
  moreover have "is_object blank_media" "jwf blank_media"
    unfolding blank_media_def by (simp add: jobj_def, rule jwf_jobj, simp)
  moreover have "contains blank_media ''rtp''" "contains blank_media ''fmtp''"
    by (simp_all add: contains_def blank_media_def map_of_jobj)
  ultimately show ?thesis by (simp add: media_ok_def location_ok_def)
qed

lemma location_of_ok: "parser_ok st \<Longrightarrow> location_ok (location_of st)"
  by (auto simp: parser_ok_def location_of_def media_ok_def)

lemma set_location_ok:
  assumes "parser_ok st" "grows entry_ok (location_of st) j"
  shows "parser_ok (set_location st j)"
proof -
  have "location_ok j" using location_grows [OF location_of_ok [OF assms(1)] assms(2)] .
  moreover have "media_ok j" if "p_in_media st"
    using calculation that assms by (force simp: media_ok_def parser_ok_def location_of_def grows_def contains_def)
  ultimately show ?thesis
    using assms(1) by (auto simp: parser_ok_def set_location_def dest: in_set_butlastD)
qed

lemma length_set_location:
  "parser_ok st \<Longrightarrow> length (p_media (set_location st j)) = length (p_media st)"
  by (auto simp: parser_ok_def set_location_def)

definition is_media_line :: "string \<Rightarrow> bool" where
  "is_media_line line0 = (regex_search ValidLineRegex (drop_cr line0) \<noteq> None
     \<and> hd (drop_cr line0) = CHR ''m'')"

lemma parse_content_total:
  assumes "parser_ok st"
  obtains st' where "parse_content c content st = Inr st'" "parser_ok st'"
    "length (p_media st') = length (p_media st) + (if c = CHR ''m'' then 1 else 0)"
proof -
  define st1 where "st1 = (if c = CHR ''m''
     then st \<lparr> p_media := p_media st @ [blank_media], p_in_media := True \<rparr> else st)"
  have ok: "parser_ok st1" using assms blank_media_ok by (auto simp: st1_def parser_ok_def)
  have len: "length (p_media st1) = length (p_media st) + (if c = CHR ''m'' then 1 else 0)"
    by (simp add: st1_def)
  show thesis
  proof (cases "rules_of c")
    case None
    with that ok len show thesis by (simp add: parse_content_def flip: st1_def)
  next
    case (Some rs)
    show thesis
    proof (cases "find (\<lambda>r. regex_search (r_reg r) content \<noteq> None) rs")
      case None
      with Some that ok len show thesis by (simp add: parse_content_def flip: st1_def)
    next
      case f: (Some r)
      then have "r \<in> set rs" by (auto simp: find_Some_iff)
      then have "r \<in> set all_rules" "rule_ok r"
        using rules_of_all rules_of_ok Some by blast+
      then obtain j where "parseReg r (location_of st1) content = Inr j" "grows entry_ok (location_of st1) j"
        using parseReg_total location_of_ok [OF ok] by metis
      with Some f that [of "set_location st1 j"] show thesis
        using set_location_ok [OF ok] length_set_location [OF ok] len
        by (simp add: parse_content_def Let_def flip: st1_def)
    qed
  qed
qed

lemma parse_lines_total:
  "parser_ok st \<Longrightarrow> \<exists>st'. foldE parse_line ls st = Inr st' \<and> parser_ok st'
     \<and> length (p_media st') = length (p_media st) + length (filter is_media_line ls)"
proof (induction ls arbitrary: st)
  case (Cons l ls)
  obtain st1 where st1: "parse_line l st = Inr st1" "parser_ok st1"
    "length (p_media st1) = length (p_media st) + (if is_media_line l then 1 else 0)"
  proof (cases "regex_search ValidLineRegex (drop_cr l) = None")
    case True
    with that Cons.prems show thesis by (simp add: parse_line_def is_media_line_def)
  next
    case False
    obtain st' where "parse_content (hd (drop_cr l)) (drop 2 (drop_cr l)) st = Inr st'" "parser_ok st'"
      "length (p_media st') = length (p_media st) + (if hd (drop_cr l) = CHR ''m'' then 1 else 0)"
      by (rule parse_content_total [OF Cons.prems])
    with False that [of st'] show thesis by (auto simp: parse_line_def is_media_line_def Let_def)
  qed
  with Cons.IH [OF st1(2)] show ?case by auto
qed simp

lemma parser_init_ok: "parser_ok parser_init"
  by (simp add: parser_init_def parser_ok_def location_ok_def)

definition session_ok :: "json \<Rightarrow> bool" where
  "session_ok s = (is_object s \<and> jwf s
     \<and> (\<exists>ms. jfind s ''media'' = Some (JArray ms) \<and> (\<forall>m \<in> set ms. media_ok m))
     \<and> (\<forall>k v. k \<noteq> ''media'' \<longrightarrow> jfind s k = Some v \<longrightarrow> entry_ok k v))"

text \<open>\<open>parse\<close> returns for every text, and what it returns has the shape of the grammar.\<close>

lemma parse_shape:
  "\<exists>s ms. parse sdp = Inr s \<and> session_ok s \<and> jfind s ''media'' = Some (JArray ms)
     \<and> length ms = length (filter is_media_line (getlines (CHR 0x0A) sdp))"
proof -
  obtain st where st: "foldE parse_line (getlines (CHR 0x0A) sdp) parser_init = Inr st" "parser_ok st"
    "length (p_media st) = length (filter is_media_line (getlines (CHR 0x0A) sdp))"
    using parse_lines_total [OF parser_init_ok] by (fastforce simp: parser_init_def)
  then obtain s where s: "jset (p_session st) ''media'' (JArray (p_media st)) = Inr s" "is_object s"
    using jset_object [of "p_session st"] by (metis location_ok_def parser_ok_def)
  have "jwf s"
    by (rule jwf_jset [OF _ _ s(1)]) (use st(2) in \<open>auto simp: parser_ok_def location_ok_def media_ok_def\<close>)
  with s st(2) have "session_ok s"
    using jset_Inr_find [OF s(1)] by (auto simp: session_ok_def parser_ok_def location_ok_def)
  with st s show ?thesis using jset_Inr_find [OF s(1), of "''media''"] by (simp add: parse_def)
qed

end
