(* ===== verification/SdpWriter.thy ===== *)
theory SdpWriter
  imports SdpShape
begin

text \<open>
  \<open>sdptransform::write\<close> and \<open>makeLine\<close> (\<open>mssdk/json/writer.cpp\<close>): the lines of a session
  in the fixed order of the types and, within a type, in the order of the grammar.
  \<open>dump\<close> is a parameter: what the JSON serializer writes for a value that is no string
  and no integer (the digits of a floating point number, a nested value).
\<close>

section \<open>One line\<close>

definition FormatRegex :: pattern where
  "FormatRegex = regex ''%[sdv%]''"

text \<open>\<open>linestream << arg\<close>\<close>

definition arg_text :: "(json \<Rightarrow> string) \<Rightarrow> json \<Rightarrow> string" where
  "arg_text dump arg = (case arg of
     JString s \<Rightarrow> s
   | JInt w \<Rightarrow> int_str (sint w)
   | JUint w \<Rightarrow> nat_str (unat w)
   | JBool b \<Rightarrow> (if b then ''true'' else ''false'')
   | JNull \<Rightarrow> ''null''
   | _ \<Rightarrow> dump arg)"

text \<open>The arguments of a rule, in the order of its names; a name without a value gives
  the empty string.\<close>

definition line_args :: "rule \<Rightarrow> json \<Rightarrow> json list" where
  "line_args r location =
     (if r_names r \<noteq> [] then
        map (\<lambda>name.
          case (if r_name r \<noteq> [] then (case jfind location (r_name r) of
                   Some inner \<Rightarrow> jfind inner name | None \<Rightarrow> None) else None) of
            Some v \<Rightarrow> v
          | None \<Rightarrow> (case jfind location name of Some v \<Rightarrow> v | None \<Rightarrow> JString []))
          (r_names r)
      else (case jfind location (r_name r) of Some v \<Rightarrow> [v] | None \<Rightarrow> []))"

text \<open>The loop over the matches of the format: each takes the next argument. What is left
  of the format after the last match is not written.\<close>

fun fill_format :: "(json \<Rightarrow> string) \<Rightarrow> match_result list \<Rightarrow> json list \<Rightarrow> string" where
  "fill_format dump [] args = []"
| "fill_format dump (m # ms) [] = mgroup m 0 @ fill_format dump ms []"
| "fill_format dump (m # ms) (arg # args) =
     m_prefix m
     @ (if mgroup m 0 = ''%%'' then ''%''
        else if mgroup m 0 = ''%s'' \<or> mgroup m 0 = ''%d'' then arg_text dump arg
        else [])
     @ fill_format dump ms args"

definition crlf :: string where "crlf = [CHR 0x0D, CHR 0x0A]"

definition line_format :: "rule \<Rightarrow> json \<Rightarrow> string res" where
  "line_format r location =
     (if r_format r = [] then
        (if r_push r \<noteq> [] then Inr (r_formatFunc r location)
         else if r_name r \<noteq> [] then bindE (jat location (r_name r)) (\<lambda>v. Inr (r_formatFunc r v))
         else Inr (r_formatFunc r location))
      else Inr (r_format r))"

definition makeLine :: "(json \<Rightarrow> string) \<Rightarrow> char \<Rightarrow> rule \<Rightarrow> json \<Rightarrow> string res" where
  "makeLine dump type r location =
     bindE (line_format r location) (\<lambda>format.
     Inr ([type] @ ''='' @ fill_format dump (fst (regex_iter FormatRegex format)) (line_args r location) @ crlf))"

section \<open>The session\<close>

definition OuterOrder :: "char list" where "OuterOrder = ''vosiuepcbtrza''"
definition InnerOrder :: "char list" where "InnerOrder = ''icba''"

text \<open>The lines one rule gives for the session or for one media section.\<close>

definition rule_lines :: "(json \<Rightarrow> string) \<Rightarrow> char \<Rightarrow> json \<Rightarrow> rule \<Rightarrow> string res" where
  "rule_lines dump type location r =
     (if r_name r \<noteq> [] \<and> jfind location (r_name r) \<noteq> None \<and> jfind location (r_name r) \<noteq> Some JNull
      then makeLine dump type r location
      else if r_push r \<noteq> [] then
        (case jfind location (r_push r) of
           Some (JArray els) \<Rightarrow> bindE (mapE (makeLine dump type r) els) (\<lambda>ls. Inr (concat ls))
         | _ \<Rightarrow> Inr [])
      else Inr [])"

definition type_lines :: "(json \<Rightarrow> string) \<Rightarrow> json \<Rightarrow> char \<Rightarrow> string res" where
  "type_lines dump location type =
     (case rules_of type of
        None \<Rightarrow> Inl (StdOutOfRange ''rulesMap'')
      | Some rules \<Rightarrow> bindE (mapE (rule_lines dump type location) rules) (\<lambda>ls. Inr (concat ls)))"

definition media_lines :: "(json \<Rightarrow> string) \<Rightarrow> json \<Rightarrow> string res" where
  "media_lines dump mLine =
     bindE (makeLine dump (CHR ''m'') rule_m_line mLine) (\<lambda>first.
     bindE (mapE (type_lines dump mLine) InnerOrder) (\<lambda>ls. Inr (first @ concat ls)))"

text \<open>\<open>write_sdp\<close> (\<open>write\<close>) changes the session it is given; the result is the text and the session
  afterwards.\<close>

definition prepare :: "json \<Rightarrow> json res" where
  "prepare session =
     throwIf (\<not> is_object session) (StdInvalidArgument ''given session is not a JSON object'')
     (bindE (jdefault ''version'' (JInt 0) session) (\<lambda>s1.
      bindE (jdefault ''name'' (JString ''-'') s1) (\<lambda>s2.
      bindE (jdefault ''media'' jarray_empty s2) (\<lambda>s3.
      bindE (jat s3 ''media'') (\<lambda>media.
      bindE (jmapE (jdefault ''payloads'' (JString [])) media) (\<lambda>media'.
      jset s3 ''media'' media'))))))"

definition write_sdp :: "(json \<Rightarrow> string) \<Rightarrow> json \<Rightarrow> (string \<times> json) res" where
  "write_sdp dump session =
     bindE (prepare session) (\<lambda>s.
     bindE (mapE (type_lines dump s) OuterOrder) (\<lambda>outer.
     bindE (jat s ''media'') (\<lambda>media.
     bindE (mapE (media_lines dump) (jelems media)) (\<lambda>inner.
     Inr (concat outer @ concat inner, s)))))"

section \<open>Writing never fails\<close>

lemma line_format_ok: "r_name r = [] \<or> r_push r \<noteq> [] \<or> jfind l (r_name r) \<noteq> None \<Longrightarrow> is_ok (line_format r l)"
  by (cases l) (auto simp: line_format_def jat_def)

lemma makeLine_ok: "r_name r = [] \<or> r_push r \<noteq> [] \<or> jfind l (r_name r) \<noteq> None \<Longrightarrow> is_ok (makeLine dump t r l)"
  using line_format_ok [of r l] by (auto simp: makeLine_def is_ok_iff)

lemma concat_ok: "is_ok (bindE (mapE f xs) (\<lambda>ls. Inr (concat ls))) \<longleftrightarrow> is_ok (mapE f xs)"
  by (cases "mapE f xs") auto

lemma rule_lines_ok: "is_ok (rule_lines dump t l r)"
proof -
  have "is_ok (mapE (makeLine dump t r) els)" if "r_push r \<noteq> []" for els
    using that by (intro mapE_ok makeLine_ok) simp
  then show ?thesis
    by (auto simp: rule_lines_def concat_ok intro: makeLine_ok split: option.split json.split)
qed

lemma type_lines_ok: "rules_of t \<noteq> None \<Longrightarrow> is_ok (type_lines dump l t)"
proof -
  have "is_ok (mapE (rule_lines dump t l) rs)" for rs
    by (intro mapE_ok rule_lines_ok)
  then show "rules_of t \<noteq> None \<Longrightarrow> is_ok (type_lines dump l t)"
    by (auto simp: type_lines_def concat_ok)
qed

lemma orders_known:
  "t \<in> set OuterOrder \<Longrightarrow> rules_of t \<noteq> None"
  "t \<in> set InnerOrder \<Longrightarrow> rules_of t \<noteq> None"
  by (auto simp: OuterOrder_def InnerOrder_def rules_of_def rulesMap_def)

lemma media_lines_ok: "is_ok (media_lines dump l)"
proof -
  have "is_ok (makeLine dump (CHR ''m'') rule_m_line l)"
    by (rule makeLine_ok) (simp add: rule_m_line_def)
  moreover have "is_ok (mapE (type_lines dump l) InnerOrder)"
    by (intro mapE_ok type_lines_ok orders_known)
  ultimately show ?thesis by (auto simp: media_lines_def is_ok_iff)
qed

lemma jdefault_object: "is_object j \<Longrightarrow> \<exists>j'. jdefault k v j = Inr j' \<and> is_object j' \<and>
    (\<forall>l. jfind j' l = (if l = k \<and> jfind j k = None then Some v else jfind j l))"
  by (cases "jfind j k") (auto simp: jdefault_def is_object_iff map_simps)

text \<open>The media sections that \<open>write_sdp\<close> accepts: objects, or null, which becomes one.\<close>

definition writable :: "json \<Rightarrow> bool" where
  "writable session = (is_object session \<and>
     (case jfind session ''media'' of None \<Rightarrow> True
      | Some (JArray ms) \<Rightarrow> list_all is_object ms
      | Some _ \<Rightarrow> False))"

lemma jdefault_ok: "is_object j \<Longrightarrow> is_ok (jdefault k v j)"
  using jdefault_object by (fastforce simp: is_ok_iff)

lemma prepare_ok:
  assumes "writable session"
  obtains s ms where "prepare session = Inr s" "jfind s ''media'' = Some (JArray ms)"
proof -
  have o: "is_object session" using assms by (simp add: writable_def)
  obtain s1 where s1: "jdefault ''version'' (JInt 0) session = Inr s1" "is_object s1"
      "jfind s1 ''media'' = jfind session ''media''"
    using jdefault_object [OF o, of "''version''" "JInt 0"] by auto
  obtain s2 where s2: "jdefault ''name'' (JString ''-'') s1 = Inr s2" "is_object s2"
      "jfind s2 ''media'' = jfind session ''media''"
    using jdefault_object [OF s1(2), of "''name''" "JString ''-''"] s1(3) by auto
  obtain s3 where s3: "jdefault ''media'' jarray_empty s2 = Inr s3" "is_object s3"
      "jfind s3 ''media'' = (if jfind session ''media'' = None then Some jarray_empty else jfind session ''media'')"
    using jdefault_object [OF s2(2), of "''media''" jarray_empty] s2(3) by auto
  obtain ms where ms: "jfind s3 ''media'' = Some (JArray ms)" "list_all is_object ms"
    using assms s3(3) by (auto simp: writable_def split: option.splits json.splits)
  have "is_ok (mapE (jdefault ''payloads'' (JString [])) ms)"
    using ms(2) by (intro mapE_ok jdefault_ok) (simp add: list_all_iff)
  then obtain ms' where ms': "mapE (jdefault ''payloads'' (JString [])) ms = Inr ms'"
    by (auto simp: is_ok_iff)
  have at: "jat s3 ''media'' = Inr (JArray ms)"
    using ms(1) s3(2) by (auto simp: jat_def is_object_iff)
  obtain s4 where s4: "jset s3 ''media'' (JArray ms') = Inr s4"
    using jset_object [OF s3(2)] by blast
  have "prepare session = Inr s4"
    by (simp add: prepare_def o s1(1) s2(1) s3(1) at jmapE_def ms' s4)
  then show thesis using that jset_Inr_find [OF s4, of "''media''"] by simp
qed

lemma write_sdp_ok: "writable session \<Longrightarrow> is_ok (write_sdp dump session)"
proof -
  assume w: "writable session"
  obtain s ms where s: "prepare session = Inr s" "jfind s ''media'' = Some (JArray ms)"
    by (rule prepare_ok [OF w])
  have "is_ok (mapE (type_lines dump s) OuterOrder)"
    by (intro mapE_ok type_lines_ok orders_known)
  moreover have "jat s ''media'' = Inr (JArray ms)"
    using s(2) jfind_Some_object [OF s(2)] by (auto simp: jat_def is_object_iff)
  moreover have "is_ok (mapE (media_lines dump) ms)"
    by (intro mapE_ok media_lines_ok)
  ultimately show ?thesis by (auto simp: write_sdp_def s is_ok_iff)
qed

lemma session_writable: "session_ok s \<Longrightarrow> writable s"
  by (auto simp: session_ok_def writable_def media_ok_def location_ok_def list_all_iff)

end
