(* ===== verification/SdpProps.thy ===== *)
theory SdpProps
  imports SdpWriter
begin

text \<open>
  The properties of the SDP library: parsing, writing, and the splitting of texts that both
  and their clients use.
\<close>

section \<open>Parsing and writing\<close>

text \<open>C21: \<open>parse\<close> returns a session for every text whatever, without an exception. The
  session has the shape that the grammar gives: under a \<open>push\<close> key an array of objects, under
  the name of a rule with several names an object, and every value has the type of a rule for
  its name. There is one media section for each line that is a valid \<open>m=\<close> line.\<close>

theorem parse_total:
  "\<exists>s ms. parse sdp = Inr s \<and> session_ok s \<and> jfind s ''media'' = Some (JArray ms)
     \<and> length ms = length (filter is_media_line (getlines (CHR 0x0A) sdp))"
  by (rule parse_shape)

text \<open>C28: every parsed session can be written, whatever the serializer does with the values
  that are no strings and no integers.\<close>

theorem parse_then_write:
  "\<exists>s text s'. parse sdp = Inr s \<and> write_sdp dump s = Inr (text, s')"
proof -
  obtain s where s: "parse sdp = Inr s" "session_ok s"
    using parse_shape [of sdp] by blast
  then have "is_ok (write_sdp dump s)" by (intro write_sdp_ok session_writable)
  with s show ?thesis by (auto simp: is_ok_iff)
qed

section \<open>Splitting and joining\<close>

text \<open>Splitting what \<open>join\<close> wrote gives the parts back when they do not contain the
  delimiter, except that an empty last part is lost.\<close>

theorem split_join_parts:
  assumes "\<forall>x \<in> set xs. d \<notin> set x"
  shows "split (join xs d) d = (if xs \<noteq> [] \<and> last xs = [] then butlast xs else xs)"
  using assms
proof (induction xs d rule: join.induct)
  case (3 x y ys d)
  then show ?case by (simp add: split_def getlines_Cons)
qed (auto simp: split_def getlines_single)

theorem split_join_parts_witness:
  "split (join [''1'', ''22'', ''3''] (CHR '' '')) (CHR '' '') = [''1'', ''22'', ''3'']
   \<and> split (join [''1'', []] (CHR '' '')) (CHR '' '') = [''1'']"
  using split_join_parts [of "[''1'', ''22'', ''3'']" "CHR '' ''"] split_join_parts [of "[''1'', []]" "CHR '' ''"]
  by simp

end
