(* ===== verification/Checks.thy ===== *)
theory Checks
  imports Json
begin

text \<open>
  The vocabulary of the validators of \<open>mssdk/sdputil/jsonvalidate.cpp\<close>: a validator is a
  sequence of steps on a JSON object, each of which demands a field, restricts an
  optional one, or fills in a default. The contract that all validators share (what they
  return is well formed, and what is well formed they return unchanged) is the locale
  \<open>normaliser\<close>.
\<close>

section \<open>Fields of an object\<close>

definition has :: "json \<Rightarrow> string \<Rightarrow> (json \<Rightarrow> bool) \<Rightarrow> bool" where
  "has j k P = (case jfind j k of None \<Rightarrow> False | Some v \<Rightarrow> P v)"

definition opt :: "json \<Rightarrow> string \<Rightarrow> (json \<Rightarrow> bool) \<Rightarrow> bool" where
  "opt j k P = (case jfind j k of None \<Rightarrow> True | Some v \<Rightarrow> P v)"

text \<open>\<open>j[k] = v\<close> on an object.\<close>

definition put :: "string \<Rightarrow> json \<Rightarrow> json \<Rightarrow> json" where
  "put k v j = (case j of JObject m \<Rightarrow> JObject (aset k v m) | _ \<Rightarrow> JObject [(k, v)])"

definition drop_key :: "string \<Rightarrow> json \<Rightarrow> json" where
  "drop_key k j = (case j of JObject m \<Rightarrow> JObject (adel k m) | _ \<Rightarrow> j)"

fun nonempty_string :: "json \<Rightarrow> bool" where
  "nonempty_string (JString s) = (s \<noteq> [])"
| "nonempty_string _ = False"

fun all_of :: "(json \<Rightarrow> bool) \<Rightarrow> json \<Rightarrow> bool" where
  "all_of P (JArray xs) = list_all P xs"
| "all_of P _ = False"

text \<open>\<open>all_entries\<close>: every entry of an object.\<close>

fun all_entries :: "(string \<times> json \<Rightarrow> bool) \<Rightarrow> json \<Rightarrow> bool" where
  "all_entries P (JObject m) = list_all P m"
| "all_entries P _ = False"

section \<open>Steps\<close>

type_synonym step = "json \<Rightarrow> json res"

fun steps :: "step list \<Rightarrow> step" where
  "steps [] j = Inr j"
| "steps (f # fs) j = bindE (f j) (steps fs)"

definition object_check :: "string \<Rightarrow> step" where
  "object_check e j = throwIf (\<not> is_object j) (LazyException e) (Inr j)"

text \<open>\<open>need k P e\<close>: a mandatory field; \<open>maybe k P e\<close>: an optional one that must satisfy
  \<open>P\<close> when it is there.\<close>

definition need :: "string \<Rightarrow> (json \<Rightarrow> bool) \<Rightarrow> string \<Rightarrow> step" where
  "need k P e j = throwIf (\<not> has j k P) (LazyException e) (Inr j)"

definition maybe :: "string \<Rightarrow> (json \<Rightarrow> bool) \<Rightarrow> string \<Rightarrow> step" where
  "maybe k P e j = throwIf (\<not> opt j k P) (LazyException e) (Inr j)"

text \<open>\<open>dflt k P v\<close>: a field that is missing or of the wrong kind gets the value \<open>v\<close>.\<close>

definition dflt :: "string \<Rightarrow> (json \<Rightarrow> bool) \<Rightarrow> json \<Rightarrow> step" where
  "dflt k P v j = (if has j k P then Inr j else jset j k v)"

text \<open>\<open>each k f\<close>: \<open>for (auto& x : j[k]) f(x)\<close>; \<open>inside k f\<close>: \<open>f(j[k])\<close>; \<open>entries k f\<close>:
  a loop over the entries of the object \<open>j[k]\<close> that only checks them.\<close>

definition inside :: "string \<Rightarrow> step \<Rightarrow> step" where
  "inside k f j = (case jfind j k of None \<Rightarrow> Inl (Undefined k)
     | Some v \<Rightarrow> bindE (f v) (jset j k))"

definition each :: "string \<Rightarrow> step \<Rightarrow> step" where
  "each k f = inside k (jmapE f)"

definition entries :: "string \<Rightarrow> (string \<times> json \<Rightarrow> unit res) \<Rightarrow> step" where
  "entries k f j = (case jfind j k of
     Some (JObject m) \<Rightarrow> bindE (mapE f m) (\<lambda>_. Inr j) | _ \<Rightarrow> Inl (Undefined k))"

section \<open>What the steps do\<close>

named_theorems step_simps \<open>what a step returned, and the fields after an update\<close>

lemma is_object_put [simp]: "is_object (put k v j)"
  by (cases j) (auto simp: put_def)

lemma jfind_put [step_simps]: "jfind (put k v j) l = (if l = k then Some v else jfind j l)"
  by (cases j) (auto simp: put_def jfind_def map_simps)

lemma jfind_drop_key [step_simps]: "jfind (drop_key k j) l = (if l = k then None else jfind j l)"
  by (cases j) (auto simp: drop_key_def jfind_def map_simps)

lemma is_object_drop_key [simp]: "is_object (drop_key k j) = is_object j"
  by (cases j) (auto simp: drop_key_def)

lemma has_put [step_simps]: "has (put k v j) l P = (if l = k then P v else has j l P)"
  by (simp add: has_def jfind_put)

lemma opt_put [step_simps]: "opt (put k v j) l P = (if l = k then P v else opt j l P)"
  by (simp add: opt_def jfind_put)

lemma has_drop_key [step_simps]: "has (drop_key k j) l P = (l \<noteq> k \<and> has j l P)"
  by (simp add: has_def jfind_drop_key)

lemma opt_drop_key [step_simps]: "opt (drop_key k j) l P = (l = k \<or> opt j l P)"
  by (simp add: opt_def jfind_drop_key)

lemma contains_put [step_simps]: "contains (put k v j) l = (l = k \<or> contains j l)"
  by (simp add: contains_def jfind_put)

lemma contains_drop_key [step_simps]: "contains (drop_key k j) l = (l \<noteq> k \<and> contains j l)"
  by (simp add: contains_def jfind_drop_key)

lemma jset_put [simp]: "is_object j \<Longrightarrow> jset j k v = Inr (put k v j)"
  by (auto simp: is_object_iff put_def)

lemma jerase_drop_key [simp]: "is_object j \<Longrightarrow> jerase j k = Inr (drop_key k j)"
  by (auto simp: is_object_iff drop_key_def)

lemma put_id: "jwf j \<Longrightarrow> jfind j k = Some v \<Longrightarrow> put k v j = j"
  by (cases j) (auto simp: put_def jfind_def jwf_JObject aset_id)

lemma jwf_put [simp]: "jwf j \<Longrightarrow> jwf v \<Longrightarrow> jwf (put k v j)"
  by (cases j) (auto simp: put_def jwf_aset intro: jwf_jobj [of "[(k, v)]", simplified jobj_def, simplified])

lemma jwf_drop_key [simp]: "jwf j \<Longrightarrow> jwf (drop_key k j)"
  by (cases j) (auto simp: drop_key_def jwf_adel)

lemma has_object: "has j k P \<Longrightarrow> is_object j"
  by (cases j) (auto simp: has_def jfind_def)

lemma has_mono: "has j k P \<Longrightarrow> (\<And>v. P v \<Longrightarrow> Q v) \<Longrightarrow> has j k Q"
  by (auto simp: has_def split: option.splits)

lemma object_check_Inr [step_simps]: "object_check e j = Inr j' \<longleftrightarrow> is_object j \<and> j' = j"
  by (auto simp: object_check_def throwIf_def)

lemma need_Inr [step_simps]: "need k P e j = Inr j' \<longleftrightarrow> has j k P \<and> j' = j"
  by (auto simp: need_def throwIf_def)

lemma maybe_Inr [step_simps]: "maybe k P e j = Inr j' \<longleftrightarrow> opt j k P \<and> j' = j"
  by (auto simp: maybe_def throwIf_def)

text \<open>The object after a default: \<open>dput\<close> for a field of the wrong kind or none, \<open>sput\<close> for
  none.\<close>

definition dput :: "string \<Rightarrow> (json \<Rightarrow> bool) \<Rightarrow> json \<Rightarrow> json \<Rightarrow> json" where
  "dput k P v j = (if has j k P then j else put k v j)"

definition sput :: "string \<Rightarrow> json \<Rightarrow> json \<Rightarrow> json" where
  "sput k v j = (if contains j k then j else put k v j)"

lemma dput_object [simp]: "is_object j \<Longrightarrow> is_object (dput k P v j)" "is_object j \<Longrightarrow> is_object (sput k v j)"
  by (simp_all add: dput_def sput_def)

lemma jwf_dput [simp]: "jwf j \<Longrightarrow> jwf v \<Longrightarrow> jwf (dput k P v j)" "jwf j \<Longrightarrow> jwf v \<Longrightarrow> jwf (sput k v j)"
  by (simp_all add: dput_def sput_def)

lemma jfind_dput [step_simps]:
  "jfind (dput k P v j) l = (if l = k \<and> \<not> has j k P then Some v else jfind j l)"
  "jfind (sput k v j) l = (if l = k \<and> \<not> contains j k then Some v else jfind j l)"
  by (auto simp: dput_def sput_def jfind_put)

lemma has_dput [step_simps]:
  "has (dput k P v j) l Q = (if l = k then (if has j k P then has j k Q else Q v) else has j l Q)"
  "opt (dput k P v j) l Q = (if l = k then (if has j k P then has j k Q else Q v) else opt j l Q)"
  by (auto simp: has_def opt_def dput_def jfind_put split: option.splits)

lemma has_sput [step_simps]:
  "has (sput k v j) l Q = (if l = k then (if contains j k then has j k Q else Q v) else has j l Q)"
  "opt (sput k v j) l Q = (if l = k then (if contains j k then opt j k Q else Q v) else opt j l Q)"
  by (auto simp: has_def opt_def contains_def sput_def jfind_put split: option.splits)

lemma contains_dput [step_simps]:
  "contains (dput k P v j) l = (l = k \<or> contains j l)"
  "contains (sput k v j) l = (l = k \<or> contains j l)"
  by (auto simp: contains_def jfind_dput has_def split: option.splits)

lemma dflt_Inr [step_simps]:
  "is_object j \<Longrightarrow> dflt k P v j = Inr j' \<longleftrightarrow> j' = dput k P v j"
  by (auto simp: dflt_def dput_def)

lemma jdefault_Inr [step_simps]:
  "is_object j \<Longrightarrow> jdefault k v j = Inr j' \<longleftrightarrow> j' = sput k v j"
  by (auto simp: jdefault_def contains_def sput_def)

lemma opt_has: "contains j k \<Longrightarrow> opt j k P = has j k P"
  by (auto simp: opt_def has_def contains_def)

lemma not_contains_opt: "\<not> contains j k \<Longrightarrow> opt j k P"
  by (simp add: opt_def contains_def)

lemma inside_Inr [step_simps]:
  "is_object j \<Longrightarrow> inside k f j = Inr j' \<longleftrightarrow>
     (\<exists>v w. jfind j k = Some v \<and> f v = Inr w \<and> j' = put k w j)"
  by (auto simp: inside_def bindE_Inr_iff split: option.split)

lemma has_array: "has j k is_array \<Longrightarrow> \<exists>xs. jfind j k = Some (JArray xs)"
  by (auto simp: has_def is_array_iff split: option.splits)

lemma jmapE_JArray [simp]: "jmapE f (JArray xs) = bindE (mapE f xs) (\<lambda>ys. Inr (JArray ys))"
  by (simp add: jmapE_def)

lemma each_Inr [step_simps]:
  assumes "has j k is_array"
  shows "each k f j = Inr j' \<longleftrightarrow>
     (\<exists>xs ys. jfind j k = Some (JArray xs) \<and> mapE f xs = Inr ys \<and> j' = put k (JArray ys) j)"
proof -
  obtain xs where xs: "jfind j k = Some (JArray xs)" using has_array [OF assms] by blast
  have "each k f j = bindE (mapE f xs) (\<lambda>ys. Inr (put k (JArray ys) j))"
    using xs has_object [OF assms] by (simp add: each_def inside_def bindE_assoc)
  then show ?thesis using xs by (cases "mapE f xs") auto
qed

lemma entries_Inr [step_simps]:
  "entries k f j = Inr j' \<longleftrightarrow>
     (\<exists>m us. jfind j k = Some (JObject m) \<and> mapE f m = Inr us \<and> j' = j)"
  by (auto simp: entries_def bindE_Inr_iff split: option.split json.split)

section \<open>Steps on a well-formed value\<close>

text \<open>A step changes nothing where the field it is about is as it should be.\<close>

lemma steps_fixed: "\<forall>f \<in> set fs. f j = Inr j \<Longrightarrow> steps fs j = Inr j"
  by (induction fs) auto

named_theorems fixed_steps \<open>steps that change nothing\<close>

lemma object_check_fixed [fixed_steps]: "is_object j \<Longrightarrow> object_check e j = Inr j"
  by (simp add: object_check_def)

lemma need_fixed [fixed_steps]: "has j k P \<Longrightarrow> need k P e j = Inr j"
  by (simp add: need_def)

lemma maybe_fixed [fixed_steps]: "opt j k P \<Longrightarrow> maybe k P e j = Inr j"
  by (simp add: maybe_def)

lemma dflt_fixed [fixed_steps]: "has j k P \<Longrightarrow> dflt k P v j = Inr j"
  by (simp add: dflt_def)

lemma jdefault_fixed [fixed_steps]: "contains j k \<Longrightarrow> jdefault k v j = Inr j"
  by (auto simp: jdefault_def contains_def)

lemma has_contains: "has j k P \<Longrightarrow> contains j k"
  by (auto simp: has_def contains_def split: option.splits)

lemma has_opt: "has j k P \<Longrightarrow> opt j k P"
  by (auto simp: has_def opt_def split: option.splits)

lemma opt_mono: "opt j k P \<Longrightarrow> (\<And>v. P v \<Longrightarrow> Q v) \<Longrightarrow> opt j k Q"
  by (auto simp: opt_def split: option.splits)

lemma all_of_array: "all_of P v \<Longrightarrow> is_array v"
  by (cases v) auto

lemma has_all_of: "has j k (all_of P) \<Longrightarrow> has j k is_array"
  by (erule has_mono) (rule all_of_array)

lemma has_all_entries: "has j k (all_entries P) \<Longrightarrow> has j k is_object"
  by (erule has_mono) (auto elim: all_entries.elims)

lemma entries_fixed:
  assumes "has j k (all_entries P)" "\<And>p. P p \<Longrightarrow> f p = Inr ()"
  shows "entries k f j = Inr j"
proof -
  obtain m where m: "jfind j k = Some (JObject m)" "list_all P m"
    using assms(1) by (auto simp: has_def split: option.splits elim!: all_entries.elims)
  have "mapE f m = Inr (map (\<lambda>_. ()) m)" using m(2) assms(2) by (induction m) auto
  with m(1) show ?thesis by (simp add: entries_def)
qed

lemma mapE_checks: "mapE f m = Inr us \<Longrightarrow> (\<And>p u. f p = Inr u \<Longrightarrow> P p) \<Longrightarrow> list_all P m"
  by (induction m arbitrary: us) (auto simp: bindE_Inr_iff simp del: mapE_Inr_iff)

lemma entries_sound:
  "jfind j k = Some (JObject m) \<Longrightarrow> mapE f m = Inr us \<Longrightarrow> (\<And>p u. f p = Inr u \<Longrightarrow> P p) \<Longrightarrow>
     has j k (all_entries P)"
  using mapE_checks [of f m us P] by (simp add: has_def)

lemma inside_fixed:
  assumes "jwf j" "has j k P" "\<And>v. jwf v \<Longrightarrow> P v \<Longrightarrow> f v = Inr v"
  shows "inside k f j = Inr j"
proof -
  obtain v where v: "jfind j k = Some v" "P v"
    using assms(2) by (auto simp: has_def split: option.splits)
  then have "f v = Inr v" using assms(1,3) jwf_jfind by blast
  with v show ?thesis
    using has_object [OF assms(2)] put_id [OF assms(1) v(1)] by (simp add: inside_def)
qed

section \<open>The contract of a validator\<close>

text \<open>What a validator returns is well formed (\<open>ok\<close>), and it changes nothing in a value
  that is well formed.\<close>

locale normaliser =
  fixes validate :: "json \<Rightarrow> json res"
    and ok :: "json \<Rightarrow> bool"
  assumes sound: "jwf j \<Longrightarrow> validate j = Inr j' \<Longrightarrow> ok j' \<and> jwf j'"
    and fixed: "jwf j \<Longrightarrow> ok j \<Longrightarrow> validate j = Inr j"
begin

lemma idempotent: "jwf j \<Longrightarrow> validate j = Inr j' \<Longrightarrow> validate j' = Inr j'"
  using sound fixed by blast

lemma ok_iff_fixed: "jwf j \<Longrightarrow> ok j \<longleftrightarrow> validate j = Inr j"
  using sound fixed by blast

text \<open>A loop over an array of values.\<close>

lemma each_sound:
  "\<forall>x \<in> set xs. jwf x \<Longrightarrow> mapE validate xs = Inr ys \<Longrightarrow> list_all ok ys \<and> (\<forall>y \<in> set ys. jwf y)"
  by (induction xs arbitrary: ys) (auto simp: bindE_Inr_iff simp del: mapE_Inr_iff dest: sound)

lemma each_fixed: "\<forall>x \<in> set xs. jwf x \<Longrightarrow> list_all ok xs \<Longrightarrow> mapE validate xs = Inr xs"
  by (induction xs) (auto simp: fixed)

lemma array_sound:
  assumes "jwf (JArray xs)" "mapE validate xs = Inr ys"
  shows "all_of ok (JArray ys) \<and> jwf (JArray ys)"
  using each_sound assms by simp

lemma array_fixed:
  assumes "jwf j" "has j k (all_of ok)"
  shows "each k validate j = Inr j"
proof -
  obtain xs where xs: "jfind j k = Some (JArray xs)" "list_all ok xs"
    using assms(2) by (auto simp: has_def split: option.splits elim!: all_of.elims)
  have "jwf (JArray xs)" by (rule jwf_jfind [OF assms(1) xs(1)])
  then have "mapE validate xs = Inr xs" using each_fixed xs(2) by simp
  then show ?thesis
    using xs(1) assms(1) put_id [OF assms(1) xs(1)] has_object [OF assms(2)]
    by (simp add: each_def inside_def jmapE_def)
qed

end

end
