(* ===== verification/OrtcValidate.thy ===== *)
theory OrtcValidate
  imports Checks Regex
begin

text \<open>
  The validators of \<open>mssdk/sdputil/jsonvalidate.cpp\<close>, each with the predicate that says
  what a validated value is, and an interpretation of the contract \<open>normaliser\<close>. A
  validator takes the value it is given by reference and returns it as it leaves it.
\<close>

section \<open>RTP capabilities\<close>

definition MimeTypeRegex :: pattern where
  "MimeTypeRegex = regex_icase ''^(audio|video)/(.+)''"

text \<open>The media component of a MIME type; \<open>None\<close> when the type does not match.\<close>

definition mime_kind :: "string \<Rightarrow> string option" where
  "mime_kind s = map_option (\<lambda>m. mgroup m 1) (regex_match MimeTypeRegex s)"

definition mime_of :: "json \<Rightarrow> string option" where
  "mime_of codec = (case jfind codec ''mimeType'' of Some (JString s) \<Rightarrow> mime_kind s | _ \<Rightarrow> None)"

definition mime_check :: step where
  "mime_check codec =
     (if mime_of codec = None then Inl (LazyException ''invalid codec.mimeType'') else Inr codec)"

definition set_kind :: step where
  "set_kind codec = (case mime_of codec of
     None \<Rightarrow> Inl (LazyException ''invalid codec.mimeType'')
   | Some kind \<Rightarrow> jset codec ''kind'' (JString kind))"

text \<open>\<open>channels\<close>: 1 by default for audio, removed otherwise.\<close>

definition set_channels :: "bool \<Rightarrow> step" where
  "set_channels audio codec =
     (if audio then dflt ''channels'' is_number_integer (JInt 1) codec
      else if contains codec ''channels'' then jerase codec ''channels'' else Inr codec)"

text \<open>A codec parameter: a string, a number or null; \<open>apt\<close> must be an integer.\<close>

definition codec_param_check :: "string \<times> json \<Rightarrow> unit res" where
  "codec_param_check p =
     throwIf (\<not> is_string (snd p) \<and> \<not> is_number (snd p) \<and> snd p \<noteq> JNull)
       (LazyException ''invalid codec parameter'')
     (throwIf (fst p = ''apt'' \<and> \<not> is_number_integer (snd p))
       (LazyException ''invalid codec apt parameter'') (Inr ()))"

definition codec_param_ok :: "string \<times> json \<Rightarrow> bool" where
  "codec_param_ok p = ((is_string (snd p) \<or> is_number (snd p) \<or> snd p = JNull)
     \<and> (fst p = ''apt'' \<longrightarrow> is_number_integer (snd p)))"

definition validateRtcpFeedback :: step where
  "validateRtcpFeedback =
     steps [object_check ''fb is not an object'',
            need ''type'' is_string ''missing fb.type'',
            dflt ''parameter'' is_string (JString [])]"

definition validateRtpCodecCapability :: step where
  "validateRtpCodecCapability =
     steps [object_check ''codec is not an object'',
            need ''mimeType'' is_string ''missing codec.mimeType'',
            set_kind,
            maybe ''preferredPayloadType'' is_number_integer ''invalid codec.preferredPayloadType'',
            need ''clockRate'' is_number_integer ''missing codec.clockRate'',
            (\<lambda>codec. set_channels (jfind codec ''kind'' = Some (JString ''audio'')) codec),
            dflt ''parameters'' is_object jobject_empty,
            entries ''parameters'' codec_param_check,
            dflt ''rtcpFeedback'' is_array jarray_empty,
            each ''rtcpFeedback'' validateRtcpFeedback]"

definition media_kind :: "json \<Rightarrow> bool" where
  "media_kind v = (v = JString ''audio'' \<or> v = JString ''video'')"

definition validateRtpHeaderExtension :: step where
  "validateRtpHeaderExtension =
     steps [object_check ''ext is not an object'',
            need ''kind'' is_string ''missing ext.kind'',
            need ''kind'' media_kind ''invalid ext.kind'',
            need ''uri'' nonempty_string ''missing ext.uri'',
            need ''preferredId'' is_number_integer ''missing ext.preferredId'',
            maybe ''preferredEncrypt'' is_boolean ''invalid ext.preferredEncrypt'',
            jdefault ''preferredEncrypt'' (JBool False),
            maybe ''direction'' is_string ''invalid ext.direction'',
            jdefault ''direction'' (JString ''sendrecv'')]"

definition validateRtpCapabilities :: step where
  "validateRtpCapabilities =
     steps [object_check ''caps is not an object'',
            maybe ''codecs'' is_array ''caps.codecs is not an array'',
            jdefault ''codecs'' jarray_empty,
            each ''codecs'' validateRtpCodecCapability,
            maybe ''headerExtensions'' is_array ''caps.headerExtensions is not an array'',
            jdefault ''headerExtensions'' jarray_empty,
            each ''headerExtensions'' validateRtpHeaderExtension]"

section \<open>RTP parameters\<close>

definition validateRtpCodecParameters :: step where
  "validateRtpCodecParameters =
     steps [object_check ''codec is not an object'',
            need ''mimeType'' is_string ''missing codec.mimeType'',
            mime_check,
            need ''payloadType'' is_number_integer ''missing codec.payloadType'',
            need ''clockRate'' is_number_integer ''missing codec.clockRate'',
            (\<lambda>codec. set_channels (mime_of codec = Some ''audio'') codec),
            dflt ''parameters'' is_object jobject_empty,
            entries ''parameters'' codec_param_check,
            dflt ''rtcpFeedback'' is_array jarray_empty,
            each ''rtcpFeedback'' validateRtcpFeedback]"

definition ext_param_check :: "string \<times> json \<Rightarrow> unit res" where
  "ext_param_check p =
     throwIf (\<not> is_string (snd p) \<and> \<not> is_number (snd p))
       (LazyException ''invalid header extension parameter'') (Inr ())"

definition ext_param_ok :: "string \<times> json \<Rightarrow> bool" where
  "ext_param_ok p = (is_string (snd p) \<or> is_number (snd p))"

definition validateRtpHeaderExtensionParameters :: step where
  "validateRtpHeaderExtensionParameters =
     steps [object_check ''ext is not an object'',
            need ''uri'' nonempty_string ''missing ext.uri'',
            need ''id'' is_number_integer ''missing ext.id'',
            dflt ''encrypt'' is_boolean (JBool False),
            dflt ''parameters'' is_object jobject_empty,
            entries ''parameters'' ext_param_check]"

text \<open>\<open>rtx\<close> of an encoding must have an \<open>ssrc\<close> when it is there.\<close>

definition validateRtpEncodingParameters :: step where
  "validateRtpEncodingParameters =
     steps [object_check ''encoding is not an object'',
            maybe ''ssrc'' is_number_integer ''invalid encoding.ssrc'',
            maybe ''rid'' nonempty_string ''invalid encoding.rid'',
            maybe ''rtx'' is_object ''invalid encoding.rtx'',
            maybe ''rtx'' (\<lambda>rtx. has rtx ''ssrc'' is_number_integer) ''missing encoding.rtx.ssrc'',
            dflt ''dtx'' is_boolean (JBool False),
            maybe ''scalabilityMode'' nonempty_string ''invalid encoding.scalabilityMode'']"

definition validateRtcpParameters :: step where
  "validateRtcpParameters =
     steps [object_check ''rtcp is not an object'',
            maybe ''cname'' is_string ''invalid rtcp.cname'',
            dflt ''reducedSize'' is_boolean (JBool True)]"

definition validateRtpParameters :: step where
  "validateRtpParameters =
     steps [object_check ''params is not an object'',
            maybe ''mid'' nonempty_string ''params.mid is not a string'',
            need ''codecs'' is_array ''missing params.codecs'',
            each ''codecs'' validateRtpCodecParameters,
            maybe ''headerExtensions'' is_array ''params.headerExtensions is not an array'',
            jdefault ''headerExtensions'' jarray_empty,
            each ''headerExtensions'' validateRtpHeaderExtensionParameters,
            maybe ''encodings'' is_array ''params.encodings is not an array'',
            jdefault ''encodings'' jarray_empty,
            each ''encodings'' validateRtpEncodingParameters,
            maybe ''rtcp'' is_object ''params.rtcp is not an object'',
            jdefault ''rtcp'' jobject_empty,
            inside ''rtcp'' validateRtcpParameters]"

section \<open>SCTP\<close>

definition validateNumSctpStreams :: step where
  "validateNumSctpStreams =
     steps [object_check ''numStreams is not an object'',
            need ''OS'' is_number_integer ''missing numStreams.OS'',
            need ''MIS'' is_number_integer ''missing numStreams.MIS'']"

definition validateSctpCapabilities :: step where
  "validateSctpCapabilities =
     steps [object_check ''caps is not an object'',
            need ''numStreams'' is_object ''missing caps.numStreams'',
            inside ''numStreams'' validateNumSctpStreams]"

definition validateSctpParameters :: step where
  "validateSctpParameters =
     steps [object_check ''params is not an object'',
            need ''port'' is_number_integer ''missing params.port'',
            need ''OS'' is_number_integer ''missing params.OS'',
            need ''MIS'' is_number_integer ''missing params.MIS'',
            need ''maxMessageSize'' is_number_integer ''missing params.maxMessageSize'']"

text \<open>The two iterators of the reliability fields keep saying whether the field was given,
  also after the defaults have been inserted.\<close>

definition validateSctpStreamParameters :: step where
  "validateSctpStreamParameters params =
     (let lifeGiven = contains params ''maxPacketLifeTime'';
          retransGiven = contains params ''maxRetransmits'';
          orderedGiven = has params ''ordered'' is_boolean
      in steps
        [object_check ''params is not an object'',
         need ''streamId'' is_number_integer ''missing params.streamId'',
         dflt ''ordered'' is_boolean (JBool True),
         dflt ''maxPacketLifeTime'' is_number_integer (JUint 0),
         dflt ''maxRetransmits'' is_number_integer (JUint 0),
         (\<lambda>p. throwIf (lifeGiven \<and> retransGiven)
            (LazyException ''cannot provide both maxPacketLifeTime and maxRetransmits'') (Inr p)),
         (\<lambda>p. throwIf (orderedGiven \<and> jfind p ''ordered'' = Some (JBool True) \<and> (lifeGiven \<or> retransGiven))
            (LazyException ''cannot be ordered with maxPacketLifeTime or maxRetransmits'')
            (if \<not> orderedGiven \<and> (lifeGiven \<or> retransGiven)
             then jset p ''ordered'' (JBool False) else Inr p)),
         dflt ''label'' is_string (JString []),
         dflt ''protocol'' is_string (JString [])] params)"

section \<open>ICE and DTLS\<close>

definition ProtocolRegex :: pattern where
  "ProtocolRegex = regex_icase ''(udp|tcp)''"

definition TypeRegex :: pattern where
  "TypeRegex = regex_icase ''(host|srflx|prflx|relay)''"

definition RoleRegex :: pattern where
  "RoleRegex = regex_icase ''(auto|client|server)''"

fun string_matches :: "pattern \<Rightarrow> json \<Rightarrow> bool" where
  "string_matches p (JString s) = (regex_match p s \<noteq> None)"
| "string_matches p _ = False"

definition validateIceParameters :: step where
  "validateIceParameters =
     steps [object_check ''params is not an object'',
            need ''usernameFragment'' nonempty_string ''missing params.usernameFragment'',
            need ''password'' nonempty_string ''missing params.password'',
            dflt ''iceLite'' is_boolean (JBool False)]"

definition validateIceCandidate :: step where
  "validateIceCandidate =
     steps [object_check ''params is not an object'',
            need ''foundation'' nonempty_string ''missing params.foundation'',
            need ''priority'' is_number_unsigned ''missing params.priority'',
            need ''address'' nonempty_string ''missing params.ip'',
            need ''protocol'' nonempty_string ''missing params.protocol'',
            need ''protocol'' (string_matches ProtocolRegex) ''invalid params.protocol'',
            need ''port'' is_number_unsigned ''missing params.port'',
            need ''type'' nonempty_string ''missing params.type'',
            need ''type'' (string_matches TypeRegex) ''invalid params.type'']"

definition validateIceCandidates :: step where
  "validateIceCandidates params =
     throwIf (\<not> is_array params) (LazyException ''params is not an array'')
       (jmapE validateIceCandidate params)"

definition validateDtlsFingerprint :: step where
  "validateDtlsFingerprint =
     steps [object_check ''params is not an object'',
            need ''algorithm'' nonempty_string ''missing params.algorithm'',
            need ''value'' nonempty_string ''missing params.value'']"

fun nonempty_array :: "json \<Rightarrow> bool" where
  "nonempty_array (JArray xs) = (xs \<noteq> [])"
| "nonempty_array _ = False"

definition validateDtlsParameters :: step where
  "validateDtlsParameters =
     steps [object_check ''params is not an object'',
            need ''role'' nonempty_string ''missing params.role'',
            need ''role'' (string_matches RoleRegex) ''invalid params.role'',
            need ''fingerprints'' nonempty_array ''missing params.fingerprints'',
            each ''fingerprints'' validateDtlsFingerprint]"

section \<open>Producer options\<close>

definition validateProducerCodecOptions :: step where
  "validateProducerCodecOptions =
     steps [object_check ''params is not an object'',
            maybe ''opusStereo'' is_boolean ''invalid params.opusStereo'',
            maybe ''opusFec'' is_boolean ''invalid params.opusFec'',
            maybe ''opusDtx'' is_boolean ''invalid params.opusDtx'',
            maybe ''opusCbr'' is_boolean ''invalid params.opusCbr'',
            maybe ''opusMaxPlaybackRate'' is_number_unsigned ''invalid params.opusMaxPlaybackRate'',
            maybe ''opusMaxAverageBitrate'' is_number_unsigned ''invalid params.opusMaxAverageBitrate'',
            maybe ''opusPtime'' is_number_integer ''invalid params.opusPtime'',
            maybe ''videoGoogleStartBitrate'' is_number_integer ''invalid params.videoGoogleStartBitrate'',
            maybe ''videoGoogleMaxBitrate'' is_number_integer ''invalid params.videoGoogleMaxBitrate'',
            maybe ''videoGoogleMinBitrate'' is_number_integer ''invalid params.videoGoogleMinBitrate'']"

end
