(* ===== verification/OrtcValid.thy ===== *)
theory OrtcValid
  imports OrtcValidate
begin

text \<open>
  What the validators guarantee. Each validator has a predicate that reads its promise
  off the code, and is shown to be a \<open>normaliser\<close> for it: its result satisfies the
  predicate, and a value that satisfies the predicate is returned unchanged.
\<close>

section \<open>Well-formed values\<close>

definition feedback_ok :: "json \<Rightarrow> bool" where
  "feedback_ok fb = (is_object fb \<and> has fb ''type'' is_string \<and> has fb ''parameter'' is_string)"

definition channels_ok :: "json \<Rightarrow> bool" where
  "channels_ok codec =
     (if mime_of codec = Some ''audio'' then has codec ''channels'' is_number_integer
      else \<not> contains codec ''channels'')"

definition codec_common_ok :: "json \<Rightarrow> bool" where
  "codec_common_ok codec =
     (is_object codec \<and> mime_of codec \<noteq> None \<and> has codec ''clockRate'' is_number_integer \<and> channels_ok codec
      \<and> has codec ''parameters'' (all_entries codec_param_ok)
      \<and> has codec ''rtcpFeedback'' (all_of feedback_ok))"

definition codec_cap_ok :: "json \<Rightarrow> bool" where
  "codec_cap_ok codec =
     (codec_common_ok codec
      \<and> has codec ''kind'' (\<lambda>v. Some v = map_option JString (mime_of codec))
      \<and> opt codec ''preferredPayloadType'' is_number_integer)"

definition codec_params_ok :: "json \<Rightarrow> bool" where
  "codec_params_ok codec = (codec_common_ok codec \<and> has codec ''payloadType'' is_number_integer)"

definition ext_cap_ok :: "json \<Rightarrow> bool" where
  "ext_cap_ok ext =
     (is_object ext \<and> has ext ''kind'' media_kind \<and> has ext ''uri'' nonempty_string
      \<and> has ext ''preferredId'' is_number_integer \<and> has ext ''preferredEncrypt'' is_boolean
      \<and> has ext ''direction'' is_string)"

definition caps_ok :: "json \<Rightarrow> bool" where
  "caps_ok caps = (is_object caps \<and> has caps ''codecs'' (all_of codec_cap_ok)
     \<and> has caps ''headerExtensions'' (all_of ext_cap_ok))"

definition ext_params_ok :: "json \<Rightarrow> bool" where
  "ext_params_ok ext =
     (is_object ext \<and> has ext ''uri'' nonempty_string \<and> has ext ''id'' is_number_integer
      \<and> has ext ''encrypt'' is_boolean \<and> has ext ''parameters'' (all_entries ext_param_ok))"

definition rtx_ok :: "json \<Rightarrow> bool" where
  "rtx_ok rtx = (is_object rtx \<and> has rtx ''ssrc'' is_number_integer)"

definition encoding_ok :: "json \<Rightarrow> bool" where
  "encoding_ok e =
     (is_object e \<and> opt e ''ssrc'' is_number_integer \<and> opt e ''rid'' nonempty_string
      \<and> opt e ''rtx'' rtx_ok \<and> has e ''dtx'' is_boolean
      \<and> opt e ''scalabilityMode'' nonempty_string)"

definition rtcp_ok :: "json \<Rightarrow> bool" where
  "rtcp_ok r = (is_object r \<and> opt r ''cname'' is_string \<and> has r ''reducedSize'' is_boolean)"

definition rtp_params_ok :: "json \<Rightarrow> bool" where
  "rtp_params_ok p =
     (is_object p \<and> opt p ''mid'' nonempty_string \<and> has p ''codecs'' (all_of codec_params_ok)
      \<and> has p ''headerExtensions'' (all_of ext_params_ok)
      \<and> has p ''encodings'' (all_of encoding_ok) \<and> has p ''rtcp'' rtcp_ok)"

definition num_streams_ok :: "json \<Rightarrow> bool" where
  "num_streams_ok n = (is_object n \<and> has n ''OS'' is_number_integer \<and> has n ''MIS'' is_number_integer)"

definition sctp_caps_ok :: "json \<Rightarrow> bool" where
  "sctp_caps_ok c = (is_object c \<and> has c ''numStreams'' num_streams_ok)"

definition sctp_params_ok :: "json \<Rightarrow> bool" where
  "sctp_params_ok p =
     (is_object p \<and> has p ''port'' is_number_integer \<and> has p ''OS'' is_number_integer
      \<and> has p ''MIS'' is_number_integer \<and> has p ''maxMessageSize'' is_number_integer)"

definition ice_params_ok :: "json \<Rightarrow> bool" where
  "ice_params_ok p =
     (is_object p \<and> has p ''usernameFragment'' nonempty_string \<and> has p ''password'' nonempty_string
      \<and> has p ''iceLite'' is_boolean)"

definition ice_candidate_ok :: "json \<Rightarrow> bool" where
  "ice_candidate_ok p =
     (is_object p \<and> has p ''foundation'' nonempty_string \<and> has p ''priority'' is_number_unsigned
      \<and> has p ''address'' nonempty_string \<and> has p ''protocol'' (string_matches ProtocolRegex)
      \<and> has p ''protocol'' nonempty_string
      \<and> has p ''port'' is_number_unsigned \<and> has p ''type'' (string_matches TypeRegex)
      \<and> has p ''type'' nonempty_string)"

definition fingerprint_ok :: "json \<Rightarrow> bool" where
  "fingerprint_ok p = (is_object p \<and> has p ''algorithm'' nonempty_string \<and> has p ''value'' nonempty_string)"

definition dtls_params_ok :: "json \<Rightarrow> bool" where
  "dtls_params_ok p =
     (is_object p \<and> has p ''role'' nonempty_string \<and> has p ''role'' (string_matches RoleRegex)
      \<and> has p ''fingerprints'' nonempty_array \<and> has p ''fingerprints'' (all_of fingerprint_ok))"

definition codec_options_ok :: "json \<Rightarrow> bool" where
  "codec_options_ok p =
     (is_object p
      \<and> list_all (\<lambda>k. opt p k is_boolean) [''opusStereo'', ''opusFec'', ''opusDtx'', ''opusCbr'']
      \<and> list_all (\<lambda>k. opt p k is_number_unsigned) [''opusMaxPlaybackRate'', ''opusMaxAverageBitrate'']
      \<and> list_all (\<lambda>k. opt p k is_number_integer)
          [''opusPtime'', ''videoGoogleStartBitrate'', ''videoGoogleMaxBitrate'', ''videoGoogleMinBitrate''])"

section \<open>The checks of parameters\<close>

lemma codec_param_check_Inr: "codec_param_check p = Inr u \<longleftrightarrow> codec_param_ok p"
  by (auto simp: codec_param_check_def codec_param_ok_def throwIf_def)

lemma ext_param_check_Inr: "ext_param_check p = Inr u \<longleftrightarrow> ext_param_ok p"
  by (auto simp: ext_param_check_def ext_param_ok_def throwIf_def)

section \<open>The validators as normalisers\<close>

lemma steps_Inr:
  "steps [] j = Inr j' \<longleftrightarrow> j' = j"
  "steps (f # fs) j = Inr j' \<longleftrightarrow> (\<exists>u. f j = Inr u \<and> steps fs u = Inr j')"
  by (auto simp: bindE_Inr_iff)

interpretation fb: normaliser validateRtcpFeedback feedback_ok
proof
  fix j j' assume j: "jwf j"
  show "validateRtcpFeedback j = Inr j' \<Longrightarrow> feedback_ok j' \<and> jwf j'"
    using j by (auto simp: validateRtcpFeedback_def feedback_ok_def steps_Inr step_simps simp del: steps.simps)
  show "feedback_ok j \<Longrightarrow> validateRtcpFeedback j = Inr j"
    by (simp add: validateRtcpFeedback_def feedback_ok_def fixed_steps has_object)
qed

lemma has_media_kind: "has j k media_kind \<Longrightarrow> has j k is_string"
  by (erule has_mono) (auto simp: media_kind_def)

interpretation ext_cap: normaliser validateRtpHeaderExtension ext_cap_ok
proof
  fix j j' assume j: "jwf j"
  show "validateRtpHeaderExtension j = Inr j' \<Longrightarrow> ext_cap_ok j' \<and> jwf j'"
    using j by (auto simp: validateRtpHeaderExtension_def ext_cap_ok_def steps_Inr step_simps opt_has
      simp del: steps.simps)
  show "ext_cap_ok j \<Longrightarrow> validateRtpHeaderExtension j = Inr j"
    unfolding validateRtpHeaderExtension_def ext_cap_ok_def
    by (rule steps_fixed) (auto simp: fixed_steps has_contains has_opt has_media_kind)
qed

text \<open>The fields that the MIME type determines.\<close>

lemma mime_of_put [step_simps]: "k \<noteq> ''mimeType'' \<Longrightarrow> mime_of (put k v j) = mime_of j"
  by (simp add: mime_of_def jfind_put)

lemma mime_of_dput [step_simps]: "k \<noteq> ''mimeType'' \<Longrightarrow> mime_of (dput k P v j) = mime_of j"
  by (simp add: mime_of_def jfind_dput)

lemma set_kind_Inr [step_simps]:
  "is_object j \<Longrightarrow> set_kind j = Inr j' \<longleftrightarrow> (\<exists>k. mime_of j = Some k \<and> j' = put ''kind'' (JString k) j)"
  by (auto simp: set_kind_def split: option.split)

lemma mime_check_Inr [step_simps]: "mime_check j = Inr j' \<longleftrightarrow> mime_of j \<noteq> None \<and> j' = j"
  by (auto simp: mime_check_def)

definition channels_put :: "bool \<Rightarrow> json \<Rightarrow> json" where
  "channels_put audio j =
     (if audio then dput ''channels'' is_number_integer (JInt 1) j
      else if contains j ''channels'' then drop_key ''channels'' j else j)"

lemma set_channels_Inr [step_simps]:
  "is_object j \<Longrightarrow> set_channels audio j = Inr j' \<longleftrightarrow> j' = channels_put audio j"
  by (auto simp: set_channels_def channels_put_def dflt_Inr)

lemma channels_put_simps [step_simps]:
  "is_object j \<Longrightarrow> is_object (channels_put a j)"
  "jwf j \<Longrightarrow> jwf (channels_put a j)"
  "k \<noteq> ''channels'' \<Longrightarrow> jfind (channels_put a j) k = jfind j k"
  "k \<noteq> ''channels'' \<Longrightarrow> has (channels_put a j) k P = has j k P"
  "k \<noteq> ''channels'' \<Longrightarrow> opt (channels_put a j) k P = opt j k P"
  "mime_of (channels_put a j) = mime_of j"
  "has (channels_put True j) ''channels'' is_number_integer"
  "contains (channels_put False j) ''channels'' = False"
  by (auto simp: channels_put_def step_simps mime_of_def)

lemma has_eq: "has j k (\<lambda>v. v = w) \<longleftrightarrow> jfind j k = Some w"
  by (auto simp: has_def split: option.splits)

text \<open>The end of both codec validators: the parameters and the RTCP feedback.\<close>

definition codec_tail :: "step list" where
  "codec_tail =
     [dflt ''parameters'' is_object jobject_empty,
      entries ''parameters'' codec_param_check,
      dflt ''rtcpFeedback'' is_array jarray_empty,
      each ''rtcpFeedback'' validateRtcpFeedback]"

definition codec_tail_ok :: "json \<Rightarrow> bool" where
  "codec_tail_ok j = (has j ''parameters'' (all_entries codec_param_ok)
     \<and> has j ''rtcpFeedback'' (all_of feedback_ok))"

lemma steps_append: "steps (fs @ gs) j = bindE (steps fs j) (steps gs)"
  by (induction fs arbitrary: j) (simp_all add: bindE_assoc bindE_def split: sum.split)

lemma codec_tail_sound:
  assumes "is_object j" "jwf j" "steps codec_tail j = Inr j'"
  shows "codec_tail_ok j' \<and> is_object j' \<and> jwf j'
     \<and> (\<forall>k. k \<noteq> ''parameters'' \<longrightarrow> k \<noteq> ''rtcpFeedback'' \<longrightarrow> jfind j' k = jfind j k)"
proof -
  let ?p = "dput ''parameters'' is_object jobject_empty j"
  let ?f = "dput ''rtcpFeedback'' is_array jarray_empty ?p"
  obtain m us xs ys where m: "jfind ?p ''parameters'' = Some (JObject m)" "mapE codec_param_check m = Inr us"
      and xs: "jfind ?f ''rtcpFeedback'' = Some (JArray xs)" "mapE validateRtcpFeedback xs = Inr ys"
      and j': "j' = put ''rtcpFeedback'' (JArray ys) ?f"
    using assms by (auto simp: codec_tail_def steps_Inr step_simps simp del: steps.simps)
  have "all_of feedback_ok (JArray ys) \<and> jwf (JArray ys)"
    by (rule fb.array_sound [OF jwf_jfind [OF _ xs(1)] xs(2)]) (simp add: assms)
  moreover have "has ?p ''parameters'' (all_entries codec_param_ok)"
    by (rule entries_sound [OF m]) (simp add: codec_param_check_Inr)
  ultimately show ?thesis using assms(1,2) j' by (simp add: codec_tail_ok_def step_simps)
qed

lemma codec_tail_fixed: "jwf j \<Longrightarrow> codec_tail_ok j \<Longrightarrow> steps codec_tail j = Inr j"
  unfolding codec_tail_def codec_tail_ok_def
  by (rule steps_fixed)
    (auto simp: fixed_steps has_all_entries has_all_of codec_param_check_Inr
      intro: entries_fixed fb.array_fixed)

lemma codec_common_unfold: "codec_common_ok j \<longleftrightarrow> is_object j \<and> mime_of j \<noteq> None
    \<and> has j ''clockRate'' is_number_integer \<and> channels_ok j \<and> codec_tail_ok j"
  by (auto simp: codec_common_ok_def codec_tail_ok_def)

lemma mime_of_has: "mime_of j \<noteq> None \<Longrightarrow> has j ''mimeType'' is_string"
  by (auto simp: mime_of_def has_def split: option.splits json.splits)

lemma jfind_cong:
  assumes "\<forall>k. k \<noteq> a \<longrightarrow> k \<noteq> b \<longrightarrow> jfind j' k = jfind j k" "k \<noteq> a" "k \<noteq> b"
  shows "has j' k P = has j k P" "opt j' k P = opt j k P" "contains j' k = contains j k"
  using assms by (simp_all add: has_def opt_def contains_def)

lemma set_channels_fixed:
  "channels_ok j \<Longrightarrow> a = (mime_of j = Some ''audio'') \<Longrightarrow> set_channels a j = Inr j"
  by (auto simp: channels_ok_def set_channels_def dflt_fixed)

interpretation codec_cap: normaliser validateRtpCodecCapability codec_cap_ok
proof
  let ?head = "[object_check ''codec is not an object'',
            need ''mimeType'' is_string ''missing codec.mimeType'',
            set_kind,
            maybe ''preferredPayloadType'' is_number_integer ''invalid codec.preferredPayloadType'',
            need ''clockRate'' is_number_integer ''missing codec.clockRate'',
            (\<lambda>codec. set_channels (jfind codec ''kind'' = Some (JString ''audio'')) codec)]"
  have eq: "validateRtpCodecCapability = steps (?head @ codec_tail)"
    by (simp add: validateRtpCodecCapability_def codec_tail_def)
  fix j j' assume j: "jwf j"
  show "codec_cap_ok j' \<and> jwf j'" if v: "validateRtpCodecCapability j = Inr j'"
  proof -
    obtain u where u: "steps ?head j = Inr u" "steps codec_tail u = Inr j'"
      using v unfolding eq steps_append bindE_Inr_iff by blast
    obtain k where k: "mime_of j = Some k" "is_object j" "has j ''clockRate'' is_number_integer"
        "opt j ''preferredPayloadType'' is_number_integer"
        "u = channels_put (k = ''audio'') (put ''kind'' (JString k) j)"
      using u(1) by (auto simp: steps_Inr step_simps simp del: steps.simps)
    have "is_object u" "jwf u" using k j by (simp_all add: step_simps)
    note t = codec_tail_sound [OF this u(2)]
    then have f: "jfind j' l = jfind u l" if "l \<noteq> ''parameters''" "l \<noteq> ''rtcpFeedback''" for l
      using that by blast
    have "mime_of j' = mime_of u" by (simp add: mime_of_def f)
    moreover have "has j' l P = has u l P" "opt j' l P = opt u l P" "contains j' l = contains u l"
      if "l \<noteq> ''parameters''" "l \<noteq> ''rtcpFeedback''" for l P
      using f [OF that] by (simp_all add: has_def opt_def contains_def)
    ultimately show ?thesis using t k
      by (cases "k = ''audio''") (simp_all add: codec_cap_ok_def codec_common_unfold channels_ok_def step_simps)
  qed
  show "validateRtpCodecCapability j = Inr j" if ok: "codec_cap_ok j"
  proof -
    have c: "codec_common_ok j" using ok by (simp add: codec_cap_ok_def)
    then obtain k where k: "mime_of j = Some k" by (auto simp: codec_common_ok_def)
    then have kind: "jfind j ''kind'' = Some (JString k)" using ok by (simp add: codec_cap_ok_def has_eq)
    have "steps ?head j = Inr j"
      by (rule steps_fixed) (use ok c k kind put_id [OF j kind] in \<open>auto simp: codec_cap_ok_def codec_common_ok_def
            fixed_steps mime_of_has set_kind_def intro!: set_channels_fixed\<close>)
    then show ?thesis using codec_tail_fixed [OF j] c
      by (simp only: eq steps_append bindE_simps codec_common_unfold)
  qed
qed

interpretation codec_params: normaliser validateRtpCodecParameters codec_params_ok
proof
  let ?head = "[object_check ''codec is not an object'',
            need ''mimeType'' is_string ''missing codec.mimeType'',
            mime_check,
            need ''payloadType'' is_number_integer ''missing codec.payloadType'',
            need ''clockRate'' is_number_integer ''missing codec.clockRate'',
            (\<lambda>codec. set_channels (mime_of codec = Some ''audio'') codec)]"
  have eq: "validateRtpCodecParameters = steps (?head @ codec_tail)"
    by (simp add: validateRtpCodecParameters_def codec_tail_def)
  fix j j' assume j: "jwf j"
  show "codec_params_ok j' \<and> jwf j'" if v: "validateRtpCodecParameters j = Inr j'"
  proof -
    obtain u where u: "steps ?head j = Inr u" "steps codec_tail u = Inr j'"
      using v unfolding eq steps_append bindE_Inr_iff by blast
    obtain k where k: "mime_of j = Some k" "is_object j" "has j ''clockRate'' is_number_integer"
        "has j ''payloadType'' is_number_integer" "u = channels_put (k = ''audio'') j"
      using u(1) by (auto simp: steps_Inr step_simps simp del: steps.simps)
    have "is_object u" "jwf u" using k j by (simp_all add: step_simps)
    note t = codec_tail_sound [OF this u(2)]
    then have f: "jfind j' l = jfind u l" if "l \<noteq> ''parameters''" "l \<noteq> ''rtcpFeedback''" for l
      using that by blast
    have "mime_of j' = mime_of u" by (simp add: mime_of_def f)
    moreover have "has j' l P = has u l P" "contains j' l = contains u l"
      if "l \<noteq> ''parameters''" "l \<noteq> ''rtcpFeedback''" for l P
      using f [OF that] by (simp_all add: has_def contains_def)
    ultimately show ?thesis using t k
      by (cases "k = ''audio''") (simp_all add: codec_params_ok_def codec_common_unfold channels_ok_def step_simps)
  qed
  show "validateRtpCodecParameters j = Inr j" if ok: "codec_params_ok j"
  proof -
    have c: "codec_common_ok j" using ok by (simp add: codec_params_ok_def)
    have "steps ?head j = Inr j"
      by (rule steps_fixed) (use ok c in \<open>auto simp: codec_params_ok_def codec_common_ok_def
            fixed_steps mime_of_has mime_check_def intro!: set_channels_fixed\<close>)
    then show ?thesis using codec_tail_fixed [OF j] c
      by (simp only: eq steps_append bindE_simps codec_common_unfold)
  qed
qed

section \<open>Composed validators\<close>

text \<open>Validating the array or object under a key replaces it by a well-formed one.\<close>

lemma put_twice: "put k v (put k w j) = put k v j"
  by (cases j) (auto simp: put_def aset_twice)

lemma put_sput: "put k v (sput k w j) = put k v j"
  by (simp add: sput_def put_twice)

lemma entries_of_each:
  assumes "normaliser f ok" "jwf j" "has j k is_array" "each k f j = Inr j'"
  shows "\<exists>v. j' = put k v j \<and> all_of ok v \<and> jwf v"
proof -
  obtain xs ys where "jfind j k = Some (JArray xs)" "mapE f xs = Inr ys" "j' = put k (JArray ys) j"
    using each_Inr [OF assms(3)] assms(4) by blast
  with normaliser.array_sound [OF assms(1) jwf_jfind [OF assms(2)]] show ?thesis by blast
qed

lemma need_array_sound:
  assumes "normaliser f ok" "jwf j" "steps (need k is_array e # each k f # rest) j = Inr j'"
  obtains v where "all_of ok v" "jwf v" "steps rest (put k v j) = Inr j'"
proof -
  obtain u where u: "has j k is_array" "each k f j = Inr u" "steps rest u = Inr j'"
    using assms(3) by (auto simp: bindE_Inr_iff need_Inr)
  then obtain v where "u = put k v j" "all_of ok v" "jwf v"
    using entries_of_each [OF assms(1,2)] by blast
  with u that show thesis by blast
qed

lemma optional_array_sound:
  assumes "normaliser f ok" "is_object j" "jwf j"
    "steps (maybe k is_array e # jdefault k jarray_empty # each k f # rest) j = Inr j'"
  obtains v where "all_of ok v" "jwf v" "steps rest (put k v j) = Inr j'"
proof -
  obtain u where u: "opt j k is_array" "each k f (sput k jarray_empty j) = Inr u" "steps rest u = Inr j'"
    using assms(2,4) by (auto simp: bindE_Inr_iff maybe_Inr jdefault_Inr)
  have "has (sput k jarray_empty j) k is_array" using u(1) opt_has [of j k is_array] by (simp add: has_sput)
  then obtain v where "u = put k v j" "all_of ok v" "jwf v"
    using entries_of_each [OF assms(1) _ _ u(2)] assms(3) by (auto simp: put_sput)
  with u that show thesis by blast
qed

lemma inside_sound:
  assumes "normaliser f ok" "is_object j" "jwf j" "inside k f j = Inr j'"
  obtains v where "j' = put k v j" "ok v" "jwf v"
proof -
  obtain v w where w: "jfind j k = Some v" "f v = Inr w" "j' = put k w j"
    using inside_Inr [OF assms(2)] assms(4) by blast
  with normaliser.sound [OF assms(1) jwf_jfind [OF assms(3) w(1)] w(2)] that show thesis by blast
qed

lemma array_steps_fixed:
  "has j k (all_of P) \<Longrightarrow> maybe k is_array e j = Inr j"
  "has j k (all_of P) \<Longrightarrow> need k is_array e j = Inr j"
  by (simp_all add: maybe_fixed need_fixed has_opt has_all_of)

interpretation caps: normaliser validateRtpCapabilities caps_ok
proof
  fix j j' assume j: "jwf j"
  show "caps_ok j' \<and> jwf j'" if v: "validateRtpCapabilities j = Inr j'"
  proof -
    have o': "is_object j" and s: "steps [maybe ''codecs'' is_array ''caps.codecs is not an array'',
            jdefault ''codecs'' jarray_empty, each ''codecs'' validateRtpCodecCapability,
            maybe ''headerExtensions'' is_array ''caps.headerExtensions is not an array'',
            jdefault ''headerExtensions'' jarray_empty,
            each ''headerExtensions'' validateRtpHeaderExtension] j = Inr j'"
      using v by (auto simp: validateRtpCapabilities_def steps_Inr(2) object_check_Inr simp del: steps.simps)
    obtain v where v: "all_of codec_cap_ok v" "jwf v" and s: "steps
           [maybe ''headerExtensions'' is_array ''caps.headerExtensions is not an array'',
            jdefault ''headerExtensions'' jarray_empty,
            each ''headerExtensions'' validateRtpHeaderExtension] (put ''codecs'' v j) = Inr j'"
      by (rule optional_array_sound [OF codec_cap.normaliser_axioms o' j s])
    obtain w where "all_of ext_cap_ok w" "jwf w" "steps [] (put ''headerExtensions'' w (put ''codecs'' v j)) = Inr j'"
      by (rule optional_array_sound [OF ext_cap.normaliser_axioms _ _ s]) (simp_all add: j v)
    with v show ?thesis using j o' by (simp add: caps_ok_def step_simps) (auto simp: step_simps)
  qed
  show "caps_ok j \<Longrightarrow> validateRtpCapabilities j = Inr j"
    unfolding validateRtpCapabilities_def caps_ok_def
    by (rule steps_fixed)
      (auto simp: fixed_steps has_contains array_steps_fixed
        intro: codec_cap.array_fixed [OF j] ext_cap.array_fixed [OF j])
qed

interpretation ext_params: normaliser validateRtpHeaderExtensionParameters ext_params_ok
proof
  fix j j' assume j: "jwf j"
  show "ext_params_ok j' \<and> jwf j'" if v: "validateRtpHeaderExtensionParameters j = Inr j'"
  proof -
    have j': "j' = dput ''parameters'' is_object jobject_empty (dput ''encrypt'' is_boolean (JBool False) j)"
      and o': "is_object j" "has j ''uri'' nonempty_string" "has j ''id'' is_number_integer"
      and "\<exists>m us. jfind j' ''parameters'' = Some (JObject m) \<and> mapE ext_param_check m = Inr us"
      using v by (auto simp: validateRtpHeaderExtensionParameters_def steps_Inr step_simps simp del: steps.simps)
    then have "has j' ''parameters'' (all_entries ext_param_ok)"
      using entries_sound [of j' "''parameters''" _ ext_param_check] ext_param_check_Inr by blast
    with j j' o' show ?thesis by (simp add: ext_params_ok_def step_simps split: if_splits)
  qed
  show "ext_params_ok j \<Longrightarrow> validateRtpHeaderExtensionParameters j = Inr j"
    unfolding validateRtpHeaderExtensionParameters_def ext_params_ok_def
    by (rule steps_fixed)
      (auto simp: fixed_steps has_all_entries ext_param_check_Inr intro: entries_fixed)
qed

interpretation enc: normaliser validateRtpEncodingParameters encoding_ok
proof
  fix j j' assume j: "jwf j"
  have rtx: "opt j k is_object \<and> opt j k (\<lambda>rtx. has rtx ''ssrc'' is_number_integer) \<longleftrightarrow> opt j k rtx_ok" for k
    by (auto simp: opt_def rtx_ok_def split: option.splits)
  show "validateRtpEncodingParameters j = Inr j' \<Longrightarrow> encoding_ok j' \<and> jwf j'"
    using j rtx [of "''rtx''"] by (auto simp: validateRtpEncodingParameters_def encoding_ok_def steps_Inr step_simps
      simp del: steps.simps)
  show "encoding_ok j \<Longrightarrow> validateRtpEncodingParameters j = Inr j"
    unfolding validateRtpEncodingParameters_def encoding_ok_def
    by (rule steps_fixed) (use rtx [of "''rtx''"] in \<open>auto simp: fixed_steps\<close>)
qed

interpretation rtcp: normaliser validateRtcpParameters rtcp_ok
proof
  fix j j' assume j: "jwf j"
  show "validateRtcpParameters j = Inr j' \<Longrightarrow> rtcp_ok j' \<and> jwf j'"
    using j by (auto simp: validateRtcpParameters_def rtcp_ok_def steps_Inr step_simps simp del: steps.simps)
  show "rtcp_ok j \<Longrightarrow> validateRtcpParameters j = Inr j"
    unfolding validateRtcpParameters_def rtcp_ok_def
    by (rule steps_fixed) (auto simp: fixed_steps)
qed

lemma rtcp_object: "has j k rtcp_ok \<Longrightarrow> maybe k is_object e j = Inr j"
  by (rule maybe_fixed, rule has_opt, erule has_mono) (simp add: rtcp_ok_def)

interpretation rtp_params: normaliser validateRtpParameters rtp_params_ok
proof
  fix j j' assume j: "jwf j"
  show "rtp_params_ok j' \<and> jwf j'" if v: "validateRtpParameters j = Inr j'"
  proof -
    have o': "is_object j" "opt j ''mid'' nonempty_string" and s: "steps
           [need ''codecs'' is_array ''missing params.codecs'',
            each ''codecs'' validateRtpCodecParameters,
            maybe ''headerExtensions'' is_array ''params.headerExtensions is not an array'',
            jdefault ''headerExtensions'' jarray_empty,
            each ''headerExtensions'' validateRtpHeaderExtensionParameters,
            maybe ''encodings'' is_array ''params.encodings is not an array'',
            jdefault ''encodings'' jarray_empty,
            each ''encodings'' validateRtpEncodingParameters,
            maybe ''rtcp'' is_object ''params.rtcp is not an object'',
            jdefault ''rtcp'' jobject_empty,
            inside ''rtcp'' validateRtcpParameters] j = Inr j'"
      using v by (auto simp: validateRtpParameters_def steps_Inr(2) object_check_Inr maybe_Inr simp del: steps.simps)
    obtain a where a: "all_of codec_params_ok a" "jwf a" and s: "steps
           [maybe ''headerExtensions'' is_array ''params.headerExtensions is not an array'',
            jdefault ''headerExtensions'' jarray_empty,
            each ''headerExtensions'' validateRtpHeaderExtensionParameters,
            maybe ''encodings'' is_array ''params.encodings is not an array'',
            jdefault ''encodings'' jarray_empty,
            each ''encodings'' validateRtpEncodingParameters,
            maybe ''rtcp'' is_object ''params.rtcp is not an object'',
            jdefault ''rtcp'' jobject_empty,
            inside ''rtcp'' validateRtcpParameters] (put ''codecs'' a j) = Inr j'"
      by (rule need_array_sound [OF codec_params.normaliser_axioms j s])
    obtain b where b: "all_of ext_params_ok b" "jwf b" and s: "steps
           [maybe ''encodings'' is_array ''params.encodings is not an array'',
            jdefault ''encodings'' jarray_empty,
            each ''encodings'' validateRtpEncodingParameters,
            maybe ''rtcp'' is_object ''params.rtcp is not an object'',
            jdefault ''rtcp'' jobject_empty,
            inside ''rtcp'' validateRtcpParameters] (put ''headerExtensions'' b (put ''codecs'' a j)) = Inr j'"
      by (rule optional_array_sound [OF ext_params.normaliser_axioms _ _ s]) (simp_all add: j a)
    obtain c where c: "all_of encoding_ok c" "jwf c" and s: "steps
           [maybe ''rtcp'' is_object ''params.rtcp is not an object'',
            jdefault ''rtcp'' jobject_empty, inside ''rtcp'' validateRtcpParameters]
         (put ''encodings'' c (put ''headerExtensions'' b (put ''codecs'' a j))) = Inr j'"
      by (rule optional_array_sound [OF enc.normaliser_axioms _ _ s]) (simp_all add: j a b)
    let ?u = "sput ''rtcp'' jobject_empty (put ''encodings'' c (put ''headerExtensions'' b (put ''codecs'' a j)))"
    have i: "inside ''rtcp'' validateRtcpParameters ?u = Inr j'"
      using s by (auto simp: steps_Inr maybe_Inr jdefault_Inr simp del: steps.simps)
    obtain d where "j' = put ''rtcp'' d ?u" "rtcp_ok d" "jwf d"
      by (rule inside_sound [OF rtcp.normaliser_axioms _ _ i]) (simp_all add: j a b c)
    with a b c o' j show ?thesis by (simp add: rtp_params_ok_def step_simps put_sput)
  qed
  show "rtp_params_ok j \<Longrightarrow> validateRtpParameters j = Inr j"
    unfolding validateRtpParameters_def rtp_params_ok_def
    by (rule steps_fixed)
      (auto simp: fixed_steps has_contains array_steps_fixed rtcp_object
        intro: codec_params.array_fixed [OF j] ext_params.array_fixed [OF j] enc.array_fixed [OF j]
          inside_fixed [OF j] rtcp.fixed)
qed

section \<open>The other parameters\<close>

interpretation num_streams: normaliser validateNumSctpStreams num_streams_ok
  by unfold_locales
    (auto simp: validateNumSctpStreams_def num_streams_ok_def step_simps bindE_Inr_iff fixed_steps)

interpretation sctp_params: normaliser validateSctpParameters sctp_params_ok
  by unfold_locales
    (auto simp: validateSctpParameters_def sctp_params_ok_def step_simps bindE_Inr_iff fixed_steps)

interpretation ice_params: normaliser validateIceParameters ice_params_ok
  by unfold_locales
    (auto simp: validateIceParameters_def ice_params_ok_def step_simps bindE_Inr_iff fixed_steps)

interpretation ice_candidate: normaliser validateIceCandidate ice_candidate_ok
  by unfold_locales
    (auto simp: validateIceCandidate_def ice_candidate_ok_def step_simps bindE_Inr_iff fixed_steps)

interpretation fingerprint: normaliser validateDtlsFingerprint fingerprint_ok
  by unfold_locales
    (auto simp: validateDtlsFingerprint_def fingerprint_ok_def step_simps bindE_Inr_iff fixed_steps)

interpretation codec_options: normaliser validateProducerCodecOptions codec_options_ok
  by unfold_locales
    (auto simp: validateProducerCodecOptions_def codec_options_ok_def step_simps bindE_Inr_iff fixed_steps)

lemma num_streams_object: "has j k num_streams_ok \<Longrightarrow> need k is_object e j = Inr j"
  by (rule need_fixed, erule has_mono) (simp add: num_streams_ok_def)

interpretation sctp_caps: normaliser validateSctpCapabilities sctp_caps_ok
proof
  fix j j' assume j: "jwf j"
  show "sctp_caps_ok j' \<and> jwf j'" if v: "validateSctpCapabilities j = Inr j'"
  proof -
    have o': "is_object j" and i: "inside ''numStreams'' validateNumSctpStreams j = Inr j'"
      using v by (auto simp: validateSctpCapabilities_def steps_Inr object_check_Inr need_Inr simp del: steps.simps)
    obtain n where "j' = put ''numStreams'' n j" "num_streams_ok n" "jwf n"
      by (rule inside_sound [OF num_streams.normaliser_axioms o' j i])
    with j show ?thesis by (simp add: sctp_caps_ok_def step_simps)
  qed
  show "sctp_caps_ok j \<Longrightarrow> validateSctpCapabilities j = Inr j"
    unfolding validateSctpCapabilities_def sctp_caps_ok_def
    by (rule steps_fixed)
      (auto simp: fixed_steps num_streams_object intro: inside_fixed [OF j] num_streams.fixed)
qed

interpretation ice_candidates: normaliser validateIceCandidates "all_of ice_candidate_ok"
proof
  fix j j' assume j: "jwf j"
  show "all_of ice_candidate_ok j' \<and> jwf j'" if v: "validateIceCandidates j = Inr j'"
  proof -
    obtain xs ys where "j = JArray xs" "mapE validateIceCandidate xs = Inr ys" "j' = JArray ys"
      using v by (auto simp: validateIceCandidates_def throwIf_Inr_iff is_array_iff bindE_Inr_iff)
    with ice_candidate.array_sound j show ?thesis by blast
  qed
  show "all_of ice_candidate_ok j \<Longrightarrow> validateIceCandidates j = Inr j"
    using j ice_candidate.each_fixed by (cases j) (auto simp: validateIceCandidates_def)
qed

interpretation dtls: normaliser validateDtlsParameters dtls_params_ok
proof
  fix j j' assume j: "jwf j"
  show "dtls_params_ok j' \<and> jwf j'" if v: "validateDtlsParameters j = Inr j'"
  proof -
    have r: "is_object j" "has j ''role'' nonempty_string" "has j ''role'' (string_matches RoleRegex)"
      "has j ''fingerprints'' nonempty_array"
      and e: "each ''fingerprints'' validateDtlsFingerprint j = Inr j'"
      using v by (auto simp: validateDtlsParameters_def steps_Inr object_check_Inr need_Inr simp del: steps.simps)
    obtain xs where xs: "jfind j ''fingerprints'' = Some (JArray xs)" "xs \<noteq> []"
      using r(4) by (auto simp: has_def split: option.splits elim!: nonempty_array.elims)
    then have a: "has j ''fingerprints'' is_array" by (simp add: has_def)
    then obtain ys where ys: "mapE validateDtlsFingerprint xs = Inr ys" "j' = put ''fingerprints'' (JArray ys) j"
      using e xs each_Inr [OF a] by auto
    then have "length ys = length xs" by (auto simp: mapE_Inr_iff dest: list_all2_lengthD)
    then have "ys \<noteq> []" using xs(2) by auto
    with ys(2) r j fingerprint.array_sound [OF jwf_jfind [OF j xs(1)] ys(1)] show ?thesis
      by (simp add: dtls_params_ok_def step_simps)
  qed
  show "dtls_params_ok j \<Longrightarrow> validateDtlsParameters j = Inr j"
    unfolding validateDtlsParameters_def dtls_params_ok_def
    by (rule steps_fixed) (auto simp: fixed_steps intro: fingerprint.array_fixed [OF j])
qed

end
