(* ===== verification/OrtcNegotiate.thy ===== *)
theory OrtcNegotiate
  imports OrtcValid
begin

text \<open>
  The negotiation half of \<open>mssdk/sdputil/jsonvalidate.cpp\<close>: matching the codecs and header
  extensions of two endpoints, and the capabilities and parameters derived from the match.
  A function that takes a JSON value by reference returns it as it leaves it: matching
  can write into both codecs.

  The H264 profile functions of WebRTC, which are not in the repository, are the record
  \<open>h264_lib\<close>: \<open>h264_same\<close> is \<open>H264IsSameProfile\<close>, and \<open>h264_answer\<close> is
  \<open>H264GenerateProfileLevelIdForAnswer\<close>, \<open>None\<close> when it throws, and otherwise the
  \<open>profile-level-id\<close> it leaves in the new parameters, if any.
\<close>

section \<open>Reading codecs\<close>

type_synonym codec_params = "(string \<times> string) list"

record h264_lib =
  h264_same :: "codec_params \<Rightarrow> codec_params \<Rightarrow> bool"
  h264_answer :: "codec_params \<Rightarrow> codec_params \<Rightarrow> string option option"

definition RtxMimeTypeRegex :: pattern where
  "RtxMimeTypeRegex = regex_icase ''^(audio|video)/rtx$''"

definition isRtxCodec :: "json \<Rightarrow> bool res" where
  "isRtxCodec codec =
     bindE (jidx codec ''mimeType'') (\<lambda>v. bindE (get_string v) (\<lambda>mimeType.
     Inr (regex_match RtxMimeTypeRegex mimeType \<noteq> None)))"

definition getH264PacketizationMode :: "json \<Rightarrow> 8 word res" where
  "getH264PacketizationMode codec =
     bindE (jidx codec ''parameters'') (\<lambda>parameters.
     case jfind parameters ''packetization-mode'' of
       None \<Rightarrow> Inr 0
     | Some v \<Rightarrow> if is_number_integer v then get_uint v else Inr 0)"

definition getH264LevelAssimetryAllowed :: "json \<Rightarrow> 8 word res" where
  "getH264LevelAssimetryAllowed codec =
     bindE (jidx codec ''parameters'') (\<lambda>parameters.
     case jfind parameters ''level-asymmetry-allowed'' of
       None \<Rightarrow> Inr 0
     | Some v \<Rightarrow> if is_number_integer v then get_uint v else Inr 0)"

definition getH264ProfileLevelId :: "json \<Rightarrow> string res" where
  "getH264ProfileLevelId codec =
     bindE (jidx codec ''parameters'') (\<lambda>parameters.
     case jfind parameters ''profile-level-id'' of
       None \<Rightarrow> Inr []
     | Some v \<Rightarrow> if is_number v then bindE (get_int32 v) (\<lambda>w. Inr (int_str (sint w)))
                else get_string v)"

definition getVP9ProfileId :: "json \<Rightarrow> string res" where
  "getVP9ProfileId codec =
     bindE (jidx codec ''parameters'') (\<lambda>parameters.
     case jfind parameters ''profile-id'' of
       None \<Rightarrow> Inr ''0''
     | Some v \<Rightarrow> if is_number v then bindE (get_int32 v) (\<lambda>w. Inr (int_str (sint w)))
                else get_string v)"

section \<open>Matching codecs\<close>

text \<open>The parameters handed to the H264 functions, in key order.\<close>

definition h264_params :: "8 word \<Rightarrow> json \<Rightarrow> codec_params res" where
  "h264_params mode codec =
     bindE (getH264LevelAssimetryAllowed codec) (\<lambda>level.
     bindE (getH264ProfileLevelId codec) (\<lambda>profile.
     Inr [(''level-asymmetry-allowed'', nat_str (unat level)),
          (''packetization-mode'', nat_str (unat mode)),
          (''profile-level-id'', profile)]))"

text \<open>\<open>codec["parameters"]["profile-level-id"] = pid\<close>, or \<open>erase\<close> of it.\<close>

definition set_profile :: "string option \<Rightarrow> json \<Rightarrow> json res" where
  "set_profile pid codec =
     bindE (jref codec ''parameters'') (\<lambda>(parameters, codec').
     bindE (case pid of
              Some s \<Rightarrow> jset parameters ''profile-level-id'' (JString s)
            | None \<Rightarrow> jerase parameters ''profile-level-id'')
       (jset codec' ''parameters''))"

definition match_h264 :: "h264_lib \<Rightarrow> json \<Rightarrow> json \<Rightarrow> bool \<Rightarrow> (bool \<times> json \<times> json) res" where
  "match_h264 lib a b modify =
     bindE (getH264PacketizationMode a) (\<lambda>aMode.
     bindE (getH264PacketizationMode b) (\<lambda>bMode.
     if aMode \<noteq> bMode then Inr (False, a, b)
     else
       bindE (h264_params aMode a) (\<lambda>aParameters.
       bindE (h264_params bMode b) (\<lambda>bParameters.
       if \<not> h264_same lib aParameters bParameters then Inr (False, a, b)
       else (case h264_answer lib aParameters bParameters of
               None \<Rightarrow> Inr (False, a, b)
             | Some pid \<Rightarrow>
                 if modify then
                   bindE (set_profile pid a) (\<lambda>a'. bindE (set_profile pid b) (\<lambda>b'. Inr (True, a', b')))
                 else Inr (True, a, b))))))"

definition mime_text :: "json \<Rightarrow> string res" where
  "mime_text codec = (case jfind codec ''mimeType'' of
     None \<Rightarrow> Inl (Undefined ''mimeType'') | Some v \<Rightarrow> get_string v)"

definition matchCodecs :: "h264_lib \<Rightarrow> json \<Rightarrow> json \<Rightarrow> bool \<Rightarrow> bool \<Rightarrow> (bool \<times> json \<times> json) res" where
  "matchCodecs lib aCodec bCodec strict modify =
     bindE (mime_text aCodec) (\<lambda>aMime. bindE (mime_text bCodec) (\<lambda>bMime.
     let aMimeType = lower aMime; bMimeType = lower bMime in
     if aMimeType \<noteq> bMimeType then Inr (False, aCodec, bCodec)
     else
       bindE (jref aCodec ''clockRate'') (\<lambda>(aRate, a).
       bindE (jref bCodec ''clockRate'') (\<lambda>(bRate, b).
       if \<not> json_eq aRate bRate then Inr (False, a, b)
       else if contains a ''channels'' \<noteq> contains b ''channels'' then Inr (False, a, b)
       else if (case (jfind a ''channels'', jfind b ''channels'') of
                  (Some x, Some y) \<Rightarrow> \<not> json_eq x y | _ \<Rightarrow> False) then Inr (False, a, b)
       else if aMimeType = ''video/h264'' then
         (if strict then match_h264 lib a b modify else Inr (True, a, b))
       else if aMimeType = ''video/vp9'' then
         (if strict then
            bindE (getVP9ProfileId a) (\<lambda>aId. bindE (getVP9ProfileId b) (\<lambda>bId.
            Inr (aId = bId, a, b)))
          else Inr (True, a, b))
       else Inr (True, a, b)))))"

definition matchHeaderExtensions :: "json \<Rightarrow> json \<Rightarrow> bool res" where
  "matchHeaderExtensions aExt bExt =
     bindE (jidx aExt ''kind'') (\<lambda>ak. bindE (jidx bExt ''kind'') (\<lambda>bk.
     if \<not> json_eq ak bk then Inr False
     else bindE (jidx aExt ''uri'') (\<lambda>au. bindE (jidx bExt ''uri'') (\<lambda>bu. Inr (json_eq au bu)))))"

text \<open>\<open>reduceRtcpFeedback\<close>: the feedback of the second codec that the first has too, in
  the order of the first.\<close>

definition feedback_matches :: "json \<Rightarrow> json \<Rightarrow> bool res" where
  "feedback_matches aFb bFb =
     bindE (jidx aFb ''type'') (\<lambda>at. bindE (jidx bFb ''type'') (\<lambda>bt.
     if \<not> json_eq at bt then Inr False
     else bindE (jidx aFb ''parameter'') (\<lambda>ap. bindE (jidx bFb ''parameter'') (\<lambda>bp.
          Inr (json_eq ap bp)))))"

fun reduce_feedback :: "json list \<Rightarrow> json list \<Rightarrow> json list res" where
  "reduce_feedback [] gbs = Inr []"
| "reduce_feedback (a # fas) gbs =
     bindE (findE (feedback_matches a) gbs) (\<lambda>found.
     bindE (reduce_feedback fas gbs) (\<lambda>rest.
     Inr (case found of Some fb \<Rightarrow> fb # rest | None \<Rightarrow> rest)))"

text \<open>The elements of the field that an iterator of \<open>find\<close> points at.\<close>

definition field_elems :: "json \<Rightarrow> string \<Rightarrow> json list res" where
  "field_elems j k = (case jfind j k of None \<Rightarrow> Inl (Undefined k) | Some v \<Rightarrow> Inr (jelems v))"

definition reduceRtcpFeedback :: "json \<Rightarrow> json \<Rightarrow> json res" where
  "reduceRtcpFeedback codecA codecB =
     bindE (field_elems codecA ''rtcpFeedback'') (\<lambda>fas.
     bindE (field_elems codecB ''rtcpFeedback'') (\<lambda>gbs.
     bindE (reduce_feedback fas gbs) (\<lambda>fbs. Inr (JArray fbs))))"

section \<open>Extended capabilities\<close>

text \<open>\<open>std::find_if\<close> with a predicate that writes into the elements it visits and into a
  state: the index of the first element accepted, and everything after the search.\<close>

fun find_match :: "(json \<Rightarrow> 's \<Rightarrow> (bool \<times> json \<times> 's) res) \<Rightarrow> json list \<Rightarrow> 's \<Rightarrow>
    (nat option \<times> json list \<times> 's) res" where
  "find_match p [] s = Inr (None, [], s)"
| "find_match p (x # xs) s =
     bindE (p x s) (\<lambda>(found, x', s').
     if found then Inr (Some 0, x' # xs, s')
     else bindE (find_match p xs s') (\<lambda>(i, xs', s''). Inr (map_option Suc i, x' # xs', s'')))"

text \<open>The value of \<open>j[k]\<close> on a value that can be modified, and the object after it: a
  missing key is inserted with null.\<close>

definition jread :: "json \<Rightarrow> string \<Rightarrow> json res" where
  "jread j k = bindE (jref j k) (\<lambda>(v, _). Inr v)"

definition touch :: "string \<Rightarrow> json \<Rightarrow> json res" where
  "touch k j = bindE (jref j k) (\<lambda>(_, j'). Inr j')"

text \<open>The extended codec of a matching pair. Of the fields read, only
  \<open>preferredPayloadType\<close> can be missing after validation.\<close>

definition extended_codec :: "json \<Rightarrow> json \<Rightarrow> json res" where
  "extended_codec l r =
     bindE (jread l ''mimeType'') (\<lambda>mimeType.
     bindE (jread l ''kind'') (\<lambda>kind.
     bindE (jread l ''clockRate'') (\<lambda>clockRate.
     bindE (jread l ''preferredPayloadType'') (\<lambda>localPt.
     bindE (jread r ''preferredPayloadType'') (\<lambda>remotePt.
     bindE (jread l ''parameters'') (\<lambda>localParameters.
     bindE (jread r ''parameters'') (\<lambda>remoteParameters.
     bindE (reduceRtcpFeedback l r) (\<lambda>rtcpFeedback.
     let e = jobj
       [(''mimeType'', mimeType),
        (''kind'', kind),
        (''clockRate'', clockRate),
        (''localPayloadType'', localPt),
        (''localRtxPayloadType'', JNull),
        (''remotePayloadType'', remotePt),
        (''remoteRtxPayloadType'', JNull),
        (''localParameters'', localParameters),
        (''remoteParameters'', remoteParameters),
        (''rtcpFeedback'', rtcpFeedback)]
     in case jfind l ''channels'' of
          Some channels \<Rightarrow> jset e ''channels'' channels
        | None \<Rightarrow> Inr e))))))))"

text \<open>One round of the loop over the remote codecs: the remote codec, the local codecs and
  the extended codecs after it.\<close>

definition extend_codec ::
    "h264_lib \<Rightarrow> json \<Rightarrow> json list \<Rightarrow> json list \<Rightarrow> (json \<times> json list \<times> json list) res" where
  "extend_codec lib remoteCodec locals ext =
     bindE (isRtxCodec remoteCodec) (\<lambda>rtx.
     if rtx then Inr (remoteCodec, locals, ext)
     else
       bindE (find_match (\<lambda>l r. matchCodecs lib l r True True) locals remoteCodec)
       (\<lambda>(i, locals', remote').
         case i of
           None \<Rightarrow> Inr (remote', locals', ext)
         | Some i \<Rightarrow>
             bindE (extended_codec (locals' ! i) remote') (\<lambda>e.
             bindE (touch ''preferredPayloadType'' (locals' ! i)) (\<lambda>l.
             bindE (touch ''preferredPayloadType'' remote') (\<lambda>r.
             Inr (r, locals'[i := l], ext @ [e]))))))"

fun extend_codecs ::
    "h264_lib \<Rightarrow> json list \<Rightarrow> json list \<Rightarrow> json list \<Rightarrow> (json list \<times> json list \<times> json list) res" where
  "extend_codecs lib [] locals ext = Inr ([], locals, ext)"
| "extend_codecs lib (r # rs) locals ext =
     bindE (extend_codec lib r locals ext) (\<lambda>(r', locals', ext').
     bindE (extend_codecs lib rs locals' ext') (\<lambda>(rs', locals'', ext'').
     Inr (r' # rs', locals'', ext'')))"

text \<open>RTX: the RTX codec whose \<open>apt\<close> is the payload type of the extended codec.\<close>

definition rtx_for :: "string \<Rightarrow> json \<Rightarrow> json \<Rightarrow> bool res" where
  "rtx_for key ec codec =
     bindE (isRtxCodec codec) (\<lambda>rtx.
     if \<not> rtx then Inr False
     else bindE (jidx codec ''parameters'') (\<lambda>parameters.
          bindE (jidx parameters ''apt'') (\<lambda>apt.
          bindE (jread ec key) (\<lambda>pt. Inr (json_eq apt pt)))))"

definition extend_rtx :: "json list \<Rightarrow> json list \<Rightarrow> json \<Rightarrow> (json \<times> json list \<times> json list) res" where
  "extend_rtx locals remotes ec =
     bindE (find_index (rtx_for ''localPayloadType'' ec) locals) (\<lambda>li.
     case li of
       None \<Rightarrow> Inr (ec, locals, remotes)
     | Some i \<Rightarrow>
         bindE (find_index (rtx_for ''remotePayloadType'' ec) remotes) (\<lambda>ri.
         case ri of
           None \<Rightarrow> Inr (ec, locals, remotes)
         | Some j \<Rightarrow>
             bindE (jref (locals ! i) ''preferredPayloadType'') (\<lambda>(lpt, l).
             bindE (jset ec ''localRtxPayloadType'' lpt) (\<lambda>ec1.
             bindE (jref (remotes ! j) ''preferredPayloadType'') (\<lambda>(rpt, r).
             bindE (jset ec1 ''remoteRtxPayloadType'' rpt) (\<lambda>ec2.
             Inr (ec2, locals[i := l], remotes[j := r])))))))"

fun extend_rtxs :: "json list \<Rightarrow> json list \<Rightarrow> json list \<Rightarrow> (json list \<times> json list \<times> json list) res" where
  "extend_rtxs locals remotes [] = Inr ([], locals, remotes)"
| "extend_rtxs locals remotes (e # es) =
     bindE (extend_rtx locals remotes e) (\<lambda>(e', locals', remotes').
     bindE (extend_rtxs locals' remotes' es) (\<lambda>(es', locals'', remotes'').
     Inr (e' # es', locals'', remotes'')))"

text \<open>The direction of an extension seen from the other side; an unknown word gives no
  \<open>direction\<close> field.\<close>

definition flip_direction :: "string \<Rightarrow> string option" where
  "flip_direction d =
     (if d = ''sendrecv'' then Some ''sendrecv''
      else if d = ''recvonly'' then Some ''sendonly''
      else if d = ''sendonly'' then Some ''recvonly''
      else if d = ''inactive'' then Some ''inactive''
      else None)"

definition extended_ext :: "json \<Rightarrow> json \<Rightarrow> json res" where
  "extended_ext l r =
     bindE (jread r ''kind'') (\<lambda>kind.
     bindE (jread r ''uri'') (\<lambda>uri.
     bindE (jread l ''preferredId'') (\<lambda>sendId.
     bindE (jread r ''preferredId'') (\<lambda>recvId.
     bindE (jread l ''preferredEncrypt'') (\<lambda>encrypt.
     bindE (jread r ''direction'') (\<lambda>d. bindE (get_string d) (\<lambda>direction.
     let e = jobj [(''kind'', kind), (''uri'', uri), (''sendId'', sendId), (''recvId'', recvId),
                   (''encrypt'', encrypt)]
     in case flip_direction direction of
          Some d' \<Rightarrow> jset e ''direction'' (JString d')
        | None \<Rightarrow> Inr e)))))))"

fun extend_exts :: "json list \<Rightarrow> json list \<Rightarrow> json list res" where
  "extend_exts locals [] = Inr []"
| "extend_exts locals (r # rs) =
     bindE (findE (\<lambda>l. matchHeaderExtensions l r) locals) (\<lambda>found.
     case found of
       None \<Rightarrow> extend_exts locals rs
     | Some l \<Rightarrow> bindE (extended_ext l r) (\<lambda>e. bindE (extend_exts locals rs) (\<lambda>es. Inr (e # es))))"

text \<open>The result: the extended capabilities, and the local and the remote ones as they are
  left.\<close>

definition getExtendedRtpCapabilities :: "h264_lib \<Rightarrow> json \<Rightarrow> json \<Rightarrow> (json \<times> json \<times> json) res" where
  "getExtendedRtpCapabilities lib localCaps0 remoteCaps0 =
     bindE (validateRtpCapabilities localCaps0) (\<lambda>localCaps.
     bindE (validateRtpCapabilities remoteCaps0) (\<lambda>remoteCaps.
     bindE (field_elems localCaps ''codecs'') (\<lambda>locals0.
     bindE (field_elems remoteCaps ''codecs'') (\<lambda>remotes0.
     bindE (extend_codecs lib remotes0 locals0 []) (\<lambda>(remotes1, locals1, ext1).
     bindE (extend_rtxs locals1 remotes1 ext1) (\<lambda>(ext2, locals2, remotes2).
     bindE (field_elems localCaps ''headerExtensions'') (\<lambda>localExts.
     bindE (field_elems remoteCaps ''headerExtensions'') (\<lambda>remoteExts.
     bindE (extend_exts localExts remoteExts) (\<lambda>exts.
     bindE (jset localCaps ''codecs'' (JArray locals2)) (\<lambda>localCaps'.
     bindE (jset remoteCaps ''codecs'' (JArray remotes2)) (\<lambda>remoteCaps'.
     Inr (jobj [(''codecs'', JArray ext2), (''headerExtensions'', JArray exts)],
          localCaps', remoteCaps'))))))))))))"

section \<open>Capabilities for receiving\<close>

text \<open>The fields of a constant extended codec are read with the constant \<open>operator[]\<close>.\<close>

definition with_channels :: "json \<Rightarrow> json \<Rightarrow> json res" where
  "with_channels ec codec = (case jfind ec ''channels'' of
     Some channels \<Rightarrow> jset codec ''channels'' channels | None \<Rightarrow> Inr codec)"

definition rtx_mime :: "json \<Rightarrow> string res" where
  "rtx_mime ec = bindE (jidx ec ''kind'') (\<lambda>k. bindE (get_string k) (\<lambda>kind. Inr (kind @ ''/rtx'')))"

text \<open>\<open>{ "apt", pt.get<uint8_t>() }\<close>\<close>

definition apt_params :: "json \<Rightarrow> json res" where
  "apt_params pt = bindE (get_uint pt) (\<lambda>n :: 8 word. Inr (jobj [(''apt'', JUint (ucast n))]))"

definition recv_codec :: "json \<Rightarrow> json list res" where
  "recv_codec ec =
     bindE (jidx ec ''mimeType'') (\<lambda>mimeType.
     bindE (jidx ec ''kind'') (\<lambda>kind.
     bindE (jidx ec ''remotePayloadType'') (\<lambda>pt.
     bindE (jidx ec ''clockRate'') (\<lambda>clockRate.
     bindE (jidx ec ''localParameters'') (\<lambda>parameters.
     bindE (jidx ec ''rtcpFeedback'') (\<lambda>rtcpFeedback.
     bindE (with_channels ec (jobj
       [(''mimeType'', mimeType), (''kind'', kind), (''preferredPayloadType'', pt),
        (''clockRate'', clockRate), (''parameters'', parameters), (''rtcpFeedback'', rtcpFeedback)])) (\<lambda>codec.
     bindE (jidx ec ''remoteRtxPayloadType'') (\<lambda>rtxPt.
     if rtxPt = JNull then Inr [codec]
     else
       bindE (rtx_mime ec) (\<lambda>mime.
       bindE (apt_params pt) (\<lambda>params.
       Inr [codec, jobj
         [(''mimeType'', JString mime), (''kind'', kind), (''preferredPayloadType'', rtxPt),
          (''clockRate'', clockRate), (''parameters'', params), (''rtcpFeedback'', jarray_empty)]]))))))))))"

definition recv_ext :: "json \<Rightarrow> json list res" where
  "recv_ext ee =
     bindE (jidx ee ''direction'') (\<lambda>d. bindE (get_string d) (\<lambda>direction.
     if direction \<noteq> ''sendrecv'' \<and> direction \<noteq> ''recvonly'' then Inr []
     else
       bindE (jidx ee ''kind'') (\<lambda>kind.
       bindE (jidx ee ''uri'') (\<lambda>uri.
       bindE (jidx ee ''recvId'') (\<lambda>recvId.
       bindE (jidx ee ''encrypt'') (\<lambda>encrypt.
       Inr [jobj [(''kind'', kind), (''uri'', uri), (''preferredId'', recvId),
                  (''preferredEncrypt'', encrypt), (''direction'', d)]]))))))"

definition getRecvRtpCapabilities :: "json \<Rightarrow> json res" where
  "getRecvRtpCapabilities ext =
     bindE (jidx ext ''codecs'') (\<lambda>codecs.
     bindE (mapE recv_codec (jelems codecs)) (\<lambda>cs.
     bindE (jidx ext ''headerExtensions'') (\<lambda>exts.
     bindE (mapE recv_ext (jelems exts)) (\<lambda>es.
     Inr (jobj [(''codecs'', JArray (concat cs)), (''headerExtensions'', JArray (concat es))])))))"

section \<open>Parameters for sending\<close>

text \<open>The codec (and its RTX codec) of an extended codec; \<open>pkey\<close> says whose parameters.\<close>

definition send_codec :: "string \<Rightarrow> json \<Rightarrow> json list res" where
  "send_codec pkey ec =
     bindE (jidx ec ''mimeType'') (\<lambda>mimeType.
     bindE (jidx ec ''localPayloadType'') (\<lambda>pt.
     bindE (jidx ec ''clockRate'') (\<lambda>clockRate.
     bindE (jidx ec pkey) (\<lambda>parameters.
     bindE (jidx ec ''rtcpFeedback'') (\<lambda>rtcpFeedback.
     bindE (with_channels ec (jobj
       [(''mimeType'', mimeType), (''payloadType'', pt), (''clockRate'', clockRate),
        (''parameters'', parameters), (''rtcpFeedback'', rtcpFeedback)])) (\<lambda>codec.
     bindE (jidx ec ''localRtxPayloadType'') (\<lambda>rtxPt.
     if rtxPt = JNull then Inr [codec]
     else
       bindE (rtx_mime ec) (\<lambda>mime.
       bindE (apt_params pt) (\<lambda>params.
       Inr [codec, jobj
         [(''mimeType'', JString mime), (''payloadType'', rtxPt), (''clockRate'', clockRate),
          (''parameters'', params), (''rtcpFeedback'', jarray_empty)]])))))))))"

definition kind_is :: "string \<Rightarrow> json \<Rightarrow> bool res" where
  "kind_is kind j = bindE (jidx j ''kind'') (\<lambda>v. bindE (get_string v) (\<lambda>k. Inr (kind = k)))"

definition send_ext :: "string \<Rightarrow> json \<Rightarrow> json list res" where
  "send_ext kind ee =
     bindE (kind_is kind ee) (\<lambda>same.
     if \<not> same then Inr []
     else
       bindE (jidx ee ''direction'') (\<lambda>d. bindE (get_string d) (\<lambda>direction.
       if direction \<noteq> ''sendrecv'' \<and> direction \<noteq> ''sendonly'' then Inr []
       else
         bindE (jidx ee ''uri'') (\<lambda>uri.
         bindE (jidx ee ''sendId'') (\<lambda>sendId.
         bindE (jidx ee ''encrypt'') (\<lambda>encrypt.
         Inr [jobj [(''uri'', uri), (''id'', sendId), (''encrypt'', encrypt),
                    (''parameters'', jobject_empty)]]))))))"

definition rtp_parameters :: "json list \<Rightarrow> json list \<Rightarrow> json" where
  "rtp_parameters codecs exts =
     jobj [(''mid'', JNull), (''codecs'', JArray codecs), (''headerExtensions'', JArray exts),
           (''encodings'', jarray_empty), (''rtcp'', jobject_empty)]"

text \<open>The first codec of the kind only: the loop leaves with \<open>break\<close>.\<close>

definition getSendingRtpParameters :: "string \<Rightarrow> json \<Rightarrow> json res" where
  "getSendingRtpParameters kind ext =
     bindE (jidx ext ''codecs'') (\<lambda>codecs.
     bindE (findE (kind_is kind) (jelems codecs)) (\<lambda>found.
     bindE (case found of None \<Rightarrow> Inr [] | Some ec \<Rightarrow> send_codec ''localParameters'' ec) (\<lambda>cs.
     bindE (jidx ext ''headerExtensions'') (\<lambda>exts.
     bindE (mapE (send_ext kind) (jelems exts)) (\<lambda>es.
     Inr (rtp_parameters cs (concat es)))))))"

section \<open>Parameters of the remote endpoint\<close>

definition twcc_uri :: string where
  "twcc_uri = ''http://www.ietf.org/id/draft-holmer-rmcat-transport-wide-cc-extensions-01''"

definition abs_send_time_uri :: string where
  "abs_send_time_uri = ''http://www.webrtc.org/experiments/rtp-hdrext/abs-send-time''"

definition uri_is :: "string \<Rightarrow> json \<Rightarrow> bool res" where
  "uri_is u ext = bindE (jread ext ''uri'') (\<lambda>v. bindE (get_string v) (\<lambda>s. Inr (s = u)))"

definition keep_fb :: "string list \<Rightarrow> json \<Rightarrow> bool res" where
  "keep_fb drops fb = bindE (jread fb ''type'') (\<lambda>v. bindE (get_string v) (\<lambda>t. Inr (t \<notin> set drops)))"

fun filterE :: "('a \<Rightarrow> bool res) \<Rightarrow> 'a list \<Rightarrow> 'a list res" where
  "filterE p [] = Inr []"
| "filterE p (x # xs) =
     bindE (p x) (\<lambda>keep. bindE (filterE p xs) (\<lambda>ys. Inr (if keep then x # ys else ys)))"

text \<open>The feedback of the given types erased from a codec.\<close>

definition drop_feedback :: "string list \<Rightarrow> json \<Rightarrow> json res" where
  "drop_feedback drops codec =
     bindE (jread codec ''rtcpFeedback'') (\<lambda>fbs.
     bindE (case fbs of
              JArray xs \<Rightarrow> bindE (filterE (keep_fb drops) xs) (\<lambda>ys. Inr (JArray ys))
            | JObject m \<Rightarrow> bindE (filterE (\<lambda>p. keep_fb drops (snd p)) m) (\<lambda>m'. Inr (JObject m'))
            | JNull \<Rightarrow> Inr JNull
            | _ \<Rightarrow> Inl (JsonTypeError 305))
       (jset codec ''rtcpFeedback''))"

definition send_codec_if :: "string \<Rightarrow> json \<Rightarrow> json list res" where
  "send_codec_if kind ec =
     bindE (kind_is kind ec) (\<lambda>same. if same then send_codec ''remoteParameters'' ec else Inr [])"

definition getSendingRemoteRtpParameters :: "string \<Rightarrow> json \<Rightarrow> json res" where
  "getSendingRemoteRtpParameters kind ext =
     bindE (jidx ext ''codecs'') (\<lambda>codecs.
     bindE (mapE (send_codec_if kind) (jelems codecs)) (\<lambda>css.
     bindE (jidx ext ''headerExtensions'') (\<lambda>exts.
     bindE (mapE (send_ext kind) (jelems exts)) (\<lambda>ess.
     let cs = concat css; es = concat ess in
     bindE (findE (uri_is twcc_uri) es) (\<lambda>twcc.
     if twcc \<noteq> None then
       bindE (mapE (drop_feedback [''goog-remb'']) cs) (\<lambda>cs'. Inr (rtp_parameters cs' es))
     else
       bindE (findE (uri_is abs_send_time_uri) es) (\<lambda>abs.
       if abs \<noteq> None then
         bindE (mapE (drop_feedback [''transport-cc'']) cs) (\<lambda>cs'. Inr (rtp_parameters cs' es))
       else
         bindE (mapE (drop_feedback [''transport-cc'', ''goog-remb'']) cs)
           (\<lambda>cs'. Inr (rtp_parameters cs' es))))))))"

section \<open>The probator, and what can be sent and received\<close>

definition ProbatorSsrc :: "32 word" where "ProbatorSsrc = 1234"
definition ProbatorMid :: string where "ProbatorMid = ''probator''"

definition probator_ext :: "json \<Rightarrow> bool res" where
  "probator_ext ext = bindE (jread ext ''uri'') (\<lambda>u.
     Inr (u = JString abs_send_time_uri \<or> u = JString twcc_uri))"

definition generateProbatorRtpParameters :: "json \<Rightarrow> json res" where
  "generateProbatorRtpParameters videoRtpParameters =
     bindE (validateRtpParameters videoRtpParameters) (\<lambda>validated.
     bindE (jread validated ''codecs'') (\<lambda>codecs.
     bindE (jnth_ref codecs 0) (\<lambda>(codec, _).
     bindE (field_elems validated ''headerExtensions'') (\<lambda>exts.
     bindE (filterE probator_ext exts) (\<lambda>es.
     Inr (jobj
       [(''mid'', JString ProbatorMid),
        (''codecs'', JArray [codec]),
        (''headerExtensions'', JArray es),
        (''encodings'', JArray [jobj [(''ssrc'', JUint (ucast ProbatorSsrc))]]),
        (''rtcp'', jobj [(''cname'', JString ''probator'')])]))))))"

definition canSend :: "string \<Rightarrow> json \<Rightarrow> bool res" where
  "canSend kind ext =
     bindE (jidx ext ''codecs'') (\<lambda>codecs.
     bindE (findE (kind_is kind) (jelems codecs)) (\<lambda>found. Inr (found \<noteq> None)))"

text \<open>The result and the parameters as validation leaves them.\<close>

definition canReceive :: "json \<Rightarrow> json \<Rightarrow> (bool \<times> json) res" where
  "canReceive rtpParameters ext =
     bindE (validateRtpParameters rtpParameters) (\<lambda>params.
     bindE (field_elems params ''codecs'') (\<lambda>cs.
     case cs of
       [] \<Rightarrow> Inr (False, params)
     | first # _ \<Rightarrow>
         bindE (jread first ''payloadType'') (\<lambda>pt.
         bindE (jidx ext ''codecs'') (\<lambda>codecs.
         bindE (findE (\<lambda>c. bindE (jidx c ''remotePayloadType'') (\<lambda>v. Inr (json_eq v pt))) (jelems codecs))
           (\<lambda>found. Inr (found \<noteq> None, params))))))"

text \<open>
  \<open>reduceCodecs\<close>, which returns the filtered codecs, and the codecs and the capability
  codec it was given as it leaves them. The condition of its loop is
  \<open>(matchCodecs(...)), true\<close>: the comma operator drops the result of the match, so that
  the first round always takes \<open>codecs[0]\<close> and leaves the loop; \<open>codecs[1]\<close> is then read
  even when there is none.
\<close>

definition take_codec :: "json \<Rightarrow> nat \<Rightarrow> (json list \<times> json) res" where
  "take_codec codecs idx =
     bindE (jnth_ref codecs idx) (\<lambda>(codec, codecs1).
     bindE (jnth_ref codecs1 (idx + 1)) (\<lambda>(next, codecs2).
     bindE (isRtxCodec next) (\<lambda>rtx.
     Inr (if rtx then [codec, next] else [codec], codecs2))))"

definition reduce_first :: "json \<Rightarrow> (json list \<times> json) res" where
  "reduce_first codecs =
     bindE (jnth_ref codecs 0) (\<lambda>(first, codecs1).
     if jsize codecs1 > 1 then take_codec codecs1 0 else Inr ([first], codecs1))"

definition reduceCodecs :: "h264_lib \<Rightarrow> json \<Rightarrow> json option \<Rightarrow> (json list \<times> json \<times> json option) res" where
  "reduceCodecs lib codecs capCodec =
     (case capCodec of
        None \<Rightarrow> bindE (reduce_first codecs) (\<lambda>(fs, codecs'). Inr (fs, codecs', None))
      | Some cap \<Rightarrow>
          if \<not> is_object cap
          then bindE (reduce_first codecs) (\<lambda>(fs, codecs'). Inr (fs, codecs', Some cap))
          else if jsize codecs = 0 then Inl (LazyException ''no matching codec found'')
          else
            bindE (jnth_ref codecs 0) (\<lambda>(codec, codecs1).
            bindE (matchCodecs lib codec cap False False) (\<lambda>(_, codec', cap').
            bindE (jnth_set codecs1 0 codec') (\<lambda>codecs2.
            bindE (take_codec codecs2 0) (\<lambda>(fs, codecs'). Inr (fs, codecs', Some cap'))))))"

end
