(* ===== verification/OrtcFacts.thy ===== *)
theory OrtcFacts
  imports OrtcNegotiate "HOL-Library.Sublist"
begin

text \<open>
  What negotiation yields: which fields of a codec a match can change, from which pair of
  codecs an extended codec comes and in which order, what the derived capabilities and
  parameters hold, and how the validator of SCTP stream parameters behaves on its own
  output.
\<close>

section \<open>What a match leaves unchanged\<close>

text \<open>
  Matching writes into a codec only its parameters (the H264 profile) and, when the
  payload type was missing, a null in its place.
\<close>

definition params_ok :: "json \<Rightarrow> bool" where
  "params_ok codec = has codec ''parameters'' (all_entries codec_param_ok)"

definition apt_of :: "json \<Rightarrow> json option" where
  "apt_of c = (case jfind c ''parameters'' of None \<Rightarrow> None | Some ps \<Rightarrow> jfind ps ''apt'')"

definition stable :: "json \<Rightarrow> json \<Rightarrow> bool" where
  "stable c c' =
     (params_ok c' \<and> apt_of c' = apt_of c
      \<and> (\<forall>k. k \<noteq> ''parameters'' \<longrightarrow> k \<noteq> ''preferredPayloadType'' \<longrightarrow> jfind c' k = jfind c k)
      \<and> (jfind c' ''preferredPayloadType'' = jfind c ''preferredPayloadType''
         \<or> jfind c ''preferredPayloadType'' = None \<and> jfind c' ''preferredPayloadType'' = Some JNull))"

lemma stable_refl: "params_ok c \<Longrightarrow> stable c c"
  by (simp add: stable_def)

lemma stable_trans: "stable a b \<Longrightarrow> stable b c \<Longrightarrow> stable a c"
  unfolding stable_def by (elim conjE disjE) simp_all

lemma params_ok_object: "params_ok c \<Longrightarrow> is_object c"
  by (auto simp: params_ok_def dest: has_object)

lemma set_profile_stable:
  assumes "params_ok c" "set_profile pid c = Inr c'"
  shows "stable c c'"
proof -
  obtain m where m: "jfind c ''parameters'' = Some (JObject m)" "list_all codec_param_ok m"
    using assms(1) by (auto simp: params_ok_def has_def split: option.splits elim!: all_entries.elims)
  have o': "is_object c" using assms(1) by (rule params_ok_object)
  obtain m' where m': "c' = put ''parameters'' (JObject m') c" "list_all codec_param_ok m'"
    "map_of m' ''apt'' = map_of m ''apt''"
  proof (cases pid)
    case None
    then have "c' = put ''parameters'' (JObject (adel ''profile-level-id'' m)) c"
      using assms(2) m(1) o' by (simp add: set_profile_def)
    moreover have "list_all codec_param_ok (adel ''profile-level-id'' m)"
      using m(2) by (auto simp: list_all_iff adel_def)
    ultimately show thesis using that by (simp add: map_simps)
  next
    case (Some s)
    then have "c' = put ''parameters'' (JObject (aset ''profile-level-id'' (JString s) m)) c"
      using assms(2) m(1) o' by (simp add: set_profile_def)
    moreover have "list_all codec_param_ok (aset ''profile-level-id'' (JString s) m)"
      using m(2) set_aset_subset [of "''profile-level-id''" "JString s" m]
      by (auto simp: list_all_iff codec_param_ok_def)
    ultimately show thesis using that by (simp add: map_simps)
  qed
  then show ?thesis using m(1) by (simp add: stable_def params_ok_def apt_of_def step_simps)
qed

lemma match_h264_stable:
  assumes "params_ok a" "params_ok b" "match_h264 lib a b modify = Inr (r, a', b')"
  shows "stable a a' \<and> stable b b'"
  using assms stable_refl set_profile_stable
  by (auto simp: match_h264_def bindE_Inr_iff split: if_splits option.splits)

definition codec_match :: "json \<Rightarrow> json \<Rightarrow> bool" where
  "codec_match a b =
     (\<exists>m n. jfind a ''mimeType'' = Some (JString m) \<and> jfind b ''mimeType'' = Some (JString n)
        \<and> lower m = lower n
        \<and> (\<exists>x y. jfind a ''clockRate'' = Some x \<and> jfind b ''clockRate'' = Some y \<and> json_eq x y)
        \<and> rel_option json_eq (jfind a ''channels'') (jfind b ''channels''))"

definition codec_kept :: "json \<Rightarrow> bool" where
  "codec_kept c = (params_ok c \<and> contains c ''clockRate'' \<and> contains c ''kind''
     \<and> has c ''rtcpFeedback'' (all_of feedback_ok))"

lemma mime_text_Inr: "mime_text c = Inr s \<longleftrightarrow> jfind c ''mimeType'' = Some (JString s)"
  by (auto simp: mime_text_def get_string_Inr split: option.splits)

lemma matchCodecs_spec:
  assumes "codec_kept a" "codec_kept b" "matchCodecs lib a b strict modify = Inr (r, a', b')"
  shows "stable a a' \<and> stable b b' \<and> (r \<longrightarrow> codec_match a b)"
proof -
  obtain x y where xy: "jfind a ''clockRate'' = Some x" "jfind b ''clockRate'' = Some y"
    using assms(1,2) by (auto simp: codec_kept_def contains_def)
  have p: "params_ok a" "params_ok b" using assms(1,2) by (simp_all add: codec_kept_def)
  obtain m n where mn: "jfind a ''mimeType'' = Some (JString m)" "jfind b ''mimeType'' = Some (JString n)"
    using assms(3) by (auto simp: matchCodecs_def bindE_Inr_iff mime_text_Inr)
  show ?thesis
  proof (cases "lower m = lower n \<and> json_eq x y \<and> rel_option json_eq (jfind a ''channels'') (jfind b ''channels'')")
    case True
    then have "codec_match a b" using mn xy by (auto simp: codec_match_def)
    moreover have "stable a a' \<and> stable b b'"
      using assms(3) p True mn xy match_h264_stable [OF p] stable_refl
      by (auto simp: matchCodecs_def bindE_Inr_iff mime_text_def Let_def contains_def option_rel_Some1
         split: if_splits option.splits)
    ultimately show ?thesis by blast
  next
    case False
    then have "r = False \<and> a' = a \<and> b' = b"
      using assms(3) mn xy
      by (cases "jfind a ''channels''"; cases "jfind b ''channels''")
        (auto simp: matchCodecs_def mime_text_def Let_def contains_def split: if_splits)
    with p stable_refl show ?thesis by blast
  qed
qed


lemma stable_kept: "stable c c' \<Longrightarrow> codec_kept c \<Longrightarrow> codec_kept c'"
  by (simp add: stable_def codec_kept_def contains_def has_def)

lemma stable_match:
  "stable a a' \<Longrightarrow> codec_match a' b = codec_match a b"
  "stable b b' \<Longrightarrow> codec_match a b' = codec_match a b"
  by (simp_all add: stable_def codec_match_def)

definition pt_of :: "json \<Rightarrow> json" where
  "pt_of c = (case jfind c ''preferredPayloadType'' of Some v \<Rightarrow> v | None \<Rightarrow> JNull)"

lemma stable_pt: "stable c c' \<Longrightarrow> pt_of c' = pt_of c"
  unfolding stable_def pt_of_def by (elim conjE disjE) simp_all

lemma jidx_object: "is_object c \<Longrightarrow> jidx c k = (case jfind c k of None \<Rightarrow> Inl (Undefined k) | Some v \<Rightarrow> Inr v)"
  by (auto simp: is_object_iff jidx_def)

lemma stable_rtx: "stable c c' \<Longrightarrow> codec_kept c \<Longrightarrow> isRtxCodec c' = isRtxCodec c"
  using jidx_object [OF params_ok_object, of c] jidx_object [OF params_ok_object, of c']
  by (simp add: stable_def codec_kept_def isRtxCodec_def)

section \<open>Which codecs are extended\<close>

lemma find_match_spec:
  assumes "\<forall>x \<in> set xs. codec_kept x" "codec_kept s"
    and "find_match (\<lambda>l r. matchCodecs lib l r strict modify) xs s = Inr (i, xs', s')"
  shows "list_all2 stable xs xs' \<and> stable s s'
    \<and> (case i of None \<Rightarrow> True | Some n \<Rightarrow> n < length xs \<and> codec_match (xs ! n) s)"
  using assms
proof (induction xs arbitrary: s i xs' s')
  case Nil
  then show ?case by (auto simp: codec_kept_def intro: stable_refl)
next
  case (Cons x xs)
  have refl: "list_all2 stable xs xs"
    using Cons.prems(1) by (auto simp: list_all2_same codec_kept_def intro: stable_refl)
  obtain r x1 s1 where m: "matchCodecs lib x s strict modify = Inr (r, x1, s1)"
    and rest: "if r then i = Some 0 \<and> xs' = x1 # xs \<and> s' = s1
      else \<exists>j ys. find_match (\<lambda>l r. matchCodecs lib l r strict modify) xs s1 = Inr (j, ys, s')
             \<and> i = map_option Suc j \<and> xs' = x1 # ys"
    using Cons.prems(3) by (auto simp: bindE_Inr_iff split: if_splits)
  have st: "stable x x1" "stable s s1" "r \<longrightarrow> codec_match x s"
    using matchCodecs_spec [OF _ Cons.prems(2) m] Cons.prems(1) by auto
  show ?case
  proof (cases r)
    case True
    with rest st refl show ?thesis by simp
  next
    case False
    then obtain j ys where j: "find_match (\<lambda>l r. matchCodecs lib l r strict modify) xs s1 = Inr (j, ys, s')"
        "i = map_option Suc j" "xs' = x1 # ys"
      using rest by auto
    have "list_all2 stable xs ys \<and> stable s1 s'
      \<and> (case j of None \<Rightarrow> True | Some n \<Rightarrow> n < length xs \<and> codec_match (xs ! n) s1)"
      using Cons.IH [OF _ stable_kept [OF st(2) Cons.prems(2)] j(1)] Cons.prems(1) by simp
    with j st stable_trans stable_match(2) [OF st(2)] show ?thesis by (auto split: option.splits)
  qed
qed

text \<open>What an extended codec says about the pair it comes from.\<close>

definition media_fields_ok :: "json \<Rightarrow> bool" where
  "media_fields_ok e =
     (has e ''localParameters'' (all_entries codec_param_ok)
      \<and> has e ''remoteParameters'' (all_entries codec_param_ok)
      \<and> has e ''rtcpFeedback'' (all_of feedback_ok))"

definition extended_of :: "json \<Rightarrow> json \<Rightarrow> json \<Rightarrow> bool" where
  "extended_of l r e =
     (codec_match l r \<and> media_fields_ok e
      \<and> (\<forall>k \<in> {''mimeType'', ''kind'', ''clockRate'', ''channels''}. jfind e k = jfind l k)
      \<and> jfind e ''localPayloadType'' = Some (pt_of l)
      \<and> jfind e ''remotePayloadType'' = Some (pt_of r))"

text \<open>No RTX codec has been attached yet.\<close>

definition no_rtx :: "json \<Rightarrow> bool" where
  "no_rtx e = (is_object e \<and> jfind e ''localRtxPayloadType'' = Some JNull
     \<and> jfind e ''remoteRtxPayloadType'' = Some JNull)"

lemma jread_pt: "is_object c \<Longrightarrow> jread c ''preferredPayloadType'' = Inr (pt_of c)"
  by (auto simp: jread_def jref_def pt_of_def split: option.split)

lemma jread_Some: "jfind c k = Some v \<Longrightarrow> jread c k = Inr v"
  by (simp add: jread_def)

lemma touch_stable: "params_ok c \<Longrightarrow> touch ''preferredPayloadType'' c = Inr c' \<Longrightarrow> stable c c'"
  using params_ok_object [of c]
  by (auto simp: touch_def jref_def stable_def params_ok_def apt_of_def step_simps split: option.splits)

lemma reduce_feedback_subset: "reduce_feedback xs ys = Inr zs \<Longrightarrow> set zs \<subseteq> set ys"
proof (induction xs arbitrary: zs)
  case (Cons x xs)
  then obtain f rest where "findE (feedback_matches x) ys = Inr f" "reduce_feedback xs ys = Inr rest"
      "zs = (case f of Some fb \<Rightarrow> fb # rest | None \<Rightarrow> rest)"
    by (auto simp: bindE_Inr_iff)
  with Cons.IH show ?case by (auto dest: findE_Some split: option.splits)
qed simp

lemma reduceRtcpFeedback_ok:
  assumes "reduceRtcpFeedback a b = Inr v" "has b ''rtcpFeedback'' (all_of feedback_ok)"
  shows "all_of feedback_ok v"
proof -
  obtain xs ys zs where "jfind b ''rtcpFeedback'' = Some (JArray ys)" "list_all feedback_ok ys"
      "reduce_feedback xs ys = Inr zs" "v = JArray zs"
    using assms by (auto simp: reduceRtcpFeedback_def bindE_Inr_iff field_elems_def has_def
        split: option.splits elim!: all_of.elims)
  with reduce_feedback_subset [of xs ys zs] show ?thesis by (auto simp: list_all_iff)
qed

lemma extended_codec_spec:
  assumes l: "codec_kept l" and r: "codec_kept r" and m: "codec_match l r"
    and e: "extended_codec l r = Inr e"
  shows "extended_of l r e \<and> no_rtx e"
proof -
  have o': "is_object l" "is_object r" using l r by (simp_all add: codec_kept_def params_ok_object)
  obtain mt k c lp rp fb where f: "jfind l ''mimeType'' = Some mt" "jfind l ''kind'' = Some k"
      "jfind l ''clockRate'' = Some c" "jfind l ''parameters'' = Some lp" "jfind r ''parameters'' = Some rp"
      "reduceRtcpFeedback l r = Inr fb"
    using l r m e by (auto simp: codec_kept_def codec_match_def contains_def params_ok_def has_def
        extended_codec_def bindE_Inr_iff split: option.splits)
  have p: "all_entries codec_param_ok lp" "all_entries codec_param_ok rp" "all_of feedback_ok fb"
    using l r f reduceRtcpFeedback_ok [OF f(6)] by (simp_all add: codec_kept_def params_ok_def has_def)
  let ?e = "jobj [(''mimeType'', mt), (''kind'', k), (''clockRate'', c),
        (''localPayloadType'', pt_of l), (''localRtxPayloadType'', JNull),
        (''remotePayloadType'', pt_of r), (''remoteRtxPayloadType'', JNull),
        (''localParameters'', lp), (''remoteParameters'', rp), (''rtcpFeedback'', fb)]"
  have oe: "is_object ?e" by (simp add: jobj_def)
  have "e = (case jfind l ''channels'' of Some ch \<Rightarrow> put ''channels'' ch ?e | None \<Rightarrow> ?e)"
    using e oe unfolding extended_codec_def
    by (simp add: f jread_Some jread_pt o' Let_def split: option.splits)
  moreover have "media_fields_ok ?e" using p by (simp add: media_fields_ok_def has_def map_of_jobj)
  ultimately show ?thesis using m f oe
    by (cases "jfind l ''channels''")
      (auto simp: extended_of_def no_rtx_def media_fields_ok_def step_simps map_of_jobj)
qed

text \<open>A run of the loop: which local codec each extended codec comes from, and that the remote
  ones are taken in their order.\<close>

definition extends :: "json list \<Rightarrow> json list \<Rightarrow> (json \<times> json) list \<Rightarrow> json list \<Rightarrow> bool" where
  "extends locals remotes ps es =
     (list_all2 (\<lambda>p e. extended_of (fst p) (snd p) e \<and> no_rtx e) ps es
      \<and> set (map fst ps) \<subseteq> set locals
      \<and> subseq (map snd ps) (filter (\<lambda>r. isRtxCodec r = Inr False) remotes))"

lemma list_all2_stable_trans:
  "list_all2 stable us vs \<Longrightarrow> list_all2 stable vs ws \<Longrightarrow> list_all2 stable us ws"
  by (rule list_all2_trans [of stable stable stable]) (auto intro: stable_trans)

lemma list_all2_stable_kept: "list_all2 stable us vs \<Longrightarrow> \<forall>x \<in> set us. codec_kept x \<Longrightarrow> \<forall>x \<in> set vs. codec_kept x"
  by (metis in_set_conv_nth list_all2_conv_all_nth stable_kept)

lemma extended_of_stable:
  "stable l l' \<Longrightarrow> extended_of l' r e \<Longrightarrow> extended_of l r e"
  "stable r r' \<Longrightarrow> extended_of l r' e \<Longrightarrow> extended_of l r e"
proof -
  assume s: "stable l l'" and e: "extended_of l' r e"
  have "jfind l' ''mimeType'' = jfind l ''mimeType''" "jfind l' ''kind'' = jfind l ''kind''"
    "jfind l' ''clockRate'' = jfind l ''clockRate''" "jfind l' ''channels'' = jfind l ''channels''"
    using s by (simp_all add: stable_def)
  then show "extended_of l r e"
    using e by (simp add: extended_of_def stable_match [OF s] stable_pt [OF s])
qed (simp add: extended_of_def stable_match stable_pt)

lemma extends_stable:
  assumes "list_all2 stable locals ls" "extends ls rs ps es"
  obtains qs where "extends locals rs qs es"
proof -
  have "\<forall>l \<in> set ls. \<exists>l0. l0 \<in> set locals \<and> stable l0 l"
    using assms(1) by (metis in_set_conv_nth list_all2_conv_all_nth)
  then obtain g where g: "\<forall>l \<in> set ls. g l \<in> set locals \<and> stable (g l) l" by metis
  let ?qs = "map (\<lambda>p. (g (fst p), snd p)) ps"
  have "map snd ?qs = map snd ps" by simp
  moreover have "set (map fst ?qs) \<subseteq> set locals" using assms(2) g by (auto simp: extends_def)
  moreover have "list_all2 (\<lambda>p e. extended_of (fst p) (snd p) e \<and> no_rtx e) ?qs es"
  proof (rule list_all2_all_nthI)
    show "length ?qs = length es" using assms(2) by (auto simp: extends_def dest: list_all2_lengthD)
    fix n assume n: "n < length ?qs"
    then have "extended_of (fst (ps ! n)) (snd (ps ! n)) (es ! n) \<and> no_rtx (es ! n)"
      using assms(2) by (simp add: extends_def list_all2_conv_all_nth)
    moreover have "fst (ps ! n) \<in> set ls" using n assms(2) by (auto simp: extends_def)
    ultimately show "extended_of (fst (?qs ! n)) (snd (?qs ! n)) (es ! n) \<and> no_rtx (es ! n)"
      using g extended_of_stable(1) n by auto
  qed
  ultimately have "extends locals rs ?qs es" using assms(2) by (simp only: extends_def)
  then show thesis by (rule that)
qed

lemma extend_codec_spec:
  assumes k: "\<forall>x \<in> set locals. codec_kept x" "codec_kept r"
    and e: "extend_codec lib r locals ext = Inr (r', locals', ext')"
  shows "list_all2 stable locals locals' \<and> stable r r'
    \<and> (ext' = ext \<or> isRtxCodec r = Inr False
        \<and> (\<exists>l \<in> set locals. \<exists>e. ext' = ext @ [e] \<and> extended_of l r e \<and> no_rtx e))"
proof -
  have pr: "params_ok r" and pl: "list_all2 stable locals locals"
    using k by (auto simp: codec_kept_def list_all2_same intro: stable_refl)
  obtain b where b: "isRtxCodec r = Inr b" using e by (auto simp: extend_codec_def bindE_Inr_iff)
  show ?thesis
  proof (cases b)
    case True
    with e b pr pl show ?thesis by (auto simp: extend_codec_def intro: stable_refl)
  next
    case False
    then obtain i ls s where f: "find_match (\<lambda>l r. matchCodecs lib l r True True) locals r = Inr (i, ls, s)"
      and rest: "case i of None \<Rightarrow> r' = s \<and> locals' = ls \<and> ext' = ext
         | Some n \<Rightarrow> \<exists>e l. extended_codec (ls ! n) s = Inr e
              \<and> touch ''preferredPayloadType'' (ls ! n) = Inr l
              \<and> touch ''preferredPayloadType'' s = Inr r' \<and> locals' = ls[n := l] \<and> ext' = ext @ [e]"
      using e b by (auto simp: extend_codec_def bindE_Inr_iff split: option.splits)
    note fs = find_match_spec [OF k f]
    show ?thesis
    proof (cases i)
      case None
      with fs rest show ?thesis by simp
    next
      case (Some n)
      then obtain e l where el: "extended_codec (ls ! n) s = Inr e"
          "touch ''preferredPayloadType'' (ls ! n) = Inr l" "touch ''preferredPayloadType'' s = Inr r'"
          "locals' = ls[n := l]" "ext' = ext @ [e]" using rest by auto
      have n: "n < length locals" "codec_match (locals ! n) r" "list_all2 stable locals ls" "stable r s"
        using fs Some by auto
      then have sn: "stable (locals ! n) (ls ! n)" by (auto simp: list_all2_conv_all_nth)
      have ks: "codec_kept (ls ! n)" "codec_kept s"
        using stable_kept sn n k by auto
      have "extended_of (ls ! n) s e \<and> no_rtx e"
        by (rule extended_codec_spec [OF ks _ el(1)]) (use n sn in \<open>simp add: stable_match\<close>)
      then have "extended_of (locals ! n) r e \<and> no_rtx e"
        using extended_of_stable(1) [OF sn] extended_of_stable(2) [OF n(4)] by blast
      moreover have "stable (ls ! n) l" "stable s r'"
        using ks el(2,3) by (auto simp: codec_kept_def intro: touch_stable)
      then have "stable (locals ! n) l" "stable r r'" using sn n(4) stable_trans by blast+
      then have "list_all2 stable locals locals'" using el(4)
          list_all2_update_cong [OF n(3), of "locals ! n" l n] by simp
      ultimately show ?thesis using el(5) b False n(1) \<open>stable r r'\<close> by auto
    qed
  qed
qed

lemma extend_codecs_spec:
  assumes "\<forall>x \<in> set locals. codec_kept x" "\<forall>x \<in> set rs. codec_kept x"
    and "extend_codecs lib rs locals ext = Inr (rs', locals', ext')"
  shows "list_all2 stable locals locals' \<and> list_all2 stable rs rs'
    \<and> (\<exists>ps es. ext' = ext @ es \<and> extends locals rs ps es)"
  using assms
proof (induction rs arbitrary: locals ext rs' locals' ext')
  case Nil
  then show ?case
    by (auto simp: list_all2_same codec_kept_def extends_def intro: stable_refl exI [of _ "[]"])
next
  case (Cons r rs)
  obtain r1 ls1 ext1 rs1 where h: "extend_codec lib r locals ext = Inr (r1, ls1, ext1)"
      "extend_codecs lib rs ls1 ext1 = Inr (rs1, locals', ext')" "rs' = r1 # rs1"
    using Cons.prems(3) by (auto simp: bindE_Inr_iff)
  have "codec_kept r" using Cons.prems(2) by simp
  note s1 = extend_codec_spec [OF Cons.prems(1) this h(1)]
  have st: "list_all2 stable locals ls1" "stable r r1" using s1 by auto
  obtain ps es where ih: "list_all2 stable ls1 locals'" "list_all2 stable rs rs1" "ext' = ext1 @ es"
      "extends ls1 rs ps es"
    using Cons.IH [OF list_all2_stable_kept [OF st(1) Cons.prems(1)] _ h(2)] Cons.prems(2) by auto
  obtain qs where qs: "extends locals rs qs es" by (rule extends_stable [OF st(1) ih(4)])
  have "\<exists>ps es. ext' = ext @ es \<and> extends locals (r # rs) ps es"
    using s1
  proof (elim conjE disjE bexE exE)
    assume "ext1 = ext"
    moreover have "extends locals (r # rs) qs es" using qs by (auto simp: extends_def)
    ultimately show ?thesis using ih(3) by blast
  next
    fix l e assume e: "isRtxCodec r = Inr False" "l \<in> set locals" "ext1 = ext @ [e]" "extended_of l r e" "no_rtx e"
    then have "extends locals (r # rs) ((l, r) # qs) (e # es)" using qs by (simp add: extends_def)
    with ih(3) e(3) show ?thesis by (intro exI [of _ "(l, r) # qs"] exI [of _ "e # es"]) simp
  qed
  with h(3) st ih(1,2) list_all2_stable_trans [OF st(1) ih(1)] show ?case by simp
qed


section \<open>RTX\<close>

definition rtx_of :: "json \<Rightarrow> json \<Rightarrow> json \<Rightarrow> bool" where
  "rtx_of l r e =
     (isRtxCodec l = Inr True \<and> isRtxCodec r = Inr True
      \<and> rel_option json_eq (apt_of l) (jfind e ''localPayloadType'') \<and> apt_of l \<noteq> None
      \<and> rel_option json_eq (apt_of r) (jfind e ''remotePayloadType'') \<and> apt_of r \<noteq> None
      \<and> jfind e ''localRtxPayloadType'' = Some (pt_of l)
      \<and> jfind e ''remoteRtxPayloadType'' = Some (pt_of r))"

definition same_media :: "json \<Rightarrow> json \<Rightarrow> bool" where
  "same_media e e' = (is_object e' \<and> (\<forall>k. k \<noteq> ''localRtxPayloadType'' \<longrightarrow>
     k \<noteq> ''remoteRtxPayloadType'' \<longrightarrow> jfind e' k = jfind e k))"

lemma find_index_Some: "find_index p xs = Inr (Some i) \<Longrightarrow> i < length xs \<and> p (xs ! i) = Inr True"
  by (induction xs arbitrary: i) (auto simp: bindE_Inr_iff split: if_splits)

lemma rtx_for_True:
  assumes "rtx_for key e c = Inr True" "jfind e key = Some p"
  shows "isRtxCodec c = Inr True \<and> rel_option json_eq (apt_of c) (Some p) \<and> apt_of c \<noteq> None"
  using assms by (auto simp: rtx_for_def bindE_Inr_iff jidx_Inr_iff apt_of_def jread_Some split: if_splits)

lemma jref_pt_stable:
  "codec_kept c \<Longrightarrow> jref c ''preferredPayloadType'' = Inr (v, c') \<Longrightarrow> v = pt_of c \<and> stable c c'"
  using touch_stable [of c c'] jread_pt [of c] params_ok_object [of c]
  by (auto simp: touch_def jread_def codec_kept_def)

lemma extend_rtx_spec:
  assumes k: "\<forall>x \<in> set locals. codec_kept x" "\<forall>x \<in> set remotes. codec_kept x"
    and e: "is_object e" "jfind e ''localPayloadType'' = Some lp" "jfind e ''remotePayloadType'' = Some rp"
    and h: "extend_rtx locals remotes e = Inr (e', locals', remotes')"
  shows "list_all2 stable locals locals' \<and> list_all2 stable remotes remotes' \<and> same_media e e'
    \<and> (e' = e \<or> (\<exists>l \<in> set locals. \<exists>r \<in> set remotes. rtx_of l r e'))"
proof -
  have refl: "list_all2 stable locals locals" "list_all2 stable remotes remotes" "same_media e e"
    using k e(1) by (auto simp: list_all2_same codec_kept_def same_media_def intro: stable_refl)
  show ?thesis
  proof (cases "(e', locals', remotes') = (e, locals, remotes)")
    case True
    with refl show ?thesis by simp
  next
    case False
    then obtain i j lv l rv r where ij: "find_index (rtx_for ''localPayloadType'' e) locals = Inr (Some i)"
        "find_index (rtx_for ''remotePayloadType'' e) remotes = Inr (Some j)"
        "jref (locals ! i) ''preferredPayloadType'' = Inr (lv, l)"
        "jref (remotes ! j) ''preferredPayloadType'' = Inr (rv, r)"
        "e' = put ''remoteRtxPayloadType'' rv (put ''localRtxPayloadType'' lv e)"
        "locals' = locals[i := l]" "remotes' = remotes[j := r]"
      using h e(1) by (auto simp: extend_rtx_def bindE_Inr_iff split: option.splits)
    have b: "i < length locals" "j < length remotes"
        and t: "rtx_for ''localPayloadType'' e (locals ! i) = Inr True"
           "rtx_for ''remotePayloadType'' e (remotes ! j) = Inr True"
      using find_index_Some ij(1,2) by blast+
    then have s: "lv = pt_of (locals ! i)" "stable (locals ! i) l" "rv = pt_of (remotes ! j)" "stable (remotes ! j) r"
      using jref_pt_stable [OF _ ij(3)] jref_pt_stable [OF _ ij(4)] k by auto
    have "list_all2 stable locals locals'" "list_all2 stable remotes remotes'"
      using list_all2_update_cong [OF refl(1) s(2), of i] list_all2_update_cong [OF refl(2) s(4), of j] ij(6,7)
      by simp_all
    moreover have "same_media e e'" using ij(5) by (simp add: same_media_def step_simps)
    moreover have "rtx_of (locals ! i) (remotes ! j) e'"
      using rtx_for_True [OF t(1) e(2)] rtx_for_True [OF t(2) e(3)] s ij(5) e(2,3)
      by (simp add: rtx_of_def step_simps)
    ultimately show ?thesis using b by auto
  qed
qed

lemma rtx_of_stable:
  assumes "stable l l'" "stable r r'" "codec_kept l" "codec_kept r" "rtx_of l' r' e"
  shows "rtx_of l r e"
proof -
  have "apt_of l' = apt_of l" "apt_of r' = apt_of r" using assms(1,2) by (simp_all add: stable_def)
  with assms(5) show ?thesis
    by (simp add: rtx_of_def stable_rtx [OF assms(1,3)] stable_rtx [OF assms(2,4)]
        stable_pt [OF assms(1)] stable_pt [OF assms(2)])
qed

definition rtx_added :: "json list \<Rightarrow> json list \<Rightarrow> json \<Rightarrow> json \<Rightarrow> bool" where
  "rtx_added locals remotes e e' =
     (same_media e e' \<and> (e' = e \<or> (\<exists>l \<in> set locals. \<exists>r \<in> set remotes. rtx_of l r e')))"

lemma list_all2_source: "list_all2 P xs ys \<Longrightarrow> y \<in> set ys \<Longrightarrow> \<exists>x \<in> set xs. P x y"
  by (metis in_set_conv_nth list_all2_conv_all_nth)

lemma rtx_added_stable:
  assumes "list_all2 stable locals ls" "list_all2 stable remotes rs"
    "\<forall>x \<in> set locals. codec_kept x" "\<forall>x \<in> set remotes. codec_kept x" "rtx_added ls rs e e'"
  shows "rtx_added locals remotes e e'"
proof (cases "e' = e")
  case False
  then obtain l r where "l \<in> set ls" "r \<in> set rs" "rtx_of l r e'" using assms(5) by (auto simp: rtx_added_def)
  moreover from this obtain l0 r0 where "l0 \<in> set locals" "stable l0 l" "r0 \<in> set remotes" "stable r0 r"
    using list_all2_source [OF assms(1)] list_all2_source [OF assms(2)] by blast
  ultimately have "rtx_of l0 r0 e'" using rtx_of_stable assms(3,4) by blast
  then show ?thesis using assms(5) \<open>l0 \<in> set locals\<close> \<open>r0 \<in> set remotes\<close> by (auto simp: rtx_added_def)
qed (use assms(5) in \<open>simp add: rtx_added_def\<close>)

lemma extend_rtxs_spec:
  assumes "\<forall>x \<in> set locals. codec_kept x" "\<forall>x \<in> set remotes. codec_kept x"
    and "\<forall>e \<in> set es. is_object e \<and> contains e ''localPayloadType'' \<and> contains e ''remotePayloadType''"
    and "extend_rtxs locals remotes es = Inr (es', locals', remotes')"
  shows "list_all2 stable locals locals' \<and> list_all2 stable remotes remotes'
    \<and> list_all2 (rtx_added locals remotes) es es'"
  using assms
proof (induction es arbitrary: locals remotes es' locals' remotes')
  case Nil
  then show ?case by (auto simp: list_all2_same codec_kept_def intro: stable_refl)
next
  case (Cons e es)
  obtain e1 ls rs es1 where h: "extend_rtx locals remotes e = Inr (e1, ls, rs)"
      "extend_rtxs ls rs es = Inr (es1, locals', remotes')" "es' = e1 # es1"
    using Cons.prems(4) by (auto simp: bindE_Inr_iff)
  obtain lp rp where "jfind e ''localPayloadType'' = Some lp" "jfind e ''remotePayloadType'' = Some rp" "is_object e"
    using Cons.prems(3) by (auto simp: contains_def)
  then have s: "list_all2 stable locals ls" "list_all2 stable remotes rs" "rtx_added locals remotes e e1"
    using extend_rtx_spec [OF Cons.prems(1,2) _ _ _ h(1)] by (auto simp: rtx_added_def)
  have ih: "list_all2 stable ls locals'" "list_all2 stable rs remotes'" "list_all2 (rtx_added ls rs) es es1"
    using Cons.IH [OF list_all2_stable_kept [OF s(1) Cons.prems(1)] list_all2_stable_kept [OF s(2) Cons.prems(2)] _ h(2)]
      Cons.prems(3) by auto
  have "list_all2 (rtx_added locals remotes) es es1"
    using ih(3) rtx_added_stable [OF s(1,2) Cons.prems(1,2)] by (simp add: list_all2_conv_all_nth)
  with h(3) s ih(1,2) list_all2_stable_trans show ?case by auto
qed

section \<open>Which header extensions are extended\<close>

definition ext_of :: "json \<Rightarrow> json \<Rightarrow> json \<Rightarrow> bool" where
  "ext_of l r e =
     (rel_option json_eq (jfind l ''kind'') (jfind r ''kind'')
      \<and> rel_option json_eq (jfind l ''uri'') (jfind r ''uri'')
      \<and> jfind e ''kind'' = jfind r ''kind'' \<and> jfind e ''uri'' = jfind r ''uri''
      \<and> jfind e ''sendId'' = jfind l ''preferredId''
      \<and> jfind e ''recvId'' = jfind r ''preferredId''
      \<and> jfind e ''encrypt'' = jfind l ''preferredEncrypt''
      \<and> (\<exists>d. jfind r ''direction'' = Some (JString d)
           \<and> jfind e ''direction'' = map_option JString (flip_direction d)))"

lemma matchHeaderExtensions_True:
  "matchHeaderExtensions l r = Inr True \<Longrightarrow>
     rel_option json_eq (jfind l ''kind'') (jfind r ''kind'') \<and> rel_option json_eq (jfind l ''uri'') (jfind r ''uri'')"
  by (auto simp: matchHeaderExtensions_def bindE_Inr_iff jidx_Inr_iff split: if_splits)

lemma extended_ext_spec:
  assumes l: "ext_cap_ok l" and r: "ext_cap_ok r" and m: "matchHeaderExtensions l r = Inr True"
    and e: "extended_ext l r = Inr e"
  shows "ext_of l r e"
proof -
  obtain lid le where lf: "jfind l ''preferredId'' = Some lid" "jfind l ''preferredEncrypt'' = Some le"
    using l by (auto simp: ext_cap_ok_def has_def split: option.splits)
  obtain k u rid d where rf: "jfind r ''kind'' = Some k" "jfind r ''uri'' = Some u"
      "jfind r ''preferredId'' = Some rid" "jfind r ''direction'' = Some (JString d)"
    using r by (auto simp: ext_cap_ok_def has_def is_string_iff split: option.splits)
  let ?e = "jobj [(''kind'', k), (''uri'', u), (''sendId'', lid), (''recvId'', rid), (''encrypt'', le)]"
  have "is_object ?e" by (simp add: jobj_def)
  then have "e = (case flip_direction d of Some d' \<Rightarrow> put ''direction'' (JString d') ?e | None \<Rightarrow> ?e)"
    using e lf rf by (simp add: extended_ext_def jread_Some Let_def split: option.splits)
  then show ?thesis using lf rf matchHeaderExtensions_True [OF m]
    by (cases "flip_direction d") (simp_all add: ext_of_def step_simps map_of_jobj)
qed

lemma extend_exts_spec:
  assumes "\<forall>x \<in> set locals. ext_cap_ok x" "\<forall>x \<in> set rs. ext_cap_ok x" "extend_exts locals rs = Inr es"
  shows "\<exists>ps. list_all2 (\<lambda>p e. ext_of (fst p) (snd p) e) ps es \<and> set (map fst ps) \<subseteq> set locals
    \<and> subseq (map snd ps) rs"
  using assms
proof (induction rs arbitrary: es)
  case Nil
  then show ?case by (auto intro: exI [of _ "[]"])
next
  case (Cons r rs)
  obtain f where f: "findE (\<lambda>l. matchHeaderExtensions l r) locals = Inr f"
    using Cons.prems(3) by (auto simp: bindE_Inr_iff)
  show ?case
  proof (cases f)
    case None
    then obtain ps where ps: "list_all2 (\<lambda>p e. ext_of (fst p) (snd p) e) ps es"
        "set (map fst ps) \<subseteq> set locals" "subseq (map snd ps) rs"
      using Cons f by auto
    have "subseq (map snd ps) (r # rs)" using ps(3) by (rule list_emb_Cons)
    with ps show ?thesis by blast
  next
    case (Some l)
    then obtain e es' where e: "extended_ext l r = Inr e" "extend_exts locals rs = Inr es'" "es = e # es'"
      using Cons.prems(3) f by (auto simp: bindE_Inr_iff)
    then obtain ps where ps: "list_all2 (\<lambda>p e. ext_of (fst p) (snd p) e) ps es'"
        "set (map fst ps) \<subseteq> set locals" "subseq (map snd ps) rs"
      using Cons by auto
    have l: "l \<in> set locals" "matchHeaderExtensions l r = Inr True" using findE_Some [OF f [unfolded Some]] by auto
    then have "ext_of l r e" using extended_ext_spec [OF _ _ l(2) e(1)] Cons.prems(1,2) by auto
    then show ?thesis using ps l(1) e(3) by (intro exI [of _ "(l, r) # ps"]) auto
  qed
qed

section \<open>Extended capabilities\<close>

definition codecs_of :: "json \<Rightarrow> json list" where
  "codecs_of caps = (case jfind caps ''codecs'' of Some v \<Rightarrow> jelems v | None \<Rightarrow> [])"

definition exts_of :: "json \<Rightarrow> json list" where
  "exts_of caps = (case jfind caps ''headerExtensions'' of Some v \<Rightarrow> jelems v | None \<Rightarrow> [])"

lemma codec_cap_kept: "codec_cap_ok c \<Longrightarrow> codec_kept c"
  by (auto simp: codec_cap_ok_def codec_common_ok_def codec_kept_def params_ok_def has_contains)

lemma caps_ok_elems:
  assumes "caps_ok c"
  shows "field_elems c ''codecs'' = Inr (codecs_of c)" "\<forall>x \<in> set (codecs_of c). codec_cap_ok x"
    "field_elems c ''headerExtensions'' = Inr (exts_of c)" "\<forall>x \<in> set (exts_of c). ext_cap_ok x"
  using assms
  by (auto simp: caps_ok_def has_def field_elems_def codecs_of_def exts_of_def list_all_iff
      split: option.splits elim!: all_of.elims)

definition extended_codec_ok :: "json list \<Rightarrow> json list \<Rightarrow> json \<times> json \<Rightarrow> json \<Rightarrow> bool" where
  "extended_codec_ok locals remotes p e =
     (extended_of (fst p) (snd p) e
      \<and> (no_rtx e \<or> (\<exists>x \<in> set locals. \<exists>y \<in> set remotes. rtx_of x y e)))"

lemma extended_of_same_media:
  assumes "extended_of l r e" "same_media e e'"
  shows "extended_of l r e'"
proof -
  have "jfind e' ''mimeType'' = jfind e ''mimeType''"
    "jfind e' ''kind'' = jfind e ''kind''"
    "jfind e' ''clockRate'' = jfind e ''clockRate''"
    "jfind e' ''channels'' = jfind e ''channels''"
    "jfind e' ''localPayloadType'' = jfind e ''localPayloadType''"
    "jfind e' ''remotePayloadType'' = jfind e ''remotePayloadType''"
    using assms(2) by (simp_all add: same_media_def)
  moreover have "media_fields_ok e' = media_fields_ok e"
    using assms(2) by (simp add: same_media_def media_fields_ok_def has_def)
  ultimately show ?thesis using assms(1) by (simp add: extended_of_def)
qed

lemma getExtended_parts:
  assumes wf: "jwf l" "jwf r" and g: "getExtendedRtpCapabilities lib l r = Inr (ext, l', r')"
  obtains lv rv ls rs es es' ls' rs' xs where
    "validateRtpCapabilities l = Inr lv" "validateRtpCapabilities r = Inr rv" "caps_ok lv" "caps_ok rv"
    "extend_codecs lib (codecs_of rv) (codecs_of lv) [] = Inr (rs, ls, es)"
    "extend_rtxs ls rs es = Inr (es', ls', rs')"
    "extend_exts (exts_of lv) (exts_of rv) = Inr xs"
    "ext = jobj [(''codecs'', JArray es'), (''headerExtensions'', JArray xs)]"
proof -
  obtain lv rv where v: "validateRtpCapabilities l = Inr lv" "validateRtpCapabilities r = Inr rv"
    using g by (auto simp: getExtendedRtpCapabilities_def bindE_Inr_iff)
  then have ok: "caps_ok lv" "caps_ok rv" using caps.sound wf by blast+
  show thesis
    using g that [OF v ok] unfolding getExtendedRtpCapabilities_def v bindE_simps
    by (auto simp: caps_ok_elems [OF ok(1)] caps_ok_elems [OF ok(2)] bindE_Inr_iff)
qed

lemma codecs_of_jobj: "codecs_of (jobj [(''codecs'', JArray es), (''headerExtensions'', JArray xs)]) = es"
  "exts_of (jobj [(''codecs'', JArray es), (''headerExtensions'', JArray xs)]) = xs"
  by (simp_all add: codecs_of_def exts_of_def map_of_jobj)

lemma extended_sound:
  assumes wf: "jwf l" "jwf r" and g: "getExtendedRtpCapabilities lib l r = Inr (ext, l', r')"
  obtains lv rv ps qs where
    "validateRtpCapabilities l = Inr lv" "validateRtpCapabilities r = Inr rv"
    "list_all2 (extended_codec_ok (codecs_of lv) (codecs_of rv)) ps (codecs_of ext)"
    "set (map fst ps) \<subseteq> set (codecs_of lv)"
    "subseq (map snd ps) (filter (\<lambda>c. isRtxCodec c = Inr False) (codecs_of rv))"
    "list_all2 (\<lambda>q e. ext_of (fst q) (snd q) e) qs (exts_of ext)"
    "set (map fst qs) \<subseteq> set (exts_of lv)" "subseq (map snd qs) (exts_of rv)"
proof (rule getExtended_parts [OF wf g])
  fix lv rv ls rs es es' ls' rs' xs
  assume v: "validateRtpCapabilities l = Inr lv" "validateRtpCapabilities r = Inr rv"
    and ok: "caps_ok lv" "caps_ok rv"
    and ec: "extend_codecs lib (codecs_of rv) (codecs_of lv) [] = Inr (rs, ls, es)"
    and er: "extend_rtxs ls rs es = Inr (es', ls', rs')"
    and ee: "extend_exts (exts_of lv) (exts_of rv) = Inr xs"
    and ext: "ext = jobj [(''codecs'', JArray es'), (''headerExtensions'', JArray xs)]"
  have k: "\<forall>x \<in> set (codecs_of lv). codec_kept x" "\<forall>x \<in> set (codecs_of rv). codec_kept x"
    using caps_ok_elems(2) [OF ok(1)] caps_ok_elems(2) [OF ok(2)] codec_cap_kept by blast+
  obtain ps where c: "list_all2 stable (codecs_of lv) ls" "list_all2 stable (codecs_of rv) rs"
      "extends (codecs_of lv) (codecs_of rv) ps es"
    using extend_codecs_spec [OF k ec] by auto
  have k1: "\<forall>x \<in> set ls. codec_kept x" "\<forall>x \<in> set rs. codec_kept x"
    using list_all2_stable_kept c(1,2) k by blast+
  have len: "length ps = length es" using c(3) by (auto simp: extends_def dest: list_all2_lengthD)
  have e: "extended_of (fst (ps ! n)) (snd (ps ! n)) (es ! n) \<and> no_rtx (es ! n)" if "n < length es" for n
    using c(3) that by (auto simp: extends_def list_all2_conv_all_nth)
  have "\<forall>e \<in> set es. is_object e \<and> contains e ''localPayloadType'' \<and> contains e ''remotePayloadType''"
    using e by (auto simp: in_set_conv_nth no_rtx_def extended_of_def contains_def)
  then have "list_all2 (rtx_added ls rs) es es'" using extend_rtxs_spec [OF k1 _ er] by blast
  then have r: "length es' = length es" "\<And>n. n < length es \<Longrightarrow> rtx_added (codecs_of lv) (codecs_of rv) (es ! n) (es' ! n)"
    using rtx_added_stable [OF c(1,2) k] by (auto simp: list_all2_conv_all_nth)
  have "list_all2 (extended_codec_ok (codecs_of lv) (codecs_of rv)) ps es'"
  proof (rule list_all2_all_nthI)
    fix n assume "n < length ps"
    then have n: "n < length es" using len by simp
    show "extended_codec_ok (codecs_of lv) (codecs_of rv) (ps ! n) (es' ! n)"
      using r(2) [OF n] e [OF n] extended_of_same_media
      by (auto simp: extended_codec_ok_def rtx_added_def)
  qed (simp add: len r)
  moreover have "\<forall>x \<in> set (exts_of lv). ext_cap_ok x" "\<forall>x \<in> set (exts_of rv). ext_cap_ok x"
    using caps_ok_elems(4) ok by blast+
  from extend_exts_spec [OF this ee] obtain qs where
    "list_all2 (\<lambda>q e. ext_of (fst q) (snd q) e) qs xs" "set (map fst qs) \<subseteq> set (exts_of lv)"
    "subseq (map snd qs) (exts_of rv)" by blast
  ultimately show thesis using that [OF v] c(3) by (simp add: ext codecs_of_jobj extends_def)
qed

end
