(* ===== verification/MimeType.thy ===== *)
theory MimeType
  imports OrtcValidate RegexFacts
begin

text \<open>
  The MIME type pattern of the validators, solved: when it matches, and what its first
  group is, stated without the regular expression.
\<close>

section \<open>The media component of a MIME type\<close>

lemma re_mime [compiled]:
  "mk_re ''^(audio|video)/(.+)'' =
   Seq Bol (Seq (Group 1 (Alt (lits ''audio'') (lits ''video'')))
   (Seq (Lit (CHR ''/'')) (Group 2 (Quant 1 None AnyChar))))"
  by code_simp

declare lits.simps [simp del]

definition media_word :: "string \<Rightarrow> bool" where
  "media_word k = (lower k = ''audio'' \<or> lower k = ''video'')"

lemma to_lower_lits [simp]:
  "to_lower (CHR ''a'') = CHR ''a''" "to_lower (CHR ''u'') = CHR ''u''" "to_lower (CHR ''d'') = CHR ''d''"
  "to_lower (CHR ''i'') = CHR ''i''" "to_lower (CHR ''o'') = CHR ''o''" "to_lower (CHR ''v'') = CHR ''v''"
  "to_lower (CHR ''e'') = CHR ''e''" "to_lower (CHR ''/'') = CHR ''/''"
  by code_simp+

lemma icase_word: "list_all2 (char_eq True) s w \<longleftrightarrow> lower s = lower w"
  by (auto simp: lower_def char_eq_def list_all2_conv_all_nth list_eq_iff_nth_eq)

lemma run_media:
  "run True L (Group 1 (Alt (lits ''audio'') (lits ''video''))) (s, g) =
     (if 5 \<le> length s \<and> media_word (take 5 s) then [(drop 5 s, (1, take 5 s) # g)] else [])"
proof -
  have "lower (take 5 s) = ''audio'' \<Longrightarrow> lower (take 5 s) \<noteq> ''video''" by simp
  moreover have "lower ''audio'' = ''audio''" "lower ''video'' = ''video''" by (simp_all add: lower_def)
  ultimately show ?thesis
    by (simp add: run_lits icase_word media_word_def eval_nat_numeral)
qed

lemma run_slash: "run True L (Lit (CHR ''/'')) (s, g) = (case s of [] \<Rightarrow> [] | x # xs \<Rightarrow> if to_lower x = CHR ''/'' then [(xs, g)] else [])"
  by (cases s) (simp_all add: char_eq_def)

text \<open>No letter folds to a slash.\<close>

lemma to_lower_slash: "to_lower x = CHR ''/'' \<longleftrightarrow> x = CHR ''/''"
proof (cases "CHR ''A'' \<le> x \<and> x \<le> CHR ''Z''")
  case True
  then have "x \<noteq> CHR ''/''" by (auto simp: less_eq_char_def)
  obtain b0 b1 b2 b3 b4 b5 b6 b7 where x: "x = Char b0 b1 b2 b3 b4 b5 b6 b7" by (cases x)
  have "to_lower x \<noteq> CHR ''/''" using True by (cases b5; cases b6; cases b4; cases b7) (auto simp: to_lower_def x less_eq_char_def)
  with \<open>x \<noteq> CHR ''/''\<close> show ?thesis by simp
next
  case False
  then show ?thesis by (auto simp: to_lower_def)
qed

lemma run_rest:
  "run True L (Group 2 (Quant 1 None AnyChar)) (s, g) =
     map (\<lambda>k. (drop k s, (2, take (length s - (length s - k)) s) # g))
       (rev [1..<Suc (length (takeWhile (\<lambda>x. \<not> is_eol x) s))])"
  by (simp add: run_plus [OF run_AnyChar, unfolded One_nat_def] del: run.simps(3,10) upt_Suc)

lemma list_all_takeWhile: "list_all P xs \<longleftrightarrow> length (takeWhile P xs) = length xs"
  by (induction xs) auto

text \<open>The media component of a MIME type, without the regular expression.\<close>

lemma mime_kind_cases:
  "mime_kind s =
     (if 6 < length s \<and> media_word (take 5 s) \<and> s ! 5 = CHR ''/'' \<and> list_all (\<lambda>x. \<not> is_eol x) (drop 6 s)
      then Some (take 5 s) else None)"
proof -
  let ?rs = "run True (length s) (mk_re ''^(audio|video)/(.+)'') (s, [])"
  let ?t = "drop 6 s"
  let ?n = "length (takeWhile (\<lambda>x. \<not> is_eol x) ?t)"
  have rs: "?rs = (if 5 < length s \<and> media_word (take 5 s) \<and> s ! 5 = CHR ''/''
      then map (\<lambda>k. (drop k ?t, [(2, take (length ?t - (length ?t - k)) ?t), (1, take 5 s)]))
       (rev [1..<Suc ?n]) else [])"
  proof (cases "5 \<le> length s \<and> media_word (take 5 s)")
    case True
    show ?thesis
    proof (cases "5 < length s")
      case False
      with True have "drop 5 s = []" by simp
      with True False show ?thesis
        by (simp add: re_mime run_media [unfolded One_nat_def] run_slash del: run.simps(2,8,9,10))
    next
      case five: True
      then have d: "drop 5 s = s ! 5 # ?t" using Cons_nth_drop_Suc [of 5 s] by simp
      have "?rs = concat (map (run True (length s) (Group 2 (Quant 1 None AnyChar)))
          (run True (length s) (Lit (CHR ''/'')) (s ! 5 # ?t, [(1, take 5 s)])))"
        using True by (simp add: re_mime run_media [unfolded One_nat_def] d del: run.simps(2,8,9,10))
      also have "\<dots> = (if s ! 5 = CHR ''/''
          then run True (length s) (Group 2 (Quant 1 None AnyChar)) (?t, [(1, take 5 s)]) else [])"
        by (simp add: run_slash to_lower_slash del: run.simps(2,8,9,10))
      finally show ?thesis using True five by (simp only: run_rest simp_thms)
    qed
  qed (auto simp: re_mime run_media [unfolded One_nat_def] simp del: run.simps(2,8,9,10))
  have grp: "map_of ((0, s) # snd st) 1 = Some (take 5 s)" if "st \<in> set ?rs" for st
    using that by (auto simp: rs split: if_splits)
  have all: "list_all (\<lambda>x. \<not> is_eol x) ?t \<longleftrightarrow> ?n = length ?t"
    by (rule list_all_takeWhile)
  have "(\<exists>k \<in> {1..<Suc ?n}. drop k ?t = []) \<longleftrightarrow> ?t \<noteq> [] \<and> ?n = length ?t"
    using length_takeWhile_le [of "\<lambda>x. \<not> is_eol x" ?t] by (cases ?t) (auto intro: bexI [of _ ?n])
  then have ex: "(\<exists>st \<in> set ?rs. fst st = []) \<longleftrightarrow>
      6 < length s \<and> media_word (take 5 s) \<and> s ! 5 = CHR ''/'' \<and> list_all (\<lambda>x. \<not> is_eol x) ?t"
    unfolding rs all by auto
  show ?thesis
  proof (cases "filter (\<lambda>st. fst st = []) ?rs")
    case Nil
    then have "\<not> (\<exists>st \<in> set ?rs. fst st = [])" by (auto simp: filter_empty_conv)
    with ex Nil show ?thesis
      by (simp add: mime_kind_def regex_match_def MimeTypeRegex_def regex_icase_def)
  next
    case (Cons st sts)
    have "st \<in> set (filter (\<lambda>st. fst st = []) ?rs)" unfolding Cons by simp
    then have st: "st \<in> set ?rs" "fst st = []" by simp_all
    with ex Cons grp [OF st(1)] show ?thesis
      by (auto simp: mime_kind_def regex_match_def MimeTypeRegex_def regex_icase_def mgroup_def)
  qed
qed

lemma mime_kind_rtx: "mime_kind s = Some k \<Longrightarrow> mime_kind (k @ ''/rtx'') = Some k"
  by (auto simp: mime_kind_cases is_eol_def nth_append split: if_splits)

end
