(* ===== verification/OrtcReceive.thy ===== *)
theory OrtcReceive
  imports OrtcFacts MimeType
begin

text \<open>
  What is negotiated can be received: the capabilities derived from a negotiation exist
  and pass the validator, when the remote side gave its payload types and directions.
\<close>

section \<open>What the capability validator accepts\<close>

lemma feedback_unchanged: "feedback_ok j \<Longrightarrow> validateRtcpFeedback j = Inr j"
  by (simp add: validateRtcpFeedback_def feedback_ok_def fixed_steps has_object)

lemma ext_cap_unchanged: "ext_cap_ok j \<Longrightarrow> validateRtpHeaderExtension j = Inr j"
  unfolding validateRtpHeaderExtension_def ext_cap_ok_def
  by (rule steps_fixed) (auto simp: fixed_steps has_contains has_opt has_media_kind)

lemma mapE_unchanged: "(\<And>x. x \<in> set xs \<Longrightarrow> f x = Inr x) \<Longrightarrow> mapE f xs = Inr xs"
  by (induction xs) auto

lemma codec_tail_accepts:
  assumes "codec_tail_ok j"
  shows "is_ok (steps codec_tail j)"
proof -
  have p: "has j ''parameters'' (all_entries codec_param_ok)" and f: "has j ''rtcpFeedback'' (all_of feedback_ok)"
    using assms by (simp_all add: codec_tail_ok_def)
  obtain xs where xs: "jfind j ''rtcpFeedback'' = Some (JArray xs)" "\<forall>x \<in> set xs. feedback_ok x"
    using f by (auto simp: has_def list_all_iff split: option.splits elim!: all_of.elims)
  have "mapE validateRtcpFeedback xs = Inr xs" using xs(2) feedback_unchanged by (intro mapE_unchanged) blast
  moreover have "entries ''parameters'' codec_param_check j = Inr j"
    by (rule entries_fixed [OF p]) (simp add: codec_param_check_Inr)
  ultimately show ?thesis using xs(1) has_object [OF p]
    by (simp add: codec_tail_def dflt_fixed has_all_entries [OF p] has_all_of [OF f] each_def inside_def)
qed

definition codec_acceptable :: "json \<Rightarrow> bool" where
  "codec_acceptable c =
     (is_object c \<and> mime_of c \<noteq> None \<and> opt c ''preferredPayloadType'' is_number_integer
      \<and> has c ''clockRate'' is_number_integer \<and> codec_tail_ok c)"

lemma validateRtpCodecCapability_accepts:
  assumes "codec_acceptable c"
  shows "is_ok (validateRtpCodecCapability c)"
proof -
  let ?head = "[object_check ''codec is not an object'',
            need ''mimeType'' is_string ''missing codec.mimeType'',
            set_kind,
            maybe ''preferredPayloadType'' is_number_integer ''invalid codec.preferredPayloadType'',
            need ''clockRate'' is_number_integer ''missing codec.clockRate'',
            (\<lambda>codec. set_channels (jfind codec ''kind'' = Some (JString ''audio'')) codec)]"
  have eq: "validateRtpCodecCapability = steps (?head @ codec_tail)"
    by (simp add: validateRtpCodecCapability_def codec_tail_def)
  have c: "is_object c" "codec_tail_ok c" using assms by (simp_all add: codec_acceptable_def)
  obtain k where k: "mime_of c = Some k" using assms by (auto simp: codec_acceptable_def)
  let ?u = "channels_put (k = ''audio'') (put ''kind'' (JString k) c)"
  have "steps ?head c = Inr ?u"
    using assms k by (simp add: codec_acceptable_def steps_Inr step_simps mime_of_has del: steps.simps)
  moreover have "codec_tail_ok ?u" using c(2) by (simp add: codec_tail_ok_def step_simps)
  ultimately show ?thesis using codec_tail_accepts by (simp add: eq steps_append del: steps.simps append.simps)
qed

text \<open>Capabilities made of acceptable codecs and well-formed extensions are accepted.\<close>

lemma validateRtpCapabilities_accepts:
  assumes "\<forall>c \<in> set cs. codec_acceptable c" "\<forall>x \<in> set xs. ext_cap_ok x"
  shows "is_ok (validateRtpCapabilities (jobj [(''codecs'', JArray cs), (''headerExtensions'', JArray xs)]))"
proof -
  let ?j = "jobj [(''codecs'', JArray cs), (''headerExtensions'', JArray xs)]"
  have "is_ok (mapE validateRtpCodecCapability cs)"
    using assms(1) validateRtpCodecCapability_accepts by (intro mapE_ok) blast
  then obtain cs' where cs': "mapE validateRtpCodecCapability cs = Inr cs'" by (auto simp: is_ok_iff)
  have xs': "mapE validateRtpHeaderExtension xs = Inr xs"
    using assms(2) ext_cap_unchanged by (intro mapE_unchanged) blast
  have f: "jfind ?j ''codecs'' = Some (JArray cs)" "jfind ?j ''headerExtensions'' = Some (JArray xs)" "is_object ?j"
    by (simp_all add: map_of_jobj) (simp add: jobj_def)
  then show ?thesis using cs' xs'
    by (simp add: validateRtpCapabilities_def object_check_def maybe_def opt_def jdefault_def each_def inside_def
        jfind_put)
qed

section \<open>Receiving what was negotiated\<close>

text \<open>An extended codec with a payload type on both sides.\<close>

definition recv_ready :: "json \<Rightarrow> bool" where
  "recv_ready e =
     (is_object e \<and> has e ''mimeType'' is_string \<and> has e ''kind'' (\<lambda>v. Some v = map_option JString (mime_of e))
      \<and> has e ''clockRate'' is_number_integer \<and> media_fields_ok e
      \<and> has e ''remotePayloadType'' is_number_integer
      \<and> has e ''remoteRtxPayloadType'' (\<lambda>v. v = JNull \<or> is_number_integer v))"

lemma get_uint_int: "is_number_integer v \<Longrightarrow> \<exists>n. (get_uint v :: 8 word res) = Inr n"
  by (cases v) auto

lemma recv_codec_ready:
  assumes "recv_ready e"
  obtains cs where "recv_codec e = Inr cs" "\<forall>c \<in> set cs. codec_acceptable c" "cs \<noteq> []"
proof -
  obtain k where k: "mime_of e = Some k"
    using assms by (cases "mime_of e") (auto simp: recv_ready_def has_def split: option.splits)
  then obtain m where mk: "jfind e ''mimeType'' = Some (JString m)" "mime_kind m = Some k"
    by (auto simp: mime_of_def split: option.splits json.splits)
  moreover have "jfind e ''kind'' = Some (JString k)" using assms k by (simp add: recv_ready_def has_eq)
  ultimately have mk: "jfind e ''mimeType'' = Some (JString m)" "jfind e ''kind'' = Some (JString k)"
    "mime_kind m = Some k" by simp_all
  obtain cr pt rpt lp fb where f: "jfind e ''clockRate'' = Some cr" "jfind e ''remotePayloadType'' = Some pt"
      "jfind e ''remoteRtxPayloadType'' = Some rpt" "jfind e ''localParameters'' = Some lp"
      "jfind e ''rtcpFeedback'' = Some fb" "is_number_integer cr" "is_number_integer pt"
      "rpt = JNull \<or> is_number_integer rpt" "all_entries codec_param_ok lp" "all_of feedback_ok fb"
    using assms by (auto simp: recv_ready_def media_fields_ok_def has_def split: option.splits)
  have w: "is_object e" using assms by (simp add: recv_ready_def)
  obtain n where n: "(get_uint pt :: 8 word res) = Inr n" using get_uint_int f(7) by blast
  let ?c = "jobj [(''mimeType'', JString m), (''kind'', JString k), (''preferredPayloadType'', pt),
        (''clockRate'', cr), (''parameters'', lp), (''rtcpFeedback'', fb)]"
  let ?c' = "case jfind e ''channels'' of Some ch \<Rightarrow> put ''channels'' ch ?c | None \<Rightarrow> ?c"
  let ?x = "jobj [(''mimeType'', JString (k @ ''/rtx'')), (''kind'', JString k), (''preferredPayloadType'', rpt),
        (''clockRate'', cr), (''parameters'', jobj [(''apt'', JUint (ucast n))]), (''rtcpFeedback'', jarray_empty)]"
  have oc: "is_object ?c" by (simp add: jobj_def)
  have c: "codec_acceptable ?c'"
    using oc f mk by (cases "jfind e ''channels''")
      (simp_all add: codec_acceptable_def codec_tail_ok_def mime_of_def has_def opt_def map_of_jobj jfind_put)
  have x: "codec_acceptable ?x" if "rpt \<noteq> JNull"
  proof -
    have a: "jobj [(''apt'', JUint (ucast n))] = JObject [(''apt'', JUint (ucast n))]" by (simp add: jobj_def)
    have "is_object ?x" by (simp add: jobj_def)
    moreover have "mime_of ?x = Some k" using mime_kind_rtx [OF mk(3)] by (simp add: mime_of_def map_of_jobj)
    ultimately show ?thesis using f that
      by (simp add: codec_acceptable_def codec_tail_ok_def has_def opt_def map_of_jobj a codec_param_ok_def is_number_def)
  qed
  have "recv_codec e = Inr (if rpt = JNull then [?c'] else [?c', ?x])"
    using f mk w n oc by (cases "jfind e ''channels''")
      (simp_all add: recv_codec_def jidx_object with_channels_def rtx_mime_def apt_params_def)
  with that c x show thesis by (cases "rpt = JNull") auto
qed


definition known_direction :: "json \<Rightarrow> bool" where
  "known_direction v =
     (v \<in> {JString ''sendrecv'', JString ''sendonly'', JString ''recvonly'', JString ''inactive''})"

definition recv_ext_ready :: "json \<Rightarrow> bool" where
  "recv_ext_ready e =
     (has e ''kind'' media_kind \<and> has e ''uri'' nonempty_string \<and> has e ''recvId'' is_number_integer
      \<and> has e ''encrypt'' is_boolean \<and> has e ''direction'' known_direction)"

lemma recv_ext_ready:
  assumes "recv_ext_ready e"
  obtains xs where "recv_ext e = Inr xs" "\<forall>x \<in> set xs. ext_cap_ok x"
proof -
  obtain k u i b d where f: "jfind e ''kind'' = Some k" "jfind e ''uri'' = Some u" "jfind e ''recvId'' = Some i"
      "jfind e ''encrypt'' = Some b" "jfind e ''direction'' = Some (JString d)"
      "media_kind k" "nonempty_string u" "is_number_integer i" "is_boolean b"
    using assms by (auto simp: recv_ext_ready_def has_def known_direction_def split: option.splits)
  let ?x = "jobj [(''kind'', k), (''uri'', u), (''preferredId'', i), (''preferredEncrypt'', b), (''direction'', JString d)]"
  have "is_object ?x" by (simp add: jobj_def)
  then have x: "ext_cap_ok ?x" using f by (simp add: ext_cap_ok_def has_def map_of_jobj)
  have "is_object e" using f(1) by (rule jfind_Some_object)
  then have "recv_ext e = Inr (if d \<noteq> ''sendrecv'' \<and> d \<noteq> ''recvonly'' then [] else [?x])"
    using f by (simp add: recv_ext_def jidx_object)
  with that x show thesis by (cases "d \<noteq> ''sendrecv'' \<and> d \<noteq> ''recvonly''") auto
qed

lemma mapE_lists:
  assumes "\<forall>x \<in> set xs. \<exists>ys. f x = Inr ys \<and> (\<forall>y \<in> set ys. P y)"
  obtains yss where "mapE f xs = Inr yss" "\<forall>y \<in> set (concat yss). P y"
proof -
  have "\<exists>yss. mapE f xs = Inr yss \<and> (\<forall>y \<in> set (concat yss). P y)"
    using assms by (induction xs) (auto simp del: mapE_Inr_iff)
  with that show thesis by blast
qed

lemma getRecvRtpCapabilities_ready:
  assumes "is_object ext" "contains ext ''codecs''" "contains ext ''headerExtensions''"
    "\<forall>e \<in> set (codecs_of ext). recv_ready e" "\<forall>e \<in> set (exts_of ext). recv_ext_ready e"
  shows "\<exists>caps. getRecvRtpCapabilities ext = Inr caps \<and> is_ok (validateRtpCapabilities caps)"
proof -
  obtain cv xv where v: "jfind ext ''codecs'' = Some cv" "jfind ext ''headerExtensions'' = Some xv"
    using assms(2,3) by (auto simp: contains_def)
  have "\<forall>e \<in> set (codecs_of ext). \<exists>cs. recv_codec e = Inr cs \<and> (\<forall>c \<in> set cs. codec_acceptable c)"
    using assms(4) recv_codec_ready by metis
  then obtain css where css: "mapE recv_codec (codecs_of ext) = Inr css" "\<forall>c \<in> set (concat css). codec_acceptable c"
    by (rule mapE_lists)
  have "\<forall>e \<in> set (exts_of ext). \<exists>xs. recv_ext e = Inr xs \<and> (\<forall>x \<in> set xs. ext_cap_ok x)"
    using assms(5) recv_ext_ready by metis
  then obtain xss where xss: "mapE recv_ext (exts_of ext) = Inr xss" "\<forall>x \<in> set (concat xss). ext_cap_ok x"
    by (rule mapE_lists)
  have "getRecvRtpCapabilities ext =
      Inr (jobj [(''codecs'', JArray (concat css)), (''headerExtensions'', JArray (concat xss))])"
    using css(1) xss(1) v assms(1) by (simp add: getRecvRtpCapabilities_def jidx_object codecs_of_def exts_of_def)
  then show ?thesis using validateRtpCapabilities_accepts [OF css(2) xss(2)] by simp
qed

section \<open>From the negotiation to the capabilities\<close>

lemma has_pt: "has c ''preferredPayloadType'' P \<Longrightarrow> P (pt_of c)"
  by (auto simp: has_def pt_of_def split: option.splits)

lemma extended_recv_ready:
  assumes "codec_cap_ok l" "has r ''preferredPayloadType'' is_number_integer"
    and "\<forall>c \<in> set remotes. has c ''preferredPayloadType'' is_number_integer"
    and "extended_codec_ok locals remotes (l, r) e"
  shows "recv_ready e"
proof -
  have e: "extended_of l r e" "no_rtx e \<or> (\<exists>x \<in> set locals. \<exists>y \<in> set remotes. rtx_of x y e)"
    using assms(4) by (simp_all add: extended_codec_ok_def)
  have f: "jfind e ''mimeType'' = jfind l ''mimeType''" "jfind e ''kind'' = jfind l ''kind''"
      "jfind e ''clockRate'' = jfind l ''clockRate''" "jfind e ''remotePayloadType'' = Some (pt_of r)"
      "media_fields_ok e"
    using e(1) by (simp_all add: extended_of_def)
  have m: "mime_of e = mime_of l" by (simp add: mime_of_def f)
  have rtx: "has e ''remoteRtxPayloadType'' (\<lambda>v. v = JNull \<or> is_number_integer v)"
  proof -
    have "\<forall>y \<in> set remotes. is_number_integer (pt_of y)" using assms(3) has_pt by blast
    with e(2) show ?thesis by (auto simp: no_rtx_def rtx_of_def has_def)
  qed
  have "has e ''mimeType'' is_string"
    using assms(1) mime_of_has [of l] f(1) by (auto simp: codec_cap_ok_def codec_common_ok_def has_def)
  moreover have "has e ''kind'' (\<lambda>v. Some v = map_option JString (mime_of e))"
      "has e ''clockRate'' is_number_integer"
    using assms(1) f m by (simp_all add: codec_cap_ok_def codec_common_ok_def has_def)
  moreover have "is_object e" using f(5) has_object by (auto simp: media_fields_ok_def)
  ultimately show ?thesis
    using rtx f(4,5) has_pt [OF assms(2)] by (simp add: recv_ready_def has_def)
qed

lemma extended_recv_ext_ready:
  assumes "ext_cap_ok l" "ext_cap_ok r" "has r ''direction'' known_direction" "ext_of l r e"
  shows "recv_ext_ready e"
proof -
  obtain d where d: "jfind r ''direction'' = Some (JString d)" "jfind e ''direction'' = map_option JString (flip_direction d)"
    using assms(4) by (auto simp: ext_of_def)
  then have "has e ''direction'' known_direction"
    using assms(3) by (auto simp: has_def known_direction_def flip_direction_def)
  then show ?thesis using assms(1,2,4)
    by (simp add: recv_ext_ready_def ext_of_def ext_cap_ok_def has_def)
qed

lemma subseq_set: "subseq xs ys \<Longrightarrow> set xs \<subseteq> set ys"
  by (induction rule: list_emb.induct) auto

text \<open>What is negotiated can be received.\<close>

lemma negotiated_receivable:
  assumes wf: "jwf l" "jwf r" and g: "getExtendedRtpCapabilities lib l r = Inr (ext, l', r')"
    and v: "validateRtpCapabilities r = Inr rv"
    and pts: "\<forall>c \<in> set (codecs_of rv). has c ''preferredPayloadType'' is_number_integer"
    and dirs: "\<forall>x \<in> set (exts_of rv). has x ''direction'' known_direction"
  shows "\<exists>caps. getRecvRtpCapabilities ext = Inr caps \<and> is_ok (validateRtpCapabilities caps)"
proof -
  obtain lv rv' ps qs where s: "validateRtpCapabilities l = Inr lv" "validateRtpCapabilities r = Inr rv'"
    "list_all2 (extended_codec_ok (codecs_of lv) (codecs_of rv')) ps (codecs_of ext)"
    "set (map fst ps) \<subseteq> set (codecs_of lv)"
    "subseq (map snd ps) (filter (\<lambda>c. isRtxCodec c = Inr False) (codecs_of rv'))"
    "list_all2 (\<lambda>q e. ext_of (fst q) (snd q) e) qs (exts_of ext)"
    "set (map fst qs) \<subseteq> set (exts_of lv)" "subseq (map snd qs) (exts_of rv')"
    by (rule extended_sound [OF wf g])
  have rv: "rv' = rv" using s(2) v by simp
  have ok: "caps_ok lv" "caps_ok rv" using caps.sound wf s(1) v by blast+
  have "\<forall>e \<in> set (codecs_of ext). recv_ready e"
  proof
    fix e assume "e \<in> set (codecs_of ext)"
    then obtain p where p: "p \<in> set ps" "extended_codec_ok (codecs_of lv) (codecs_of rv) p e"
      using list_all2_source [OF s(3)] rv by blast
    then have "fst p \<in> set (codecs_of lv)" "snd p \<in> set (codecs_of rv)"
      using s(4) subseq_set [OF s(5)] rv by auto
    then show "recv_ready e"
      using extended_recv_ready [of "fst p" "snd p"] p(2) pts caps_ok_elems(2) [OF ok(1)] by auto
  qed
  moreover have "\<forall>e \<in> set (exts_of ext). recv_ext_ready e"
  proof
    fix e assume "e \<in> set (exts_of ext)"
    then obtain q where q: "q \<in> set qs" "ext_of (fst q) (snd q) e" using list_all2_source [OF s(6)] by blast
    then have "fst q \<in> set (exts_of lv)" "snd q \<in> set (exts_of rv)"
      using s(7) subseq_set [OF s(8)] rv by auto
    then show "recv_ext_ready e"
      using extended_recv_ext_ready q(2) dirs caps_ok_elems(4) ok by blast
  qed
  moreover have "is_object ext" "contains ext ''codecs''" "contains ext ''headerExtensions''"
    by (rule getExtended_parts [OF wf g], simp add: jobj_def contains_def map_of_jobj)+
  ultimately show ?thesis by (intro getRecvRtpCapabilities_ready)
qed

end
