(* ===== verification/OrtcSend.thy ===== *)
theory OrtcSend
  imports OrtcReceive
begin

text \<open>
  The parameters for sending, and the remaining functions of the negotiation: which codecs
  and which RTCP feedback the parameters hold, what \<open>canSend\<close> and \<open>canReceive\<close> answer,
  what \<open>reduceCodecs\<close> does, and the validator of SCTP stream parameters on its own output.
\<close>

section \<open>Sending\<close>

lemma canSend_spec:
  "canSend kind ext = Inr b \<longleftrightarrow> (\<exists>v f. jfind ext ''codecs'' = Some v
     \<and> findE (kind_is kind) (jelems v) = Inr f \<and> b = (f \<noteq> None))"
  by (auto simp: canSend_def bindE_Inr_iff jidx_Inr_iff)

lemma send_codec_shape:
  assumes "send_codec pkey e = Inr cs"
  shows "\<exists>c rest. cs = c # rest \<and> length rest \<le> 1
     \<and> jfind c ''mimeType'' = jfind e ''mimeType'' \<and> jfind c ''payloadType'' = jfind e ''localPayloadType''"
proof -
  have "is_object (jobj (p # ps))" for p ps by (simp add: jobj_def)
  then show ?thesis using assms
    by (auto simp: send_codec_def with_channels_def bindE_Inr_iff jidx_Inr_iff jfind_put map_of_jobj
      split: if_splits option.splits)
qed

lemma codecs_of_rtp_parameters: "codecs_of (rtp_parameters cs xs) = cs" "exts_of (rtp_parameters cs xs) = xs"
  by (simp_all add: rtp_parameters_def codecs_of_def exts_of_def map_of_jobj)

text \<open>At most one media codec and its RTX codec; one exactly when the kind can be sent.\<close>

lemma sending_codecs:
  assumes "getSendingRtpParameters kind ext = Inr p"
  shows "length (codecs_of p) \<le> 2 \<and> canSend kind ext = Inr (codecs_of p \<noteq> [])
    \<and> (codecs_of p \<noteq> [] \<longrightarrow> (\<exists>e \<in> set (codecs_of ext). kind_is kind e = Inr True
         \<and> jfind (hd (codecs_of p)) ''mimeType'' = jfind e ''mimeType''
         \<and> jfind (hd (codecs_of p)) ''payloadType'' = jfind e ''localPayloadType''))"
proof -
  obtain v f cs es where h: "jfind ext ''codecs'' = Some v" "findE (kind_is kind) (jelems v) = Inr f"
      "(case f of None \<Rightarrow> Inr [] | Some ec \<Rightarrow> send_codec ''localParameters'' ec) = Inr cs"
      "p = rtp_parameters cs es"
    using assms by (auto simp: getSendingRtpParameters_def bindE_Inr_iff jidx_Inr_iff)
  then have cs: "codecs_of p = cs" and cap: "canSend kind ext = Inr (f \<noteq> None)"
    by (auto simp: codecs_of_rtp_parameters canSend_spec)
  show ?thesis
  proof (cases f)
    case None
    with h(3) cs cap show ?thesis by simp
  next
    case (Some e)
    then have "e \<in> set (codecs_of ext)" "kind_is kind e = Inr True"
      using findE_Some [of "kind_is kind" "jelems v" e] h(1,2) by (auto simp: codecs_of_def)
    moreover have "send_codec ''localParameters'' e = Inr cs" using h(3) Some by simp
    from send_codec_shape [OF this] obtain c rest where "cs = c # rest" "length rest \<le> 1"
      "jfind c ''mimeType'' = jfind e ''mimeType''" "jfind c ''payloadType'' = jfind e ''localPayloadType''" by blast
    ultimately show ?thesis using cs cap Some by auto
  qed
qed

section \<open>RTCP feedback\<close>

definition feedback_of :: "json \<Rightarrow> json list" where
  "feedback_of c = (case jfind c ''rtcpFeedback'' of Some v \<Rightarrow> jelems v | None \<Rightarrow> [])"

definition fb_type :: "json \<Rightarrow> string \<Rightarrow> bool" where
  "fb_type fb t = (jfind fb ''type'' = Some (JString t))"

definition offers :: "json \<Rightarrow> string \<Rightarrow> bool" where
  "offers p u = (\<exists>x \<in> set (exts_of p). jfind x ''uri'' = Some (JString u))"

lemma filterE_Inr: "filterE p xs = Inr ys \<Longrightarrow> y \<in> set ys \<Longrightarrow> y \<in> set xs \<and> p y = Inr True"
  by (induction xs arbitrary: ys) (auto simp: bindE_Inr_iff split: if_splits)

lemma jread_Inr_Some: "jread j k = Inr v \<Longrightarrow> jfind j k = Some w \<Longrightarrow> v = w"
  by (simp add: jread_def)

lemma keep_fb_True: "keep_fb drops fb = Inr True \<Longrightarrow> t \<in> set drops \<Longrightarrow> \<not> fb_type fb t"
  by (auto simp: keep_fb_def bindE_Inr_iff get_string_Inr fb_type_def dest: jread_Inr_Some)

lemma drop_feedback_spec:
  assumes "drop_feedback drops c = Inr c'" "t \<in> set drops" "fb \<in> set (feedback_of c')"
  shows "\<not> fb_type fb t"
proof -
  obtain x w where x: "(case x of
        JArray xs \<Rightarrow> bindE (filterE (keep_fb drops) xs) (\<lambda>ys. Inr (JArray ys))
      | JObject m \<Rightarrow> bindE (filterE (\<lambda>p. keep_fb drops (snd p)) m) (\<lambda>m'. Inr (JObject m'))
      | JNull \<Rightarrow> Inr JNull
      | _ \<Rightarrow> Inl (JsonTypeError 305)) = Inr w" and v: "jset c ''rtcpFeedback'' w = Inr c'"
    using assms(1) unfolding drop_feedback_def bindE_Inr_iff by blast
  have "fb \<in> set (jelems w)" using assms(3) jset_Inr_find [OF v] by (simp add: feedback_of_def)
  with x have "keep_fb drops fb = Inr True"
    by (cases x) (auto simp: jelems_def bindE_Inr_iff dest: filterE_Inr)
  then show ?thesis using keep_fb_True assms(2) by blast
qed

lemma uri_is_True: "uri_is u x = Inr True \<Longrightarrow> is_object x \<Longrightarrow> jfind x ''uri'' = Some (JString u)"
  by (auto simp: uri_is_def bindE_Inr_iff get_string_Inr jread_def jref_def split: option.splits)

lemma uri_is_False: "uri_is u x = Inr False \<Longrightarrow> jfind x ''uri'' \<noteq> Some (JString u)"
  by (auto simp: uri_is_def bindE_Inr_iff get_string_Inr dest: jread_Inr_Some)

lemma send_ext_object: "send_ext kind e = Inr xs \<Longrightarrow> x \<in> set xs \<Longrightarrow> is_object x"
  by (auto simp: send_ext_def bindE_Inr_iff jobj_def split: if_splits)

lemma mapE_source: "mapE f xs = Inr ys \<Longrightarrow> y \<in> set ys \<Longrightarrow> \<exists>x \<in> set xs. f x = Inr y"
  using list_all2_source [of "\<lambda>x y. f x = Inr y"] by (auto simp: mapE_Inr_iff)

text \<open>REMB and transport-wide feedback exclude each other, and which of them is kept
  depends on the header extensions.\<close>

lemma sending_remote_feedback:
  assumes g: "getSendingRemoteRtpParameters kind ext = Inr p"
    and c: "c \<in> set (codecs_of p)" and fb: "fb \<in> set (feedback_of c)"
  shows "(fb_type fb ''transport-cc'' \<longrightarrow> offers p twcc_uri)
    \<and> (fb_type fb ''goog-remb'' \<longrightarrow> \<not> offers p twcc_uri \<and> offers p abs_send_time_uri)"
proof -
  obtain xv css es twcc where m: "mapE (send_ext kind) (jelems xv) = Inr es"
      "findE (uri_is twcc_uri) (concat es) = Inr twcc"
      and rest: "(if twcc \<noteq> None then
         bindE (mapE (drop_feedback [''goog-remb'']) (concat css)) (\<lambda>cs'. Inr (rtp_parameters cs' (concat es)))
       else
         bindE (findE (uri_is abs_send_time_uri) (concat es)) (\<lambda>abs.
         if abs \<noteq> None then
           bindE (mapE (drop_feedback [''transport-cc'']) (concat css)) (\<lambda>cs'. Inr (rtp_parameters cs' (concat es)))
         else
           bindE (mapE (drop_feedback [''transport-cc'', ''goog-remb'']) (concat css))
             (\<lambda>cs'. Inr (rtp_parameters cs' (concat es))))) = Inr p"
    using g unfolding getSendingRemoteRtpParameters_def bindE_Inr_iff Let_def by blast
  obtain drops cs' where d: "mapE (drop_feedback drops) (concat css) = Inr cs'" "p = rtp_parameters cs' (concat es)"
      "if twcc \<noteq> None then drops = [''goog-remb'']
       else \<exists>abs. findE (uri_is abs_send_time_uri) (concat es) = Inr abs
         \<and> drops = (if abs \<noteq> None then [''transport-cc''] else [''transport-cc'', ''goog-remb''])"
  proof (cases twcc)
    case None
    then obtain abs where a: "findE (uri_is abs_send_time_uri) (concat es) = Inr abs" and
      r: "(if abs \<noteq> None then
           bindE (mapE (drop_feedback [''transport-cc'']) (concat css)) (\<lambda>cs'. Inr (rtp_parameters cs' (concat es)))
         else
           bindE (mapE (drop_feedback [''transport-cc'', ''goog-remb'']) (concat css))
             (\<lambda>cs'. Inr (rtp_parameters cs' (concat es)))) = Inr p"
      using rest by (simp add: bindE_Inr_iff [of "findE _ _"]) blast
    with None that show thesis by (cases abs) (auto simp: bindE_Inr_iff)
  next
    case (Some t)
    with rest that show thesis by (auto simp: bindE_Inr_iff)
  qed
  have obj: "\<forall>x \<in> set (concat es). is_object x"
    using send_ext_object mapE_source [OF m(1)] by fastforce
  have off: "offers p u = (\<exists>x \<in> set (concat es). jfind x ''uri'' = Some (JString u))" for u
    by (simp only: offers_def d(2) codecs_of_rtp_parameters)
  have found: "findE (uri_is u) (concat es) = Inr r \<Longrightarrow> (r \<noteq> None) = offers p u" for u r
    using findE_Some [of "uri_is u" "concat es"] findE_None [of "uri_is u" "concat es"] uri_is_True uri_is_False obj
    unfolding off by (cases r) blast+
  obtain c0 where "drop_feedback drops c0 = Inr c"
    using mapE_source [OF d(1)] c d(2) by (auto simp: codecs_of_rtp_parameters)
  then have "\<not> fb_type fb t" if "t \<in> set drops" for t using drop_feedback_spec that fb by blast
  then show ?thesis using d(3) found [OF m(2)] found by (auto split: if_splits)
qed

section \<open>Reducing codecs\<close>

text \<open>The result of the match plays no part: the first codec is taken.\<close>

lemma reduceCodecs_first:
  assumes "is_object cap" "matchCodecs lib c0 cap False False = Inr (matched, c0', cap')"
    and "isRtxCodec c1 = Inr rtx"
  shows "reduceCodecs lib (JArray (c0 # c1 # cs)) (Some cap) =
    Inr (if rtx then [c0', c1] else [c0'], JArray (c0' # c1 # cs), Some cap')"
  using assms
  by (simp add: reduceCodecs_def jsize_def jnth_ref_def jnth_set_def take_codec_def)

text \<open>With a single codec the element after it is read, found to be null, and the read of
  its MIME type throws.\<close>

lemma reduceCodecs_single:
  assumes "is_object cap" "matchCodecs lib c cap False False = Inr (matched, c', cap')"
  shows "reduceCodecs lib (JArray [c]) (Some cap) = Inl (JsonTypeError 305)"
  using assms
  by (simp add: reduceCodecs_def jsize_def jnth_ref_def jnth_set_def take_codec_def isRtxCodec_def jidx_def)

section \<open>Receiving\<close>

lemma canReceive_spec:
  assumes "jwf p" "canReceive p ext = Inr (b, p')"
  shows "rtp_params_ok p'
    \<and> (b \<longleftrightarrow> (\<exists>c cs. codecs_of p' = c # cs \<and>
         (\<exists>e \<in> set (codecs_of ext). rel_option json_eq (jfind e ''remotePayloadType'') (jfind c ''payloadType'')
            \<and> contains c ''payloadType'')))"
proof -
  obtain p1 cs1 where v1: "validateRtpParameters p = Inr p1" "field_elems p1 ''codecs'' = Inr cs1"
    using assms(2) unfolding canReceive_def bindE_Inr_iff by blast
  then have "p1 = p'" using assms(2) by (cases cs1) (auto simp: canReceive_def bindE_Inr_iff)
  with v1 have v: "validateRtpParameters p = Inr p'" by simp
  then have ok: "rtp_params_ok p'" using rtp_params.sound assms(1) by blast
  obtain cs where cs: "jfind p' ''codecs'' = Some (JArray cs)" "\<forall>c \<in> set cs. codec_params_ok c"
    using ok by (auto simp: rtp_params_ok_def has_def list_all_iff split: option.splits elim!: all_of.elims)
  then have fe: "field_elems p' ''codecs'' = Inr cs" "codecs_of p' = cs"
    by (simp_all add: field_elems_def codecs_of_def)
  show ?thesis
  proof (cases cs)
    case Nil
    with assms(2) v fe ok show ?thesis by (simp add: canReceive_def)
  next
    case (Cons c rest)
    then obtain pt where pt: "jfind c ''payloadType'' = Some pt"
      using cs(2) by (auto simp: codec_params_ok_def has_def split: option.splits)
    let ?f = "\<lambda>e. bindE (jidx e ''remotePayloadType'') (\<lambda>v. Inr (json_eq v pt))"
    obtain cv r where r: "jfind ext ''codecs'' = Some cv" "findE ?f (jelems cv) = Inr r" "b = (r \<noteq> None)"
      using assms(2) v fe pt Cons
      by (auto simp: canReceive_def bindE_Inr_iff jread_Some jidx_Inr_iff)
    have "?f e = Inr True \<longleftrightarrow> rel_option json_eq (jfind e ''remotePayloadType'') (Some pt)" for e
      by (auto simp: bindE_Inr_iff jidx_Inr_iff option_rel_Some2)
    moreover have "(r \<noteq> None) = (\<exists>e \<in> set (jelems cv). ?f e = Inr True)"
    proof (cases r)
      case None
      then show ?thesis using findE_None r(2) by fastforce
    next
      case (Some e)
      with r(2) have "findE ?f (jelems cv) = Inr (Some e)" by simp
      from findE_Some [OF this] Some show ?thesis by auto
    qed
    ultimately have "(r \<noteq> None) =
        (\<exists>e \<in> set (codecs_of ext). rel_option json_eq (jfind e ''remotePayloadType'') (Some pt))"
      using r(1) by (simp add: codecs_of_def)
    then show ?thesis using ok r(3) fe Cons pt by (simp add: contains_def)
  qed
qed

section \<open>SCTP stream parameters\<close>

lemma stream_params_twice:
  assumes "validateSctpStreamParameters p = Inr p'"
  shows "validateSctpStreamParameters p' =
    Inl (LazyException ''cannot provide both maxPacketLifeTime and maxRetransmits'')"
proof -
  let ?p1 = "dput ''maxRetransmits'' is_number_integer (JUint 0) (dput ''maxPacketLifeTime'' is_number_integer (JUint 0)
      (dput ''ordered'' is_boolean (JBool True) p))"
  note simps = validateSctpStreamParameters_def Let_def steps_Inr step_simps throwIf_Inr_iff
  have o': "is_object p" "has p ''streamId'' is_number_integer"
    using assms by (simp_all add: simps del: steps.simps)
  have "\<exists>q. (q = ?p1 \<or> q = put ''ordered'' (JBool False) ?p1) \<and>
      p' = dput ''protocol'' is_string (JString []) (dput ''label'' is_string (JString []) q)"
    by (cases "has p ''ordered'' is_boolean"; cases "contains p ''maxPacketLifeTime''"; cases "contains p ''maxRetransmits''")
      (use assms o' in \<open>simp_all add: simps del: steps.simps\<close>, blast+)
  then obtain q where q: "q = ?p1 \<or> q = put ''ordered'' (JBool False) ?p1"
      and p': "p' = dput ''protocol'' is_string (JString []) (dput ''label'' is_string (JString []) q)" by blast
  have "is_object p'" "has p' ''streamId'' is_number_integer" "has p' ''ordered'' is_boolean"
    "has p' ''maxPacketLifeTime'' is_number_integer" "has p' ''maxRetransmits'' is_number_integer"
    using q o' by (auto simp: p' step_simps)
  then show ?thesis
    by (simp add: validateSctpStreamParameters_def Let_def fixed_steps has_contains)
qed

end
