(* ===== verification/OrtcProps.thy ===== *)
theory OrtcProps
  imports OrtcSend
begin

text \<open>
  The properties of validation and negotiation, each with a closed instance on concrete
  capabilities where it has a hypothesis.
\<close>

section \<open>Examples\<close>

text \<open>Two endpoints with an audio codec, a video codec and its RTX codec each, and a header
  extension, the codecs of the second in the opposite order.\<close>

definition sample_codec :: "string \<Rightarrow> nat \<Rightarrow> int \<Rightarrow> (string \<times> json) list \<Rightarrow> json" where
  "sample_codec mime pt rate params = jobj
     [(''mimeType'', JString mime), (''preferredPayloadType'', JInt (of_nat pt)),
      (''clockRate'', JInt (of_int rate)), (''parameters'', jobj params),
      (''rtcpFeedback'', JArray [jobj [(''type'', JString ''nack'')]])]"

definition sample_ext :: "string \<Rightarrow> nat \<Rightarrow> string \<Rightarrow> json" where
  "sample_ext kind n direction = jobj
     [(''kind'', JString kind), (''uri'', JString ''urn:x''), (''preferredId'', JInt (of_nat n)),
      (''direction'', JString direction)]"

definition sample_local :: json where
  "sample_local = jobj
     [(''codecs'', JArray [sample_codec ''audio/opus'' 111 48000 [],
         sample_codec ''video/VP8'' 96 90000 [], sample_codec ''video/rtx'' 97 90000 [(''apt'', JInt 96)]]),
      (''headerExtensions'', JArray [sample_ext ''video'' 3 ''sendrecv''])]"

definition sample_remote :: json where
  "sample_remote = jobj
     [(''codecs'', JArray [sample_codec ''video/vp8'' 100 90000 [],
         sample_codec ''video/rtx'' 101 90000 [(''apt'', JInt 100)], sample_codec ''audio/opus'' 109 48000 []]),
      (''headerExtensions'', JArray [sample_ext ''video'' 5 ''sendonly''])]"

definition no_h264 :: h264_lib where
  "no_h264 = \<lparr> h264_same = (\<lambda>a b. False), h264_answer = (\<lambda>a b. None) \<rparr>"

definition sample_ok :: "(json \<times> json \<times> json) res \<Rightarrow> bool" where
  "sample_ok g = (case g of Inl _ \<Rightarrow> False | Inr (ext, l', r') \<Rightarrow>
     length (codecs_of ext) = 2 \<and> length (exts_of ext) = 1)"

lemma sample_negotiation: "sample_ok (getExtendedRtpCapabilities no_h264 sample_local sample_remote)"
  by code_simp

lemma sample_wf: "jwf sample_local" "jwf sample_remote"
  by code_simp+

section \<open>Validation\<close>

text \<open>C22: whatever \<open>validateRtpCapabilities\<close> accepts it leaves well formed (every codec has a
  kind that agrees with its MIME type, a clock rate, checked parameters and complete RTCP
  feedback, every header extension its mandatory fields and defaults), and validating the
  result again changes nothing.\<close>

theorem rtp_capabilities_normalised:
  assumes "jwf caps" "validateRtpCapabilities caps = Inr caps'"
  shows "caps_ok caps' \<and> validateRtpCapabilities caps' = Inr caps'"
  using caps.sound [OF assms] caps.idempotent [OF assms] by blast

theorem rtp_capabilities_normalised_witness:
  "\<exists>caps'. validateRtpCapabilities sample_local = Inr caps' \<and> caps_ok caps'
     \<and> validateRtpCapabilities caps' = Inr caps'"
proof -
  have "is_ok (validateRtpCapabilities sample_local)" by code_simp
  then obtain caps' where "validateRtpCapabilities sample_local = Inr caps'" by (auto simp: is_ok_iff)
  then show ?thesis using rtp_capabilities_normalised [OF sample_wf(1)] by blast
qed

definition sample_params :: json where
  "sample_params = jobj
     [(''codecs'', JArray [jobj [(''mimeType'', JString ''audio/opus''), (''payloadType'', JInt 111),
         (''clockRate'', JInt 48000)]]),
      (''encodings'', JArray [jobj [(''ssrc'', JUint 7)]])]"

text \<open>C23: the same for \<open>validateRtpParameters\<close>: codecs, header extensions, encodings and
  \<open>rtcp\<close> are all present and well formed afterwards, and a second validation changes
  nothing.\<close>

theorem rtp_parameters_normalised:
  assumes "jwf params" "validateRtpParameters params = Inr params'"
  shows "rtp_params_ok params' \<and> validateRtpParameters params' = Inr params'"
  using rtp_params.sound [OF assms] rtp_params.idempotent [OF assms] by blast

theorem rtp_parameters_normalised_witness:
  "\<exists>p'. validateRtpParameters sample_params = Inr p' \<and> rtp_params_ok p' \<and> validateRtpParameters p' = Inr p'"
proof -
  have "is_ok (validateRtpParameters sample_params)" by code_simp
  then obtain p' where "validateRtpParameters sample_params = Inr p'" by (auto simp: is_ok_iff)
  moreover have "jwf sample_params" by code_simp
  ultimately show ?thesis using rtp_parameters_normalised by blast
qed

definition sample_dtls :: json where
  "sample_dtls = jobj
     [(''role'', JString ''auto''),
      (''fingerprints'', JArray [jobj [(''algorithm'', JString ''sha-256''), (''value'', JString ''AA:BB'')]])]"

text \<open>C29: the transport validators accept exactly the well-formed values, unchanged: ICE
  candidates, DTLS parameters with at least one complete fingerprint, SCTP parameters and
  capabilities, and the codec options of a producer.\<close>

theorem transport_validators_exact:
  assumes "jwf j"
  shows "(validateIceCandidates j = Inr j) = all_of ice_candidate_ok j
    \<and> (validateDtlsParameters j = Inr j) = dtls_params_ok j
    \<and> (validateSctpParameters j = Inr j) = sctp_params_ok j
    \<and> (validateSctpCapabilities j = Inr j) = sctp_caps_ok j
    \<and> (validateIceParameters j = Inr j) = ice_params_ok j
    \<and> (validateProducerCodecOptions j = Inr j) = codec_options_ok j"
  using assms
  by (simp add: ice_candidates.ok_iff_fixed dtls.ok_iff_fixed sctp_params.ok_iff_fixed
      sctp_caps.ok_iff_fixed ice_params.ok_iff_fixed codec_options.ok_iff_fixed)

theorem transport_validators_exact_witness:
  "dtls_params_ok sample_dtls \<and> validateDtlsParameters sample_dtls = Inr sample_dtls"
proof -
  have "jwf sample_dtls" "dtls_params_ok sample_dtls" by code_simp+
  then show ?thesis using transport_validators_exact by blast
qed

definition sample_stream :: json where
  "sample_stream = jobj [(''streamId'', JInt 1), (''ordered'', JBool False), (''maxRetransmits'', JInt 3)]"

text \<open>\<open>validateSctpStreamParameters\<close> is not a normaliser: it fills in both
  \<open>maxPacketLifeTime\<close> and \<open>maxRetransmits\<close>, and always rejects its own result because both are there.\<close>

theorem sctp_stream_parameters_rejected_again:
  assumes "validateSctpStreamParameters p = Inr p'"
  shows "validateSctpStreamParameters p' =
    Inl (LazyException ''cannot provide both maxPacketLifeTime and maxRetransmits'')"
  using assms by (rule stream_params_twice)

theorem sctp_stream_parameters_rejected_again_witness:
  "\<exists>p'. validateSctpStreamParameters sample_stream = Inr p' \<and> \<not> is_ok (validateSctpStreamParameters p')"
proof -
  have "is_ok (validateSctpStreamParameters sample_stream)" by code_simp
  then obtain p' where "validateSctpStreamParameters sample_stream = Inr p'" by (auto simp: is_ok_iff)
  then show ?thesis using sctp_stream_parameters_rejected_again by fastforce
qed

section \<open>Negotiation\<close>

text \<open>C19: every extended codec comes from a local and a remote codec that match (same MIME
  type up to case, equal clock rates and channels), carries their payload types, has the
  kind, clock rate and channels of the local codec, and the remote codecs appear in the
  order preferred by the remote side, without its RTX codecs. RTX payload types are only
  attached as a pair of RTX codecs whose \<open>apt\<close> values are the two payload types.\<close>

theorem extended_codecs_sound:
  assumes "jwf l" "jwf r" "getExtendedRtpCapabilities lib l r = Inr (ext, l', r')"
    and "validateRtpCapabilities l = Inr lv" "validateRtpCapabilities r = Inr rv"
  shows "\<exists>ps. list_all2 (extended_codec_ok (codecs_of lv) (codecs_of rv)) ps (codecs_of ext)
    \<and> set (map fst ps) \<subseteq> set (codecs_of lv)
    \<and> subseq (map snd ps) (filter (\<lambda>c. isRtxCodec c = Inr False) (codecs_of rv))"
  using extended_sound [OF assms(1-3)] assms(4,5) by (metis sum.inject(2))

lemma sample_negotiated:
  obtains ext l' r' lv rv where
    "getExtendedRtpCapabilities no_h264 sample_local sample_remote = Inr (ext, l', r')"
    "length (codecs_of ext) = 2" "length (exts_of ext) = 1"
    "validateRtpCapabilities sample_local = Inr lv" "validateRtpCapabilities sample_remote = Inr rv"
proof -
  obtain ext l' r' where g: "getExtendedRtpCapabilities no_h264 sample_local sample_remote = Inr (ext, l', r')"
      "length (codecs_of ext) = 2" "length (exts_of ext) = 1"
    using sample_negotiation by (auto simp: sample_ok_def split: sum.splits)
  from g(1) show thesis
    by (rule getExtended_parts [OF sample_wf]) (use that g in blast)
qed

theorem extended_codecs_sound_witness:
  "\<exists>ext l' r' lv rv ps. getExtendedRtpCapabilities no_h264 sample_local sample_remote = Inr (ext, l', r')
     \<and> length (codecs_of ext) = 2
     \<and> list_all2 (extended_codec_ok (codecs_of lv) (codecs_of rv)) ps (codecs_of ext)"
  by (rule sample_negotiated) (use extended_codecs_sound [OF sample_wf] in blast)

text \<open>C26: every extended header extension comes from a local and a remote extension of the
  same kind and URI, in the order of the remote side, with the local identifier for sending,
  the remote one for receiving, and the remote direction seen from this side.\<close>

theorem extended_extensions_sound:
  assumes "jwf l" "jwf r" "getExtendedRtpCapabilities lib l r = Inr (ext, l', r')"
    and "validateRtpCapabilities l = Inr lv" "validateRtpCapabilities r = Inr rv"
  shows "\<exists>qs. list_all2 (\<lambda>q e. ext_of (fst q) (snd q) e) qs (exts_of ext)
    \<and> set (map fst qs) \<subseteq> set (exts_of lv) \<and> subseq (map snd qs) (exts_of rv)"
  using extended_sound [OF assms(1-3)] assms(4,5) by (metis sum.inject(2))

theorem extended_extensions_sound_witness:
  "\<exists>ext l' r' qs. getExtendedRtpCapabilities no_h264 sample_local sample_remote = Inr (ext, l', r')
     \<and> length (exts_of ext) = 1 \<and> list_all2 (\<lambda>q e. ext_of (fst q) (snd q) e) qs (exts_of ext)"
  by (rule sample_negotiated) (use extended_extensions_sound [OF sample_wf] in blast)

text \<open>C20: what is negotiated can be received. When every remote codec has its payload type
  and every remote extension one of the four directions, \<open>getRecvRtpCapabilities\<close> succeeds on
  the extended capabilities and \<open>validateRtpCapabilities\<close> accepts its result.\<close>

theorem negotiated_capabilities_receivable:
  assumes "jwf l" "jwf r" "getExtendedRtpCapabilities lib l r = Inr (ext, l', r')"
    and "validateRtpCapabilities r = Inr rv"
    and "\<forall>c \<in> set (codecs_of rv). has c ''preferredPayloadType'' is_number_integer"
    and "\<forall>x \<in> set (exts_of rv). has x ''direction'' known_direction"
  shows "\<exists>caps. getRecvRtpCapabilities ext = Inr caps \<and> is_ok (validateRtpCapabilities caps)"
  using assms by (rule negotiated_receivable)

definition sample_complete :: "json res \<Rightarrow> bool" where
  "sample_complete v = (case v of Inl _ \<Rightarrow> False | Inr rv \<Rightarrow>
     (\<forall>c \<in> set (codecs_of rv). has c ''preferredPayloadType'' is_number_integer)
     \<and> (\<forall>x \<in> set (exts_of rv). has x ''direction'' known_direction))"

theorem negotiated_capabilities_receivable_witness:
  "\<exists>ext l' r' caps. getExtendedRtpCapabilities no_h264 sample_local sample_remote = Inr (ext, l', r')
     \<and> getRecvRtpCapabilities ext = Inr caps \<and> is_ok (validateRtpCapabilities caps)"
proof (rule sample_negotiated)
  fix ext l' r' lv rv
  assume g: "getExtendedRtpCapabilities no_h264 sample_local sample_remote = Inr (ext, l', r')"
    and v: "validateRtpCapabilities sample_remote = Inr rv"
  have "sample_complete (validateRtpCapabilities sample_remote)" by code_simp
  then show ?thesis
    using g v negotiated_capabilities_receivable [OF sample_wf g v] by (auto simp: sample_complete_def)
qed

definition sample_extended :: json where
  "sample_extended = jobj
     [(''codecs'', JArray [jobj
        [(''mimeType'', JString ''video/VP8''), (''kind'', JString ''video''), (''clockRate'', JInt 90000),
         (''localPayloadType'', JInt 96), (''localRtxPayloadType'', JInt 97), (''remotePayloadType'', JInt 100),
         (''remoteRtxPayloadType'', JInt 101), (''localParameters'', jobject_empty),
         (''remoteParameters'', jobject_empty),
         (''rtcpFeedback'', JArray [jobj [(''type'', JString ''transport-cc''), (''parameter'', JString [])]])]]),
      (''headerExtensions'', JArray [jobj
        [(''kind'', JString ''video''), (''uri'', JString twcc_uri), (''sendId'', JInt 3), (''recvId'', JInt 5),
         (''encrypt'', JBool False), (''direction'', JString ''sendrecv'')]])]"



text \<open>C24: in the parameters for the remote endpoint no codec offers both REMB and
  transport-wide congestion control: \<open>transport-cc\<close> only with the transport-wide extension,
  \<open>goog-remb\<close> only without it and with the absolute send time extension.\<close>

theorem congestion_feedback_exclusive:
  assumes "getSendingRemoteRtpParameters kind ext = Inr p"
    and "c \<in> set (codecs_of p)" "fb \<in> set (feedback_of c)"
  shows "(fb_type fb ''transport-cc'' \<longrightarrow> offers p twcc_uri)
    \<and> (fb_type fb ''goog-remb'' \<longrightarrow> \<not> offers p twcc_uri \<and> offers p abs_send_time_uri)"
  using assms by (rule sending_remote_feedback)

definition sample_feedback :: "json res \<Rightarrow> bool" where
  "sample_feedback r = (case r of Inl _ \<Rightarrow> False | Inr p \<Rightarrow>
     (\<exists>c \<in> set (codecs_of p). \<exists>fb \<in> set (feedback_of c). fb_type fb ''transport-cc''))"

theorem congestion_feedback_exclusive_witness:
  "\<exists>p. getSendingRemoteRtpParameters ''video'' sample_extended = Inr p \<and> offers p twcc_uri"
proof -
  have "sample_feedback (getSendingRemoteRtpParameters ''video'' sample_extended)" by code_simp
  then obtain p c fb where "getSendingRemoteRtpParameters ''video'' sample_extended = Inr p"
      "c \<in> set (codecs_of p)" "fb \<in> set (feedback_of c)" "fb_type fb ''transport-cc''"
    by (auto simp: sample_feedback_def split: sum.splits)
  then show ?thesis using congestion_feedback_exclusive by blast
qed

text \<open>C27: \<open>canReceive\<close> leaves valid parameters behind, and says yes exactly when some extended
  codec has as its remote payload type the payload type of the first codec.\<close>

theorem canReceive_first_codec:
  assumes "jwf p" "canReceive p ext = Inr (b, p')"
  shows "rtp_params_ok p'
    \<and> (b \<longleftrightarrow> (\<exists>c cs. codecs_of p' = c # cs \<and>
         (\<exists>e \<in> set (codecs_of ext). rel_option json_eq (jfind e ''remotePayloadType'') (jfind c ''payloadType'')
            \<and> contains c ''payloadType'')))"
  using assms by (rule canReceive_spec)

theorem canReceive_first_codec_witness:
  "\<exists>p'. canReceive sample_params sample_extended = Inr (False, p') \<and> rtp_params_ok p'"
proof -
  have w: "jwf sample_params" by code_simp
  have "map_sum id fst (canReceive sample_params sample_extended) = Inr False" by code_simp
  then obtain p' where "canReceive sample_params sample_extended = Inr (False, p')"
    by (cases "canReceive sample_params sample_extended") auto
  with canReceive_first_codec [OF w this] show ?thesis by blast
qed

text \<open>With a capability codec \<open>reduceCodecs\<close> returns the first codec (and the RTX codec
  after it) whatever the comparison of the two codecs says, because of the comma operator in
  its condition.\<close>

theorem reduceCodecs_ignores_match:
  assumes "is_object cap" "matchCodecs lib c0 cap False False = Inr (matched, c0', cap')"
    and "isRtxCodec c1 = Inr rtx"
  shows "reduceCodecs lib (JArray (c0 # c1 # cs)) (Some cap) =
    Inr (if rtx then [c0', c1] else [c0'], JArray (c0' # c1 # cs), Some cap')"
  using assms by (rule reduceCodecs_first)

definition sample_vp8 :: json where "sample_vp8 = sample_codec ''video/VP8'' 96 90000 []"
definition sample_opus :: json where "sample_opus = sample_codec ''audio/opus'' 111 48000 []"

theorem reduceCodecs_ignores_match_witness:
  "matchCodecs no_h264 sample_vp8 sample_opus False False = Inr (False, sample_vp8, sample_opus)
   \<and> reduceCodecs no_h264 (JArray [sample_vp8, sample_opus]) (Some sample_opus) =
       Inr ([sample_vp8], JArray [sample_vp8, sample_opus], Some sample_opus)"
proof -
  have m: "matchCodecs no_h264 sample_vp8 sample_opus False False = Inr (False, sample_vp8, sample_opus)"
    by code_simp
  have "is_object sample_opus" "isRtxCodec sample_opus = Inr False" by code_simp+
  from reduceCodecs_ignores_match [OF this(1) m this(2), of "[]"] m show ?thesis by simp
qed

text \<open>With a capability codec and a single codec \<open>reduceCodecs\<close> always throws, even when
  the codecs match: the element after the only one is inserted as null and read.\<close>

theorem reduceCodecs_single_throws:
  assumes "is_object cap" "matchCodecs lib c cap False False = Inr (matched, c', cap')"
  shows "reduceCodecs lib (JArray [c]) (Some cap) = Inl (JsonTypeError 305)"
  using assms by (rule reduceCodecs_single)

theorem reduceCodecs_single_throws_witness:
  "matchCodecs no_h264 sample_opus sample_opus False False = Inr (True, sample_opus, sample_opus)
   \<and> reduceCodecs no_h264 (JArray [sample_opus]) (Some sample_opus) = Inl (JsonTypeError 305)"
proof -
  have m: "matchCodecs no_h264 sample_opus sample_opus False False = Inr (True, sample_opus, sample_opus)"
    by code_simp
  have "is_object sample_opus" by code_simp
  from reduceCodecs_single_throws [OF this m] m show ?thesis by simp
qed

end
