(* ===== verification/SdpUtil.thy ===== *)
theory SdpUtil
  imports SdpParser
begin

text \<open>
  The helpers between SDP objects and RTP parameters (\<open>mssdk/sdputil/sdputil.cpp\<close>; the same
  functions stand in \<open>mssdk/sdputil/Utils.cpp\<close> and at the end of \<open>mssdk/json/parser.cpp\<close>):
  what the local peer connection offers is turned into RTP capabilities, DTLS parameters and
  encodings, and offers are extended for simulcast.
\<close>

section \<open>RTP capabilities of a session\<close>

text \<open>The state of the loop over the media sections: the codecs by payload type, the header
  extensions, and which kinds have been seen.\<close>

record extraction =
  codecsMap :: "(8 word \<times> json) list"
  headerExtensions :: "json list"
  gotAudio :: bool
  gotVideo :: bool

definition extract_codec :: "string \<Rightarrow> json \<Rightarrow> (8 word \<times> json) list \<Rightarrow> (8 word \<times> json) list res" where
  "extract_codec kind rtp codecs =
     bindE (jidx rtp ''codec'') (\<lambda>c. bindE (get_string c) (\<lambda>name.
     bindE (jidx rtp ''payload'') (\<lambda>payload.
     bindE (jidx rtp ''rate'') (\<lambda>rate.
     let codec = jobj
       [(''kind'', JString kind),
        (''mimeType'', JString (kind @ ''/'' @ name)),
        (''preferredPayloadType'', payload),
        (''clockRate'', rate),
        (''parameters'', jobject_empty),
        (''rtcpFeedback'', jarray_empty)]
     in bindE (if kind = ''audio'' then
                 (case jfind rtp ''encoding'' of
                    Some (JString e) \<Rightarrow> bindE (stoi e) (\<lambda>n. jset codec ''channels'' (JInt (of_int n)))
                  | _ \<Rightarrow> jset codec ''channels'' (JInt 1))
               else Inr codec) (\<lambda>codec'.
        bindE (jidx codec' ''preferredPayloadType'') (\<lambda>pt. bindE (get_uint pt) (\<lambda>key.
        Inr (aset key codec' codecs))))))))"

text \<open>\<open>codecsMap.find(fmtp["payload"])\<close> converts the payload type to \<open>uint8_t\<close>.\<close>

definition extract_fmtp :: "json \<Rightarrow> (8 word \<times> json) list \<Rightarrow> (8 word \<times> json) list res" where
  "extract_fmtp fmtp codecs =
     bindE (jidx fmtp ''config'') (\<lambda>c. bindE (get_string c) (\<lambda>config.
     bindE (parseParams config) (\<lambda>parameters.
     bindE (jidx fmtp ''payload'') (\<lambda>p. bindE (get_uint p) (\<lambda>key.
     case map_of codecs key of
       None \<Rightarrow> Inr codecs
     | Some codec \<Rightarrow>
         bindE (case jfind parameters ''profile-id'' of
                  Some (JString s) \<Rightarrow> bindE (stoi s) (\<lambda>n. jset parameters ''profile-id'' (JInt (of_int n)))
                | _ \<Rightarrow> Inr parameters) (\<lambda>parameters'.
         bindE (jset codec ''parameters'' parameters') (\<lambda>codec'. Inr (aset key codec' codecs))))))))"

text \<open>\<open>codecsMap.find(std::stoi(...))\<close> converts the \<open>int\<close> to \<open>uint8_t\<close>.\<close>

definition extract_feedback :: "json \<Rightarrow> (8 word \<times> json) list \<Rightarrow> (8 word \<times> json) list res" where
  "extract_feedback fb codecs =
     bindE (jidx fb ''payload'') (\<lambda>p. bindE (get_string p) (\<lambda>s. bindE (stoi s) (\<lambda>n.
     case map_of codecs (of_int n) of
       None \<Rightarrow> Inr codecs
     | Some codec \<Rightarrow>
         bindE (jidx fb ''type'') (\<lambda>type.
         bindE (case jfind fb ''subtype'' of
                  Some subtype \<Rightarrow> jset (jobj [(''type'', type)]) ''parameter'' subtype
                | None \<Rightarrow> Inr (jobj [(''type'', type)])) (\<lambda>feedback.
         bindE (jref codec ''rtcpFeedback'') (\<lambda>(fbs, codec1).
         bindE (jpush fbs feedback) (\<lambda>fbs'.
         bindE (jset codec1 ''rtcpFeedback'' fbs') (\<lambda>codec'.
         Inr (aset (of_int n) codec' codecs)))))))))"

definition extract_ext :: "string \<Rightarrow> json \<Rightarrow> json res" where
  "extract_ext kind ext =
     bindE (jidx ext ''uri'') (\<lambda>uri. bindE (jidx ext ''value'') (\<lambda>value.
     Inr (jobj [(''kind'', JString kind), (''uri'', uri), (''preferredId'', value)])))"

text \<open>One media section of a kind that is wanted.\<close>

definition extract_section :: "string \<Rightarrow> json \<Rightarrow> extraction \<Rightarrow> extraction res" where
  "extract_section kind m st =
     bindE (jidx m ''rtp'') (\<lambda>rtps.
     bindE (foldE (extract_codec kind) (jelems rtps) (codecsMap st)) (\<lambda>codecs1.
     bindE (jidx m ''fmtp'') (\<lambda>fmtps.
     bindE (foldE extract_fmtp (jelems fmtps) codecs1) (\<lambda>codecs2.
     bindE (jidx m ''rtcpFb'') (\<lambda>fbs.
     bindE (foldE extract_feedback (jelems fbs) codecs2) (\<lambda>codecs3.
     bindE (jidx m ''ext'') (\<lambda>exts.
     bindE (mapE (extract_ext kind) (jelems exts)) (\<lambda>hs.
     Inr (st \<lparr> codecsMap := codecs3, headerExtensions := headerExtensions st @ hs \<rparr>)))))))))"

definition extract_media :: "json \<Rightarrow> extraction \<Rightarrow> extraction res" where
  "extract_media m st =
     bindE (jidx m ''type'') (\<lambda>t. bindE (get_string t) (\<lambda>kind.
     if kind = ''audio'' then
       (if gotAudio st then Inr st else extract_section kind m (st \<lparr> gotAudio := True \<rparr>))
     else if kind = ''video'' then
       (if gotVideo st then Inr st else extract_section kind m (st \<lparr> gotVideo := True \<rparr>))
     else Inr st))"

definition extraction_init :: extraction where
  "extraction_init =
     \<lparr> codecsMap = [], headerExtensions = [], gotAudio = False, gotVideo = False \<rparr>"

definition extractRtpCapabilities :: "json \<Rightarrow> json res" where
  "extractRtpCapabilities sdpObject =
     bindE (jidx sdpObject ''media'') (\<lambda>media.
     bindE (foldE extract_media (jelems media) extraction_init) (\<lambda>st.
     Inr (jobj [(''headerExtensions'', JArray (headerExtensions st)),
                (''codecs'', JArray (map snd (codecsMap st))),
                (''fecMechanisms'', jarray_empty)])))"

section \<open>DTLS parameters\<close>

text \<open>\<open>findE\<close> stops at the first section with ICE credentials and a port.\<close>

definition dtls_section :: "json \<Rightarrow> bool res" where
  "dtls_section media =
     (if jfind media ''iceUfrag'' = None then Inr False
      else bindE (jidx media ''port'') (\<lambda>port. Inr (\<not> json_eq port (JInt 0))))"

definition dtls_role_of :: "string \<Rightarrow> string" where
  "dtls_role_of setup =
     (if setup = ''active'' then ''client'' else if setup = ''passive'' then ''server''
      else if setup = ''actpass'' then ''auto'' else [])"

definition extractDtlsParameters :: "json \<Rightarrow> json res" where
  "extractDtlsParameters sdpObject =
     bindE (jidx sdpObject ''media'') (\<lambda>media.
     bindE (findE dtls_section (jelems media)) (\<lambda>found.
     let m = (case found of None \<Rightarrow> JNull | Some x \<Rightarrow> x);
         fingerprint = (case jfind m ''fingerprint'' of Some f \<Rightarrow> f
           | None \<Rightarrow> (case jfind sdpObject ''fingerprint'' of Some f \<Rightarrow> f | None \<Rightarrow> JNull))
     in bindE (case jfind m ''setup'' of
                 None \<Rightarrow> Inr []
               | Some s \<Rightarrow> bindE (get_string s) (\<lambda>setup. Inr (dtls_role_of setup))) (\<lambda>role.
        bindE (jref fingerprint ''type'') (\<lambda>(algorithm, fp).
        bindE (jref fp ''hash'') (\<lambda>(value, _).
        Inr (jobj [(''role'', JString role),
                   (''fingerprints'', JArray [jobj [(''algorithm'', algorithm), (''value'', value)]])]))))))"

definition getRemoteDtlsRoleFromSDP :: "string \<Rightarrow> json \<Rightarrow> string res" where
  "getRemoteDtlsRoleFromSDP localDtlsRole sdpobj =
     bindE (extractDtlsParameters sdpobj) (\<lambda>_.
     Inr (if localDtlsRole = ''client'' then ''server'' else ''client''))"

end
