(* ===== verification/SdpOffer.thy ===== *)
theory SdpOffer
  imports SdpUtil Checks
begin

text \<open>
  The SSRCs of an offer and the parameters of its codecs (\<open>mssdk/sdputil/sdputil.cpp\<close>):
  legacy simulcast, the CNAME, the encodings, and the codec parameters of an answer.
\<close>

section \<open>SSRC lines\<close>

text \<open>\<open>auto v = split(s, ' ')\<close> followed by \<open>v[0]\<close> and \<open>v[1]\<close>, which must exist.\<close>

definition two_words :: "string \<Rightarrow> (string \<times> string) res" where
  "two_words s = (case split s (CHR '' '') of
     [] \<Rightarrow> Inl (Undefined ''v[0]'') | [_] \<Rightarrow> Inl (Undefined ''v[1]'') | a # b # _ \<Rightarrow> Inr (a, b))"

fun attribute_is :: "string \<Rightarrow> json \<Rightarrow> bool" where
  "attribute_is a line = (jfind line ''attribute'' = Some (JString a))"

definition cname_line :: "json \<Rightarrow> bool" where
  "cname_line line = (has line ''attribute'' is_string \<and> has line ''id'' is_number
     \<and> attribute_is ''cname'' line)"

text \<open>The search for the SSRC of the retransmissions: the semantics of a group is not
  looked at, only that it is there.\<close>

fun rtx_ssrc :: "32 word \<Rightarrow> json list \<Rightarrow> 32 word res" where
  "rtx_ssrc first [] = Inr 0"
| "rtx_ssrc first (line # lines) =
     (case (jfind line ''semantics'', jfind line ''ssrcs'') of
        (Some (JString _), Some (JString s)) \<Rightarrow>
          (case split s (CHR '' '') of
             [] \<Rightarrow> Inl (Undefined ''v[0]'')
           | v0 # vs \<Rightarrow>
               bindE (stoull v0) (\<lambda>n.
               if n = ucast first then
                 (case vs of
                    [] \<Rightarrow> Inl (Undefined ''v[1]'')
                  | v1 # _ \<Rightarrow> bindE (stoull v1) (\<lambda>r. Inr (ucast r)))
               else rtx_ssrc first lines))
      | _ \<Rightarrow> rtx_ssrc first lines)"

definition ssrc_line :: "32 word \<Rightarrow> string \<Rightarrow> string \<Rightarrow> json" where
  "ssrc_line ssrc attribute value =
     jobj [(''id'', JUint (ucast ssrc)), (''attribute'', JString attribute), (''value'', JString value)]"

definition ssrc_lines :: "string \<Rightarrow> string \<Rightarrow> 32 word \<Rightarrow> json list" where
  "ssrc_lines cname msid ssrc = [ssrc_line ssrc ''cname'' cname, ssrc_line ssrc ''msid'' msid]"

definition ssrc_group :: "string \<Rightarrow> 32 word list \<Rightarrow> json" where
  "ssrc_group semantics ssrcs =
     jobj [(''semantics'', JString semantics),
           (''ssrcs'', JString (join (map (\<lambda>w. nat_str (unat w)) ssrcs) (CHR '' '')))]"

text \<open>\<open>firstSsrc + i\<close> for the streams, in 32 bits.\<close>

definition stream_ssrcs :: "32 word \<Rightarrow> 8 word \<Rightarrow> 32 word list" where
  "stream_ssrcs first numStreams = map (\<lambda>i. first + of_nat i) [0..<unat numStreams]"

text \<open>What is read off the offer: the \<open>msid\<close>, the first SSRC, the first SSRC of the
  retransmissions (0 without them) and the CNAME.\<close>

definition simulcast_source :: "json \<Rightarrow> json \<Rightarrow> (string \<times> 32 word \<times> 32 word \<times> string) res" where
  "simulcast_source offer mSsrcs =
     (case find (attribute_is ''msid'') (jelems mSsrcs) of
        None \<Rightarrow> Inl (LazyException ''a=ssrc line with msid information not found'')
      | Some msidLine \<Rightarrow>
          bindE (jref msidLine ''value'') (\<lambda>(value, _). bindE (get_string value) (\<lambda>v.
          bindE (two_words v) (\<lambda>(streamId, trackId).
          bindE (jref msidLine ''id'') (\<lambda>(ident, _). bindE (get_uint ident) (\<lambda>firstSsrc.
          bindE (case jfind offer ''ssrcGroups'' of
                   None \<Rightarrow> Inr 0
                 | Some gs \<Rightarrow> rtx_ssrc firstSsrc (jelems gs)) (\<lambda>firstRtxSsrc.
          case find cname_line (jelems mSsrcs) of
            None \<Rightarrow> Inl (LazyException ''CNAME line not found'')
          | Some cnameLine \<Rightarrow>
              bindE (jref cnameLine ''value'') (\<lambda>(c, _). bindE (get_string c) (\<lambda>cname.
              Inr (streamId @ '' '' @ trackId, firstSsrc, firstRtxSsrc, cname))))))))))"

text \<open>What is written into it for the SSRCs of the streams and of their retransmissions.\<close>

definition simulcast_fields :: "string \<Rightarrow> string \<Rightarrow> 32 word list \<Rightarrow> 32 word list \<Rightarrow> (string \<times> json) list" where
  "simulcast_fields cname msid ssrcs rtxSsrcs =
     [(''ssrcGroups'', JArray (ssrc_group ''SIM'' ssrcs
         # map (\<lambda>(s, r). ssrc_group ''FID'' [s, r]) (zip ssrcs rtxSsrcs))),
      (''ssrcs'', JArray (concat (map (ssrc_lines cname msid) ssrcs)
         @ concat (map (ssrc_lines cname msid) rtxSsrcs)))]"

definition addLegacySimulcast :: "json \<Rightarrow> 8 word \<Rightarrow> json res" where
  "addLegacySimulcast offer numStreams =
     (if numStreams \<le> 1 then Inr offer
      else
        bindE (jref offer ''ssrcs'') (\<lambda>(mSsrcs, offer1).
        bindE (simulcast_source offer1 mSsrcs) (\<lambda>(msid, firstSsrc, firstRtxSsrc, cname).
        let ssrcs = stream_ssrcs firstSsrc numStreams;
            rtxSsrcs = (if firstRtxSsrc \<noteq> 0 then stream_ssrcs firstRtxSsrc numStreams else [])
        in foldE (\<lambda>(k, v) j. jset j k v) (simulcast_fields cname msid ssrcs rtxSsrcs) offer1)))"

text \<open>\<open>getCname\<close>: the value of the first line that has an attribute, whichever it is.\<close>

definition getCname :: "json \<Rightarrow> string res" where
  "getCname offer =
     (case jfind offer ''ssrcs'' of
        None \<Rightarrow> Inr []
      | Some mSsrcs \<Rightarrow>
          (case find (\<lambda>line. has line ''attribute'' is_string) (jelems mSsrcs) of
             None \<Rightarrow> Inr []
           | Some line \<Rightarrow> bindE (jidx line ''value'') get_string))"

section \<open>Encodings\<close>

text \<open>The SSRCs left and the SSRC of the retransmissions of each.\<close>

type_synonym ssrc_state = "32 word list \<times> (32 word \<times> 32 word) list"

definition fid_group :: "json \<Rightarrow> ssrc_state \<Rightarrow> ssrc_state res" where
  "fid_group line = (\<lambda>(ssrcs, rtx).
     bindE (jidx line ''semantics'') (\<lambda>s. bindE (get_string s) (\<lambda>semantics.
     if semantics \<noteq> ''FID'' then Inr (ssrcs, rtx)
     else
       bindE (jidx line ''ssrcs'') (\<lambda>f. bindE (get_string f) (\<lambda>fidLine.
       case split fidLine (CHR '' '') of
         [] \<Rightarrow> Inl (Undefined ''v[0]'')
       | v0 # vs \<Rightarrow>
           bindE (stoull v0) (\<lambda>ssrc.
           case vs of
             [] \<Rightarrow> Inl (Undefined ''v[1]'')
           | v1 # _ \<Rightarrow>
               bindE (stoull v1) (\<lambda>rtxSsrc.
               Inr (filter (\<lambda>x. x \<noteq> ucast rtxSsrc) ssrcs, aset (ucast ssrc) (ucast rtxSsrc) rtx))))))))"

definition encoding_of :: "(32 word \<times> 32 word) list \<Rightarrow> 32 word \<Rightarrow> json" where
  "encoding_of rtx ssrc =
     (case map_of rtx ssrc of
        None \<Rightarrow> jobj [(''ssrc'', JUint (ucast ssrc))]
      | Some r \<Rightarrow> jobj [(''ssrc'', JUint (ucast ssrc)), (''rtx'', jobj [(''ssrc'', JUint (ucast r))])])"

definition getRtpEncodings :: "json \<Rightarrow> json res" where
  "getRtpEncodings offer =
     bindE (jidx offer ''ssrcs'') (\<lambda>lines.
     bindE (mapE (\<lambda>line. bindE (jidx line ''id'') get_uint) (jelems lines)) (\<lambda>ssrcs.
     if ssrcs = [] then Inl (LazyException ''no a=ssrc lines found'')
     else
       bindE (case jfind offer ''ssrcGroups'' of
                None \<Rightarrow> Inr (remdups_adj ssrcs, [])
              | Some gs \<Rightarrow> foldE fid_group (jelems gs) (remdups_adj ssrcs, [])) (\<lambda>(ssrcs', rtx).
       Inr (JArray (map (encoding_of rtx) ssrcs')))))"

section \<open>Codec parameters\<close>

text \<open>\<open>items()\<close>: the entries of an object, the elements of an array under their indices, any
  other value but null under the empty key.\<close>

definition jitems :: "json \<Rightarrow> (string \<times> json) list" where
  "jitems j = (case j of JObject m \<Rightarrow> m | JArray xs \<Rightarrow> zip (map nat_str [0..<length xs]) xs
     | JNull \<Rightarrow> [] | _ \<Rightarrow> [([], j)])"

text \<open>The text of one parameter; \<open>int_text\<close> is how the caller converts an integer. A value that
  is no string and no number gives nothing after the equals sign.\<close>

definition config_value :: "(json \<Rightarrow> string res) \<Rightarrow> json \<Rightarrow> string res" where
  "config_value int_text v = (case v of
     JString s \<Rightarrow> Inr s
   | JFloat d \<Rightarrow> Inr (ostream_float d)
   | JInt _ \<Rightarrow> int_text v
   | JUint _ \<Rightarrow> int_text v
   | _ \<Rightarrow> Inr [])"

definition config_item :: "(json \<Rightarrow> string res) \<Rightarrow> string \<times> json \<Rightarrow> string \<Rightarrow> string res" where
  "config_item int_text = (\<lambda>(key, v) config.
     bindE (config_value int_text v) (\<lambda>t.
     Inr ((if config = [] then [] else config @ '';'') @ key @ ''='' @ t)))"

definition config_text :: "(json \<Rightarrow> string res) \<Rightarrow> json \<Rightarrow> string res" where
  "config_text int_text parameters = foldE (config_item int_text) (jitems parameters) []"

definition int_text32 :: "json \<Rightarrow> string res" where
  "int_text32 v = bindE (get_int32 v) (\<lambda>w. Inr (int_str (sint w)))"

definition int_text64 :: "json \<Rightarrow> string res" where
  "int_text64 v = bindE (get_int64 v) (\<lambda>w. Inr (int_str (sint w)))"

text \<open>The element \<open>i\<close> that a search over \<open>j\<close> has found, overwritten.\<close>

definition jput_elem :: "json \<Rightarrow> nat \<Rightarrow> json \<Rightarrow> json" where
  "jput_elem j i v = (case j of
     JArray xs \<Rightarrow> JArray (xs[i := v])
   | JObject m \<Rightarrow> JObject (m[i := (fst (m ! i), v)])
   | _ \<Rightarrow> v)"

definition same_payload :: "json \<Rightarrow> json \<Rightarrow> bool res" where
  "same_payload codec r =
     bindE (jidx r ''payload'') (\<lambda>p. bindE (jidx codec ''payloadType'') (\<lambda>pt. Inr (json_eq p pt)))"

text \<open>\<open>sprop-stereo\<close> of the offer as \<open>stereo\<close> of the answer, when it is a boolean.\<close>

definition apply_stereo :: "json \<Rightarrow> json \<Rightarrow> json res" where
  "apply_stereo codec parameters =
     bindE (jidx codec ''parameters'') (\<lambda>ps. case jfind ps ''sprop-stereo'' of
       Some (JBool b) \<Rightarrow> jset parameters ''stereo'' (JInt (if b then 1 else 0))
     | _ \<Rightarrow> Inr parameters)"

definition apply_fmtp :: "json \<Rightarrow> json \<Rightarrow> json res" where
  "apply_fmtp codec fmtp =
     bindE (jref fmtp ''config'') (\<lambda>(c, fmtp1). bindE (get_string c) (\<lambda>old.
     bindE (parseParams old) (\<lambda>parameters.
     bindE (apply_stereo codec parameters) (\<lambda>parameters'.
     bindE (config_text int_text32 parameters') (\<lambda>config.
     jset fmtp1 ''config'' (JString config))))))"

text \<open>One codec of the loop: the \<open>fmtp\<close> line of its payload type, appended when there is none.\<close>

definition apply_codec :: "json \<Rightarrow> json \<Rightarrow> json res" where
  "apply_codec codec answer =
     bindE (jidx codec ''mimeType'') (\<lambda>m. bindE (get_string m) (\<lambda>mime.
     if lower mime \<noteq> ''audio/opus'' then Inr answer
     else
       bindE (jref answer ''rtp'') (\<lambda>(rtps, answer1).
       bindE (find_index (same_payload codec) (jelems rtps)) (\<lambda>ri.
       case ri of
         None \<Rightarrow> Inr answer1
       | Some _ \<Rightarrow>
           bindE (jdefault ''fmtp'' jarray_empty answer1) (\<lambda>answer2.
           bindE (jref answer2 ''fmtp'') (\<lambda>(fmtps, _).
           bindE (find_index (same_payload codec) (jelems fmtps)) (\<lambda>fi.
           bindE (case fi of
                    Some i \<Rightarrow> Inr (fmtps, i)
                  | None \<Rightarrow>
                      bindE (jidx codec ''payloadType'') (\<lambda>pt.
                      bindE (jpush fmtps (jobj [(''payload'', pt), (''config'', JString [])])) (\<lambda>fmtps'.
                      Inr (fmtps', jsize fmtps' - 1)))) (\<lambda>(fmtps', i).
           bindE (apply_fmtp codec (jelems fmtps' ! i)) (\<lambda>fmtp'.
           jset answer2 ''fmtp'' (jput_elem fmtps' i fmtp'))))))))))"

definition applyCodecParameters :: "json \<Rightarrow> json \<Rightarrow> json res" where
  "applyCodecParameters offerRtpParameters answer =
     bindE (jidx offerRtpParameters ''codecs'') (\<lambda>codecs.
     foldE apply_codec (jelems codecs) answer)"

section \<open>Scalability modes\<close>

definition ScalabilityModeRegex :: pattern where
  "ScalabilityModeRegex = regex ''^[LS]([1-9]`d{0,1})T([1-9]`d{0,1}).*''"

text \<open>An exception of \<open>std::stoul\<close> leaves what has been set so far.\<close>

definition parseScalabilityMode :: "string \<Rightarrow> json" where
  "parseScalabilityMode scalabilityMode =
     (let layers = (\<lambda>s t. jobj [(''spatialLayers'', s), (''temporalLayers'', t)])
      in case regex_match ScalabilityModeRegex scalabilityMode of
           None \<Rightarrow> layers (JInt 1) (JInt 1)
         | Some m \<Rightarrow>
             (case stoul (mgroup m 1) of
                Inl _ \<Rightarrow> layers (JInt 1) (JInt 1)
              | Inr s \<Rightarrow>
                  (case stoul (mgroup m 2) of
                     Inl _ \<Rightarrow> layers (JUint (ucast s)) (JInt 1)
                   | Inr t \<Rightarrow> layers (JUint (ucast s)) (JUint (ucast t)))))"

end
