(* ===== verification/OfferFacts.thy ===== *)
theory OfferFacts
  imports SdpOffer
begin

text \<open>
  Simulcast and encodings: what \<open>addLegacySimulcast\<close> writes, read back by
  \<open>getRtpEncodings\<close> and \<open>getCname\<close>.
\<close>

section \<open>Lists of SSRCs\<close>

lemma remdups_adj_double: "distinct xs \<Longrightarrow> remdups_adj (concat (map (\<lambda>x. [x, x]) xs)) = xs"
proof (induction xs)
  case (Cons x xs)
  then show ?case by (cases xs) auto
qed simp

lemma distinct_stream_ssrcs: "distinct (stream_ssrcs first n)"
proof -
  have "inj_on (\<lambda>i. first + of_nat i :: 32 word) {0..<unat n}"
  proof (rule inj_onI)
    fix i j
    assume ij: "i \<in> {0..<unat n}" "j \<in> {0..<unat n}" "first + of_nat i = (first + of_nat j :: 32 word)"
    have "unat n < 2 ^ LENGTH(8)" by (rule unsigned_less)
    then have "i < 2 ^ LENGTH(32)" "j < 2 ^ LENGTH(32)" using ij(1,2) by simp_all
    moreover have "(of_nat i :: 32 word) = of_nat j" using ij(3) by simp
    ultimately show "i = j" by (simp add: of_nat_eq_iff word_of_nat_eq_iff take_bit_nat_eq_self)
  qed
  then show ?thesis by (simp add: stream_ssrcs_def distinct_map)
qed

lemma length_stream_ssrcs [simp]: "length (stream_ssrcs first n) = unat n"
  by (simp add: stream_ssrcs_def)

section \<open>Reading lines and groups\<close>

lemma nat_str_no_blank: "CHR '' '' \<notin> set (nat_str n)"
  using nat_str_digits [of n] by (auto simp: list_all_iff is_digit_def less_eq_char_def)

lemma split_group:
  "split (nat_str a @ CHR '' '' # nat_str b) (CHR '' '') = [nat_str a, nat_str b]"
  using split_join [of "[nat_str a, nat_str b]" "CHR '' ''"] by (simp add: nat_str_no_blank)

lemma ssrc_ids:
  "mapE (\<lambda>line. bindE (jidx line ''id'') get_uint) (concat (map (ssrc_lines cname msid) ssrcs)) =
     Inr (concat (map (\<lambda>x. [x, x]) ssrcs))"
  by (induction ssrcs)
     (simp_all add: ssrc_lines_def ssrc_line_def jobj_def)

text \<open>The \<open>SIM\<close> group changes nothing; a \<open>FID\<close> group takes the second SSRC out and records
  the pair.\<close>

lemma fid_group_SIM: "fid_group (ssrc_group ''SIM'' ws) st = Inr st"
  by (cases st) (simp add: fid_group_def ssrc_group_def jobj_def)

lemma fid_group_FID:
  "fid_group (ssrc_group ''FID'' [a, b]) (xs, rtx) = Inr (filter (\<lambda>x. x \<noteq> b) xs, aset a b rtx)"
  by (simp add: fid_group_def ssrc_group_def jobj_def split_group stoull_ssrc)

lemma fid_groups:
  "\<exists>rtx'. foldE fid_group (map (\<lambda>(a, b). ssrc_group ''FID'' [a, b]) ps) (xs, rtx) =
       Inr (filter (\<lambda>x. x \<notin> snd ` set ps) xs, rtx') \<and> map_of rtx' = map_of rtx ++ map_of (rev ps)"
proof (induction ps arbitrary: xs rtx)
  case (Cons p ps)
  obtain a b where p: "p = (a, b)" by (cases p)
  from Cons.IH [of "filter (\<lambda>x. x \<noteq> b) xs" "aset a b rtx"] show ?case
    by (auto simp: p fid_group_FID map_of_aset fun_eq_iff map_add_def conj_commute split: option.split cong: filter_cong)
qed simp

section \<open>The whole offer\<close>

lemma simulcast_written:
  assumes "1 < n" "addLegacySimulcast offer n = Inr offer'" "jfind offer ''ssrcs'' = Some lines"
    and "simulcast_source offer lines = Inr (msid, first, rtx, cname)"
  defines "ss \<equiv> stream_ssrcs first n" and "rs \<equiv> if rtx \<noteq> 0 then stream_ssrcs rtx n else []"
  shows "jfind offer' ''ssrcs'' = Some (JArray (concat (map (ssrc_lines cname msid) (ss @ rs))))"
    and "jfind offer' ''ssrcGroups'' = Some (JArray (ssrc_group ''SIM'' ss
           # map (\<lambda>(s, r). ssrc_group ''FID'' [s, r]) (zip ss rs)))"
proof -
  have "is_object offer" using assms(3) by (rule jfind_Some_object)
  then obtain m where m: "offer = JObject m" by (auto simp: is_object_iff)
  have "offer' = JObject (foldl (\<lambda>m (k, v). aset k v m) m (simulcast_fields cname msid ss rs))"
    using assms(1-4) by (simp add: addLegacySimulcast_def m simulcast_fields_def ss_def rs_def Let_def split: if_splits)
  then show "jfind offer' ''ssrcs'' = Some (JArray (concat (map (ssrc_lines cname msid) (ss @ rs))))"
    "jfind offer' ''ssrcGroups'' = Some (JArray (ssrc_group ''SIM'' ss
           # map (\<lambda>(s, r). ssrc_group ''FID'' [s, r]) (zip ss rs)))"
    by (simp_all add: simulcast_fields_def map_of_aset)
qed

lemma first_cname:
  "xs \<noteq> [] \<Longrightarrow> find (\<lambda>line. has line ''attribute'' is_string) (concat (map (ssrc_lines cname msid) xs)) =
     Some (ssrc_line (hd xs) ''cname'' cname)"
  by (cases xs) (simp_all add: ssrc_lines_def ssrc_line_def has_def jobj_def)

lemma encodings_zip:
  assumes "distinct ss" "length rs = length ss" "map_of rtx = map_of (zip ss rs)"
  shows "map (encoding_of rtx) ss = map (\<lambda>(s, r). jobj [(''ssrc'', JUint (ucast s)),
           (''rtx'', jobj [(''ssrc'', JUint (ucast r))])]) (zip ss rs)"
proof (rule nth_equalityI)
  fix i assume "i < length (map (encoding_of rtx) ss)"
  then show "map (encoding_of rtx) ss ! i = map (\<lambda>(s, r). jobj [(''ssrc'', JUint (ucast s)),
           (''rtx'', jobj [(''ssrc'', JUint (ucast r))])]) (zip ss rs) ! i"
    using assms by (simp add: encoding_of_def map_of_zip_nth)
qed (simp add: assms)

lemma distinct_map_of_rev: "distinct (map fst ps) \<Longrightarrow> map_of (rev ps) = map_of ps"
proof (rule ext)
  fix k
  assume d: "distinct (map fst ps)"
  show "map_of (rev ps) k = map_of ps k"
  proof (cases "map_of ps k")
    case None
    then have "map_of (rev ps) k = None" unfolding map_of_eq_None_iff by simp
    with None show ?thesis by simp
  next
    case (Some v)
    then have "(k, v) \<in> set (rev ps)" using map_of_SomeD by fastforce
    with d Some show ?thesis by (simp add: map_of_is_SomeI rev_map [symmetric])
  qed
qed

lemma encodings_of_streams:
  assumes l: "jfind j ''ssrcs'' = Some (JArray (concat (map (ssrc_lines cname msid) (ss @ rs))))"
    and g: "jfind j ''ssrcGroups'' = Some (JArray (ssrc_group ''SIM'' ss
           # map (\<lambda>(s, r). ssrc_group ''FID'' [s, r]) (zip ss rs)))"
    and ss: "ss \<noteq> []" "distinct (ss @ rs)" and rs: "rs = [] \<or> length rs = length ss"
  obtains rtx where "getRtpEncodings j = Inr (JArray (map (encoding_of rtx) ss))"
    "map_of rtx = map_of (zip ss rs)"
proof -
  have "distinct (map fst (zip ss rs))" using ss(2) rs by auto
  moreover have "filter (\<lambda>x. x \<notin> snd ` set (zip ss rs)) (ss @ rs) = ss"
  proof -
    have "snd ` set (zip ss rs) = set rs" using rs by (force simp: in_set_zip in_set_conv_nth image_iff)
    then show ?thesis using ss(2) by (auto simp: filter_id_conv filter_empty_conv)
  qed
  ultimately obtain rtx where rtx:
    "foldE fid_group (map (\<lambda>(a, b). ssrc_group ''FID'' [a, b]) (zip ss rs)) (ss @ rs, []) = Inr (ss, rtx)"
    "map_of rtx = map_of (zip ss rs)"
    using fid_groups [of "zip ss rs" "ss @ rs" "[]"] by (auto simp: distinct_map_of_rev)
  have ids: "mapE (\<lambda>line. bindE (jidx line ''id'') get_uint) (concat (map (ssrc_lines cname msid) (ss @ rs))) =
       Inr (concat (map (\<lambda>x. [x, x]) (ss @ rs)))"
    by (rule ssrc_ids)
  have "jidx j ''ssrcs'' = Inr (JArray (concat (map (ssrc_lines cname msid) (ss @ rs))))"
    using l by (simp add: jidx_Inr_iff)
  moreover have "concat (map (\<lambda>x. [x, x]) (ss @ rs)) \<noteq> []" using ss(1) by (cases ss) simp_all
  ultimately have "getRtpEncodings j = Inr (JArray (map (encoding_of rtx) ss))"
    using remdups_adj_double [OF ss(2)]
    by (simp del: map_append concat_append add: getRtpEncodings_def ids g fid_group_SIM rtx(1))
  from this rtx(2) show thesis by (rule that)
qed

end
