(* ===== verification/OfferProps.thy ===== *)
theory OfferProps
  imports OfferFacts
begin

text \<open>
  The properties of the functions that write and read the SSRCs of an offer.
\<close>

section \<open>Legacy simulcast\<close>

text \<open>C32: Simulcast reads back. When \<open>addLegacySimulcast\<close> has split an offer into more than one
  stream, and the SSRCs of the streams and of their retransmissions do not overlap,
  \<open>getRtpEncodings\<close> of the new offer gives exactly one encoding for each stream: the SSRCs count up
  from the SSRC of the old offer, each paired with the SSRC at the same position counting up from
  the retransmission SSRC, or without retransmission when the old offer has none. \<open>getCname\<close> gives
  the CNAME of the old offer.\<close>

theorem simulcast_encodings:
  assumes n: "1 < n" and add: "addLegacySimulcast offer n = Inr offer'"
    and src: "jfind offer ''ssrcs'' = Some lines"
      "simulcast_source offer lines = Inr (msid, first, rtx, cname)"
    and disjoint: "rtx \<noteq> 0 \<Longrightarrow> set (stream_ssrcs first n) \<inter> set (stream_ssrcs rtx n) = {}"
  shows "getCname offer' = Inr cname \<and>
         getRtpEncodings offer' = Inr (JArray (if rtx = 0
           then map (\<lambda>i. jobj [(''ssrc'', JUint (ucast (first + of_nat i)))]) [0..<unat n]
           else map (\<lambda>i. jobj [(''ssrc'', JUint (ucast (first + of_nat i))),
                  (''rtx'', jobj [(''ssrc'', JUint (ucast (rtx + of_nat i)))])]) [0..<unat n]))"
proof (intro conjI)
  let ?ss = "stream_ssrcs first n" and ?rs = "if rtx \<noteq> 0 then stream_ssrcs rtx n else []"
  note w = simulcast_written [OF n add src]
  have "1 < unat n" using n by (simp add: word_less_nat_alt)
  then have ne: "?ss \<noteq> []" by (simp add: stream_ssrcs_def)
  then show "getCname offer' = Inr cname"
    by (simp del: map_append add: getCname_def w(1) first_cname) (simp add: ssrc_line_def jobj_def)
  have "distinct (?ss @ ?rs)" using disjoint by (simp add: distinct_stream_ssrcs)
  moreover have len: "?rs = [] \<or> length ?rs = length ?ss" by simp
  ultimately obtain m where m: "getRtpEncodings offer' = Inr (JArray (map (encoding_of m) ?ss))"
    "map_of m = map_of (zip ?ss ?rs)"
    using encodings_of_streams [OF w ne] by blast
  show "getRtpEncodings offer' = Inr (JArray (if rtx = 0
           then map (\<lambda>i. jobj [(''ssrc'', JUint (ucast (first + of_nat i)))]) [0..<unat n]
           else map (\<lambda>i. jobj [(''ssrc'', JUint (ucast (first + of_nat i))),
                  (''rtx'', jobj [(''ssrc'', JUint (ucast (rtx + of_nat i)))])]) [0..<unat n]))"
  proof (cases "rtx = 0")
    case True
    then show ?thesis using m by (simp add: encoding_of_def stream_ssrcs_def)
  next
    case False
    then have "map (encoding_of m) ?ss = map (\<lambda>(s, r). jobj [(''ssrc'', JUint (ucast s)),
           (''rtx'', jobj [(''ssrc'', JUint (ucast r))])]) (zip ?ss (stream_ssrcs rtx n))"
      using encodings_zip [OF distinct_stream_ssrcs [of first n], of "stream_ssrcs rtx n" m] m(2) by simp
    then show ?thesis using False m(1) by (simp add: stream_ssrcs_def zip_map_map zip_same_conv_map)
  qed
qed

definition sample_offer :: json where
  "sample_offer = jobj
     [(''ssrcs'', JArray [ssrc_line 10 ''cname'' ''c'', ssrc_line 10 ''msid'' ''s t'']),
      (''ssrcGroups'', JArray [ssrc_group ''FID'' [10, 20]])]"

lemma sample_find: "jfind sample_offer ''ssrcs'' =
    Some (JArray [ssrc_line 10 ''cname'' ''c'', ssrc_line 10 ''msid'' ''s t''])"
  by code_simp

lemma sample_source: "simulcast_source sample_offer
    (JArray [ssrc_line 10 ''cname'' ''c'', ssrc_line 10 ''msid'' ''s t'']) = Inr (''s t'', 10, 20, ''c'')"
  by code_simp

theorem simulcast_encodings_witness:
  "\<exists>offer'. addLegacySimulcast sample_offer 2 = Inr offer' \<and> getCname offer' = Inr ''c'' \<and>
     getRtpEncodings offer' = Inr (JArray
       [jobj [(''ssrc'', JUint 10), (''rtx'', jobj [(''ssrc'', JUint 20)])],
        jobj [(''ssrc'', JUint 11), (''rtx'', jobj [(''ssrc'', JUint 21)])]])"
proof -
  have "is_ok (addLegacySimulcast sample_offer 2)" by code_simp
  then obtain offer' where o: "addLegacySimulcast sample_offer 2 = Inr offer'" by (auto simp: is_ok_iff)
  have "[0..<unat (2 :: 8 word)] = [0, 1]" by code_simp
  moreover have "set (stream_ssrcs 10 2) \<inter> set (stream_ssrcs 20 2) = {}" by code_simp
  ultimately show ?thesis
    using simulcast_encodings [OF _ o sample_find sample_source] o by simp
qed

end
