(* ===== verification/MediaSection.thy ===== *)
theory MediaSection
  imports SdpOffer OrtcNegotiate
begin

text \<open>
  The media sections of the remote description (\<open>mssdk/sdputil/MediaSection.cpp\<close>): the JSON
  object of a section, built from the transport parameters and the RTP parameters, either as
  the answer to a local offer or as an offer of the remote side.
\<close>

section \<open>Building objects\<close>

text \<open>Consecutive assignments \<open>j[k] = v\<close>, and \<open>j[k].push_back(v)\<close>.\<close>

definition jputs :: "(string \<times> json) list \<Rightarrow> json \<Rightarrow> json res" where
  "jputs ps j = foldE (\<lambda>(k, v) j'. jset j' k v) ps j"

definition jappend :: "string \<Rightarrow> json \<Rightarrow> json \<Rightarrow> json res" where
  "jappend k v j =
     bindE (jref j k) (\<lambda>(xs, j1). bindE (jpush xs v) (\<lambda>xs'. jset j1 k xs'))"

section \<open>The base class\<close>

text \<open>A section is an answer or an offer; the classes differ in \<open>SetDtlsRole\<close>.\<close>

datatype section_class = AnswerMediaSection | OfferMediaSection

record media_section =
  ms_class :: section_class
  mediaObject :: json

definition ice_fields :: "json \<Rightarrow> json \<Rightarrow> json res" where
  "ice_fields iceParameters obj =
     bindE (jidx iceParameters ''usernameFragment'') (\<lambda>u.
     bindE (jset obj ''iceUfrag'' u) (\<lambda>obj1.
     bindE (jidx iceParameters ''password'') (\<lambda>p. jset obj1 ''icePwd'' p)))"

definition candidate_object :: "json \<Rightarrow> json res" where
  "candidate_object candidate =
     bindE (jidx candidate ''foundation'') (\<lambda>foundation.
     bindE (jidx candidate ''address'') (\<lambda>ip.
     bindE (jidx candidate ''port'') (\<lambda>port.
     bindE (jidx candidate ''priority'') (\<lambda>priority.
     bindE (jidx candidate ''protocol'') (\<lambda>transport.
     bindE (jidx candidate ''type'') (\<lambda>type.
     let c = jobj
       [(''component'', JInt 1), (''foundation'', foundation), (''ip'', ip), (''port'', port),
        (''priority'', priority), (''transport'', transport), (''type'', type)]
     in case jfind candidate ''tcpType'' of
          Some t \<Rightarrow> jset c ''tcptype'' t
        | None \<Rightarrow> Inr c))))))"

definition base_object :: "json \<Rightarrow> json \<Rightarrow> json res" where
  "base_object iceParameters iceCandidates =
     bindE (ice_fields iceParameters jobject_empty) (\<lambda>obj.
     bindE (mapE candidate_object (jelems iceCandidates)) (\<lambda>candidates.
     jputs [(''candidates'', JArray candidates),
            (''endOfCandidates'', JString ''end-of-candidates''),
            (''iceOptions'', JString ''renomination'')] obj))"

definition GetMid :: "media_section \<Rightarrow> string res" where
  "GetMid s = bindE (jidx (mediaObject s) ''mid'') get_string"

definition IsClosed :: "media_section \<Rightarrow> bool res" where
  "IsClosed s = bindE (jidx (mediaObject s) ''port'') (\<lambda>port. Inr (json_eq port (JInt 0)))"

definition SetIceParameters :: "json \<Rightarrow> media_section \<Rightarrow> media_section res" where
  "SetIceParameters iceParameters s =
     bindE (ice_fields iceParameters (mediaObject s)) (\<lambda>obj. Inr (s \<lparr> mediaObject := obj \<rparr>))"

definition jerases :: "string list \<Rightarrow> json \<Rightarrow> json res" where
  "jerases ks j = foldE (\<lambda>k j'. jerase j' k) ks j"

definition disabled_fields :: "string list" where
  "disabled_fields = [''ext'', ''ssrcs'', ''ssrcGroups'', ''simulcast'', ''rids'']"

definition Disable :: "media_section \<Rightarrow> media_section res" where
  "Disable s =
     bindE (jset (mediaObject s) ''direction'' (JString ''inactive'')) (\<lambda>obj.
     bindE (jerases disabled_fields obj) (\<lambda>obj'. Inr (s \<lparr> mediaObject := obj' \<rparr>)))"

definition Close :: "media_section \<Rightarrow> media_section res" where
  "Close s =
     bindE (jputs [(''direction'', JString ''inactive''), (''port'', JInt 0)] (mediaObject s)) (\<lambda>obj.
     bindE (jerases (disabled_fields @ [''extmapAllowMixed'']) obj) (\<lambda>obj'.
     Inr (s \<lparr> mediaObject := obj' \<rparr>)))"

definition setup_of :: "string \<Rightarrow> (string \<times> json) list" where
  "setup_of role =
     (if role = ''client'' then [(''setup'', JString ''active'')]
      else if role = ''server'' then [(''setup'', JString ''passive'')]
      else if role = ''auto'' then [(''setup'', JString ''actpass'')] else [])"

definition SetDtlsRole :: "string \<Rightarrow> media_section \<Rightarrow> media_section res" where
  "SetDtlsRole role s =
     bindE (jputs (case ms_class s of
                     AnswerMediaSection \<Rightarrow> setup_of role
                   | OfferMediaSection \<Rightarrow> [(''setup'', JString ''actpass'')]) (mediaObject s)) (\<lambda>obj.
     Inr (s \<lparr> mediaObject := obj \<rparr>))"

section \<open>Codecs\<close>

definition CodecNameRegex :: pattern where
  "CodecNameRegex = regex_icase ''^(audio|video)/''"

definition getCodecName :: "json \<Rightarrow> string res" where
  "getCodecName codec =
     bindE (jidx codec ''mimeType'') (\<lambda>m. bindE (get_string m) (\<lambda>mimeType.
     Inr (regex_remove CodecNameRegex mimeType)))"

text \<open>\<open>rtp["encoding"]\<close> is only there for more than one channel.\<close>

definition with_encoding :: "json \<Rightarrow> json \<Rightarrow> json res" where
  "with_encoding codec rtp = (case jfind codec ''channels'' of
     None \<Rightarrow> Inr rtp
   | Some c \<Rightarrow>
       bindE (get_uint c) (\<lambda>channels :: 8 word.
       if channels > 1 then jset rtp ''encoding'' (JUint (ucast channels)) else Inr rtp))"

definition rtp_line :: "json \<Rightarrow> json \<Rightarrow> string \<Rightarrow> json \<Rightarrow> json res" where
  "rtp_line codec payload name rate =
     with_encoding codec (jobj [(''payload'', payload), (''codec'', JString name), (''rate'', rate)])"

definition fb_line :: "json \<Rightarrow> json \<Rightarrow> json \<Rightarrow> json" where
  "fb_line payload type subtype = jobj [(''payload'', payload), (''type'', type), (''subtype'', subtype)]"

text \<open>The \<open>fmtp\<close> line, appended only when it is not empty.\<close>

definition append_fmtp :: "json \<Rightarrow> json \<Rightarrow> json \<Rightarrow> json res" where
  "append_fmtp payload parameters obj =
     bindE (config_text int_text64 parameters) (\<lambda>config.
     if config = [] then Inr obj
     else jappend ''fmtp'' (jobj [(''payload'', payload), (''config'', JString config)]) obj)"

text \<open>\<open>get<uint8_t>\<close> of every payload type, separated by blanks.\<close>

definition payload_text :: "json \<Rightarrow> string res" where
  "payload_text payload = bindE (get_uint payload) (\<lambda>w :: 8 word. Inr (nat_str (unat w)))"

definition payloads_of :: "string list \<Rightarrow> string" where
  "payloads_of ps = join ps (CHR '' '')"

section \<open>Codec options\<close>

text \<open>A boolean option of a producer goes into the parameters of the offered codec and into
  the parameters of the answer, under names of their own.\<close>

definition flag :: "bool \<Rightarrow> json" where
  "flag b = JInt (if b then 1 else 0)"

definition opus_flags :: "(string \<times> string \<times> string) list" where
  "opus_flags =
     [(''opusStereo'', ''sprop-stereo'', ''stereo''), (''opusFec'', ''useinbandfec'', ''useinbandfec''),
      (''opusDtx'', ''usedtx'', ''usedtx''), (''opusCbr'', ''cbr'', ''cbr'')]"

definition opus_numbers :: "(string \<times> string) list" where
  "opus_numbers =
     [(''opusMaxPlaybackRate'', ''maxplaybackrate''), (''opusMaxAverageBitrate'', ''maxaveragebitrate''),
      (''opusPtime'', ''ptime'')]"

definition video_numbers :: "(string \<times> string) list" where
  "video_numbers =
     [(''videoGoogleStartBitrate'', ''x-google-start-bitrate''),
      (''videoGoogleMaxBitrate'', ''x-google-max-bitrate''),
      (''videoGoogleMinBitrate'', ''x-google-min-bitrate'')]"

definition flag_option :: "json \<Rightarrow> string \<times> string \<times> string \<Rightarrow> json \<times> json \<Rightarrow> (json \<times> json) res" where
  "flag_option options = (\<lambda>(name, offerName, answerName) (offerCodec, parameters).
     case jfind options name of
       None \<Rightarrow> Inr (offerCodec, parameters)
     | Some v \<Rightarrow>
         bindE (get_bool v) (\<lambda>b.
         bindE (jref offerCodec ''parameters'') (\<lambda>(ps, offer1).
         bindE (jset ps offerName (flag b)) (\<lambda>ps'.
         bindE (jset offer1 ''parameters'' ps') (\<lambda>offer2.
         bindE (jset parameters answerName (flag b)) (\<lambda>parameters'.
         Inr (offer2, parameters')))))))"

definition number_option :: "json \<Rightarrow> string \<times> string \<Rightarrow> json \<Rightarrow> json res" where
  "number_option options = (\<lambda>(name, answerName) parameters.
     case jfind options name of
       None \<Rightarrow> Inr parameters
     | Some v \<Rightarrow>
         bindE (get_uint v) (\<lambda>w :: 32 word. jset parameters answerName (JUint (ucast w))))"

text \<open>The offered codec and the parameters of the answer after the options of a MIME type.\<close>

definition apply_options :: "json \<Rightarrow> string \<Rightarrow> json \<Rightarrow> json \<Rightarrow> (json \<times> json) res" where
  "apply_options options mime offerCodec parameters =
     (if mime = ''audio/opus'' then
        bindE (foldE (flag_option options) opus_flags (offerCodec, parameters)) (\<lambda>(offer', ps).
        bindE (foldE (number_option options) opus_numbers ps) (\<lambda>ps'. Inr (offer', ps')))
      else if mime \<in> {''video/vp8'', ''video/vp9'', ''video/h264'', ''video/h265''} then
        bindE (foldE (number_option options) video_numbers parameters) (\<lambda>ps'. Inr (offerCodec, ps'))
      else Inr (offerCodec, parameters))"

end
