(* ===== verification/MediaBuild.thy ===== *)
theory MediaBuild
  imports MediaSection
begin

text \<open>
  The constructors of the two section classes (\<open>mssdk/sdputil/MediaSection.cpp\<close>). The
  constructor of an answer writes into the RTP parameters of the offer and of the answer it is
  given: the options of the codecs, and nulls for the fields that it reads and does not find.
\<close>

section \<open>Loops that write into what they visit\<close>

fun mapfoldE :: "('a \<Rightarrow> 's \<Rightarrow> ('a \<times> 's) res) \<Rightarrow> 'a list \<Rightarrow> 's \<Rightarrow> ('a list \<times> 's) res" where
  "mapfoldE f [] s = Inr ([], s)"
| "mapfoldE f (x # xs) s =
     bindE (f x s) (\<lambda>(x', s'). bindE (mapfoldE f xs s') (\<lambda>(xs', s''). Inr (x' # xs', s'')))"

text \<open>The same container with the elements \<open>xs\<close>.\<close>

definition with_elems :: "json \<Rightarrow> json list \<Rightarrow> json" where
  "with_elems j xs = (case j of
     JArray _ \<Rightarrow> JArray xs | JObject m \<Rightarrow> JObject (zip (map fst m) xs) | JNull \<Rightarrow> JNull | _ \<Rightarrow> hd xs)"

text \<open>\<open>for (auto& x : j[k])\<close>: the object after the loop and the state.\<close>

definition for_each :: "string \<Rightarrow> (json \<Rightarrow> 's \<Rightarrow> (json \<times> 's) res) \<Rightarrow> json \<Rightarrow> 's \<Rightarrow> (json \<times> 's) res" where
  "for_each k f j s =
     bindE (jref j k) (\<lambda>(v, j1).
     bindE (mapfoldE f (jelems v) s) (\<lambda>(xs, s').
     bindE (jset j1 k (with_elems v xs)) (\<lambda>j2. Inr (j2, s'))))"

section \<open>Fields common to the sections\<close>

definition connection :: json where
  "connection = jobj [(''ip'', JString ''127.0.0.1''), (''version'', JInt 4)]"

definition datachannel_fields :: "json \<Rightarrow> json \<Rightarrow> json res" where
  "datachannel_fields sctpParameters obj =
     bindE (jidx sctpParameters ''port'') (\<lambda>port.
     bindE (jidx sctpParameters ''maxMessageSize'') (\<lambda>size.
     jputs [(''payloads'', JString ''webrtc-datachannel''), (''sctpPort'', port),
            (''maxMessageSize'', size)] obj))"

definition rtcp_fields :: "(string \<times> json) list" where
  "rtcp_fields = [(''rtcpMux'', JString ''rtcp-mux''), (''rtcpRsize'', JString ''rtcp-rsize'')]"

definition media_fields :: "string \<Rightarrow> (string \<times> json) list" where
  "media_fields direction =
     [(''direction'', JString direction), (''rtp'', jarray_empty), (''rtcpFb'', jarray_empty),
      (''fmtp'', jarray_empty)]"

section \<open>Answers\<close>

text \<open>The parameters of one codec after the options, with the offered codec of the same
  payload type, which must exist when there are options.\<close>

definition answer_options ::
    "json option \<Rightarrow> json \<Rightarrow> json \<Rightarrow> json \<Rightarrow> (json \<times> json \<times> json) res" where
  "answer_options codecOptions codec parameters offerParams =
     (case codecOptions of
        None \<Rightarrow> Inr (parameters, codec, offerParams)
      | Some options \<Rightarrow>
          if jsize options = 0 then Inr (parameters, codec, offerParams)
          else
            bindE (jref offerParams ''codecs'') (\<lambda>(offerCodecs, offer1).
            bindE (find_match (\<lambda>oc c.
                bindE (jref oc ''payloadType'') (\<lambda>(p, oc').
                bindE (jref c ''payloadType'') (\<lambda>(pt, c'). Inr (json_eq p pt, oc', c'))))
              (jelems offerCodecs) codec) (\<lambda>(found, ocs, codec1).
            case found of
              None \<Rightarrow> Inl (Undefined ''*codecIt'')
            | Some i \<Rightarrow>
                bindE (jref codec1 ''mimeType'') (\<lambda>(m, codec2). bindE (get_string m) (\<lambda>mime.
                bindE (apply_options options (lower mime) (ocs ! i) parameters) (\<lambda>(oc', parameters').
                bindE (jset offer1 ''codecs'' (with_elems offerCodecs (ocs[i := oc']))) (\<lambda>offer2.
                Inr (parameters', codec2, offer2))))))))"

definition answer_feedback :: "json \<Rightarrow> json \<Rightarrow> json \<Rightarrow> (json \<times> json) res" where
  "answer_feedback payload fb obj =
     bindE (jref fb ''type'') (\<lambda>(type, fb1). bindE (jref fb1 ''parameter'') (\<lambda>(subtype, fb2).
     bindE (jappend ''rtcpFb'' (fb_line payload type subtype) obj) (\<lambda>obj'. Inr (fb2, obj'))))"

text \<open>One round of the loop over the codecs of the answer: the state is the object of the
  section and the RTP parameters of the offer.\<close>

definition answer_codec :: "json option \<Rightarrow> json \<Rightarrow> json \<times> json \<Rightarrow> (json \<times> json \<times> json) res" where
  "answer_codec codecOptions codec = (\<lambda>(obj, offerParams).
     bindE (jref codec ''payloadType'') (\<lambda>(payload, codec1).
     bindE (getCodecName codec1) (\<lambda>name.
     bindE (jref codec1 ''clockRate'') (\<lambda>(rate, codec2).
     bindE (rtp_line codec2 payload name rate) (\<lambda>rtp.
     bindE (jappend ''rtp'' rtp obj) (\<lambda>obj1.
     bindE (jref codec2 ''parameters'') (\<lambda>(parameters, codec3).
     bindE (answer_options codecOptions codec3 parameters offerParams) (\<lambda>(parameters', codec4, offerParams').
     bindE (append_fmtp payload parameters' obj1) (\<lambda>obj2.
     bindE (for_each ''rtcpFeedback'' (answer_feedback payload) codec4 obj2) (\<lambda>(codec5, obj3).
     Inr (codec5, obj3, offerParams')))))))))))"

text \<open>A header extension is answered only when the offer has it.\<close>

definition answer_ext :: "json \<Rightarrow> json \<Rightarrow> json \<Rightarrow> (json \<times> json) res" where
  "answer_ext offerMedia ext obj =
     bindE (jidx offerMedia ''ext'') (\<lambda>localExts.
     bindE (find_match (\<lambda>l e.
         bindE (jidx l ''uri'') (\<lambda>lu. bindE (jref e ''uri'') (\<lambda>(u, e'). Inr (json_eq lu u, l, e'))))
       (jelems localExts) ext) (\<lambda>(found, _, ext1).
     case found of
       None \<Rightarrow> Inr (ext1, obj)
     | Some _ \<Rightarrow>
         bindE (jref ext1 ''uri'') (\<lambda>(uri, ext2). bindE (jref ext2 ''id'') (\<lambda>(ident, ext3).
         bindE (jappend ''ext'' (jobj [(''uri'', uri), (''value'', ident)]) obj) (\<lambda>obj'.
         Inr (ext3, obj'))))))"

definition answer_rid :: "json \<Rightarrow> json list res" where
  "answer_rid rid =
     bindE (jidx rid ''direction'') (\<lambda>d.
     if \<not> json_eq d (JString ''send'') then Inr []
     else bindE (jidx rid ''id'') (\<lambda>ident.
          Inr [jobj [(''id'', ident), (''direction'', JString ''recv'')]]))"

text \<open>Without \<open>rids\<close> the iterator that is read is the end iterator.\<close>

definition answer_simulcast :: "json \<Rightarrow> json \<Rightarrow> json res" where
  "answer_simulcast offerMedia obj =
     (case jfind offerMedia ''simulcast'' of
        Some simulcast \<Rightarrow>
          if is_object simulcast then
            (case jfind offerMedia ''rids'' of
               None \<Rightarrow> Inl (Undefined ''ridsIt'')
             | Some rids \<Rightarrow>
                 if is_array rids then
                   bindE (jidx simulcast ''list1'') (\<lambda>list1.
                   bindE (mapE answer_rid (jelems rids)) (\<lambda>rs.
                   jputs [(''simulcast'', jobj [(''dir1'', JString ''recv''), (''list1'', list1)]),
                          (''rids'', JArray (concat rs))] obj))
                 else Inr obj)
          else Inr obj
      | None \<Rightarrow> Inr obj)"

definition answer_media :: "json \<Rightarrow> json \<Rightarrow> json \<Rightarrow> json option \<Rightarrow> json \<Rightarrow> (json \<times> json \<times> json) res" where
  "answer_media offerMedia offerParams answerParams codecOptions obj =
     bindE (jputs (media_fields ''recvonly'') obj) (\<lambda>obj1.
     bindE (for_each ''codecs'' (answer_codec codecOptions) answerParams (obj1, offerParams))
       (\<lambda>(answer1, obj2, offer1).
     bindE (jref answer1 ''codecs'') (\<lambda>(codecs, _).
     bindE (mapE (\<lambda>c. bindE (jref c ''payloadType'') (\<lambda>(p, _). payload_text p)) (jelems codecs)) (\<lambda>ps.
     bindE (jputs [(''payloads'', JString (payloads_of ps)), (''ext'', jarray_empty)] obj2) (\<lambda>obj3.
     bindE (for_each ''headerExtensions'' (answer_ext offerMedia) answer1 obj3) (\<lambda>(answer2, obj4).
     bindE (if has offerMedia ''extmapAllowMixed'' is_string
            then jset obj4 ''extmapAllowMixed'' (JString ''extmap-allow-mixed'') else Inr obj4) (\<lambda>obj5.
     bindE (answer_simulcast offerMedia obj5) (\<lambda>obj6.
     bindE (jputs rtcp_fields obj6) (\<lambda>obj7. Inr (obj7, offer1, answer2))))))))))"

text \<open>The constructor: the section, and the RTP parameters of the offer and of the answer as
  it leaves them.\<close>

definition answer_section ::
    "json \<Rightarrow> json \<Rightarrow> json \<Rightarrow> json \<Rightarrow> json \<Rightarrow> json \<Rightarrow> json \<Rightarrow> json option \<Rightarrow> (media_section \<times> json \<times> json) res" where
  "answer_section iceParameters iceCandidates dtlsParameters sctpParameters offerMedia
       offerParams answerParams codecOptions =
     bindE (base_object iceParameters iceCandidates) (\<lambda>obj.
     bindE (jidx offerMedia ''type'') (\<lambda>t. bindE (get_string t) (\<lambda>type.
     bindE (jidx offerMedia ''mid'') (\<lambda>mid.
     bindE (jidx offerMedia ''protocol'') (\<lambda>protocol.
     bindE (jputs [(''mid'', mid), (''type'', JString type), (''protocol'', protocol),
                   (''connection'', connection), (''port'', JInt 7)] obj) (\<lambda>obj1.
     bindE (jidx dtlsParameters ''role'') (\<lambda>r. bindE (get_string r) (\<lambda>dtlsRole.
     bindE (jputs (setup_of dtlsRole) obj1) (\<lambda>obj2.
     bindE (if type = ''audio'' \<or> type = ''video'' then
              answer_media offerMedia offerParams answerParams codecOptions obj2
            else if type = ''application'' then
              bindE (datachannel_fields sctpParameters obj2) (\<lambda>obj3. Inr (obj3, offerParams, answerParams))
            else Inr (obj2, offerParams, answerParams)) (\<lambda>(obj4, offer', answer').
     Inr (\<lparr> ms_class = AnswerMediaSection, mediaObject = obj4 \<rparr>, offer', answer')))))))))))"

section \<open>Offers\<close>

definition offer_feedback :: "json \<Rightarrow> json \<Rightarrow> json \<Rightarrow> json res" where
  "offer_feedback payload fb obj =
     bindE (jidx fb ''type'') (\<lambda>type. bindE (jidx fb ''parameter'') (\<lambda>subtype.
     jappend ''rtcpFb'' (fb_line payload type subtype) obj))"

definition offer_codec :: "json \<Rightarrow> json \<Rightarrow> json res" where
  "offer_codec codec obj =
     bindE (jidx codec ''payloadType'') (\<lambda>payload.
     bindE (getCodecName codec) (\<lambda>name.
     bindE (jidx codec ''clockRate'') (\<lambda>rate.
     bindE (rtp_line codec payload name rate) (\<lambda>rtp.
     bindE (jappend ''rtp'' rtp obj) (\<lambda>obj1.
     bindE (jidx codec ''parameters'') (\<lambda>parameters.
     bindE (append_fmtp payload parameters obj1) (\<lambda>obj2.
     bindE (jidx codec ''rtcpFeedback'') (\<lambda>fbs.
     foldE (offer_feedback payload) (jelems fbs) obj2))))))))"

definition offer_ext :: "json \<Rightarrow> json \<Rightarrow> json res" where
  "offer_ext ext obj =
     bindE (jidx ext ''uri'') (\<lambda>uri. bindE (jidx ext ''id'') (\<lambda>ident.
     jappend ''ext'' (jobj [(''uri'', uri), (''value'', ident)]) obj))"

text \<open>The SSRC of the retransmissions of an encoding; 0 when there is none.\<close>

definition encoding_rtx :: "json \<Rightarrow> 32 word res" where
  "encoding_rtx encoding =
     (case jfind encoding ''rtx'' of
        None \<Rightarrow> Inr 0
      | Some rtx \<Rightarrow> (case jfind rtx ''ssrc'' of None \<Rightarrow> Inr 0 | Some s \<Rightarrow> get_uint s))"

definition offer_ssrcs :: "string \<Rightarrow> string \<Rightarrow> 32 word \<Rightarrow> 32 word \<Rightarrow> (string \<times> json) list" where
  "offer_ssrcs cname msid ssrc rtxSsrc =
     [(''ssrcs'', JArray (ssrc_lines cname msid ssrc
         @ (if rtxSsrc \<noteq> 0 then ssrc_lines cname msid rtxSsrc else []))),
      (''ssrcGroups'', JArray (if rtxSsrc \<noteq> 0 then [ssrc_group ''FID'' [ssrc, rtxSsrc]] else []))]"

definition offer_media :: "json \<Rightarrow> string \<Rightarrow> string \<Rightarrow> json \<Rightarrow> json res" where
  "offer_media params streamId trackId obj =
     bindE (jputs (media_fields ''sendonly'') obj) (\<lambda>obj1.
     bindE (jidx params ''codecs'') (\<lambda>codecs.
     bindE (foldE offer_codec (jelems codecs) obj1) (\<lambda>obj2.
     bindE (mapE (\<lambda>c. bindE (jidx c ''payloadType'') payload_text) (jelems codecs)) (\<lambda>ps.
     bindE (jputs [(''payloads'', JString (payloads_of ps)), (''ext'', jarray_empty)] obj2) (\<lambda>obj3.
     bindE (jidx params ''headerExtensions'') (\<lambda>exts.
     bindE (foldE offer_ext (jelems exts) obj3) (\<lambda>obj4.
     bindE (jputs rtcp_fields obj4) (\<lambda>obj5.
     bindE (jidx params ''encodings'') (\<lambda>encodings. bindE (jnth encodings 0) (\<lambda>encoding.
     bindE (jidx encoding ''ssrc'') (\<lambda>s. bindE (get_uint s) (\<lambda>ssrc.
     bindE (encoding_rtx encoding) (\<lambda>rtxSsrc.
     bindE (jidx params ''rtcp'') (\<lambda>rtcp.
     jputs (case jfind rtcp ''cname'' of
              Some (JString cname) \<Rightarrow> offer_ssrcs cname (streamId @ '' '' @ trackId) ssrc rtxSsrc
            | _ \<Rightarrow> [(''ssrcs'', jarray_empty), (''ssrcGroups'', jarray_empty)]) obj5))))))))))))))"

definition offer_section ::
    "json \<Rightarrow> json \<Rightarrow> json \<Rightarrow> string \<Rightarrow> string \<Rightarrow> json \<Rightarrow> string \<Rightarrow> string \<Rightarrow> media_section res" where
  "offer_section iceParameters iceCandidates sctpParameters mid kind params streamId trackId =
     bindE (base_object iceParameters iceCandidates) (\<lambda>obj.
     bindE (jputs [(''mid'', JString mid), (''type'', JString kind),
         (''protocol'', JString (if sctpParameters = JNull then ''UDP/TLS/RTP/SAVPF'' else ''UDP/DTLS/SCTP'')),
         (''connection'', connection), (''port'', JInt 7), (''setup'', JString ''actpass'')] obj) (\<lambda>obj1.
     bindE (if kind = ''audio'' \<or> kind = ''video'' then offer_media params streamId trackId obj1
            else if kind = ''application'' then datachannel_fields sctpParameters obj1
            else Inr obj1) (\<lambda>obj2.
     Inr \<lparr> ms_class = OfferMediaSection, mediaObject = obj2 \<rparr>)))"

end
