(* ===== verification/RemoteSdp.thy ===== *)
theory RemoteSdp
  imports MediaBuild SdpWriter
begin

text \<open>
  The remote description (\<open>mssdk/sdputil/RemoteSdp.cpp\<close>): an SDP object and the media sections
  it is made of. Every operation returns the state afterwards; an index that the code does not
  check and that is out of range is an error \<open>Undefined\<close>.
\<close>

section \<open>State\<close>

record remote_sdp =
  iceParameters :: json
  iceCandidates :: json
  dtlsParameters :: json
  sctpParameters :: json
  mediaSections :: "media_section list"
  midToIndex :: "(string \<times> nat) list"
  firstMid :: string
  sdpObject :: json

section \<open>Construction\<close>

definition initial_sdp :: json where
  "initial_sdp = jobj
     [(''version'', JInt 0),
      (''origin'', jobj
        [(''address'', JString ''0.0.0.0''), (''ipVer'', JInt 4), (''netType'', JString ''IN''),
         (''sessionId'', JInt 10000), (''sessionVersion'', JInt 0),
         (''username'', JString ''libmediasoupclient'')]),
      (''name'', JString ''-''),
      (''timing'', jobj [(''start'', JInt 0), (''stop'', JInt 0)]),
      (''media'', jarray_empty)]"

definition ice_lite :: "json \<Rightarrow> json \<Rightarrow> json res" where
  "ice_lite ice sdp =
     (if jfind ice ''iceLite'' \<noteq> None then jset sdp ''icelite'' (JString ''ice-lite'') else Inr sdp)"

text \<open>The last fingerprint as the SDP object has it, and the DTLS parameters after it has been
  read. Without fingerprints the index is \<open>-1\<close>.\<close>

definition last_fingerprint :: "json \<Rightarrow> (json \<times> json) res" where
  "last_fingerprint dtls =
     bindE (jref dtls ''fingerprints'') (\<lambda>(fps, dtls1).
     if jsize fps = 0 \<and> (is_array fps \<or> is_null fps) then Inl (Undefined ''fingerprints'')
     else
       bindE (jnth_ref fps (jsize fps - 1)) (\<lambda>(f, _).
       bindE (jref f ''algorithm'') (\<lambda>(algorithm, f1).
       bindE (jref f1 ''value'') (\<lambda>(hash, f2).
       bindE (jnth_set fps (jsize fps - 1) f2) (\<lambda>fps'.
       bindE (jset dtls1 ''fingerprints'' fps') (\<lambda>dtls2.
       Inr (jobj [(''type'', algorithm), (''hash'', hash)], dtls2)))))))"

definition RemoteSdp :: "json \<Rightarrow> json \<Rightarrow> json \<Rightarrow> json \<Rightarrow> remote_sdp res" where
  "RemoteSdp ice candidates dtls sctp =
     bindE (ice_lite ice initial_sdp) (\<lambda>sdp1.
     bindE (jset sdp1 ''msidSemantic'' (jobj [(''semantic'', JString ''WMS''), (''token'', JString ''*'')])) (\<lambda>sdp2.
     bindE (last_fingerprint dtls) (\<lambda>(fingerprint, dtls').
     bindE (jputs [(''fingerprint'', fingerprint),
         (''groups'', JArray [jobj [(''type'', JString ''BUNDLE''), (''mids'', JString [])]])] sdp2) (\<lambda>sdp3.
     Inr \<lparr> iceParameters = ice, iceCandidates = candidates, dtlsParameters = dtls',
           sctpParameters = sctp, mediaSections = [], midToIndex = [], firstMid = [],
           sdpObject = sdp3 \<rparr>))))"

section \<open>The SDP object\<close>

text \<open>\<open>sdpObject["media"][idx] = ...\<close>\<close>

definition set_media :: "nat \<Rightarrow> json \<Rightarrow> json \<Rightarrow> json res" where
  "set_media idx obj sdp =
     bindE (jref sdp ''media'') (\<lambda>(media, sdp1).
     bindE (jnth_set media idx obj) (\<lambda>media'. jset sdp1 ''media'' media'))"

text \<open>The MIDs of the sections that are not closed, separated by blanks.\<close>

fun bundle_mids :: "media_section list \<Rightarrow> string \<Rightarrow> string res" where
  "bundle_mids [] mids = Inr mids"
| "bundle_mids (s # ss) mids =
     bindE (IsClosed s) (\<lambda>closed.
     if closed then bundle_mids ss mids
     else bindE (GetMid s) (\<lambda>mid.
          bundle_mids ss (if mids = [] then mid else mids @ '' '' @ mid)))"

definition RegenerateBundleMids :: "remote_sdp \<Rightarrow> remote_sdp res" where
  "RegenerateBundleMids st =
     bindE (bundle_mids (mediaSections st) []) (\<lambda>mids.
     bindE (jref (sdpObject st) ''groups'') (\<lambda>(gs, sdp1).
     bindE (jnth_ref gs 0) (\<lambda>(g, gs1).
     bindE (jset g ''mids'' (JString mids)) (\<lambda>g'.
     bindE (jnth_set gs1 0 g') (\<lambda>gs'.
     bindE (jset sdp1 ''groups'' gs') (\<lambda>sdp'. Inr (st \<lparr> sdpObject := sdp' \<rparr>)))))))"

section \<open>Adding and replacing sections\<close>

definition AddMediaSection :: "media_section \<Rightarrow> remote_sdp \<Rightarrow> remote_sdp res" where
  "AddMediaSection s st =
     bindE (GetMid s) (\<lambda>mid.
     bindE (jappend ''media'' (mediaObject s) (sdpObject st)) (\<lambda>sdp.
     RegenerateBundleMids
       (st \<lparr> firstMid := (if firstMid st = [] then mid else firstMid st),
             midToIndex := aset mid (length (mediaSections st)) (midToIndex st),
             mediaSections := mediaSections st @ [s],
             sdpObject := sdp \<rparr>)))"

text \<open>\<open>midToIndex[mid]\<close> inserts 0 for an unknown MID.\<close>

definition index_of :: "string \<Rightarrow> remote_sdp \<Rightarrow> nat \<times> remote_sdp" where
  "index_of mid st = (case map_of (midToIndex st) mid of
     Some i \<Rightarrow> (i, st)
   | None \<Rightarrow> (0, st \<lparr> midToIndex := aset mid 0 (midToIndex st) \<rparr>))"

definition section_at :: "nat \<Rightarrow> remote_sdp \<Rightarrow> media_section res" where
  "section_at idx st =
     (if idx < length (mediaSections st) then Inr (mediaSections st ! idx)
      else Inl (Undefined ''mediaSections[idx]''))"

definition ReplaceMediaSection :: "media_section \<Rightarrow> string \<Rightarrow> remote_sdp \<Rightarrow> remote_sdp res" where
  "ReplaceMediaSection s reuseMid st =
     (if reuseMid \<noteq> [] then
        (case index_of reuseMid st of (idx, st1) \<Rightarrow>
         bindE (section_at idx st1) (\<lambda>old.
         bindE (GetMid old) (\<lambda>oldMid. bindE (GetMid s) (\<lambda>mid.
         bindE (set_media idx (mediaObject s) (sdpObject st1)) (\<lambda>sdp.
         RegenerateBundleMids
           (st1 \<lparr> mediaSections := (mediaSections st1)[idx := s],
                  midToIndex := aset mid idx (adel oldMid (midToIndex st1)),
                  sdpObject := sdp \<rparr>))))))
      else
        bindE (GetMid s) (\<lambda>mid.
        case index_of mid st of (idx, st1) \<Rightarrow>
          bindE (section_at idx st1) (\<lambda>_.
          bindE (set_media (length (mediaSections st1) - 1) (mediaObject s) (sdpObject st1)) (\<lambda>sdp.
          Inr (st1 \<lparr> mediaSections := (mediaSections st1)[idx := s], sdpObject := sdp \<rparr>)))))"

section \<open>Operations\<close>

text \<open>The loop of the two updates: each section is changed and its object written into the
  SDP object.\<close>

fun update_sections ::
    "(media_section \<Rightarrow> media_section res) \<Rightarrow> media_section list \<Rightarrow> nat \<Rightarrow> json \<Rightarrow>
     (media_section list \<times> json) res" where
  "update_sections f [] idx sdp = Inr ([], sdp)"
| "update_sections f (s # ss) idx sdp =
     bindE (f s) (\<lambda>s'.
     bindE (set_media idx (mediaObject s') sdp) (\<lambda>sdp'.
     bindE (update_sections f ss (idx + 1) sdp') (\<lambda>(ss', sdp''). Inr (s' # ss', sdp''))))"

definition update_all :: "(media_section \<Rightarrow> media_section res) \<Rightarrow> remote_sdp \<Rightarrow> remote_sdp res" where
  "update_all f st =
     bindE (ice_lite (iceParameters st) (sdpObject st)) (\<lambda>sdp.
     bindE (update_sections f (mediaSections st) 0 sdp) (\<lambda>(ss, sdp').
     Inr (st \<lparr> mediaSections := ss, sdpObject := sdp' \<rparr>)))"

definition UpdateIceParameters :: "json \<Rightarrow> remote_sdp \<Rightarrow> remote_sdp res" where
  "UpdateIceParameters ice st =
     update_all (SetIceParameters ice) (st \<lparr> iceParameters := ice \<rparr>)"

definition UpdateDtlsRole :: "string \<Rightarrow> remote_sdp \<Rightarrow> remote_sdp res" where
  "UpdateDtlsRole role st =
     bindE (jset (dtlsParameters st) ''role'' (JString role)) (\<lambda>dtls.
     update_all (SetDtlsRole role) (st \<lparr> dtlsParameters := dtls \<rparr>))"

text \<open>The index of a closed section and its MID, or the next index.\<close>

definition GetNextMediaSectionIdx :: "remote_sdp \<Rightarrow> (nat \<times> string) res" where
  "GetNextMediaSectionIdx st =
     bindE (find_index IsClosed (mediaSections st)) (\<lambda>found.
     case found of
       Some idx \<Rightarrow> bindE (GetMid (mediaSections st ! idx)) (\<lambda>mid. Inr (idx, mid))
     | None \<Rightarrow> Inr (length (mediaSections st), []))"

definition Send ::
    "json \<Rightarrow> string \<Rightarrow> json \<Rightarrow> json \<Rightarrow> json option \<Rightarrow> remote_sdp \<Rightarrow> (remote_sdp \<times> json \<times> json) res" where
  "Send offerMedia reuseMid offerParams answerParams codecOptions st =
     bindE (answer_section (iceParameters st) (iceCandidates st) (dtlsParameters st)
         (sctpParameters st) offerMedia offerParams answerParams codecOptions) (\<lambda>(s, offer', answer').
     bindE (if reuseMid \<noteq> [] then ReplaceMediaSection s reuseMid st else AddMediaSection s st) (\<lambda>st'.
     Inr (st', offer', answer')))"

definition SendSctpAssociation :: "json \<Rightarrow> remote_sdp \<Rightarrow> remote_sdp res" where
  "SendSctpAssociation offerMedia st =
     bindE (answer_section (iceParameters st) (iceCandidates st) (dtlsParameters st)
         (sctpParameters st) offerMedia JNull JNull None) (\<lambda>(s, _, _). AddMediaSection s st)"

definition RecvSctpAssociation :: "remote_sdp \<Rightarrow> remote_sdp res" where
  "RecvSctpAssociation st =
     bindE (offer_section (iceParameters st) (iceCandidates st) (sctpParameters st)
         ''datachannel'' ''application'' JNull [] []) (\<lambda>s. AddMediaSection s st)"

definition Receive ::
    "string \<Rightarrow> string \<Rightarrow> json \<Rightarrow> string \<Rightarrow> string \<Rightarrow> remote_sdp \<Rightarrow> remote_sdp res" where
  "Receive mid kind offerParams streamId trackId st =
     bindE (offer_section (iceParameters st) (iceCandidates st) JNull mid kind offerParams
         streamId trackId) (\<lambda>s.
     bindE (findE IsClosed (mediaSections st)) (\<lambda>closed.
     case closed of
       Some c \<Rightarrow> bindE (GetMid c) (\<lambda>reuseMid. ReplaceMediaSection s reuseMid st)
     | None \<Rightarrow> AddMediaSection s st))"

text \<open>\<open>DisableMediaSection\<close> leaves the SDP object as it is.\<close>

definition DisableMediaSection :: "string \<Rightarrow> remote_sdp \<Rightarrow> remote_sdp res" where
  "DisableMediaSection mid st =
     (case index_of mid st of (idx, st1) \<Rightarrow>
      bindE (section_at idx st1) (\<lambda>s. bindE (Disable s) (\<lambda>s'.
      Inr (st1 \<lparr> mediaSections := (mediaSections st1)[idx := s'] \<rparr>))))"

definition CloseMediaSection :: "string \<Rightarrow> remote_sdp \<Rightarrow> remote_sdp res" where
  "CloseMediaSection mid st =
     (case index_of mid st of (idx, st1) \<Rightarrow>
      bindE (section_at idx st1) (\<lambda>s.
      bindE (if mid = firstMid st1 then Disable s else Close s) (\<lambda>s'.
      bindE (set_media idx (mediaObject s') (sdpObject st1)) (\<lambda>sdp.
      RegenerateBundleMids
        (st1 \<lparr> mediaSections := (mediaSections st1)[idx := s'], sdpObject := sdp \<rparr>)))))"

text \<open>The text of the description, with the version increased in 32 bits.\<close>

definition next_version :: "json \<Rightarrow> json res" where
  "next_version sdp =
     bindE (jref sdp ''origin'') (\<lambda>(origin, sdp1).
     bindE (jref origin ''sessionVersion'') (\<lambda>(v, origin1).
     bindE (get_uint v) (\<lambda>version :: 32 word.
     bindE (jset origin1 ''sessionVersion'' (JUint (ucast (version + 1)))) (\<lambda>origin2.
     jset sdp1 ''origin'' origin2))))"

definition GetSdp :: "(json \<Rightarrow> string) \<Rightarrow> remote_sdp \<Rightarrow> (string \<times> remote_sdp) res" where
  "GetSdp dump st =
     bindE (next_version (sdpObject st)) (\<lambda>sdp.
     bindE (write_sdp dump sdp) (\<lambda>(text, sdp'). Inr (text, st \<lparr> sdpObject := sdp' \<rparr>)))"

end
