(* ===== verification/SectionFacts.thy ===== *)
theory SectionFacts
  imports RemoteSdp
begin

text \<open>
  What the operations on media sections keep: a section is an object with a MID and a port,
  and only \<open>Close\<close> changes either of them.
\<close>

section \<open>The frame of a construction\<close>

text \<open>\<open>frame j j'\<close>: \<open>j'\<close> is an object with the MID and the port of \<open>j\<close>.\<close>

definition framed :: "string list" where
  "framed = [''mid'', ''port'']"

definition frame :: "json \<Rightarrow> json \<Rightarrow> bool" where
  "frame j j' = (is_object j' \<and> (\<forall>k \<in> set framed. jfind j' k = jfind j k))"

named_theorems frames \<open>steps of a construction that keep the frame\<close>

lemma frame_refl [frames]: "is_object j \<Longrightarrow> frame j j"
  by (simp add: frame_def)

lemma frame_trans: "frame i j \<Longrightarrow> frame j k \<Longrightarrow> frame i k"
  by (simp add: frame_def)

lemma frame_object: "frame i j \<Longrightarrow> is_object j"
  by (simp add: frame_def)

lemma jset_is_object: "jset j k v = Inr j' \<Longrightarrow> is_object j'"
  by (cases j) (auto simp: jset_def)

lemma jset_frame [frames]: "jset j k v = Inr j' \<Longrightarrow> k \<notin> set framed \<Longrightarrow> frame j j'"
  by (auto simp: frame_def jset_is_object jset_Inr_find)

lemma put_frame [frames]: "is_object j \<Longrightarrow> k \<notin> set framed \<Longrightarrow> frame j (put k v j)"
  using jset_frame [of j k v "put k v j"] by simp

lemma drop_key_frame [frames]: "is_object j \<Longrightarrow> k \<notin> set framed \<Longrightarrow> frame j (drop_key k j)"
  by (auto simp: frame_def jfind_drop_key is_object_drop_key)

lemma jerase_frame: "jerase j k = Inr j' \<Longrightarrow> k \<notin> set framed \<Longrightarrow> frame j j'"
  by (cases j) (auto simp: frame_def jerase_def map_simps)

text \<open>A loop each of whose rounds keeps the frame.\<close>

lemma foldE_frame:
  assumes "foldE f xs j = Inr j'" "is_object j"
    and "\<And>x i i'. x \<in> set xs \<Longrightarrow> is_object i \<Longrightarrow> f x i = Inr i' \<Longrightarrow> frame i i'"
  shows "frame j j'"
proof (rule foldE_invariant [OF assms(1)])
  show "frame j j" using assms(2) by (rule frame_refl)
  show "frame j v" if "x \<in> set xs" "frame j u" "f x u = Inr v" for x u v
    using that assms(3) frame_object frame_trans by metis
qed

lemma jputs_frame [frames]:
  "jputs ps j = Inr j' \<Longrightarrow> is_object j \<Longrightarrow> list_all (\<lambda>p. fst p \<notin> set framed) ps \<Longrightarrow> frame j j'"
  unfolding jputs_def
proof (erule foldE_frame, assumption)
  fix p i i'
  assume l: "list_all (\<lambda>p. fst p \<notin> set framed) ps" "p \<in> set ps"
    and i: "(case p of (k, v) \<Rightarrow> \<lambda>j'. jset j' k v) i = Inr i'"
  obtain k v where p: "p = (k, v)" by (cases p)
  with l have "k \<notin> set framed" by (auto simp: list_all_iff)
  with i p show "frame i i'" by (auto intro: jset_frame)
qed

lemma jerases_frame [frames]:
  "jerases ks j = Inr j' \<Longrightarrow> is_object j \<Longrightarrow> list_all (\<lambda>k. k \<notin> set framed) ks \<Longrightarrow> frame j j'"
  unfolding jerases_def by (erule foldE_frame) (simp_all add: list_all_iff jerase_frame del: jerase_drop_key)

lemma jref_cases:
  assumes "jref j k = Inr (v, j')"
  shows "(jfind j k = Some v \<and> j' = j) \<or> (jfind j k = None \<and> v = JNull \<and> jset j k JNull = Inr j')"
  using assms by (auto simp: jref_def res_simps split: option.splits)

lemma jref_frame: "jref j k = Inr (v, j') \<Longrightarrow> is_object j \<Longrightarrow> k \<notin> set framed \<Longrightarrow> frame j j'"
  using jref_cases [of j k v j'] frame_refl jset_frame by metis

lemma jappend_frame [frames]:
  "jappend k v j = Inr j' \<Longrightarrow> is_object j \<Longrightarrow> k \<notin> set framed \<Longrightarrow> frame j j'"
  by (auto simp: jappend_def res_simps dest!: jref_frame jset_frame intro: frame_trans)

lemma mapfoldE_invariant:
  assumes "mapfoldE f xs s = Inr (ys, t)" and "I s"
    and "\<And>x u y v. I u \<Longrightarrow> f x u = Inr (y, v) \<Longrightarrow> I v"
  shows "I t"
  using assms(1,2)
proof (induction xs arbitrary: s ys)
  case (Cons x xs)
  then show ?case by (auto simp: res_simps dest: assms(3))
qed simp

lemma for_each_invariant:
  assumes "for_each k f j s = Inr (j', t)" and "I s"
    and "\<And>x u y v. I u \<Longrightarrow> f x u = Inr (y, v) \<Longrightarrow> I v"
  shows "I t"
  using assms mapfoldE_invariant [of f _ s _ t I] by (auto simp: for_each_def res_simps)

section \<open>The constructors\<close>

lemmas framed_simps = framed_def media_fields_def rtcp_fields_def setup_of_def disabled_fields_def
  offer_ssrcs_def

text \<open>The frame through a chain of steps.\<close>

lemma append_fmtp_frame [frames]: "append_fmtp p ps j = Inr j' \<Longrightarrow> is_object j \<Longrightarrow> frame j j'"
  by (auto simp: append_fmtp_def res_simps framed_simps intro: frames split: if_splits)

lemma datachannel_frame [frames]: "datachannel_fields sctp j = Inr j' \<Longrightarrow> is_object j \<Longrightarrow> frame j j'"
  by (auto simp: datachannel_fields_def res_simps framed_simps intro: frames)

lemma setup_frame [frames]: "jputs (setup_of r) j = Inr j' \<Longrightarrow> is_object j \<Longrightarrow> frame j j'"
  by (rule jputs_frame) (auto simp: framed_simps)

lemma answer_feedback_frame: "answer_feedback p fb j = Inr (fb', j') \<Longrightarrow> is_object j \<Longrightarrow> frame j j'"
  by (auto simp: answer_feedback_def res_simps framed_simps intro: frames)

lemma answer_codec_frame:
  assumes "answer_codec opts c (j, op) = Inr (c', j', op')" "is_object j"
  shows "frame j j'"
proof -
  obtain rtp j1 pt ps j2 c4 c5 where s: "jappend ''rtp'' rtp j = Inr j1"
      "append_fmtp pt ps j1 = Inr j2" "for_each ''rtcpFeedback'' (answer_feedback pt) c4 j2 = Inr (c5, j')"
    using assms(1) by (auto simp: answer_codec_def res_simps)
  have 1: "frame j j1" by (rule jappend_frame [OF s(1) assms(2)]) (simp add: framed_simps)
  have 2: "frame j1 j2" using append_fmtp_frame [OF s(2)] frame_object [OF 1] by simp
  have "frame j2 j'"
    by (rule for_each_invariant [OF s(3)])
       (use 2 frame_object frame_refl frame_trans answer_feedback_frame in blast)+
  with 1 2 show ?thesis using frame_trans by blast
qed

lemma answer_ext_frame: "answer_ext om e j = Inr (e', j') \<Longrightarrow> is_object j \<Longrightarrow> frame j j'"
  by (auto simp: answer_ext_def res_simps framed_simps intro: frames split: option.splits)

lemma answer_simulcast_frame: "answer_simulcast om j = Inr j' \<Longrightarrow> is_object j \<Longrightarrow> frame j j'"
  by (auto simp: answer_simulcast_def res_simps framed_simps intro: frames split: option.splits if_splits)

section \<open>Sections\<close>

text \<open>The MID of a section and whether it is closed; a section is well formed when it has a
  MID, and one of the two ports that are ever written.\<close>

definition sec_mid :: "media_section \<Rightarrow> string" where
  "sec_mid s = (case jfind (mediaObject s) ''mid'' of Some (JString m) \<Rightarrow> m | _ \<Rightarrow> [])"

definition sec_closed :: "media_section \<Rightarrow> bool" where
  "sec_closed s = (jfind (mediaObject s) ''port'' = Some (JInt 0))"

definition section_ok :: "media_section \<Rightarrow> bool" where
  "section_ok s = (has (mediaObject s) ''mid'' nonempty_string
     \<and> has (mediaObject s) ''port'' (\<lambda>p. p = JInt 0 \<or> p = JInt 7))"

lemma section_object: "section_ok s \<Longrightarrow> is_object (mediaObject s)"
  by (auto simp: section_ok_def intro: has_object)

lemma GetMid_ok: "section_ok s \<Longrightarrow> GetMid s = Inr (sec_mid s)"
  by (auto simp: section_ok_def GetMid_def sec_mid_def has_def res_simps split: option.splits json.splits)

lemma sec_mid_nonempty: "section_ok s \<Longrightarrow> sec_mid s \<noteq> []"
  by (auto simp: section_ok_def sec_mid_def has_def split: option.splits json.splits)

lemma IsClosed_ok: "section_ok s \<Longrightarrow> IsClosed s = Inr (sec_closed s)"
  by (auto simp: section_ok_def IsClosed_def sec_closed_def has_def res_simps num_eq_def split: option.splits)

lemmas section_simps = GetMid_ok IsClosed_ok

lemma frame_section:
  "section_ok s \<Longrightarrow> frame (mediaObject s) j \<Longrightarrow>
     section_ok (s \<lparr> mediaObject := j \<rparr>) \<and> sec_mid (s \<lparr> mediaObject := j \<rparr>) = sec_mid s
     \<and> sec_closed (s \<lparr> mediaObject := j \<rparr>) = sec_closed s"
  by (auto simp: section_ok_def sec_mid_def sec_closed_def has_def frame_def framed_def)

lemma jputs_find:
  "jputs ps j = Inr j' \<Longrightarrow>
     jfind j' k = (case map_of (rev ps) k of None \<Rightarrow> jfind j k | Some w \<Rightarrow> Some w)"
  unfolding jputs_def
proof (induction ps arbitrary: j)
  case (Cons q qs)
  obtain a b where q: "q = (a, b)" by (cases q)
  with Cons.prems obtain m where m: "jset j a b = Inr m" "foldE (\<lambda>(k, v) j'. jset j' k v) qs m = Inr j'"
    by (auto simp: res_simps)
  show ?case using Cons.IH [OF m(2)] jset_Inr_find [OF m(1), of k]
    by (auto simp: q map_add_def split: option.splits)
qed simp

lemma jputs_object: "jputs ps j = Inr j' \<Longrightarrow> is_object j \<Longrightarrow> is_object j'"
  unfolding jputs_def
  by (erule foldE_invariant) (auto dest: jset_is_object)

lemma new_section:
  assumes "jputs ps j = Inr j1" "map_of (rev ps) ''mid'' = Some (JString mid)"
    "map_of (rev ps) ''port'' = Some (JInt 7)" "mid \<noteq> []" "frame j1 j2"
  shows "section_ok \<lparr> ms_class = c, mediaObject = j2 \<rparr> \<and> sec_mid \<lparr> ms_class = c, mediaObject = j2 \<rparr> = mid
    \<and> \<not> sec_closed \<lparr> ms_class = c, mediaObject = j2 \<rparr>"
  using assms(2-5) jputs_find [OF assms(1)]
  by (auto simp: section_ok_def sec_mid_def sec_closed_def has_def frame_def framed_def)

section \<open>What the constructors build\<close>

lemma base_object_object: "base_object ice cands = Inr j \<Longrightarrow> is_object j"
  by (auto simp: base_object_def ice_fields_def res_simps dest: jputs_object)

lemma offer_codec_frame: "offer_codec c j = Inr j' \<Longrightarrow> is_object j \<Longrightarrow> frame j j'"
proof -
  assume c: "offer_codec c j = Inr j'" and j: "is_object j"
  obtain rtp j1 pt ps j2 fbs where s: "jappend ''rtp'' rtp j = Inr j1" "append_fmtp pt ps j1 = Inr j2"
      "foldE (offer_feedback pt) fbs j2 = Inr j'"
    using c by (auto simp: offer_codec_def res_simps)
  have 1: "frame j j1" by (rule jappend_frame [OF s(1) j]) (simp add: framed_simps)
  have 2: "frame j1 j2" using append_fmtp_frame [OF s(2)] frame_object [OF 1] by simp
  have "frame j2 j'"
    by (rule foldE_frame [OF s(3) frame_object [OF 2]])
       (auto simp: offer_feedback_def res_simps framed_simps intro: frames)
  with 1 2 show ?thesis using frame_trans by blast
qed

lemma offer_ext_frame: "offer_ext e j = Inr j' \<Longrightarrow> is_object j \<Longrightarrow> frame j j'"
  by (auto simp: offer_ext_def res_simps framed_simps intro: frames)

lemma offer_media_frame:
  assumes "offer_media p a b j = Inr j'" "is_object j"
  shows "frame j j'"
proof -
  obtain j1 cs j2 ps j3 es j4 j5 rtcp ssrc rtx where s: "jputs (media_fields ''sendonly'') j = Inr j1"
      "foldE offer_codec cs j1 = Inr j2"
      "jputs [(''payloads'', JString (payloads_of ps)), (''ext'', jarray_empty)] j2 = Inr j3"
      "foldE offer_ext es j3 = Inr j4" "jputs rtcp_fields j4 = Inr j5"
      "jputs (case jfind rtcp ''cname'' of
          Some (JString cname) \<Rightarrow> offer_ssrcs cname (a @ '' '' @ b) ssrc rtx
        | _ \<Rightarrow> [(''ssrcs'', jarray_empty), (''ssrcGroups'', jarray_empty)]) j5 = Inr j'"
    using assms(1) by (auto simp: offer_media_def res_simps)
  have 1: "frame j j1" by (rule jputs_frame [OF s(1) assms(2)]) (simp add: framed_simps)
  have 2: "frame j1 j2" by (rule foldE_frame [OF s(2) frame_object [OF 1]]) (rule offer_codec_frame)
  have 3: "frame j2 j3" by (rule jputs_frame [OF s(3) frame_object [OF 2]]) (simp add: framed_simps)
  have 4: "frame j3 j4" by (rule foldE_frame [OF s(4) frame_object [OF 3]]) (rule offer_ext_frame)
  have 5: "frame j4 j5" by (rule jputs_frame [OF s(5) frame_object [OF 4]]) (simp add: framed_simps)
  have 6: "frame j5 j'" by (rule jputs_frame [OF s(6) frame_object [OF 5]]) (simp add: framed_simps split: option.split json.split)
  show ?thesis using 1 2 3 4 5 6 frame_trans by blast
qed

lemma offer_section_ok:
  assumes "offer_section ice cands sctp mid kind params a b = Inr s" "mid \<noteq> []"
  shows "section_ok s \<and> sec_mid s = mid \<and> \<not> sec_closed s"
proof -
  obtain fs j j1 j2 where b: "base_object ice cands = Inr j" "jputs fs j = Inr j1"
      "map_of (rev fs) ''mid'' = Some (JString mid)" "map_of (rev fs) ''port'' = Some (JInt 7)"
      "(if kind = ''audio'' \<or> kind = ''video'' then offer_media params a b j1
        else if kind = ''application'' then datachannel_fields sctp j1 else Inr j1) = Inr j2"
      "s = \<lparr> ms_class = OfferMediaSection, mediaObject = j2 \<rparr>"
    using assms(1) by (auto simp: offer_section_def res_simps)
  have "is_object j1" using jputs_object [OF b(2)] base_object_object [OF b(1)] by simp
  then have "frame j1 j2"
    using b(5) by (auto intro: offer_media_frame datachannel_frame frame_refl split: if_splits)
  then show ?thesis using new_section [OF b(2-4) assms(2)] b(6) by simp
qed

lemma answer_media_frame:
  assumes "answer_media om op ap opts j = Inr (j', op', ap')" "is_object j"
  shows "frame j j'"
proof -
  obtain j1 ap1 j2 ps j3 ap2 j4 j5 j6 where s: "jputs (media_fields ''recvonly'') j = Inr j1"
      "for_each ''codecs'' (answer_codec opts) ap (j1, op) = Inr (ap1, j2, op')"
      "jputs [(''payloads'', JString (payloads_of ps)), (''ext'', jarray_empty)] j2 = Inr j3"
      "for_each ''headerExtensions'' (answer_ext om) ap1 j3 = Inr (ap2, j4)"
      "(if has om ''extmapAllowMixed'' is_string
        then jset j4 ''extmapAllowMixed'' (JString ''extmap-allow-mixed'') else Inr j4) = Inr j5"
      "answer_simulcast om j5 = Inr j6" "jputs rtcp_fields j6 = Inr j'"
    using assms(1) by (auto simp: answer_media_def res_simps simp del: jset_put)
  have 1: "frame j j1" by (rule jputs_frame [OF s(1) assms(2)]) (simp add: framed_simps)
  have step: "frame j1 (fst v)" if "frame j1 (fst u)" "answer_codec opts x u = Inr (y, v)" for x u y v
    using that(2) frame_object [OF that(1)] answer_codec_frame [of opts x "fst u" "snd u" y "fst v" "snd v"]
      frame_trans [OF that(1)] by simp
  have 2: "frame j1 j2"
    using for_each_invariant [OF s(2), of "\<lambda>p. frame j1 (fst p)", OF _ step]
      frame_refl [OF frame_object [OF 1]] by simp
  have 3: "frame j2 j3" by (rule jputs_frame [OF s(3) frame_object [OF 2]]) (simp add: framed_simps)
  have 4: "frame j3 j4"
    by (rule for_each_invariant [OF s(4)])
       (use frame_refl [OF frame_object [OF 3]] answer_ext_frame frame_trans frame_object in blast)+
  have 5: "frame j4 j5"
    using s(5) frame_object [OF 4] by (auto simp: framed_simps intro: frames split: if_splits)
  have 6: "frame j5 j6" by (rule answer_simulcast_frame [OF s(6) frame_object [OF 5]])
  have 7: "frame j6 j'" by (rule jputs_frame [OF s(7) frame_object [OF 6]]) (simp add: framed_simps)
  show ?thesis using 1 2 3 4 5 6 7 frame_trans by blast
qed

lemma answer_section_ok:
  assumes "answer_section ice cands dtls sctp om op ap opts = Inr (s, op', ap')"
    "jfind om ''mid'' = Some (JString mid)" "mid \<noteq> []"
  shows "section_ok s \<and> sec_mid s = mid \<and> \<not> sec_closed s"
proof -
  obtain j fs j1 role j2 ty j3 where b: "base_object ice cands = Inr j" "jputs fs j = Inr j1"
      "map_of (rev fs) ''mid'' = Some (JString mid)" "map_of (rev fs) ''port'' = Some (JInt 7)"
      "jputs (setup_of role) j1 = Inr j2"
      "(if ty = ''audio'' \<or> ty = ''video'' then answer_media om op ap opts j2
        else if ty = ''application'' then bindE (datachannel_fields sctp j2) (\<lambda>obj3. Inr (obj3, op, ap))
        else Inr (j2, op, ap)) = Inr (j3, op', ap')"
      "s = \<lparr> ms_class = AnswerMediaSection, mediaObject = j3 \<rparr>"
    using assms(1,2) by (auto simp: answer_section_def res_simps)
  have o1: "is_object j1" using jputs_object [OF b(2)] base_object_object [OF b(1)] by simp
  have 1: "frame j1 j2" by (rule setup_frame [OF b(5) o1])
  have "frame j2 j3"
    using b(6) frame_object [OF 1]
    by (auto simp: res_simps intro: answer_media_frame datachannel_frame frame_refl split: if_splits)
  with 1 have "frame j1 j3" by (rule frame_trans)
  then show ?thesis using new_section [OF b(2-4) assms(3)] b(7) by simp
qed

end
