(* ===== verification/RemoteInv.thy ===== *)
theory RemoteInv
  imports SectionFacts
begin

text \<open>
  The invariant of the remote description and the operations it is kept by. The sections are
  changed through three contracts, stated as locales and met by the methods of the section
  classes: an operation that keeps the MID, one that also keeps the port, one that closes.
\<close>

section \<open>The invariant\<close>

text \<open>
  The entry of a section in the SDP object: \<open>Disable\<close> does not write it, so that it agrees with
  the section in all fields but those that \<open>Disable\<close> changes, and writing the SDP may have
  filled in missing payloads.
\<close>

definition stale_keys :: "string list" where
  "stale_keys = ''direction'' # disabled_fields"

definition shown :: "json \<Rightarrow> media_section \<Rightarrow> bool" where
  "shown m s = (is_object m \<and> (\<forall>k. k \<notin> set stale_keys \<longrightarrow>
     jfind m k = jfind (mediaObject s) k \<or> k = ''payloads'' \<and> jfind (mediaObject s) k = None))"

definition media_shown :: "media_section list \<Rightarrow> json \<Rightarrow> bool" where
  "media_shown ss sdp = has sdp ''media'' (\<lambda>m. case m of JArray ms \<Rightarrow> list_all2 shown ms ss | _ \<Rightarrow> False)"

definition open_mids :: "media_section list \<Rightarrow> string list" where
  "open_mids ss = map sec_mid (filter (\<lambda>s. \<not> sec_closed s) ss)"

text \<open>The first group of the SDP object is the BUNDLE group.\<close>

definition bundle_group :: "json \<Rightarrow> bool" where
  "bundle_group sdp = has sdp ''groups'' (\<lambda>gs. case gs of JArray (g # _) \<Rightarrow> is_object g | _ \<Rightarrow> False)"

definition bundled :: "json \<Rightarrow> string option" where
  "bundled sdp = (case jfind sdp ''groups'' of
     Some (JArray (g # _)) \<Rightarrow> (case jfind g ''mids'' of Some (JString t) \<Rightarrow> Some t | _ \<Rightarrow> None)
   | _ \<Rightarrow> None)"

definition versioned :: "json \<Rightarrow> bool" where
  "versioned sdp = has sdp ''origin'' (\<lambda>o'. has o' ''sessionVersion'' is_number_integer)"

definition sections_ok :: "media_section list \<Rightarrow> bool" where
  "sections_ok ss = (list_all section_ok ss \<and> distinct (map sec_mid ss)
     \<and> (ss \<noteq> [] \<longrightarrow> \<not> sec_closed (hd ss)))"

definition index_ok :: "(string \<times> nat) list \<Rightarrow> media_section list \<Rightarrow> bool" where
  "index_ok idx ss = (\<forall>mid i. map_of idx mid = Some i \<longleftrightarrow> i < length ss \<and> sec_mid (ss ! i) = mid)"

definition remote_ok :: "remote_sdp \<Rightarrow> bool" where
  "remote_ok st = (sections_ok (mediaSections st) \<and> index_ok (midToIndex st) (mediaSections st)
     \<and> firstMid st = (case mediaSections st of [] \<Rightarrow> [] | s # _ \<Rightarrow> sec_mid s)
     \<and> media_shown (mediaSections st) (sdpObject st) \<and> bundle_group (sdpObject st)
     \<and> bundled (sdpObject st) = Some (join (open_mids (mediaSections st)) (CHR '' ''))
     \<and> versioned (sdpObject st))"

section \<open>Contracts of the methods of a section\<close>

locale section_op =
  fixes upd :: "media_section \<Rightarrow> media_section res"
  assumes keeps: "section_ok s \<Longrightarrow> upd s = Inr s' \<Longrightarrow> section_ok s' \<and> sec_mid s' = sec_mid s"
begin

lemma list_update_mids:
  "list_all section_ok ss \<Longrightarrow> i < length ss \<Longrightarrow> upd (ss ! i) = Inr s' \<Longrightarrow>
     list_all section_ok (ss[i := s']) \<and> map sec_mid (ss[i := s']) = map sec_mid ss"
  using keeps [of "ss ! i" s']
  by (auto simp: list_all_length nth_list_update map_update list_update_same_conv)

end

locale section_update = section_op +
  assumes keeps_port: "section_ok s \<Longrightarrow> upd s = Inr s' \<Longrightarrow> sec_closed s' = sec_closed s"
begin

lemma all_kept:
  "list_all2 (\<lambda>s s'. upd s = Inr s') ss ss' \<Longrightarrow> list_all section_ok ss \<Longrightarrow>
     list_all section_ok ss' \<and> map sec_mid ss' = map sec_mid ss \<and> map sec_closed ss' = map sec_closed ss"
  by (induction rule: list_all2_induct) (auto dest: keeps keeps_port)

end

locale section_close = section_op +
  assumes closes: "section_ok s \<Longrightarrow> upd s = Inr s' \<Longrightarrow> sec_closed s'"

text \<open>A method that keeps the frame of the object is an update.\<close>

lemma section_updateI:
  assumes "\<And>s s'. section_ok s \<Longrightarrow> upd s = Inr s' \<Longrightarrow>
    \<exists>j. s' = s \<lparr> mediaObject := j \<rparr> \<and> frame (mediaObject s) j"
  shows "section_update upd"
  by unfold_locales (use assms frame_section in blast)+

lemma SetIceParameters_frame:
  assumes "section_ok s" "SetIceParameters ice s = Inr s'"
  shows "\<exists>j. s' = s \<lparr> mediaObject := j \<rparr> \<and> frame (mediaObject s) j"
proof -
  obtain j where j: "ice_fields ice (mediaObject s) = Inr j" "s' = s \<lparr> mediaObject := j \<rparr>"
    using assms(2) by (auto simp: SetIceParameters_def res_simps)
  have "frame (mediaObject s) j"
    using j(1) section_object [OF assms(1)]
    by (auto simp: ice_fields_def res_simps framed_simps intro!: frame_trans [OF put_frame put_frame])
  with j(2) show ?thesis by blast
qed

lemma SetDtlsRole_frame:
  assumes "section_ok s" "SetDtlsRole role s = Inr s'"
  shows "\<exists>j. s' = s \<lparr> mediaObject := j \<rparr> \<and> frame (mediaObject s) j"
proof -
  obtain fs j where "jputs fs (mediaObject s) = Inr j" "s' = s \<lparr> mediaObject := j \<rparr>"
      "list_all (\<lambda>p. fst p \<notin> set framed) fs"
    using assms(2) by (fastforce simp: SetDtlsRole_def res_simps framed_simps split: section_class.splits)
  then show ?thesis using jputs_frame section_object [OF assms(1)] by blast
qed

lemma Disable_frame:
  assumes "section_ok s" "Disable s = Inr s'"
  shows "\<exists>j. s' = s \<lparr> mediaObject := j \<rparr> \<and> frame (mediaObject s) j"
proof -
  obtain j j' where j: "jset (mediaObject s) ''direction'' (JString ''inactive'') = Inr j"
      "jerases disabled_fields j = Inr j'" "s' = s \<lparr> mediaObject := j' \<rparr>"
    using assms(2) by (auto simp: Disable_def res_simps)
  have 1: "frame (mediaObject s) j" by (rule jset_frame [OF j(1)]) (simp add: framed_simps)
  have "frame j j'" by (rule jerases_frame [OF j(2) frame_object [OF 1]]) (simp add: framed_simps)
  with 1 j(3) show ?thesis using frame_trans by blast
qed

interpretation ice: section_update "SetIceParameters ice" for ice
  by (rule section_updateI) (rule SetIceParameters_frame)

interpretation role: section_update "SetDtlsRole role" for role
  by (rule section_updateI) (rule SetDtlsRole_frame)

interpretation disabling: section_update Disable
  by (rule section_updateI) (rule Disable_frame)

interpretation closing: section_close Close
proof unfold_locales
  fix s s'
  assume s: "section_ok s" and c: "Close s = Inr s'"
  obtain j j' where j: "jputs [(''direction'', JString ''inactive''), (''port'', JInt 0)] (mediaObject s) = Inr j"
      "jerases (disabled_fields @ [''extmapAllowMixed'']) j = Inr j'" "s' = s \<lparr> mediaObject := j' \<rparr>"
    using c by (auto simp: Close_def res_simps)
  have "frame j j'"
    using jerases_frame [OF j(2)] jputs_object [OF j(1) section_object [OF s]] by (simp add: framed_simps)
  then have "jfind j' ''mid'' = jfind (mediaObject s) ''mid''" "jfind j' ''port'' = Some (JInt 0)"
    using jputs_find [OF j(1)] by (auto simp: frame_def framed_def)
  with s show "section_ok s' \<and> sec_mid s' = sec_mid s" "sec_closed s'"
    by (auto simp: j(3) section_ok_def sec_mid_def sec_closed_def has_def)
qed

text \<open>\<open>Disable\<close> and \<open>Close\<close> return on every section.\<close>

lemma jerases_total: "is_object j \<Longrightarrow> \<exists>j'. jerases ks j = Inr j' \<and> is_object j'"
  unfolding jerases_def by (rule foldE_total) auto

lemma jputs_total: "is_object j \<Longrightarrow> \<exists>j'. jputs ps j = Inr j' \<and> is_object j'"
  unfolding jputs_def by (rule foldE_total) auto

lemma Disable_total: "section_ok s \<Longrightarrow> \<exists>s'. Disable s = Inr s'"
  using jerases_total [of "put ''direction'' (JString ''inactive'') (mediaObject s)" disabled_fields]
  by (auto simp: Disable_def dest!: section_object)

lemma Close_total: "section_ok s \<Longrightarrow> \<exists>s'. Close s = Inr s'"
proof -
  assume "section_ok s"
  then obtain j where j: "jputs [(''direction'', JString ''inactive''), (''port'', JInt 0)] (mediaObject s) = Inr j"
      "is_object j"
    using jputs_total [OF section_object] by blast
  then obtain j' where "jerases (disabled_fields @ [''extmapAllowMixed'']) j = Inr j'"
    using jerases_total by blast
  with j show ?thesis by (simp add: Close_def)
qed

lemma Disable_shown:
  assumes "section_ok s" "Disable s = Inr s'" "shown m s"
  shows "shown m s'"
proof -
  obtain j j' where j: "jset (mediaObject s) ''direction'' (JString ''inactive'') = Inr j"
      "jerases disabled_fields j = Inr j'" "s' = s \<lparr> mediaObject := j' \<rparr>"
    using assms(2) by (auto simp: Disable_def res_simps)
  have "jfind i' k = jfind i k" if "jerases ks i = Inr i'" "k \<notin> set ks" for ks i i' k
    using that
  proof (induction ks arbitrary: i)
    case (Cons l ks)
    then obtain i1 where "jerase i l = Inr i1" "jerases ks i1 = Inr i'"
      by (auto simp: jerases_def res_simps)
    with Cons show ?case using jerase_Inr_find [of i l i1 k] by simp
  qed (simp add: jerases_def)
  from this [OF j(2)] have "jfind j' k = jfind (mediaObject s) k" if "k \<notin> set stale_keys" for k
    using that jset_Inr_find [OF j(1), of k] by (simp add: stale_keys_def)
  with assms(3) j(3) show ?thesis by (auto simp: shown_def)
qed

end
