(* ===== verification/RemoteOps.thy ===== *)
theory RemoteOps
  imports RemoteInv
begin

text \<open>
  Each operation of the remote description on states that satisfy the invariant: that it
  returns, that it keeps the invariant, and what it does to the list of the sections.
\<close>

section \<open>The SDP object\<close>

definition same_but :: "string \<Rightarrow> json \<Rightarrow> json \<Rightarrow> bool" where
  "same_but k sdp sdp' = (is_object sdp' \<and> (\<forall>l. l \<noteq> k \<longrightarrow> jfind sdp' l = jfind sdp l))"

lemma same_but_put: "is_object sdp \<Longrightarrow> same_but k sdp (put k v sdp)"
  by (simp add: same_but_def jfind_put)

lemma same_but_trans: "same_but k i j \<Longrightarrow> same_but k j l \<Longrightarrow> same_but k i l"
  by (simp add: same_but_def)

lemma groups_cong:
  "jfind sdp' ''groups'' = jfind sdp ''groups'' \<Longrightarrow> bundle_group sdp' = bundle_group sdp \<and> bundled sdp' = bundled sdp"
  by (simp add: bundle_group_def bundled_def has_def)

lemma versioned_cong: "jfind sdp' ''origin'' = jfind sdp ''origin'' \<Longrightarrow> versioned sdp' = versioned sdp"
  by (simp add: versioned_def has_def)

lemma media_shown_cong: "jfind sdp' ''media'' = jfind sdp ''media'' \<Longrightarrow> media_shown ss sdp' = media_shown ss sdp"
  by (simp add: media_shown_def has_def)

lemma shown_self: "section_ok s \<Longrightarrow> shown (mediaObject s) s"
  by (simp add: shown_def section_object)

lemma media_shown_iff:
  "media_shown ss sdp \<longleftrightarrow> (\<exists>ms. jfind sdp ''media'' = Some (JArray ms) \<and> list_all2 shown ms ss)"
  by (auto simp: media_shown_def has_def split: option.splits json.splits)

lemma jnth_set_in: "i < length xs \<Longrightarrow> jnth_set (JArray xs) i v = Inr (JArray (xs[i := v]))"
  by (simp add: jnth_set_def jnth_ref_def)

lemma set_media_ok:
  assumes "media_shown ss sdp" "i < length ss" "shown obj s'"
  obtains sdp' where "set_media i obj sdp = Inr sdp'" "media_shown (ss[i := s']) sdp'"
    "same_but ''media'' sdp sdp'"
proof -
  obtain ms where ms: "jfind sdp ''media'' = Some (JArray ms)" "list_all2 shown ms ss"
    using assms(1) by (auto simp: media_shown_iff)
  have o: "is_object sdp" using ms(1) by (rule jfind_Some_object)
  let ?sdp = "put ''media'' (JArray (ms[i := obj])) sdp"
  have "i < length ms" using ms(2) assms(2) by (simp add: list_all2_lengthD)
  then have "set_media i obj sdp = Inr ?sdp"
    by (simp add: set_media_def ms(1) jnth_set_in o)
  moreover have "list_all2 shown (ms[i := obj]) (ss[i := s'])"
    by (rule list_all2_update_cong [OF ms(2) assms(3)])
  then have "media_shown (ss[i := s']) ?sdp" by (simp add: media_shown_iff jfind_put)
  ultimately show thesis using that same_but_put [OF o] by blast
qed

lemma append_media_ok:
  assumes "media_shown ss sdp" "shown obj s'"
  obtains sdp' where "jappend ''media'' obj sdp = Inr sdp'" "media_shown (ss @ [s']) sdp'"
    "same_but ''media'' sdp sdp'"
proof -
  obtain ms where ms: "jfind sdp ''media'' = Some (JArray ms)" "list_all2 shown ms ss"
    using assms(1) by (auto simp: media_shown_iff)
  have o: "is_object sdp" using ms(1) by (rule jfind_Some_object)
  let ?sdp = "put ''media'' (JArray (ms @ [obj])) sdp"
  have "jappend ''media'' obj sdp = Inr ?sdp" by (simp add: jappend_def ms(1) o)
  moreover have "media_shown (ss @ [s']) ?sdp"
    using ms(2) assms(2) by (simp add: media_shown_iff jfind_put list_all2_appendI)
  ultimately show thesis using that same_but_put [OF o] by blast
qed

section \<open>The BUNDLE group\<close>

lemma join_Cons: "join (x # xs) d = (if xs = [] then x else x @ d # join xs d)"
  by (cases xs) simp_all

lemma open_mids_cong:
  "map sec_mid ss' = map sec_mid ss \<Longrightarrow> map sec_closed ss' = map sec_closed ss \<Longrightarrow> open_mids ss' = open_mids ss"
proof (induction ss arbitrary: ss')
  case (Cons s ss)
  then obtain t ts where ss': "ss' = t # ts" "sec_mid t = sec_mid s" "sec_closed t = sec_closed s"
      "map sec_mid ts = map sec_mid ss" "map sec_closed ts = map sec_closed ss" by auto
  with Cons.IH [of ts] show ?case by (simp add: open_mids_def)
qed simp

lemma bundle_mids_ok:
  "list_all section_ok ss \<Longrightarrow> bundle_mids ss acc =
     Inr (if acc = [] then join (open_mids ss) (CHR '' '')
          else if open_mids ss = [] then acc else acc @ '' '' @ join (open_mids ss) (CHR '' ''))"
  by (induction ss arbitrary: acc) (auto simp: section_simps open_mids_def sec_mid_nonempty join_Cons)

text \<open>The state after \<open>RegenerateBundleMids\<close> differs in the SDP object only.\<close>

lemma RegenerateBundleMids_ok:
  assumes "list_all section_ok (mediaSections st)" "bundle_group (sdpObject st)"
  obtains sdp where "RegenerateBundleMids st = Inr (st \<lparr> sdpObject := sdp \<rparr>)"
    "same_but ''groups'' (sdpObject st) sdp" "bundle_group sdp"
    "bundled sdp = Some (join (open_mids (mediaSections st)) (CHR '' ''))"
proof -
  obtain g gs where g: "jfind (sdpObject st) ''groups'' = Some (JArray (g # gs))" "is_object g"
    using assms(2) by (auto simp: bundle_group_def has_def split: option.splits json.splits list.splits)
  have o: "is_object (sdpObject st)" using g(1) by (rule jfind_Some_object)
  let ?t = "JString (join (open_mids (mediaSections st)) (CHR '' ''))"
  let ?sdp = "put ''groups'' (JArray (put ''mids'' ?t g # gs)) (sdpObject st)"
  have "RegenerateBundleMids st = Inr (st \<lparr> sdpObject := ?sdp \<rparr>)"
    using bundle_mids_ok [OF assms(1), of "[]"]
    by (simp add: RegenerateBundleMids_def g o jnth_ref_def jnth_set_def)
  moreover have "bundle_group ?sdp" "bundled ?sdp = Some (join (open_mids (mediaSections st)) (CHR '' ''))"
    by (simp_all add: bundle_group_def bundled_def has_put jfind_put)
  ultimately show thesis using that same_but_put [OF o] by blast
qed

section \<open>The index\<close>

lemma index_of_ok: "index_ok (midToIndex st) (mediaSections st) \<Longrightarrow> i < length (mediaSections st) \<Longrightarrow>
    index_of (sec_mid (mediaSections st ! i)) st = (i, st)"
  unfolding index_ok_def index_of_def by (metis (lifting) option.simps(5))

lemma sec_mid_index: "m \<in> sec_mid ` set ss \<Longrightarrow> \<exists>i < length ss. sec_mid (ss ! i) = m"
  by (auto simp: in_set_conv_nth)

lemma index_ok_append:
  assumes "index_ok idx ss" "sec_mid s \<notin> sec_mid ` set ss"
  shows "index_ok (aset (sec_mid s) (length ss) idx) (ss @ [s])"
proof -
  have "sec_mid (ss ! i) \<noteq> sec_mid s" if "i < length ss" for i
    using assms(2) that by (metis image_eqI nth_mem)
  then show ?thesis
    using assms(1) by (auto simp: index_ok_def map_simps nth_append less_Suc_eq)
qed

lemma index_ok_mids: "map sec_mid ss' = map sec_mid ss \<Longrightarrow> index_ok idx ss' = index_ok idx ss"
  unfolding index_ok_def by (metis length_map nth_map)

lemma index_ok_replace:
  assumes "index_ok idx ss" "i < length ss" "distinct (map sec_mid ss)"
    "sec_mid s \<notin> sec_mid ` (set ss - {ss ! i})"
  shows "index_ok (aset (sec_mid s) i (adel (sec_mid (ss ! i)) idx)) (ss[i := s])"
proof -
  have ne: "sec_mid (ss ! j) \<noteq> sec_mid s \<and> sec_mid (ss ! j) \<noteq> sec_mid (ss ! i)" if "j < length ss" "j \<noteq> i" for j
  proof -
    have d: "sec_mid (ss ! j) \<noteq> sec_mid (ss ! i)"
      using assms(2,3) that by (metis length_map nth_eq_iff_index_eq nth_map)
    then have "ss ! j \<in> set ss - {ss ! i}" using that by auto
    with assms(4) d show ?thesis by (metis image_eqI)
  qed
  show ?thesis
    unfolding index_ok_def
  proof (intro allI)
    fix m k
    show "map_of (aset (sec_mid s) i (adel (sec_mid (ss ! i)) idx)) m = Some k \<longleftrightarrow>
        k < length (ss[i := s]) \<and> sec_mid (ss[i := s] ! k) = m"
      using assms(1,2) ne [of k] unfolding index_ok_def
      by (cases "k = i") (auto simp: map_simps)
  qed
qed

section \<open>Adding and replacing\<close>

lemma remote_okD:
  assumes "remote_ok st"
  shows "list_all section_ok (mediaSections st)" "distinct (map sec_mid (mediaSections st))"
    "index_ok (midToIndex st) (mediaSections st)" "media_shown (mediaSections st) (sdpObject st)"
    "bundle_group (sdpObject st)" "versioned (sdpObject st)"
  using assms by (simp_all add: remote_ok_def sections_ok_def)

lemma AddMediaSection_ok:
  assumes ok: "remote_ok st" and s: "section_ok s" "\<not> sec_closed s"
    and fresh: "sec_mid s \<notin> sec_mid ` set (mediaSections st)"
  obtains st' where "AddMediaSection s st = Inr st'" "remote_ok st'"
    "mediaSections st' = mediaSections st @ [s]"
proof -
  let ?ss = "mediaSections st @ [s]"
  obtain sdp where sdp: "jappend ''media'' (mediaObject s) (sdpObject st) = Inr sdp"
      "media_shown ?ss sdp" "same_but ''media'' (sdpObject st) sdp"
    by (rule append_media_ok [OF remote_okD(4) [OF ok] shown_self [OF s(1)]])
  let ?st = "st \<lparr> firstMid := (if firstMid st = [] then sec_mid s else firstMid st),
      midToIndex := aset (sec_mid s) (length (mediaSections st)) (midToIndex st),
      mediaSections := ?ss, sdpObject := sdp \<rparr>"
  have all: "list_all section_ok (mediaSections ?st)" using remote_okD(1) [OF ok] s by simp
  have "bundle_group (sdpObject ?st)"
    using groups_cong [of sdp "sdpObject st"] sdp(3) remote_okD(5) [OF ok] by (simp add: same_but_def)
  then obtain sdp' where r: "RegenerateBundleMids ?st = Inr (?st \<lparr> sdpObject := sdp' \<rparr>)"
      "same_but ''groups'' sdp sdp'" "bundle_group sdp'"
      "bundled sdp' = Some (join (open_mids ?ss) (CHR '' ''))"
    using RegenerateBundleMids_ok [OF all] by auto
  have keep: "media_shown ?ss sdp'" "versioned sdp'"
    using r(2) sdp(2,3) remote_okD(6) [OF ok] media_shown_cong [of sdp' sdp ?ss]
      versioned_cong [of sdp' "sdpObject st"] by (simp_all add: same_but_def)
  have "remote_ok (?st \<lparr> sdpObject := sdp' \<rparr>)"
    using ok s fresh keep r(3,4) index_ok_append [OF remote_okD(3) [OF ok] fresh] sec_mid_nonempty
    by (auto simp: remote_ok_def sections_ok_def hd_append split: list.splits)
  moreover have "AddMediaSection s st = Inr (?st \<lparr> sdpObject := sdp' \<rparr>)"
    using r(1) by (simp add: AddMediaSection_def GetMid_ok [OF s(1)] sdp(1))
  ultimately show thesis using that by simp
qed

text \<open>What the operations that write one section of the list share.\<close>

lemma write_section_ok:
  assumes ok: "remote_ok st" and i: "i < length (mediaSections st)" and s: "section_ok s"
    and ss: "sections_ok ((mediaSections st)[i := s])"
      "index_ok idx ((mediaSections st)[i := s])" "i = 0 \<longrightarrow> sec_mid s = firstMid st"
  obtains sdp sdp' where "set_media i (mediaObject s) (sdpObject st) = Inr sdp"
    "RegenerateBundleMids (st \<lparr> mediaSections := (mediaSections st)[i := s], midToIndex := idx, sdpObject := sdp \<rparr>)
      = Inr (st \<lparr> mediaSections := (mediaSections st)[i := s], midToIndex := idx, sdpObject := sdp' \<rparr>)"
    "remote_ok (st \<lparr> mediaSections := (mediaSections st)[i := s], midToIndex := idx, sdpObject := sdp' \<rparr>)"
proof -
  let ?ss = "(mediaSections st)[i := s]"
  obtain sdp where sdp: "set_media i (mediaObject s) (sdpObject st) = Inr sdp"
      "media_shown ?ss sdp" "same_but ''media'' (sdpObject st) sdp"
    by (rule set_media_ok [OF remote_okD(4) [OF ok] i shown_self [OF s]])
  let ?st = "st \<lparr> mediaSections := ?ss, midToIndex := idx, sdpObject := sdp \<rparr>"
  have "bundle_group (sdpObject ?st)"
    using groups_cong [of sdp "sdpObject st"] sdp(3) remote_okD(5) [OF ok] by (simp add: same_but_def)
  then obtain sdp' where r: "RegenerateBundleMids ?st = Inr (?st \<lparr> sdpObject := sdp' \<rparr>)"
      "same_but ''groups'' sdp sdp'" "bundle_group sdp'"
      "bundled sdp' = Some (join (open_mids ?ss) (CHR '' ''))"
    using RegenerateBundleMids_ok [of ?st] ss(1) by (auto simp: sections_ok_def)
  have keep: "media_shown ?ss sdp'" "versioned sdp'"
    using r(2) sdp(2,3) remote_okD(6) [OF ok] media_shown_cong [of sdp' sdp ?ss]
      versioned_cong [of sdp' "sdpObject st"] by (simp_all add: same_but_def)
  have "firstMid st = (case ?ss of [] \<Rightarrow> [] | s # _ \<Rightarrow> sec_mid s)"
    using ok ss(3) by (cases "mediaSections st"; cases i) (auto simp: remote_ok_def)
  then have "remote_ok (?st \<lparr> sdpObject := sdp' \<rparr>)"
    using ss(1,2) keep r(3,4) by (simp add: remote_ok_def)
  then show thesis using that [OF sdp(1), of sdp'] r(1) by simp
qed

lemma sections_ok_update:
  assumes "sections_ok ss" "section_ok s" "distinct (map sec_mid (ss[i := s]))" "i = 0 \<longrightarrow> \<not> sec_closed s"
  shows "sections_ok (ss[i := s])"
  using assms by (cases ss; cases i)
    (auto simp: sections_ok_def list_all_iff dest: set_update_subset_insert [THEN subsetD])

lemma ReplaceMediaSection_ok:
  assumes ok: "remote_ok st" and i: "i < length (mediaSections st)" "sec_closed (mediaSections st ! i)"
    and s: "section_ok s" "\<not> sec_closed s"
    and fresh: "sec_mid s \<notin> sec_mid ` (set (mediaSections st) - {mediaSections st ! i})"
  obtains st' where "ReplaceMediaSection s (sec_mid (mediaSections st ! i)) st = Inr st'" "remote_ok st'"
    "mediaSections st' = (mediaSections st)[i := s]"
proof -
  let ?old = "mediaSections st ! i"
  let ?ss = "(mediaSections st)[i := s]"
  let ?idx = "aset (sec_mid s) i (adel (sec_mid ?old) (midToIndex st))"
  have old: "section_ok ?old" using remote_okD(1) [OF ok] i by (simp add: list_all_length)
  have i0: "i \<noteq> 0" using ok i by (cases "mediaSections st") (auto simp: remote_ok_def sections_ok_def)
  have idx: "index_ok ?idx ?ss"
    by (rule index_ok_replace [OF remote_okD(3) [OF ok] i(1) remote_okD(2) [OF ok] fresh])
  have "distinct (map sec_mid ?ss)"
    unfolding distinct_conv_nth using idx unfolding index_ok_def
    by (metis length_map nth_map option.inject)
  then have ss: "sections_ok ?ss"
    using sections_ok_update ok s by (simp add: remote_ok_def)
  obtain sdp sdp' where w: "set_media i (mediaObject s) (sdpObject st) = Inr sdp"
      "RegenerateBundleMids (st \<lparr> mediaSections := ?ss, midToIndex := ?idx, sdpObject := sdp \<rparr>)
        = Inr (st \<lparr> mediaSections := ?ss, midToIndex := ?idx, sdpObject := sdp' \<rparr>)"
      "remote_ok (st \<lparr> mediaSections := ?ss, midToIndex := ?idx, sdpObject := sdp' \<rparr>)"
    by (rule write_section_ok [OF ok i(1) s(1) ss idx]) (use i0 that in auto)
  have "ReplaceMediaSection s (sec_mid ?old) st
      = Inr (st \<lparr> mediaSections := ?ss, midToIndex := ?idx, sdpObject := sdp' \<rparr>)"
    using w(1,2) i(1) index_of_ok [OF remote_okD(3) [OF ok] i(1)]
    by (simp add: ReplaceMediaSection_def sec_mid_nonempty [OF old] section_at_def GetMid_ok old s(1))
  with w(3) show thesis using that by simp
qed

section \<open>Closing and disabling\<close>

lemma firstMid_iff:
  assumes "remote_ok st" "i < length (mediaSections st)"
  shows "sec_mid (mediaSections st ! i) = firstMid st \<longleftrightarrow> i = 0"
proof -
  have "firstMid st = sec_mid (mediaSections st ! 0)"
    using assms by (cases "mediaSections st") (auto simp: remote_ok_def)
  moreover have "map sec_mid (mediaSections st) ! i = map sec_mid (mediaSections st) ! 0 \<longleftrightarrow> i = 0"
    using assms(2) by (intro nth_eq_iff_index_eq remote_okD(2) [OF assms(1)]) (auto simp del: nth_map)
  ultimately show ?thesis using assms(2) by (cases "mediaSections st") auto
qed

lemma CloseMediaSection_ok:
  assumes ok: "remote_ok st" and i: "i < length (mediaSections st)"
  obtains st' s where "CloseMediaSection (sec_mid (mediaSections st ! i)) st = Inr st'" "remote_ok st'"
    "mediaSections st' = (mediaSections st)[i := s]"
    "(if i = 0 then Disable else Close) (mediaSections st ! i) = Inr s"
proof -
  let ?old = "mediaSections st ! i"
  have old: "section_ok ?old" using remote_okD(1) [OF ok] i by (simp add: list_all_length)
  obtain s where s: "(if i = 0 then Disable else Close) ?old = Inr s"
    using Disable_total [OF old] Close_total [OF old] by (cases "i = 0") auto
  have k: "section_ok s" "sec_mid s = sec_mid ?old" "i = 0 \<longrightarrow> sec_closed s = sec_closed ?old"
    using s disabling.keeps [OF old, of s] closing.keeps [OF old, of s] disabling.keeps_port [OF old, of s]
    by (auto split: if_splits)
  let ?ss = "(mediaSections st)[i := s]"
  have m: "map sec_mid ?ss = map sec_mid (mediaSections st)"
    using k(2) i by (simp add: map_update list_update_same_conv)
  have op: "i = 0 \<longrightarrow> \<not> sec_closed s"
    using ok k(3) i by (cases "mediaSections st") (auto simp: remote_ok_def sections_ok_def)
  have ss: "sections_ok ?ss"
    by (rule sections_ok_update) (use ok k(1) op m remote_okD(2) [OF ok] in \<open>simp_all add: remote_ok_def\<close>)
  have idx: "index_ok (midToIndex st) ?ss" using index_ok_mids [OF m] remote_okD(3) [OF ok] by simp
  obtain sdp sdp' where w: "set_media i (mediaObject s) (sdpObject st) = Inr sdp"
      "RegenerateBundleMids (st \<lparr> mediaSections := ?ss, midToIndex := midToIndex st, sdpObject := sdp \<rparr>)
        = Inr (st \<lparr> mediaSections := ?ss, midToIndex := midToIndex st, sdpObject := sdp' \<rparr>)"
      "remote_ok (st \<lparr> mediaSections := ?ss, midToIndex := midToIndex st, sdpObject := sdp' \<rparr>)"
    by (rule write_section_ok [OF ok i k(1) ss idx]) (use k(2) firstMid_iff [OF ok i] that in auto)
  have "(if sec_mid ?old = firstMid st then Disable ?old else Close ?old) = Inr s"
    using s firstMid_iff [OF ok i] by auto
  then have "CloseMediaSection (sec_mid ?old) st = Inr (st \<lparr> mediaSections := ?ss, sdpObject := sdp' \<rparr>)"
    using w(1,2) i index_of_ok [OF remote_okD(3) [OF ok] i]
    by (simp add: CloseMediaSection_def section_at_def)
  with w(3) s show thesis using that by simp
qed

lemma DisableMediaSection_ok:
  assumes ok: "remote_ok st" and i: "i < length (mediaSections st)"
  obtains s where "DisableMediaSection (sec_mid (mediaSections st ! i)) st
      = Inr (st \<lparr> mediaSections := (mediaSections st)[i := s] \<rparr>)"
    "remote_ok (st \<lparr> mediaSections := (mediaSections st)[i := s] \<rparr>)" "Disable (mediaSections st ! i) = Inr s"
proof -
  let ?old = "mediaSections st ! i"
  have old: "section_ok ?old" using remote_okD(1) [OF ok] i by (simp add: list_all_length)
  obtain s where s: "Disable ?old = Inr s" using Disable_total [OF old] by auto
  have k: "section_ok s" "sec_mid s = sec_mid ?old" "sec_closed s = sec_closed ?old"
    using disabling.keeps [OF old s] disabling.keeps_port [OF old s] by auto
  let ?ss = "(mediaSections st)[i := s]"
  have m: "map sec_mid ?ss = map sec_mid (mediaSections st)" "map sec_closed ?ss = map sec_closed (mediaSections st)"
    using k i by (simp_all add: map_update list_update_same_conv)
  have op: "i = 0 \<longrightarrow> \<not> sec_closed s"
    using ok k(3) i by (cases "mediaSections st") (auto simp: remote_ok_def sections_ok_def)
  have ss: "sections_ok ?ss"
    by (rule sections_ok_update) (use ok k(1) op m(1) remote_okD(2) [OF ok] in \<open>simp_all add: remote_ok_def\<close>)
  have "open_mids ?ss = open_mids (mediaSections st)"
    using m by (rule open_mids_cong)
  moreover obtain ms where ms: "jfind (sdpObject st) ''media'' = Some (JArray ms)" "list_all2 shown ms (mediaSections st)"
    using remote_okD(4) [OF ok] by (auto simp: media_shown_iff)
  have "shown (ms ! i) s" using Disable_shown [OF old s] ms(2) i by (simp add: list_all2_conv_all_nth)
  then have "list_all2 shown ms ?ss"
    using ms(2) i by (auto simp: list_all2_conv_all_nth nth_list_update)
  then have "media_shown ?ss (sdpObject st)" using ms(1) by (simp add: media_shown_iff)
  moreover have "firstMid st = (case ?ss of [] \<Rightarrow> [] | s # _ \<Rightarrow> sec_mid s)"
    using ok k(2) i by (cases "mediaSections st"; cases i) (auto simp: remote_ok_def)
  ultimately have "remote_ok (st \<lparr> mediaSections := ?ss \<rparr>)"
    using ok ss index_ok_mids [OF m(1)] by (simp add: remote_ok_def)
  moreover have "DisableMediaSection (sec_mid ?old) st = Inr (st \<lparr> mediaSections := ?ss \<rparr>)"
    using i s index_of_ok [OF remote_okD(3) [OF ok] i] by (simp add: DisableMediaSection_def section_at_def)
  ultimately show thesis using that s by blast
qed

section \<open>Updating all sections\<close>

context section_update
begin

lemma update_sections_ok:
  assumes "update_sections upd ss n sdp = Inr (ss', sdp')" "n = length pre"
    "media_shown (pre @ ss) sdp" "list_all section_ok ss" "is_object sdp"
  shows "list_all2 (\<lambda>s s'. upd s = Inr s') ss ss' \<and> media_shown (pre @ ss') sdp' \<and> same_but ''media'' sdp sdp'"
  using assms
proof (induction ss arbitrary: pre n sdp ss')
  case (Cons s ss)
  obtain s1 sdp1 ss1 where u: "upd s = Inr s1" "set_media n (mediaObject s1) sdp = Inr sdp1"
      "update_sections upd ss (n + 1) sdp1 = Inr (ss1, sdp')" "ss' = s1 # ss1"
    using Cons.prems(1) by (auto simp: res_simps)
  have s1: "section_ok s1" using keeps u(1) Cons.prems(4) by auto
  have n: "n < length (pre @ s # ss)" using Cons.prems(2) by simp
  obtain sdp2 where "set_media n (mediaObject s1) sdp = Inr sdp2"
      "media_shown ((pre @ s # ss)[n := s1]) sdp2" "same_but ''media'' sdp sdp2"
    by (rule set_media_ok [OF Cons.prems(3) n shown_self [OF s1]])
  then have sdp1: "media_shown ((pre @ [s1]) @ ss) sdp1" "same_but ''media'' sdp sdp1"
    using u(2) Cons.prems(2) by simp_all
  have "list_all2 (\<lambda>s s'. upd s = Inr s') ss ss1 \<and> media_shown ((pre @ [s1]) @ ss1) sdp'
      \<and> same_but ''media'' sdp1 sdp'"
    by (rule Cons.IH [OF u(3) _ sdp1(1)]) (use Cons.prems(2,4) sdp1(2) in \<open>simp_all add: same_but_def\<close>)
  with u(1,4) sdp1(2) show ?case using same_but_trans by auto
qed (auto simp: same_but_def)

lemma update_all_ok:
  assumes ok: "remote_ok st" and u: "update_all upd st = Inr st'"
  shows "remote_ok st' \<and> map sec_mid (mediaSections st') = map sec_mid (mediaSections st)
    \<and> map sec_closed (mediaSections st') = map sec_closed (mediaSections st)"
proof -
  obtain sdp ss sdp' where s: "ice_lite (iceParameters st) (sdpObject st) = Inr sdp"
      "update_sections upd (mediaSections st) 0 sdp = Inr (ss, sdp')"
      "st' = st \<lparr> mediaSections := ss, sdpObject := sdp' \<rparr>"
    using u by (auto simp: update_all_def res_simps)
  have o: "is_object (sdpObject st)"
    using remote_okD(4) [OF ok] by (auto simp: media_shown_iff dest: jfind_Some_object)
  have sdp: "same_but ''icelite'' (sdpObject st) sdp"
    using s(1) o same_but_put [OF o] by (auto simp: ice_lite_def same_but_def split: if_splits)
  have "media_shown (mediaSections st) sdp"
    using sdp remote_okD(4) [OF ok] media_shown_cong [of sdp "sdpObject st"] by (simp add: same_but_def)
  then have upd: "list_all2 (\<lambda>s s'. upd s = Inr s') (mediaSections st) ss" "media_shown ss sdp'"
      "same_but ''media'' sdp sdp'"
    using update_sections_ok [OF s(2), of "[]"] remote_okD(1) [OF ok] sdp by (auto simp: same_but_def)
  have kept: "list_all section_ok ss" "map sec_mid ss = map sec_mid (mediaSections st)"
      "map sec_closed ss = map sec_closed (mediaSections st)"
    using all_kept [OF upd(1) remote_okD(1) [OF ok]] by auto
  have "bundle_group sdp' = bundle_group (sdpObject st) \<and> bundled sdp' = bundled (sdpObject st)"
    "versioned sdp' = versioned (sdpObject st)"
    using sdp upd(3) by (auto intro!: groups_cong versioned_cong simp: same_but_def)
  moreover have "sections_ok ss" "firstMid st = (case ss of [] \<Rightarrow> [] | s # _ \<Rightarrow> sec_mid s)"
    using ok kept by (cases ss; cases "mediaSections st"; simp add: remote_ok_def sections_ok_def)+
  ultimately have "remote_ok st'"
    using ok upd(2) open_mids_cong [OF kept(2,3)] index_ok_mids [OF kept(2)]
    by (simp add: remote_ok_def s(3))
  with kept show ?thesis by (simp add: s(3))
qed

end

lemma remote_ok_params:
  "remote_ok (st \<lparr> iceParameters := i \<rparr>) = remote_ok st" "remote_ok (st \<lparr> dtlsParameters := d \<rparr>) = remote_ok st"
  by (simp_all add: remote_ok_def)

lemma UpdateIceParameters_ok:
  "remote_ok st \<Longrightarrow> UpdateIceParameters i st = Inr st' \<Longrightarrow>
     remote_ok st' \<and> map sec_mid (mediaSections st') = map sec_mid (mediaSections st)
     \<and> map sec_closed (mediaSections st') = map sec_closed (mediaSections st)"
  using ice.update_all_ok [of "st \<lparr> iceParameters := i \<rparr>"]
  by (simp add: UpdateIceParameters_def remote_ok_params)

lemma UpdateDtlsRole_ok:
  "remote_ok st \<Longrightarrow> UpdateDtlsRole r st = Inr st' \<Longrightarrow>
     remote_ok st' \<and> map sec_mid (mediaSections st') = map sec_mid (mediaSections st)
     \<and> map sec_closed (mediaSections st') = map sec_closed (mediaSections st)"
  using role.update_all_ok [of "st \<lparr> dtlsParameters := d \<rparr>" for d]
  by (auto simp: UpdateDtlsRole_def remote_ok_params res_simps)

end
