(* ===== verification/RemoteSteps.thy ===== *)
theory RemoteSteps
  imports RemoteOps OrtcReceive
begin

text \<open>
  The operations of the remote description that place new sections and that write the SDP, the
  abstract machine that the description refines, and the steps of its clients.
\<close>

section \<open>Writing\<close>

definition version_of :: "json \<Rightarrow> 32 word" where
  "version_of sdp = (case jfind sdp ''origin'' of
     Some o' \<Rightarrow> (case jfind o' ''sessionVersion'' of
         Some v \<Rightarrow> (case get_uint v of Inr w \<Rightarrow> w | Inl _ \<Rightarrow> 0) | None \<Rightarrow> 0)
   | None \<Rightarrow> 0)"

lemma jdefault_put: "is_object j \<Longrightarrow> jdefault k v j = Inr (if jfind j k = None then put k v j else j)"
  by (simp add: jdefault_def)

lemma prepare_spec:
  assumes "is_object sdp" "jfind sdp ''media'' = Some (JArray ms)" "list_all is_object ms"
  obtains sdp' ms' where "prepare sdp = Inr sdp'" "jfind sdp' ''media'' = Some (JArray ms')"
    "list_all2 (\<lambda>m m'. jdefault ''payloads'' (JString []) m = Inr m') ms ms'"
    "\<forall>k. k \<notin> {''version'', ''name'', ''media''} \<longrightarrow> jfind sdp' k = jfind sdp k" "is_object sdp'"
proof -
  define s1 where "s1 = (if jfind sdp ''version'' = None then put ''version'' (JInt 0) sdp else sdp)"
  define s2 where "s2 = (if jfind s1 ''name'' = None then put ''name'' (JString ''-'') s1 else s1)"
  have o: "is_object s1" "is_object s2" using assms(1) by (simp_all add: s1_def s2_def)
  have s: "jfind s2 k = jfind sdp k" if "k \<noteq> ''version''" "k \<noteq> ''name''" for k
    using that by (simp add: s1_def s2_def jfind_put)
  have m: "jfind s2 ''media'' = Some (JArray ms)" using s [of "''media''"] assms(2) by simp
  have d: "jdefault ''version'' (JInt 0) sdp = Inr s1" "jdefault ''name'' (JString ''-'') s1 = Inr s2"
      "jdefault ''media'' jarray_empty s2 = Inr s2" "jat s2 ''media'' = Inr (JArray ms)"
    using assms(1) o m by (auto simp: jdefault_put s1_def [symmetric] s2_def [symmetric] jat_def is_object_iff)
  obtain ms' where ms': "mapE (jdefault ''payloads'' (JString [])) ms = Inr ms'"
    using mapE_ok [of ms "jdefault ''payloads'' (JString [])"] assms(3)
    by (auto simp: list_all_iff jdefault_put is_ok_iff)
  have "prepare sdp = Inr (put ''media'' (JArray ms') s2)"
    using assms(1) o(2) by (simp add: prepare_def d ms')
  then show thesis using that [of "put ''media'' (JArray ms') s2" ms'] ms' s by (simp add: jfind_put res_simps)
qed

lemma next_version_ok:
  assumes "versioned sdp"
  obtains sdp' where "next_version sdp = Inr sdp'" "same_but ''origin'' sdp sdp'" "versioned sdp'"
    "version_of sdp' = version_of sdp + 1"
proof -
  obtain org v where v: "jfind sdp ''origin'' = Some org" "jfind org ''sessionVersion'' = Some v" "is_number_integer v"
    using assms by (auto simp: versioned_def has_def split: option.splits)
  obtain w :: "32 word" where w: "get_uint v = Inr w" using v(3) by (cases v) auto
  have o: "is_object sdp" "is_object org" using v(1,2) by (auto dest: jfind_Some_object)
  let ?s = "put ''origin'' (put ''sessionVersion'' (JUint (ucast (w + 1))) org) sdp"
  have "next_version sdp = Inr ?s" using v w o by (simp add: next_version_def)
  moreover have "versioned ?s" by (simp add: versioned_def has_put)
  moreover have "version_of ?s = version_of sdp + 1"
    using v w by (simp add: version_of_def jfind_put)
  ultimately show thesis using that same_but_put [OF o(1)] by blast
qed

lemma payloads_fresh: "''payloads'' \<notin> set stale_keys"
  by (simp add: stale_keys_def disabled_fields_def)

lemma shown_payloads:
  assumes "shown m s" "jdefault ''payloads'' (JString []) m = Inr m'"
  shows "shown m' s"
proof (cases "jfind m ''payloads''")
  case None
  then have "m' = put ''payloads'' (JString []) m" using assms by (simp add: jdefault_put shown_def)
  moreover have "jfind (mediaObject s) ''payloads'' = None"
    using assms(1) None payloads_fresh by (auto simp: shown_def dest: spec [of _ "''payloads''"])
  ultimately show ?thesis using assms(1) by (auto simp: shown_def jfind_put)
qed (use assms in \<open>simp add: jdefault_def\<close>)

lemma write_sdp_keeps:
  assumes "write_sdp dump sdp = Inr (t, sdp')" "media_shown ss sdp"
  shows "media_shown ss sdp' \<and> (\<forall>k. k \<notin> {''version'', ''name'', ''media''} \<longrightarrow> jfind sdp' k = jfind sdp k)"
proof -
  obtain ms where ms: "jfind sdp ''media'' = Some (JArray ms)" "list_all2 shown ms ss"
    using assms(2) by (auto simp: media_shown_iff)
  have "list_all is_object ms"
    using ms(2) by (auto simp: list_all_length list_all2_conv_all_nth shown_def)
  then obtain sdp1 ms' where p: "prepare sdp = Inr sdp1" "jfind sdp1 ''media'' = Some (JArray ms')"
      "list_all2 (\<lambda>m m'. jdefault ''payloads'' (JString []) m = Inr m') ms ms'"
      "\<forall>k. k \<notin> {''version'', ''name'', ''media''} \<longrightarrow> jfind sdp1 k = jfind sdp k"
    by (rule prepare_spec [OF jfind_Some_object [OF ms(1)] ms(1)])
  have "list_all2 shown ms' ss"
    using ms(2) p(3) shown_payloads unfolding list_all2_conv_all_nth by metis
  moreover have "sdp' = sdp1" using assms(1) unfolding write_sdp_def p(1) by (clarsimp simp: bindE_Inr_iff)
  ultimately show ?thesis using p(2,4) by (simp add: media_shown_iff)
qed

lemma media_shown_writable: "media_shown ss sdp \<Longrightarrow> writable sdp"
  by (auto simp: media_shown_iff writable_def list_all_length list_all2_conv_all_nth shown_def dest: jfind_Some_object)

lemma GetSdp_ok:
  assumes ok: "remote_ok st"
  obtains t sdp where "GetSdp dump st = Inr (t, st \<lparr> sdpObject := sdp \<rparr>)"
    "remote_ok (st \<lparr> sdpObject := sdp \<rparr>)" "version_of sdp = version_of (sdpObject st) + 1"
proof -
  obtain sdp1 where v: "next_version (sdpObject st) = Inr sdp1" "same_but ''origin'' (sdpObject st) sdp1"
      "versioned sdp1" "version_of sdp1 = version_of (sdpObject st) + 1"
    by (rule next_version_ok [OF remote_okD(6) [OF ok]])
  have m1: "media_shown (mediaSections st) sdp1"
    using v(2) remote_okD(4) [OF ok] media_shown_cong [of sdp1 "sdpObject st"] by (simp add: same_but_def)
  obtain t sdp2 where w: "write_sdp dump sdp1 = Inr (t, sdp2)"
    using write_sdp_ok [OF media_shown_writable [OF m1], of dump] by (auto simp: is_ok_iff)
  note k = write_sdp_keeps [OF w m1]
  have g: "jfind sdp2 ''groups'' = jfind (sdpObject st) ''groups''" "jfind sdp2 ''origin'' = jfind sdp1 ''origin''"
    using k v(2) by (simp_all add: same_but_def)
  have "remote_ok (st \<lparr> sdpObject := sdp2 \<rparr>)"
    using ok k groups_cong [OF g(1)] versioned_cong [OF g(2)] v(3) by (simp add: remote_ok_def)
  moreover have "version_of sdp2 = version_of (sdpObject st) + 1"
    using v(4) g(2) by (simp add: version_of_def)
  moreover have "GetSdp dump st = Inr (t, st \<lparr> sdpObject := sdp2 \<rparr>)"
    by (simp add: GetSdp_def v(1) w)
  ultimately show thesis using that by blast
qed

section \<open>The abstract machine\<close>

text \<open>A description as its clients see it: the MIDs in order, each closed or not. A new section
  takes the place of the first closed one or is appended; the first section is never closed.\<close>

type_synonym view = "(string \<times> bool) list"

definition view :: "remote_sdp \<Rightarrow> view" where
  "view st = map (\<lambda>s. (sec_mid s, sec_closed s)) (mediaSections st)"

fun place :: "string \<Rightarrow> view \<Rightarrow> view" where
  "place mid [] = [(mid, False)]"
| "place mid (x # v) = (if snd x then (mid, False) # v else x # place mid v)"

fun shut :: "string \<Rightarrow> view \<Rightarrow> view" where
  "shut mid [] = []"
| "shut mid (x # v) = x # map (\<lambda>(m, c). (m, c \<or> m = mid)) v"

section \<open>Placing a new section\<close>

lemma find_index_first:
  "find_index p xs = Inr (Some i) \<Longrightarrow> i < length xs \<and> p (xs ! i) = Inr True \<and> (\<forall>j < i. p (xs ! j) = Inr False)"
  by (induction xs arbitrary: i) (fastforce simp: res_simps nth_Cons less_Suc_eq_0_disj split: if_splits nat.splits)+

lemma find_index_none: "find_index p xs = Inr None \<Longrightarrow> \<forall>x \<in> set xs. p x = Inr False"
  by (induction xs) (auto simp: res_simps split: if_splits)

lemma findE_find_index: "findE p xs = bindE (find_index p xs) (\<lambda>i. Inr (map_option ((!) xs) i))"
proof (induction xs)
  case (Cons x xs)
  show ?case
  proof (cases "p x")
    case (Inr b)
    then show ?thesis using Cons by (cases "find_index p xs") (auto simp: option.map_comp comp_def)
  qed simp
qed simp

lemma find_index_total: "(\<And>x. x \<in> set xs \<Longrightarrow> is_ok (p x)) \<Longrightarrow> is_ok (find_index p xs)"
  by (induction xs) (fastforce simp: is_ok_iff)+

text \<open>The first closed section of a description that satisfies the invariant.\<close>

lemma closed_cases:
  assumes ok: "remote_ok st"
  obtains (reuse) i where "find_index IsClosed (mediaSections st) = Inr (Some i)" "i < length (mediaSections st)"
      "sec_closed (mediaSections st ! i)"
      "\<And>s. view (st \<lparr> mediaSections := (mediaSections st)[i := s] \<rparr>) =
        (view st)[i := (sec_mid s, sec_closed s)]"
      "\<And>m. (view st)[i := (m, False)] = place m (view st)"
  | (append) "find_index IsClosed (mediaSections st) = Inr None"
      "\<And>m. view st @ [(m, False)] = place m (view st)"
proof -
  have c: "IsClosed s = Inr (sec_closed s)" if "s \<in> set (mediaSections st)" for s
    using that remote_okD(1) [OF ok] IsClosed_ok by (auto simp: list_all_iff)
  have p1: "map f ss @ [x] = (if \<exists>s \<in> set ss. sec_closed s then map f ss @ [x] else place m (map f ss))"
    if "f = (\<lambda>s. (sec_mid s, sec_closed s))" "x = (m, False)" for f ss m x
    using that by (induction ss) auto
  have p2: "(map f ss)[i := (m, False)] = place m (map f ss)"
    if "f = (\<lambda>s. (sec_mid s, sec_closed s))" "i < length ss" "sec_closed (ss ! i)" "\<forall>j < i. \<not> sec_closed (ss ! j)"
    for f ss m i
    using that
  proof (induction ss arbitrary: i)
    case (Cons s ss)
    then show ?case by (cases i) fastforce+
  qed simp
  have "is_ok (find_index IsClosed (mediaSections st))"
    by (rule find_index_total) (use c in simp)
  then obtain found where f: "find_index IsClosed (mediaSections st) = Inr found" by (auto simp: is_ok_iff)
  show thesis
  proof (cases found)
    case None
    then have "\<forall>s \<in> set (mediaSections st). \<not> sec_closed s" using f find_index_none c by force
    then show thesis using append f None p1 [OF refl refl, where ss = "mediaSections st"] by (simp add: view_def)
  next
    case (Some i)
    then have i: "i < length (mediaSections st)" "sec_closed (mediaSections st ! i)"
        "\<forall>j < i. \<not> sec_closed (mediaSections st ! j)"
      using find_index_first [of IsClosed "mediaSections st" i] f c by (auto dest: nth_mem)
    show thesis
      using reuse [of i] f Some i p2 [OF refl i] by (simp add: view_def map_update)
  qed
qed

lemma view_append: "view (st \<lparr> mediaSections := mediaSections st @ [s] \<rparr>) = view st @ [(sec_mid s, sec_closed s)]"
  by (simp add: view_def)

lemma view_cong: "mediaSections st' = ss \<Longrightarrow> view st' = view (st \<lparr> mediaSections := ss \<rparr>)"
  by (simp add: view_def)

lemma view_mids: "map fst (view st) = map sec_mid (mediaSections st)"
  by (simp add: view_def)

text \<open>A new section either replaces the first closed one or is appended.\<close>

lemma place_ok:
  assumes ok: "remote_ok st" and s: "section_ok s" "\<not> sec_closed s"
    and fresh: "sec_mid s \<notin> set (map fst (view st))"
    and step: "(case found of None \<Rightarrow> AddMediaSection s st
       | Some i \<Rightarrow> ReplaceMediaSection s (sec_mid (mediaSections st ! i)) st) = Inr st'"
    and found: "find_index IsClosed (mediaSections st) = Inr found"
  shows "remote_ok st' \<and> view st' = place (sec_mid s) (view st)"
  using ok
proof (cases rule: closed_cases)
  case (reuse i)
  have "sec_mid s \<notin> sec_mid ` (set (mediaSections st) - {mediaSections st ! i})"
    using fresh by (auto simp: view_def)
  then obtain st2 where "ReplaceMediaSection s (sec_mid (mediaSections st ! i)) st = Inr st2" "remote_ok st2"
      "mediaSections st2 = (mediaSections st)[i := s]"
    using ReplaceMediaSection_ok [OF ok reuse(2,3) s] by blast
  moreover have "found = Some i" using found reuse(1) by simp
  ultimately have st': "remote_ok st'" "mediaSections st' = (mediaSections st)[i := s]"
    using step by auto
  then show ?thesis using reuse(4,5) s(2) view_cong [OF st'(2), of st] by simp
next
  case append
  have "sec_mid s \<notin> sec_mid ` set (mediaSections st)" using fresh by (auto simp: view_def)
  then obtain st2 where "AddMediaSection s st = Inr st2" "remote_ok st2" "mediaSections st2 = mediaSections st @ [s]"
    using AddMediaSection_ok [OF ok s] by blast
  moreover have "found = None" using found append(1) by simp
  ultimately have st': "remote_ok st'" "mediaSections st' = mediaSections st @ [s]"
    using step by auto
  then show ?thesis using append(2) s(2) view_cong [OF st'(2), of st] view_append by simp
qed

lemma Receive_ok:
  assumes ok: "remote_ok st" and r: "Receive mid kind ps a b st = Inr st'"
    and mid: "mid \<noteq> []" "mid \<notin> set (map fst (view st))"
  shows "remote_ok st' \<and> view st' = place mid (view st)"
proof -
  obtain s found where s: "offer_section (iceParameters st) (iceCandidates st) JNull mid kind ps a b = Inr s"
      "find_index IsClosed (mediaSections st) = Inr found"
      "(case map_option ((!) (mediaSections st)) found of
          Some c \<Rightarrow> bindE (GetMid c) (\<lambda>reuseMid. ReplaceMediaSection s reuseMid st)
        | None \<Rightarrow> AddMediaSection s st) = Inr st'"
    using r by (auto simp: Receive_def findE_find_index bindE_assoc bindE_Inr_iff)
  note n = offer_section_ok [OF s(1) mid(1)]
  have "(case found of None \<Rightarrow> AddMediaSection s st
       | Some i \<Rightarrow> ReplaceMediaSection s (sec_mid (mediaSections st ! i)) st) = Inr st'"
    using s(2,3) remote_okD(1) [OF ok] find_index_first [of IsClosed "mediaSections st"]
    by (auto simp: GetMid_ok list_all_length split: option.splits)
  from place_ok [OF ok _ _ _ this s(2)] n mid(2) show ?thesis by auto
qed

lemma Send_ok:
  assumes ok: "remote_ok st" and next': "GetNextMediaSectionIdx st = Inr (idx, reuseMid)"
    and r: "Send om reuseMid op ap opts st = Inr (st', op', ap')"
    and mid: "jfind om ''mid'' = Some (JString mid)" "mid \<noteq> []" "mid \<notin> set (map fst (view st))"
  shows "remote_ok st' \<and> view st' = place mid (view st)"
proof -
  obtain s where s: "answer_section (iceParameters st) (iceCandidates st) (dtlsParameters st)
         (sctpParameters st) om op ap opts = Inr (s, op', ap')"
      "(if reuseMid \<noteq> [] then ReplaceMediaSection s reuseMid st else AddMediaSection s st) = Inr st'"
    using r by (auto simp: Send_def bindE_Inr_iff split: prod.splits)
  obtain found where f: "find_index IsClosed (mediaSections st) = Inr found"
      "(case found of Some i \<Rightarrow> bindE (GetMid (mediaSections st ! i)) (\<lambda>m. Inr (i, m))
        | None \<Rightarrow> Inr (length (mediaSections st), [])) = Inr (idx, reuseMid)"
    using next' by (auto simp: GetNextMediaSectionIdx_def bindE_Inr_iff)
  note n = answer_section_ok [OF s(1) mid(1,2)]
  have "(case found of None \<Rightarrow> AddMediaSection s st
       | Some i \<Rightarrow> ReplaceMediaSection s (sec_mid (mediaSections st ! i)) st) = Inr st'"
    using s(2) f remote_okD(1) [OF ok] find_index_first [of IsClosed "mediaSections st"] sec_mid_nonempty
    by (auto simp: GetMid_ok list_all_length split: option.splits if_splits)
  from place_ok [OF ok _ _ _ this f(1)] n mid(3) show ?thesis by auto
qed

end
