(* ===== verification/RemoteMachine.thy ===== *)
theory RemoteMachine
  imports RemoteSteps
begin

text \<open>
  The remote description as a state machine: the steps its clients take, the states they
  reach, and the abstract machine that they simulate.
\<close>

section \<open>Construction\<close>

lemma jset_total: "is_object j \<Longrightarrow> \<exists>j'. jset j k v = Inr j'"
  by simp

lemma RemoteSdp_ok:
  assumes "RemoteSdp ice cands dtls sctp = Inr st"
  shows "remote_ok st \<and> view st = []"
proof -
  obtain sdp1 sdp2 f d sdp3 where s: "ice_lite ice initial_sdp = Inr sdp1"
      "jset sdp1 ''msidSemantic'' (jobj [(''semantic'', JString ''WMS''), (''token'', JString ''*'')]) = Inr sdp2"
      "jputs [(''fingerprint'', f),
         (''groups'', JArray [jobj [(''type'', JString ''BUNDLE''), (''mids'', JString [])]])] sdp2 = Inr sdp3"
      "st = \<lparr> iceParameters = ice, iceCandidates = cands, dtlsParameters = d, sctpParameters = sctp,
         mediaSections = [], midToIndex = [], firstMid = [], sdpObject = sdp3 \<rparr>"
    using assms by (auto simp: RemoteSdp_def bindE_Inr_iff simp del: jset_put split: prod.splits)
  have 1: "jfind sdp1 k = jfind initial_sdp k" if "k \<noteq> ''icelite''" for k
    using s(1) that jset_Inr_find [of initial_sdp "''icelite''" _ sdp1 k] by (auto simp: ice_lite_def split: if_splits)
  have 2: "jfind sdp3 k = jfind initial_sdp k"
    if "k \<notin> {''icelite'', ''msidSemantic'', ''fingerprint'', ''groups''}" for k
    using that 1 jset_Inr_find [OF s(2)] jputs_find [OF s(3), of k] by simp
  have 3: "jfind sdp3 ''groups'' = Some (JArray [jobj [(''type'', JString ''BUNDLE''), (''mids'', JString [])]])"
    using jputs_find [OF s(3), of "''groups''"] by simp
  have "jfind sdp3 ''media'' = Some jarray_empty"
      "jfind sdp3 ''origin'' = jfind initial_sdp ''origin''"
    using 2 by (simp_all add: initial_sdp_def map_of_jobj)
  moreover have "versioned initial_sdp" by (simp add: versioned_def has_def initial_sdp_def map_of_jobj)
  moreover have "bundle_group sdp3" "bundled sdp3 = Some []"
    using 3 by (simp_all add: bundle_group_def bundled_def has_def map_of_jobj jobj_def)
  ultimately show ?thesis
    using versioned_cong [of sdp3 initial_sdp]
    by (simp add: s(4) remote_ok_def sections_ok_def index_ok_def media_shown_iff open_mids_def view_def)
qed

section \<open>Steps\<close>

text \<open>
  What a client may do: it receives and sends under fresh MIDs, reuses the section that
  \<open>GetNextMediaSectionIdx\<close> names, and disables and closes sections that exist.
\<close>

abbreviation known :: "remote_sdp \<Rightarrow> string \<Rightarrow> bool" where
  "known st mid \<equiv> mid \<in> set (map fst (view st))"

inductive client_step :: "(json \<Rightarrow> string) \<Rightarrow> remote_sdp \<Rightarrow> remote_sdp \<Rightarrow> bool" for dump where
  receive: "Receive mid kind ps a b st = Inr st' \<Longrightarrow> mid \<noteq> [] \<Longrightarrow> \<not> known st mid \<Longrightarrow> client_step dump st st'"
| send: "GetNextMediaSectionIdx st = Inr (idx, reuseMid) \<Longrightarrow>
    Send om reuseMid op ap opts st = Inr (st', op', ap') \<Longrightarrow> jfind om ''mid'' = Some (JString mid) \<Longrightarrow>
    mid \<noteq> [] \<Longrightarrow> \<not> known st mid \<Longrightarrow> client_step dump st st'"
| send_sctp: "SendSctpAssociation om st = Inr st' \<Longrightarrow> jfind om ''mid'' = Some (JString mid) \<Longrightarrow>
    mid \<noteq> [] \<Longrightarrow> \<not> known st mid \<Longrightarrow> client_step dump st st'"
| recv_sctp: "RecvSctpAssociation st = Inr st' \<Longrightarrow> \<not> known st ''datachannel'' \<Longrightarrow> client_step dump st st'"
| update_ice: "UpdateIceParameters i st = Inr st' \<Longrightarrow> client_step dump st st'"
| update_role: "UpdateDtlsRole r st = Inr st' \<Longrightarrow> client_step dump st st'"
| disable: "DisableMediaSection mid st = Inr st' \<Longrightarrow> known st mid \<Longrightarrow> client_step dump st st'"
| close: "CloseMediaSection mid st = Inr st' \<Longrightarrow> known st mid \<Longrightarrow> client_step dump st st'"
| get_sdp: "GetSdp dump st = Inr (t, st') \<Longrightarrow> client_step dump st st'"

inductive reachable :: "(json \<Rightarrow> string) \<Rightarrow> remote_sdp \<Rightarrow> bool" for dump where
  init: "RemoteSdp ice cands dtls sctp = Inr st \<Longrightarrow> reachable dump st"
| step: "reachable dump st \<Longrightarrow> client_step dump st st' \<Longrightarrow> reachable dump st'"

inductive view_step :: "view \<Rightarrow> view \<Rightarrow> bool" where
  stay: "view_step v v"
| place: "mid \<noteq> [] \<Longrightarrow> mid \<notin> set (map fst v) \<Longrightarrow> view_step v (place mid v)"
| append: "mid \<noteq> [] \<Longrightarrow> mid \<notin> set (map fst v) \<Longrightarrow> view_step v (v @ [(mid, False)])"
| shut: "mid \<in> set (map fst v) \<Longrightarrow> view_step v (shut mid v)"

inductive_cases view_stepE: "view_step v v'"
inductive_simps view_step_Nil: "view_step [] v"

section \<open>Each step\<close>

lemma Add_new_ok:
  assumes ok: "remote_ok st" and a: "AddMediaSection s st = Inr st'"
    and s: "section_ok s \<and> sec_mid s = mid \<and> \<not> sec_closed s" "\<not> known st mid"
  shows "remote_ok st' \<and> view st' = view st @ [(mid, False)]"
proof -
  have "sec_mid s \<notin> sec_mid ` set (mediaSections st)" using s by (auto simp: view_def)
  then obtain st2 where "AddMediaSection s st = Inr st2" "remote_ok st2" "mediaSections st2 = mediaSections st @ [s]"
    using AddMediaSection_ok [OF ok] s(1) by blast
  with a s(1) show ?thesis by (simp add: view_def)
qed

lemma shut_update:
  assumes "distinct (map fst v)" "i < length v" "fst (v ! i) = mid"
  shows "shut mid v = (if i = 0 then v else v[i := (mid, True)])"
proof (cases v)
  case (Cons x w)
  have other: "map (\<lambda>(m, c). (m, c \<or> m = mid)) w = w" if "mid \<notin> fst ` set w" for w :: view
    using that by (induction w) auto
  have one: "map (\<lambda>(m, c). (m, c \<or> m = mid)) w = w[k := (mid, True)]"
    if "distinct (map fst w)" "k < length w" "fst (w ! k) = mid" for w :: view and k
    using that
  proof (induction w arbitrary: k)
    case (Cons y w)
    then show ?case using other [of w] by (cases k; cases y) (auto dest: nth_mem imageI [of _ _ fst])
  qed simp
  show ?thesis using assms other [of w] one [of w "i - 1"] by (cases i) (auto simp: Cons)
qed (use assms in simp)

lemma known_index: "known st mid \<Longrightarrow> \<exists>i < length (mediaSections st). sec_mid (mediaSections st ! i) = mid"
  by (auto simp: view_def in_set_conv_nth)

lemma Close_step:
  assumes ok: "remote_ok st" and c: "CloseMediaSection mid st = Inr st'" and k: "known st mid"
  shows "remote_ok st' \<and> view st' = shut mid (view st)"
proof -
  obtain i where i: "i < length (mediaSections st)" "sec_mid (mediaSections st ! i) = mid"
    using known_index [OF k] by blast
  obtain st2 s where s: "CloseMediaSection (sec_mid (mediaSections st ! i)) st = Inr st2" "remote_ok st2"
      "mediaSections st2 = (mediaSections st)[i := s]"
      "(if i = 0 then Disable else Close) (mediaSections st ! i) = Inr s"
    by (rule CloseMediaSection_ok [OF ok i(1)])
  have old: "section_ok (mediaSections st ! i)" using remote_okD(1) [OF ok] i(1) by (simp add: list_all_length)
  have "sec_mid s = mid" "sec_closed s = (if i = 0 then sec_closed (mediaSections st ! i) else True)"
    using s(4) disabling.keeps [OF old] closing.keeps [OF old] disabling.keeps_port [OF old] closing.closes [OF old] i(2)
    by (auto split: if_splits)
  then have "view st2 = (if i = 0 then view st else (view st)[i := (mid, True)])"
    using i s(3) by (auto simp: view_def map_update list_update_same_conv)
  also have "\<dots> = shut mid (view st)"
    using shut_update [of "view st" i mid] remote_okD(2) [OF ok] i by (simp add: view_def comp_def)
  finally show ?thesis using s(1,2) c i(2) by simp
qed

lemma Disable_step:
  assumes ok: "remote_ok st" and d: "DisableMediaSection mid st = Inr st'" and k: "known st mid"
  shows "remote_ok st' \<and> view st' = view st"
proof -
  obtain i where i: "i < length (mediaSections st)" "sec_mid (mediaSections st ! i) = mid"
    using known_index [OF k] by blast
  obtain s where s: "DisableMediaSection (sec_mid (mediaSections st ! i)) st
        = Inr (st \<lparr> mediaSections := (mediaSections st)[i := s] \<rparr>)"
      "remote_ok (st \<lparr> mediaSections := (mediaSections st)[i := s] \<rparr>)" "Disable (mediaSections st ! i) = Inr s"
    by (rule DisableMediaSection_ok [OF ok i(1)])
  have old: "section_ok (mediaSections st ! i)" using remote_okD(1) [OF ok] i(1) by (simp add: list_all_length)
  have "sec_mid s = mid \<and> sec_closed s = sec_closed (mediaSections st ! i)"
    using disabling.keeps [OF old s(3)] disabling.keeps_port [OF old s(3)] i(2) by simp
  then show ?thesis using s(1,2) d i by (auto simp: view_def map_update list_update_same_conv)
qed

lemma view_same:
  "map sec_mid (mediaSections st') = map sec_mid (mediaSections st) \<Longrightarrow>
   map sec_closed (mediaSections st') = map sec_closed (mediaSections st) \<Longrightarrow> view st' = view st"
  by (simp add: view_def list_eq_iff_nth_eq)

lemma client_step_ok:
  assumes "client_step dump st st'" "remote_ok st"
  shows "remote_ok st' \<and> view_step (view st) (view st')"
  using assms
proof cases
  case (receive mid)
  then show ?thesis using Receive_ok assms(2) view_step.place by metis
next
  case (send idx reuseMid om op ap opts op' ap' mid)
  then show ?thesis using Send_ok assms(2) view_step.place by metis
next
  case (send_sctp om mid)
  obtain s x y where s: "answer_section (iceParameters st) (iceCandidates st) (dtlsParameters st)
         (sctpParameters st) om JNull JNull None = Inr (s, x, y)" "AddMediaSection s st = Inr st'"
    using send_sctp(1) by (auto simp: SendSctpAssociation_def bindE_Inr_iff split: prod.splits)
  have "remote_ok st' \<and> view st' = view st @ [(mid, False)]"
    by (rule Add_new_ok [OF assms(2) s(2) answer_section_ok [OF s(1)]]) (use send_sctp in auto)
  then show ?thesis using send_sctp view_step.append by metis
next
  case recv_sctp
  obtain s where s: "offer_section (iceParameters st) (iceCandidates st) (sctpParameters st)
         ''datachannel'' ''application'' JNull [] [] = Inr s" "AddMediaSection s st = Inr st'"
    using recv_sctp(1) by (auto simp: RecvSctpAssociation_def bindE_Inr_iff)
  have "remote_ok st' \<and> view st' = view st @ [(''datachannel'', False)]"
    by (rule Add_new_ok [OF assms(2) s(2) offer_section_ok [OF s(1)]]) (use recv_sctp in auto)
  then show ?thesis using recv_sctp(2) view_step.append [of "''datachannel''" "view st"] by simp
next
  case (update_ice i)
  then show ?thesis using UpdateIceParameters_ok assms(2) view_same view_step.stay by metis
next
  case (update_role r)
  then show ?thesis using UpdateDtlsRole_ok assms(2) view_same view_step.stay by metis
next
  case (disable mid)
  then show ?thesis using Disable_step assms(2) view_step.stay by metis
next
  case (close mid)
  then show ?thesis using Close_step assms(2) view_step.shut by metis
next
  case (get_sdp t)
  show ?thesis
  proof (rule GetSdp_ok [OF assms(2), of dump])
    fix t2 sdp
    assume g: "GetSdp dump st = Inr (t2, st \<lparr> sdpObject := sdp \<rparr>)" "remote_ok (st \<lparr> sdpObject := sdp \<rparr>)"
    then have st': "st' = st \<lparr> sdpObject := sdp \<rparr>" using get_sdp by simp
    then have "view st' = view st" by (simp add: view_def)
    then show ?thesis using g(2) st' view_step.stay by simp
  qed
qed

lemma reachable_ok: "reachable dump st \<Longrightarrow> remote_ok st"
  by (induction rule: reachable.induct) (auto dest: RemoteSdp_ok client_step_ok)

end
