(* ===== verification/RemoteProps.thy ===== *)
theory RemoteProps
  imports RemoteMachine
begin

text \<open>
  The properties of the remote description, with closed instances on a description that has
  received two sections and closed the second one.
\<close>

section \<open>An example\<close>

definition sample_ice :: json where
  "sample_ice = jobj [(''usernameFragment'', JString ''uf''), (''password'', JString ''pw''), (''iceLite'', JBool True)]"

definition sample_fingerprints :: json where
  "sample_fingerprints = jobj [(''role'', JString ''auto''), (''fingerprints'', JArray
     [jobj [(''algorithm'', JString ''sha-256''), (''value'', JString ''AA'')]])]"

definition sample_audio :: json where
  "sample_audio = jobj
     [(''codecs'', JArray [jobj [(''mimeType'', JString ''audio/opus''), (''payloadType'', JInt 111),
         (''clockRate'', JInt 48000), (''channels'', JInt 2), (''parameters'', jobj [(''usedtx'', JInt 1)]),
         (''rtcpFeedback'', jarray_empty)]]),
      (''headerExtensions'', jarray_empty),
      (''encodings'', JArray [jobj [(''ssrc'', JUint 7)]]), (''rtcp'', jobj [(''cname'', JString ''c'')])]"

definition sample_dump :: "json \<Rightarrow> string" where "sample_dump j = ''?''"

definition sample_start :: "remote_sdp res" where
  "sample_start = RemoteSdp sample_ice jarray_empty sample_fingerprints JNull"

definition sample_two :: "remote_sdp res" where
  "sample_two = bindE sample_start (\<lambda>st0.
     bindE (Receive ''0'' ''audio'' sample_audio ''s'' ''t'' st0) (Receive ''1'' ''audio'' sample_audio ''s'' ''t''))"

definition sample_closed :: "remote_sdp res" where
  "sample_closed = bindE sample_two (CloseMediaSection ''1'')"

definition views :: "remote_sdp res \<Rightarrow> view option" where
  "views r = (case r of Inl _ \<Rightarrow> None | Inr st \<Rightarrow> Some (view st))"

lemma bindE_at: "m = Inr x \<Longrightarrow> bindE m f = f x"
  by simp

lemma sample_views:
  "views sample_start = Some []"
  "views (bindE sample_start (Receive ''0'' ''audio'' sample_audio ''s'' ''t'')) = Some [(''0'', False)]"
  "views sample_two = Some [(''0'', False), (''1'', False)]"
  "views sample_closed = Some [(''0'', False), (''1'', True)]"
  by code_simp+

lemma sample_reachable:
  obtains st st' where "sample_two = Inr st" "reachable sample_dump st" "view st = [(''0'', False), (''1'', False)]"
    "CloseMediaSection ''1'' st = Inr st'" "reachable sample_dump st'" "view st' = [(''0'', False), (''1'', True)]"
proof -
  have v: "\<exists>st. r = Inr st \<and> view st = w" if "views r = Some w" for r w
    using that by (cases r) (simp_all add: views_def)
  obtain st0 where st0: "sample_start = Inr st0" "view st0 = []"
    using v [OF sample_views(1)] by blast
  obtain st1 where st1: "Receive ''0'' ''audio'' sample_audio ''s'' ''t'' st0 = Inr st1" "view st1 = [(''0'', False)]"
    using v [OF sample_views(2)] bindE_at [OF st0(1), of "Receive ''0'' ''audio'' sample_audio ''s'' ''t''"] by auto
  obtain st2 where st2: "sample_two = Inr st2" "view st2 = [(''0'', False), (''1'', False)]"
    using v [OF sample_views(3)] by blast
  obtain st3 where st3: "sample_closed = Inr st3" "view st3 = [(''0'', False), (''1'', True)]"
    using v [OF sample_views(4)] by blast
  have r0: "reachable sample_dump st0" using st0(1) reachable.init by (simp add: sample_start_def)
  have r1: "reachable sample_dump st1"
    by (rule reachable.step [OF r0 client_step.receive [OF st1(1)]]) (simp_all add: st0)
  have two: "Receive ''1'' ''audio'' sample_audio ''s'' ''t'' st1 = Inr st2"
    using st2(1) st1(1) by (simp add: sample_two_def bindE_at [OF st0(1)])
  have r2: "reachable sample_dump st2"
    by (rule reachable.step [OF r1 client_step.receive [OF two]]) (simp_all add: st1)
  have c: "CloseMediaSection ''1'' st2 = Inr st3" using st3(1) by (simp add: sample_closed_def bindE_at [OF st2(1)])
  have "reachable sample_dump st3"
    by (rule reachable.step [OF r2 client_step.close [OF c]]) (simp add: st2)
  then show thesis using that st2 r2 c st3(2) by blast
qed

section \<open>Invariant and refinement\<close>







text \<open>C3: in every reachable state the SDP can be written, which increases its version by one in
  32 bits and leaves the sections alone.\<close>

theorem get_sdp_total:
  assumes "reachable dump st"
  shows "\<exists>t sdp. GetSdp dump st = Inr (t, st \<lparr> sdpObject := sdp \<rparr>)
    \<and> version_of sdp = version_of (sdpObject st) + 1"
  using GetSdp_ok [OF reachable_ok [OF assms], of dump] by metis

theorem get_sdp_total_witness: "\<exists>st t sdp. sample_two = Inr st \<and> GetSdp sample_dump st = Inr (t, st \<lparr> sdpObject := sdp \<rparr>)"
  by (rule sample_reachable) (use get_sdp_total in blast)

section \<open>Single operations\<close>

text \<open>C15: closing a section that exists always succeeds: the section is shut, unless it is the
  first one, which stays open, and the BUNDLE group lists what is open afterwards.\<close>

theorem close_section:
  assumes "reachable dump st" "known st mid"
  shows "\<exists>st'. CloseMediaSection mid st = Inr st' \<and> view st' = shut mid (view st)
    \<and> bundled (sdpObject st') = Some (join (map fst (filter (\<lambda>x. \<not> snd x) (shut mid (view st)))) (CHR '' ''))"
proof -
  note ok = reachable_ok [OF assms(1)]
  obtain i where i: "i < length (mediaSections st)" "sec_mid (mediaSections st ! i) = mid"
    using known_index [OF assms(2)] by blast
  obtain st' where c: "CloseMediaSection mid st = Inr st'" using CloseMediaSection_ok [OF ok i(1)] i(2) by metis
  have r: "remote_ok st'" "view st' = shut mid (view st)" using Close_step [OF ok c assms(2)] by simp_all
  have "open_mids (mediaSections st') = map fst (filter (\<lambda>x. \<not> snd x) (view st'))"
    by (simp add: open_mids_def view_def filter_map comp_def)
  then show ?thesis using r c by (auto simp: remote_ok_def)
qed

theorem close_section_witness:
  "\<exists>st st'. sample_two = Inr st \<and> CloseMediaSection ''1'' st = Inr st' \<and> bundled (sdpObject st') = Some ''0''"
proof (rule sample_reachable)
  fix st
  assume s: "sample_two = Inr st" "reachable sample_dump st" "view st = [(''0'', False), (''1'', False)]"
  then have "known st ''1''" by simp
  from close_section [OF s(2) this] s(1,3) show ?thesis by auto
qed

text \<open>C30: closing a section whose MID is unknown closes the first section, because the lookup in
  the index inserts position 0: the transport of the bundle is lost.\<close>

theorem close_unknown_mid:
  assumes "reachable dump st" "view st = x # v" "\<not> known st mid"
  shows "\<exists>st'. CloseMediaSection mid st = Inr st' \<and> view st' = (fst x, True) # v"
proof -
  note ok = reachable_ok [OF assms(1)]
  obtain s ss where ss: "mediaSections st = s # ss" using assms(2) by (auto simp: view_def)
  have s: "section_ok s" using remote_okD(1) [OF ok] ss by simp
  obtain s' where s': "Close s = Inr s'" using Close_total [OF s] by blast
  have k: "section_ok s'" "sec_mid s' = sec_mid s" "sec_closed s'"
    using closing.keeps [OF s s'] closing.closes [OF s s'] by auto
  have "map_of (midToIndex st) mid = None"
    using remote_okD(3) [OF ok] assms(3) by (cases "map_of (midToIndex st) mid") (auto simp: index_ok_def view_def)
  then have idx: "index_of mid st = (0, st \<lparr> midToIndex := aset mid 0 (midToIndex st) \<rparr>)"
    by (simp add: index_of_def)
  have first: "mid \<noteq> firstMid st" using ok assms(3) ss by (auto simp: remote_ok_def view_def)
  obtain sdp where m: "set_media 0 (mediaObject s') (sdpObject st) = Inr sdp"
      "same_but ''media'' (sdpObject st) sdp"
    using set_media_ok [OF remote_okD(4) [OF ok] _ shown_self [OF k(1)], of 0] ss by auto
  let ?st = "st \<lparr> midToIndex := aset mid 0 (midToIndex st), mediaSections := s' # ss, sdpObject := sdp \<rparr>"
  have "bundle_group (sdpObject ?st)"
    using groups_cong [of sdp "sdpObject st"] m(2) remote_okD(5) [OF ok] by (simp add: same_but_def)
  then obtain sdp' where "RegenerateBundleMids ?st = Inr (?st \<lparr> sdpObject := sdp' \<rparr>)"
    using RegenerateBundleMids_ok [of ?st] remote_okD(1) [OF ok] ss k(1) by auto
  then have "CloseMediaSection mid st = Inr (?st \<lparr> sdpObject := sdp' \<rparr>)"
    using ss s' m(1) first by (simp add: CloseMediaSection_def idx section_at_def)
  moreover have "view (?st \<lparr> sdpObject := sdp' \<rparr>) = (fst x, True) # v"
    using assms(2) ss k by (auto simp: view_def)
  ultimately show ?thesis by blast
qed

theorem close_unknown_mid_witness:
  "\<exists>st st'. sample_two = Inr st \<and> CloseMediaSection ''x'' st = Inr st' \<and> view st' = [(''0'', True), (''1'', False)]"
proof (rule sample_reachable)
  fix st
  assume s: "sample_two = Inr st" "reachable sample_dump st" "view st = [(''0'', False), (''1'', False)]"
  then have "\<not> known st ''x''" by simp
  from close_unknown_mid [OF s(2,3) this] s(1) show ?thesis by auto
qed

text \<open>Disabling a section does not reach the SDP: the text written afterwards is the text
  written before, although the section has changed.\<close>

theorem disable_not_written:
  assumes "DisableMediaSection mid st = Inr st'"
  shows "map_sum id fst (GetSdp dump st') = map_sum id fst (GetSdp dump st)"
proof -
  have "sdpObject st' = sdpObject st"
    using assms by (auto simp: DisableMediaSection_def index_of_def res_simps split: option.splits)
  then show ?thesis
    by (cases "next_version (sdpObject st)") (auto simp: GetSdp_def bindE_def split: sum.split)
qed

definition directions :: "remote_sdp res \<Rightarrow> json option list" where
  "directions r = (case r of Inl _ \<Rightarrow> [] | Inr st \<Rightarrow> map (\<lambda>s. jfind (mediaObject s) ''direction'') (mediaSections st))"

lemma sample_disabled:
  "directions sample_two = [Some (JString ''sendonly''), Some (JString ''sendonly'')]"
  "directions (bindE sample_two (DisableMediaSection ''1'')) = [Some (JString ''sendonly''), Some (JString ''inactive'')]"
  by code_simp+

theorem disable_not_written_witness:
  "\<exists>st st'. sample_two = Inr st \<and> DisableMediaSection ''1'' st = Inr st'
     \<and> directions (Inr st') \<noteq> directions (Inr st)
     \<and> map_sum id fst (GetSdp sample_dump st') = map_sum id fst (GetSdp sample_dump st)"
proof (rule sample_reachable)
  fix st
  assume s: "sample_two = Inr st"
  obtain st' where d: "DisableMediaSection ''1'' st = Inr st'"
    using sample_disabled(2) by (simp add: bindE_at [OF s], cases "DisableMediaSection ''1'' st") (auto simp: directions_def)
  have "directions (Inr st') \<noteq> directions (Inr st)" using sample_disabled s d by (simp add: bindE_at [OF s])
  then show ?thesis using s d disable_not_written [OF d] by blast
qed

text \<open>C31: a section that is received under a fresh MID takes the place of the first closed
  section, and is appended when none is closed.\<close>

theorem receive_recycles:
  assumes "reachable dump st" "Receive mid kind ps a b st = Inr st'" "mid \<noteq> []" "\<not> known st mid"
  shows "view st' = place mid (view st)"
  using Receive_ok [OF reachable_ok [OF assms(1)] assms(2-4)] by simp

lemma sample_recycled:
  "views (bindE sample_closed (Receive ''2'' ''audio'' sample_audio ''s'' ''t'')) = Some [(''0'', False), (''2'', False)]"
  by code_simp

theorem receive_recycles_witness:
  "\<exists>st st'. Receive ''2'' ''audio'' sample_audio ''s'' ''t'' st = Inr st'
     \<and> view st = [(''0'', False), (''1'', True)] \<and> view st' = [(''0'', False), (''2'', False)]"
proof (rule sample_reachable)
  fix st st'
  assume s: "sample_two = Inr st" "CloseMediaSection ''1'' st = Inr st'" "reachable sample_dump st'"
    "view st' = [(''0'', False), (''1'', True)]"
  have c: "sample_closed = Inr st'" using s(2) by (simp add: sample_closed_def bindE_at [OF s(1)])
  obtain st2 where r: "Receive ''2'' ''audio'' sample_audio ''s'' ''t'' st' = Inr st2"
    using sample_recycled by (simp add: bindE_at [OF c], cases "Receive ''2'' ''audio'' sample_audio ''s'' ''t'' st'") (auto simp: views_def)
  have "view st2 = place ''2'' (view st')" by (rule receive_recycles [OF s(3) r]) (simp_all add: s(4))
  then show ?thesis using r s(4) by auto
qed

end
