(* ===== verification/Serial.thy ===== *)
theory Serial
  imports CxxNum
begin

text \<open>
  The serialization of the signaling models (\<open>mssdk/json/serialization.hpp\<close>). The templates
  are instantiated by the type of a member; \<open>ty\<close> is that type and \<open>val\<close> a value of it. All
  members of all models are optional, so that a model is the list of the keys and types of its
  members in the order of \<open>FIELDS_MAP\<close>, and a value of it gives every key a value or none.
  A document of \<open>rapidjson\<close> keeps the order of the members, and may repeat one.
\<close>

section \<open>Documents\<close>

text \<open>A number is an integer (of the range of 64 bits, signed or unsigned) or a double, as it
  has been written.\<close>

datatype rj =
    RNull
  | RBool bool
  | RInt int
  | RDouble "64 word"
  | RString string
  | RArray "rj list"
  | RObject "(string \<times> rj) list"

fun is_robject :: "rj \<Rightarrow> bool" where
  "is_robject (RObject _) = True" | "is_robject _ = False"

text \<open>\<open>FindMember\<close>: the first member of the name.\<close>

definition find_member :: "rj \<Rightarrow> string \<Rightarrow> rj option" where
  "find_member j k = (case j of RObject ms \<Rightarrow> map_of ms k | _ \<Rightarrow> None)"

text \<open>\<open>HasMember\<close>, \<open>FindMember\<close> and \<open>!IsNull()\<close>.\<close>

definition present :: "rj \<Rightarrow> string \<Rightarrow> rj option" where
  "present j k = (case find_member j k of None \<Rightarrow> None | Some x \<Rightarrow> if x = RNull then None else Some x)"

section \<open>Types and values\<close>

datatype ty =
    TBool
  | TInt32
  | TInt64
  | TFloat
  | TDouble
  | TString
  | TVec ty
  | TStruct "(string \<times> ty) list"

type_synonym model = "(string \<times> ty) list"

datatype val =
    VBool bool
  | VInt32 "32 word"
  | VInt64 "64 word"
  | VFloat "32 word"
  | VDouble "64 word"
  | VString string
  | VVec "val list"
  | VStruct "(string \<times> val option) list"

type_synonym fields = "(string \<times> val option) list"

text \<open>A model with no member set, and a member of it.\<close>

definition blank :: "model \<Rightarrow> fields" where
  "blank m = map (\<lambda>(k, _). (k, None)) m"

definition set_member :: "string \<Rightarrow> val \<Rightarrow> fields \<Rightarrow> fields" where
  "set_member k v fs = map (\<lambda>(l, x). (l, if l = k then Some v else x)) fs"

definition member :: "string \<Rightarrow> fields \<Rightarrow> val option" where
  "member k fs = (case map_of fs k of Some x \<Rightarrow> x | None \<Rightarrow> None)"

section \<open>Float and double\<close>

definition dbl_of_flt :: "32 word \<Rightarrow> 64 word" where
  "dbl_of_flt w =
     (let m = unat w mod 2 ^ 31;
          b = (if m \<ge> flt_inf then dbl_inf + (m - flt_inf) * 2 ^ 29 else dbl_mag (fp_ratio 24 (- 149) m))
      in of_nat (b + (if unat w \<ge> 2 ^ 31 then 2 ^ 63 else 0)))"

text \<open>The cast to \<open>float\<close> rounds; a value that is not a number keeps the upper bits.\<close>

definition flt_of_dbl :: "64 word \<Rightarrow> 32 word" where
  "flt_of_dbl w =
     (let m = unat w mod 2 ^ 63;
          b = (if m \<ge> dbl_inf then flt_inf + (m - dbl_inf) div 2 ^ 29
               else min flt_inf (flt_mag (fp_ratio 53 (- 1074) m)))
      in of_nat (b + (if unat w \<ge> 2 ^ 63 then 2 ^ 31 else 0)))"

section \<open>Writing\<close>

text \<open>\<open>json_serialize\<close>: members without a value are left out.\<close>

fun ser :: "val \<Rightarrow> rj" and ser_fields :: "fields \<Rightarrow> (string \<times> rj) list" where
  "ser (VBool b) = RBool b"
| "ser (VInt32 w) = RInt (sint w)"
| "ser (VInt64 w) = RInt (sint w)"
| "ser (VFloat w) = RDouble (dbl_of_flt w)"
| "ser (VDouble w) = RDouble w"
| "ser (VString s) = RString s"
| "ser (VVec vs) = RArray (map ser vs)"
| "ser (VStruct fs) = RObject (ser_fields fs)"
| "ser_fields [] = []"
| "ser_fields ((k, None) # fs) = ser_fields fs"
| "ser_fields ((k, Some v) # fs) = (k, ser v) # ser_fields fs"

section \<open>Reading\<close>

text \<open>\<open>GetString\<close> is a C string: the value ends at the first NUL.\<close>

definition c_str :: "string \<Rightarrow> string" where
  "c_str s = takeWhile (\<lambda>c. c \<noteq> CHR 0x00) s"

text \<open>\<open>JsonValueAdapter\<close> for a native type.\<close>

fun adapt :: "ty \<Rightarrow> rj \<Rightarrow> val option" where
  "adapt TBool (RBool b) = Some (VBool b)"
| "adapt TInt32 (RInt i) = (if - (2 ^ 31) \<le> i \<and> i < 2 ^ 31 then Some (VInt32 (of_int i)) else None)"
| "adapt TInt64 (RInt i) = (if - (2 ^ 63) \<le> i \<and> i < 2 ^ 63 then Some (VInt64 (of_int i)) else None)"
| "adapt TFloat (RDouble d) = Some (VFloat (flt_of_dbl d))"
| "adapt TDouble (RDouble d) = Some (VDouble d)"
| "adapt TString (RString s) = Some (VString (c_str s))"
| "adapt _ _ = None"

text \<open>\<open>read_value\<close> reads the member \<open>k\<close> of a type; \<open>read_fields\<close> is \<open>jdeserialize\<close>: one member
  after the other is assigned until an exception, and a missing or null member keeps what it has.\<close>

fun read_value :: "ty \<Rightarrow> string \<Rightarrow> rj \<Rightarrow> val res"
  and read_fields :: "model \<Rightarrow> rj \<Rightarrow> fields \<Rightarrow> fields \<times> exn option" where
  "read_value (TVec t) k j = (case j of
     RArray xs \<Rightarrow> bindE (mapE (read_value t k) xs) (\<lambda>vs. Inr (VVec vs))
   | _ \<Rightarrow> Inl (JsonTypeMismatch k))"
| "read_value (TStruct m) k j = (case read_fields m j (blank m) of
     (fs, None) \<Rightarrow> Inr (VStruct fs)
   | (_, Some e) \<Rightarrow> Inl e)"
| "read_value t k j = (case adapt t j of Some v \<Rightarrow> Inr v | None \<Rightarrow> Inl (JsonTypeMismatch k))"
| "read_fields [] j fs = (fs, None)"
| "read_fields ((k, t) # m) j fs =
     (if \<not> is_robject j then (fs, Some (JsonTypeMismatch k))
      else case present j k of
        None \<Rightarrow> read_fields m j fs
      | Some x \<Rightarrow> (case read_value t k x of
            Inl e \<Rightarrow> (fs, Some e)
          | Inr v \<Rightarrow> read_fields m j (set_member k v fs)))"

section \<open>Texts\<close>

text \<open>
  \<open>fromJsonString\<close> with the error as an argument: the object, as far as it has been filled in,
  and the exception that has been caught. \<open>parse_rj\<close> is the parser of \<open>rapidjson\<close>,
  which stops at a NUL.
\<close>

definition fromJsonString :: "(string \<Rightarrow> rj option) \<Rightarrow> model \<Rightarrow> fields \<Rightarrow> string \<Rightarrow> fields \<times> exn option" where
  "fromJsonString parse_rj m start data = (case parse_rj (c_str data) of
     None \<Rightarrow> (start, Some JsonParsingFailed)
   | Some j \<Rightarrow> read_fields m j start)"

definition toJsonStr :: "(rj \<Rightarrow> string) \<Rightarrow> fields \<Rightarrow> string" where
  "toJsonStr print_rj fs = print_rj (RObject (ser_fields fs))"

end
