(* ===== verification/FloatFacts.thy ===== *)
theory FloatFacts
  imports Complex_Main Serial
begin

text \<open>
  Rounding is exact on the numbers of a format, so that a \<open>float\<close> survives the way through a
  \<open>double\<close>.
\<close>

section \<open>Bit lengths\<close>

lemma blen_pos: "0 < n \<Longrightarrow> 0 < blen n"
  by (simp add: blen.simps [of n])

lemma blen_bounds: "0 < n \<Longrightarrow> 2 ^ (blen n - 1) \<le> n \<and> n < 2 ^ blen n"
proof (induction n rule: blen.induct)
  case (1 n)
  show ?case
  proof (cases "n div 2 = 0")
    case True
    with 1 have "n = 1" by simp
    then show ?thesis by (simp add: blen.simps)
  next
    case False
    with 1 have ih: "2 ^ (blen (n div 2) - 1) \<le> n div 2" "n div 2 < 2 ^ blen (n div 2)" by simp_all
    obtain b where b: "blen (n div 2) = Suc b" using blen_pos [of "n div 2"] False by (cases "blen (n div 2)") auto
    have n: "blen n = Suc (Suc b)" using 1 b by (simp add: blen.simps [of n])
    have "2 * (n div 2) \<le> n" "n < 2 * (n div 2) + 2" by simp_all
    with ih show ?thesis unfolding n b by simp
  qed
qed

lemma blen_real:
  assumes "0 < n"
  shows "(2 :: real) powi (int (blen n) - 1) \<le> real n" "real n < 2 powi int (blen n)"
proof -
  have "int (blen n) - 1 = int (blen n - 1)" using blen_pos [OF assms] by simp
  moreover have "real (2 ^ (blen n - 1)) \<le> real n" "real n < real (2 ^ blen n)"
    using blen_bounds [OF assms] by (simp_all only: of_nat_le_iff of_nat_less_iff)
  ultimately show "(2 :: real) powi (int (blen n) - 1) \<le> real n" "real n < 2 powi int (blen n)"
    by (simp_all add: power_int_of_nat del: of_nat_diff)
qed

lemma powi_less: "(2 :: real) powi x < 2 powi y \<Longrightarrow> x < y"
  by (metis linorder_not_le one_le_numeral power_int_increasing)

lemma blen_unique: "2 ^ (b - 1) \<le> n \<Longrightarrow> n < 2 ^ b \<Longrightarrow> 0 < b \<Longrightarrow> blen n = b"
proof -
  assume a: "2 ^ (b - 1) \<le> n" "n < 2 ^ b" "0 < b"
  then have "0 < n" by (metis gr0I not_less zero_less_numeral zero_less_power)
  note bb = blen_bounds [OF this] blen_pos [OF this]
  have "2 ^ (b - 1) < (2 :: nat) ^ blen n" "2 ^ (blen n - 1) < (2 :: nat) ^ b"
    using a bb by linarith+
  then have "b - 1 < blen n" "blen n - 1 < b" by simp_all
  with a(3) bb(2) show ?thesis by linarith
qed

section \<open>Ratios\<close>

text \<open>The value of a numerator and a denominator.\<close>

definition ratio :: "nat \<times> nat \<Rightarrow> real" where
  "ratio q = real (fst q) / real (snd q)"

lemma scale2_exact:
  assumes "0 < d" "real n / real d = real m * 2 powi e"
  shows "0 < snd (scale2 e n d)" "fst (scale2 e n d) = m * snd (scale2 e n d)"
proof -
  have n: "real n = real m * 2 powi e * real d" using assms by (simp add: field_simps)
  show "fst (scale2 e n d) = m * snd (scale2 e n d)"
  proof (cases "0 \<le> e")
    case True
    then have "real n = real (m * (d * 2 ^ nat e))"
      using n by (simp add: power_int_def)
    then have "n = m * (d * 2 ^ nat e)" by (simp only: of_nat_eq_iff)
    with True show ?thesis by (simp add: scale2_def)
  next
    case False
    then have "real (n * 2 ^ nat (- e)) = real (m * d)"
      using n by (simp add: power_int_def field_simps)
    then have "n * 2 ^ nat (- e) = m * d" by (simp only: of_nat_eq_iff)
    with False show ?thesis by (simp add: scale2_def)
  qed
  show "0 < snd (scale2 e n d)" using assms(1) by (simp add: scale2_def)
qed

lemma round_half_even_exact: "0 < d \<Longrightarrow> round_half_even (m * d) d = m"
  by (simp add: round_half_even_def)

text \<open>A number of the format is rounded to itself.\<close>

lemma fp_round_exact:
  assumes m: "0 < m" "m < 2 ^ p" and p: "0 < p" and d: "0 < d"
    and v: "real n / real d = real m * 2 powi e"
    and e: "emin \<le> e" "e = emin \<or> 2 ^ (p - 1) \<le> m"
  shows "fp_round p emin n d = nat (e - emin) * 2 ^ (p - 1) + m"
proof -
  have n: "0 < n" using v m(1) d by (cases n) auto
  define e0 where "e0 = int (blen n) - int (blen d) - int p"
  define e1 where "e1 = (case scale2 e0 n d of (a, b) \<Rightarrow> if a div b \<ge> 2 ^ p then e0 + 1 else e0)"
  have up: "(2 :: real) powi (int (blen m) - 1 + e) < 2 powi (int (blen n) - int (blen d) + 1)"
  proof -
    have "(2 :: real) powi (int (blen m) - 1 + e) \<le> real m * 2 powi e"
      using blen_real(1) [OF m(1)] by (simp add: power_int_add mult_right_mono)
    also have "\<dots> = real n / real d" using v by simp
    also have "\<dots> < 2 powi int (blen n) / 2 powi (int (blen d) - 1)"
      using blen_real(2) [OF n] blen_real(1) [OF d] d n
      by (intro frac_less) (auto simp: zero_less_power_int)
    also have "\<dots> = 2 powi (int (blen n) - int (blen d) + 1)"
      by (subst power_int_diff [symmetric]) (simp_all add: algebra_simps)
    finally show ?thesis .
  qed
  have lo: "(2 :: real) powi (int (blen n) - 1 - int (blen d)) < 2 powi (int (blen m) + e)"
  proof -
    have "(2 :: real) powi (int (blen n) - 1 - int (blen d)) = 2 powi (int (blen n) - 1) / 2 powi int (blen d)"
      by (simp add: power_int_diff)
    also have "\<dots> < real n / real d"
      using blen_real(1) [OF n] blen_real(2) [OF d] d n by (intro frac_less2) (auto simp: zero_less_power_int)
    also have "\<dots> = real m * 2 powi e" by (rule v)
    also have "\<dots> < 2 powi (int (blen m) + e)"
      using blen_real(2) [OF m(1)] by (simp add: power_int_add mult_strict_right_mono)
    finally show ?thesis .
  qed
  have b: "int (blen m) + e - 2 < int (blen n) - int (blen d)" "int (blen n) - int (blen d) \<le> int (blen m) + e"
    using powi_less [OF up] powi_less [OF lo] by linarith+
  have e1_le: "e1 \<le> e0 + 1" by (simp add: e1_def split: prod.splits)
  have "max e1 emin = e"
  proof (cases "2 ^ (p - 1) \<le> m")
    case True
    then have bm: "blen m = p" using m p by (intro blen_unique)
    then have "e0 = e \<or> e0 = e - 1" using b by (auto simp: e0_def)
    then consider "e0 = e" | "e0 = e - 1" by blast
    then have "e1 = e"
    proof cases
      case 1
      with scale2_exact [OF d v] m(2) show ?thesis by (auto simp: e1_def split: prod.splits)
    next
      case 2
      have "real n / real d = real (2 * m) * 2 powi e0"
        using v by (simp add: 2 power_int_diff)
      from scale2_exact [OF d this] have "fst (scale2 e0 n d) div snd (scale2 e0 n d) = 2 * m" by simp
      moreover have "2 ^ p \<le> 2 * m" using True p by (cases p) auto
      ultimately show ?thesis using 2 by (simp add: e1_def case_prod_beta)
    qed
    with e(1) show ?thesis by simp
  next
    case False
    then have "e = emin" using e(2) by simp
    moreover have "blen m \<le> p - 1"
    proof (rule ccontr)
      assume "\<not> blen m \<le> p - 1"
      then have "(2 :: nat) ^ (p - 1) \<le> 2 ^ (blen m - 1)" by simp
      with blen_bounds [OF m(1)] False show False by linarith
    qed
    ultimately show ?thesis using b(2) e1_le p by (simp add: e0_def)
  qed
  moreover have "fp_round p emin n d = (case scale2 (max e1 emin) n d of (a, b) \<Rightarrow>
      nat (max e1 emin - emin) * 2 ^ (p - 1) + round_half_even a b)"
    unfolding fp_round_def e1_def e0_def using n by (simp add: Let_def)
  ultimately show ?thesis
    using scale2_exact [OF d v] by (simp add: case_prod_beta round_half_even_exact)
qed

section \<open>The formats\<close>

text \<open>The mantissa and the exponent of a magnitude.\<close>

definition mant :: "nat \<Rightarrow> nat \<Rightarrow> nat" where
  "mant p x = (if x div 2 ^ (p - 1) = 0 then x else 2 ^ (p - 1) + x mod 2 ^ (p - 1))"

definition expo :: "nat \<Rightarrow> int \<Rightarrow> nat \<Rightarrow> int" where
  "expo p emin x = (if x div 2 ^ (p - 1) = 0 then emin else emin + int (x div 2 ^ (p - 1)) - 1)"

lemma mant_less: "0 < p \<Longrightarrow> mant p x < 2 ^ p"
proof -
  assume "0 < p"
  then obtain q where "p = Suc q" by (cases p) auto
  moreover have "x mod 2 ^ q < 2 ^ q" by simp
  ultimately show ?thesis by (auto simp: mant_def div_eq_0_iff)
qed

lemma mant_normal: "expo p emin x = emin \<or> 2 ^ (p - 1) \<le> mant p x"
  by (simp add: mant_def expo_def)

lemma expo_least: "emin \<le> expo p emin x"
  by (auto simp: expo_def of_nat_gt_0 Suc_leI)

lemma mant_expo: "nat (expo p emin x - emin) * 2 ^ (p - 1) + mant p x = x"
proof (cases "x div 2 ^ (p - 1)")
  case (Suc n)
  then have "x = Suc n * 2 ^ (p - 1) + x mod 2 ^ (p - 1)" by (metis div_mult_mod_eq)
  with Suc show ?thesis by (simp add: mant_def expo_def algebra_simps)
qed (simp add: mant_def expo_def)

lemma fp_ratio_value:
  "0 < snd (fp_ratio p emin x)"
  "real (fst (fp_ratio p emin x)) / real (snd (fp_ratio p emin x)) = real (mant p x) * 2 powi expo p emin x"
proof -
  have m: "mant p x = (if x div 2 ^ (p - 1) = 0 then x mod 2 ^ (p - 1) else 2 ^ (p - 1) + x mod 2 ^ (p - 1))"
    by (auto simp: mant_def div_eq_0_iff)
  have "fp_ratio p emin x = (if expo p emin x \<ge> 0 then (mant p x * 2 ^ nat (expo p emin x), 1)
      else (mant p x, 2 ^ nat (- expo p emin x)))"
    unfolding m by (simp add: fp_ratio_def expo_def Let_def)
  then show "0 < snd (fp_ratio p emin x)"
    "real (fst (fp_ratio p emin x)) / real (snd (fp_ratio p emin x)) = real (mant p x) * 2 powi expo p emin x"
    by (auto simp: power_int_def field_simps)
qed

text \<open>A magnitude of a format, given by any ratio of its value, is rounded to itself.\<close>

lemma fp_round_of_value:
  assumes "0 < p" "0 < d" "real n / real d = real (mant p x) * 2 powi expo p emin x"
  shows "fp_round p emin n d = x"
proof (cases "mant p x = 0")
  case True
  then have "n = 0" "x = 0" using assms by (auto simp: mant_def split: if_splits)
  then show ?thesis by (simp add: fp_round_def)
next
  case False
  then show ?thesis
    using fp_round_exact [OF _ mant_less assms(1-3) expo_least mant_normal] assms(1) mant_expo by simp
qed

section \<open>Through a double\<close>

lemma div_mod_split: "(f :: nat) < c \<Longrightarrow> (a * c + f) div c = a \<and> (a * c + f) mod c = f"
  by simp

lemma flt_through_dbl:
  assumes "x < flt_inf"
  shows "dbl_mag (fp_ratio 24 (- 149) x) < dbl_inf"
    and "flt_mag (fp_ratio 53 (- 1074) (dbl_mag (fp_ratio 24 (- 149) x))) = x"
proof -
  let ?m = "mant 24 x" and ?e = "expo 24 (- 149) x"
  define D where "D = dbl_mag (fp_ratio 24 (- 149) x)"
  note v = fp_ratio_value [of 24 "- 149" x]
  have "D < dbl_inf \<and> real (mant 53 D) * 2 powi expo 53 (- 1074) D = real ?m * 2 powi ?e"
  proof (cases "?m = 0")
    case True
    then have "fst (fp_ratio 24 (- 149) x) = 0" using v by auto
    then have "D = 0" by (simp add: D_def dbl_mag_def fp_round_def)
    with True show ?thesis by (simp add: dbl_inf_def mant_def)
  next
    case False
    define k where "k = 53 - blen ?m"
    have bm: "0 < blen ?m" "2 ^ (blen ?m - 1) \<le> ?m" "?m < 2 ^ blen ?m"
      using False blen_bounds blen_pos by simp_all
    have "(2 :: nat) ^ (blen ?m - 1) < 2 ^ 24" using bm(2) mant_less [of 24 x] by simp
    then have "blen ?m - 1 < 24" by (rule power_less_imp_less_exp [rotated]) simp
    then have bm24: "blen ?m \<le> 24" by simp
    define M where "M = ?m * 2 ^ k"
    have M: "0 < M" "M < 2 ^ 53" "2 ^ (53 - 1) \<le> M"
    proof -
      have "(2 :: nat) ^ (blen ?m - 1) * 2 ^ k \<le> M" "M < 2 ^ blen ?m * 2 ^ k"
        using bm by (simp_all add: M_def)
      moreover have "blen ?m - 1 + k = 53 - 1" "blen ?m + k = 53" using bm bm24 by (simp_all add: k_def)
      ultimately show "0 < M" "M < 2 ^ 53" "2 ^ (53 - 1) \<le> M"
        using False by (simp_all only: power_add [symmetric]) (simp_all add: M_def)
    qed
    have e: "- 149 \<le> ?e" "?e \<le> 104"
    proof -
      have "x div 2 ^ 23 < 255" using assms by (simp add: flt_inf_def div_less_iff_less_mult)
      then show "?e \<le> 104" by (simp add: expo_def)
    qed (rule expo_least)
    have val: "real ?m * 2 powi ?e = real M * 2 powi (?e - int k)"
      by (simp add: M_def power_int_diff)
    have k: "k < 53" using bm(1) by (simp add: k_def)
    have "D = nat (?e - int k + 1074) * 2 ^ 52 + M"
      using fp_round_exact [OF M(1,2) _ v(1), where e = "?e - int k" and emin = "- 1074"] v(2) val M(3) e(1) k
      by (simp add: D_def dbl_mag_def)
    then obtain f where D: "D = (nat (?e - int k + 1074) + 1) * 2 ^ 52 + f" "M = 2 ^ 52 + f" "f < 2 ^ 52"
      using M that [of "M - 2 ^ 52"] by simp
    then have div: "D div 2 ^ 52 = nat (?e - int k + 1074) + 1" "D mod 2 ^ 52 = f"
      using div_mod_split [OF D(3)] by (simp_all only:)
    then have "mant 53 D = M" "expo 53 (- 1074) D = ?e - int k"
      using D(2) e k by (simp_all add: mant_def expo_def)
    moreover have "D < dbl_inf"
    proof -
      have "nat (?e - int k + 1074) + 1 < 2047" using e by linarith
      with div have "D div 2 ^ 52 < 2047" by simp
      then show ?thesis by (simp add: dbl_inf_def div_less_iff_less_mult)
    qed
    ultimately show ?thesis using val by simp
  qed
  then show "dbl_mag (fp_ratio 24 (- 149) x) < dbl_inf"
    "flt_mag (fp_ratio 53 (- 1074) (dbl_mag (fp_ratio 24 (- 149) x))) = x"
    using fp_ratio_value [of 53 "- 1074" D] fp_round_of_value [of 24]
    by (simp_all add: D_def [symmetric] flt_mag_def)
qed

lemma flt_of_dbl_of_flt: "flt_of_dbl (dbl_of_flt w) = w"
proof -
  define x where "x = unat w mod 2 ^ 31"
  define neg where "neg = (unat w \<ge> 2 ^ 31)"
  define b where "b = (if x \<ge> flt_inf then dbl_inf + (x - flt_inf) * 2 ^ 29 else dbl_mag (fp_ratio 24 (- 149) x))"
  have w: "unat w = x + (if neg then 2 ^ 31 else 0)"
  proof -
    have "unat w < 2 ^ LENGTH(32)" by (rule unsigned_less)
    then have "unat w div 2 ^ 31 = (if neg then 1 else 0)" by (auto simp: neg_def div_eq_0_iff)
    then show ?thesis using div_mult_mod_eq [of "unat w" "2 ^ 31"] by (auto simp: x_def split: if_splits)
  qed
  have x: "x < 2 ^ 31" by (simp add: x_def)
  have b: "b < 2 ^ 63"
  proof (cases "x \<ge> flt_inf")
    case True
    with x show ?thesis by (simp add: b_def dbl_inf_def flt_inf_def)
  next
    case False
    then show ?thesis using flt_through_dbl(1) [of x] by (simp add: b_def dbl_inf_def)
  qed
  have d: "unat (dbl_of_flt w) = b + (if neg then 2 ^ 63 else 0)"
  proof -
    have "dbl_of_flt w = of_nat (b + (if neg then 2 ^ 63 else 0))"
      by (simp only: dbl_of_flt_def Let_def x_def b_def neg_def)
    moreover have "b + (if neg then 2 ^ 63 else 0) < 2 ^ LENGTH(64)" using b by simp
    ultimately show ?thesis by (simp only: unsigned_of_nat take_bit_nat_eq_self of_nat_id)
  qed
  then have m: "unat (dbl_of_flt w) mod 2 ^ 63 = b" "unat (dbl_of_flt w) \<ge> 2 ^ 63 \<longleftrightarrow> neg"
    using b by (auto simp: mod_add_self2)
  have "(if b \<ge> dbl_inf then flt_inf + (b - dbl_inf) div 2 ^ 29
         else min flt_inf (flt_mag (fp_ratio 53 (- 1074) b))) = x"
    using flt_through_dbl [of x] by (cases "x \<ge> flt_inf") (simp_all add: b_def)
  then have "flt_of_dbl (dbl_of_flt w) = of_nat (x + (if neg then 2 ^ 31 else 0))"
    using m by (simp add: flt_of_dbl_def Let_def)
  then show ?thesis by (simp add: w [symmetric])
qed

end
