(* ===== verification/SerialFacts.thy ===== *)
theory SerialFacts
  imports FloatFacts
begin

text \<open>
  Types of the serialized values: what is read has the type of the model, and what is written
  is read back.
\<close>

section \<open>Typing\<close>

fun conforms :: "ty \<Rightarrow> val \<Rightarrow> bool" and conforms_fields :: "model \<Rightarrow> fields \<Rightarrow> bool" where
  "conforms TBool (VBool _) = True"
| "conforms TInt32 (VInt32 _) = True"
| "conforms TInt64 (VInt64 _) = True"
| "conforms TFloat (VFloat _) = True"
| "conforms TDouble (VDouble _) = True"
| "conforms TString (VString _) = True"
| "conforms (TVec t) (VVec vs) = list_all (conforms t) vs"
| "conforms (TStruct m) (VStruct fs) = conforms_fields m fs"
| "conforms _ _ = False"
| "conforms_fields [] fs = (fs = [])"
| "conforms_fields ((k, t) # m) fs = (case fs of [] \<Rightarrow> False
     | (l, x) # fs' \<Rightarrow> l = k \<and> (case x of None \<Rightarrow> True | Some v \<Rightarrow> conforms t v) \<and> conforms_fields m fs')"

text \<open>A model that \<open>FIELDS_MAP\<close> can declare: the keys of a structure differ.\<close>

fun wf_ty :: "ty \<Rightarrow> bool" and wf_model :: "model \<Rightarrow> bool" where
  "wf_ty (TVec t) = wf_ty t"
| "wf_ty (TStruct m) = wf_model m"
| "wf_ty _ = True"
| "wf_model [] = True"
| "wf_model ((k, t) # m) = (k \<notin> fst ` set m \<and> wf_ty t \<and> wf_model m)"

text \<open>The values that a document can carry: strings without NUL.\<close>

fun portable :: "val \<Rightarrow> bool" and portable_fields :: "fields \<Rightarrow> bool" where
  "portable (VString s) = (CHR 0x00 \<notin> set s)"
| "portable (VVec vs) = list_all portable vs"
| "portable (VStruct fs) = portable_fields fs"
| "portable _ = True"
| "portable_fields [] = True"
| "portable_fields ((k, x) # fs) = ((case x of None \<Rightarrow> True | Some v \<Rightarrow> portable v) \<and> portable_fields fs)"

lemma conforms_keys: "conforms_fields m fs \<Longrightarrow> map fst fs = map fst m"
  by (induction m arbitrary: fs) (auto split: list.splits)

lemma wf_model_distinct: "wf_model m \<Longrightarrow> distinct (map fst m)"
  by (induction m) (force split: prod.splits)+

lemma member_Cons: "member l ((k, x) # fs) = (if l = k then x else member l fs)"
  by (simp add: member_def)

lemma conforms_fields_blank: "conforms_fields m (blank m)"
  by (induction m) (auto simp: blank_def)

lemma portable_fields_blank: "portable_fields (blank m)"
  by (induction m) (auto simp: blank_def)

section \<open>What is read has its type\<close>

lemma set_member_absent: "k \<notin> fst ` set fs \<Longrightarrow> set_member k v fs = fs"
  by (induction fs) (auto simp: set_member_def)

lemma conforms_set_member:
  "conforms_fields m fs \<Longrightarrow> map_of m k = Some t \<Longrightarrow> distinct (map fst m) \<Longrightarrow> conforms t v
     \<Longrightarrow> conforms_fields m (set_member k v fs)"
proof (induction m arbitrary: fs)
  case (Cons p m)
  obtain l u where p: "p = (l, u)" by (cases p)
  from Cons.prems(1) obtain x fs' where fs: "fs = (l, x) # fs'" "conforms_fields m fs'"
    "case x of None \<Rightarrow> True | Some w \<Rightarrow> conforms u w"
    by (auto simp: p split: list.splits)
  show ?case
  proof (cases "l = k")
    case True
    with Cons.prems(3) conforms_keys [OF fs(2)] have "k \<notin> fst ` set fs'"
      by (simp add: p) (metis list.set_map)
    then have "set_member k v fs' = fs'" by (rule set_member_absent)
    with True Cons.prems fs show ?thesis by (simp add: p set_member_def)
  next
    case False
    with Cons fs have "conforms_fields m (set_member k v fs')" by (simp add: p)
    with False fs show ?thesis by (simp add: p set_member_def)
  qed
qed simp

lemma portable_set_member: "portable_fields fs \<Longrightarrow> portable v \<Longrightarrow> portable_fields (set_member k v fs)"
  by (induction fs) (auto simp: set_member_def)

lemma adapt_conforms: "adapt t j = Some v \<Longrightarrow> conforms t v \<and> portable v"
  by (induction t j rule: adapt.induct) (auto simp: c_str_def split: if_splits dest: set_takeWhileD)

text \<open>Reading the members \<open>m'\<close> of a model \<open>m\<close> keeps its type, whether it ends or stops.\<close>

lemma read_conforms:
  "wf_ty t \<Longrightarrow> read_value t k j = Inr v \<Longrightarrow> conforms t v \<and> portable v"
  "wf_model m' \<Longrightarrow> distinct (map fst m) \<Longrightarrow> \<forall>(k, t) \<in> set m'. map_of m k = Some t \<Longrightarrow>
     conforms_fields m fs \<Longrightarrow> portable_fields fs \<Longrightarrow>
     conforms_fields m (fst (read_fields m' j fs)) \<and> portable_fields (fst (read_fields m' j fs))"
proof (induction t k j and m' j fs arbitrary: v and m rule: read_value_read_fields.induct)
  case (1 t k j)
  then obtain xs vs where j: "j = RArray xs" "mapE (read_value t k) xs = Inr vs" "v = VVec vs"
    by (auto split: rj.splits simp: bindE_Inr_iff)
  then have "\<forall>w \<in> set vs. \<exists>x. read_value t k x = Inr w"
    by (auto simp: mapE_Inr_iff list_all2_conv_all_nth in_set_conv_nth) blast
  with 1 j show ?case by (fastforce simp: list_all_iff)
next
  case (2 m k j)
  then have "conforms_fields m (fst (read_fields m j (blank m))) \<and> portable_fields (fst (read_fields m j (blank m)))"
    by (intro "2.IH") (auto simp: conforms_fields_blank portable_fields_blank wf_model_distinct split: prod.splits)
  with 2 show ?case by (auto split: prod.splits option.splits)
next
  case (5 k t m' j fs)
  have m': "wf_ty t" "wf_model m'" "\<forall>(k, t) \<in> set m'. map_of m k = Some t" "map_of m k = Some t"
    using "5.prems" by auto
  show ?case
  proof (cases "is_robject j \<and> (\<exists>x v. present j k = Some x \<and> read_value t k x = Inr v)")
    case True
    then obtain x v where x: "is_robject j" "present j k = Some x" "read_value t k x = Inr v"
      by auto
    then have "conforms t v \<and> portable v" using 5 m' by auto
    with x 5 m' show ?thesis
      by (auto simp: conforms_set_member portable_set_member)
  next
    case False
    with 5 m' show ?thesis by (auto split: option.splits rj.splits sum.splits)
  qed
qed (auto split: option.splits dest: adapt_conforms)

section \<open>What is written is read back\<close>

lemma ser_not_null: "ser v \<noteq> RNull"
  by (cases v) simp_all

lemma ser_fields_Cons:
  "ser_fields ((k, x) # fs) = (case x of None \<Rightarrow> [] | Some v \<Rightarrow> [(k, ser v)]) @ ser_fields fs"
  by (cases x) simp_all

lemma ser_fields_keys: "fst ` set (ser_fields fs) \<subseteq> fst ` set fs"
proof (induction fs)
  case (Cons p fs)
  then show ?case by (cases p) (auto simp: ser_fields_Cons split: option.splits)
qed simp

lemma present_ser:
  "distinct (map fst fs) \<Longrightarrow> present (RObject (ser_fields fs)) k = map_option ser (member k fs)"
proof (induction fs)
  case (Cons p fs)
  obtain l x where p: "p = (l, x)" by (cases p)
  show ?case
  proof (cases "k = l")
    case True
    with Cons.prems ser_fields_keys [of fs] have "map_of (ser_fields fs) k = None"
      by (auto simp: p map_of_eq_None_iff)
    with True show ?thesis
      by (simp add: p present_def find_member_def ser_fields_Cons member_Cons ser_not_null split: option.split)
  next
    case False
    then have "present (RObject (ser_fields ((l, x) # fs))) k = present (RObject (ser_fields fs)) k"
      by (cases x) (simp_all add: present_def find_member_def)
    with False Cons show ?thesis by (simp add: p member_Cons)
  qed
qed (simp add: present_def find_member_def member_def)

text \<open>The members of \<open>fs\<close> over those of \<open>start\<close>.\<close>

definition over :: "fields \<Rightarrow> fields \<Rightarrow> fields" where
  "over fs start = map (\<lambda>(k, x). (k, case member k fs of None \<Rightarrow> x | Some v \<Rightarrow> Some v)) start"

lemma read_ser_fields:
  assumes "distinct (map fst fs)"
    and "\<And>k t v. (k, t) \<in> set m \<Longrightarrow> member k fs = Some v \<Longrightarrow> read_value t k (ser v) = Inr v"
  shows "read_fields m (RObject (ser_fields fs)) start =
     (map (\<lambda>(k, x). (k, if k \<in> fst ` set m then (case member k fs of None \<Rightarrow> x | Some v \<Rightarrow> Some v) else x)) start,
      None)"
  using assms(2)
proof (induction m arbitrary: start)
  case (Cons p m)
  obtain k t where p: "p = (k, t)" by (cases p)
  note IH = Cons.IH [OF Cons.prems]
  show ?case
  proof (cases "member k fs")
    case None
    then show ?thesis
      by (simp add: p present_ser assms(1) IH) (auto split: option.splits)
  next
    case (Some v)
    then have "read_value t k (ser v) = Inr v" using Cons.prems by (simp add: p)
    with Some show ?thesis
      by (simp add: p present_ser assms(1) IH) (auto simp: set_member_def split: option.splits)
  qed
qed simp

lemma conforms_member:
  "conforms_fields m fs \<Longrightarrow> map_of m k = Some t \<Longrightarrow> member k fs = Some v \<Longrightarrow> conforms t v"
  by (induction m arbitrary: fs) (auto simp: member_Cons split: list.splits if_splits)

lemma portable_member: "portable_fields fs \<Longrightarrow> member k fs = Some v \<Longrightarrow> portable v"
  by (induction fs) (auto simp: member_Cons member_def split: if_splits)

lemma c_str_id: "CHR 0x00 \<notin> set s \<Longrightarrow> c_str s = s"
  by (auto simp: c_str_def takeWhile_eq_all_conv)

lemma sint_range:
  "- 2147483648 \<le> sint (a :: 32 word)" "sint (a :: 32 word) < 2147483648"
  "- 9223372036854775808 \<le> sint (b :: 64 word)" "sint (b :: 64 word) < 9223372036854775808"
  using sint_range_size [of a] sint_range_size [of b] by (simp_all add: word_size)

lemma over_blank: "map fst fs = map fst m \<Longrightarrow> distinct (map fst m) \<Longrightarrow> over fs (blank m) = fs"
proof (induction m arbitrary: fs)
  case (Cons p m)
  obtain k t where p: "p = (k, t)" by (cases p)
  with Cons.prems obtain x fs' where fs: "fs = (k, x) # fs'" "map fst fs' = map fst m" by (cases fs) auto
  have "l \<noteq> k" if "(l, u) \<in> set m" for l u using that Cons.prems(2) by (auto simp: p image_iff)
  then have "over fs (blank m) = over fs' (blank m)"
    by (auto simp: over_def blank_def fs member_Cons)
  also have "\<dots> = fs'" using Cons fs by simp
  finally show ?case by (simp add: p blank_def over_def fs member_Cons split: option.split)
qed (simp add: over_def blank_def)

lemma read_ser:
  "conforms t v \<Longrightarrow> wf_ty t \<Longrightarrow> portable v \<Longrightarrow> read_value t n (ser v) = Inr v"
  "conforms_fields m fs \<Longrightarrow> wf_model m \<Longrightarrow> portable_fields fs \<Longrightarrow>
     \<forall>k t v n. (k, t) \<in> set m \<longrightarrow> member k fs = Some v \<longrightarrow> read_value t n (ser v) = Inr v"
proof (induction t v and m fs arbitrary: n rule: conforms_conforms_fields.induct)
  case (7 t vs)
  then have "mapE (read_value t n) (map ser vs) = Inr vs"
    by (auto simp: mapE_Inr_iff list_all2_conv_all_nth list_all_length)
  then show ?case by simp
next
  case (8 m fs)
  then have c: "conforms_fields m fs" "wf_model m" by simp_all
  have k: "map fst fs = map fst m" "distinct (map fst m)"
    using conforms_keys [OF c(1)] wf_model_distinct [OF c(2)] by simp_all
  have "read_fields m (RObject (ser_fields fs)) (blank m) = (over fs (blank m), None)"
    using 8 k by (subst read_ser_fields) (auto simp: over_def blank_def rev_image_eqI)
  then show ?case by (simp add: over_blank [OF k])
next
  case (11 k t m fs)
  then obtain x fs' where fs: "fs = (k, x) # fs'" "conforms_fields m fs'" "\<And>v. x = Some v \<Longrightarrow> conforms t v"
    by (auto split: list.splits option.splits)
  show ?case
  proof (intro allI impI)
    fix k' t' v n
    assume a: "(k', t') \<in> set ((k, t) # m)" "member k' fs = Some v"
    show "read_value t' n (ser v) = Inr v"
    proof (cases "k' = k")
      case True
      with a 11 fs have "t' = t" "x = Some v" by (auto simp: member_Cons rev_image_eqI)
      with "11.IH"(1) [of _ _ _ _ v n] "11.prems" fs show ?thesis by auto
    next
      case False
      with a have "(k', t') \<in> set m" "member k' fs' = Some v" by (auto simp: fs member_Cons)
      with "11.IH"(2) "11.prems" fs show ?thesis by auto
    qed
  qed
qed (auto simp: c_str_id sint_range flt_of_dbl_of_flt)

end
