(* ===== verification/SignalModels.thy ===== *)
theory SignalModels
  imports Serial Json
begin

text \<open>
  The messages of the signaling protocol (\<open>mssdk/mssignal/signaling_models.h\<close>): every structure as
  the model of its \<open>FIELDS_MAP\<close>, a nested structure under the name of the outer one. A member that
  \<open>FIELDS_MAP\<close> does not list (\<open>apt\<close> of \<open>JoinRequest::Parameters\<close>, \<open>rtpRecvBitrate\<close> of
  \<open>GetTransportStatsResponse::Data\<close>) is neither written nor read.
\<close>

section \<open>Structures\<close>

definition CommonHeader :: model where
  "CommonHeader =
    [(''request'', TBool), (''response'', TBool), (''notification'', TBool), (''id'', TInt64),
     (''method'', TString), (''ok'', TBool)]"

definition MessageType :: model where
  "MessageType =
    [(''request'', TBool), (''response'', TBool), (''notification'', TBool)]"

definition RequestHeader :: model where
  "RequestHeader =
    [(''request'', TBool), (''id'', TInt64), (''method'', TString)]"

definition ResponseHeader :: model where
  "ResponseHeader =
    [(''response'', TBool), (''id'', TInt64), (''ok'', TBool)]"

definition NotificationHeader :: model where
  "NotificationHeader =
    [(''notification'', TBool), (''method'', TString)]"

definition BasicResponse :: model where
  "BasicResponse =
    [(''response'', TBool), (''id'', TInt64), (''ok'', TBool)]"

definition GetRouterRtpCapabilitiesRequest :: model where
  "GetRouterRtpCapabilitiesRequest =
    [(''request'', TBool), (''id'', TInt64), (''method'', TString)]"

definition GetRouterRtpCapabilitiesResponse_RTCPFeedback :: model where
  "GetRouterRtpCapabilitiesResponse_RTCPFeedback =
    [(''type'', TString), (''parameter'', TString)]"

definition GetRouterRtpCapabilitiesResponse_Parameters :: model where
  "GetRouterRtpCapabilitiesResponse_Parameters =
    [(''apt'', TInt32), (''level-asymmetry-allowed'', TInt32), (''packetization-mode'', TInt32),
     (''profile-level-id'', TString), (''x-google-start-bitrate'', TInt32)]"

definition GetRouterRtpCapabilitiesResponse_Codec :: model where
  "GetRouterRtpCapabilitiesResponse_Codec =
    [(''kind'', TString), (''mimeType'', TString), (''clockRate'', TInt32),
     (''channels'', TInt32),
     (''rtcpFeedback'', TVec (TStruct GetRouterRtpCapabilitiesResponse_RTCPFeedback)),
     (''parameters'', TStruct GetRouterRtpCapabilitiesResponse_Parameters),
     (''preferredPayloadType'', TInt32)]"

definition GetRouterRtpCapabilitiesResponse_HeaderExtension :: model where
  "GetRouterRtpCapabilitiesResponse_HeaderExtension =
    [(''kind'', TString), (''uri'', TString), (''preferredId'', TInt32),
     (''preferredEncrypt'', TBool), (''direction'', TString)]"

definition GetRouterRtpCapabilitiesResponse_Data :: model where
  "GetRouterRtpCapabilitiesResponse_Data =
    [(''codecs'', TVec (TStruct GetRouterRtpCapabilitiesResponse_Codec)),
     (''headerExtensions'', TVec (TStruct GetRouterRtpCapabilitiesResponse_HeaderExtension))]"

definition GetRouterRtpCapabilitiesResponse :: model where
  "GetRouterRtpCapabilitiesResponse =
    [(''response'', TBool), (''id'', TInt64), (''ok'', TBool),
     (''data'', TStruct GetRouterRtpCapabilitiesResponse_Data)]"

definition CreateWebRtcTransportRequest_NumStreams :: model where
  "CreateWebRtcTransportRequest_NumStreams =
    [(''MIS'', TInt32), (''OS'', TInt32)]"

definition CreateWebRtcTransportRequest_SCTPCapabilities :: model where
  "CreateWebRtcTransportRequest_SCTPCapabilities =
    [(''numStreams'', TStruct CreateWebRtcTransportRequest_NumStreams)]"

definition CreateWebRtcTransportRequest_Data :: model where
  "CreateWebRtcTransportRequest_Data =
    [(''consuming'', TBool), (''producing'', TBool), (''forceTcp'', TBool),
     (''sctpCapabilities'', TStruct CreateWebRtcTransportRequest_SCTPCapabilities)]"

definition CreateWebRtcTransportRequest :: model where
  "CreateWebRtcTransportRequest =
    [(''request'', TBool), (''id'', TInt64), (''method'', TString),
     (''data'', TStruct CreateWebRtcTransportRequest_Data)]"

definition CreateWebRtcTransportResponse_Fingerprint :: model where
  "CreateWebRtcTransportResponse_Fingerprint =
    [(''algorithm'', TString), (''value'', TString)]"

definition CreateWebRtcTransportResponse_DTLSParameters :: model where
  "CreateWebRtcTransportResponse_DTLSParameters =
    [(''fingerprints'', TVec (TStruct CreateWebRtcTransportResponse_Fingerprint)),
     (''role'', TString)]"

definition CreateWebRtcTransportResponse_ICECandidate :: model where
  "CreateWebRtcTransportResponse_ICECandidate =
    [(''type'', TString), (''protocol'', TString), (''foundation'', TString),
     (''address'', TString), (''port'', TInt32), (''priority'', TInt32)]"

definition CreateWebRtcTransportResponse_ICEParameters :: model where
  "CreateWebRtcTransportResponse_ICEParameters =
    [(''iceLite'', TBool), (''password'', TString), (''usernameFragment'', TString)]"

definition CreateWebRtcTransportResponse_SCTPParameters :: model where
  "CreateWebRtcTransportResponse_SCTPParameters =
    [(''MIS'', TInt32), (''OS'', TInt32), (''isDataChannel'', TBool), (''port'', TInt32),
     (''maxMessageSize'', TInt32), (''sctpBufferedAmount'', TInt32),
     (''sendBufferSize'', TInt32)]"

definition CreateWebRtcTransportResponse_Data :: model where
  "CreateWebRtcTransportResponse_Data =
    [(''id'', TString),
     (''dtlsParameters'', TStruct CreateWebRtcTransportResponse_DTLSParameters),
     (''iceCandidates'', TVec (TStruct CreateWebRtcTransportResponse_ICECandidate)),
     (''iceParameters'', TStruct CreateWebRtcTransportResponse_ICEParameters),
     (''sctpParameters'', TStruct CreateWebRtcTransportResponse_SCTPParameters)]"

definition CreateWebRtcTransportResponse :: model where
  "CreateWebRtcTransportResponse =
    [(''request'', TBool), (''id'', TInt64), (''ok'', TBool),
     (''data'', TStruct CreateWebRtcTransportResponse_Data)]"

definition JoinRequest_Device :: model where
  "JoinRequest_Device =
    [(''flag'', TString), (''name'', TString), (''version'', TString)]"

definition JoinRequest_RTCPFeedback :: model where
  "JoinRequest_RTCPFeedback =
    [(''type'', TString), (''parameter'', TString)]"

definition JoinRequest_Parameters :: model where
  "JoinRequest_Parameters =
    [(''level-asymmetry-allowed'', TInt32), (''packetization-mode'', TInt32),
     (''profile-level-id'', TString), (''x-google-start-bitrate'', TInt32),
     (''minptime'', TInt32), (''useinbandfec'', TInt32), (''profile-id'', TInt32)]"

definition JoinRequest_Codec :: model where
  "JoinRequest_Codec =
    [(''kind'', TString), (''mimeType'', TString), (''clockRate'', TInt32),
     (''channels'', TInt32), (''rtcpFeedback'', TVec (TStruct JoinRequest_RTCPFeedback)),
     (''parameters'', TStruct JoinRequest_Parameters), (''preferredPayloadType'', TInt32)]"

definition JoinRequest_HeaderExtension :: model where
  "JoinRequest_HeaderExtension =
    [(''kind'', TString), (''uri'', TString), (''preferredId'', TInt32),
     (''preferredEncrypt'', TBool), (''direction'', TString)]"

definition JoinRequest_RTPCapabilities :: model where
  "JoinRequest_RTPCapabilities =
    [(''codecs'', TVec (TStruct JoinRequest_Codec)),
     (''headerExtensions'', TVec (TStruct JoinRequest_HeaderExtension))]"

definition JoinRequest_NumStreams :: model where
  "JoinRequest_NumStreams =
    [(''MIS'', TInt32), (''OS'', TInt32)]"

definition JoinRequest_SCTPCapabilities :: model where
  "JoinRequest_SCTPCapabilities =
    [(''numStreams'', TStruct JoinRequest_NumStreams)]"

definition JoinRequest_Data :: model where
  "JoinRequest_Data =
    [(''displayName'', TString), (''device'', TStruct JoinRequest_Device),
     (''rtpCapabilities'', TStruct JoinRequest_RTPCapabilities),
     (''sctpCapabilities'', TStruct JoinRequest_SCTPCapabilities)]"

definition JoinRequest :: model where
  "JoinRequest =
    [(''request'', TBool), (''id'', TInt64), (''method'', TString),
     (''data'', TStruct JoinRequest_Data)]"

definition JoinResponse_Device :: model where
  "JoinResponse_Device =
    [(''flag'', TString), (''name'', TString), (''version'', TString)]"

definition JoinResponse_Peer :: model where
  "JoinResponse_Peer =
    [(''id'', TString), (''displayName'', TString), (''device'', TStruct JoinResponse_Device)]"

definition JoinResponse_Data :: model where
  "JoinResponse_Data =
    [(''peers'', TVec (TStruct JoinResponse_Peer))]"

definition JoinResponse :: model where
  "JoinResponse =
    [(''response'', TBool), (''id'', TInt64), (''ok'', TBool),
     (''data'', TStruct JoinResponse_Data)]"

definition NewDataConsumerRequest_AppData :: model where
  "NewDataConsumerRequest_AppData =
    [(''peerId'', TString)]"

definition NewDataConsumerRequest_SCTPStreamParameters :: model where
  "NewDataConsumerRequest_SCTPStreamParameters =
    [(''streamId'', TInt32), (''ordered'', TBool)]"

definition NewDataConsumerRequest_Data :: model where
  "NewDataConsumerRequest_Data =
    [(''id'', TString), (''peerId'', TString), (''dataProducerId'', TString),
     (''label'', TString), (''protocol'', TString),
     (''sctpStreamParameters'', TStruct NewDataConsumerRequest_SCTPStreamParameters),
     (''appData'', TStruct NewDataConsumerRequest_AppData)]"

definition NewDataConsumerRequest :: model where
  "NewDataConsumerRequest =
    [(''request'', TBool), (''id'', TInt64), (''method'', TString),
     (''data'', TStruct NewDataConsumerRequest_Data)]"

definition NewConsumerRequest_AppData :: model where
  "NewConsumerRequest_AppData =
    [(''peerId'', TString)]"

definition NewConsumerRequest_RTCPFeedback :: model where
  "NewConsumerRequest_RTCPFeedback =
    [(''type'', TString), (''parameter'', TString)]"

definition NewConsumerRequest_Parameters :: model where
  "NewConsumerRequest_Parameters =
    [(''sprop-stereo'', TInt32), (''usedtx'', TInt32), (''minptime'', TInt32),
     (''useinbandfec'', TInt32)]"

definition NewConsumerRequest_Codec :: model where
  "NewConsumerRequest_Codec =
    [(''mimeType'', TString), (''clockRate'', TInt32), (''channels'', TInt32),
     (''rtcpFeedback'', TVec (TStruct NewConsumerRequest_RTCPFeedback)),
     (''parameters'', TStruct NewConsumerRequest_Parameters), (''payloadType'', TInt32)]"

definition NewConsumerRequest_HeaderExtension :: model where
  "NewConsumerRequest_HeaderExtension =
    [(''id'', TInt32), (''uri'', TString), (''encrypt'', TBool)]"

definition NewConsumerRequest_RTX :: model where
  "NewConsumerRequest_RTX =
    [(''ssrc'', TInt64)]"

definition NewConsumerRequest_Encoding :: model where
  "NewConsumerRequest_Encoding =
    [(''ssrc'', TInt64), (''maxBitrate'', TInt32), (''rtx'', TStruct NewConsumerRequest_RTX),
     (''scalabilityMode'', TString)]"

definition NewConsumerRequest_Rtcp :: model where
  "NewConsumerRequest_Rtcp =
    [(''cname'', TString), (''mux'', TBool), (''reducedSize'', TBool)]"

definition NewConsumerRequest_RTPParameters :: model where
  "NewConsumerRequest_RTPParameters =
    [(''encodings'', TVec (TStruct NewConsumerRequest_Encoding)),
     (''codecs'', TVec (TStruct NewConsumerRequest_Codec)),
     (''headerExtensions'', TVec (TStruct NewConsumerRequest_HeaderExtension)),
     (''mid'', TString), (''rtcp'', TStruct NewConsumerRequest_Rtcp)]"

definition NewConsumerRequest_Data :: model where
  "NewConsumerRequest_Data =
    [(''id'', TString), (''peerId'', TString), (''kind'', TString), (''type'', TString),
     (''producerId'', TString), (''producerPaused'', TBool),
     (''rtpParameters'', TStruct NewConsumerRequest_RTPParameters),
     (''appData'', TStruct NewConsumerRequest_AppData)]"

definition NewConsumerRequest :: model where
  "NewConsumerRequest =
    [(''request'', TBool), (''id'', TInt64), (''method'', TString),
     (''data'', TStruct NewConsumerRequest_Data)]"

definition ConnectWebRtcTransportRequest_Fingerprint :: model where
  "ConnectWebRtcTransportRequest_Fingerprint =
    [(''algorithm'', TString), (''value'', TString)]"

definition ConnectWebRtcTransportRequest_ICEParameters :: model where
  "ConnectWebRtcTransportRequest_ICEParameters =
    [(''iceLite'', TBool), (''password'', TString), (''usernameFragment'', TString)]"

definition ConnectWebRtcTransportRequest_DTLSParameters :: model where
  "ConnectWebRtcTransportRequest_DTLSParameters =
    [(''fingerprints'', TVec (TStruct ConnectWebRtcTransportRequest_Fingerprint)),
     (''role'', TString)]"

definition ConnectWebRtcTransportRequest_Data :: model where
  "ConnectWebRtcTransportRequest_Data =
    [(''transportId'', TString),
     (''iceParameters'', TStruct ConnectWebRtcTransportRequest_ICEParameters),
     (''dtlsParameters'', TStruct ConnectWebRtcTransportRequest_DTLSParameters)]"

definition ConnectWebRtcTransportRequest :: model where
  "ConnectWebRtcTransportRequest =
    [(''request'', TBool), (''id'', TInt64), (''method'', TString),
     (''data'', TStruct ConnectWebRtcTransportRequest_Data)]"

definition ProduceRequest_SharingData :: model where
  "ProduceRequest_SharingData =
    [(''type'', TString)]"

definition ProduceRequest_AppData :: model where
  "ProduceRequest_AppData =
    [(''peerId'', TString), (''sharing'', TStruct ProduceRequest_SharingData)]"

definition ProduceRequest_RTCPFeedback :: model where
  "ProduceRequest_RTCPFeedback =
    [(''type'', TString), (''parameter'', TString)]"

definition ProduceRequest_Parameters :: model where
  "ProduceRequest_Parameters =
    [(''apt'', TInt32), (''sprop-stereo'', TInt32), (''usedtx'', TInt32),
     (''minptime'', TInt32), (''useinbandfec'', TInt32)]"

definition ProduceRequest_Codec :: model where
  "ProduceRequest_Codec =
    [(''mimeType'', TString), (''clockRate'', TInt32), (''channels'', TInt32),
     (''rtcpFeedback'', TVec (TStruct ProduceRequest_RTCPFeedback)),
     (''parameters'', TStruct ProduceRequest_Parameters), (''payloadType'', TInt32)]"

definition ProduceRequest_HeaderExtension :: model where
  "ProduceRequest_HeaderExtension =
    [(''id'', TInt32), (''uri'', TString), (''encrypt'', TBool)]"

definition ProduceRequest_Encoding :: model where
  "ProduceRequest_Encoding =
    [(''ssrc'', TInt64), (''active'', TBool), (''dtx'', TBool), (''maxBitrate'', TInt32),
     (''rid'', TString), (''scalabilityMode'', TString), (''scaleResolutionDownBy'', TFloat)]"

definition ProduceRequest_Rtcp :: model where
  "ProduceRequest_Rtcp =
    [(''cname'', TString), (''reducedSize'', TBool)]"

definition ProduceRequest_RTPParameters :: model where
  "ProduceRequest_RTPParameters =
    [(''encodings'', TVec (TStruct ProduceRequest_Encoding)),
     (''codecs'', TVec (TStruct ProduceRequest_Codec)),
     (''headerExtensions'', TVec (TStruct ProduceRequest_HeaderExtension)), (''mid'', TString),
     (''rtcp'', TStruct ProduceRequest_Rtcp)]"

definition ProduceRequest_Data :: model where
  "ProduceRequest_Data =
    [(''transportId'', TString), (''kind'', TString),
     (''rtpParameters'', TStruct ProduceRequest_RTPParameters),
     (''appData'', TStruct ProduceRequest_AppData)]"

definition ProduceRequest :: model where
  "ProduceRequest =
    [(''request'', TBool), (''id'', TInt64), (''method'', TString),
     (''data'', TStruct ProduceRequest_Data)]"

definition ProduceResponse_Data :: model where
  "ProduceResponse_Data =
    [(''id'', TString)]"

definition ProduceResponse :: model where
  "ProduceResponse =
    [(''response'', TBool), (''id'', TInt64), (''ok'', TBool),
     (''data'', TStruct ProduceResponse_Data)]"

definition ProduceDataRequest_AppData :: model where
  "ProduceDataRequest_AppData =
    [(''info'', TString)]"

definition ProduceDataRequest_SCTPStreamParameters :: model where
  "ProduceDataRequest_SCTPStreamParameters =
    [(''streamId'', TInt32), (''maxRetransmits'', TInt32), (''ordered'', TBool)]"

definition ProduceDataRequest_Data :: model where
  "ProduceDataRequest_Data =
    [(''transportId'', TString), (''label'', TString), (''protocol'', TString),
     (''sctpStreamParameters'', TStruct ProduceDataRequest_SCTPStreamParameters),
     (''appData'', TStruct ProduceDataRequest_AppData)]"

definition ProduceDataRequest :: model where
  "ProduceDataRequest =
    [(''request'', TBool), (''id'', TInt64), (''method'', TString),
     (''data'', TStruct ProduceDataRequest_Data)]"

definition ProduceDataResponse_Data :: model where
  "ProduceDataResponse_Data =
    [(''id'', TString)]"

definition ProduceDataResponse :: model where
  "ProduceDataResponse =
    [(''response'', TBool), (''id'', TInt64), (''ok'', TBool),
     (''data'', TStruct ProduceDataResponse_Data)]"

definition ProducerRequest_Data :: model where
  "ProducerRequest_Data =
    [(''producerId'', TString)]"

definition ProducerRequest :: model where
  "ProducerRequest =
    [(''request'', TBool), (''id'', TInt64), (''method'', TString),
     (''data'', TStruct ProducerRequest_Data)]"

definition ConsumerRequest_Data :: model where
  "ConsumerRequest_Data =
    [(''consumerId'', TString)]"

definition ConsumerRequest :: model where
  "ConsumerRequest =
    [(''request'', TBool), (''id'', TInt64), (''method'', TString),
     (''data'', TStruct ConsumerRequest_Data)]"

definition ChangeDisplayNameRequest_Data :: model where
  "ChangeDisplayNameRequest_Data =
    [(''displayName'', TString)]"

definition ChangeDisplayNameRequest :: model where
  "ChangeDisplayNameRequest =
    [(''request'', TBool), (''id'', TInt64), (''method'', TString),
     (''data'', TStruct ChangeDisplayNameRequest_Data)]"

definition RestartICERequest_Data :: model where
  "RestartICERequest_Data =
    [(''transportId'', TString)]"

definition RestartICERequest :: model where
  "RestartICERequest =
    [(''request'', TBool), (''id'', TInt64), (''method'', TString),
     (''data'', TStruct RestartICERequest_Data)]"

definition RestartICEResponse_Data :: model where
  "RestartICEResponse_Data =
    [(''iceLite'', TBool), (''password'', TString), (''usernameFragment'', TString)]"

definition RestartICEResponse :: model where
  "RestartICEResponse =
    [(''response'', TBool), (''id'', TInt64), (''ok'', TBool),
     (''data'', TStruct RestartICEResponse_Data)]"

definition SetConsumerPriorityRequest_Data :: model where
  "SetConsumerPriorityRequest_Data =
    [(''consumerId'', TString), (''priority'', TInt32)]"

definition SetConsumerPriorityRequest :: model where
  "SetConsumerPriorityRequest =
    [(''request'', TBool), (''id'', TInt64), (''method'', TString),
     (''data'', TStruct SetConsumerPriorityRequest_Data)]"

definition SetConsumerPreferredLayersRequest_Data :: model where
  "SetConsumerPreferredLayersRequest_Data =
    [(''consumerId'', TString), (''spatialLayer'', TInt32), (''temporalLayer'', TInt32)]"

definition SetConsumerPreferredLayersRequest :: model where
  "SetConsumerPreferredLayersRequest =
    [(''request'', TBool), (''id'', TInt64), (''method'', TString),
     (''data'', TStruct SetConsumerPreferredLayersRequest_Data)]"

definition GetTransportStatsRequest_Data :: model where
  "GetTransportStatsRequest_Data =
    [(''transportId'', TString)]"

definition GetTransportStatsRequest :: model where
  "GetTransportStatsRequest =
    [(''request'', TBool), (''id'', TInt64), (''method'', TString),
     (''data'', TStruct GetTransportStatsRequest_Data)]"

definition GetTransportStatsResponse_ICESelectedTuple :: model where
  "GetTransportStatsResponse_ICESelectedTuple =
    [(''localIp'', TString), (''localPort'', TInt32), (''remoteIp'', TString),
     (''remotePort'', TInt32), (''protocol'', TString)]"

definition GetTransportStatsResponse_Data :: model where
  "GetTransportStatsResponse_Data =
    [(''transportId'', TString), (''type'', TString), (''availableOutgoingBitrate'', TInt64),
     (''bytesReceived'', TInt64), (''bytesSent'', TInt64), (''dtlsState'', TString),
     (''iceRole'', TString),
     (''iceSelectedTuple'', TStruct GetTransportStatsResponse_ICESelectedTuple),
     (''iceState'', TString), (''maxIncomingBitrate'', TInt64),
     (''probationBytesSent'', TInt64), (''probationSendBitrate'', TInt64),
     (''recvBitrate'', TInt64), (''rtpBytesReceived'', TInt64), (''rtpBytesSent'', TInt64),
     (''rtpPacketLossReceived'', TInt64), (''rtpSendBitrate'', TInt64),
     (''rtxBytesReceived'', TInt64), (''rtxBytesSent'', TInt64), (''rtxRecvBitrate'', TInt64),
     (''rtxSendBitrate'', TInt64), (''sctpState'', TString), (''sendBitrate'', TInt64),
     (''timestamp'', TInt64)]"

definition GetTransportStatsResponse :: model where
  "GetTransportStatsResponse =
    [(''response'', TBool), (''id'', TInt64), (''ok'', TBool),
     (''data'', TVec (TStruct GetTransportStatsResponse_Data))]"

definition GetProducerStatsRequest_Data :: model where
  "GetProducerStatsRequest_Data =
    [(''producerId'', TString)]"

definition GetProducerStatsRequest :: model where
  "GetProducerStatsRequest =
    [(''request'', TBool), (''id'', TInt64), (''method'', TString),
     (''data'', TStruct GetProducerStatsRequest_Data)]"

definition GetProducerStatsResponse_BitrateByLayer :: model where
  "GetProducerStatsResponse_BitrateByLayer =
    [(''0.0'', TInt32), (''0.1'', TInt32), (''0.2'', TInt32)]"

definition GetProducerStatsResponse_Data :: model where
  "GetProducerStatsResponse_Data =
    [(''type'', TString), (''kind'', TString), (''mimeType'', TString), (''rid'', TString),
     (''bitrate'', TInt64), (''byteCount'', TInt64), (''firCount'', TInt64),
     (''fractionLost'', TInt64), (''jitter'', TInt64), (''nackCount'', TInt64),
     (''nackPacketCount'', TInt64), (''packetCount'', TInt64), (''packetsDiscarded'', TInt64),
     (''packetsLost'', TInt64), (''packetsRepaired'', TInt64),
     (''packetsRetransmitted'', TInt64), (''pliCount'', TInt64), (''roundTripTime'', TDouble),
     (''rtxPacketsDiscarded'', TInt64), (''rtxSsrc'', TInt64), (''score'', TInt64),
     (''ssrc'', TInt64), (''timestamp'', TInt64),
     (''bitrateByLayer'', TStruct GetProducerStatsResponse_BitrateByLayer)]"

definition GetProducerStatsResponse :: model where
  "GetProducerStatsResponse =
    [(''response'', TBool), (''id'', TInt64), (''ok'', TBool),
     (''data'', TVec (TStruct GetProducerStatsResponse_Data))]"

definition GetDataProducerStatsRequest_Data :: model where
  "GetDataProducerStatsRequest_Data =
    [(''dataProducerId'', TString)]"

definition GetDataProducerStatsRequest :: model where
  "GetDataProducerStatsRequest =
    [(''request'', TBool), (''id'', TInt64), (''method'', TString),
     (''data'', TStruct GetDataProducerStatsRequest_Data)]"

definition GetDataProducerStatsResponse_Data :: model where
  "GetDataProducerStatsResponse_Data =
    [(''type'', TString), (''label'', TString), (''protocol'', TString),
     (''bytesReceived'', TInt64), (''messagesReceived'', TInt64), (''timestamp'', TInt64)]"

definition GetDataProducerStatsResponse :: model where
  "GetDataProducerStatsResponse =
    [(''response'', TBool), (''id'', TInt64), (''ok'', TBool),
     (''data'', TVec (TStruct GetDataProducerStatsResponse_Data))]"

definition GetConsumerStatsRequest_Data :: model where
  "GetConsumerStatsRequest_Data =
    [(''consumerId'', TString)]"

definition GetConsumerStatsRequest :: model where
  "GetConsumerStatsRequest =
    [(''request'', TBool), (''id'', TInt64), (''method'', TString),
     (''data'', TStruct GetConsumerStatsRequest_Data)]"

definition GetConsumerStatsResponse_BitrateByLayer :: model where
  "GetConsumerStatsResponse_BitrateByLayer =
    [(''0.0'', TInt32), (''0.1'', TInt32), (''0.2'', TInt32)]"

definition GetConsumerStatsResponse_Data :: model where
  "GetConsumerStatsResponse_Data =
    [(''type'', TString), (''kind'', TString), (''mimeType'', TString), (''rid'', TString),
     (''bitrate'', TInt64), (''byteCount'', TInt64), (''firCount'', TInt64),
     (''fractionLost'', TInt64), (''jitter'', TInt64), (''nackCount'', TInt64),
     (''nackPacketCount'', TInt64), (''packetCount'', TInt64), (''packetsDiscarded'', TInt64),
     (''packetsLost'', TInt64), (''packetsRepaired'', TInt64),
     (''packetsRetransmitted'', TInt64), (''pliCount'', TInt64),
     (''rtxPacketsDiscarded'', TInt64), (''rtxSsrc'', TInt64), (''roundTripTime'', TDouble),
     (''score'', TInt64), (''ssrc'', TInt64), (''timestamp'', TInt64),
     (''bitrateByLayer'', TStruct GetConsumerStatsResponse_BitrateByLayer)]"

definition GetConsumerStatsResponse :: model where
  "GetConsumerStatsResponse =
    [(''response'', TBool), (''id'', TInt64), (''ok'', TBool),
     (''data'', TVec (TStruct GetConsumerStatsResponse_Data))]"

definition GetDataConsumerStatsRequest_Data :: model where
  "GetDataConsumerStatsRequest_Data =
    [(''dataConsumerId'', TString)]"

definition GetDataConsumerStatsRequest :: model where
  "GetDataConsumerStatsRequest =
    [(''request'', TBool), (''id'', TInt64), (''method'', TString),
     (''data'', TStruct GetDataConsumerStatsRequest_Data)]"

definition GetDataConsumerStatsResponse_Data :: model where
  "GetDataConsumerStatsResponse_Data =
    [(''type'', TString), (''label'', TString), (''protocol'', TString),
     (''bufferedAmount'', TInt64), (''bytesSent'', TInt64), (''messagesSent'', TInt64),
     (''timestamp'', TInt64)]"

definition GetDataConsumerStatsResponse :: model where
  "GetDataConsumerStatsResponse =
    [(''response'', TBool), (''id'', TInt64), (''ok'', TBool),
     (''data'', TVec (TStruct GetDataConsumerStatsResponse_Data))]"

definition ApplyNetworkThrottleRequest_Data :: model where
  "ApplyNetworkThrottleRequest_Data =
    [(''secret'', TString), (''uplink'', TInt64), (''downlink'', TInt64), (''rtt'', TInt64)]"

definition ApplyNetworkThrottleRequest :: model where
  "ApplyNetworkThrottleRequest =
    [(''request'', TBool), (''id'', TInt64), (''method'', TString),
     (''data'', TStruct ApplyNetworkThrottleRequest_Data)]"

definition ResetNetworkThrottleRequest_Data :: model where
  "ResetNetworkThrottleRequest_Data =
    [(''secret'', TString)]"

definition ResetNetworkThrottleRequest :: model where
  "ResetNetworkThrottleRequest =
    [(''request'', TBool), (''id'', TInt64), (''method'', TString),
     (''data'', TStruct ResetNetworkThrottleRequest_Data)]"

definition DownlinkBweNotification_Data :: model where
  "DownlinkBweNotification_Data =
    [(''availableBitrate'', TInt64), (''desiredBitrate'', TInt64),
     (''effectiveDesiredBitrate'', TInt64)]"

definition DownlinkBweNotification :: model where
  "DownlinkBweNotification =
    [(''notification'', TBool), (''method'', TString),
     (''data'', TStruct DownlinkBweNotification_Data)]"

definition ConsumerScoreNotification_Score :: model where
  "ConsumerScoreNotification_Score =
    [(''producerScore'', TInt32), (''producerScores'', TVec TInt32), (''score'', TInt32)]"

definition ConsumerScoreNotification_Data :: model where
  "ConsumerScoreNotification_Data =
    [(''consumerId'', TString), (''score'', TStruct ConsumerScoreNotification_Score)]"

definition ConsumerScoreNotification :: model where
  "ConsumerScoreNotification =
    [(''notification'', TBool), (''method'', TString),
     (''data'', TStruct ConsumerScoreNotification_Data)]"

definition ProducerScoreNotification_Score :: model where
  "ProducerScoreNotification_Score =
    [(''rid'', TString), (''encodingIdx'', TInt32), (''score'', TInt32), (''ssrc'', TInt64)]"

definition ProducerScoreNotification_Data :: model where
  "ProducerScoreNotification_Data =
    [(''producerId'', TString), (''score'', TVec (TStruct ProducerScoreNotification_Score))]"

definition ProducerScoreNotification :: model where
  "ProducerScoreNotification =
    [(''notification'', TBool), (''method'', TString),
     (''data'', TStruct ProducerScoreNotification_Data)]"

definition ConsumerLayersChangedNotification_Data :: model where
  "ConsumerLayersChangedNotification_Data =
    [(''consumerId'', TString), (''spatialLayer'', TInt32), (''temporalLayer'', TInt32)]"

definition ConsumerLayersChangedNotification :: model where
  "ConsumerLayersChangedNotification =
    [(''notification'', TBool), (''method'', TString),
     (''data'', TStruct ConsumerLayersChangedNotification_Data)]"

definition ActiveSpeakerNotification_Data :: model where
  "ActiveSpeakerNotification_Data =
    [(''peerId'', TString), (''volume'', TInt32)]"

definition ActiveSpeakerNotification :: model where
  "ActiveSpeakerNotification =
    [(''notification'', TBool), (''method'', TString),
     (''data'', TStruct ActiveSpeakerNotification_Data)]"

definition ConsumerPausedNotification_Data :: model where
  "ConsumerPausedNotification_Data =
    [(''consumerId'', TString)]"

definition ConsumerPausedNotification :: model where
  "ConsumerPausedNotification =
    [(''notification'', TBool), (''method'', TString),
     (''data'', TStruct ConsumerPausedNotification_Data)]"

definition ConsumerResumedNotification_Data :: model where
  "ConsumerResumedNotification_Data =
    [(''consumerId'', TString)]"

definition ConsumerResumedNotification :: model where
  "ConsumerResumedNotification =
    [(''notification'', TBool), (''method'', TString),
     (''data'', TStruct ConsumerResumedNotification_Data)]"

definition ConsumerClosedNotification_Data :: model where
  "ConsumerClosedNotification_Data =
    [(''consumerId'', TString)]"

definition ConsumerClosedNotification :: model where
  "ConsumerClosedNotification =
    [(''notification'', TBool), (''method'', TString),
     (''data'', TStruct ConsumerClosedNotification_Data)]"

definition DataConsumerClosedNotification_Data :: model where
  "DataConsumerClosedNotification_Data =
    [(''dataConsumerId'', TString)]"

definition DataConsumerClosedNotification :: model where
  "DataConsumerClosedNotification =
    [(''notification'', TBool), (''method'', TString),
     (''data'', TStruct DataConsumerClosedNotification_Data)]"

definition PeerDisplayNameChangedNotification_Data :: model where
  "PeerDisplayNameChangedNotification_Data =
    [(''peerId'', TString), (''oldDisplayName'', TString), (''displayName'', TString)]"

definition PeerDisplayNameChangedNotification :: model where
  "PeerDisplayNameChangedNotification =
    [(''notification'', TBool), (''method'', TString),
     (''data'', TStruct PeerDisplayNameChangedNotification_Data)]"

definition NewPeerNotification_Device :: model where
  "NewPeerNotification_Device =
    [(''flag'', TString), (''name'', TString), (''version'', TString)]"

definition NewPeerNotification_Data :: model where
  "NewPeerNotification_Data =
    [(''id'', TString), (''displayName'', TString),
     (''device'', TStruct NewPeerNotification_Device)]"

definition NewPeerNotification :: model where
  "NewPeerNotification =
    [(''notification'', TBool), (''method'', TString),
     (''data'', TStruct NewPeerNotification_Data)]"

definition PeerClosedNotification_Data :: model where
  "PeerClosedNotification_Data =
    [(''peerId'', TString)]"

definition PeerClosedNotification :: model where
  "PeerClosedNotification =
    [(''notification'', TBool), (''method'', TString),
     (''data'', TStruct PeerClosedNotification_Data)]"

section \<open>New objects\<close>

text \<open>A new object has the values of the member initializers. \<open>generateID()\<close>, a random number
  below \<open>2 ^ 31\<close>, is the argument of a request.\<close>

definition new_object :: "model \<Rightarrow> (string \<times> val) list \<Rightarrow> fields" where
  "new_object m values = map (\<lambda>(k, _). (k, map_of values k)) m"

definition id_of :: "64 word \<Rightarrow> (string \<times> val) list" where
  "id_of ident = [(''id'', VInt64 ident)]"

definition request_of :: "64 word \<Rightarrow> (string \<times> val) list" where
  "request_of ident = (''request'', VBool True) # id_of ident"

definition new_GetRouterRtpCapabilitiesRequest :: "64 word \<Rightarrow> fields" where
  "new_GetRouterRtpCapabilitiesRequest ident =
     new_object GetRouterRtpCapabilitiesRequest ((''method'', VString ''getRouterRtpCapabilities'') # request_of ident)"

definition new_CreateWebRtcTransportRequest :: "64 word \<Rightarrow> fields" where
  "new_CreateWebRtcTransportRequest ident =
     new_object CreateWebRtcTransportRequest ((''method'', VString ''createWebRtcTransport'') # request_of ident)"

definition new_CreateWebRtcTransportResponse :: "64 word \<Rightarrow> fields" where
  "new_CreateWebRtcTransportResponse ident =
     new_object CreateWebRtcTransportResponse (request_of ident)"

definition new_JoinRequest :: "64 word \<Rightarrow> fields" where
  "new_JoinRequest ident =
     new_object JoinRequest ((''method'', VString ''join'') # request_of ident)"

definition new_ConnectWebRtcTransportRequest :: "64 word \<Rightarrow> fields" where
  "new_ConnectWebRtcTransportRequest ident =
     new_object ConnectWebRtcTransportRequest ((''method'', VString ''connectWebRtcTransport'') # request_of ident)"

definition new_ProduceRequest :: "64 word \<Rightarrow> fields" where
  "new_ProduceRequest ident =
     new_object ProduceRequest ((''method'', VString ''produce'') # request_of ident)"

definition new_ProduceDataRequest :: "64 word \<Rightarrow> fields" where
  "new_ProduceDataRequest ident =
     new_object ProduceDataRequest ((''method'', VString ''produceData'') # id_of ident)"

definition new_ProducerRequest :: "64 word \<Rightarrow> fields" where
  "new_ProducerRequest ident =
     new_object ProducerRequest (request_of ident)"

definition new_ConsumerRequest :: "64 word \<Rightarrow> fields" where
  "new_ConsumerRequest ident =
     new_object ConsumerRequest (request_of ident)"

definition new_ChangeDisplayNameRequest :: "64 word \<Rightarrow> fields" where
  "new_ChangeDisplayNameRequest ident =
     new_object ChangeDisplayNameRequest ((''method'', VString ''changeDisplayName'') # request_of ident)"

definition new_RestartICERequest :: "64 word \<Rightarrow> fields" where
  "new_RestartICERequest ident =
     new_object RestartICERequest ((''method'', VString ''restartIce'') # request_of ident)"

definition new_SetConsumerPriorityRequest :: "64 word \<Rightarrow> fields" where
  "new_SetConsumerPriorityRequest ident =
     new_object SetConsumerPriorityRequest ((''method'', VString ''setConsumerPriority'') # request_of ident)"

definition new_SetConsumerPreferredLayersRequest :: "64 word \<Rightarrow> fields" where
  "new_SetConsumerPreferredLayersRequest ident =
     new_object SetConsumerPreferredLayersRequest ((''method'', VString ''setConsumerPreferredLayers'') # request_of ident)"

definition new_GetTransportStatsRequest :: "64 word \<Rightarrow> fields" where
  "new_GetTransportStatsRequest ident =
     new_object GetTransportStatsRequest ((''method'', VString ''getTransportStats'') # request_of ident)"

definition new_GetProducerStatsRequest :: "64 word \<Rightarrow> fields" where
  "new_GetProducerStatsRequest ident =
     new_object GetProducerStatsRequest ((''method'', VString ''getProducerStats'') # request_of ident)"

definition new_GetDataProducerStatsRequest :: "64 word \<Rightarrow> fields" where
  "new_GetDataProducerStatsRequest ident =
     new_object GetDataProducerStatsRequest ((''method'', VString ''getDataProducerStats'') # request_of ident)"

definition new_GetConsumerStatsRequest :: "64 word \<Rightarrow> fields" where
  "new_GetConsumerStatsRequest ident =
     new_object GetConsumerStatsRequest ((''method'', VString ''getConsumerStats'') # request_of ident)"

definition new_GetDataConsumerStatsRequest :: "64 word \<Rightarrow> fields" where
  "new_GetDataConsumerStatsRequest ident =
     new_object GetDataConsumerStatsRequest ((''method'', VString ''getDataConsumerStats'') # request_of ident)"

definition new_ApplyNetworkThrottleRequest :: "64 word \<Rightarrow> fields" where
  "new_ApplyNetworkThrottleRequest ident =
     new_object ApplyNetworkThrottleRequest ((''method'', VString ''applyNetworkThrottle'') # request_of ident)"

definition new_ResetNetworkThrottleRequest :: "64 word \<Rightarrow> fields" where
  "new_ResetNetworkThrottleRequest ident =
     new_object ResetNetworkThrottleRequest ((''method'', VString ''resetNetworkThrottle'') # request_of ident)"

section \<open>The kind of a message\<close>

datatype MSGTYPE = MSG_TYPE_UNKNOW | MSG_TYPE_REQUEST | MSG_TYPE_RESPONSE | MSG_TYPE_NOTIFY

definition msgType :: "fields \<Rightarrow> MSGTYPE" where
  "msgType h =
     (if member ''request'' h = Some (VBool True) then MSG_TYPE_REQUEST
      else if member ''response'' h = Some (VBool True) then MSG_TYPE_RESPONSE
      else if member ''notification'' h = Some (VBool True) then MSG_TYPE_NOTIFY
      else MSG_TYPE_UNKNOW)"

section \<open>Sharing\<close>

text \<open>\<open>Sharing\<close> and \<open>SharingAppData\<close> are converted by \<open>nlohmann::json\<close>
  (\<open>signaling_models.cpp\<close>). A member that is missing keeps what it has.\<close>

record Sharing =
  sharing_type :: string

record SharingAppData =
  sharing :: Sharing

definition Sharing_to_json :: "json \<Rightarrow> Sharing \<Rightarrow> json res" where
  "Sharing_to_json j st = jset j ''type'' (JString (sharing_type st))"

definition Sharing_from_json :: "json \<Rightarrow> Sharing \<Rightarrow> Sharing res" where
  "Sharing_from_json j st = (case jfind j ''type'' of
     None \<Rightarrow> Inr st
   | Some v \<Rightarrow> bindE (get_string v) (\<lambda>s. Inr (st\<lparr>sharing_type := s\<rparr>)))"

definition SharingAppData_to_json :: "json \<Rightarrow> SharingAppData \<Rightarrow> json res" where
  "SharingAppData_to_json j st =
     bindE (Sharing_to_json JNull (sharing st)) (\<lambda>v. jset j ''sharing'' v)"

definition SharingAppData_from_json :: "json \<Rightarrow> SharingAppData \<Rightarrow> SharingAppData res" where
  "SharingAppData_from_json j st = (case jfind j ''sharing'' of
     None \<Rightarrow> Inr st
   | Some v \<Rightarrow> bindE (Sharing_from_json v (sharing st)) (\<lambda>s. Inr (st\<lparr>sharing := s\<rparr>)))"

section \<open>All messages\<close>

definition signaling_models :: "model list" where
  "signaling_models =
    [CommonHeader, MessageType, RequestHeader, ResponseHeader, NotificationHeader,
     BasicResponse, GetRouterRtpCapabilitiesRequest, GetRouterRtpCapabilitiesResponse,
     CreateWebRtcTransportRequest, CreateWebRtcTransportResponse, JoinRequest, JoinResponse,
     NewDataConsumerRequest, NewConsumerRequest, ConnectWebRtcTransportRequest,
     ProduceRequest, ProduceResponse, ProduceDataRequest, ProduceDataResponse,
     ProducerRequest, ConsumerRequest, ChangeDisplayNameRequest, RestartICERequest,
     RestartICEResponse, SetConsumerPriorityRequest, SetConsumerPreferredLayersRequest,
     GetTransportStatsRequest, GetTransportStatsResponse, GetProducerStatsRequest,
     GetProducerStatsResponse, GetDataProducerStatsRequest, GetDataProducerStatsResponse,
     GetConsumerStatsRequest, GetConsumerStatsResponse, GetDataConsumerStatsRequest,
     GetDataConsumerStatsResponse, ApplyNetworkThrottleRequest, ResetNetworkThrottleRequest,
     DownlinkBweNotification, ConsumerScoreNotification, ProducerScoreNotification,
     ConsumerLayersChangedNotification, ActiveSpeakerNotification,
     ConsumerPausedNotification, ConsumerResumedNotification, ConsumerClosedNotification,
     DataConsumerClosedNotification, PeerDisplayNameChangedNotification,
     NewPeerNotification, PeerClosedNotification]"

end
