(* ===== verification/SignalFacts.thy ===== *)
theory SignalFacts
  imports SerialFacts SignalModels
begin

text \<open>
  The models of the signaling messages as types: they are well formed, their new objects have
  their type, and texts carry their objects.
\<close>

lemma signaling_models_wf: "list_all wf_model signaling_models"
  by code_simp

lemma models_wf: "m \<in> set signaling_models \<Longrightarrow> wf_model m"
  using signaling_models_wf by (simp add: list_all_iff)

lemma header_wf: "wf_model CommonHeader"
  by (rule models_wf) (simp add: signaling_models_def)

lemma conforms_new_object:
  "(\<And>k t v. (k, t) \<in> set m \<Longrightarrow> map_of values k = Some v \<Longrightarrow> conforms t v) \<Longrightarrow> conforms_fields m (new_object m values)"
proof (induction m)
  case (Cons p m)
  then show ?case by (cases p) (auto simp: new_object_def split: option.split)
qed (simp add: new_object_def)

lemma keys_new_object: "map fst (new_object m values) = map fst m"
  by (simp add: new_object_def case_prod_beta)

section \<open>Through a text\<close>

lemma fromJsonString_typed:
  assumes "wf_model m" "conforms_fields m start" "portable_fields start"
  shows "conforms_fields m (fst (fromJsonString parse_rj m start data)) \<and>
         portable_fields (fst (fromJsonString parse_rj m start data))"
proof (cases "parse_rj (c_str data)")
  case None
  with assms show ?thesis by (simp add: fromJsonString_def)
next
  case (Some j)
  have "\<forall>(k, t) \<in> set m. map_of m k = Some t"
    using wf_model_distinct [OF assms(1)] by (auto intro: map_of_is_SomeI)
  with assms read_conforms(2) [OF assms(1) wf_model_distinct [OF assms(1)]] Some show ?thesis
    by (simp add: fromJsonString_def)
qed

lemma fromJsonString_written:
  assumes m: "wf_model m" "conforms_fields m fs" "portable_fields fs" "map fst start = map fst m"
    and printed: "parse_rj (c_str (print_rj (RObject (ser_fields fs)))) = Some (RObject (ser_fields fs))"
  shows "fromJsonString parse_rj m start (toJsonStr print_rj fs) = (over fs start, None)"
proof -
  have d: "distinct (map fst fs)" using conforms_keys [OF m(2)] wf_model_distinct [OF m(1)] by simp
  have "read_fields m (RObject (ser_fields fs)) start = (over fs start, None)"
  proof -
    have "k \<in> fst ` set m" if "(k, x) \<in> set start" for k x
      using that m(4) by (metis image_eqI fst_conv list.set_map)
    then show ?thesis
      using read_ser(2) [OF m(2,1,3)] by (subst read_ser_fields [OF d]) (auto simp: over_def)
  qed
  with printed show ?thesis by (simp add: fromJsonString_def toJsonStr_def)
qed

end
