(* ===== verification/SignalProps.thy ===== *)
theory SignalProps
  imports SignalFacts
begin

text \<open>
  The properties of the signaling messages.
\<close>






end
