(* ===== verification/Session.thy ===== *)
theory Session
  imports SignalModels
begin

text \<open>
  The session with the signaling server (\<open>mssdk/mssignal/mssignal.cpp\<close>): messages wait in
  \<open>send_list_\<close>, the thread of the session writes them and moves them to \<open>ack_list_\<close>, and a text
  that arrives with the ID of such a message answers it. Both lists are keyed by the ID.

  A promise is a number; the state holds the values that promises have been given. What the
  session does to its surroundings is kept as well: the texts that it has written, the calls of
  callbacks, and the messages that it has handed to the API.
\<close>

section \<open>Messages\<close>

record MSMessage =
  m_id :: "64 word"
  m_method :: string
  m_type :: MSGTYPE
  m_json :: string
  m_func :: "nat option"
  m_promise :: "nat option"

text \<open>The header is read as far as possible: the error is not looked at.\<close>

definition header_of :: "(string \<Rightarrow> rj option) \<Rightarrow> string \<Rightarrow> fields" where
  "header_of parse_rj json = fst (fromJsonString parse_rj CommonHeader (blank CommonHeader) json)"

definition int64_or :: "64 word \<Rightarrow> val option \<Rightarrow> 64 word" where
  "int64_or d v = (case v of Some (VInt64 i) \<Rightarrow> i | _ \<Rightarrow> d)"

definition string_or :: "string \<Rightarrow> val option \<Rightarrow> string" where
  "string_or d v = (case v of Some (VString s) \<Rightarrow> s | _ \<Rightarrow> d)"

definition message_from_json :: "(string \<Rightarrow> rj option) \<Rightarrow> string \<Rightarrow> MSMessage" where
  "message_from_json parse_rj json =
     (let chdr = header_of parse_rj json
      in \<lparr>m_id = int64_or (- 1) (member ''id'' chdr), m_method = string_or [] (member ''method'' chdr),
          m_type = msgType chdr, m_json = json, m_func = None, m_promise = None\<rparr>)"

section \<open>The session\<close>

type_synonym msg_list = "(64 word \<times> MSMessage) list"

record session =
  send_list :: msg_list
  ack_list :: msg_list
  ws_client :: bool
  ws_open :: bool
  promises :: "(nat \<times> string) list"
  next_promise :: nat
  wire :: "string list"
  calls :: "(nat \<times> string) list"
  handed :: "MSMessage list"

definition MSSignal :: session where
  "MSSignal = \<lparr>send_list = [], ack_list = [], ws_client = False, ws_open = False, promises = [], next_promise = 0,
     wire = [], calls = [], handed = []\<rparr>"

text \<open>\<open>connect\<close>: \<open>ret\<close> is the result of \<open>connect_sync\<close>, \<open>run\<close> that of starting the thread.\<close>

definition connect :: "int \<Rightarrow> int \<Rightarrow> session \<Rightarrow> int \<times> session" where
  "connect ret run st = (if ret \<noteq> 0 then ret else run, st\<lparr>ws_client := True, ws_open := (ret = 0)\<rparr>)"

definition close :: "session \<Rightarrow> session" where
  "close st = st\<lparr>send_list := [], ack_list := []\<rparr>"

text \<open>A message with the same ID that still waits is overwritten.\<close>

definition send :: "(string \<Rightarrow> rj option) \<Rightarrow> string \<Rightarrow> nat option \<Rightarrow> nat option \<Rightarrow> session \<Rightarrow> session" where
  "send parse_rj request msg_promise callback st =
     (let pmsg = (message_from_json parse_rj request)\<lparr>m_promise := msg_promise, m_func := callback\<rparr>
      in st\<lparr>send_list := aset (m_id pmsg) pmsg (send_list st)\<rparr>)"

text \<open>\<open>send_request_and_recv_response\<close> up to the wait: a new promise, and the request.
  The wait returns the value of the promise, and blocks without one.\<close>

definition send_request :: "(string \<Rightarrow> rj option) \<Rightarrow> string \<Rightarrow> session \<Rightarrow> nat \<times> session" where
  "send_request parse_rj request st =
     (let p = next_promise st
      in (p, send parse_rj request (Some p) None (st\<lparr>next_promise := p + 1\<rparr>)))"

definition future_get :: "nat \<Rightarrow> session \<Rightarrow> string option" where
  "future_get p st = map_of (promises st) p"

section \<open>The thread\<close>

text \<open>The connection is closed by the other side: \<open>on_close\<close> closes the client, whose
  \<open>send_text\<close> fails from then on. The other callbacks of the connection (\<open>on_open\<close>, \<open>on_fail\<close>,
  binary messages, pings) do nothing. \<open>WSPPClient\<close> reports a closed connection as a failed one
  (theory \<open>WebSocketProps\<close>), so that with it the step is the loss of the connection alone: texts
  cannot be sent from then on either way.\<close>

definition on_close :: "session \<Rightarrow> session" where
  "on_close st = (if ws_client st then st\<lparr>ws_open := False\<rparr> else st)"

text \<open>One round of \<open>ThreadProc\<close>. \<open>get_msg\<close> takes the first message in the order of an
  unordered map, which can be any: \<open>k\<close> is its ID. The result of \<open>send_text\<close> is not looked at.\<close>

definition get_msg :: "64 word \<Rightarrow> msg_list \<Rightarrow> (MSMessage \<times> msg_list) option" where
  "get_msg k msgs = (case map_of msgs k of None \<Rightarrow> None | Some m \<Rightarrow> Some (m, adel k msgs))"

definition thread_round :: "64 word \<Rightarrow> session \<Rightarrow> session" where
  "thread_round k st =
     (if ws_client st \<and> send_list st \<noteq> [] then
        case get_msg k (send_list st) of
          None \<Rightarrow> st
        | Some (pmsg, rest) \<Rightarrow>
            st\<lparr>send_list := rest, wire := (if ws_open st then wire st @ [m_json pmsg] else wire st),
               ack_list := (if m_id pmsg \<noteq> 0 then aset (m_id pmsg) pmsg (ack_list st) else ack_list st)\<rparr>
      else st)"

section \<open>Arriving messages\<close>

definition set_value :: "nat option \<Rightarrow> string \<Rightarrow> session \<Rightarrow> session res" where
  "set_value msg_promise t st = (case msg_promise of
     None \<Rightarrow> Inr st
   | Some p \<Rightarrow> if future_get p st \<noteq> None then Inl FutureError
       else Inr (st\<lparr>promises := (p, t) # promises st\<rparr>))"

definition call_back :: "nat option \<Rightarrow> string \<Rightarrow> session \<Rightarrow> session" where
  "call_back func t st = (case func of None \<Rightarrow> st | Some f \<Rightarrow> st\<lparr>calls := calls st @ [(f, t)]\<rparr>)"

text \<open>The message goes to \<open>on_recv_request\<close>, \<open>on_recv_response\<close> or \<open>on_recv_notify\<close> of the
  API by its type; a message without a type fails the assertion.\<close>

definition on_recv_msg :: "MSMessage \<Rightarrow> session \<Rightarrow> session res" where
  "on_recv_msg msg st = (case m_type msg of
     MSG_TYPE_UNKNOW \<Rightarrow> Inl AssertionFailed
   | _ \<Rightarrow> Inr (st\<lparr>handed := handed st @ [msg]\<rparr>))"

definition on_text_message :: "(string \<Rightarrow> rj option) \<Rightarrow> string \<Rightarrow> session \<Rightarrow> session res" where
  "on_text_message parse_rj t st =
     (let pmsg = message_from_json parse_rj t in
      case map_of (ack_list st) (m_id pmsg) of
        None \<Rightarrow> on_recv_msg pmsg st
      | Some req \<Rightarrow>
          let pmsg' = pmsg\<lparr>m_method := m_method req, m_func := m_func req, m_promise := m_promise req\<rparr>
          in bindE (set_value (m_promise pmsg') t st) (\<lambda>st1.
             let st2 = call_back (m_func pmsg') t st1
             in on_recv_msg pmsg' (st2\<lparr>ack_list := adel (m_id pmsg) (ack_list st2)\<rparr>)))"

section \<open>Runs\<close>

text \<open>What can happen to a session: a request with a promise, another message, a round of the
  thread, an arriving text, closing, and the loss of the connection. The lock of the session, and the one connection that
  texts arrive on, make each a step.\<close>

datatype event = Ask string | Post string "nat option" | Round "64 word" | Arrive string | Shut | Closed

inductive session_step :: "(string \<Rightarrow> rj option) \<Rightarrow> session \<Rightarrow> event \<Rightarrow> session \<Rightarrow> bool"
  for parse_rj where
  ask: "session_step parse_rj st (Ask r) (snd (send_request parse_rj r st))"
| post: "session_step parse_rj st (Post r f) (send parse_rj r None f st)"
| round: "map_of (send_list st) k \<noteq> None \<Longrightarrow> session_step parse_rj st (Round k) (thread_round k st)"
| arrive: "on_text_message parse_rj t st = Inr st' \<Longrightarrow> session_step parse_rj st (Arrive t) st'"
| shut: "session_step parse_rj st Shut (close st)"
| closed: "session_step parse_rj st Closed (on_close st)"

inductive_cases askE: "session_step parse_rj st (Ask r) st'"
inductive_cases postE: "session_step parse_rj st (Post r f) st'"
inductive_cases roundE: "session_step parse_rj st (Round k) st'"
inductive_cases arriveE: "session_step parse_rj st (Arrive t) st'"
inductive_cases shutE: "session_step parse_rj st Shut st'"
inductive_cases closedE: "session_step parse_rj st Closed st'"

text \<open>The runs of a connected session, the latest event last.\<close>

inductive session_run :: "(string \<Rightarrow> rj option) \<Rightarrow> event list \<Rightarrow> session \<Rightarrow> bool" for parse_rj where
  start: "session_run parse_rj [] (snd (connect 0 0 MSSignal))"
| step: "session_run parse_rj es st \<Longrightarrow> session_step parse_rj st e st' \<Longrightarrow> session_run parse_rj (es @ [e]) st'"

end
