(* ===== verification/SessionFacts.thy ===== *)
theory SessionFacts
  imports Session SignalFacts
begin

text \<open>
  The invariant of the session along its runs: who holds a promise, and where the message that
  holds it comes from.
\<close>

section \<open>Holders of promises\<close>

definition owns :: "msg_list \<Rightarrow> 64 word \<Rightarrow> nat \<Rightarrow> bool" where
  "owns l k p = (\<exists>m. map_of l k = Some m \<and> m_promise m = Some p)"

lemma owns_simps [simp]:
  "owns (aset k m l) j p \<longleftrightarrow> (if j = k then m_promise m = Some p else owns l j p)"
  "owns (adel k l) j p \<longleftrightarrow> j \<noteq> k \<and> owns l j p"
  "\<not> owns [] k p"
  by (auto simp: owns_def map_simps)

definition id_of_text :: "(string \<Rightarrow> rj option) \<Rightarrow> string \<Rightarrow> 64 word" where
  "id_of_text parse_rj r = m_id (message_from_json parse_rj r)"

text \<open>The requests of a run; the number of a request is that of its promise.\<close>

definition asks :: "event list \<Rightarrow> string list" where
  "asks es = concat (map (\<lambda>e. case e of Ask r \<Rightarrow> [r] | _ \<Rightarrow> []) es)"

lemma asks_simps [simp]:
  "asks [] = []" "asks (es @ fs) = asks es @ asks fs" "asks (Ask r # es) = r # asks es"
  "asks (Post r f # es) = asks es" "asks (Round k # es) = asks es" "asks (Arrive t # es) = asks es"
  "asks (Shut # es) = asks es" "asks (Closed # es) = asks es"
  by (simp_all add: asks_def)

text \<open>Request \<open>r\<close> is the \<open>p\<close>th and waits; it has been written; it has been answered by \<open>t\<close>.\<close>

definition asked :: "event list \<Rightarrow> nat \<Rightarrow> string \<Rightarrow> bool" where
  "asked es p r = (\<exists>es1 es2. es = es1 @ Ask r # es2 \<and> p = length (asks es1))"

definition written :: "event list \<Rightarrow> nat \<Rightarrow> string \<Rightarrow> 64 word \<Rightarrow> bool" where
  "written es p r k = (\<exists>es1 es2 es3. es = es1 @ Ask r # es2 @ Round k # es3 \<and> p = length (asks es1))"

definition answered :: "event list \<Rightarrow> nat \<Rightarrow> string \<Rightarrow> 64 word \<Rightarrow> string \<Rightarrow> bool" where
  "answered es p r k t = (\<exists>es1 es2 es3 es4.
     es = es1 @ Ask r # es2 @ Round k # es3 @ Arrive t # es4 \<and> p = length (asks es1))"

lemma asked_snoc: "asked es p r \<Longrightarrow> asked (es @ [e]) p r"
  by (force simp: asked_def)

lemma written_snoc: "written es p r k \<Longrightarrow> written (es @ [e]) p r k"
  by (force simp: written_def)

lemma answered_snoc: "answered es p r k t \<Longrightarrow> answered (es @ [e]) p r k t"
  by (force simp: answered_def)

lemma asked_last: "asked (es @ [Ask r]) (length (asks es)) r"
  by (force simp: asked_def)

lemma written_last: "asked es p r \<Longrightarrow> written (es @ [Round k]) p r k"
  by (force simp: asked_def written_def)

lemma answered_last: "written es p r k \<Longrightarrow> answered (es @ [Arrive t]) p r k t"
  by (force simp: written_def answered_def)

lemmas snocs = asked_snoc written_snoc answered_snoc

section \<open>Steps on the holders\<close>

definition waits :: "session \<Rightarrow> 64 word \<Rightarrow> nat \<Rightarrow> bool" where
  "waits st = owns (send_list st)"

definition sent :: "session \<Rightarrow> 64 word \<Rightarrow> nat \<Rightarrow> bool" where
  "sent st = owns (ack_list st)"

definition keyed :: "session \<Rightarrow> bool" where
  "keyed st \<longleftrightarrow> (\<forall>k m. map_of (send_list st) k = Some m \<or> map_of (ack_list st) k = Some m \<longrightarrow> m_id m = k)"

lemmas holder_defs = waits_def sent_def future_get_def keyed_def

lemma ask_holders:
  "waits (snd (send_request parse_rj r st)) k p \<longleftrightarrow>
     (if k = id_of_text parse_rj r then p = next_promise st else waits st k p)"
  "sent (snd (send_request parse_rj r st)) = sent st"
  "future_get p (snd (send_request parse_rj r st)) = future_get p st"
  "next_promise (snd (send_request parse_rj r st)) = next_promise st + 1"
  "keyed st \<Longrightarrow> keyed (snd (send_request parse_rj r st))"
  by (auto simp: holder_defs send_request_def send_def Let_def id_of_text_def map_simps)

lemma post_holders:
  "waits (send parse_rj r None f st) k p \<longleftrightarrow> k \<noteq> id_of_text parse_rj r \<and> waits st k p"
  "sent (send parse_rj r None f st) = sent st"
  "future_get p (send parse_rj r None f st) = future_get p st"
  "next_promise (send parse_rj r None f st) = next_promise st"
  "keyed st \<Longrightarrow> keyed (send parse_rj r None f st)"
  by (auto simp: holder_defs send_def Let_def id_of_text_def map_simps)

lemma round_holders:
  assumes "keyed st" "ws_client st" "map_of (send_list st) j \<noteq> None"
  shows "waits (thread_round j st) k p \<longleftrightarrow> k \<noteq> j \<and> waits st k p"
    "sent (thread_round j st) k p \<longleftrightarrow> (if k = j \<and> j \<noteq> 0 then waits st j p else sent st k p)"
    "future_get p (thread_round j st) = future_get p st"
    "next_promise (thread_round j st) = next_promise st"
    "keyed (thread_round j st)"
proof -
  from assms(3) obtain m where m: "map_of (send_list st) j = Some m" by auto
  then have "m_id m = j" "send_list st \<noteq> []" using assms(1) by (auto simp: keyed_def)
  then have r: "thread_round j st = st\<lparr>send_list := adel j (send_list st), 
      wire := (if ws_open st then wire st @ [m_json m] else wire st),
      ack_list := (if j \<noteq> 0 then aset j m (ack_list st) else ack_list st)\<rparr>"
    using assms(2) m by (simp add: thread_round_def get_msg_def)
  show "waits (thread_round j st) k p \<longleftrightarrow> k \<noteq> j \<and> waits st k p"
    "future_get p (thread_round j st) = future_get p st" "next_promise (thread_round j st) = next_promise st"
    by (simp_all add: r waits_def future_get_def)
  show "sent (thread_round j st) k p \<longleftrightarrow> (if k = j \<and> j \<noteq> 0 then waits st j p else sent st k p)"
    using m by (auto simp: r sent_def waits_def owns_def map_simps)
  show "keyed (thread_round j st)"
    using assms(1) m \<open>m_id m = j\<close> by (auto simp: r keyed_def map_simps)
qed

lemma shut_holders:
  "\<not> waits (close st) k p" "\<not> sent (close st) k p" "future_get p (close st) = future_get p st"
  "next_promise (close st) = next_promise st" "keyed (close st)"
  by (simp_all add: holder_defs close_def)

lemma closed_holders:
  "waits (on_close st) = waits st" "sent (on_close st) = sent st" "future_get p (on_close st) = future_get p st"
  "next_promise (on_close st) = next_promise st" "keyed (on_close st) = keyed st" "ws_client (on_close st) = ws_client st"
  by (simp_all add: holder_defs on_close_def)

lemma arrive_holders:
  assumes "on_text_message parse_rj t st = Inr st'"
  shows "waits st' = waits st"
    "sent st' k p \<longleftrightarrow> k \<noteq> id_of_text parse_rj t \<and> sent st k p"
    "future_get p st' = (if sent st (id_of_text parse_rj t) p then Some t else future_get p st)"
    "next_promise st' = next_promise st"
    "keyed st \<Longrightarrow> keyed st'" "ws_client st' = ws_client st"
  using assms
  by (auto simp: holder_defs on_text_message_def Let_def on_recv_msg_def set_value_def call_back_def
      owns_def id_of_text_def map_simps bindE_Inr_iff split: option.splits MSGTYPE.splits if_splits)

lemma on_recv_msg_error: "on_recv_msg m st = Inl e \<Longrightarrow> e = AssertionFailed"
  by (cases "m_type m") (simp_all add: on_recv_msg_def)

section \<open>The invariant\<close>

text \<open>A promise has one holder, which is a waiting message, a written message or its value.\<close>

definition unique_ok :: "session \<Rightarrow> bool" where
  "unique_ok st \<longleftrightarrow>
     (\<forall>k k' p. waits st k p \<longrightarrow> waits st k' p \<longrightarrow> k = k') \<and>
     (\<forall>k k' p. sent st k p \<longrightarrow> sent st k' p \<longrightarrow> k = k') \<and>
     (\<forall>k k' p. waits st k p \<longrightarrow> \<not> sent st k' p) \<and>
     (\<forall>k p. waits st k p \<or> sent st k p \<longrightarrow> p < next_promise st \<and> future_get p st = None) \<and>
     (\<forall>p. future_get p st \<noteq> None \<longrightarrow> p < next_promise st)"

definition history_ok :: "(string \<Rightarrow> rj option) \<Rightarrow> event list \<Rightarrow> session \<Rightarrow> bool" where
  "history_ok parse_rj es st \<longleftrightarrow>
     (\<forall>k p. waits st k p \<longrightarrow> (\<exists>r. asked es p r \<and> id_of_text parse_rj r = k)) \<and>
     (\<forall>k p. sent st k p \<longrightarrow> (\<exists>r. written es p r k \<and> id_of_text parse_rj r = k \<and> k \<noteq> 0)) \<and>
     (\<forall>p t. future_get p st = Some t \<longrightarrow> (\<exists>r. answered es p r (id_of_text parse_rj r) t \<and>
         id_of_text parse_rj r = id_of_text parse_rj t \<and> id_of_text parse_rj r \<noteq> 0))"

lemma history_okI:
  assumes "history_ok parse_rj es st"
    and "\<And>k p. waits st' k p \<Longrightarrow> \<not> waits st k p \<Longrightarrow> \<exists>r. asked (es @ [e]) p r \<and> id_of_text parse_rj r = k"
    and "\<And>k p. sent st' k p \<Longrightarrow> \<not> sent st k p \<Longrightarrow>
      \<exists>r. written (es @ [e]) p r k \<and> id_of_text parse_rj r = k \<and> k \<noteq> 0"
    and "\<And>p t. future_get p st' = Some t \<Longrightarrow> future_get p st \<noteq> Some t \<Longrightarrow>
      \<exists>r. answered (es @ [e]) p r (id_of_text parse_rj r) t \<and>
         id_of_text parse_rj r = id_of_text parse_rj t \<and> id_of_text parse_rj r \<noteq> 0"
  shows "history_ok parse_rj (es @ [e]) st'"
  unfolding history_ok_def
proof (intro conjI allI impI)
  fix k p assume "waits st' k p"
  then show "\<exists>r. asked (es @ [e]) p r \<and> id_of_text parse_rj r = k"
    using assms(1,2) asked_snoc unfolding history_ok_def by blast
next
  fix k p assume "sent st' k p"
  then show "\<exists>r. written (es @ [e]) p r k \<and> id_of_text parse_rj r = k \<and> k \<noteq> 0"
    using assms(1,3) written_snoc unfolding history_ok_def by blast
next
  fix p t assume "future_get p st' = Some t"
  then show "\<exists>r. answered (es @ [e]) p r (id_of_text parse_rj r) t \<and>
      id_of_text parse_rj r = id_of_text parse_rj t \<and> id_of_text parse_rj r \<noteq> 0"
    using assms(1,4) answered_snoc unfolding history_ok_def by blast
qed

definition session_ok :: "(string \<Rightarrow> rj option) \<Rightarrow> event list \<Rightarrow> session \<Rightarrow> bool" where
  "session_ok parse_rj es st \<longleftrightarrow> ws_client st \<and> keyed st \<and> next_promise st = length (asks es) \<and>
     unique_ok st \<and> history_ok parse_rj es st"

lemma session_ok_start: "session_ok parse_rj [] (snd (connect 0 0 MSSignal))"
  by (simp add: connect_def session_ok_def unique_ok_def history_ok_def holder_defs MSSignal_def)

lemma session_step_ok:
  assumes "session_step parse_rj st e st'" "session_ok parse_rj es st"
  shows "session_ok parse_rj (es @ [e]) st'"
proof -
  have ok: "ws_client st" "keyed st" "next_promise st = length (asks es)" "unique_ok st" "history_ok parse_rj es st"
    using assms(2) by (simp_all add: session_ok_def)
  from assms(1) have "ws_client st' \<and> keyed st' \<and> next_promise st' = length (asks (es @ [e])) \<and>
     unique_ok st' \<and> history_ok parse_rj (es @ [e]) st'"
  proof cases
    case (ask r)
    have "unique_ok st'" using ok(4) unfolding unique_ok_def ask ask_holders by (auto simp: less_Suc_eq)
    moreover have "history_ok parse_rj (es @ [e]) st'"
      using asked_last [of es r] ok(3) unfolding ask
      by (intro history_okI [OF ok(5)]) (auto simp: ask_holders split: if_splits)
    moreover have "ws_client st'" using ok(1) by (simp add: ask send_request_def send_def Let_def)
    ultimately show ?thesis using ok by (simp add: ask ask_holders)
  next
    case (post r f)
    have "unique_ok st'" using ok(4) unfolding unique_ok_def post post_holders by blast
    moreover have "history_ok parse_rj (es @ [e]) st'"
      unfolding post by (intro history_okI [OF ok(5)]) (auto simp: post_holders)
    moreover have "ws_client st'" using ok(1) by (simp add: post send_def Let_def)
    ultimately show ?thesis using ok by (simp add: post post_holders)
  next
    case (round k)
    note h = round_holders [OF ok(2,1) round(3)]
    have "unique_ok st'" using ok(4) unfolding unique_ok_def round h by (auto split: if_splits)
    moreover have "history_ok parse_rj (es @ [e]) st'"
    proof -
      have "\<exists>r. written (es @ [Round k]) p r k \<and> id_of_text parse_rj r = k" if "waits st k p" for p
        using that ok(5) written_last unfolding history_ok_def by blast
      then show ?thesis unfolding round
        by (intro history_okI [OF ok(5)]) (auto simp: h split: if_splits)
    qed
    moreover have "ws_client st'" using ok(1) by (simp add: round thread_round_def split: option.split)
    ultimately show ?thesis using ok h by (simp add: round)
  next
    case (arrive t)
    note h = arrive_holders [OF arrive(2)]
    have "unique_ok st'" using ok(4) unfolding unique_ok_def h by (auto split: if_splits)
    moreover have "history_ok parse_rj (es @ [e]) st'"
    proof -
      have "\<exists>r. answered (es @ [Arrive t]) p r (id_of_text parse_rj r) t \<and>
          id_of_text parse_rj r = id_of_text parse_rj t \<and> id_of_text parse_rj r \<noteq> 0"
        if "sent st (id_of_text parse_rj t) p" for p
        using that ok(5) answered_last unfolding history_ok_def by metis
      then show ?thesis unfolding arrive(1)
        by (intro history_okI [OF ok(5)]) (auto simp: h split: if_splits)
    qed
    ultimately show ?thesis using ok h by (simp add: arrive(1))
  next
    case shut
    have "unique_ok st'" using ok(4) unfolding unique_ok_def shut by (auto simp: shut_holders)
    moreover have "history_ok parse_rj (es @ [e]) st'"
      unfolding shut by (intro history_okI [OF ok(5)]) (auto simp: shut_holders)
    moreover have "ws_client st'" using ok(1) by (simp add: shut close_def)
    ultimately show ?thesis using ok by (simp add: shut shut_holders)
  next
    case closed
    have "unique_ok st'" using ok(4) unfolding unique_ok_def closed closed_holders .
    moreover have "history_ok parse_rj (es @ [e]) st'"
      unfolding closed by (intro history_okI [OF ok(5)]) (auto simp: closed_holders)
    ultimately show ?thesis using ok by (simp add: closed closed_holders)
  qed
  then show ?thesis by (simp add: session_ok_def)
qed

lemma session_run_ok: "session_run parse_rj es st \<Longrightarrow> session_ok parse_rj es st"
  by (induction rule: session_run.induct) (simp_all add: session_ok_start session_step_ok)

section \<open>The life of a promise\<close>

datatype phase = Unasked | Waiting | Written | Done string | Lost

definition phase :: "session \<Rightarrow> nat \<Rightarrow> phase" where
  "phase st p =
     (if next_promise st \<le> p then Unasked
      else case future_get p st of
        Some t \<Rightarrow> Done t
      | None \<Rightarrow> if \<exists>k. waits st k p then Waiting else if \<exists>k. sent st k p then Written else Lost)"

inductive phase_step :: "phase \<Rightarrow> phase \<Rightarrow> bool" where
  stays: "phase_step x x"
| asking: "phase_step Unasked Waiting"
| writing: "phase_step Waiting Written"
| answering: "phase_step Written (Done t)"
| losing: "x \<in> {Waiting, Written} \<Longrightarrow> phase_step x Lost"

inductive_simps phase_step_simps:
  "phase_step (Done t) x" "phase_step Lost x"

lemma unique_okD:
  assumes "unique_ok st"
  shows "waits st k p \<Longrightarrow> p < next_promise st \<and> future_get p st = None \<and> (\<forall>k. \<not> sent st k p)"
    and "sent st k p \<Longrightarrow> p < next_promise st \<and> future_get p st = None \<and> (\<forall>k. \<not> waits st k p)"
    and "future_get p st = Some t \<Longrightarrow> p < next_promise st"
  using assms unfolding unique_ok_def by blast+

lemma phase_waits: "unique_ok st \<Longrightarrow> waits st k p \<Longrightarrow> phase st p = Waiting"
  using unique_okD(1) [of st k p] by (auto simp: phase_def)

lemma phase_sent: "unique_ok st \<Longrightarrow> sent st k p \<Longrightarrow> phase st p = Written"
  using unique_okD(2) [of st k p] by (auto simp: phase_def)

lemma phase_done: "unique_ok st \<Longrightarrow> future_get p st = Some t \<Longrightarrow> phase st p = Done t"
  using unique_okD(3) [of st p t] by (auto simp: phase_def)

lemma phase_unasked: "next_promise st \<le> p \<Longrightarrow> phase st p = Unasked"
  by (simp add: phase_def)

lemma phase_lost:
  "p < next_promise st \<Longrightarrow> future_get p st = None \<Longrightarrow> \<forall>k. \<not> waits st k p \<Longrightarrow> \<forall>k. \<not> sent st k p
     \<Longrightarrow> phase st p = Lost"
  by (simp add: phase_def)

text \<open>The step of a promise, from what can become of its holders.\<close>

lemma phase_stepI:
  assumes "unique_ok st" "unique_ok st'" "next_promise st \<le> next_promise st'"
    and new: "\<And>k p. waits st' k p \<Longrightarrow> \<not> waits st k p \<Longrightarrow> next_promise st \<le> p"
    and asked: "\<And>p. next_promise st \<le> p \<Longrightarrow> p < next_promise st' \<Longrightarrow> \<exists>k. waits st' k p"
    and wrote: "\<And>k p. sent st' k p \<Longrightarrow> \<not> sent st k p \<Longrightarrow> \<exists>k. waits st k p"
    and answered: "\<And>p t. future_get p st' = Some t \<Longrightarrow> future_get p st = Some t \<or> (\<exists>k. sent st k p)"
    and kept: "\<And>p t. future_get p st = Some t \<Longrightarrow> future_get p st' = Some t"
  shows "phase_step (phase st p) (phase st' p)"
proof (cases "next_promise st \<le> p")
  case True
  then show ?thesis
    using asked [of p] phase_waits [OF assms(2)] phase_unasked phase_step.intros
    by (metis linorder_not_le)
next
  case False
  then have p: "p < next_promise st" "p < next_promise st'" using assms(3) by simp_all
  show ?thesis
  proof (cases "future_get p st")
    case (Some t)
    then show ?thesis using kept phase_done assms(1,2) stays by metis
  next
    case None
    consider (w) k where "waits st k p" | (s) k where "sent st k p" "\<forall>k. \<not> waits st k p"
      | (l) "\<forall>k. \<not> waits st k p" "\<forall>k. \<not> sent st k p"
      by blast
    then show ?thesis
    proof cases
      case w
      then have "phase st p = Waiting" by (rule phase_waits [OF assms(1)])
      moreover have "future_get p st' = None"
        using answered None w assms(1) unfolding unique_ok_def by (metis not_Some_eq)
      then have "phase st' p \<in> {Waiting, Written, Lost}" using p by (simp add: phase_def)
      ultimately show ?thesis by (auto intro: phase_step.intros)
    next
      case s
      then have "phase st p = Written" using phase_sent [OF assms(1)] by blast
      moreover have "\<forall>k. \<not> waits st' k p" using new s(2) p(1) by (metis linorder_not_le)
      then have "phase st' p \<in> {Written, Lost} \<union> range Done" using p by (auto simp: phase_def split: option.split)
      ultimately show ?thesis by (auto intro: phase_step.intros)
    next
      case l
      then have "phase st p = Lost" using None p by (intro phase_lost) auto
      moreover have "\<forall>k. \<not> waits st' k p" "\<forall>k. \<not> sent st' k p"
        using new wrote l p(1) by (metis linorder_not_le)+
      moreover have "future_get p st' = None" using answered None l(2) by (metis not_Some_eq)
      ultimately show ?thesis using p phase_lost stays by metis
    qed
  qed
qed

lemma session_step_phase:
  assumes "session_step parse_rj st e st'" "session_ok parse_rj es st"
  shows "phase_step (phase st p) (phase st' p)"
proof -
  have ok: "ws_client st" "keyed st" "unique_ok st" and ok': "unique_ok st'"
    using assms session_step_ok [OF assms] by (simp_all add: session_ok_def)
  note I = phase_stepI [OF ok(3) ok']
  from assms(1) show ?thesis
  proof cases
    case (ask r)
    then show ?thesis by (intro I) (auto simp: ask_holders split: if_splits)
  next
    case (post r f)
    then show ?thesis by (intro I) (auto simp: post_holders)
  next
    case (round k)
    note h = round_holders [OF ok(2,1) round(3)]
    show ?thesis using round(1,2) by (intro I) (auto simp: h split: if_splits)
  next
    case (arrive t)
    note h = arrive_holders [OF arrive(2)]
    show ?thesis
    proof (intro I)
      fix p s assume "future_get p st = Some s"
      then show "future_get p st' = Some s"
        using unique_okD(2) [OF ok(3)] by (auto simp: h)
    qed (auto simp: h split: if_splits)
  next
    case shut
    then show ?thesis by (intro I) (auto simp: shut_holders)
  next
    case closed
    then show ?thesis by (intro I) (auto simp: closed_holders)
  qed
qed

text \<open>The state of a run is determined by its events.\<close>

lemma session_step_det:
  "session_step parse_rj st e a \<Longrightarrow> session_step parse_rj st e b \<Longrightarrow> a = b"
  by (cases e) (auto elim!: askE postE roundE arriveE shutE closedE)

inductive_cases run_snocE: "session_run parse_rj (es @ [e]) st"
inductive_cases run_NilE: "session_run parse_rj [] st"

lemma session_run_det: "session_run parse_rj es a \<Longrightarrow> session_run parse_rj es b \<Longrightarrow> a = b"
proof (induction es arbitrary: a b rule: rev_induct)
  case Nil
  then show ?case by (auto elim!: run_NilE)
next
  case (snoc e es)
  then show ?case by (auto elim!: run_snocE dest: session_step_det)
qed

text \<open>A promise that is lost stays lost.\<close>

lemma lost_forever:
  assumes "session_run parse_rj es st" "phase st p = Lost" "session_run parse_rj (es @ fs) st'"
  shows "phase st' p = Lost"
  using assms(3)
proof (induction fs arbitrary: st' rule: rev_induct)
  case Nil
  then show ?case using assms(1,2) session_run_det by auto
next
  case (snoc f fs)
  then obtain st1 where "session_run parse_rj (es @ fs) st1" "session_step parse_rj st1 f st'"
    by (auto elim: run_snocE simp flip: append_assoc)
  with snoc.IH session_step_phase session_run_ok show ?case
    by (metis phase_step_simps(2))
qed

lemma lost_no_value: "phase st p = Lost \<Longrightarrow> future_get p st = None"
  by (auto simp: phase_def split: if_splits option.splits)

lemma asked_nth: "asked es p r \<Longrightarrow> p < length (asks es) \<and> asks es ! p = r"
  by (auto simp: asked_def nth_append)

lemma answered_asked: "answered es p r k t \<Longrightarrow> asked es p r"
  unfolding answered_def asked_def by blast

end
