(* ===== verification/SessionProps.thy ===== *)
theory SessionProps
  imports SessionFacts
begin

text \<open>
  The properties of the signaling session, with closed instances on a run of one request and
  its answer.
\<close>

section \<open>An example\<close>

text \<open>A parser that knows four texts: a request, its answer, a request of the server under the same
  ID, and a request whose ID is 0.\<close>

definition sample_parse :: "string \<Rightarrow> rj option" where
  "sample_parse s =
     (if s = ''ask'' then Some (RObject [(''request'', RBool True), (''id'', RInt 7), (''method'', RString ''join'')])
      else if s = ''answer'' then Some (RObject [(''response'', RBool True), (''id'', RInt 7), (''ok'', RBool True)])
      else if s = ''other'' then Some (RObject [(''request'', RBool True), (''id'', RInt 7), (''method'', RString ''newConsumer'')])
      else if s = ''zero'' then Some (RObject [(''request'', RBool True), (''id'', RInt 0), (''method'', RString ''join'')])
      else None)"

definition sample_connected :: session where
  "sample_connected = snd (connect 0 0 MSSignal)"

definition sample_asked :: session where
  "sample_asked = snd (send_request sample_parse ''ask'' sample_connected)"

definition sample_written :: session where
  "sample_written = thread_round 7 sample_asked"

lemma run_asked: "session_run sample_parse [Ask ''ask''] sample_asked"
  using session_run.step [OF session_run.start session_step.ask]
  by (simp add: sample_asked_def sample_connected_def)

lemma run_written: "session_run sample_parse [Ask ''ask'', Round 7] sample_written"
proof -
  have "map_of (send_list sample_asked) 7 \<noteq> None" by code_simp
  from session_run.step [OF run_asked session_step.round [OF this]] show ?thesis
    by (simp add: sample_written_def)
qed

lemma owns_iff: "owns l k p \<longleftrightarrow> map_option m_promise (map_of l k) = Some (Some p)"
  by (auto simp: owns_def)

lemma sample_holders: "waits sample_asked 7 0" "sent sample_written 7 0"
  unfolding waits_def sent_def owns_iff by code_simp+

lemma sample_phases: "phase sample_asked 0 = Waiting" "phase sample_written 0 = Written"
  using phase_waits phase_sent session_run_ok run_asked run_written sample_holders
  by (meson session_ok_def)+


section \<open>Promises\<close>

text \<open>C8: The life of a request. In every run of the session, a step takes the promise of a
  request only along its life: it is asked for, waits, is written, and is given a value, or it is
  lost while it waits or after it has been written. A promise with a value keeps this value, and
  a lost promise stays lost.\<close>

theorem promise_lifecycle:
  assumes "session_run parse_rj es st" "session_step parse_rj st e st'"
  shows "phase_step (phase st p) (phase st' p)"
  using assms session_step_phase session_run_ok by blast

theorem promise_lifecycle_witness:
  "phase_step (phase sample_asked 0) (phase sample_written 0)
     \<and> phase sample_asked 0 = Waiting \<and> phase sample_written 0 = Written"
proof -
  have "session_step sample_parse sample_asked (Round 7) sample_written"
    unfolding sample_written_def by (rule session_step.round) code_simp
  from promise_lifecycle [OF run_asked this] have "phase_step (phase sample_asked 0) (phase sample_written 0)" .
  with sample_phases show ?thesis by simp
qed





text \<open>C6: No promise is given two values. In every run of the session no arriving text makes
  \<open>on_text_message\<close> raise the \<open>std::future_error\<close> of a promise that already has a value.\<close>

theorem promise_set_once:
  assumes "session_run parse_rj es st"
  shows "on_text_message parse_rj t st \<noteq> Inl FutureError"
proof
  assume f: "on_text_message parse_rj t st = Inl FutureError"
  obtain m p where "map_of (ack_list st) (m_id (message_from_json parse_rj t)) = Some m"
    "m_promise m = Some p" "future_get p st \<noteq> None"
    using f by (auto simp: on_text_message_def Let_def set_value_def bindE_Inl_iff
        dest: on_recv_msg_error split: option.splits if_splits)
  then have "sent st (m_id (message_from_json parse_rj t)) p" "future_get p st \<noteq> None"
    by (auto simp: sent_def owns_def)
  with session_run_ok [OF assms] show False
    by (auto simp: session_ok_def dest: unique_okD(2))
qed

theorem promise_set_once_witness:
  "on_text_message sample_parse ''answer'' sample_written \<noteq> Inl FutureError"
  by (rule promise_set_once [OF run_written])



section \<open>Requests without an answer\<close>

text \<open>A request with the ID 0 hangs. \<open>generateID\<close> may return 0; the thread then writes the request but
  does not keep it, so that in no run its promise is ever given a value, whatever the server
  answers, and \<open>send_request_and_recv_response\<close> does not return.\<close>

theorem id_zero_never_answered:
  assumes "session_run parse_rj (es @ Ask r # fs) st" "m_id (message_from_json parse_rj r) = 0"
  shows "future_get (length (asks es)) st = None"
proof (rule ccontr)
  assume "future_get (length (asks es)) st \<noteq> None"
  then obtain t r' where r': "answered (es @ Ask r # fs) (length (asks es)) r' (id_of_text parse_rj r') t"
    "id_of_text parse_rj r' \<noteq> 0"
    using session_run_ok [OF assms(1)] unfolding session_ok_def history_ok_def by blast
  have "asked (es @ Ask r # fs) (length (asks es)) r" unfolding asked_def by blast
  with r'(1) have "r' = r" using answered_asked asked_nth by metis
  with r'(2) assms(2) show False by (simp add: id_of_text_def)
qed

theorem id_zero_never_answered_witness:
  "future_get 0 (snd (send_request sample_parse ''zero'' (snd (connect 0 0 MSSignal)))) = None"
proof -
  have "m_id (message_from_json sample_parse ''zero'') = 0" by code_simp
  moreover have "session_run sample_parse ([] @ Ask ''zero'' # [])
      (snd (send_request sample_parse ''zero'' (snd (connect 0 0 MSSignal))))"
    using session_run.step [OF session_run.start session_step.ask] by simp
  ultimately show ?thesis using id_zero_never_answered [of sample_parse "[]"] by fastforce
qed

text \<open>A request displaces a waiting one with the same ID. When a request is asked for while
  another one with the same ID still waits for the thread, the other one is dropped: in no
  continuation of the run its promise is given a value.\<close>

theorem displaced_never_answered:
  assumes "session_run parse_rj es st"
    and "map_of (send_list st) (m_id (message_from_json parse_rj r)) = Some m" "m_promise m = Some p"
    and "session_run parse_rj (es @ Ask r # fs) st'"
  shows "future_get p st' = None"
proof -
  define st1 where "st1 = snd (send_request parse_rj r st)"
  have run1: "session_run parse_rj (es @ [Ask r]) st1"
    unfolding st1_def by (rule session_run.step [OF assms(1) session_step.ask])
  have u: "unique_ok st" using session_run_ok [OF assms(1)] by (simp add: session_ok_def)
  have w: "waits st (id_of_text parse_rj r) p"
    using assms(2,3) by (auto simp: waits_def owns_def id_of_text_def)
  note p = unique_okD(1) [OF u w]
  have "phase st1 p = Lost"
  proof (rule phase_lost)
    show "\<forall>k. \<not> waits st1 k p"
      using w u p unfolding st1_def ask_holders unique_ok_def by (metis less_irrefl)
  qed (use p in \<open>simp_all add: st1_def ask_holders\<close>)
  with lost_forever [OF run1 this] assms(4) show ?thesis by (simp add: lost_no_value)
qed

theorem displaced_never_answered_witness:
  "future_get 0 (snd (send_request sample_parse ''ask'' sample_asked)) = None"
proof -
  have m: "map_option m_promise (map_of (send_list sample_asked) (m_id (message_from_json sample_parse ''ask'')))
      = Some (Some 0)"
    by code_simp
  then obtain m where "map_of (send_list sample_asked) (m_id (message_from_json sample_parse ''ask'')) = Some m"
    "m_promise m = Some 0"
    by auto
  moreover have "session_run sample_parse ([Ask ''ask''] @ Ask ''ask'' # []) (snd (send_request sample_parse ''ask'' sample_asked))"
    using session_run.step [OF run_asked session_step.ask] by simp
  ultimately show ?thesis using displaced_never_answered [OF run_asked] by blast
qed

text \<open>C34: Any message answers. A request or a notification of the server that carries the ID of an
  outstanding request is taken for its answer: its text becomes the value of the promise, the
  request is no longer outstanding, and the API is handed the message under the method of the
  request instead of its own.\<close>

theorem any_message_answers:
  assumes "session_run parse_rj es st"
    and "map_of (ack_list st) (m_id (message_from_json parse_rj t)) = Some m" "m_promise m = Some p"
    and "m_type (message_from_json parse_rj t) \<in> {MSG_TYPE_REQUEST, MSG_TYPE_RESPONSE, MSG_TYPE_NOTIFY}"
  shows "\<exists>st'. on_text_message parse_rj t st = Inr st' \<and> future_get p st' = Some t \<and>
           map_of (ack_list st') (m_id (message_from_json parse_rj t)) = None \<and>
           map m_method (handed st') = map m_method (handed st) @ [m_method m] \<and>
           map m_type (handed st') = map m_type (handed st) @ [m_type (message_from_json parse_rj t)]"
proof -
  have "future_get p st = None"
    using session_run_ok [OF assms(1)] assms(2,3) unique_okD(2) [of st _ p]
    by (auto simp: session_ok_def sent_def owns_def)
  with assms(2-4) show ?thesis
    by (auto simp: on_text_message_def Let_def set_value_def call_back_def on_recv_msg_def
        future_get_def map_simps split: option.split)
qed

theorem any_message_answers_witness:
  "\<exists>st'. on_text_message sample_parse ''other'' sample_written = Inr st' \<and> future_get 0 st' = Some ''other''
     \<and> map m_method (handed st') = [''join''] \<and> map m_type (handed st') = [MSG_TYPE_REQUEST]"
proof -
  have "map_option (\<lambda>m. (m_method m, m_promise m))
      (map_of (ack_list sample_written) (m_id (message_from_json sample_parse ''other''))) = Some (''join'', Some 0)"
    by code_simp
  then obtain m where m: "map_of (ack_list sample_written) (m_id (message_from_json sample_parse ''other'')) = Some m"
    "m_method m = ''join''" "m_promise m = Some 0"
    by auto
  have t: "m_type (message_from_json sample_parse ''other'') = MSG_TYPE_REQUEST" "handed sample_written = []"
    by code_simp+
  with any_message_answers [OF run_written m(1,3)] m(2) show ?thesis by auto
qed

end
