(* ===== verification/Effects.thy ===== *)
theory Effects
  imports Prelude
begin

text \<open>
  Operations on an object that may throw: a result and the object as the operation leaves it,
  also when it throws.
\<close>

type_synonym ('s, 'a) op = "'s \<Rightarrow> 'a res \<times> 's"

definition returnS :: "'a \<Rightarrow> ('s, 'a) op" where
  "returnS x = (\<lambda>s. (Inr x, s))"

definition bindS :: "('s, 'a) op \<Rightarrow> ('a \<Rightarrow> ('s, 'b) op) \<Rightarrow> ('s, 'b) op" where
  "bindS m f = (\<lambda>s. case m s of (Inl e, s') \<Rightarrow> (Inl e, s') | (Inr x, s') \<Rightarrow> f x s')"

text \<open>A computation that does not touch the object, a read and an assignment.\<close>

definition liftS :: "'a res \<Rightarrow> ('s, 'a) op" where
  "liftS r = (\<lambda>s. (r, s))"

definition getS :: "('s \<Rightarrow> 'a) \<Rightarrow> ('s, 'a) op" where
  "getS f = (\<lambda>s. (Inr (f s), s))"

definition updS :: "('s \<Rightarrow> 's) \<Rightarrow> ('s, unit) op" where
  "updS f = (\<lambda>s. (Inr (), f s))"

fun mapS :: "('a \<Rightarrow> ('s, unit) op) \<Rightarrow> 'a list \<Rightarrow> ('s, unit) op" where
  "mapS f [] = returnS ()"
| "mapS f (x # xs) = bindS (f x) (\<lambda>_. mapS f xs)"

section \<open>Running\<close>

lemma run_simps [simp]:
  "returnS x s = (Inr x, s)" "liftS r s = (r, s)" "getS f s = (Inr (f s), s)" "updS g s = (Inr (), g s)"
  by (simp_all add: returnS_def liftS_def getS_def updS_def)

lemma bindS_run:
  "m s = (Inl e, s') \<Longrightarrow> bindS m f s = (Inl e, s')" "m s = (Inr x, s') \<Longrightarrow> bindS m f s = f x s'"
  by (simp_all add: bindS_def)

lemma bindS_simps [simp]:
  "bindS (returnS x) f s = f x s" "bindS (liftS (Inr x)) f s = f x s" "bindS (liftS (Inl e)) f s = (Inl e, s)"
  "bindS (getS g) f s = f (g s) s" "bindS (updS h) k s = k () (h s)"
  by (simp_all add: bindS_def)

lemma bindS_Inr_iff:
  "bindS m f s = (Inr y, s'') \<longleftrightarrow> (\<exists>x s'. m s = (Inr x, s') \<and> f x s' = (Inr y, s''))"
  by (auto simp: bindS_def split: prod.splits sum.splits)

section \<open>Invariants\<close>

text \<open>An operation keeps a property of the object, whether it returns or throws.\<close>

definition keeps :: "('s \<Rightarrow> bool) \<Rightarrow> ('s, 'a) op \<Rightarrow> bool" where
  "keeps P m \<longleftrightarrow> (\<forall>s. P s \<longrightarrow> P (snd (m s)))"

named_theorems keeps_rules \<open>operations that keep an invariant\<close>

lemma keeps_return [keeps_rules, intro!]: "keeps P (returnS x)"
  and keeps_lift [keeps_rules, intro!]: "keeps P (liftS r)"
  and keeps_get [keeps_rules, intro!]: "keeps P (getS f)"
  by (simp_all add: keeps_def)

lemma keeps_upd: "(\<And>s. P s \<Longrightarrow> P (f s)) \<Longrightarrow> keeps P (updS f)"
  by (simp add: keeps_def)

lemma keeps_bind [keeps_rules, intro]: "keeps P m \<Longrightarrow> (\<And>x. keeps P (f x)) \<Longrightarrow> keeps P (bindS m f)"
  by (auto simp: keeps_def bindS_def split: prod.splits sum.splits)

lemma keeps_if [keeps_rules, intro]: "(c \<Longrightarrow> keeps P m) \<Longrightarrow> (\<not> c \<Longrightarrow> keeps P n) \<Longrightarrow> keeps P (if c then m else n)"
  by simp

lemma keeps_option [keeps_rules, intro]:
  "(x = None \<Longrightarrow> keeps P m) \<Longrightarrow> (\<And>y. x = Some y \<Longrightarrow> keeps P (f y)) \<Longrightarrow>
     keeps P (case x of None \<Rightarrow> m | Some y \<Rightarrow> f y)"
  by (cases x) simp_all

lemma keeps_prod [keeps_rules, intro]: "(\<And>a b. x = (a, b) \<Longrightarrow> keeps P (f a b)) \<Longrightarrow> keeps P (case x of (a, b) \<Rightarrow> f a b)"
  by (cases x) simp

lemma keeps_map [keeps_rules, intro]: "(\<And>x. x \<in> set xs \<Longrightarrow> keeps P (f x)) \<Longrightarrow> keeps P (mapS f xs)"
  by (induction xs) auto

section \<open>Triples\<close>

text \<open>From a state with \<open>P\<close> the operation returns a value and leaves a state with \<open>Q\<close>, or throws
  and leaves one with \<open>E\<close>.\<close>

definition triple :: "('s \<Rightarrow> bool) \<Rightarrow> ('s, 'a) op \<Rightarrow> ('a \<Rightarrow> 's \<Rightarrow> bool) \<Rightarrow> ('s \<Rightarrow> bool) \<Rightarrow> bool" where
  "triple P m Q E \<longleftrightarrow> (\<forall>s. P s \<longrightarrow> (case m s of (Inl e, s') \<Rightarrow> E s' | (Inr x, s') \<Rightarrow> Q x s'))"

lemma tripleI: "(\<And>s. P s \<Longrightarrow> case m s of (Inl e, s') \<Rightarrow> E s' | (Inr x, s') \<Rightarrow> Q x s') \<Longrightarrow> triple P m Q E"
  by (simp add: triple_def)

lemma triple_bind:
  "triple P m R E \<Longrightarrow> (\<And>x. triple (R x) (f x) Q E) \<Longrightarrow> triple P (bindS m f) Q E"
  by (fastforce simp: triple_def bindS_def split: prod.splits sum.splits)

lemma triple_return: "(\<And>s. P s \<Longrightarrow> Q x s) \<Longrightarrow> triple P (returnS x) Q E"
  by (simp add: triple_def)

lemma triple_bind_lift:
  "(\<And>s. P s \<Longrightarrow> E s) \<Longrightarrow> (\<And>x. r = Inr x \<Longrightarrow> triple P (f x) Q E) \<Longrightarrow> triple P (bindS (liftS r) f) Q E"
  by (cases r) (auto simp: triple_def)

lemma triple_bind_get: "(\<And>x. triple (\<lambda>s. P s \<and> x = g s) (f x) Q E) \<Longrightarrow> triple P (bindS (getS g) f) Q E"
  by (simp add: triple_def)

lemma triple_pre: "triple P' m Q E \<Longrightarrow> (\<And>s. P s \<Longrightarrow> P' s) \<Longrightarrow> triple P m Q E"
  by (simp add: triple_def)

lemma triple_post:
  "triple P m Q' E' \<Longrightarrow> (\<And>x s. Q' x s \<Longrightarrow> Q x s) \<Longrightarrow> (\<And>s. E' s \<Longrightarrow> E s) \<Longrightarrow> triple P m Q E"
  by (fastforce simp: triple_def split: prod.splits sum.splits)

lemma triple_run:
  assumes "triple P m Q E" "P s" "m s = (r, s')"
  shows "case r of Inl e \<Rightarrow> E s' | Inr x \<Rightarrow> Q x s'"
  using assms by (force simp: triple_def split: sum.splits)

lemma triple_false: "triple (\<lambda>_. False) m Q E"
  by (simp add: triple_def)

end
