(* ===== verification/MsApi.thy ===== *)
theory MsApi
  imports Effects SignalModels OrtcNegotiate SdpParser SdpUtil
begin

text \<open>
  The signaling API (\<open>mssdk/mssignal/msapi.cpp\<close>): the state of \<open>MediaSoupAPI\<close>, the requests that it
  sends, and what it makes of the answers. The exchange of a request for its answer is the
  parameter \<open>ask\<close> (the session, see theory \<open>Session\<close>), the requests are kept in the state in the
  order in which they are sent. Random IDs are arguments.
\<close>

section \<open>Texts\<close>

text \<open>The two JSON libraries: parsing and writing with \<open>rapidjson\<close> and with \<open>nlohmann::json\<close>.\<close>

record json_lib =
  parse_rj :: "string \<Rightarrow> rj option"
  print_rj :: "rj \<Rightarrow> string"
  parse_nl :: "string \<Rightarrow> json option"
  dump_nl :: "json \<Rightarrow> string"

definition parse_json :: "json_lib \<Rightarrow> string \<Rightarrow> json res" where
  "parse_json lib t = (case parse_nl lib t of None \<Rightarrow> Inl (JsonParseError 101) | Some j \<Rightarrow> Inr j)"

text \<open>\<open>nlohmann::json::parse(x->toJsonStr())\<close>, and \<open>fromJsonString<M>(j.dump(), err)\<close>.\<close>

definition model_json :: "json_lib \<Rightarrow> fields \<Rightarrow> json res" where
  "model_json lib fs = parse_json lib (toJsonStr (print_rj lib) fs)"

definition json_model :: "json_lib \<Rightarrow> model \<Rightarrow> json \<Rightarrow> fields \<times> exn option" where
  "json_model lib m j = fromJsonString (parse_rj lib) m (blank m) (dump_nl lib j)"

text \<open>A member of a structure through \<open>operator->\<close>, which must be there, and with a default.\<close>

definition deref :: "string \<Rightarrow> fields \<Rightarrow> fields res" where
  "deref k fs = (case member k fs of Some (VStruct gs) \<Rightarrow> Inr gs | _ \<Rightarrow> Inl (Undefined k))"

definition text_or :: "string \<Rightarrow> string \<Rightarrow> fields \<Rightarrow> string" where
  "text_or d k fs = (case member k fs of Some (VString s) \<Rightarrow> s | _ \<Rightarrow> d)"

section \<open>State\<close>

record peer_info =
  room_id :: string
  display_name :: string
  peer_id :: string
  device_flag :: string
  device_name :: string
  device_version :: string

record MSOptions =
  use_simulcast :: bool
  use_sharing_simulcast :: bool
  force_tcp :: bool
  opt_produce :: bool
  opt_consume :: bool
  force_h264 :: bool
  force_vp9 :: bool
  svc :: string
  datachannel :: bool
  throttle_secret :: string
  e2e_key :: string

record JsonTransportParam =
  tp_id :: string
  ice_params :: json
  ice_candidates :: json
  dtls_params :: json
  sctp_params :: json
  extend_caps :: json
  bsend_transport :: bool

text \<open>A promise is \<open>None\<close> until it exists, and holds its value once it has been set.\<close>

record api =
  native_rtp_capabilities :: json
  extend_rtp_capabilities :: json
  recv_rtp_capabilities :: json
  sctp_capabilities :: json
  can_produce :: "(string \<times> bool) list"
  loaded :: bool
  ms_options :: "MSOptions option"
  api_url :: string
  user_info :: "peer_info option"
  peer_list :: "(string \<times> peer_info) list"
  transport_list :: "(string \<times> JsonTransportParam) list"
  version_promise :: "string option option"
  method_handles :: "(string \<times> nat) list"
  handled :: "(nat \<times> string) list"
  requested :: "string list"
  posted :: "string list"

definition MediaSoupAPI :: api where
  "MediaSoupAPI =
     \<lparr>native_rtp_capabilities = JNull, extend_rtp_capabilities = JNull, recv_rtp_capabilities = JNull,
      sctp_capabilities = JNull, can_produce = [(''audio'', False), (''video'', False)], loaded = False,
      ms_options = None, api_url = [], user_info = None, peer_list = [], transport_list = [],
      version_promise = None, method_handles = [], handled = [], requested = [], posted = []\<rparr>"

type_synonym 'a api_op = "(api, 'a) op"

text \<open>\<open>send_request_and_recv_response\<close>.\<close>

definition exchange :: "(string \<Rightarrow> string) \<Rightarrow> string \<Rightarrow> string api_op" where
  "exchange ask request st = (Inr (ask request), st\<lparr>requested := requested st @ [request]\<rparr>)"

text \<open>\<open>arrived\<close>: whether the notification of the version arrives within three seconds.\<close>

definition init :: "string \<Rightarrow> MSOptions option \<Rightarrow> peer_info option \<Rightarrow> bool \<Rightarrow> int api_op" where
  "init url popt pusr_info arrived =
     bindS (updS (\<lambda>st. st\<lparr>api_url := url, version_promise := Some None, user_info := pusr_info,
       ms_options := (if popt = None then ms_options st else popt)\<rparr>)) (\<lambda>_.
     returnS (if arrived then 0 else - 1))"

section \<open>Capabilities\<close>

text \<open>\<open>GetNativeRtpCapabilities\<close> reads the offer of a new peer connection with an audio and a
  video transceiver (\<open>peer_connection_client.cpp\<close>), \<open>GetNativeSctpCapabilities\<close> is constant.\<close>

definition GetNativeRtpCapabilities :: "string res \<Rightarrow> json res" where
  "GetNativeRtpCapabilities offer = bindE offer (\<lambda>t. bindE (parse t) extractRtpCapabilities)"

definition GetNativeSctpCapabilities :: json where
  "GetNativeSctpCapabilities =
     jobj [(''numStreams'', jobj [(''OS'', JUint 1024), (''MIS'', JUint 1024)])]"

text \<open>\<open>native_capabilities\<close> is what \<open>GetNativeRtpCapabilities\<close> returns. An assignment is kept when
  a later step throws.\<close>

definition load_capabilities :: "h264_lib \<Rightarrow> json res \<Rightarrow> json \<Rightarrow> int api_op" where
  "load_capabilities h264 native_capabilities router_rtp_capabilities =
     bindS (liftS (validateRtpCapabilities router_rtp_capabilities)) (\<lambda>router.
     bindS (liftS native_capabilities) (\<lambda>native.
     bindS (updS (\<lambda>st. st\<lparr>native_rtp_capabilities := native\<rparr>)) (\<lambda>_.
     bindS (liftS (getExtendedRtpCapabilities h264 native router)) (\<lambda>(ext, native', _).
     bindS (updS (\<lambda>st. st\<lparr>native_rtp_capabilities := native', extend_rtp_capabilities := ext\<rparr>)) (\<lambda>_.
     bindS (liftS (getRecvRtpCapabilities ext)) (\<lambda>recv.
     bindS (updS (\<lambda>st. st\<lparr>recv_rtp_capabilities := recv\<rparr>)) (\<lambda>_.
     bindS (liftS (validateRtpCapabilities recv)) (\<lambda>recv'.
     bindS (updS (\<lambda>st. st\<lparr>recv_rtp_capabilities := recv',
       sctp_capabilities := GetNativeSctpCapabilities\<rparr>)) (\<lambda>_.
     bindS (liftS (validateSctpCapabilities GetNativeSctpCapabilities)) (\<lambda>sctp.
     bindS (liftS (canSend ''audio'' ext)) (\<lambda>audio.
     bindS (updS (\<lambda>st. st\<lparr>sctp_capabilities := sctp,
       can_produce := aset ''audio'' audio (can_produce st)\<rparr>)) (\<lambda>_.
     bindS (liftS (canSend ''video'' ext)) (\<lambda>video.
     bindS (updS (\<lambda>st. st\<lparr>can_produce := aset ''video'' video (can_produce st), loaded := True\<rparr>)) (\<lambda>_.
     returnS 0))))))))))))))"

definition on_router_rtp_capabilities_response ::
    "json_lib \<Rightarrow> h264_lib \<Rightarrow> string res \<Rightarrow> string \<Rightarrow> int api_op" where
  "on_router_rtp_capabilities_response lib h264 offer resp =
     (case fromJsonString (parse_rj lib) GetRouterRtpCapabilitiesResponse
             (blank GetRouterRtpCapabilitiesResponse) resp of
        (response, Some _) \<Rightarrow> returnS (- 1)
      | (response, None) \<Rightarrow>
          bindS (liftS (deref ''data'' response)) (\<lambda>d.
          bindS (liftS (model_json lib d)) (\<lambda>router.
          bindS (load_capabilities h264 (GetNativeRtpCapabilities offer) router) (\<lambda>_. returnS 0))))"

definition get_router_rtp_capabilities ::
    "json_lib \<Rightarrow> h264_lib \<Rightarrow> string res \<Rightarrow> (string \<Rightarrow> string) \<Rightarrow> 64 word \<Rightarrow> int api_op" where
  "get_router_rtp_capabilities lib h264 offer ask ident =
     bindS (exchange ask (toJsonStr (print_rj lib) (new_GetRouterRtpCapabilitiesRequest ident))) (\<lambda>response.
     on_router_rtp_capabilities_response lib h264 offer response)"

section \<open>Transports\<close>

text \<open>The candidates of \<open>iceCandidates.value()\<close>, and the four descriptions of a transport. The
  role of the server is set to \<open>auto\<close>.\<close>

definition candidate_list :: "fields \<Rightarrow> fields list res" where
  "candidate_list d = (case member ''iceCandidates'' d of
     Some (VVec vs) \<Rightarrow> Inr (map (\<lambda>v. case v of VStruct fs \<Rightarrow> fs | _ \<Rightarrow> []) vs)
   | _ \<Rightarrow> Inl BadOptionalAccess)"

definition transport_params :: "json_lib \<Rightarrow> fields \<Rightarrow> (json \<times> json \<times> json \<times> json) res" where
  "transport_params lib d =
     bindE (deref ''iceParameters'' d) (\<lambda>ice. bindE (model_json lib ice) (\<lambda>ice_json.
     bindE (candidate_list d) (\<lambda>cs. bindE (mapE (model_json lib) cs) (\<lambda>candidates.
     bindE (deref ''dtlsParameters'' d) (\<lambda>dtls.
     bindE (model_json lib (set_member ''role'' (VString ''auto'') dtls)) (\<lambda>dtls_json.
     bindE (deref ''sctpParameters'' d) (\<lambda>sctp. bindE (model_json lib sctp) (\<lambda>sctp_json.
     Inr (ice_json, JArray candidates, dtls_json, sctp_json)))))))))"

text \<open>\<open>!response->ok\<close> asks whether the member is there, not for its value.\<close>

definition transport_response :: "json_lib \<Rightarrow> 64 word \<Rightarrow> string \<Rightarrow> fields option" where
  "transport_response lib ident resp =
     (case fromJsonString (parse_rj lib) CreateWebRtcTransportResponse
             (new_CreateWebRtcTransportResponse ident) resp of
        (_, Some _) \<Rightarrow> None
      | (response, None) \<Rightarrow> if member ''ok'' response = None then None else Some response)"

definition on_create_webrtc_transport_response :: "json_lib \<Rightarrow> 64 word \<Rightarrow> string \<Rightarrow> int api_op" where
  "on_create_webrtc_transport_response lib ident resp =
     (case transport_response lib ident resp of None \<Rightarrow> returnS (- 1) | Some _ \<Rightarrow> returnS 0)"

definition add_transport :: "JsonTransportParam \<Rightarrow> api \<Rightarrow> api" where
  "add_transport tp st = st\<lparr>transport_list := aset (tp_id tp) tp (transport_list st)\<rparr>"

definition on_create_send_transport_response :: "json_lib \<Rightarrow> 64 word \<Rightarrow> string \<Rightarrow> int api_op" where
  "on_create_send_transport_response lib ident resp =
     (case transport_response lib ident resp of
        None \<Rightarrow> returnS (- 1)
      | Some response \<Rightarrow>
          bindS (liftS (deref ''data'' response)) (\<lambda>d.
          bindS (liftS (transport_params lib d)) (\<lambda>(ice, candidates, dtls, sctp).
          bindS (getS extend_rtp_capabilities) (\<lambda>ext.
          bindS (updS (add_transport
            \<lparr>tp_id = text_or [] ''id'' d, ice_params = ice, ice_candidates = candidates, dtls_params = dtls,
             sctp_params = sctp, extend_caps = ext, bsend_transport = True\<rparr>)) (\<lambda>_.
          returnS 0)))))"

definition on_create_recv_transport_response :: "json_lib \<Rightarrow> 64 word \<Rightarrow> string \<Rightarrow> int api_op" where
  "on_create_recv_transport_response lib ident resp =
     (case transport_response lib ident resp of
        None \<Rightarrow> returnS (- 1)
      | Some response \<Rightarrow>
          bindS (liftS (deref ''data'' response)) (\<lambda>d.
          bindS (liftS (transport_params lib d)) (\<lambda>(ice, candidates, dtls, sctp).
          bindS (updS (add_transport
            \<lparr>tp_id = text_or [] ''id'' d, ice_params = ice, ice_candidates = candidates, dtls_params = dtls,
             sctp_params = sctp, extend_caps = JNull, bsend_transport = False\<rparr>)) (\<lambda>_.
          returnS 0))))"

text \<open>The request, or none when the capabilities cannot be read.\<close>

definition transport_request :: "json_lib \<Rightarrow> 64 word \<Rightarrow> bool \<Rightarrow> bool \<Rightarrow> api \<Rightarrow> string option" where
  "transport_request lib ident bproduce bconsuming st =
     (let flags = [(''consuming'', VBool bconsuming), (''producing'', VBool bproduce), (''forceTcp'', VBool False)];
          request = (\<lambda>more. toJsonStr (print_rj lib) (set_member ''data''
            (VStruct (new_object CreateWebRtcTransportRequest_Data (more @ flags)))
            (new_CreateWebRtcTransportRequest ident)))
      in if \<not> loaded st then Some (request [])
         else if dump_nl lib (sctp_capabilities st) = [] then None
         else case json_model lib CreateWebRtcTransportRequest_SCTPCapabilities (sctp_capabilities st) of
           (_, Some _) \<Rightarrow> None
         | (sctp, None) \<Rightarrow> Some (request [(''sctpCapabilities'', VStruct sctp)]))"

text \<open>\<open>ident\<close> is the ID of the request, \<open>ident'\<close> and \<open>ident''\<close> those of the objects that the
  answers are read into.\<close>

definition create_webrtc_transport ::
    "json_lib \<Rightarrow> (string \<Rightarrow> string) \<Rightarrow> 64 word \<times> 64 word \<times> 64 word \<Rightarrow> bool \<Rightarrow> bool \<Rightarrow> int api_op" where
  "create_webrtc_transport lib ask = (\<lambda>(ident, ident', ident'') bproduce bconsuming.
     bindS (getS (transport_request lib ident bproduce bconsuming)) (\<lambda>r. case r of
       None \<Rightarrow> returnS (- 1)
     | Some reqstr \<Rightarrow>
         bindS (if bproduce
                then bindS (exchange ask reqstr) (on_create_send_transport_response lib ident')
                else returnS 0) (\<lambda>ret.
         if ret \<noteq> 0 \<or> \<not> bconsuming then returnS ret
         else bindS (exchange ask reqstr) (on_create_recv_transport_response lib ident''))))"

definition create_send_transport ::
    "json_lib \<Rightarrow> (string \<Rightarrow> string) \<Rightarrow> 64 word \<times> 64 word \<times> 64 word \<Rightarrow> int api_op" where
  "create_send_transport lib ask idents = create_webrtc_transport lib ask idents True False"

definition create_recv_transport ::
    "json_lib \<Rightarrow> (string \<Rightarrow> string) \<Rightarrow> 64 word \<times> 64 word \<times> 64 word \<Rightarrow> int api_op" where
  "create_recv_transport lib ask idents = create_webrtc_transport lib ask idents False True"

definition get_send_transport_param :: "api \<Rightarrow> JsonTransportParam option" where
  "get_send_transport_param st = find bsend_transport (map snd (transport_list st))"

definition get_recv_transport_param :: "api \<Rightarrow> JsonTransportParam option" where
  "get_recv_transport_param st = find (\<lambda>tp. \<not> bsend_transport tp) (map snd (transport_list st))"

definition get_transport_param_by_id :: "string \<Rightarrow> api \<Rightarrow> JsonTransportParam option" where
  "get_transport_param_by_id ident st = map_of (transport_list st) ident"

text \<open>\<open>parser_transport_param\<close> validates what the two handlers take unchecked; it is not called.\<close>

definition parser_transport_param :: "json_lib \<Rightarrow> fields \<Rightarrow> JsonTransportParam \<Rightarrow> JsonTransportParam res" where
  "parser_transport_param lib response tp =
     bindE (deref ''data'' response) (\<lambda>d.
     bindE (transport_params lib d) (\<lambda>(ice, candidates, dtls, sctp).
     bindE (validateIceParameters ice) (\<lambda>ice'.
     bindE (validateIceCandidates candidates) (\<lambda>candidates'.
     bindE (validateDtlsParameters dtls) (\<lambda>dtls'.
     bindE (if sctp = JNull then Inr sctp else validateSctpParameters sctp) (\<lambda>sctp'.
     Inr (tp\<lparr>ice_params := ice', ice_candidates := candidates', dtls_params := dtls', sctp_params := sctp'\<rparr>)))))))"

section \<open>Joining\<close>

definition peer_of :: "peer_info option \<Rightarrow> fields \<Rightarrow> peer_info res" where
  "peer_of user peer =
     bindE (deref ''device'' peer) (\<lambda>device.
     Inr \<lparr>room_id = (case user of None \<Rightarrow> [] | Some u \<Rightarrow> room_id u),
          display_name = text_or [] ''displayName'' peer, peer_id = text_or [] ''id'' peer,
          device_flag = text_or [] ''flag'' device, device_name = text_or [] ''name'' device,
          device_version = text_or [] ''version'' device\<rparr>)"

definition add_peer :: "val \<Rightarrow> unit api_op" where
  "add_peer v =
     bindS (getS user_info) (\<lambda>user.
     bindS (liftS (case v of VStruct fs \<Rightarrow> peer_of user fs | _ \<Rightarrow> Inl (Undefined ''peer''))) (\<lambda>ui.
     updS (\<lambda>st. st\<lparr>peer_list := aset (peer_id ui) ui (peer_list st)\<rparr>)))"

text \<open>The error of parsing is not looked at.\<close>

definition on_join_response :: "json_lib \<Rightarrow> string \<Rightarrow> int api_op" where
  "on_join_response lib resp =
     bindS (liftS (deref ''data'' (fst (fromJsonString (parse_rj lib) JoinResponse (blank JoinResponse) resp)))) (\<lambda>d.
     bindS (mapS add_peer (case member ''peers'' d of Some (VVec vs) \<Rightarrow> vs | _ \<Rightarrow> [])) (\<lambda>_.
     returnS 0))"

text \<open>The members of the request; the capabilities are taken as far as they can be read.\<close>

definition join_data :: "json_lib \<Rightarrow> api \<Rightarrow> fields" where
  "join_data lib st = new_object JoinRequest_Data
     ((''rtpCapabilities'', VStruct (fst (json_model lib JoinRequest_RTPCapabilities (recv_rtp_capabilities st))))
      # (''sctpCapabilities'', VStruct (fst (json_model lib JoinRequest_SCTPCapabilities (sctp_capabilities st))))
      # (case user_info st of None \<Rightarrow> []
         | Some u \<Rightarrow> [(''displayName'', VString (display_name u)),
             (''device'', VStruct (new_object JoinRequest_Device [(''flag'', VString (device_flag u)),
                (''name'', VString (device_name u)), (''version'', VString (device_version u))]))]))"

definition join_request :: "json_lib \<Rightarrow> 64 word \<Rightarrow> api \<Rightarrow> fields" where
  "join_request lib ident st = set_member ''data'' (VStruct (join_data lib st)) (new_JoinRequest ident)"

definition join_room :: "json_lib \<Rightarrow> (string \<Rightarrow> string) \<Rightarrow> 64 word \<Rightarrow> int api_op" where
  "join_room lib ask ident =
     bindS (getS recv_rtp_capabilities) (\<lambda>recv.
     bindS (liftS (validateRtpCapabilities recv)) (\<lambda>recv'.
     bindS (updS (\<lambda>st. st\<lparr>recv_rtp_capabilities := recv'\<rparr>)) (\<lambda>_.
     bindS (getS (join_request lib ident)) (\<lambda>req.
     bindS (exchange ask (toJsonStr (print_rj lib) req)) (on_join_response lib)))))"

section \<open>Connecting and producing\<close>

definition connect_request :: "64 word \<Rightarrow> string \<Rightarrow> fields \<Rightarrow> fields \<Rightarrow> fields" where
  "connect_request ident transport ice dtls =
     set_member ''data'' (VStruct (new_object ConnectWebRtcTransportRequest_Data
       [(''transportId'', VString transport), (''iceParameters'', VStruct ice), (''dtlsParameters'', VStruct dtls)]))
       (new_ConnectWebRtcTransportRequest ident)"

text \<open>Neither the error of reading the DTLS parameters nor the answer is looked at.\<close>

definition connect_webrtc_transport ::
    "json_lib \<Rightarrow> (string \<Rightarrow> string) \<Rightarrow> 64 word \<Rightarrow> string \<Rightarrow> json \<Rightarrow> int api_op" where
  "connect_webrtc_transport lib ask ident id' dtlsParameters =
     bindS (getS (get_transport_param_by_id id')) (\<lambda>tp. case tp of
       None \<Rightarrow> returnS (- 1)
     | Some ptp \<Rightarrow> (case json_model lib ConnectWebRtcTransportRequest_ICEParameters (ice_params ptp) of
           (_, Some _) \<Rightarrow> returnS (- 1)
         | (ice, None) \<Rightarrow>
             bindS (exchange ask (toJsonStr (print_rj lib) (connect_request ident (tp_id ptp) ice
               (fst (json_model lib ConnectWebRtcTransportRequest_DTLSParameters dtlsParameters))))) (\<lambda>_.
             returnS 0)))"

text \<open>\<open>MSC_CHECK_RESPONSE\<close>: again only the presence of \<open>ok\<close> is asked for.\<close>

definition response_accepted :: "json_lib \<Rightarrow> string \<Rightarrow> bool" where
  "response_accepted lib resp =
     (case fromJsonString (parse_rj lib) ResponseHeader (blank ResponseHeader) resp of
        (_, Some _) \<Rightarrow> False | (hdr, None) \<Rightarrow> member ''ok'' hdr \<noteq> None)"

definition on_connect_webrtc_transport_response :: "json_lib \<Rightarrow> string \<Rightarrow> int api_op" where
  "on_connect_webrtc_transport_response lib resp = returnS (if response_accepted lib resp then 0 else - 1)"

definition on_produce_response :: "json_lib \<Rightarrow> string \<Rightarrow> int api_op" where
  "on_produce_response lib resp = returnS (if response_accepted lib resp then 0 else - 1)"

definition produce_request :: "64 word \<Rightarrow> string \<Rightarrow> string \<Rightarrow> fields \<Rightarrow> fields" where
  "produce_request ident transport kind params =
     set_member ''data'' (VStruct (new_object ProduceRequest_Data
       [(''transportId'', VString transport), (''kind'', VString kind), (''rtpParameters'', VStruct params)]))
       (new_ProduceRequest ident)"

definition produce ::
    "json_lib \<Rightarrow> (string \<Rightarrow> string) \<Rightarrow> 64 word \<Rightarrow> string \<Rightarrow> string \<Rightarrow> json \<Rightarrow> int api_op" where
  "produce lib ask ident id' kind rtp_param =
     bindS (getS (get_transport_param_by_id id')) (\<lambda>tp. case tp of
       None \<Rightarrow> returnS (- 1)
     | Some _ \<Rightarrow> (case json_model lib ProduceRequest_RTPParameters rtp_param of
           (_, Some _) \<Rightarrow> returnS (- 1)
         | (params, None) \<Rightarrow>
             bindS (exchange ask (toJsonStr (print_rj lib) (produce_request ident id' kind params)))
               (on_produce_response lib)))"

section \<open>Messages of the server\<close>

definition on_new_consumer_request :: "json_lib \<Rightarrow> string \<Rightarrow> int api_op" where
  "on_new_consumer_request lib req =
     (case fromJsonString (parse_rj lib) NewConsumerRequest (blank NewConsumerRequest) req of
        (_, Some _) \<Rightarrow> returnS (- 1)
      | (ncq, None) \<Rightarrow>
          bindS (liftS (deref ''data'' ncq)) (\<lambda>d.
          bindS (liftS (bindE (deref ''rtpParameters'' d) (model_json lib))) (\<lambda>_.
          bindS (liftS (bindE (deref ''appData'' d) (model_json lib))) (\<lambda>_.
          returnS 0))))"

definition register_method_handle :: "string option \<Rightarrow> nat option \<Rightarrow> unit api_op" where
  "register_method_handle even_name func = (case (even_name, func) of
     (Some k, Some f) \<Rightarrow> updS (\<lambda>st. st\<lparr>method_handles := aset k f (method_handles st)\<rparr>)
   | _ \<Rightarrow> returnS ())"

definition base_response :: "64 word \<Rightarrow> bool \<Rightarrow> fields" where
  "base_response ident bis_ok = new_object BasicResponse
     [(''response'', VBool True), (''id'', VInt64 ident), (''ok'', VBool bis_ok)]"

definition send_base_response :: "json_lib \<Rightarrow> 64 word \<Rightarrow> bool \<Rightarrow> int api_op" where
  "send_base_response lib ident bis_ok =
     bindS (updS (\<lambda>st. st\<lparr>posted := posted st @ [toJsonStr (print_rj lib) (base_response ident bis_ok)]\<rparr>)) (\<lambda>_.
     returnS 0)"

text \<open>The handler of the method is called with the text of the request.\<close>

definition on_recv_request :: "string \<Rightarrow> string \<Rightarrow> int api_op" where
  "on_recv_request method_name json =
     bindS (getS method_handles) (\<lambda>hs. case map_of hs method_name of
       None \<Rightarrow> returnS (- 1)
     | Some f \<Rightarrow> bindS (updS (\<lambda>st. st\<lparr>handled := handled st @ [(f, json)]\<rparr>)) (\<lambda>_. returnS 0))"

definition on_recv_response :: "string \<Rightarrow> string \<Rightarrow> int api_op" where
  "on_recv_response method_name json = returnS 0"

definition on_recv_notify :: "string \<Rightarrow> string \<Rightarrow> int api_op" where
  "on_recv_notify method_name json =
     bindS (getS version_promise) (\<lambda>p.
     if p \<noteq> None \<and> method_name = ''mediasoup-version'' then
       (if p = Some None
        then bindS (updS (\<lambda>st. st\<lparr>version_promise := Some (Some json)\<rparr>)) (\<lambda>_. returnS 0)
        else liftS (Inl FutureError))
     else returnS 0)"

end
