(* ===== verification/MsApiFacts.thy ===== *)
theory MsApiFacts
  imports MsApi OrtcReceive SignalFacts
begin

text \<open>
  Facts on the signaling API: what loading the capabilities leaves in the state, the invariant of
  the state under every call, and what the handlers make of a refusal.
\<close>

section \<open>Capabilities\<close>

text \<open>Some extended codec is of this kind.\<close>

definition sends :: "string \<Rightarrow> json \<Rightarrow> bool" where
  "sends kind ext = list_ex (\<lambda>e. jfind e ''kind'' = Some (JString kind)) (codecs_of ext)"

lemma kind_is_at:
  "jfind e ''kind'' = Some (JString k) \<Longrightarrow> is_object e \<Longrightarrow> kind_is kind e = Inr (kind = k)"
  by (simp add: kind_is_def jidx_object get_string_def)

lemma findE_kind:
  assumes "\<forall>e \<in> set es. \<exists>k. jfind e ''kind'' = Some (JString k)"
  shows "findE (kind_is kind) es = Inr (find (\<lambda>e. jfind e ''kind'' = Some (JString kind)) es)"
proof (rule findE_cong_pure)
  fix e assume "e \<in> set es"
  then obtain k where k: "jfind e ''kind'' = Some (JString k)" using assms by blast
  then have "is_object e" by (cases e) (auto simp: jfind_def)
  then show "kind_is kind e = Inr (jfind e ''kind'' = Some (JString kind))"
    using kind_is_at [OF k] k by auto
qed

lemma extended_kinds:
  assumes "jwf l" "jwf r" "getExtendedRtpCapabilities lib l r = Inr (ext, l', r')"
  shows "\<forall>e \<in> set (codecs_of ext). \<exists>k. jfind e ''kind'' = Some (JString k)"
proof
  fix e assume e: "e \<in> set (codecs_of ext)"
  obtain lv rv ps qs where s: "validateRtpCapabilities l = Inr lv"
    "list_all2 (extended_codec_ok (codecs_of lv) (codecs_of rv)) ps (codecs_of ext)"
    "set (map fst ps) \<subseteq> set (codecs_of lv)"
    by (rule extended_sound [OF assms])
  obtain p where p: "p \<in> set ps" "extended_codec_ok (codecs_of lv) (codecs_of rv) p e"
    using list_all2_source [OF s(2) e] by blast
  have "codec_cap_ok (fst p)"
    using caps_ok_elems(2) [of lv] caps.sound [OF assms(1) s(1)] s(3) p(1) by auto
  then have "has (fst p) ''kind'' is_string"
    by (auto simp: codec_cap_ok_def codec_common_ok_def has_def split: option.splits)
  moreover have "jfind e ''kind'' = jfind (fst p) ''kind''"
    using p(2) by (simp add: extended_codec_ok_def extended_of_def)
  ultimately show "\<exists>k. jfind e ''kind'' = Some (JString k)"
    by (auto simp: has_def split: option.splits elim!: is_string.elims)
qed

lemma canSend_extended:
  assumes "jwf l" "jwf r" "getExtendedRtpCapabilities lib l r = Inr (ext, l', r')"
  shows "canSend kind ext = Inr (sends kind ext)"
proof -
  obtain es xs where ext: "ext = jobj [(''codecs'', JArray es), (''headerExtensions'', JArray xs)]"
    by (rule getExtended_parts [OF assms]) blast
  have o: "jidx ext ''codecs'' = Inr (JArray es)" by (simp add: ext jidx_object map_of_jobj) (simp add: jobj_def)
  have "codecs_of ext = es" by (simp add: ext codecs_of_jobj)
  then have "findE (kind_is kind) es = Inr (find (\<lambda>e. jfind e ''kind'' = Some (JString kind)) es)"
    and "sends kind ext \<longleftrightarrow> find (\<lambda>e. jfind e ''kind'' = Some (JString kind)) es \<noteq> None"
    using findE_kind extended_kinds [OF assms] by (simp, auto simp: sends_def list_ex_iff find_None_iff)
  then show ?thesis by (simp add: canSend_def o)
qed

lemma native_sctp_valid: "validateSctpCapabilities GetNativeSctpCapabilities = Inr GetNativeSctpCapabilities"
proof -
  have "jwf GetNativeSctpCapabilities" "sctp_caps_ok GetNativeSctpCapabilities" by code_simp+
  then show ?thesis by (rule sctp_caps.fixed)
qed

lemma load_capabilities_run:
  assumes wf: "jwf native" "jwf router"
    and router: "validateRtpCapabilities router = Inr rv"
    and pts: "\<forall>c \<in> set (codecs_of rv). has c ''preferredPayloadType'' is_number_integer"
    and dirs: "\<forall>x \<in> set (exts_of rv). has x ''direction'' known_direction"
    and ext: "getExtendedRtpCapabilities h264 native rv = Inr (ext, native', rv')"
  shows "\<exists>caps recv. getRecvRtpCapabilities ext = Inr caps \<and> validateRtpCapabilities caps = Inr recv
     \<and> load_capabilities h264 (Inr native) router st =
         (Inr 0, st\<lparr>native_rtp_capabilities := native', extend_rtp_capabilities := ext,
            recv_rtp_capabilities := recv, sctp_capabilities := GetNativeSctpCapabilities,
            can_produce := aset ''video'' (sends ''video'' ext)
              (aset ''audio'' (sends ''audio'' ext) (can_produce st)), loaded := True\<rparr>)"
proof -
  have rv: "jwf rv" "validateRtpCapabilities rv = Inr rv"
    using caps.sound [OF wf(2) router] caps.idempotent [OF wf(2) router] by simp_all
  obtain caps recv where r: "getRecvRtpCapabilities ext = Inr caps" "validateRtpCapabilities caps = Inr recv"
    using negotiated_receivable [OF wf(1) rv(1) ext rv(2) pts dirs] by (auto simp: is_ok_iff)
  have "load_capabilities h264 (Inr native) router st =
         (Inr 0, st\<lparr>native_rtp_capabilities := native', extend_rtp_capabilities := ext,
            recv_rtp_capabilities := recv, sctp_capabilities := GetNativeSctpCapabilities,
            can_produce := aset ''video'' (sends ''video'' ext)
              (aset ''audio'' (sends ''audio'' ext) (can_produce st)), loaded := True\<rparr>)"
    by (simp add: load_capabilities_def router ext r native_sctp_valid canSend_extended [OF wf(1) rv(1) ext])
  then show ?thesis using r by blast
qed

section \<open>Invariant\<close>

definition transport_ok :: "string \<times> JsonTransportParam \<Rightarrow> bool" where
  "transport_ok = (\<lambda>(k, tp). k = tp_id tp \<and> is_array (ice_candidates tp)
     \<and> (bsend_transport tp \<or> extend_caps tp = JNull))"

definition api_ok :: "api \<Rightarrow> bool" where
  "api_ok st =
     (ordered (transport_list st) \<and> list_all transport_ok (transport_list st)
      \<and> ordered (peer_list st) \<and> list_all (\<lambda>(k, p). k = peer_id p) (peer_list st)
      \<and> map fst (can_produce st) = [''audio'', ''video'']
      \<and> sctp_capabilities st \<in> {JNull, GetNativeSctpCapabilities}
      \<and> (loaded st \<longrightarrow> sctp_capabilities st = GetNativeSctpCapabilities))"

lemma list_all_aset: "P (k, v) \<Longrightarrow> list_all P ps \<Longrightarrow> list_all P (aset k v ps)"
  using set_aset_subset [of k v ps] by (auto simp: list_all_iff)

lemma keeps_exchange [keeps_rules, intro]: "keeps api_ok (exchange ask request)"
  by (simp add: keeps_def exchange_def api_ok_def)

lemma keeps_init: "keeps api_ok (init url popt pusr arrived)"
  by (auto simp: init_def api_ok_def intro!: keeps_rules keeps_upd)

lemma aset_media:
  "map fst xs = [''audio'', ''video''] \<Longrightarrow> map fst (aset ''audio'' b xs) = [''audio'', ''video'']"
  "map fst xs = [''audio'', ''video''] \<Longrightarrow> map fst (aset ''video'' b xs) = [''audio'', ''video'']"
  by (auto simp: map_eq_Cons_conv)

lemma keeps_load_capabilities [keeps_rules, intro]: "keeps api_ok (load_capabilities h264 native router)"
  by (auto simp: keeps_def load_capabilities_def bindS_def native_sctp_valid api_ok_def aset_media
      split: sum.splits prod.splits)

lemma keeps_router_capabilities:
  "keeps api_ok (on_router_rtp_capabilities_response lib h264 offer resp)"
  "keeps api_ok (get_router_rtp_capabilities lib h264 offer ask ident)"
  by (auto simp: on_router_rtp_capabilities_response_def get_router_rtp_capabilities_def
      intro!: keeps_rules keeps_load_capabilities)

lemma transport_params_candidates:
  "transport_params lib d = Inr (ice, candidates, dtls, sctp) \<Longrightarrow> is_array candidates"
  by (auto simp: transport_params_def bindE_Inr_iff)

lemma add_transport_ok: "transport_ok (tp_id tp, tp) \<Longrightarrow> api_ok st \<Longrightarrow> api_ok (add_transport tp st)"
  by (simp add: api_ok_def add_transport_def list_all_aset)

lemma keeps_transport_responses [keeps_rules, intro]:
  "keeps api_ok (on_create_webrtc_transport_response lib ident resp)"
  "keeps api_ok (on_create_send_transport_response lib ident resp)"
  "keeps api_ok (on_create_recv_transport_response lib ident resp)"
  by (auto simp: keeps_def on_create_webrtc_transport_response_def on_create_send_transport_response_def
      on_create_recv_transport_response_def bindS_def transport_ok_def
      dest: transport_params_candidates intro!: add_transport_ok split: option.splits sum.splits prod.splits)

lemma keeps_create_webrtc_transport:
  "keeps api_ok (create_webrtc_transport lib ask idents bproduce bconsuming)"
  by (cases idents) (auto simp: create_webrtc_transport_def intro!: keeps_rules keeps_transport_responses)

lemma keeps_add_peer [keeps_rules, intro]: "keeps api_ok (add_peer v)"
  by (auto simp: add_peer_def api_ok_def list_all_aset intro!: keeps_rules keeps_upd)

lemma keeps_join_room: "keeps api_ok (on_join_response lib resp)" "keeps api_ok (join_room lib ask ident)"
  by (auto simp: join_room_def on_join_response_def api_ok_def
      intro!: keeps_rules keeps_upd keeps_add_peer keeps_exchange)

lemma keeps_connect_produce:
  "keeps api_ok (on_connect_webrtc_transport_response lib resp)" "keeps api_ok (on_produce_response lib resp)"
  "keeps api_ok (connect_webrtc_transport lib ask ident i dtls)" "keeps api_ok (produce lib ask ident i kind params)"
  by (auto simp: connect_webrtc_transport_def produce_def on_produce_response_def
      on_connect_webrtc_transport_response_def intro!: keeps_rules keeps_exchange)

lemma keeps_messages:
  "keeps api_ok (on_new_consumer_request lib req)" "keeps api_ok (register_method_handle k f)"
  "keeps api_ok (send_base_response lib ident ok)" "keeps api_ok (on_recv_request meth text')"
  "keeps api_ok (on_recv_response meth text')" "keeps api_ok (on_recv_notify meth text')"
  by (auto simp: on_new_consumer_request_def register_method_handle_def send_base_response_def
      on_recv_request_def on_recv_response_def on_recv_notify_def api_ok_def intro!: keeps_rules keeps_upd)

text \<open>The states of the object after any sequence of calls, whatever the server answers, also
  after calls that throw.\<close>

inductive api_reachable :: "api \<Rightarrow> bool" where
  constructed: "api_reachable MediaSoupAPI"
| called_init: "api_reachable st \<Longrightarrow> api_reachable (snd (init url popt user arrived st))"
| called_router: "api_reachable st \<Longrightarrow> api_reachable (snd (get_router_rtp_capabilities lib h264 offer ask ident st))"
| called_transport:
    "api_reachable st \<Longrightarrow> api_reachable (snd (create_webrtc_transport lib ask idents bproduce bconsuming st))"
| called_join: "api_reachable st \<Longrightarrow> api_reachable (snd (join_room lib ask ident st))"
| called_connect: "api_reachable st \<Longrightarrow> api_reachable (snd (connect_webrtc_transport lib ask ident i dtls st))"
| called_produce: "api_reachable st \<Longrightarrow> api_reachable (snd (produce lib ask ident i kind params st))"
| called_register: "api_reachable st \<Longrightarrow> api_reachable (snd (register_method_handle k f st))"
| called_respond: "api_reachable st \<Longrightarrow> api_reachable (snd (send_base_response lib ident ok st))"
| received_consumer: "api_reachable st \<Longrightarrow> api_reachable (snd (on_new_consumer_request lib req st))"
| received_request: "api_reachable st \<Longrightarrow> api_reachable (snd (on_recv_request meth message st))"
| received_response: "api_reachable st \<Longrightarrow> api_reachable (snd (on_recv_response meth message st))"
| received_notify: "api_reachable st \<Longrightarrow> api_reachable (snd (on_recv_notify meth message st))"

lemma api_start: "api_ok MediaSoupAPI"
  by (simp add: api_ok_def MediaSoupAPI_def)

lemma api_reachable_ok: "api_reachable st \<Longrightarrow> api_ok st"
  by (induction rule: api_reachable.induct)
    (use api_start keeps_init keeps_router_capabilities keeps_create_webrtc_transport keeps_join_room
      keeps_connect_produce keeps_messages in \<open>auto simp: keeps_def\<close>)


lemma transport_found:
  assumes "api_ok st"
  shows "get_transport_param_by_id i st = Some tp \<Longrightarrow> tp_id tp = i"
  using assms map_of_SomeD
  by (fastforce simp: get_transport_param_by_id_def api_ok_def list_all_iff transport_ok_def)

lemma ordered_distinct: "ordered ps \<Longrightarrow> distinct (map fst ps)"
  by (induction ps) (auto simp: ordered_def)

lemma chosen_by_id:
  assumes "api_ok st" "find p (map snd (transport_list st)) = Some tp"
  shows "p tp \<and> get_transport_param_by_id (tp_id tp) st = Some tp \<and> (bsend_transport tp \<or> extend_caps tp = JNull)"
proof -
  have p: "p tp" "tp \<in> snd ` set (transport_list st)" using assms(2) by (auto simp: find_Some_iff)
  then obtain k where k: "(k, tp) \<in> set (transport_list st)" by auto
  have "transport_ok (k, tp)" "distinct (map fst (transport_list st))"
    using assms(1) k ordered_distinct by (auto simp: api_ok_def list_all_iff)
  then show ?thesis using k p(1) by (simp add: transport_ok_def get_transport_param_by_id_def map_of_is_SomeI)
qed

lemma transport_chosen:
  assumes "api_ok st"
  shows "get_send_transport_param st = Some tp \<Longrightarrow>
      bsend_transport tp \<and> get_transport_param_by_id (tp_id tp) st = Some tp"
    and "get_recv_transport_param st = Some tp \<Longrightarrow>
      \<not> bsend_transport tp \<and> extend_caps tp = JNull \<and> get_transport_param_by_id (tp_id tp) st = Some tp"
  using chosen_by_id [OF assms]
  by (fastforce simp: get_send_transport_param_def get_recv_transport_param_def)+

section \<open>Refusals\<close>

lemma refused_response:
  assumes "parse_rj lib (c_str resp) = Some (RObject ms)"
    and "present (RObject ms) ''response'' = Some (RBool True)"
    and "present (RObject ms) ''id'' = Some (RInt n)" "- (2 ^ 63) \<le> n" "n < 2 ^ 63"
    and "present (RObject ms) ''ok'' = Some (RBool False)"
    and "present (RObject ms) ''request'' = None" "present (RObject ms) ''data'' = None"
  shows "on_produce_response lib resp st = (Inr 0, st)"
    "on_connect_webrtc_transport_response lib resp st = (Inr 0, st)"
    "on_create_send_transport_response lib ident resp st = (Inl (Undefined ''data''), st)"
    "on_create_recv_transport_response lib ident resp st = (Inl (Undefined ''data''), st)"
proof -
  have a: "response_accepted lib resp"
    using assms
    by (simp add: response_accepted_def fromJsonString_def ResponseHeader_def blank_def member_def set_member_def)
  obtain r where r: "transport_response lib ident resp = Some r" "member ''data'' r = None"
    using assms
    by (simp add: transport_response_def fromJsonString_def CreateWebRtcTransportResponse_def blank_def
        new_CreateWebRtcTransportResponse_def new_object_def request_of_def id_of_def member_def set_member_def)
  show "on_produce_response lib resp st = (Inr 0, st)" "on_connect_webrtc_transport_response lib resp st = (Inr 0, st)"
    "on_create_send_transport_response lib ident resp st = (Inl (Undefined ''data''), st)"
    "on_create_recv_transport_response lib ident resp st = (Inl (Undefined ''data''), st)"
    by (simp_all add: on_produce_response_def on_connect_webrtc_transport_response_def a r
        on_create_send_transport_response_def on_create_recv_transport_response_def deref_def)
qed

end
