(* ===== verification/MsApiProps.thy ===== *)
theory MsApiProps
  imports MsApiFacts
begin

text \<open>
  The properties of the signaling API.
\<close>

definition no_api_h264 :: h264_lib where
  "no_api_h264 = \<lparr>h264_same = (\<lambda>_ _. False), h264_answer = (\<lambda>_ _. None)\<rparr>"

text \<open>C12: loading the capabilities of the router. When the router gives payload types to all
  codecs and known directions to all extensions, everything that is negotiated with the
  capabilities of this side can be loaded, from any state: the receiving capabilities are those
  of the negotiation and validated, and a kind can be produced exactly when a codec of this kind
  has been negotiated.\<close>

theorem capabilities_loaded:
  assumes "jwf native" "jwf router"
    and "validateRtpCapabilities router = Inr rv"
    and "\<forall>c \<in> set (codecs_of rv). has c ''preferredPayloadType'' is_number_integer"
    and "\<forall>x \<in> set (exts_of rv). has x ''direction'' known_direction"
    and "getExtendedRtpCapabilities h264 native rv = Inr (ext, native', rv')"
  shows "\<exists>caps recv. getRecvRtpCapabilities ext = Inr caps \<and> validateRtpCapabilities caps = Inr recv
     \<and> load_capabilities h264 (Inr native) router st =
         (Inr 0, st\<lparr>native_rtp_capabilities := native', extend_rtp_capabilities := ext,
            recv_rtp_capabilities := recv, sctp_capabilities := GetNativeSctpCapabilities,
            can_produce := aset ''video'' (sends ''video'' ext)
              (aset ''audio'' (sends ''audio'' ext) (can_produce st)), loaded := True\<rparr>)"
  using assms by (rule load_capabilities_run)

definition sample_native :: json where
  "sample_native = jobj
     [(''codecs'', JArray [jobj [(''kind'', JString ''audio''), (''mimeType'', JString ''audio/opus''),
        (''preferredPayloadType'', JInt 111), (''clockRate'', JInt 48000), (''channels'', JInt 2)]])]"

definition sample_router :: json where
  "sample_router = jobj
     [(''codecs'', JArray [jobj [(''kind'', JString ''audio''), (''mimeType'', JString ''audio/opus''),
        (''preferredPayloadType'', JInt 100), (''clockRate'', JInt 48000), (''channels'', JInt 2)]])]"

definition sample_caps :: "json \<Rightarrow> json \<Rightarrow> bool" where
  "sample_caps native router = (case validateRtpCapabilities router of Inl _ \<Rightarrow> False | Inr rv \<Rightarrow>
     (\<forall>c \<in> set (codecs_of rv). has c ''preferredPayloadType'' is_number_integer)
     \<and> (\<forall>x \<in> set (exts_of rv). has x ''direction'' known_direction)
     \<and> (case getExtendedRtpCapabilities no_api_h264 native rv of
          Inl _ \<Rightarrow> False | Inr (ext, _, _) \<Rightarrow> sends ''audio'' ext \<and> \<not> sends ''video'' ext))"

lemma sample_caps: "sample_caps sample_native sample_router" by code_simp

theorem capabilities_loaded_witness:
  "\<exists>st'. load_capabilities no_api_h264 (Inr sample_native) sample_router MediaSoupAPI = (Inr 0, st')
     \<and> loaded st' \<and> can_produce st' = [(''audio'', True), (''video'', False)]"
proof -
  obtain rv ext l' r' where r: "validateRtpCapabilities sample_router = Inr rv"
    "getExtendedRtpCapabilities no_api_h264 sample_native rv = Inr (ext, l', r')"
    "\<forall>c \<in> set (codecs_of rv). has c ''preferredPayloadType'' is_number_integer"
    "\<forall>x \<in> set (exts_of rv). has x ''direction'' known_direction"
    "sends ''audio'' ext" "\<not> sends ''video'' ext"
    using sample_caps by (auto simp: sample_caps_def split: sum.splits)
  have "jwf sample_native" "jwf sample_router" by code_simp+
  from capabilities_loaded [OF this r(1,3,4,2), of MediaSoupAPI]
  show ?thesis using r(5,6) by (auto simp: MediaSoupAPI_def)
qed

text \<open>C11: what every call of the API keeps, whatever the server answers, and also when it
  throws: transports and peers are filed under their own IDs, the candidates of a transport are
  an array, and the SCTP capabilities are there once the capabilities have been loaded. So the
  transport found for an ID has this ID, and the one that is chosen for sending is a sending
  transport that its own ID leads to.\<close>

theorem api_invariant:
  assumes "api_reachable st"
  shows "api_ok st
    \<and> (\<forall>i tp. get_transport_param_by_id i st = Some tp \<longrightarrow> tp_id tp = i)
    \<and> (\<forall>tp. get_send_transport_param st = Some tp \<longrightarrow>
          bsend_transport tp \<and> get_transport_param_by_id (tp_id tp) st = Some tp)
    \<and> (\<forall>tp. get_recv_transport_param st = Some tp \<longrightarrow>
          \<not> bsend_transport tp \<and> extend_caps tp = JNull \<and> get_transport_param_by_id (tp_id tp) st = Some tp)"
proof -
  have ok: "api_ok st" using assms by (rule api_reachable_ok)
  then show ?thesis using transport_found [OF ok] transport_chosen [OF ok] by blast
qed

theorem api_invariant_witness:
  "api_ok (snd (send_base_response \<lparr>parse_rj = (\<lambda>_. None), print_rj = (\<lambda>_. ''{}''), parse_nl = (\<lambda>_. None),
     dump_nl = (\<lambda>_. [])\<rparr> 7 True MediaSoupAPI))"
  using api_invariant [OF called_respond [OF constructed]] by blast

text \<open>C35: a refusal is not noticed. When the server answers \<open>ok: false\<close> without data, producing
  counts as successful, so would connecting, and creating a transport does not return an error
  code but dereferences the missing data; no transport is registered.\<close>

theorem refusal_not_noticed:
  assumes "parse_rj lib (c_str resp) = Some (RObject ms)"
    and "present (RObject ms) ''response'' = Some (RBool True)"
    and "present (RObject ms) ''id'' = Some (RInt n)" "- (2 ^ 63) \<le> n" "n < 2 ^ 63"
    and "present (RObject ms) ''ok'' = Some (RBool False)"
    and "present (RObject ms) ''request'' = None" "present (RObject ms) ''data'' = None"
  shows "on_produce_response lib resp st = (Inr 0, st)
    \<and> on_connect_webrtc_transport_response lib resp st = (Inr 0, st)
    \<and> on_create_send_transport_response lib ident resp st = (Inl (Undefined ''data''), st)
    \<and> on_create_recv_transport_response lib ident resp st = (Inl (Undefined ''data''), st)"
  using refused_response [OF assms] by simp

definition refusal :: json_lib where
  "refusal = \<lparr>parse_rj = (\<lambda>_. Some (RObject [(''response'', RBool True), (''id'', RInt 5), (''ok'', RBool False),
       (''errorReason'', RString ''no'')])),
     print_rj = (\<lambda>_. ''{}''), parse_nl = (\<lambda>_. None), dump_nl = (\<lambda>_. [])\<rparr>"

theorem refusal_not_noticed_witness:
  "on_produce_response refusal ''{}'' MediaSoupAPI = (Inr 0, MediaSoupAPI)"
proof -
  let ?ms = "[(''response'', RBool True), (''id'', RInt 5), (''ok'', RBool False), (''errorReason'', RString ''no'')]"
  have "parse_rj refusal (c_str ''{}'') = Some (RObject ?ms)" by (simp add: refusal_def)
  from refusal_not_noticed [OF this, of 5 MediaSoupAPI 0] show ?thesis by (simp add: present_def find_member_def)
qed

end
