(* ===== verification/MediaControl.thy ===== *)
theory MediaControl
  imports MsApi RemoteSdp SdpOffer OrtcSend
begin

text \<open>
  The client (\<open>mssdk/peerconnection/media_control.cpp\<close>): \<open>MediaControl\<close> joins a room through the
  signaling API, publishes audio and video over peer connections, and subscribes to the peers.
  WebRTC, with the devices and encoders behind it, is the parameter \<open>webrtc\<close>: an abstract type
  of peer connections and the calls of \<open>PeerConnectionClient\<close> on it. In the model a call on the
  remote description that throws leaves the description as it was. The locks and the logs have
  no counterpart.
\<close>

section \<open>WebRTC\<close>

text \<open>\<open>RtpEncodingParameters\<close>, as far as the code uses them; floating point values by their
  bits, \<open>network_priority\<close> as the value that it is converted to.\<close>

record rtp_encoding =
  enc_active :: bool
  enc_rid :: string
  max_bitrate_bps :: "32 word option"
  max_framerate :: "64 word option"
  scale_resolution_down_by :: "64 word option"
  scalability_mode :: "string option"
  network_priority :: json

text \<open>Transceivers are numbers; \<open>transceivers\<close> lists their kinds and their MIDs.\<close>

record 'pc webrtc =
  create_pc :: 'pc
  create_track :: "string \<Rightarrow> ('pc, bool) op"
  add_transceiver :: "string \<Rightarrow> rtp_encoding list \<Rightarrow> ('pc, nat option) op"
  create_offer :: "('pc, string) op"
  create_answer :: "('pc, string) op"
  set_local :: "string \<Rightarrow> string \<Rightarrow> ('pc, unit) op"
  set_remote :: "string \<Rightarrow> string \<Rightarrow> ('pc, unit) op"
  local_description :: "'pc \<Rightarrow> string"
  transceiver_mid :: "nat \<Rightarrow> 'pc \<Rightarrow> string option"
  transceivers :: "'pc \<Rightarrow> (string \<times> string option) list"
  default_encoding :: rtp_encoding

text \<open>What the client runs on: the JSON libraries, WebRTC, the answers of the server and the
  offer that the native capabilities are read from.\<close>

record 'pc env =
  libs :: json_lib
  profiles :: h264_lib
  rtc :: "'pc webrtc"
  server :: "string \<Rightarrow> string"
  native_offer :: "string res"

section \<open>State\<close>

datatype PublishStreamType = PublishMainStream | publishScreenStream

instantiation PublishStreamType :: linorder
begin

definition less_eq_PublishStreamType :: "PublishStreamType \<Rightarrow> PublishStreamType \<Rightarrow> bool" where
  "less_eq_PublishStreamType a b \<longleftrightarrow> (a = PublishMainStream \<or> b = publishScreenStream)"

definition less_PublishStreamType :: "PublishStreamType \<Rightarrow> PublishStreamType \<Rightarrow> bool" where
  "less_PublishStreamType a b \<longleftrightarrow> (a = PublishMainStream \<and> b = publishScreenStream)"

instance
proof
  fix x y z :: PublishStreamType
  show "(x < y) = (x \<le> y \<and> \<not> y \<le> x)" "x \<le> x" "x \<le> y \<Longrightarrow> y \<le> z \<Longrightarrow> x \<le> z" "x \<le> y \<Longrightarrow> y \<le> x \<Longrightarrow> x = y" "x \<le> y \<or> y \<le> x"
    by (cases x; cases y; cases z; simp add: less_eq_PublishStreamType_def less_PublishStreamType_def)+
qed

end

text \<open>\<open>observed\<close>: the calls of the observer, with the ID of the track, when there is one.\<close>

record 'pc control =
  ms_api :: "api option"
  joined_as :: "peer_info option"
  encodings :: "rtp_encoding list"
  remote :: "remote_sdp option"
  publish_pcs :: "(PublishStreamType \<times> 'pc) list"
  sub_pcs :: "(string \<times> 'pc) list"
  consumer_list :: "(string \<times> (string \<times> fields) list) list"
  data_consumer_list :: "(string \<times> fields) list"
  observed :: "(string \<times> string) list option"

type_synonym ('pc, 'a) control_op = "('pc control, 'a) op"
type_synonym ('pc, 'a) pc_op = "('pc \<times> 'pc control, 'a) op"

text \<open>A call on the peer connection at hand, on the client, on its API and on its remote
  description.\<close>

definition on_pc :: "('pc, 'a) op \<Rightarrow> ('pc, 'a) pc_op" where
  "on_pc m = (\<lambda>(pc, c). case m pc of (r, pc') \<Rightarrow> (r, (pc', c)))"

definition on_control :: "('pc, 'a) control_op \<Rightarrow> ('pc, 'a) pc_op" where
  "on_control m = (\<lambda>(pc, c). case m c of (r, c') \<Rightarrow> (r, (pc, c')))"

definition on_api :: "'a api_op \<Rightarrow> ('pc, 'a) control_op" where
  "on_api m = (\<lambda>c. case ms_api c of
     None \<Rightarrow> (Inl (Undefined ''ms_api_''), c)
   | Some a \<Rightarrow> (case m a of (r, a') \<Rightarrow> (r, c\<lparr>ms_api := Some a'\<rparr>)))"

definition on_remote :: "(remote_sdp \<Rightarrow> ('a \<times> remote_sdp) res) \<Rightarrow> ('pc, 'a) control_op" where
  "on_remote f = (\<lambda>c. case remote c of
     None \<Rightarrow> (Inl (Undefined ''remote_sdp_''), c)
   | Some st \<Rightarrow> (case f st of Inl e \<Rightarrow> (Inl e, c) | Inr (x, st') \<Rightarrow> (Inr x, c\<lparr>remote := Some st'\<rparr>)))"

definition update_remote :: "(remote_sdp \<Rightarrow> remote_sdp res) \<Rightarrow> ('pc, unit) control_op" where
  "update_remote f = on_remote (\<lambda>st. bindE (f st) (\<lambda>st'. Inr ((), st')))"

section \<open>Encodings\<close>

definition set_opt :: "string \<Rightarrow> ('a \<Rightarrow> json) \<Rightarrow> 'a option \<Rightarrow> json \<Rightarrow> json res" where
  "set_opt k f x j = (case x of None \<Rightarrow> Inr j | Some v \<Rightarrow> jset j k (f v))"

definition fillJsonRtpEncodingParameters :: "json \<Rightarrow> rtp_encoding \<Rightarrow> json res" where
  "fillJsonRtpEncodingParameters jsonEncoding e =
     bindE (jset jsonEncoding ''active'' (JBool (enc_active e))) (\<lambda>j.
     bindE (if enc_rid e = [] then Inr j else jset j ''rid'' (JString (enc_rid e))) (\<lambda>j.
     bindE (set_opt ''maxBitrate'' (\<lambda>b. JInt (scast b)) (max_bitrate_bps e) j) (\<lambda>j.
     bindE (set_opt ''maxFramerate'' JFloat (max_framerate e) j) (\<lambda>j.
     bindE (set_opt ''scaleResolutionDownBy'' JFloat (scale_resolution_down_by e) j) (\<lambda>j.
     bindE (set_opt ''scalabilityMode'' JString (scalability_mode e) j) (\<lambda>j.
     jset j ''networkPriority'' (network_priority e)))))))"

text \<open>The bits of 1.0, 2.0 and 4.0.\<close>

definition configVideoEncodings :: "rtp_encoding \<Rightarrow> rtp_encoding list" where
  "configVideoEncodings unset =
     map (\<lambda>(rid, bitrate, scale). unset\<lparr>enc_rid := rid, enc_active := True, max_bitrate_bps := Some bitrate,
            scale_resolution_down_by := Some scale, scalability_mode := Some ''L1T3''\<rparr>)
       [(''h'', 1300000, 0x3FF0000000000000), (''m'', 500000, 0x4000000000000000), (''l'', 150000, 0x4010000000000000)]"

definition MediaControl :: "'pc env \<Rightarrow> bool \<Rightarrow> 'pc control" where
  "MediaControl env has_observer =
     \<lparr>ms_api = None, joined_as = None, encodings = configVideoEncodings (default_encoding (rtc env)),
      remote = None, publish_pcs = [], sub_pcs = [], consumer_list = [], data_consumer_list = [],
      observed = (if has_observer then Some [] else None)\<rparr>"

definition observe :: "string \<Rightarrow> string \<Rightarrow> ('pc, unit) control_op" where
  "observe event tid = updS (\<lambda>c. c\<lparr>observed := map_option (\<lambda>es. es @ [(event, tid)]) (observed c)\<rparr>)"

section \<open>Joining\<close>

text \<open>The handlers by number; the API is created once.\<close>

definition h_new_consumer :: nat where "h_new_consumer = 0"
definition h_new_data_consumer :: nat where "h_new_data_consumer = 1"

definition create_api :: "('pc, unit) control_op" where
  "create_api = bindS (getS ms_api) (\<lambda>a.
     if a \<noteq> None then returnS ()
     else bindS (updS (\<lambda>c. c\<lparr>ms_api := Some MediaSoupAPI\<rparr>)) (\<lambda>_.
          on_api (bindS (register_method_handle (Some ''newConsumer'') (Some h_new_consumer)) (\<lambda>_.
                  register_method_handle (Some ''newDataConsumer'') (Some h_new_data_consumer)))))"

text \<open>A step of the joining: its code is returned at once unless it is zero.\<close>

definition check_result :: "('s, int) op \<Rightarrow> ('s, int) op \<Rightarrow> ('s, int) op" where
  "check_result m k = bindS m (\<lambda>ret. if ret \<noteq> 0 then returnS ret else k)"

definition join_control ::
    "'pc env \<Rightarrow> (nat \<Rightarrow> 64 word) \<Rightarrow> string \<Rightarrow> peer_info option \<Rightarrow> bool \<Rightarrow> ('pc, int) control_op" where
  "join_control env ident url info arrived =
     bindS create_api (\<lambda>_.
     bindS (updS (\<lambda>c. c\<lparr>joined_as := (if info = None then joined_as c else info)\<rparr>)) (\<lambda>_.
     bindS (getS joined_as) (\<lambda>user.
     check_result (on_api (init url None user arrived)) (
     check_result (on_api (get_router_rtp_capabilities (libs env) (profiles env) (native_offer env) (server env) (ident 0))) (
     check_result (on_api (create_send_transport (libs env) (server env) (ident 1, ident 2, ident 3))) (
     check_result (on_api (create_recv_transport (libs env) (server env) (ident 4, ident 5, ident 6))) (
     check_result (on_api (join_room (libs env) (server env) (ident 7))) (
     returnS 0))))))))"

section \<open>Publishing\<close>

definition send_transport :: "'pc control \<Rightarrow> JsonTransportParam option" where
  "send_transport c = (case ms_api c of None \<Rightarrow> None | Some a \<Rightarrow> get_send_transport_param a)"

text \<open>The role of this side, which the role of the transport decides unless it is \<open>auto\<close>.\<close>

definition local_role :: "json \<Rightarrow> string res" where
  "local_role dtls = (case jfind dtls ''role'' of
     None \<Rightarrow> Inr ''server''
   | Some r \<Rightarrow> bindE (get_string r) (\<lambda>role.
       Inr (if role = ''auto'' then ''server'' else if role = ''server'' then ''client'' else ''server'')))"

definition remote_role :: "string \<Rightarrow> string" where
  "remote_role role = (if role = ''client'' then ''server'' else ''client'')"

definition need_remote :: "JsonTransportParam \<Rightarrow> ('pc, unit) control_op" where
  "need_remote tp = bindS (getS remote) (\<lambda>r.
     if r \<noteq> None then returnS ()
     else bindS (liftS (RemoteSdp (ice_params tp) (ice_candidates tp) (dtls_params tp) (sctp_params tp))) (\<lambda>st.
          updS (\<lambda>c. c\<lparr>remote := Some st\<rparr>)))"

definition next_section :: "('pc, nat \<times> string) control_op" where
  "next_section = on_remote (\<lambda>st. bindE (GetNextMediaSectionIdx st) (\<lambda>x. Inr (x, st)))"

text \<open>\<open>params["codecs"] = reduceCodecs(params["codecs"], NULL)\<close>\<close>

definition reduce_codecs :: "h264_lib \<Rightarrow> json \<Rightarrow> json res" where
  "reduce_codecs h264 params =
     bindE (jref params ''codecs'') (\<lambda>(codecs, params1).
     bindE (reduceCodecs h264 codecs None) (\<lambda>(cs, _, _). jset params1 ''codecs'' (JArray cs)))"

definition sending_parameters :: "h264_lib \<Rightarrow> string \<Rightarrow> json \<Rightarrow> (json \<times> json) res" where
  "sending_parameters h264 kind ext =
     bindE (getSendingRtpParameters kind ext) (\<lambda>sp. bindE (reduce_codecs h264 sp) (\<lambda>sp1.
     bindE (getSendingRemoteRtpParameters kind ext) (\<lambda>rp. bindE (reduce_codecs h264 rp) (\<lambda>rp1.
     Inr (sp1, rp1)))))"

text \<open>\<open>sdp["media"][idx]\<close> on a session that can be modified: past the end there is a null.\<close>

definition media_at :: "nat \<Rightarrow> json \<Rightarrow> json res" where
  "media_at idx sdp = bindE (jref sdp ''media'') (\<lambda>(ms, _). bindE (jnth_ref ms idx) (\<lambda>(m, _). Inr m))"

definition set_cname :: "json \<Rightarrow> json \<Rightarrow> json res" where
  "set_cname offerMedia params =
     bindE (getCname offerMedia) (\<lambda>cname. bindE (jref params ''rtcp'') (\<lambda>(rtcp, params1).
     bindE (jset rtcp ''cname'' (JString cname)) (\<lambda>rtcp'. jset params1 ''rtcp'' rtcp')))"

definition mid_of_transceiver :: "'pc webrtc \<Rightarrow> nat \<Rightarrow> ('pc, string) op" where
  "mid_of_transceiver w t = bindS (getS (transceiver_mid w t)) (\<lambda>mid.
     liftS (case mid of None \<Rightarrow> Inl BadOptionalAccess | Some m \<Rightarrow> Inr m))"

text \<open>The end of both: the section goes to the remote description, the parameters to the
  server, whose answer is not looked at, and the new description to the peer connection.\<close>

definition send_and_answer ::
    "'pc env \<Rightarrow> 64 word \<Rightarrow> string \<Rightarrow> JsonTransportParam \<Rightarrow> string \<Rightarrow> json \<Rightarrow> json \<Rightarrow> json \<Rightarrow> json \<Rightarrow> ('pc, int) pc_op" where
  "send_and_answer env ident kind tp reuseMid offerMedia sp rp codecOptions =
     bindS (on_control (on_remote (\<lambda>st. bindE (Send offerMedia reuseMid sp rp (Some codecOptions) st)
       (\<lambda>(st', sp', _). Inr (sp', st'))))) (\<lambda>sp'.
     bindS (liftS (validateRtpParameters sp')) (\<lambda>sp''.
     bindS (on_control (on_api (produce (libs env) (server env) ident (tp_id tp) kind sp''))) (\<lambda>_.
     bindS (on_control (on_remote (GetSdp (dump_nl (libs env))))) (\<lambda>answer.
     bindS (on_pc (set_remote (rtc env) ''answer'' answer)) (\<lambda>_.
     returnS 0)))))"

definition enable_audio :: "'pc env \<Rightarrow> (nat \<Rightarrow> 64 word) \<Rightarrow> bool \<Rightarrow> ('pc, int) pc_op" where
  "enable_audio env ident enable =
     bindS (getS (\<lambda>(pc, c). ms_api c)) (\<lambda>a. if a = None \<or> \<not> enable then returnS (- 1) else
     bindS (on_pc (create_track (rtc env) ''audio'')) (\<lambda>track. if \<not> track then returnS (- 1) else
     bindS (on_pc (add_transceiver (rtc env) ''audio'' [])) (\<lambda>tr. case tr of None \<Rightarrow> returnS (- 1) | Some t \<Rightarrow>
     bindS (getS (\<lambda>(pc, c). send_transport c)) (\<lambda>param. case param of None \<Rightarrow> returnS (- 1) | Some tp \<Rightarrow>
     bindS (on_pc (create_offer (rtc env))) (\<lambda>offer.
     bindS (liftS (bindE (parse offer) extractDtlsParameters)) (\<lambda>dtls.
     bindS (on_control (need_remote tp)) (\<lambda>_.
     bindS (on_control next_section) (\<lambda>(idx, reuseMid).
     bindS (liftS (local_role (dtls_params tp))) (\<lambda>role.
     bindS (liftS (jset dtls ''role'' (JString role))) (\<lambda>dtls'.
     check_result (on_control (on_api (connect_webrtc_transport (libs env) (server env) (ident 0) (tp_id tp) dtls'))) (
     bindS (on_control (update_remote (UpdateDtlsRole (remote_role role)))) (\<lambda>_.
     bindS (liftS (sending_parameters (profiles env) ''audio'' (extend_caps tp))) (\<lambda>(sp, rp).
     bindS (on_pc (set_local (rtc env) ''offer'' offer)) (\<lambda>_.
     bindS (on_pc (mid_of_transceiver (rtc env) t)) (\<lambda>localId.
     bindS (liftS (jset sp ''mid'' (JString localId))) (\<lambda>sp1.
     bindS (getS (\<lambda>(pc, c). local_description (rtc env) pc)) (\<lambda>localSdp.
     bindS (liftS (bindE (parse localSdp) (media_at idx))) (\<lambda>offerMedia.
     bindS (liftS (set_cname offerMedia sp1)) (\<lambda>sp2.
     bindS (liftS (bindE (getRtpEncodings offerMedia) (jset sp2 ''encodings''))) (\<lambda>sp3.
     send_and_answer env (ident 1) ''audio'' tp reuseMid offerMedia sp3 rp
       (jobj [(''opusStereo'', JBool True), (''opusDtx'', JBool True)])))))))))))))))))))))"

text \<open>Several encodings get the RIDs \<open>r0\<close>, \<open>r1\<close> and so on, counted in eight bits.\<close>

definition number_rids :: "rtp_encoding list \<Rightarrow> rtp_encoding list" where
  "number_rids es = (if length es \<le> 1 then es
     else map (\<lambda>(i, e). e\<lparr>enc_rid := ''r'' @ nat_str (i mod 256)\<rparr>) (enumerate 0 es))"

text \<open>The number of spatial layers that the first encoding asks for, and whether the hack for
  VP9 applies: one encoding with several layers.\<close>

definition spatial_layers :: "rtp_encoding list \<Rightarrow> 32 word res" where
  "spatial_layers es =
     bindE (jidx (parseScalabilityMode (case es of [] \<Rightarrow> [] | e # _ \<Rightarrow>
       (case scalability_mode e of None \<Rightarrow> [] | Some m \<Rightarrow> m))) ''spatialLayers'') get_int32"

definition first_mime_type :: "json \<Rightarrow> string res" where
  "first_mime_type params =
     bindE (jref params ''codecs'') (\<lambda>(codecs, _). bindE (jnth_ref codecs 0) (\<lambda>(c, _).
     bindE (jref c ''mimeType'') (\<lambda>(v, _). bindE (get_string v) (\<lambda>mime. Inr (lower mime)))))"

definition vp9_svc :: "rtp_encoding list \<Rightarrow> json \<Rightarrow> bool res" where
  "vp9_svc es params =
     bindE (spatial_layers es) (\<lambda>n. bindE (first_mime_type params) (\<lambda>mime.
     Inr (length es = 1 \<and> sint n > 1 \<and> mime = ''video/vp9'')))"

text \<open>The media object of the local description; for VP9 SVC that of the offer, with the legacy
  simulcast added and written once.\<close>

definition video_media :: "'pc env \<Rightarrow> rtp_encoding list \<Rightarrow> bool \<Rightarrow> nat \<Rightarrow> string \<Rightarrow> string \<Rightarrow> json res" where
  "video_media env es legacy idx offer localSdp =
     bindE (parse localSdp) (\<lambda>localSdpObject.
     if \<not> legacy then media_at idx localSdpObject
     else bindE (parse offer) (\<lambda>sdp. bindE (jref sdp ''media'') (\<lambda>(ms, sdp1). bindE (jnth_ref ms idx) (\<lambda>(m, ms1).
          bindE (spatial_layers es) (\<lambda>n. bindE (addLegacySimulcast m (ucast n)) (\<lambda>m'.
          bindE (jnth_set ms1 idx m') (\<lambda>ms2. bindE (jset sdp1 ''media'' ms2) (\<lambda>sdp2.
          bindE (write_sdp (dump_nl (libs env)) sdp2) (\<lambda>(_, sdp3). media_at idx sdp3)))))))))"

text \<open>One encoding is read from the media object and completed, several are used as they are.\<close>

definition video_encodings :: "rtp_encoding list \<Rightarrow> bool \<Rightarrow> json \<Rightarrow> json res" where
  "video_encodings es legacy offerMedia = (case es of
     [e] \<Rightarrow>
       bindE (getRtpEncodings offerMedia) (\<lambda>new. case jelems new of
         [] \<Rightarrow> Inl (Undefined ''front'')
       | first # rest \<Rightarrow> bindE (fillJsonRtpEncodingParameters first e) (\<lambda>first'.
           Inr (JArray (if legacy then [first'] else first' # rest))))
   | _ \<Rightarrow> bindE (mapE (fillJsonRtpEncodingParameters JNull) es) (\<lambda>js. Inr (JArray js)))"

definition enable_video :: "'pc env \<Rightarrow> (nat \<Rightarrow> 64 word) \<Rightarrow> bool \<Rightarrow> ('pc, int) pc_op" where
  "enable_video env ident enable =
     bindS (getS (\<lambda>(pc, c). ms_api c)) (\<lambda>a. if a = None \<or> \<not> enable then returnS (- 1) else
     bindS (on_pc (create_track (rtc env) ''video'')) (\<lambda>track. if \<not> track then returnS (- 1) else
     bindS (on_control (updS (\<lambda>c. c\<lparr>encodings := number_rids (encodings c)\<rparr>))) (\<lambda>_.
     bindS (getS (\<lambda>(pc, c). encodings c)) (\<lambda>es.
     bindS (on_pc (add_transceiver (rtc env) ''video'' es)) (\<lambda>tr. case tr of None \<Rightarrow> returnS (- 1) | Some t \<Rightarrow>
     bindS (getS (\<lambda>(pc, c). send_transport c)) (\<lambda>param. case param of None \<Rightarrow> returnS (- 1) | Some tp \<Rightarrow>
     bindS (on_pc (create_offer (rtc env))) (\<lambda>offer.
     bindS (liftS (parse offer)) (\<lambda>localsdpobj.
     bindS (on_control (need_remote tp)) (\<lambda>_.
     bindS (on_control next_section) (\<lambda>(idx, reuseMid).
     bindS (liftS (local_role (dtls_params tp))) (\<lambda>role.
     bindS (liftS (extractDtlsParameters localsdpobj)) (\<lambda>_.
     bindS (on_control (update_remote (UpdateDtlsRole (remote_role role)))) (\<lambda>_.
     bindS (liftS (sending_parameters (profiles env) ''video'' (extend_caps tp))) (\<lambda>(sp, rp).
     bindS (on_pc (set_local (rtc env) ''offer'' offer)) (\<lambda>_.
     bindS (on_pc (mid_of_transceiver (rtc env) t)) (\<lambda>localId.
     bindS (liftS (jset sp ''mid'' (JString localId))) (\<lambda>sp1.
     bindS (getS (\<lambda>(pc, c). local_description (rtc env) pc)) (\<lambda>localSdp.
     bindS (liftS (vp9_svc es sp1)) (\<lambda>legacy.
     bindS (liftS (video_media env es legacy idx offer localSdp)) (\<lambda>offerMedia.
     bindS (liftS (set_cname offerMedia sp1)) (\<lambda>sp2.
     bindS (liftS (bindE (video_encodings es legacy offerMedia) (jset sp2 ''encodings''))) (\<lambda>sp3.
     bindS (on_control (observe ''onCreateLocalVideoTrack'' localId)) (\<lambda>_.
     send_and_answer env (ident 2) ''video'' tp reuseMid offerMedia sp3 rp
       (jobj [(''videoGoogleStartBitrate'', JInt 1000)]))))))))))))))))))))))))"

text \<open>The results of both are not looked at.\<close>

definition publish ::
    "'pc env \<Rightarrow> (nat \<Rightarrow> 64 word) \<Rightarrow> PublishStreamType \<Rightarrow> bool \<Rightarrow> ('pc, int) control_op" where
  "publish env ident stream_type benable_audio = (\<lambda>c.
     case bindS (enable_audio env ident benable_audio) (\<lambda>_. enable_video env ident True)
            (create_pc (rtc env), c) of
       (Inl e, (_, c')) \<Rightarrow> (Inl e, c')
     | (Inr _, (pc, c')) \<Rightarrow> (Inr 0, c'\<lparr>publish_pcs := aset stream_type pc (publish_pcs c')\<rparr>))"

text \<open>The peer connection is closed and dropped.\<close>

definition unpublish :: "PublishStreamType \<Rightarrow> ('pc, int) control_op" where
  "unpublish stream_type = bindS (getS publish_pcs) (\<lambda>pcs. case map_of pcs stream_type of
     None \<Rightarrow> returnS (- 1)
   | Some _ \<Rightarrow> bindS (updS (\<lambda>c. c\<lparr>publish_pcs := adel stream_type pcs\<rparr>)) (\<lambda>_. returnS 0))"

section \<open>Subscribing\<close>

definition unsubscribe :: "string \<Rightarrow> ('pc, int) control_op" where
  "unsubscribe uid = bindS (updS (\<lambda>c. c\<lparr>sub_pcs := adel uid (sub_pcs c)\<rparr>)) (\<lambda>_. returnS 0)"

text \<open>The first section with the MID, which must be there.\<close>

definition section_of_mid :: "string \<Rightarrow> json \<Rightarrow> (nat \<times> json) res" where
  "section_of_mid mid sdp =
     bindE (jref sdp ''media'') (\<lambda>(ms, _).
     bindE (find_index (\<lambda>m. bindE (jidx m ''mid'') (\<lambda>v. bindE (get_string v) (\<lambda>s. Inr (s = mid)))) (jelems ms)) (\<lambda>found.
     case found of None \<Rightarrow> Inl (Undefined ''*mit'') | Some i \<Rightarrow> Inr (i, jelems ms ! i)))"

text \<open>The answer with the codec parameters of the consumer applied to its section, and the DTLS
  parameters of the answer.\<close>

definition consumer_answer :: "json_lib \<Rightarrow> string \<Rightarrow> json \<Rightarrow> string \<Rightarrow> (json \<times> string) res" where
  "consumer_answer lib mid rtp_param answer =
     bindE (parse answer) (\<lambda>sdp. bindE (extractDtlsParameters sdp) (\<lambda>dtls.
     bindE (section_of_mid mid sdp) (\<lambda>(i, m). bindE (applyCodecParameters rtp_param m) (\<lambda>m'.
     bindE (set_media i m' sdp) (\<lambda>sdp'. bindE (write_sdp (dump_nl lib) sdp') (\<lambda>(text', _).
     Inr (dtls, text')))))))"

definition consumer_parameters :: "json_lib \<Rightarrow> fields \<Rightarrow> (string \<times> string \<times> json \<times> string) res" where
  "consumer_parameters lib request =
     bindE (deref ''data'' request) (\<lambda>d. bindE (deref ''rtpParameters'' d) (\<lambda>ps.
     bindE (model_json lib ps) (\<lambda>rtp_param. bindE (jref rtp_param ''rtcp'') (\<lambda>(rtcp, _).
     bindE (jref rtcp ''cname'') (\<lambda>(v, _). bindE (get_string v) (\<lambda>cname.
     Inr (text_or ''0'' ''mid'' ps, text_or [] ''kind'' d, rtp_param, cname)))))))"

text \<open>The consumers of a peer, one after the other; the remote description is local to the
  subscription. The result is the code to return early with.\<close>

fun consume_all ::
    "'pc env \<Rightarrow> 64 word \<Rightarrow> JsonTransportParam \<Rightarrow> bool \<Rightarrow> fields list \<Rightarrow> remote_sdp \<Rightarrow> ('pc, int) pc_op" where
  "consume_all env ident tp bconnect [] st = returnS 0"
| "consume_all env ident tp bconnect (request # requests) st =
     bindS (liftS (consumer_parameters (libs env) request)) (\<lambda>(mid, kind, rtp_param, cname).
     bindS (liftS (bindE (Receive mid kind rtp_param cname (tp_id tp) st) (GetSdp (dump_nl (libs env))))) (\<lambda>(offer, st').
     bindS (on_pc (set_remote (rtc env) ''offer'' offer)) (\<lambda>_.
     bindS (on_pc (create_answer (rtc env))) (\<lambda>answer.
     bindS (liftS (consumer_answer (libs env) mid rtp_param answer)) (\<lambda>(dtls, answer').
     check_result (if bconnect then returnS 0
         else on_control (on_api (connect_webrtc_transport (libs env) (server env) ident (tp_id tp) dtls))) (
     bindS (on_pc (set_local (rtc env) ''answer'' answer')) (\<lambda>_.
     consume_all env ident tp True requests st')))))))"

text \<open>An empty name stands for the first peer. \<open>consumer_of\<close>: the consumers of the peer, or none
  when there are none.\<close>

definition subscribed_uid :: "string \<Rightarrow> api \<Rightarrow> string option" where
  "subscribed_uid uid a = (if uid \<noteq> [] then Some uid
     else case peer_list a of [] \<Rightarrow> None | (k, _) # _ \<Rightarrow> Some k)"

definition consumers_of :: "string \<Rightarrow> 'pc control \<Rightarrow> fields list" where
  "consumers_of uid c = (case map_of (consumer_list c) uid of None \<Rightarrow> [] | Some cs \<Rightarrow> map snd cs)"

definition video_track :: "'pc webrtc \<Rightarrow> 'pc \<Rightarrow> string res" where
  "video_track w pc = (case find (\<lambda>t. fst t = ''video'') (transceivers w pc) of
     None \<Rightarrow> Inl (LazyException ''video transceiver not found'')
   | Some (_, None) \<Rightarrow> Inl BadOptionalAccess
   | Some (_, Some mid) \<Rightarrow> Inr mid)"

definition video_present :: "'pc webrtc \<Rightarrow> 'pc \<Rightarrow> bool" where
  "video_present w pc = list_ex (\<lambda>t. fst t = ''video'') (transceivers w pc)"

definition announce :: "'pc env \<Rightarrow> ('pc, unit) pc_op" where
  "announce env = (\<lambda>(pc, c).
     if \<not> video_present (rtc env) pc then (Inl (LazyException ''video transceiver not found''), (pc, c))
     else if observed c = None then (Inr (), (pc, c))
     else bindS (liftS (video_track (rtc env) pc)) (\<lambda>mid.
            on_control (observe ''onCreateRemoteVideoTrack'' mid)) (pc, c))"

definition subscribe_peer :: "'pc env \<Rightarrow> 64 word \<Rightarrow> string \<Rightarrow> JsonTransportParam \<Rightarrow> ('pc, int) control_op" where
  "subscribe_peer env ident uid tp = (\<lambda>c.
     case bindS (liftS (bindE (RemoteSdp (ice_params tp) (ice_candidates tp) (dtls_params tp) (sctp_params tp))
              (UpdateDtlsRole ''server''))) (\<lambda>st.
            check_result (consume_all env ident tp False (consumers_of uid c) st)
              (bindS (announce env) (\<lambda>_. returnS 0))) (create_pc (rtc env), c) of
       (Inl e, (_, c')) \<Rightarrow> (Inl e, c')
     | (Inr ret, (pc, c')) \<Rightarrow>
         (Inr ret, if ret = 0 then c'\<lparr>sub_pcs := aset uid pc (sub_pcs c')\<rparr> else c'))"

definition subscribe :: "'pc env \<Rightarrow> 64 word \<Rightarrow> string \<Rightarrow> ('pc, int) control_op" where
  "subscribe env ident uid = (\<lambda>c. case ms_api c of
     None \<Rightarrow> (Inr (- 1), c)
   | Some a \<Rightarrow> (case subscribed_uid uid a of
       None \<Rightarrow> (Inr (- 1), c)
     | Some uid' \<Rightarrow>
         if consumers_of uid' c = [] then (Inr (- 1), c)
         else case get_recv_transport_param a of
           None \<Rightarrow> (Inr (- 1), c)
         | Some tp \<Rightarrow> subscribe_peer env ident uid' tp c))"

section \<open>Requests of the server\<close>

definition from_json_string :: "json_lib \<Rightarrow> model \<Rightarrow> string \<Rightarrow> fields res" where
  "from_json_string lib m t = (case fromJsonString (parse_rj lib) m (blank m) t of
     (fs, None) \<Rightarrow> Inr fs
   | (_, Some e) \<Rightarrow> Inl (LazyException ''parser json:%s failed, reason:%s''))"

definition respond :: "json_lib \<Rightarrow> fields \<Rightarrow> ('pc, unit) control_op" where
  "respond lib request =
     bindS (on_api (send_base_response lib (case member ''id'' request of Some (VInt64 i) \<Rightarrow> i | _ \<Rightarrow> - 1) True))
       (\<lambda>_. returnS ())"

definition on_new_consumer :: "'pc env \<Rightarrow> string \<Rightarrow> ('pc, unit) control_op" where
  "on_new_consumer env req =
     bindS (getS ms_api) (\<lambda>a. if a = None then returnS () else
     bindS (liftS (from_json_string (libs env) NewConsumerRequest req)) (\<lambda>request.
     bindS (liftS (deref ''data'' request)) (\<lambda>d.
     bindS (updS (\<lambda>c. let peer = text_or [] ''peerId'' d;
                        cs = (case map_of (consumer_list c) peer of None \<Rightarrow> [] | Some cs \<Rightarrow> cs)
                    in c\<lparr>consumer_list := aset peer (aset (text_or [] ''kind'' d) request cs) (consumer_list c)\<rparr>)) (\<lambda>_.
     respond (libs env) request))))"

definition stream_id :: "fields \<Rightarrow> 32 word res" where
  "stream_id d = bindE (deref ''sctpStreamParameters'' d) (\<lambda>ps.
     case member ''streamId'' ps of Some (VInt32 i) \<Rightarrow> Inr i | _ \<Rightarrow> Inl BadOptionalAccess)"

text \<open>The stream parameters are checked and dropped; a data channel is ordered by default.\<close>

definition on_new_data_consumer :: "'pc env \<Rightarrow> string \<Rightarrow> ('pc, unit) control_op" where
  "on_new_data_consumer env req =
     bindS (liftS (from_json_string (libs env) NewDataConsumerRequest req)) (\<lambda>request.
     bindS (liftS (deref ''data'' request)) (\<lambda>d.
     bindS (updS (\<lambda>c. c\<lparr>data_consumer_list := aset (text_or [] ''peerId'' d) request (data_consumer_list c)\<rparr>)) (\<lambda>_.
     bindS (liftS (if member ''protocol'' d = None then Inl BadOptionalAccess else Inr ())) (\<lambda>_.
     bindS (liftS (stream_id d)) (\<lambda>i.
     bindS (liftS (validateSctpStreamParameters
       (jobj [(''streamId'', JInt (scast i)), (''ordered'', JBool True)]))) (\<lambda>_.
     respond (libs env) request))))))"

text \<open>A request of the server goes to the handler that has been registered for its method.\<close>

definition recv_request :: "'pc env \<Rightarrow> string \<Rightarrow> string \<Rightarrow> ('pc, int) control_op" where
  "recv_request env meth message =
     bindS (getS ms_api) (\<lambda>a. case a of
       None \<Rightarrow> returnS (- 1)
     | Some st \<Rightarrow> (case map_of (method_handles st) meth of
         None \<Rightarrow> returnS (- 1)
       | Some h \<Rightarrow>
           bindS (if h = h_new_consumer then on_new_consumer env message
                  else if h = h_new_data_consumer then on_new_data_consumer env message
                  else returnS ()) (\<lambda>_.
           returnS 0)))"

end
