(* ===== verification/ControlFacts.thy ===== *)
theory ControlFacts
  imports MediaControl RemoteSteps
begin

text \<open>
  Facts on the client: which requests its operations send, and in which order.
\<close>

section \<open>Requests\<close>

definition sent :: "'pc control \<Rightarrow> string list" where
  "sent c = (case ms_api c of None \<Rightarrow> [] | Some a \<Rightarrow> requested a)"

definition connects :: "'pc env \<Rightarrow> 64 word \<Rightarrow> string \<Rightarrow> bool" where
  "connects env ident t \<longleftrightarrow> (\<exists>tid ice dtls. t = toJsonStr (print_rj (libs env)) (connect_request ident tid ice dtls))"

definition produces :: "'pc env \<Rightarrow> 64 word \<Rightarrow> string \<Rightarrow> string \<Rightarrow> bool" where
  "produces env ident kind t \<longleftrightarrow>
     (\<exists>tid params. t = toJsonStr (print_rj (libs env)) (produce_request ident tid kind params))"

text \<open>Nothing, or one request of this sort, after those sent before.\<close>

definition one_more :: "(string \<Rightarrow> bool) \<Rightarrow> string list \<Rightarrow> string list \<Rightarrow> bool" where
  "one_more P before after \<longleftrightarrow> after = before \<or> (\<exists>t. P t \<and> after = before @ [t])"

lemma one_more_refl [simp]: "one_more P b b"
  by (simp add: one_more_def)

lemma connect_sends:
  "connect_webrtc_transport lib ask ident i dtls a = (r, a') \<Longrightarrow>
     one_more (\<lambda>t. \<exists>tid ice d. t = toJsonStr (print_rj lib) (connect_request ident tid ice d)) (requested a) (requested a')"
  by (fastforce simp: connect_webrtc_transport_def exchange_def bindS_def one_more_def split: option.splits prod.splits)

lemma produce_sends:
  "produce lib ask ident i kind ps a = (r, a') \<Longrightarrow>
     one_more (\<lambda>t. \<exists>tid params. t = toJsonStr (print_rj lib) (produce_request ident tid kind params))
       (requested a) (requested a')"
  by (fastforce simp: produce_def exchange_def on_produce_response_def bindS_def one_more_def
      split: option.splits prod.splits)

text \<open>The operations of the client that leave the requests and the description alone.\<close>

lemma triple_on_pc:
  "(\<And>pc c. P (pc, c) \<Longrightarrow> \<forall>x pc'. Q x (pc', c) \<and> E (pc', c)) \<Longrightarrow> triple P (on_pc m) Q E"
  by (auto simp: triple_def on_pc_def split: prod.splits sum.splits)

lemma triple_on_control:
  "(\<And>pc. triple (\<lambda>c. P (pc, c)) m (\<lambda>x c. Q x (pc, c)) (\<lambda>c. E (pc, c))) \<Longrightarrow> triple P (on_control m) Q E"
  by (fastforce simp: triple_def on_control_def split: prod.splits sum.splits)

lemma triple_connect:
  assumes "\<And>c. P c \<Longrightarrow> sent c = b"
    and "\<And>c a. P c \<Longrightarrow> one_more (connects env ident) b (requested a) \<Longrightarrow>
       (\<forall>x. Q x (c\<lparr>ms_api := Some a\<rparr>)) \<and> E (c\<lparr>ms_api := Some a\<rparr>)"
    and "\<And>c. P c \<Longrightarrow> E c"
  shows "triple P (on_api (connect_webrtc_transport (libs env) (server env) ident i dtls)) Q E"
proof (rule tripleI)
  fix c assume p: "P c"
  show "case on_api (connect_webrtc_transport (libs env) (server env) ident i dtls) c of
      (Inl e, s') \<Rightarrow> E s' | (Inr x, s') \<Rightarrow> Q x s'"
  proof (cases "ms_api c")
    case None
    then show ?thesis using assms(3) [OF p] by (simp add: on_api_def)
  next
    case (Some a)
    obtain r a' where r: "connect_webrtc_transport (libs env) (server env) ident i dtls a = (r, a')" by (cases rule: prod.exhaust)
    have "requested a = b" using assms(1) [OF p] Some by (simp add: sent_def)
    then have "one_more (connects env ident) b (requested a')"
      using connect_sends [OF r] by (simp add: connects_def [abs_def])
    then show ?thesis using assms(2) [OF p] Some r by (cases r) (simp_all add: on_api_def)
  qed
qed

lemma triple_if:
  "(t \<Longrightarrow> triple P m Q E) \<Longrightarrow> (\<not> t \<Longrightarrow> triple P n Q E) \<Longrightarrow> triple P (if t then m else n) Q E"
  by simp

lemma triple_option:
  "(x = None \<Longrightarrow> triple P m Q E) \<Longrightarrow> (\<And>y. x = Some y \<Longrightarrow> triple P (f y) Q E) \<Longrightarrow>
     triple P (case x of None \<Rightarrow> m | Some y \<Rightarrow> f y) Q E"
  by (cases x) simp_all

lemma triple_pair: "(\<And>a b. x = (a, b) \<Longrightarrow> triple P (f a b) Q E) \<Longrightarrow> triple P (case x of (a, b) \<Rightarrow> f a b) Q E"
  by (cases x) simp

lemma triple_bind_read: "(\<And>s. triple P (f (g s)) Q E) \<Longrightarrow> triple P (bindS (getS g) f) Q E"
  by (auto simp: triple_def)

lemma triple_bind_pc:
  "(\<And>pc c pc'. P (pc, c) \<Longrightarrow> P (pc', c) \<and> E (pc', c)) \<Longrightarrow> (\<And>x. triple P (f x) Q E) \<Longrightarrow>
     triple P (bindS (on_pc m) f) Q E"
  by (rule triple_bind [where R = "\<lambda>_. P"], rule triple_on_pc) blast+

lemma triple_check:
  "triple P m R E \<Longrightarrow> (\<And>x. x \<noteq> 0 \<Longrightarrow> triple (R x) (returnS x) Q E) \<Longrightarrow> triple (R 0) k Q E \<Longrightarrow>
     triple P (check_result m k) Q E"
  unfolding check_result_def by (rule triple_bind) (auto intro: triple_if)

section \<open>A description that is ahead of the peer connection\<close>

text \<open>Media lines of a description, and what a section past them gives: a null, from which no
  encodings can be read, and to which no section answers.\<close>

definition m_lines :: "string \<Rightarrow> nat" where
  "m_lines sdp = length (filter is_media_line (getlines (CHR 0x0A) sdp))"

lemma media_past_end:
  assumes "m_lines sdp \<le> idx"
  shows "bindE (parse sdp) (media_at idx) = Inr JNull"
proof -
  obtain s ms where s: "parse sdp = Inr s" "jfind s ''media'' = Some (JArray ms)" "length ms = m_lines sdp"
    using parse_shape [of sdp] by (auto simp: m_lines_def)
  then show ?thesis using assms by (simp add: media_at_def jref_def jnth_ref_def nth_append)
qed

lemma no_encodings: "bindE (getRtpEncodings JNull) f = Inl (JsonTypeError 305)"
  by (simp add: getRtpEncodings_def jidx_def)

lemma Send_null: "\<exists>e. Send JNull reuseMid sp rp opts st = Inl e"
  by (cases "base_object (iceParameters st) (iceCandidates st)") (simp_all add: Send_def answer_section_def jidx_def)

text \<open>The state before a publication and while its requests are sent.\<close>

definition starting :: "remote_sdp \<Rightarrow> string list \<Rightarrow> 'pc \<times> 'pc control \<Rightarrow> bool" where
  "starting st b = (\<lambda>(pc, c). remote c = Some st \<and> sent c = b \<and> length (encodings c) \<noteq> 1)"

definition connecting :: "'pc env \<Rightarrow> 64 word \<Rightarrow> remote_sdp \<Rightarrow> string list \<Rightarrow> 'pc \<times> 'pc control \<Rightarrow> bool" where
  "connecting env ident st b =
     (\<lambda>(pc, c). remote c = Some st \<and> one_more (connects env ident) b (sent c) \<and> length (encodings c) \<noteq> 1)"

definition at_most_connect :: "'pc env \<Rightarrow> 64 word \<Rightarrow> string list \<Rightarrow> 'pc \<times> 'pc control \<Rightarrow> bool" where
  "at_most_connect env ident b = (\<lambda>(pc, c). one_more (connects env ident) b (sent c))"

lemma triple_update_remote:
  assumes "\<And>pc c c'. P (pc, c) \<Longrightarrow> sent c' = sent c \<Longrightarrow> Q (pc, c')"
  shows "triple P (on_control (update_remote f)) (\<lambda>_. Q) Q"
proof (rule triple_on_control, rule tripleI)
  fix pc c assume "P (pc, c)"
  then have "Q (pc, c')" if "sent c' = sent c" for c' using assms that by blast
  then show "case update_remote f c of (Inl e, c') \<Rightarrow> Q (pc, c') | (Inr x, c') \<Rightarrow> Q (pc, c')"
    by (auto simp: update_remote_def on_remote_def sent_def split: option.splits sum.splits)
qed

lemma triple_need_remote:
  assumes "\<And>pc c. P (pc, c) \<Longrightarrow> remote c \<noteq> None" "\<And>x. triple P (f x) Q E"
  shows "triple P (bindS (on_control (need_remote tp)) f) Q E"
proof (rule triple_bind [where R = "\<lambda>_. P"])
  show "triple P (on_control (need_remote tp)) (\<lambda>_. P) E"
    using assms(1) by (auto simp: triple_def on_control_def need_remote_def)
qed (rule assms(2))

lemma remote_same: "remote c = Some st \<Longrightarrow> c\<lparr>remote := Some st\<rparr> = c"
  by (cases c) simp

lemma triple_next_section:
  assumes "\<And>pc c. P (pc, c) \<Longrightarrow> remote c = Some st" "GetNextMediaSectionIdx st = Inr x" "triple P (f x) Q E"
  shows "triple P (bindS (on_control next_section) f) Q E"
proof (rule triple_bind [where R = "\<lambda>y s. P s \<and> y = x"])
  show "triple P (on_control next_section) (\<lambda>y s. P s \<and> y = x) E"
    using assms(1,2) by (fastforce simp: triple_def on_control_def next_section_def on_remote_def remote_same)
  show "\<And>y. triple (\<lambda>s. P s \<and> y = x) (f y) Q E" using assms(3) by (auto simp: triple_def)
qed

lemma triple_audio_ahead:
  fixes env :: "'pc env"
  assumes next_idx: "GetNextMediaSectionIdx st = Inr (idx, mid)"
    and law: "\<And>pc. m_lines (local_description (rtc env) pc) \<le> idx"
  shows "triple (starting st b) (enable_audio env ident enable)
     (\<lambda>_. connecting env (ident 0) st b) (at_most_connect env (ident 0) b)"
proof -
  let ?E = "at_most_connect env (ident 0) b" and ?Q = "\<lambda>_ :: int. connecting env (ident 0) st b"
  have start: "connecting env (ident 0) st b s \<and> ?E s" if "starting st b s" for s
    using that by (auto simp: starting_def connecting_def at_most_connect_def)
  have ret: "triple (starting st b) (returnS x) ?Q ?E" for x
    using start by (blast intro: triple_return)
  have tail: "triple ?E (bindS (liftS (sending_parameters (profiles env) ''audio'' (extend_caps tp))) (\<lambda>(sp, rp).
     bindS (on_pc (set_local (rtc env) ''offer'' offer)) (\<lambda>_.
     bindS (on_pc (mid_of_transceiver (rtc env) t)) (\<lambda>localId.
     bindS (liftS (jset sp ''mid'' (JString localId))) (\<lambda>sp1.
     bindS (getS (\<lambda>(pc, c). local_description (rtc env) pc)) (\<lambda>localSdp.
     bindS (liftS (bindE (parse localSdp) (media_at idx))) (\<lambda>offerMedia.
     bindS (liftS (set_cname offerMedia sp1)) (\<lambda>sp2.
     bindS (liftS (bindE (getRtpEncodings offerMedia) (jset sp2 ''encodings''))) (\<lambda>sp3.
     k offerMedia sp3 rp))))))))) ?Q ?E" for tp offer t k
    by (rule triple_bind_lift, assumption, rule triple_pair, rule triple_bind_pc,
        simp add: at_most_connect_def, rule triple_bind_pc, simp add: at_most_connect_def,
        rule triple_bind_lift, assumption, rule triple_bind_read, rule triple_bind_lift, assumption,
        rule triple_bind_lift, assumption, rule triple_bind_lift, assumption)
      (simp add: media_past_end law no_encodings split: prod.splits)
  have conn: "triple (starting st b)
      (on_control (on_api (connect_webrtc_transport (libs env) (server env) (ident 0) i dtls)))
      (\<lambda>_. connecting env (ident 0) st b) ?E" for i dtls
    by (rule triple_on_control, rule triple_connect [where b = b])
      (auto simp: starting_def connecting_def at_most_connect_def sent_def)
  have role: "triple (connecting env (ident 0) st b) (on_control (update_remote f)) (\<lambda>_. ?E) ?E" for f
    by (rule triple_update_remote) (auto simp: connecting_def at_most_connect_def)
  show ?thesis
    unfolding enable_audio_def
    apply (rule triple_bind_read, rule triple_if, rule ret)
    apply (rule triple_bind_pc, use start in \<open>force simp: starting_def\<close>, rule triple_if, rule ret)
    apply (rule triple_bind_pc, use start in \<open>force simp: starting_def\<close>, rule triple_option, rule ret)
    apply (rule triple_bind_read, rule triple_option, rule ret)
    apply (rule triple_bind_pc, use start in \<open>force simp: starting_def\<close>)
    apply (rule triple_bind_lift, use start in blast)
    apply (rule triple_need_remote, simp add: starting_def)
    apply (rule triple_next_section [OF _ next_idx], simp add: starting_def, simp only: prod.case)
    apply (rule triple_bind_lift, use start in blast)
    apply (rule triple_bind_lift, use start in blast)
    apply (rule triple_check [OF conn], rule triple_return, assumption)
    apply (rule triple_bind [OF role], rule tail)
    done
qed

lemma triple_bind_known:
  "(\<And>x. \<exists>s. P s \<and> x = g s \<Longrightarrow> triple P (f x) Q E) \<Longrightarrow> triple P (bindS (getS g) f) Q E"
proof (rule tripleI)
  fix s assume a: "\<And>x. \<exists>s. P s \<and> x = g s \<Longrightarrow> triple P (f x) Q E" and s: "P s"
  then have "triple P (f (g s)) Q E" by blast
  then show "case bindS (getS g) f s of (Inl e, s') \<Rightarrow> E s' | (Inr x, s') \<Rightarrow> Q x s'"
    using s by (simp add: triple_def)
qed

lemma triple_bind_control:
  assumes "\<And>pc c c'. P (pc, c) \<Longrightarrow> m c = (Inr (), c') \<Longrightarrow> P (pc, c')" "\<And>c. \<exists>c'. m c = (Inr (), c')" "\<And>x. triple P (f x) Q E"
  shows "triple P (bindS (on_control m) f) Q E"
proof (rule triple_bind [where R = "\<lambda>_. P"])
  show "triple P (on_control m) (\<lambda>_. P) E"
  proof (rule tripleI)
    fix s assume s: "P s"
    obtain pc c where [simp]: "s = (pc, c)" by (cases s)
    obtain c' where "m c = (Inr (), c')" using assms(2) by blast
    then show "case on_control m s of (Inl e, s') \<Rightarrow> E s' | (Inr x, s') \<Rightarrow> P s'"
      using assms(1) s by (simp add: on_control_def)
  qed
qed (rule assms(3))

lemma length_number_rids: "length (number_rids es) = length es"
  by (simp add: number_rids_def)

lemma triple_throws:
  assumes "\<And>st. \<exists>e. f st = Inl e" "\<And>s. P s \<Longrightarrow> E s"
  shows "triple P (bindS (on_control (on_remote f)) k) Q E"
proof (rule tripleI)
  fix s assume s: "P s"
  obtain pc c where [simp]: "s = (pc, c)" by (cases s)
  obtain e where "on_remote f c = (Inl e, c)"
    using assms(1) by (cases "remote c") (auto simp: on_remote_def, metis old.sum.simps(5))
  then show "case bindS (on_control (on_remote f)) k s of (Inl e, s') \<Rightarrow> E s' | (Inr x, s') \<Rightarrow> Q x s'"
    using assms(2) [OF s] by (simp add: bindS_def on_control_def)
qed

lemma several_encodings:
  assumes "length es \<noteq> 1"
  shows "vp9_svc es params = Inr legacy \<Longrightarrow> \<not> legacy"
    and "video_media env es False idx offer sdp = bindE (parse sdp) (media_at idx)"
  using assms by (auto simp: vp9_svc_def video_media_def bindE_Inr_iff)

lemma triple_video_ahead:
  fixes env :: "'pc env"
  assumes next_idx: "GetNextMediaSectionIdx st = Inr (idx, mid)"
    and law: "\<And>pc. m_lines (local_description (rtc env) pc) \<le> idx"
  shows "triple (connecting env i st b) (enable_video env ident enable)
     (\<lambda>_. at_most_connect env i b) (at_most_connect env i b)"
proof -
  let ?E = "at_most_connect env i b" and ?P = "connecting env i st b"
  have start: "?E s" if "?P s" for s
    using that by (auto simp: connecting_def at_most_connect_def)
  have ret: "triple ?P (returnS x) (\<lambda>_. ?E) ?E" for x :: int
    using start by (blast intro: triple_return)
  have send: "triple ?E (send_and_answer env j kind tp reuseMid JNull sp rp opts) (\<lambda>_. ?E) ?E" for j kind tp reuseMid sp rp opts
    unfolding send_and_answer_def proof (rule triple_throws)
    show "\<exists>e. bindE (Send JNull reuseMid sp rp (Some opts) st) (\<lambda>(st', sp', _). Inr (sp', st')) = Inl e" for st
      using Send_null [of reuseMid sp rp "Some opts" st] by auto
  qed
  have tail: "triple ?E (bindS (liftS (sending_parameters (profiles env) ''video'' (extend_caps tp))) (\<lambda>(sp, rp).
     bindS (on_pc (set_local (rtc env) ''offer'' offer)) (\<lambda>_.
     bindS (on_pc (mid_of_transceiver (rtc env) t)) (\<lambda>localId.
     bindS (liftS (jset sp ''mid'' (JString localId))) (\<lambda>sp1.
     bindS (getS (\<lambda>(pc, c). local_description (rtc env) pc)) (\<lambda>localSdp.
     bindS (liftS (vp9_svc es sp1)) (\<lambda>legacy.
     bindS (liftS (video_media env es legacy idx offer localSdp)) (\<lambda>offerMedia.
     bindS (liftS (set_cname offerMedia sp1)) (\<lambda>sp2.
     bindS (liftS (bindE (video_encodings es legacy offerMedia) (jset sp2 ''encodings''))) (\<lambda>sp3.
     bindS (on_control (observe ''onCreateLocalVideoTrack'' localId)) (\<lambda>_.
     send_and_answer env j ''video'' tp mid offerMedia sp3 rp opts))))))))))) (\<lambda>_. ?E) ?E"
    if es: "length es \<noteq> 1" for tp offer t es j opts
    apply (rule triple_bind_lift, assumption, rule triple_pair, rule triple_bind_pc,
        simp add: at_most_connect_def, rule triple_bind_pc, simp add: at_most_connect_def,
        rule triple_bind_lift, assumption, rule triple_bind_read)
    apply (rule triple_bind_lift, assumption, drule several_encodings(1) [OF es])
    apply (rule triple_bind_lift, assumption,
        simp add: several_encodings(2) [OF es] media_past_end law split: prod.splits)
    apply (rule triple_bind_lift, assumption, rule triple_bind_lift, assumption)
    apply (rule triple_bind_control, force simp: observe_def at_most_connect_def sent_def, simp add: observe_def)
    apply (simp add: send)
    done
  have role: "triple ?P (on_control (update_remote f)) (\<lambda>_. ?E) ?E" for f
    by (rule triple_update_remote) (auto simp: connecting_def at_most_connect_def)
  show ?thesis
    unfolding enable_video_def
    apply (rule triple_bind_read, rule triple_if, rule ret)
    apply (rule triple_bind_pc, use start in \<open>force simp: connecting_def\<close>, rule triple_if, rule ret)
    apply (rule triple_bind_control, force simp: connecting_def length_number_rids sent_def, simp)
    apply (rule triple_bind_known)
    apply (rule triple_bind_pc, use start in \<open>force simp: connecting_def\<close>, rule triple_option, rule ret)
    apply (rule triple_bind_read, rule triple_option, rule ret)
    apply (rule triple_bind_pc, use start in \<open>force simp: connecting_def\<close>)
    apply (rule triple_bind_lift, use start in blast)
    apply (rule triple_need_remote, force simp: connecting_def)
    apply (rule triple_next_section [OF _ next_idx], force simp: connecting_def, simp only: prod.case)
    apply (rule triple_bind_lift, use start in blast)
    apply (rule triple_bind_lift, use start in blast)
    apply (rule triple_bind [OF role], rule tail)
    apply (auto simp: connecting_def)
    done
qed

section \<open>The requests of a publication\<close>

text \<open>A call on the client that leaves the requests as they are.\<close>

lemma triple_bind_same:
  assumes "\<And>c r c'. m c = (r, c') \<Longrightarrow> sent c' = sent c" "\<And>pc c. P (pc, c) \<longleftrightarrow> R (sent c)" "\<And>s. P s \<Longrightarrow> E s"
    and "\<And>x. triple P (f x) Q E"
  shows "triple P (bindS (on_control m) f) Q E"
proof (rule triple_bind [where R = "\<lambda>_. P"])
  show "triple P (on_control m) (\<lambda>_. P) E"
    using assms(1-3) by (fastforce simp: triple_def on_control_def split: prod.splits sum.splits)
qed (rule assms(4))

lemma sent_same:
  "need_remote tp c = (r, c') \<Longrightarrow> sent c' = sent c"
  "on_remote f c = (r', c') \<Longrightarrow> sent c' = sent c"
  "observe event tid c = (r, c') \<Longrightarrow> sent c' = sent c"
  "update_remote g c = (r, c') \<Longrightarrow> sent c' = sent c"
  by (auto simp: need_remote_def on_remote_def observe_def update_remote_def sent_def bindS_def
      split: if_splits option.splits sum.splits prod.splits)

lemma next_section_same: "next_section c = (r, c') \<Longrightarrow> sent c' = sent c"
  unfolding next_section_def by (rule sent_same(2))

lemma triple_produce:
  assumes "\<And>pc c. P (pc, c) \<longleftrightarrow> sent c = b"
    and "\<And>pc c. one_more (produces env ident kind) b (sent c) \<Longrightarrow> (\<forall>x. Q x (pc, c)) \<and> E (pc, c)"
  shows "triple P (on_control (on_api (produce (libs env) (server env) ident i kind ps))) Q E"
proof (rule tripleI)
  fix s assume p: "P s"
  obtain pc c where [simp]: "s = (pc, c)" by (cases s)
  show "case on_control (on_api (produce (libs env) (server env) ident i kind ps)) s of
      (Inl e, s') \<Rightarrow> E s' | (Inr x, s') \<Rightarrow> Q x s'"
  proof (cases "ms_api c")
    case None
    then show ?thesis using assms p by (simp add: on_control_def on_api_def)
  next
    case (Some a)
    obtain r a' where r: "produce (libs env) (server env) ident i kind ps a = (r, a')" by (cases rule: prod.exhaust)
    have "requested a = b" using assms(1) p Some by (simp add: sent_def)
    then have "one_more (produces env ident kind) b (sent (c\<lparr>ms_api := Some a'\<rparr>))"
      using produce_sends [OF r] by (simp add: produces_def [abs_def] sent_def)
    then show ?thesis using assms(2) Some r by (cases r) (simp_all add: on_control_def on_api_def)
  qed
qed

lemma triple_send_and_answer:
  fixes env :: "'pc env"
  shows "triple (\<lambda>(pc, c). sent c = b) (send_and_answer env ident kind tp reuseMid om sp rp opts)
     (\<lambda>_ (pc, c). one_more (produces env ident kind) b (sent c))
     (\<lambda>(pc, c). one_more (produces env ident kind) b (sent c))"
  (is "triple ?P _ ?Q ?E")
proof -
  have E: "?P s \<Longrightarrow> ?E s" for s by auto
  have tail: "triple ?E (bindS (on_control (on_remote (GetSdp (dump_nl (libs env))))) (\<lambda>answer.
     bindS (on_pc (set_remote (rtc env) ''answer'' answer)) (\<lambda>_. returnS 0))) ?Q ?E"
    by (rule triple_bind_same [where R = "\<lambda>l. one_more (produces env ident kind) b l"], erule sent_same(2), simp, assumption,
        rule triple_bind_pc, simp, rule triple_return) auto
  show ?thesis
    unfolding send_and_answer_def
    apply (rule triple_bind_same [where R = "\<lambda>l. l = b"], erule sent_same(2), simp, erule E)
    apply (rule triple_bind_lift, erule E)
    apply (rule triple_bind [where R = "\<lambda>_. ?E"], rule triple_produce [where b = b], simp, simp)
    apply (rule tail)
    done
qed

lemma triple_video_requests:
  fixes env :: "'pc env"
  shows "triple (\<lambda>(pc, c). sent c = b) (enable_video env ident enable)
     (\<lambda>_ (pc, c). one_more (produces env (ident 2) ''video'') b (sent c))
     (\<lambda>(pc, c). one_more (produces env (ident 2) ''video'') b (sent c))"
  (is "triple ?P _ ?Q ?E")
proof -
  have E: "?P s \<Longrightarrow> ?E s" for s by auto
  have ret: "triple ?P (returnS x) ?Q ?E" for x by (rule triple_return) auto
  note same = triple_bind_same [where R = "\<lambda>l. l = b"]
  show ?thesis
    unfolding enable_video_def
    apply (rule triple_bind_read, rule triple_if, rule ret)
    apply (rule triple_bind_pc, force, rule triple_if, rule ret)
    apply (rule same, force simp: sent_def, simp, erule E)
    apply (rule triple_bind_read)
    apply (rule triple_bind_pc, force, rule triple_option, rule ret)
    apply (rule triple_bind_read, rule triple_option, rule ret)
    apply (rule triple_bind_pc, force, rule triple_bind_lift, erule E)
    apply (rule same, erule sent_same, simp, erule E)
    apply (rule same, erule next_section_same, simp, erule E)
    apply (rule triple_pair, rule triple_bind_lift, erule E, rule triple_bind_lift, erule E)
    apply (rule same, erule sent_same, simp, erule E)
    apply (rule triple_bind_lift, erule E, rule triple_pair, rule triple_bind_pc, force, rule triple_bind_pc, force)
    apply (rule triple_bind_lift, erule E, rule triple_bind_read, rule triple_bind_lift, erule E)
    apply (rule triple_bind_lift, erule E, rule triple_bind_lift, erule E, rule triple_bind_lift, erule E)
    apply (rule same, erule sent_same, simp, erule E)
    apply (rule triple_send_and_answer)
    done
qed

text \<open>What audio sends: the connection of the transport, and after it the producer.\<close>

definition audio_requests :: "'pc env \<Rightarrow> (nat \<Rightarrow> 64 word) \<Rightarrow> string list \<Rightarrow> string list \<Rightarrow> bool" where
  "audio_requests env ident before after \<longleftrightarrow> after = before
     \<or> (\<exists>t. connects env (ident 0) t \<and> one_more (produces env (ident 1) ''audio'') (before @ [t]) after)"

lemma connect_result:
  assumes "connect_webrtc_transport lib ask ident i dtls a = (r, a')"
  shows "(r = Inr (- 1) \<and> a' = a)
    \<or> (r = Inr 0 \<and> (\<exists>tid ice d. requested a' = requested a @ [toJsonStr (print_rj lib) (connect_request ident tid ice d)]))"
  using assms
  by (fastforce simp: connect_webrtc_transport_def exchange_def bindS_def split: option.splits prod.splits)

lemma triple_connected:
  "triple (\<lambda>(pc, c). sent c = b)
     (on_control (on_api (connect_webrtc_transport (libs env) (server env) ident i dtls)))
     (\<lambda>x (pc, c). if x = 0 then \<exists>t. connects env ident t \<and> sent c = b @ [t] else sent c = b)
     (\<lambda>(pc, c). sent c = b)"
  by (auto simp: triple_def on_control_def on_api_def sent_def connects_def split: option.splits prod.splits sum.splits
      dest!: connect_result)

lemma triple_audio_requests:
  fixes env :: "'pc env"
  shows "triple (\<lambda>(pc, c). sent c = b) (enable_audio env ident enable)
     (\<lambda>_ (pc, c). audio_requests env ident b (sent c)) (\<lambda>(pc, c). audio_requests env ident b (sent c))"
  (is "triple ?P _ ?Q ?E")
proof -
  have E: "?P s \<Longrightarrow> ?E s" for s by (auto simp: audio_requests_def)
  have ret: "triple ?P (returnS x) ?Q ?E" for x by (rule triple_return) (auto simp: audio_requests_def)
  note same = triple_bind_same [where R = "\<lambda>l. l = b"]
  let ?C = "\<lambda>(pc :: 'pc, c :: 'pc control). \<exists>t. connects env (ident 0) t \<and> sent c = b @ [t]"
  have C: "?C s \<Longrightarrow> ?E s" for s by (auto simp: audio_requests_def)
  note same' = triple_bind_same [where R = "\<lambda>l. \<exists>t. connects env (ident 0) t \<and> l = b @ [t]"]
  have conn: "triple ?P (on_control (on_api (connect_webrtc_transport (libs env) (server env) (ident 0) i dtls)))
     (\<lambda>x (pc, c). if x = 0 then \<exists>t. connects env (ident 0) t \<and> sent c = b @ [t] else sent c = b) ?E" for i dtls
    by (rule triple_post [OF triple_connected]) (auto simp: audio_requests_def)
  have send: "triple ?C (send_and_answer env (ident 1) ''audio'' tp mid om sp rp opts) ?Q ?E" for tp mid om sp rp opts
  proof (rule tripleI)
    fix s assume "?C s"
    then obtain t where "connects env (ident 0) t" "(\<lambda>(pc, c). sent c = b @ [t]) s" by auto
    then show "case send_and_answer env (ident 1) ''audio'' tp mid om sp rp opts s of
        (Inl e, s') \<Rightarrow> ?E s' | (Inr x, s') \<Rightarrow> ?Q x s'"
      using triple_send_and_answer [of "b @ [t]" env "ident 1" "''audio''" tp mid om sp rp opts]
      by (fastforce simp: triple_def audio_requests_def split: prod.splits sum.splits)
  qed
  show ?thesis
    unfolding enable_audio_def
    apply (rule triple_bind_read, rule triple_if, rule ret)
    apply (rule triple_bind_pc, force simp: audio_requests_def, rule triple_if, rule ret)
    apply (rule triple_bind_pc, force simp: audio_requests_def, rule triple_option, rule ret)
    apply (rule triple_bind_read, rule triple_option, rule ret)
    apply (rule triple_bind_pc, force simp: audio_requests_def, rule triple_bind_lift, erule E)
    apply (rule same, erule sent_same, simp, erule E)
    apply (rule same, erule next_section_same, simp, erule E)
    apply (rule triple_pair, rule triple_bind_lift, erule E, rule triple_bind_lift, erule E)
    apply (rule triple_check [OF conn], rule triple_pre [OF ret], force)
    apply (rule triple_pre [where P' = ?C])
     apply (rule same', erule sent_same, simp, erule C)
     apply (rule triple_bind_lift, erule C, rule triple_pair, rule triple_bind_pc, force simp: audio_requests_def)
     apply (rule triple_bind_pc, force simp: audio_requests_def)
     apply (rule triple_bind_lift, erule C, rule triple_bind_read, rule triple_bind_lift, erule C)
     apply (rule triple_bind_lift, erule C, rule triple_bind_lift, erule C)
     apply (rule send)
    apply force
    done
qed

end
