(* ===== verification/ControlProps.thy ===== *)
theory ControlProps
  imports ControlFacts
begin

text \<open>
  The properties of the client.
\<close>

lemma publish_triple:
  assumes "triple P (enable_audio env ident audio) (\<lambda>_. R) E" "triple R (enable_video env ident True) (\<lambda>_. E) E"
    and "\<And>pc c pcs. E (pc, c) \<Longrightarrow> F c \<and> F (c\<lparr>publish_pcs := pcs\<rparr>)" "P (create_pc (rtc env), c)"
  shows "F (snd (publish env ident stream audio c))"
proof -
  let ?m = "bindS (enable_audio env ident audio) (\<lambda>_. enable_video env ident True)"
  have "triple P ?m (\<lambda>_. E) E" by (rule triple_bind [OF assms(1,2)])
  then have "case ?m (create_pc (rtc env), c) of (Inl e, s') \<Rightarrow> E s' | (Inr x, s') \<Rightarrow> E s'"
    using assms(4) by (simp add: triple_def)
  then show ?thesis using assms(3) by (auto simp: publish_def split: prod.splits sum.splits)
qed

lemma sent_publish_pcs [simp]: "sent (c\<lparr>publish_pcs := pcs\<rparr>) = sent c"
  by (simp add: sent_def)

text \<open>C10: the requests of a publication, in their order and on every path, with and without
  exceptions: first, with audio, the connection of the transport and after it, if at all, the
  producer of audio, then at most one producer of video. Without audio the transport is never
  connected: the only request is the producer of video.\<close>

theorem publish_requests:
  fixes env :: "'pc env"
  shows "\<exists>mid. audio_requests env ident (sent c) mid \<and> (benable_audio \<or> mid = sent c)
     \<and> one_more (produces env (ident 2) ''video'') mid (sent (snd (publish env ident stream_type benable_audio c)))"
proof -
  let ?R = "\<lambda>(pc :: 'pc, c' :: 'pc control). audio_requests env ident (sent c) (sent c') \<and> (benable_audio \<or> sent c' = sent c)"
  let ?E = "\<lambda>(pc :: 'pc, c' :: 'pc control). \<exists>mid. audio_requests env ident (sent c) mid \<and> (benable_audio \<or> mid = sent c)
     \<and> one_more (produces env (ident 2) ''video'') mid (sent c')"
  have R: "?R s \<Longrightarrow> ?E s" for s by (auto intro: exI [where x = "sent (snd s)"])
  have audio: "triple (\<lambda>(pc, c'). sent c' = sent c) (enable_audio env ident benable_audio) (\<lambda>_. ?R) ?E"
  proof (cases benable_audio)
    case True
    then show ?thesis by (intro triple_post [OF triple_audio_requests]) (auto split: prod.splits)
  next
    case False
    then show ?thesis by (auto simp: triple_def enable_audio_def audio_requests_def)
  qed
  have video: "triple ?R (enable_video env ident True) (\<lambda>_. ?E) ?E"
  proof (rule tripleI)
    fix s assume r: "?R s"
    have "(\<lambda>(pc, c'). sent c' = sent (snd s)) s" by (cases s) simp
    then show "case enable_video env ident True s of (Inl e, s') \<Rightarrow> ?E s' | (Inr x, s') \<Rightarrow> ?E s'"
      using triple_video_requests [of "sent (snd s)" env ident True] r
      by (cases s) (fastforce simp: triple_def split: prod.splits sum.splits)
  qed
  show ?thesis by (rule publish_triple [OF audio video]) auto
qed







end
