(* ===== verification/Frame.thy ===== *)
theory Frame
  imports Effects CxxNum
begin

text \<open>
  Audio and video frames (\<open>mssdk/lazyutil/lbframe.h\<close>) over a heap of blocks of bytes. A pointer
  is a block and an offset; an access outside a block, through a null pointer or to a block that
  has been deleted is undefined, as is a signed overflow of 32 bits. The bytes of a new block are
  indeterminate.
\<close>

section \<open>Memory\<close>

type_synonym byte = "8 word option"
type_synonym ptr = "(nat \<times> int) option"

text \<open>\<open>None\<close> stands for a deleted block.\<close>

type_synonym heap = "byte list option list"

definition block_at :: "heap \<Rightarrow> nat \<Rightarrow> byte list res" where
  "block_at h b = (if b < length h then (case h ! b of None \<Rightarrow> Inl (Undefined ''use after delete'') | Some bs \<Rightarrow> Inr bs)
     else Inl (Undefined ''pointer''))"

definition heap_new :: "int \<Rightarrow> heap \<Rightarrow> (ptr \<times> heap) res" where
  "heap_new n h = (if n < 0 then Inl (Undefined ''new[]'')
     else Inr (Some (length h, 0), h @ [Some (replicate (nat n) None)]))"

definition heap_delete :: "ptr \<Rightarrow> heap \<Rightarrow> heap res" where
  "heap_delete p h = (case p of
     None \<Rightarrow> Inr h
   | Some (b, off) \<Rightarrow> bindE (block_at h b) (\<lambda>_. if off \<noteq> 0 then Inl (Undefined ''delete[]'') else Inr (h[b := None])))"

definition ptr_add :: "ptr \<Rightarrow> int \<Rightarrow> ptr" where
  "ptr_add p n = map_option (\<lambda>(b, off). (b, off + n)) p"

text \<open>The bytes \<open>[off, off + n)\<close> of the block of a pointer, and writing them.\<close>

definition heap_read :: "ptr \<Rightarrow> int \<Rightarrow> heap \<Rightarrow> byte list res" where
  "heap_read p n h = (case p of
     None \<Rightarrow> Inl (Undefined ''null'')
   | Some (b, off) \<Rightarrow> bindE (block_at h b) (\<lambda>bs.
       if n < 0 \<or> off < 0 \<or> off + n > int (length bs) then Inl (Undefined ''out of bounds'')
       else Inr (take (nat n) (drop (nat off) bs))))"

definition heap_write :: "ptr \<Rightarrow> byte list \<Rightarrow> heap \<Rightarrow> heap res" where
  "heap_write p vs h = (case p of
     None \<Rightarrow> Inl (Undefined ''null'')
   | Some (b, off) \<Rightarrow> bindE (block_at h b) (\<lambda>bs.
       if off < 0 \<or> off + int (length vs) > int (length bs) then Inl (Undefined ''out of bounds'')
       else Inr (h[b := Some (take (nat off) bs @ vs @ drop (nat off + length vs) bs)])))"

text \<open>Copying bytes that overlap is undefined.\<close>

definition overlap :: "ptr \<Rightarrow> ptr \<Rightarrow> int \<Rightarrow> bool" where
  "overlap p q n = (case (p, q) of (Some (b, i), Some (c, j)) \<Rightarrow> b = c \<and> i < j + n \<and> j < i + n | _ \<Rightarrow> False)"

definition memcpy :: "ptr \<Rightarrow> ptr \<Rightarrow> int \<Rightarrow> heap \<Rightarrow> heap res" where
  "memcpy dst src n h =
     (if overlap dst src n then Inl (Undefined ''overlap'') else bindE (heap_read src n h) (\<lambda>vs. heap_write dst vs h))"

definition memset :: "ptr \<Rightarrow> 8 word \<Rightarrow> int \<Rightarrow> heap \<Rightarrow> heap res" where
  "memset dst v n h = (if n < 0 then Inl (Undefined ''memset'') else heap_write dst (replicate (nat n) (Some v)) h)"

section \<open>Integers\<close>

text \<open>\<open>int\<close> in 32 bits, and the quotient of C, which rounds towards zero.\<close>

definition int32 :: "int \<Rightarrow> int res" where
  "int32 i = (if - (2 ^ 31) \<le> i \<and> i < 2 ^ 31 then Inr i else Inl (Undefined ''int overflow''))"

definition cdiv :: "int \<Rightarrow> int \<Rightarrow> int" where
  "cdiv a b = sgn a * (\<bar>a\<bar> div b)"

definition times32 :: "int \<Rightarrow> int \<Rightarrow> int res" where
  "times32 a b = int32 (a * b)"

text \<open>\<open>width * height * n\<close>\<close>

definition area32 :: "int \<Rightarrow> int \<Rightarrow> int \<Rightarrow> int res" where
  "area32 w h n = bindE (times32 w h) (\<lambda>a. times32 a n)"

section \<open>Formats\<close>

text \<open>The codes of \<open>libyuv\<close>: four characters in little endian order.\<close>

definition fourcc :: "string \<Rightarrow> 32 word" where
  "fourcc cs = foldr (\<lambda>c w. push_bit 8 w + of_nat (of_char c)) cs 0"

definition FOURCC_I420 :: "32 word" where "FOURCC_I420 = fourcc ''I420''"
definition FOURCC_YV12 :: "32 word" where "FOURCC_YV12 = fourcc ''YV12''"
definition FOURCC_NV12 :: "32 word" where "FOURCC_NV12 = fourcc ''NV12''"
definition FOURCC_NV21 :: "32 word" where "FOURCC_NV21 = fourcc ''NV21''"
definition FOURCC_RGB3 :: "32 word" where "FOURCC_RGB3 = fourcc ''RGB3''"
definition FOURCC_BGR3 :: "32 word" where "FOURCC_BGR3 = fourcc ''BGR3''"
definition FOURCC_BGRA :: "32 word" where "FOURCC_BGRA = fourcc ''BGRA''"
definition FOURCC_RGBA :: "32 word" where "FOURCC_RGBA = fourcc ''RGBA''"
definition FOURCC_ARGB :: "32 word" where "FOURCC_ARGB = fourcc ''ARGB''"
definition FOURCC_ABGR :: "32 word" where "FOURCC_ABGR = fourcc ''ABGR''"

definition planar :: "32 word list" where "planar = [FOURCC_I420, FOURCC_YV12]"
definition biplanar :: "32 word list" where "biplanar = [FOURCC_NV12, FOURCC_NV21]"
definition packed3 :: "32 word list" where "packed3 = [FOURCC_RGB3, FOURCC_BGR3]"
definition packed4 :: "32 word list" where "packed4 = [FOURCC_BGRA, FOURCC_RGBA, FOURCC_ARGB, FOURCC_ABGR]"

definition lazy_media_type_none :: int where "lazy_media_type_none = - 1"
definition lazy_media_type_video :: int where "lazy_media_type_video = 0"
definition lazy_media_type_audio :: int where "lazy_media_type_audio = 1"

text \<open>\<open>u8\<close>, \<open>s16\<close>, \<open>s32\<close> and \<open>flt\<close> are 0 to 3.\<close>

definition bytes_per_sample :: "int \<Rightarrow> int" where
  "bytes_per_sample fmt =
     (if fmt = 0 then 1 else if fmt = 1 then 2 else if fmt = 2 then 4 else if fmt = 3 then 4 else - 1)"

definition format_size :: "32 word \<Rightarrow> int \<Rightarrow> int \<Rightarrow> int res" where
  "format_size fmt width height =
     (if fmt \<in> set (planar @ biplanar) then bindE (area32 width height 3) (\<lambda>a. Inr (cdiv a 2))
      else if fmt \<in> set packed3 then area32 width height 3
      else if fmt \<in> set packed4 then area32 width height 4
      else Inl AssertionFailed)"

definition plane_count :: "32 word \<Rightarrow> int res" where
  "plane_count fmt = (if fmt \<in> set planar then Inr 3 else if fmt \<in> set biplanar then Inr 2
     else if fmt \<in> set (packed3 @ packed4) then Inr 1 else Inl AssertionFailed)"

definition plane_size :: "int \<Rightarrow> int \<Rightarrow> 32 word \<Rightarrow> nat \<Rightarrow> int res" where
  "plane_size width height fmt i =
     (if fmt \<in> set planar then
        (if i = 0 then times32 width height
         else if i = 1 \<or> i = 2 then bindE (times32 width height) (\<lambda>a. Inr (cdiv a 4)) else Inr 0)
      else if fmt \<in> set biplanar then
        (if i = 0 then times32 width height
         else if i = 1 \<or> i = 2 then bindE (times32 width height) (\<lambda>a. Inr (cdiv a 2)) else Inr 0)
      else if fmt \<in> set packed3 then (if i = 0 then area32 width height 3 else Inr 0)
      else if fmt \<in> set packed4 then (if i = 0 then area32 width height 4 else Inr 0)
      else Inl AssertionFailed)"

section \<open>Frames\<close>

record lbframe =
  emedia_type :: int
  pix_format :: "32 word"
  timestamp :: "64 word"
  fr_width :: "32 word"
  fr_height :: "32 word"
  channel :: "32 word"
  samplerate :: "32 word"
  nb_samples :: "32 word"
  bref :: bool
  planes :: "ptr list"
  linesize :: "32 word list"

definition empty_frame :: lbframe where
  "empty_frame = \<lparr>emedia_type = lazy_media_type_video, pix_format = 0, timestamp = 0, fr_width = 0, fr_height = 0,
     channel = 0, samplerate = 0, nb_samples = 0, bref = False, planes = replicate 4 None, linesize = replicate 4 0\<rparr>"

text \<open>The operations work on the frame and the heap.\<close>

type_synonym 'a frame_op = "(lbframe \<times> heap, 'a) op"

definition on_frame :: "(lbframe \<Rightarrow> lbframe) \<Rightarrow> unit frame_op" where
  "on_frame f = updS (\<lambda>(fr, h). (f fr, h))"

definition on_heap :: "(heap \<Rightarrow> heap res) \<Rightarrow> unit frame_op" where
  "on_heap f = (\<lambda>(fr, h). case f h of Inl e \<Rightarrow> (Inl e, (fr, h)) | Inr h' \<Rightarrow> (Inr (), (fr, h')))"

definition new_block :: "int \<Rightarrow> ptr frame_op" where
  "new_block n = (\<lambda>(fr, h). case heap_new n h of Inl e \<Rightarrow> (Inl e, (fr, h)) | Inr (p, h') \<Rightarrow> (Inr p, (fr, h')))"

definition get_frame :: "(lbframe \<Rightarrow> 'a) \<Rightarrow> 'a frame_op" where
  "get_frame f = getS (\<lambda>(fr, _). f fr)"

definition set_plane :: "nat \<Rightarrow> ptr \<Rightarrow> lbframe \<Rightarrow> lbframe" where
  "set_plane i p fr = fr\<lparr>planes := (planes fr)[i := p]\<rparr>"

definition set_line :: "nat \<Rightarrow> int \<Rightarrow> lbframe \<Rightarrow> lbframe" where
  "set_line i n fr = fr\<lparr>linesize := (linesize fr)[i := of_int n]\<rparr>"

definition plane :: "nat \<Rightarrow> lbframe \<Rightarrow> ptr" where
  "plane i fr = planes fr ! i"

definition line :: "nat \<Rightarrow> lbframe \<Rightarrow> int" where
  "line i fr = uint (linesize fr ! i)"

definition reset_frame :: "unit frame_op" where
  "reset_frame =
     bindS (on_frame (\<lambda>fr. fr\<lparr>emedia_type := lazy_media_type_none, pix_format := 0, timestamp := 0, fr_width := 0,
       fr_height := 0, channel := 0, samplerate := 0, nb_samples := 0\<rparr>)) (\<lambda>_.
     bindS (get_frame (\<lambda>fr. (bref fr, plane 0 fr))) (\<lambda>(borrowed, p).
     bindS (if borrowed then returnS () else on_heap (heap_delete p)) (\<lambda>_.
     on_frame (\<lambda>fr. fr\<lparr>bref := False, planes := replicate 4 None, linesize := replicate 4 0\<rparr>))))"

text \<open>The planes and lines of a picture in \<open>data\<close>.\<close>

definition picture :: "32 word \<Rightarrow> int \<Rightarrow> int \<Rightarrow> ptr \<Rightarrow> lbframe \<Rightarrow> lbframe res" where
  "picture fmt width height data fr =
     (if fmt \<in> set planar then
        bindE (times32 width height) (\<lambda>a. bindE (area32 width height 5) (\<lambda>b.
        let u = ptr_add data a; v = ptr_add data (cdiv b 4);
            fr1 = set_line 0 width (set_plane 0 data fr);
            fr2 = (if fmt = FOURCC_I420 then set_plane 2 v (set_plane 1 u fr1) else set_plane 2 u (set_plane 1 v fr1))
        in Inr (set_line 2 (cdiv width 2) (set_line 1 (cdiv width 2) fr2))))
      else if fmt \<in> set biplanar then
        bindE (times32 width height) (\<lambda>a.
        Inr (set_line 1 (cdiv width 2) (set_plane 1 (ptr_add data a) (set_line 0 width (set_plane 0 data fr)))))
      else if fmt \<in> set packed3 then
        bindE (times32 width 3) (\<lambda>n. Inr (set_line 0 n (set_plane 0 data fr)))
      else if fmt \<in> set packed4 then
        bindE (times32 width 4) (\<lambda>n. Inr (set_line 0 n (set_plane 0 data fr)))
      else Inl AssertionFailed)"

definition fill_video :: "32 word \<Rightarrow> int \<Rightarrow> int \<Rightarrow> ptr \<Rightarrow> 64 word \<Rightarrow> bool \<Rightarrow> int frame_op" where
  "fill_video fmt width height data pts borrowed =
     bindS reset_frame (\<lambda>_.
     bindS (on_frame (\<lambda>fr. fr\<lparr>emedia_type := lazy_media_type_video, fr_width := of_int width, fr_height := of_int height,
       pix_format := fmt, timestamp := pts, bref := borrowed\<rparr>)) (\<lambda>_.
     bindS (get_frame (picture fmt width height data)) (\<lambda>r.
     bindS (liftS r) (\<lambda>fr. bindS (on_frame (\<lambda>_. fr)) (\<lambda>_. returnS 0)))))"

definition init_video :: "32 word \<Rightarrow> int \<Rightarrow> int \<Rightarrow> 64 word \<Rightarrow> ptr \<Rightarrow> bool \<Rightarrow> int frame_op" where
  "init_video fmt width height pts data borrowed =
     bindS (on_frame (\<lambda>fr. fr\<lparr>emedia_type := lazy_media_type_video\<rparr>)) (\<lambda>_.
     if data \<noteq> None \<and> borrowed then fill_video fmt width height data pts borrowed
     else
       bindS (liftS (format_size fmt width height)) (\<lambda>img_size.
       bindS (new_block img_size) (\<lambda>ptmp.
       bindS (if fmt = FOURCC_I420 then on_heap (memset ptmp 0x80 img_size) else returnS ()) (\<lambda>_.
       bindS (if data \<noteq> None then on_heap (memcpy ptmp data img_size) else returnS ()) (\<lambda>_.
       fill_video fmt width height ptmp pts False)))))"

definition clone_video :: "32 word \<Rightarrow> int \<Rightarrow> int \<Rightarrow> ptr \<Rightarrow> 64 word \<Rightarrow> int frame_op" where
  "clone_video fmt width height data pts =
     bindS (liftS (format_size fmt width height)) (\<lambda>size.
     bindS (new_block size) (\<lambda>pdata.
     bindS (on_heap (if data \<noteq> None then memcpy pdata data size else memset pdata 0 size)) (\<lambda>_.
     fill_video fmt width height pdata pts False)))"

text \<open>The buffer that is replaced is deleted although it may be borrowed.\<close>

definition init_audio :: "int \<Rightarrow> int \<Rightarrow> int \<Rightarrow> 64 word \<Rightarrow> int \<Rightarrow> ptr \<Rightarrow> bool \<Rightarrow> int frame_op" where
  "init_audio fmt chan rate pts nbsample data borrowed =
     bindS (on_frame (\<lambda>fr. fr\<lparr>emedia_type := lazy_media_type_audio, pix_format := of_int fmt, channel := of_int chan,
       samplerate := of_int rate, nb_samples := of_int nbsample, timestamp := pts\<rparr>)) (\<lambda>_.
     bindS (liftS (bindE (times32 (bytes_per_sample fmt) chan) (\<lambda>n. times32 n nbsample))) (\<lambda>size.
     bindS (get_frame (plane 0)) (\<lambda>old.
     bindS (if data \<noteq> None then returnS (data, borrowed)
            else bindS (on_heap (heap_delete old)) (\<lambda>_.
                 bindS (on_frame (set_plane 0 None)) (\<lambda>_.
                 bindS (new_block size) (\<lambda>p. returnS (p, False))))) (\<lambda>(p, borrowed').
     bindS (on_frame (\<lambda>fr. set_line 0 size (set_plane 0 p (fr\<lparr>bref := borrowed'\<rparr>)))) (\<lambda>_.
     returnS 0)))))"

text \<open>\<open>_nb_samples * _channel * bytes_per_sample(_format)\<close> is computed in 32 bits without sign.\<close>

definition samples_size :: "lbframe \<Rightarrow> 32 word" where
  "samples_size fr = nb_samples fr * channel fr * of_int (bytes_per_sample (sint (pix_format fr)))"

definition frame_size :: "lbframe \<Rightarrow> int res" where
  "frame_size fr =
     (if emedia_type fr = lazy_media_type_video then format_size (pix_format fr) (sint (fr_width fr)) (sint (fr_height fr))
      else Inr (sint (samples_size fr)))"

fun copy_planes :: "int \<Rightarrow> int \<Rightarrow> 32 word \<Rightarrow> (ptr \<times> int) list \<Rightarrow> nat \<Rightarrow> unit frame_op" where
  "copy_planes width height fmt [] i = returnS ()"
| "copy_planes width height fmt ((src, n) # ps) i =
     bindS (liftS (plane_size width height fmt i)) (\<lambda>size.
     bindS (get_frame (plane i)) (\<lambda>dst.
     bindS (on_heap (memcpy dst src size)) (\<lambda>_.
     bindS (on_frame (set_line i n)) (\<lambda>_. copy_planes width height fmt ps (i + 1)))))"

text \<open>\<open>sources\<close>: the planes and lines that are given. The size of the copy is that of the frame
  after its reset.\<close>

definition fill_plane :: "int \<Rightarrow> int \<Rightarrow> 32 word \<Rightarrow> (ptr \<times> int) list \<Rightarrow> 64 word \<Rightarrow> bool \<Rightarrow> int frame_op" where
  "fill_plane width height fmt sources pts borrowed =
     bindS reset_frame (\<lambda>_.
     bindS (on_frame (\<lambda>fr. fr\<lparr>bref := borrowed\<rparr>)) (\<lambda>_.
     bindS (liftS (plane_count fmt)) (\<lambda>n.
     if length sources < nat n then liftS (Inl (Undefined ''ppdata[i]''))
     else if borrowed then
       bindS (on_frame (\<lambda>fr. fold (\<lambda>(i, p, l) f. set_line i l (set_plane i p f)) (enumerate 0 (take (nat n) sources))
         (fr\<lparr>emedia_type := lazy_media_type_video, pix_format := fmt, fr_width := of_int width,
            fr_height := of_int height, timestamp := pts\<rparr>))) (\<lambda>_. returnS 0)
     else
       bindS (get_frame frame_size) (\<lambda>r. bindS (liftS r) (\<lambda>size.
       bindS (new_block size) (\<lambda>img_data.
       bindS (fill_video fmt width height img_data pts False) (\<lambda>_.
       bindS (copy_planes width height fmt (take (nat n) sources) 0) (\<lambda>_. returnS 0))))))))"

section \<open>Copying\<close>

text \<open>\<open>rows\<close> rows of \<open>n\<close> bytes, the pointers advancing by their lines.\<close>

fun copy_rows :: "nat \<Rightarrow> int \<Rightarrow> ptr \<times> int \<Rightarrow> ptr \<times> int \<Rightarrow> heap \<Rightarrow> heap res" where
  "copy_rows 0 n dst src h = Inr h"
| "copy_rows (Suc rows) n (dst, dst_line) (src, src_line) h =
     bindE (memcpy dst src n h) (\<lambda>h'.
     copy_rows rows n (ptr_add dst dst_line, dst_line) (ptr_add src src_line, src_line) h')"

definition copy_plane :: "nat \<Rightarrow> nat \<Rightarrow> int \<Rightarrow> lbframe \<Rightarrow> unit frame_op" where
  "copy_plane i rows n src = (\<lambda>(fr, h).
     on_heap (copy_rows rows n (plane i fr, line i fr) (plane i src, line i src)) (fr, h))"

text \<open>The case of two planes falls through to the packed one, and this to the default: both end
  in the assertion.\<close>

definition copy_packed :: "lbframe \<Rightarrow> int frame_op" where
  "copy_packed src =
     bindS (get_frame (\<lambda>fr. (unat (fr_height fr), min (line 0 fr) (line 0 src)))) (\<lambda>(rows, pitch).
     bindS (copy_plane 0 rows (sint (of_int pitch :: 32 word)) src) (\<lambda>_. liftS (Inl AssertionFailed)))"

definition copy_video :: "lbframe \<Rightarrow> int frame_op" where
  "copy_video src =
     bindS (get_frame id) (\<lambda>fr.
     let rows = unat (fr_height fr); width = uint (fr_width fr) in
     if pix_format fr \<noteq> pix_format src \<or> fr_width fr \<noteq> fr_width src \<or> fr_height fr \<noteq> fr_height src \<or> plane 0 fr = None
     then liftS (Inl AssertionFailed)
     else if pix_format fr \<in> set planar then
       bindS (copy_plane 0 rows width src) (\<lambda>_.
       bindS (copy_plane 1 (rows div 2) (width div 2) src) (\<lambda>_.
       bindS (copy_plane 2 (rows div 2) (width div 2) src) (\<lambda>_. returnS 0)))
     else if pix_format fr \<in> set biplanar then
       bindS (copy_plane 0 rows width src) (\<lambda>_.
       bindS (copy_plane 1 (rows div 2) width src) (\<lambda>_. copy_packed src))
     else if pix_format fr \<in> set (packed3 @ packed4) then copy_packed src
     else liftS (Inl AssertionFailed))"

fun copy_samples :: "nat list \<Rightarrow> lbframe \<Rightarrow> unit frame_op" where
  "copy_samples [] src = returnS ()"
| "copy_samples (i # is) src =
     (if plane i src = None then returnS ()
      else bindS (get_frame (plane i)) (\<lambda>dst.
           bindS (on_heap (memcpy dst (plane i src) (line i src))) (\<lambda>_.
           bindS (on_frame (set_line i (line i src))) (\<lambda>_. copy_samples is src))))"

definition copy_frame :: "lbframe \<Rightarrow> int frame_op" where
  "copy_frame src =
     (if emedia_type src = lazy_media_type_video then copy_video src
      else bindS (get_frame id) (\<lambda>fr.
        if pix_format fr \<noteq> pix_format src \<or> channel fr \<noteq> channel src \<or> nb_samples fr \<noteq> nb_samples src \<or> plane 0 fr = None
        then liftS (Inl AssertionFailed)
        else bindS (copy_samples [0, 1, 2, 3] src) (\<lambda>_. returnS 0)))"

definition clone_frame :: "lbframe \<Rightarrow> int frame_op" where
  "clone_frame src =
     bindS (get_frame id) (\<lambda>fr.
     if emedia_type src = lazy_media_type_video then
       bindS (if pix_format fr \<noteq> pix_format src \<or> fr_width fr \<noteq> fr_width src \<or> fr_height fr \<noteq> fr_height src
                 \<or> plane 0 fr = None
              then bindS reset_frame (\<lambda>_. bindS (clone_video (pix_format src) (sint (fr_width src)) (sint (fr_height src))
                     None (timestamp src)) (\<lambda>_. returnS ()))
              else returnS ()) (\<lambda>_.
       copy_frame src)
     else
       bindS (if channel fr \<noteq> channel src \<or> samplerate fr \<noteq> samplerate src \<or> nb_samples fr \<noteq> nb_samples src
              then bindS reset_frame (\<lambda>_.
                bindS (on_frame (\<lambda>fr. fr\<lparr>channel := channel src, samplerate := samplerate src,
                  pix_format := pix_format src, nb_samples := nb_samples src\<rparr>)) (\<lambda>_.
                bindS (get_frame frame_size) (\<lambda>r. bindS (liftS r) (\<lambda>size.
                if sint (linesize src ! 0) \<noteq> size then liftS (Inl AssertionFailed)
                else
                  bindS (on_frame (set_line 0 (line 0 src))) (\<lambda>_.
                  bindS (new_block (line 0 src)) (\<lambda>p. on_frame (set_plane 0 p)))))))
              else returnS ()) (\<lambda>_.
       bindS (get_frame (plane 0)) (\<lambda>dst.
       bindS (on_heap (memcpy dst (plane 0 src) (line 0 src))) (\<lambda>_. returnS 0))))"

text \<open>The frame made of another one, and \<open>allocate\<close>, which does not know \<open>u8\<close>, whose code is 0.\<close>

definition lbframe_of :: "lbframe \<Rightarrow> int frame_op" where
  "lbframe_of src =
     bindS (on_frame (\<lambda>_. empty_frame\<lparr>emedia_type := emedia_type src, pix_format := pix_format src,
       timestamp := timestamp src, fr_width := fr_width src, fr_height := fr_height src, channel := channel src,
       samplerate := samplerate src, nb_samples := nb_samples src\<rparr>)) (\<lambda>_.
     bindS (liftS (format_size (pix_format src) (sint (fr_width src)) (sint (fr_height src)))) (\<lambda>size.
     bindS (new_block size) (\<lambda>pdata.
     bindS (on_heap (memcpy pdata (plane 0 src) size)) (\<lambda>_.
     fill_video (pix_format src) (sint (fr_width src)) (sint (fr_height src)) pdata (timestamp src) False))))"

definition allocate :: "int frame_op" where
  "allocate =
     bindS (get_frame id) (\<lambda>fr.
     if emedia_type fr = lazy_media_type_video \<and> fr_width fr > 0 \<and> fr_height fr > 0 then
       bindS (liftS (format_size (pix_format fr) (sint (fr_width fr)) (sint (fr_height fr)))) (\<lambda>size.
       if plane 0 fr \<noteq> None then returnS 0
       else bindS (new_block size) (\<lambda>ptmp.
            bindS (fill_video (pix_format fr) (sint (fr_width fr)) (sint (fr_height fr)) ptmp (timestamp fr) False) (\<lambda>_.
            returnS 0)))
     else if emedia_type fr = lazy_media_type_audio \<and> channel fr > 0 \<and> pix_format fr > 0 \<and> nb_samples fr > 0 then
       (let size = channel fr * of_int (bytes_per_sample (sint (pix_format fr))) * nb_samples fr in
        if linesize fr ! 0 = size then returnS 0
        else bindS (on_heap (heap_delete (plane 0 fr))) (\<lambda>_.
             bindS (on_frame (set_plane 0 None)) (\<lambda>_.
             bindS (new_block (sint size)) (\<lambda>p.
             bindS (on_frame (set_line 0 (sint size) \<circ> set_plane 0 p)) (\<lambda>_. returnS 0)))))
     else liftS (Inl AssertionFailed))"

end
