(* ===== verification/FrameFacts.thy ===== *)
theory FrameFacts
  imports Frame
begin

text \<open>
  Facts on frames: the planes of a picture lie in its buffer, one after the other; copying
  planar pictures stays inside the buffers; and what always fails.
\<close>

section \<open>Formats\<close>

lemma formats_distinct: "distinct (planar @ biplanar @ packed3 @ packed4)"
  by code_simp

lemma format_cases:
  assumes "fmt \<in> set (planar @ biplanar @ packed3 @ packed4)"
  obtains (planar) "fmt \<in> set planar" "fmt \<notin> set biplanar" "fmt \<notin> set packed3" "fmt \<notin> set packed4"
  | (biplanar) "fmt \<in> set biplanar" "fmt \<notin> set planar" "fmt \<notin> set packed3" "fmt \<notin> set packed4"
  | (packed3) "fmt \<in> set packed3" "fmt \<notin> set planar" "fmt \<notin> set biplanar" "fmt \<notin> set packed4"
  | (packed4) "fmt \<in> set packed4" "fmt \<notin> set planar" "fmt \<notin> set biplanar" "fmt \<notin> set packed3"
  using assms formats_distinct by (auto simp: disjoint_iff)

text \<open>Widths and heights whose products do not overflow.\<close>

definition dims_ok :: "int \<Rightarrow> int \<Rightarrow> bool" where
  "dims_ok w h \<longleftrightarrow> 0 \<le> w \<and> 0 \<le> h \<and> h < 2 ^ 31 \<and> w * 4 < 2 ^ 31 \<and> w * h * 5 < 2 ^ 31"

lemma dims_area:
  assumes "dims_ok w h"
  shows "times32 w h = Inr (w * h)" "\<And>n. 0 \<le> n \<Longrightarrow> n \<le> 5 \<Longrightarrow> area32 w h n = Inr (w * h * n)"
    "\<And>n. 0 \<le> n \<Longrightarrow> n \<le> 4 \<Longrightarrow> times32 w n = Inr (w * n)" "0 \<le> w * h"
proof -
  show a: "0 \<le> w * h" using assms by (simp add: dims_ok_def)
  have le: "w * h * n \<le> w * h * 5" if "0 \<le> n" "n \<le> 5" for n
    using a that by (simp add: mult_left_mono)
  have lt: "w * h * 5 < 2 ^ 31" using assms by (simp add: dims_ok_def)
  then have "w * h < 2 ^ 31" using a by simp
  then show t: "times32 w h = Inr (w * h)" using a by (simp add: times32_def int32_def)
  show "area32 w h n = Inr (w * h * n)" if "0 \<le> n" "n \<le> 5" for n
  proof -
    have "0 \<le> w * h * n" "w * h * n < 2 ^ 31" using a le [OF that] lt that by simp_all
    then show ?thesis using t by (simp add: area32_def times32_def int32_def)
  qed
  show "times32 w n = Inr (w * n)" if "0 \<le> n" "n \<le> 4" for n
  proof -
    have "w * n \<le> w * 4" "0 \<le> w * n" using assms that by (simp_all add: dims_ok_def mult_left_mono)
    then show ?thesis using assms by (simp add: times32_def int32_def dims_ok_def)
  qed
qed

lemma cdiv_nonneg: "0 \<le> a \<Longrightarrow> 0 < b \<Longrightarrow> cdiv a b = a div b"
  by (cases "a = 0") (simp_all add: cdiv_def)

text \<open>The sizes of the buffer and of the planes, and the planes themselves.\<close>

definition buffer_size :: "32 word \<Rightarrow> int \<Rightarrow> int \<Rightarrow> int" where
  "buffer_size fmt w h = (if fmt \<in> set (planar @ biplanar) then w * h * 3 div 2
     else if fmt \<in> set packed3 then w * h * 3 else w * h * 4)"

definition plane_sizes :: "32 word \<Rightarrow> int \<Rightarrow> int \<Rightarrow> int list" where
  "plane_sizes fmt w h = (if fmt \<in> set planar then [w * h, w * h div 4, w * h div 4]
     else if fmt \<in> set biplanar then [w * h, w * h div 2]
     else if fmt \<in> set packed3 then [w * h * 3] else [w * h * 4])"

text \<open>The index of the plane that comes first, second and third in the buffer.\<close>

definition plane_order :: "32 word \<Rightarrow> nat list" where
  "plane_order fmt = (if fmt = FOURCC_YV12 then [0, 2, 1] else [0, 1, 2])"

definition rows_of :: "int \<Rightarrow> nat \<Rightarrow> int" where
  "rows_of h i = (if i = 0 then h else h div 2)"

text \<open>The bytes between \<open>lo\<close> and \<open>hi\<close> of a block hold the planes in this order, without overlap.\<close>

fun planes_in :: "nat \<Rightarrow> int \<Rightarrow> int \<Rightarrow> (ptr \<times> int) list \<Rightarrow> bool" where
  "planes_in b lo hi [] \<longleftrightarrow> lo \<le> hi"
| "planes_in b lo hi ((p, n) # ps) \<longleftrightarrow>
     (\<exists>off. p = Some (b, off) \<and> lo \<le> off \<and> 0 \<le> n \<and> planes_in b (off + n) hi ps)"

definition picture_ok :: "32 word \<Rightarrow> int \<Rightarrow> int \<Rightarrow> lbframe \<Rightarrow> heap \<Rightarrow> bool" where
  "picture_ok fmt w h fr hp \<longleftrightarrow>
     pix_format fr = fmt \<and> fr_width fr = of_int w \<and> fr_height fr = of_int h \<and> emedia_type fr = lazy_media_type_video
     \<and> length (planes fr) = 4 \<and> length (linesize fr) = 4
     \<and> (\<exists>b bs. plane 0 fr = Some (b, 0) \<and> b < length hp \<and> hp ! b = Some bs \<and> int (length bs) = buffer_size fmt w h
        \<and> planes_in b 0 (int (length bs))
            (map (\<lambda>i. (plane i fr, plane_sizes fmt w h ! i)) (take (length (plane_sizes fmt w h)) (plane_order fmt))))
     \<and> (\<forall>i < length (plane_sizes fmt w h). line i fr * rows_of h i \<le> plane_sizes fmt w h ! i)"

lemma buffer_size_ok:
  assumes "dims_ok w h" "fmt \<in> set (planar @ biplanar @ packed3 @ packed4)"
  shows "format_size fmt w h = Inr (buffer_size fmt w h)" "0 \<le> buffer_size fmt w h"
  using assms(2) dims_area [OF assms(1)]
  by (cases fmt rule: format_cases; simp add: format_size_def buffer_size_def cdiv_nonneg)+

lemma plane_sizes_ok:
  assumes "dims_ok w h" "fmt \<in> set (planar @ biplanar @ packed3 @ packed4)"
  shows "plane_count fmt = Inr (int (length (plane_sizes fmt w h)))"
    "\<And>i. i < length (plane_sizes fmt w h) \<Longrightarrow> plane_size w h fmt i = Inr (plane_sizes fmt w h ! i)"
    "\<And>n. n \<in> set (plane_sizes fmt w h) \<Longrightarrow> 0 \<le> n"
  using assms(2) dims_area [OF assms(1)]
  by (cases fmt rule: format_cases;
      auto simp: plane_count_def plane_size_def plane_sizes_def cdiv_nonneg less_Suc_eq nth_Cons' numeral_2_eq_2 numeral_3_eq_3)+

section \<open>Filling\<close>

lemma uint_of_int: "0 \<le> n \<Longrightarrow> n < 2 ^ 31 \<Longrightarrow> uint (of_int n :: 32 word) = n"
  by (simp add: unsigned_of_int take_bit_int_eq_self)

lemma quarter_sizes:
  fixes a :: int
  assumes "0 \<le> a"
  shows "a \<le> a * 5 div 4" "a + a div 4 \<le> a * 5 div 4" "a * 5 div 4 + a div 4 \<le> a * 3 div 2"
    "a + a div 4 + a div 4 \<le> a * 3 div 2" "a + a div 2 \<le> a * 3 div 2" "a \<le> a * 3 div 2"
  using assms by linarith+

lemma half_areas:
  fixes w h :: int
  assumes "0 \<le> w" "0 \<le> h"
  shows "(w div 2) * (h div 2) \<le> w * h div 4" "(w div 2) * (h div 2) \<le> w * h div 2"
proof -
  have "(w div 2 * 2) * (h div 2 * 2) \<le> w * h" using assms by (intro mult_mono) auto
  then have le: "(w div 2) * (h div 2) * 4 \<le> w * h" by (simp add: algebra_simps)
  moreover have "x * 4 \<le> y \<Longrightarrow> x \<le> y div 4" for x y :: int by presburger
  ultimately show "(w div 2) * (h div 2) \<le> w * h div 4" by blast
  have "0 \<le> (w div 2) * (h div 2)" using assms by simp
  then show "(w div 2) * (h div 2) \<le> w * h div 2" using le by simp
qed

lemma four_cases: "length xs = 4 \<Longrightarrow> (\<And>a b c d. xs = [a, b, c, d] \<Longrightarrow> thesis) \<Longrightarrow> thesis"
  by (auto simp: length_Suc_conv eval_nat_numeral)

lemma picture_run:
  assumes "dims_ok w h" "planes fr = [p0, p1, p2, p3]" "linesize fr = [l0, l1, l2, l3]"
  shows "fmt \<in> set planar \<Longrightarrow> picture fmt w h (Some (b, 0)) fr = Inr (fr\<lparr>
      planes := (if fmt = FOURCC_I420 then [Some (b, 0), Some (b, w * h), Some (b, w * h * 5 div 4), p3]
        else [Some (b, 0), Some (b, w * h * 5 div 4), Some (b, w * h), p3]),
      linesize := [of_int w, of_int (w div 2), of_int (w div 2), l3]\<rparr>)"
    and "fmt \<in> set biplanar \<Longrightarrow> fmt \<notin> set planar \<Longrightarrow> picture fmt w h (Some (b, 0)) fr = Inr (fr\<lparr>
      planes := [Some (b, 0), Some (b, w * h), p2, p3], linesize := [of_int w, of_int (w div 2), l2, l3]\<rparr>)"
    and "fmt \<in> set packed3 \<Longrightarrow> fmt \<notin> set planar \<Longrightarrow> fmt \<notin> set biplanar \<Longrightarrow> picture fmt w h (Some (b, 0)) fr =
      Inr (fr\<lparr>planes := [Some (b, 0), p1, p2, p3], linesize := [of_int (w * 3), l1, l2, l3]\<rparr>)"
    and "fmt \<in> set packed4 \<Longrightarrow> fmt \<notin> set planar \<Longrightarrow> fmt \<notin> set biplanar \<Longrightarrow> fmt \<notin> set packed3 \<Longrightarrow>
      picture fmt w h (Some (b, 0)) fr =
      Inr (fr\<lparr>planes := [Some (b, 0), p1, p2, p3], linesize := [of_int (w * 4), l1, l2, l3]\<rparr>)"
  using assms dims_area [OF assms(1)]
  by (simp_all add: picture_def set_plane_def set_line_def ptr_add_def cdiv_nonneg dims_ok_def numeral_2_eq_2)

lemma picture_ok_planar:
  assumes "dims_ok w h" "fmt \<in> set planar" "fmt \<notin> set biplanar" "pix_format fr = fmt" "fr_width fr = of_int w"
    "fr_height fr = of_int h" "emedia_type fr = lazy_media_type_video"
    and blk: "b < length hp" "hp ! b = Some bs" "int (length bs) = buffer_size fmt w h"
    and "planes fr = (if fmt = FOURCC_I420 then [Some (b, 0), Some (b, w * h), Some (b, w * h * 5 div 4), p3]
        else [Some (b, 0), Some (b, w * h * 5 div 4), Some (b, w * h), p3])"
    and "linesize fr = [of_int w, of_int (w div 2), of_int (w div 2), l3]"
  shows "picture_ok fmt w h fr hp"
proof -
  have a: "0 \<le> w * h" "0 \<le> w" "0 \<le> h" "w * 4 < 2 ^ 31"
    using assms(1) dims_area(4) [OF assms(1)] by (auto simp: dims_ok_def)
  have size: "int (length bs) = w * h * 3 div 2" "plane_sizes fmt w h = [w * h, w * h div 4, w * h div 4]"
    using assms(2) blk(3) by (simp_all add: buffer_size_def plane_sizes_def)
  have neq: "FOURCC_I420 \<noteq> FOURCC_YV12" by code_simp
  have fmt: "fmt = FOURCC_I420 \<or> fmt = FOURCC_YV12" using assms(2) by (simp add: planar_def)
  have inside: "planes_in b 0 (int (length bs)) (map (\<lambda>i. (plane i fr, plane_sizes fmt w h ! i)) (take 3 (plane_order fmt)))"
    using fmt assms(11) quarter_sizes(1-3) [OF a(1)] a(1) neq
    unfolding size by (auto simp: plane_def plane_order_def numeral_2_eq_2)
  have lines: "line i fr * rows_of h i \<le> plane_sizes fmt w h ! i" if "i < 3" for i
    using that assms(12) uint_of_int [of w] uint_of_int [of "w div 2"] a(2,4) half_areas(1) [OF a(2,3)]
    unfolding size(2) by (auto simp: line_def rows_of_def less_Suc_eq numeral_3_eq_3)
  have len: "length (planes fr) = 4" "length (linesize fr) = 4" "plane 0 fr = Some (b, 0)"
    using assms(11,12) by (simp_all add: plane_def)
  have three: "length (plane_sizes fmt w h) = 3" unfolding size(2) by simp
  show ?thesis
    unfolding picture_ok_def three using assms(4-7) len blk inside lines by blast
qed

lemma picture_ok_biplanar:
  assumes "dims_ok w h" "fmt \<in> set biplanar" "fmt \<notin> set planar" "pix_format fr = fmt" "fr_width fr = of_int w"
    "fr_height fr = of_int h" "emedia_type fr = lazy_media_type_video"
    and blk: "b < length hp" "hp ! b = Some bs" "int (length bs) = buffer_size fmt w h"
    and "planes fr = [Some (b, 0), Some (b, w * h), p2, p3]" "linesize fr = [of_int w, of_int (w div 2), l2, l3]"
  shows "picture_ok fmt w h fr hp"
proof -
  have a: "0 \<le> w * h" "0 \<le> w" "0 \<le> h" "w * 4 < 2 ^ 31"
    using assms(1) dims_area(4) [OF assms(1)] by (auto simp: dims_ok_def)
  have size: "int (length bs) = w * h * 3 div 2" "plane_sizes fmt w h = [w * h, w * h div 2]"
    using assms(2,3) blk(3) by (simp_all add: buffer_size_def plane_sizes_def)
  have "fmt \<noteq> FOURCC_YV12" using assms(3) by (auto simp: planar_def)
  then have inside: "planes_in b 0 (int (length bs)) (map (\<lambda>i. (plane i fr, plane_sizes fmt w h ! i)) (take 2 (plane_order fmt)))"
    using assms(11) quarter_sizes(5) [OF a(1)] a(1)
    unfolding size by (auto simp: plane_def plane_order_def)
  have lines: "line i fr * rows_of h i \<le> plane_sizes fmt w h ! i" if "i < 2" for i
    using that assms(12) uint_of_int [of w] uint_of_int [of "w div 2"] a(2,4) half_areas(2) [OF a(2,3)]
    unfolding size(2) by (auto simp: line_def rows_of_def less_Suc_eq numeral_2_eq_2)
  have len: "length (planes fr) = 4" "length (linesize fr) = 4" "plane 0 fr = Some (b, 0)"
    using assms(11,12) by (simp_all add: plane_def)
  have two: "length (plane_sizes fmt w h) = 2" unfolding size(2) by simp
  show ?thesis
    unfolding picture_ok_def two using assms(4-7) len blk inside lines by blast
qed

lemma picture_ok_packed:
  assumes "dims_ok w h" "fmt \<notin> set planar" "fmt \<notin> set biplanar" "pix_format fr = fmt" "fr_width fr = of_int w"
    "fr_height fr = of_int h" "emedia_type fr = lazy_media_type_video"
    and blk: "b < length hp" "hp ! b = Some bs" "int (length bs) = buffer_size fmt w h"
    and n: "n = (if fmt \<in> set packed3 then 3 else 4)"
    and "planes fr = [Some (b, 0), p1, p2, p3]" "linesize fr = [of_int (w * n), l1, l2, l3]"
  shows "picture_ok fmt w h fr hp"
proof -
  have a: "0 \<le> w * h" "0 \<le> w" "0 \<le> h" "0 \<le> w * n" "w * n < 2 ^ 31"
    using assms(1) dims_area(4) [OF assms(1)] n by (auto simp: dims_ok_def)
  have size: "int (length bs) = w * h * n" "plane_sizes fmt w h = [w * h * n]"
    using assms(2,3) blk(3) n by (simp_all add: buffer_size_def plane_sizes_def)
  have "fmt \<noteq> FOURCC_YV12" using assms(2) by (auto simp: planar_def)
  then have inside: "planes_in b 0 (int (length bs)) (map (\<lambda>i. (plane i fr, plane_sizes fmt w h ! i)) (take 1 (plane_order fmt)))"
    using assms(12) a(1) n unfolding size by (auto simp: plane_def plane_order_def)
  have lines: "line i fr * rows_of h i \<le> plane_sizes fmt w h ! i" if "i < 1" for i
    using that assms(13) uint_of_int [OF a(4,5)]
    unfolding size(2) by (simp add: line_def rows_of_def algebra_simps)
  have len: "length (planes fr) = 4" "length (linesize fr) = 4" "plane 0 fr = Some (b, 0)"
    using assms(12,13) by (simp_all add: plane_def)
  have one: "length (plane_sizes fmt w h) = 1" unfolding size(2) by simp
  show ?thesis
    unfolding picture_ok_def one using assms(4-7) len blk inside lines by blast
qed

lemma picture_fills:
  assumes dims: "dims_ok w h" and fmt: "fmt \<in> set (planar @ biplanar @ packed3 @ packed4)"
    and fr: "pix_format fr = fmt" "fr_width fr = of_int w" "fr_height fr = of_int h"
      "emedia_type fr = lazy_media_type_video" "length (planes fr) = 4" "length (linesize fr) = 4"
    and blk: "b < length hp" "hp ! b = Some bs" "int (length bs) = buffer_size fmt w h"
  shows "\<exists>fr'. picture fmt w h (Some (b, 0)) fr = Inr fr' \<and> picture_ok fmt w h fr' hp \<and> bref fr' = bref fr"
proof -
  obtain p0 p1 p2 p3 l0 l1 l2 l3 where l: "planes fr = [p0, p1, p2, p3]" "linesize fr = [l0, l1, l2, l3]"
    using fr(5,6) by (elim four_cases)
  note run = picture_run [OF dims l, of fmt b]
  show ?thesis
    using fmt
  proof (cases fmt rule: format_cases)
    case planar
    show ?thesis
      by (rule exI, rule conjI, rule run(1) [OF planar(1)], rule conjI, rule picture_ok_planar [OF dims planar(1,2) _ _ _ _ blk])
        (simp_all add: fr blk)
  next
    case biplanar
    show ?thesis
      by (rule exI, rule conjI, rule run(2) [OF biplanar(1,2)], rule conjI, rule picture_ok_biplanar [OF dims biplanar(1,2) _ _ _ _ blk])
        (simp_all add: fr blk)
  next
    case packed3
    show ?thesis
      by (rule exI, rule conjI, rule run(3) [OF packed3(1-3)], rule conjI,
          rule picture_ok_packed [OF dims packed3(2,3) _ _ _ _ blk, where n = 3])
        (simp_all add: fr blk packed3)
  next
    case packed4
    show ?thesis
      by (rule exI, rule conjI, rule run(4) [OF packed4(1-4)], rule conjI,
          rule picture_ok_packed [OF dims packed4(2,3) _ _ _ _ blk, where n = 4])
        (simp_all add: fr blk packed4)
  qed
qed

text \<open>The buffer of a frame can be deleted: it is borrowed, or there is none, or it is a block.\<close>

definition owned :: "lbframe \<Rightarrow> heap \<Rightarrow> bool" where
  "owned fr hp \<longleftrightarrow> bref fr \<or> plane 0 fr = None
     \<or> (\<exists>b bs. plane 0 fr = Some (b, 0) \<and> b < length hp \<and> hp ! b = Some bs)"

definition cleared :: "lbframe" where
  "cleared = empty_frame\<lparr>emedia_type := lazy_media_type_none\<rparr>"

text \<open>The heap without the buffer of the frame.\<close>

definition released :: "lbframe \<Rightarrow> heap \<Rightarrow> heap" where
  "released fr hp = (if bref fr then hp else case plane 0 fr of None \<Rightarrow> hp | Some (b, _) \<Rightarrow> hp[b := None])"

lemma reset_run: "owned fr hp \<Longrightarrow> reset_frame (fr, hp) = (Inr (), (cleared, released fr hp))"
  by (cases fr)
    (auto simp: reset_frame_def on_frame_def get_frame_def on_heap_def heap_delete_def block_at_def owned_def
      cleared_def empty_frame_def released_def plane_def bindS_def split: option.splits)

lemma length_released [simp]: "length (released fr hp) = length hp"
  by (simp add: released_def split: option.splits prod.splits)

lemma released_other:
  "plane 0 fr \<noteq> Some (b, 0) \<or> bref fr \<Longrightarrow> owned fr hp \<Longrightarrow> released fr hp ! b = hp ! b"
  by (auto simp: released_def owned_def split: option.splits)

lemma fill_video_ok:
  assumes "dims_ok w h" "fmt \<in> set (planar @ biplanar @ packed3 @ packed4)" "owned fr hp"
    and "plane 0 fr \<noteq> Some (b, 0) \<or> bref fr" "b < length hp" "hp ! b = Some bs" "int (length bs) = buffer_size fmt w h"
  shows "\<exists>fr'. fill_video fmt w h (Some (b, 0)) pts borrowed (fr, hp) = (Inr 0, (fr', released fr hp))
    \<and> picture_ok fmt w h fr' (released fr hp) \<and> bref fr' = borrowed"
proof -
  let ?fr = "cleared\<lparr>emedia_type := lazy_media_type_video, fr_width := of_int w, fr_height := of_int h,
    pix_format := fmt, timestamp := pts, bref := borrowed\<rparr>"
  have "released fr hp ! b = Some bs" using released_other assms(3,4,6) by simp
  then obtain fr' where p: "picture fmt w h (Some (b, 0)) ?fr = Inr fr'" "picture_ok fmt w h fr' (released fr hp)"
    "bref fr' = bref ?fr"
    using picture_fills [OF assms(1,2), of ?fr b "released fr hp" bs] assms(5,7)
    by (auto simp: cleared_def empty_frame_def)
  then show ?thesis
    by (simp add: fill_video_def bindS_def reset_run [OF assms(3)] on_frame_def get_frame_def)
qed

lemma memset_new:
  "0 \<le> n \<Longrightarrow> memset (Some (length hp, 0)) v n (hp @ [Some (replicate (nat n) None)]) =
     Inr (hp @ [Some (replicate (nat n) (Some v))])"
  by (simp add: memset_def heap_write_def block_at_def list_update_append)

lemma owned_append: "owned fr hp \<Longrightarrow> owned fr (hp @ bs)"
  by (auto simp: owned_def nth_append)

text \<open>A buffer of the right size that has just been allocated.\<close>

lemma fill_new:
  assumes "dims_ok w h" "fmt \<in> set (planar @ biplanar @ packed3 @ packed4)" "owned fr hp"
    and "int (length bs) = buffer_size fmt w h"
  shows "\<exists>fr' hp'. fill_video fmt w h (Some (length hp, 0)) pts False (fr, hp @ [Some bs]) = (Inr 0, (fr', hp'))
    \<and> picture_ok fmt w h fr' hp' \<and> owned fr' hp' \<and> \<not> bref fr'"
proof -
  let ?hp = "hp @ [Some bs]"
  have "plane 0 fr \<noteq> Some (length hp, 0) \<or> bref fr" using assms(3) by (auto simp: owned_def)
  then obtain fr' where f: "fill_video fmt w h (Some (length hp, 0)) pts False (fr, ?hp) = (Inr 0, (fr', released fr ?hp))"
    "picture_ok fmt w h fr' (released fr ?hp)" "bref fr' = False"
    using fill_video_ok [OF assms(1,2) owned_append [OF assms(3)], of "length hp" "[Some bs]" bs] assms(4) by auto
  moreover have "owned fr' (released fr ?hp)" using f(2) by (auto simp: picture_ok_def owned_def)
  ultimately show ?thesis by blast
qed

lemma init_video_ok:
  assumes "dims_ok w h" "fmt \<in> set (planar @ biplanar @ packed3 @ packed4)" "owned fr hp"
  shows "\<exists>fr' hp'. init_video fmt w h pts None borrowed (fr, hp) = (Inr 0, (fr', hp'))
    \<and> picture_ok fmt w h fr' hp' \<and> owned fr' hp' \<and> \<not> bref fr'"
proof -
  let ?n = "buffer_size fmt w h" and ?fr = "fr\<lparr>emedia_type := lazy_media_type_video\<rparr>"
  have size: "format_size fmt w h = Inr ?n" "0 \<le> ?n" using buffer_size_ok [OF assms(1,2)] by simp_all
  have o: "owned ?fr hp" using assms(3) by (simp add: owned_def plane_def)
  let ?bs = "replicate (nat ?n) (if fmt = FOURCC_I420 then Some 0x80 else None)"
  have "init_video fmt w h pts None borrowed (fr, hp) =
      fill_video fmt w h (Some (length hp, 0)) pts False (?fr, hp @ [Some ?bs])"
    using size by (cases "fmt = FOURCC_I420")
      (simp_all add: init_video_def bindS_def on_frame_def new_block_def heap_new_def on_heap_def memset_new)
  then show ?thesis
    using fill_new [OF assms(1,2) o, of ?bs pts] size(2) by simp
qed

lemma clone_video_ok:
  assumes "dims_ok w h" "fmt \<in> set (planar @ biplanar @ packed3 @ packed4)" "owned fr hp"
  shows "\<exists>fr' hp'. clone_video fmt w h None pts (fr, hp) = (Inr 0, (fr', hp'))
    \<and> picture_ok fmt w h fr' hp' \<and> owned fr' hp' \<and> \<not> bref fr'"
proof -
  let ?n = "buffer_size fmt w h"
  have size: "format_size fmt w h = Inr ?n" "0 \<le> ?n" using buffer_size_ok [OF assms(1,2)] by simp_all
  let ?bs = "replicate (nat ?n) (Some 0)"
  have "clone_video fmt w h None pts (fr, hp) =
      fill_video fmt w h (Some (length hp, 0)) pts False (fr, hp @ [Some ?bs])"
    using size by (simp add: clone_video_def bindS_def new_block_def heap_new_def on_heap_def memset_new)
  then show ?thesis
    using fill_new [OF assms, of ?bs pts] size(2) by simp
qed

section \<open>Copying\<close>

lemma heap_write_at:
  assumes "b < length hp" "hp ! b = Some ds" "0 \<le> od" "od + int (length vs) \<le> int (length ds)"
  shows "heap_write (Some (b, od)) vs hp = Inr (hp[b := Some (take (nat od) ds @ vs @ drop (nat od + length vs) ds)])"
  using assms by (simp add: heap_write_def block_at_def)

lemma heap_read_at:
  assumes "b < length hp" "hp ! b = Some bs" "0 \<le> off" "0 \<le> n" "off + n \<le> int (length bs)"
  shows "heap_read (Some (b, off)) n hp = Inr (take (nat n) (drop (nat off) bs))"
  using assms by (simp add: heap_read_def block_at_def)

lemma memcpy_apart: "b \<noteq> s \<Longrightarrow> memcpy (Some (b, i)) (Some (s, j)) n hp =
    bindE (heap_read (Some (s, j)) n hp) (\<lambda>vs. heap_write (Some (b, i)) vs hp)"
  by (simp add: memcpy_def overlap_def)

text \<open>Rows that fit into both blocks are copied, and nothing else changes.\<close>

lemma copy_rows_ok:
  assumes "b \<noteq> s" "s < length hp" "hp ! s = Some ss" "b < length hp" "hp ! b = Some ds"
    and "0 \<le> n" "n \<le> dl" "n \<le> sl" "0 \<le> od" "0 \<le> os"
    and "od + int rows * dl \<le> int (length ds)" "\<And>r. r < rows \<Longrightarrow> os + int r * sl + n \<le> int (length ss)"
  shows "\<exists>ds'. copy_rows rows n (Some (b, od), dl) (Some (s, os), sl) hp = Inr (hp[b := Some ds'])
     \<and> length ds' = length ds
     \<and> (\<forall>r < rows. \<forall>k < nat n. ds' ! (nat (od + int r * dl) + k) = ss ! (nat (os + int r * sl) + k))
     \<and> (\<forall>j. int j < od \<or> od + int rows * dl \<le> int j \<longrightarrow> ds' ! j = ds ! j)"
  using assms
proof (induction rows arbitrary: od os ds hp)
  case 0
  then show ?case by (metis copy_rows.simps(1) list_update_id not_less_zero)
next
  case (Suc rows)
  let ?vs = "take (nat n) (drop (nat os) ss)"
  define X where XY: "X = int rows * dl"
  have step: "int (Suc rows) * dl = dl + X" by (simp add: XY algebra_simps)
  have nn: "0 \<le> X" using Suc.prems(6-7) by (simp add: XY)
  have fits: "od + dl + X \<le> int (length ds)" "os + n \<le> int (length ss)"
    using Suc.prems(11) Suc.prems(12) [of 0] unfolding step by simp_all
  have later: "os + sl + int r * sl + n \<le> int (length ss)" if "r < rows" for r
    using Suc.prems(12) [of "Suc r"] that by (simp add: algebra_simps)
  have n: "0 \<le> n" "n \<le> dl" "n \<le> sl" "0 \<le> od" "0 \<le> os" using Suc.prems(6-10) by simp_all
  have src: "heap_read (Some (s, os)) n hp = Inr ?vs"
    using Suc.prems(2,3) fits nn n by (intro heap_read_at) linarith+
  have len: "length ?vs = nat n" using fits nn n by simp
  let ?ds = "take (nat od) ds @ ?vs @ drop (nat od + nat n) ds"
  have wr: "heap_write (Some (b, od)) ?vs hp = Inr (hp[b := Some ?ds])"
    using heap_write_at [of b hp ds od ?vs] Suc.prems(4,5) fits nn n len by simp
  have lends: "length ?ds = length ds" using fits nn n len by simp
  have "\<exists>ds'. copy_rows rows n (Some (b, od + dl), dl) (Some (s, os + sl), sl) (hp[b := Some ?ds])
        = Inr ((hp[b := Some ?ds])[b := Some ds'])
     \<and> length ds' = length ?ds
     \<and> (\<forall>r < rows. \<forall>k < nat n. ds' ! (nat (od + dl + int r * dl) + k) = ss ! (nat (os + sl + int r * sl) + k))
     \<and> (\<forall>j. int j < od + dl \<or> od + dl + int rows * dl \<le> int j \<longrightarrow> ds' ! j = ?ds ! j)"
    by (rule Suc.IH)
      (use Suc.prems(1-5) n fits later in \<open>simp_all only: lends XY [symmetric] length_list_update nth_list_update_eq nth_list_update_neq\<close>, simp_all)
  then obtain ds' where ds': "copy_rows rows n (Some (b, od + dl), dl) (Some (s, os + sl), sl) (hp[b := Some ?ds]) = Inr (hp[b := Some ds'])"
    "length ds' = length ds"
    "\<And>r k. r < rows \<Longrightarrow> k < nat n \<Longrightarrow> ds' ! (nat (od + dl + int r * dl) + k) = ss ! (nat (os + sl + int r * sl) + k)"
    "\<And>j. int j < od + dl \<or> od + dl + int rows * dl \<le> int j \<Longrightarrow> ds' ! j = ?ds ! j"
    unfolding lends list_update_overwrite by blast
  have run: "copy_rows (Suc rows) n (Some (b, od), dl) (Some (s, os), sl) hp = Inr (hp[b := Some ds'])"
    using src wr ds'(1) Suc.prems(1) by (simp add: memcpy_apart ptr_add_def)
  have rows: "ds' ! (nat (od + int r * dl) + k) = ss ! (nat (os + int r * sl) + k)" if "r < Suc rows" "k < nat n" for r k
  proof (cases r)
    case 0
    have "ds' ! (nat od + k) = ?ds ! (nat od + k)"
      by (rule ds'(4)) (use that(2) n in linarith)
    also have "\<dots> = ss ! (nat os + k)"
      using that(2) len fits nn n by (simp add: nth_append)
    finally show ?thesis using 0 by simp
  next
    case (Suc r')
    then show ?thesis using ds'(3) [of r' k] that by (simp add: algebra_simps)
  qed
  have other: "ds' ! j = ds ! j" if "int j < od \<or> od + int (Suc rows) * dl \<le> int j" for j
  proof -
    have j: "int j < od \<or> od + dl + X \<le> int j" using that unfolding step by linarith
    then have "int j < od + dl \<or> od + dl + int rows * dl \<le> int j" using n by (auto simp: XY)
    then have "ds' ! j = ?ds ! j" by (rule ds'(4))
    also have "\<dots> = ds ! j"
    proof (cases "int j < od")
      case True
      then show ?thesis using fits nn n by (simp add: nth_append)
    next
      case False
      then have "nat od + nat n \<le> j" using j nn n by linarith
      moreover have "length (take (nat od) ds) = nat od" "nat od + nat n \<le> length ds" using fits nn n by simp_all
      moreover have "\<not> j < nat od" "\<not> j - nat od < nat n" using calculation by linarith+
      ultimately show ?thesis by (simp only: nth_append len if_False) simp
    qed
    finally show ?thesis .
  qed
  show ?case using run ds'(2) rows other by blast
qed


section \<open>What always fails\<close>

lemma copy_packed_fails: "\<exists>e s'. copy_packed src s = (Inl e, s')"
  by (auto simp: copy_packed_def get_frame_def bindS_def split: sum.splits prod.splits)

text \<open>Only planar pictures can be copied: the other cases fall through to the assertion.\<close>

lemma copy_not_planar:
  assumes "emedia_type src = lazy_media_type_video" "pix_format fr \<notin> set planar"
  shows "\<exists>e s'. copy_frame src (fr, hp) = (Inl e, s')"
  using assms copy_packed_fails [of src]
  by (auto simp: copy_frame_def copy_video_def get_frame_def bindS_def Let_def split: sum.splits prod.splits)

text \<open>A copy of given planes is made into a buffer whose size is asked for after the reset: it has
  no bytes, and the first plane does not fit.\<close>

lemma memcpy_empty:
  assumes "0 < n" "hp ! b = Some []"
  shows "\<exists>e. memcpy (Some (b, 0)) src n hp = Inl e"
proof (cases "heap_read src n hp")
  case (Inr vs)
  then have "length vs = nat n"
    by (auto simp: heap_read_def bindE_Inr_iff split: option.splits if_splits)
  then show ?thesis using Inr assms by (auto simp: memcpy_def heap_write_def block_at_def)
qed (simp add: memcpy_def)

lemma fill_plane_overflows:
  assumes dims: "dims_ok w h" "0 < w * h" and fmt: "fmt \<in> set (planar @ biplanar @ packed3 @ packed4)" and o: "owned fr hp"
  shows "\<exists>e s'. fill_plane w h fmt sources pts False (fr, hp) = (Inl e, s')"
proof -
  let ?hp = "released fr hp"
  have clear: "owned (cleared\<lparr>bref := False\<rparr>) xs" "released (cleared\<lparr>bref := False\<rparr>) xs = xs" for xs
    by (simp_all add: owned_def cleared_def empty_frame_def plane_def released_def)
  obtain n where n: "plane_count fmt = Inr (int n)" "0 < n" "plane_size w h fmt 0 = Inr (plane_sizes fmt w h ! 0)"
    "0 < plane_sizes fmt w h ! 0"
  proof (rule that [of "length (plane_sizes fmt w h)"])
    show l: "0 < length (plane_sizes fmt w h)" by (simp add: plane_sizes_def)
    show "plane_count fmt = Inr (int (length (plane_sizes fmt w h)))" by (rule plane_sizes_ok(1) [OF dims(1) fmt])
    show "plane_size w h fmt 0 = Inr (plane_sizes fmt w h ! 0)" by (rule plane_sizes_ok(2) [OF dims(1) fmt l])
    have "plane_sizes fmt w h ! 0 \<in> {w * h, w * h * 3, w * h * 4}" by (simp add: plane_sizes_def)
    then show "0 < plane_sizes fmt w h ! 0" using dims(2) by auto
  qed
  have size: "frame_size (cleared\<lparr>bref := False\<rparr>) = Inr 0"
    by (simp add: frame_size_def cleared_def empty_frame_def samples_size_def lazy_media_type_none_def lazy_media_type_video_def)
  let ?fr = "cleared\<lparr>emedia_type := lazy_media_type_video, fr_width := of_int w, fr_height := of_int h,
    pix_format := fmt, timestamp := pts, bref := False\<rparr>"
  have "\<exists>fr'. picture fmt w h (Some (length ?hp, 0)) ?fr = Inr fr' \<and> plane 0 fr' = Some (length ?hp, 0)"
  proof -
    have l: "planes ?fr = [None, None, None, None]" "linesize ?fr = [0, 0, 0, 0]"
      by (simp_all add: cleared_def empty_frame_def eval_nat_numeral)
    note run = picture_run [OF dims(1) l, of fmt "length ?hp"]
    show ?thesis
      using fmt
    proof (cases fmt rule: format_cases)
      case planar
      show ?thesis by (rule exI, rule conjI, rule run(1) [OF planar(1)]) (simp add: plane_def)
    next
      case biplanar
      show ?thesis by (rule exI, rule conjI, rule run(2) [OF biplanar(1,2)]) (simp add: plane_def)
    next
      case packed3
      show ?thesis by (rule exI, rule conjI, rule run(3) [OF packed3(1-3)]) (simp add: plane_def)
    next
      case packed4
      show ?thesis by (rule exI, rule conjI, rule run(4) [OF packed4(1-4)]) (simp add: plane_def)
    qed
  qed
  then obtain fr' where p: "picture fmt w h (Some (length ?hp, 0)) ?fr = Inr fr'" "plane 0 fr' = Some (length ?hp, 0)" by blast
  have copies: "\<exists>e s'. copy_planes w h fmt (x # xs) 0 (fr', ?hp @ [Some []]) = (Inl e, s')" for x xs
  proof -
    obtain e where "memcpy (Some (length ?hp, 0)) (fst x) (plane_sizes fmt w h ! 0) (?hp @ [Some []]) = Inl e"
      using memcpy_empty [OF n(4)] by (metis nth_append_length)
    then show ?thesis by (cases x) (simp add: n(3) get_frame_def bindS_def p(2) on_heap_def)
  qed
  show ?thesis
  proof (cases "length sources < n")
    case True
    then show ?thesis
      by (simp add: fill_plane_def bindS_def reset_run [OF o] on_frame_def n(1))
  next
    case False
    then obtain x xs where "take n sources = x # xs" using n(2) by (cases "take n sources") auto
    then show ?thesis
      using False copies [of x xs] n(1) size p(1)
      by (simp add: fill_plane_def bindS_def reset_run [OF o] reset_run [OF clear(1)] clear(2) on_frame_def get_frame_def new_block_def heap_new_def
          fill_video_def) (auto split: sum.splits prod.splits)
  qed
qed

end
