(* ===== verification/FrameCopy.thy ===== *)
theory FrameCopy
  imports FrameFacts
begin

text \<open>
  Copies of planar pictures: every byte of every plane arrives, no access leaves its block, and
  the source is left as it is.
\<close>

definition plane_offset :: "32 word \<Rightarrow> int \<Rightarrow> int \<Rightarrow> nat \<Rightarrow> int" where
  "plane_offset fmt w h i = (if i = 0 then 0 else if (i = 1) = (fmt = FOURCC_I420) then w * h else w * h * 5 div 4)"

definition cols_of :: "int \<Rightarrow> nat \<Rightarrow> int" where
  "cols_of w i = (if i = 0 then w else w div 2)"

text \<open>A planar picture at the start of a block, as \<open>fill_video\<close> leaves it.\<close>

definition planar_frame :: "32 word \<Rightarrow> int \<Rightarrow> int \<Rightarrow> nat \<Rightarrow> lbframe \<Rightarrow> bool" where
  "planar_frame fmt w h b fr \<longleftrightarrow>
     pix_format fr = fmt \<and> fr_width fr = of_int w \<and> fr_height fr = of_int h
     \<and> (\<forall>i < 3. plane i fr = Some (b, plane_offset fmt w h i) \<and> line i fr = cols_of w i)"

lemma plane_area:
  assumes "dims_ok w h"
  shows "i = 0 \<Longrightarrow> rows_of h i * cols_of w i = w * h"
    "i \<noteq> 0 \<Longrightarrow> rows_of h i * cols_of w i \<le> w * h div 4"
  using half_areas(1) [of w h] assms
  by (simp_all add: rows_of_def cols_of_def dims_ok_def mult.commute)

lemma planar_inside:
  assumes "dims_ok w h" "i < 3"
  shows "0 \<le> plane_offset fmt w h i" "plane_offset fmt w h i + rows_of h i * cols_of w i \<le> w * h * 3 div 2"
proof -
  define a where "a = w * h"
  have a: "0 \<le> a" using dims_area(4) [OF assms(1)] by (simp add: a_def)
  note q = quarter_sizes [OF a]
  have cases: "i = 0 \<and> plane_offset fmt w h i = 0 \<and> rows_of h i * cols_of w i = a
    \<or> i \<noteq> 0 \<and> plane_offset fmt w h i \<in> {a, a * 5 div 4} \<and> rows_of h i * cols_of w i \<le> a div 4"
    using plane_area [OF assms(1), of i] by (simp add: plane_offset_def a_def)
  then show "0 \<le> plane_offset fmt w h i" using a q(1) by (elim disjE conjE insertE emptyE) simp_all
  show "plane_offset fmt w h i + rows_of h i * cols_of w i \<le> w * h * 3 div 2"
    unfolding a_def [symmetric] using cases q(2-6) a by (elim disjE conjE insertE emptyE) linarith+
qed

lemma planar_apart:
  assumes "dims_ok w h" "i < 3" "j < 3" "i \<noteq> j"
  shows "plane_offset fmt w h i + rows_of h i * cols_of w i \<le> plane_offset fmt w h j
    \<or> plane_offset fmt w h j + rows_of h j * cols_of w j \<le> plane_offset fmt w h i"
proof -
  define a where "a = w * h"
  have a: "0 \<le> a" using dims_area(4) [OF assms(1)] by (simp add: a_def)
  note q = quarter_sizes(1,2) [OF a]
  have area: "k \<noteq> 0 \<Longrightarrow> rows_of h k * cols_of w k \<le> a div 4" "rows_of h 0 * cols_of w 0 = a" for k
    using plane_area [OF assms(1)] by (simp_all add: a_def)
  have off: "plane_offset fmt w h 0 = 0"
    "k \<noteq> 0 \<Longrightarrow> plane_offset fmt w h k = (if (k = 1) = (fmt = FOURCC_I420) then a else a * 5 div 4)" for k
    by (simp_all add: plane_offset_def a_def)
  consider "i = 0" "j \<noteq> 0" | "j = 0" "i \<noteq> 0" | "i \<noteq> 0" "j \<noteq> 0" using assms(4) by (cases "i = 0"; cases "j = 0") auto
  then show ?thesis
  proof cases
    case 1
    then show ?thesis using off area(2) q(1) by simp
  next
    case 2
    then show ?thesis using off area(2) q(1) by simp
  next
    case 3
    then have "i = 1 \<and> j = 2 \<or> i = 2 \<and> j = 1" using assms(2-4) by linarith
    then show ?thesis using off(2) [OF 3(1)] off(2) [OF 3(2)] area(1) [OF 3(1)] area(1) [OF 3(2)] q(2)
      by (cases "fmt = FOURCC_I420"; elim disjE; simp)
  qed
qed

text \<open>The planes of a source, each in a block of its own, with lines at least as long as needed.\<close>

definition source_ok :: "32 word \<Rightarrow> int \<Rightarrow> int \<Rightarrow> lbframe \<Rightarrow> (nat \<Rightarrow> nat \<times> int \<times> byte list) \<Rightarrow> heap \<Rightarrow> bool" where
  "source_ok fmt w h src at hp \<longleftrightarrow>
     pix_format src = fmt \<and> fr_width src = of_int w \<and> fr_height src = of_int h \<and> emedia_type src = lazy_media_type_video
     \<and> (\<forall>i < 3. case at i of (s, off, bs) \<Rightarrow> plane i src = Some (s, off) \<and> s < length hp \<and> hp ! s = Some bs
          \<and> 0 \<le> off \<and> cols_of w i \<le> line i src
          \<and> (\<forall>r < nat (rows_of h i). off + int r * line i src + cols_of w i \<le> int (length bs)))"

text \<open>The bytes of one plane, row by row.\<close>

definition same_plane :: "int \<Rightarrow> int \<Rightarrow> nat \<Rightarrow> int \<times> int \<times> byte list \<Rightarrow> int \<times> int \<times> byte list \<Rightarrow> bool" where
  "same_plane w h i = (\<lambda>(doff, dline, ds) (soff, sline, ss).
     \<forall>r < nat (rows_of h i). \<forall>k < nat (cols_of w i).
       ds ! (nat (doff + int r * dline) + k) = ss ! (nat (soff + int r * sline) + k))"

lemma copy_plane_ok:
  assumes dims: "dims_ok w h" and i: "i < 3" and fr: "planar_frame fmt w h b fr"
    and src: "source_ok fmt w h src at hp" "at i = (s, off, bs)" "b \<noteq> s"
    and b: "b < length hp" "hp ! b = Some ds" "int (length ds) = w * h * 3 div 2"
  shows "\<exists>ds'. copy_plane i (nat (rows_of h i)) (cols_of w i) src (fr, hp) = (Inr (), (fr, hp[b := Some ds']))
     \<and> length ds' = length ds
     \<and> same_plane w h i (plane_offset fmt w h i, cols_of w i, ds') (off, line i src, bs)
     \<and> (\<forall>j. j < 3 \<longrightarrow> j \<noteq> i \<longrightarrow> same_plane w h j (plane_offset fmt w h j, cols_of w j, ds') (plane_offset fmt w h j, cols_of w j, ds))"
proof -
  have a: "0 \<le> w" "0 \<le> h" using dims by (auto simp: dims_ok_def)
  have rc: "0 \<le> rows_of h j" "0 \<le> cols_of w j" for j using a by (auto simp: rows_of_def cols_of_def)
  have s: "plane i src = Some (s, off)" "s < length hp" "hp ! s = Some bs" "0 \<le> off" "cols_of w i \<le> line i src"
    "\<And>r. r < nat (rows_of h i) \<Longrightarrow> off + int r * line i src + cols_of w i \<le> int (length bs)"
    using src(1,2) i by (auto simp: source_ok_def)
  have d: "plane i fr = Some (b, plane_offset fmt w h i)" "line i fr = cols_of w i"
    using fr i by (auto simp: planar_frame_def)
  have fit: "plane_offset fmt w h i + int (nat (rows_of h i)) * cols_of w i \<le> int (length ds)"
    using planar_inside(2) [OF dims i, of fmt] b(3) rc(1) [of i] by simp
  obtain ds' where ds': "copy_rows (nat (rows_of h i)) (cols_of w i) (Some (b, plane_offset fmt w h i), cols_of w i)
        (Some (s, off), line i src) hp = Inr (hp[b := Some ds'])" "length ds' = length ds"
    "\<forall>r < nat (rows_of h i). \<forall>k < nat (cols_of w i). ds' ! (nat (plane_offset fmt w h i + int r * cols_of w i) + k)
       = bs ! (nat (off + int r * line i src) + k)"
    "\<And>j. int j < plane_offset fmt w h i \<or> plane_offset fmt w h i + rows_of h i * cols_of w i \<le> int j \<Longrightarrow> ds' ! j = ds ! j"
    using copy_rows_ok [where rows = "nat (rows_of h i)",
        OF src(3) s(2,3) b(1,2) rc(2) order.refl s(5) planar_inside(1) [OF dims i] s(4) fit s(6)] rc(1) [of i]
    by (simp only: int_nat_eq if_True) blast
  have other: "same_plane w h j (plane_offset fmt w h j, cols_of w j, ds') (plane_offset fmt w h j, cols_of w j, ds)"
    if "j < 3" "j \<noteq> i" for j
  proof -
    have "ds' ! (nat (plane_offset fmt w h j + int r * cols_of w j) + k) = ds ! (nat (plane_offset fmt w h j + int r * cols_of w j) + k)"
      if r: "r < nat (rows_of h j)" and k: "k < nat (cols_of w j)" for r k
    proof (rule ds'(4))
      let ?o = "plane_offset fmt w h j" and ?x = "int r * cols_of w j"
      have o: "0 \<le> ?o" by (rule planar_inside(1) [OF dims \<open>j < 3\<close>])
      have "(int r + 1) * cols_of w j \<le> rows_of h j * cols_of w j" using r rc by (intro mult_right_mono) auto
      then have "?x + cols_of w j \<le> rows_of h j * cols_of w j" by (simp add: algebra_simps)
      moreover have "0 \<le> ?x" using rc by simp
      ultimately have "?o \<le> int (nat (?o + ?x) + k)" "int (nat (?o + ?x) + k) < ?o + rows_of h j * cols_of w j"
        using o k by linarith+
      then show "int (nat (?o + ?x) + k) < plane_offset fmt w h i
          \<or> plane_offset fmt w h i + rows_of h i * cols_of w i \<le> int (nat (?o + ?x) + k)"
        using planar_apart [OF dims \<open>j < 3\<close> i \<open>j \<noteq> i\<close>, of fmt] by linarith
    qed
    then show ?thesis by (simp add: same_plane_def)
  qed
  show ?thesis
  proof (intro exI conjI)
    show "copy_plane i (nat (rows_of h i)) (cols_of w i) src (fr, hp) = (Inr (), (fr, hp[b := Some ds']))"
      using ds'(1) d s(1) by (simp add: copy_plane_def on_heap_def)
    show "same_plane w h i (plane_offset fmt w h i, cols_of w i, ds') (off, line i src, bs)"
      using ds'(3) by (simp add: same_plane_def)
  qed (use ds'(2) other in auto)
qed

lemma same_plane_trans: "same_plane w h i x y \<Longrightarrow> same_plane w h i y z \<Longrightarrow> same_plane w h i x z"
  by (cases x; cases y; cases z) (simp add: same_plane_def)

lemma source_ok_update:
  "source_ok fmt w h src at hp \<Longrightarrow> \<forall>i < 3. fst (at i) \<noteq> b \<Longrightarrow> source_ok fmt w h src at (hp[b := x])"
  by (fastforce simp: source_ok_def split: prod.splits)

lemma unat_of_int: "0 \<le> n \<Longrightarrow> n < 2 ^ 31 \<Longrightarrow> unat (of_int n :: 32 word) = nat n"
  using uint_of_int [of n] by (simp add: unat_eq_nat_uint)

lemma sint_of_int: "0 \<le> n \<Longrightarrow> n < 2 ^ 31 \<Longrightarrow> sint (of_int n :: 32 word) = n"
  by (simp add: sint_word_ariths signed_of_int signed_take_bit_int_eq_self)

text \<open>The three planes one after the other.\<close>

lemma copy_three_planes:
  assumes dims: "dims_ok w h" and fr: "planar_frame fmt w h b fr"
    and src: "source_ok fmt w h src at hp" "\<forall>i < 3. fst (at i) \<noteq> b"
    and b: "b < length hp" "hp ! b = Some ds" "int (length ds) = w * h * 3 div 2"
  shows "\<exists>h1 h2 ds'. copy_plane 0 (nat h) w src (fr, hp) = (Inr (), (fr, h1))
     \<and> copy_plane 1 (nat h div 2) (w div 2) src (fr, h1) = (Inr (), (fr, h2))
     \<and> copy_plane 2 (nat h div 2) (w div 2) src (fr, h2) = (Inr (), (fr, hp[b := Some ds']))
     \<and> length ds' = length ds
     \<and> (\<forall>i < 3. same_plane w h i (plane_offset fmt w h i, cols_of w i, ds')
          (fst (snd (at i)), line i src, snd (snd (at i))))"
proof -
  have lt: "0 < (3 :: nat)" "1 < (3 :: nat)" "2 < (3 :: nat)" by simp_all
  have at: "at i = (fst (at i), fst (snd (at i)), snd (snd (at i)))" for i by simp
  have ne: "b \<noteq> fst (at i)" if "i < 3" for i using src(2) that by metis
  let ?same = "\<lambda>i ds'. same_plane w h i (plane_offset fmt w h i, cols_of w i, ds') (fst (snd (at i)), line i src, snd (snd (at i)))"
  let ?keep = "\<lambda>i ds2 ds1. \<forall>j. j < 3 \<longrightarrow> j \<noteq> i \<longrightarrow> same_plane w h j (plane_offset fmt w h j, cols_of w j, ds2) (plane_offset fmt w h j, cols_of w j, ds1)"
  obtain d0 where d0: "copy_plane 0 (nat (rows_of h 0)) (cols_of w 0) src (fr, hp) = (Inr (), (fr, hp[b := Some d0]))"
    "length d0 = length ds" "?same 0 d0"
    using copy_plane_ok [OF dims lt(1) fr src(1) at ne [OF lt(1)] b] by auto
  have b1: "b < length (hp[b := Some d0])" "hp[b := Some d0] ! b = Some d0" "int (length d0) = w * h * 3 div 2"
    using b d0(2) by simp_all
  obtain d1 where d1: "copy_plane 1 (nat (rows_of h 1)) (cols_of w 1) src (fr, hp[b := Some d0]) = (Inr (), (fr, hp[b := Some d1]))"
    "length d1 = length d0" "?same 1 d1" "?keep 1 d1 d0"
    using copy_plane_ok [OF dims lt(2) fr source_ok_update [OF src] at ne [OF lt(2)] b1] by auto
  have b2: "b < length (hp[b := Some d1])" "hp[b := Some d1] ! b = Some d1" "int (length d1) = w * h * 3 div 2"
    using b d0(2) d1(2) by simp_all
  obtain d2 where d2: "copy_plane 2 (nat (rows_of h 2)) (cols_of w 2) src (fr, hp[b := Some d1]) = (Inr (), (fr, hp[b := Some d2]))"
    "length d2 = length d1" "?same 2 d2" "?keep 2 d2 d1"
    using copy_plane_ok [OF dims lt(3) fr source_ok_update [OF src] at ne [OF lt(3)] b2] by auto
  have "same_plane w h 0 (plane_offset fmt w h 0, cols_of w 0, d2) (plane_offset fmt w h 0, cols_of w 0, d1)"
    "same_plane w h 0 (plane_offset fmt w h 0, cols_of w 0, d1) (plane_offset fmt w h 0, cols_of w 0, d0)"
    using d2(4) [rule_format, of 0] d1(4) [rule_format, of 0] by simp_all
  then have "?same 0 d2" using d0(3) by (blast intro: same_plane_trans)
  moreover have "same_plane w h 1 (plane_offset fmt w h 1, cols_of w 1, d2) (plane_offset fmt w h 1, cols_of w 1, d1)"
    using d2(4) [rule_format, of 1] by simp
  then have "?same 1 d2" using d1(3) by (blast intro: same_plane_trans)
  ultimately have same: "?same i d2" if "i < 3" for i
    using that d2(3) by (auto simp: less_Suc_eq numeral_3_eq_3 numeral_2_eq_2)
  have rows: "nat (rows_of h 0) = nat h" "nat (rows_of h 1) = nat h div 2" "nat (rows_of h 2) = nat h div 2"
    "cols_of w 0 = w" "cols_of w 1 = w div 2" "cols_of w 2 = w div 2"
    using dims by (simp_all add: rows_of_def cols_of_def nat_div_distrib dims_ok_def)
  have "length d2 = length ds" using d0(2) d1(2) d2(2) by simp
  then show ?thesis
    using d0(1) [unfolded rows] d1(1) [unfolded rows] d2(1) [unfolded rows] same by fastforce
qed

lemma copy_video_ok:
  assumes dims: "dims_ok w h" and fmt: "fmt \<in> set planar" and fr: "planar_frame fmt w h b fr"
    and src: "source_ok fmt w h src at hp" "\<forall>i < 3. fst (at i) \<noteq> b"
    and b: "b < length hp" "hp ! b = Some ds" "int (length ds) = w * h * 3 div 2"
  shows "\<exists>ds'. copy_video src (fr, hp) = (Inr 0, (fr, hp[b := Some ds'])) \<and> length ds' = length ds
     \<and> (\<forall>i < 3. same_plane w h i (plane_offset fmt w h i, cols_of w i, ds')
          (fst (snd (at i)), line i src, snd (snd (at i))))"
proof -
  obtain h1 h2 ds' where d: "copy_plane 0 (nat h) w src (fr, hp) = (Inr (), (fr, h1))"
    "copy_plane 1 (nat h div 2) (w div 2) src (fr, h1) = (Inr (), (fr, h2))"
    "copy_plane 2 (nat h div 2) (w div 2) src (fr, h2) = (Inr (), (fr, hp[b := Some ds']))"
    "length ds' = length ds" "\<forall>i < 3. same_plane w h i (plane_offset fmt w h i, cols_of w i, ds')
          (fst (snd (at i)), line i src, snd (snd (at i)))"
    using copy_three_planes [OF dims fr src b] by blast
  have a: "0 \<le> w" "0 \<le> h" "w < 2 ^ 31" "h < 2 ^ 31" using dims by (auto simp: dims_ok_def)
  have m: "pix_format fr = fmt" "fr_width fr = of_int w" "fr_height fr = of_int h" "plane 0 fr \<noteq> None"
    "pix_format src = fmt" "fr_width src = of_int w" "fr_height src = of_int h"
    using fr src(1) by (simp_all add: planar_frame_def source_ok_def)
  have "copy_video src (fr, hp) = (Inr 0, (fr, hp[b := Some ds']))"
    using m fmt a d(1-3)
    by (simp add: copy_video_def get_frame_def Let_def unat_of_int uint_of_int bindS_def)
  then show ?thesis using d(4,5) by blast
qed

lemma picture_planar:
  assumes "dims_ok w h" "fmt \<in> set planar" "length (planes fr) = 4" "length (linesize fr) = 4"
    and "pix_format fr = fmt" "fr_width fr = of_int w" "fr_height fr = of_int h"
  shows "\<exists>fr'. picture fmt w h (Some (b, 0)) fr = Inr fr' \<and> planar_frame fmt w h b fr'"
proof -
  obtain p0 p1 p2 p3 l0 l1 l2 l3 where l: "planes fr = [p0, p1, p2, p3]" "linesize fr = [l0, l1, l2, l3]"
    using assms(3,4) by (elim four_cases)
  have u: "uint (of_int w :: 32 word) = w" "uint (of_int (w div 2) :: 32 word) = w div 2"
    using assms(1) by (auto simp: dims_ok_def intro!: uint_of_int)
  show ?thesis
    by (rule exI, rule conjI, rule picture_run(1) [OF assms(1) l assms(2)])
      (auto simp: assms(5-7) u planar_frame_def plane_def line_def plane_offset_def cols_of_def less_Suc_eq numeral_3_eq_3 numeral_2_eq_2)
qed

lemma owned_cleared: "owned cleared hp" "owned empty_frame hp" "plane 0 cleared = None" "released cleared hp = hp"
    "released empty_frame hp = hp"
  by (simp_all add: owned_def cleared_def empty_frame_def plane_def released_def)

lemma clone_planar_buffer:
  assumes "dims_ok w h" "fmt \<in> set planar"
  shows "\<exists>fr ds. clone_video fmt w h None pts (cleared, hp) = (Inr 0, (fr, hp @ [Some ds]))
    \<and> planar_frame fmt w h (length hp) fr \<and> int (length ds) = w * h * 3 div 2"
proof -
  have f: "fmt \<in> set (planar @ biplanar @ packed3 @ packed4)" using assms(2) by simp
  have n: "buffer_size fmt w h = w * h * 3 div 2" "format_size fmt w h = Inr (w * h * 3 div 2)" "0 \<le> w * h * 3 div 2"
    using buffer_size_ok [OF assms(1) f] assms(2) by (simp_all add: buffer_size_def)
  let ?ds = "replicate (nat (w * h * 3 div 2)) (Some 0)"
  let ?fr = "cleared\<lparr>emedia_type := lazy_media_type_video, fr_width := of_int w, fr_height := of_int h,
    pix_format := fmt, timestamp := pts, bref := False\<rparr>"
  obtain fr where fr: "picture fmt w h (Some (length hp, 0)) ?fr = Inr fr" "planar_frame fmt w h (length hp) fr"
    using picture_planar [OF assms, of ?fr "length hp"] by (auto simp: cleared_def empty_frame_def)
  have "clone_video fmt w h None pts (cleared, hp) = (Inr 0, (fr, hp @ [Some ?ds]))"
    using n fr by (simp add: clone_video_def bindS_def new_block_def heap_new_def on_heap_def memset_new
        fill_video_def reset_run owned_cleared on_frame_def get_frame_def)
  then show ?thesis using fr(2) n(3) by auto
qed

lemma source_ok_append: "source_ok fmt w h src at hp \<Longrightarrow> source_ok fmt w h src at (hp @ xs)"
  by (fastforce simp: source_ok_def nth_append split: prod.splits)

lemma clone_planar:
  assumes dims: "dims_ok w h" and fmt: "fmt \<in> set planar" and src: "source_ok fmt w h src at hp"
  shows "\<exists>fr ds. clone_frame src (empty_frame, hp) = (Inr 0, (fr, hp @ [Some ds]))
    \<and> planar_frame fmt w h (length hp) fr \<and> int (length ds) = w * h * 3 div 2
    \<and> (\<forall>i < 3. same_plane w h i (plane_offset fmt w h i, cols_of w i, ds) (fst (snd (at i)), line i src, snd (snd (at i))))"
proof -
  obtain fr ds where c: "clone_video fmt w h None (timestamp src) (cleared, hp) = (Inr 0, (fr, hp @ [Some ds]))"
    "planar_frame fmt w h (length hp) fr" "int (length ds) = w * h * 3 div 2"
    using clone_planar_buffer [OF dims fmt] by blast
  have ne: "\<forall>i < 3. fst (at i) \<noteq> length hp" proof (intro allI impI)
    fix i :: nat assume "i < 3"
    then show "fst (at i) \<noteq> length hp" using src by (cases "at i") (auto simp: source_ok_def)
  qed
  obtain ds' where d: "copy_video src (fr, hp @ [Some ds]) = (Inr 0, (fr, (hp @ [Some ds])[length hp := Some ds']))"
    "length ds' = length ds"
    "\<forall>i < 3. same_plane w h i (plane_offset fmt w h i, cols_of w i, ds') (fst (snd (at i)), line i src, snd (snd (at i)))"
    using copy_video_ok [OF dims fmt c(2) source_ok_append [OF src, of "[Some ds]"] ne, of ds] c(3) by auto
  have m: "pix_format src = fmt" "sint (fr_width src) = w" "sint (fr_height src) = h" "emedia_type src = lazy_media_type_video"
    using src dims by (simp_all add: source_ok_def dims_ok_def sint_of_int)
  have p0: "plane 0 empty_frame = None" by (simp add: empty_frame_def plane_def)
  have "clone_frame src (empty_frame, hp) = (Inr 0, (fr, hp @ [Some ds']))"
    using m c(1) d(1)
    by (simp add: clone_frame_def copy_frame_def get_frame_def bindS_def p0 reset_run owned_cleared)
  then show ?thesis using c(2,3) d(2,3) by auto
qed
end
