(* ===== verification/FrameProps.thy ===== *)
theory FrameProps
  imports FrameCopy
begin

text \<open>
  The properties of frames.
\<close>



text \<open>C13: cloning a planar picture into a new frame succeeds when the lines of the source are at
  least as long as its rows and its blocks hold them: no access leaves a block, the blocks of the
  source are as before, and the new block has, for every plane, row and column, the byte of the
  source.\<close>

theorem planar_clone_exact:
  assumes "dims_ok w h" "fmt \<in> set planar" "source_ok fmt w h src at hp"
  shows "\<exists>fr ds. clone_frame src (empty_frame, hp) = (Inr 0, (fr, hp @ [Some ds]))
    \<and> planar_frame fmt w h (length hp) fr \<and> int (length ds) = w * h * 3 div 2
    \<and> (\<forall>i < 3. same_plane w h i (plane_offset fmt w h i, cols_of w i, ds) (fst (snd (at i)), line i src, snd (snd (at i))))"
  using assms by (rule clone_planar)

text \<open>A picture of 2 by 2 with lines of four bytes, its planes in two blocks.\<close>

definition sample_heap :: heap where
  "sample_heap = [Some (map Some [1, 2, 0, 0, 3, 4, 0, 0]), Some (map Some [5, 0, 0, 0, 6, 0, 0, 0])]"

definition sample_picture :: lbframe where
  "sample_picture = empty_frame\<lparr>pix_format := FOURCC_I420, fr_width := 2, fr_height := 2,
     planes := [Some (0, 0), Some (1, 0), Some (1, 4), None], linesize := [4, 4, 4, 0]\<rparr>"

definition sample_planes :: "nat \<Rightarrow> nat \<times> int \<times> byte list" where
  "sample_planes i = (if i = 0 then 0 else 1, if i = 2 then 4 else 0,
     if i = 0 then map Some [1, 2, 0, 0, 3, 4, 0, 0] else map Some [5, 0, 0, 0, 6, 0, 0, 0])"

theorem planar_clone_exact_witness:
  "\<exists>fr ds. clone_frame sample_picture (empty_frame, sample_heap) = (Inr 0, (fr, sample_heap @ [Some ds])) \<and> length ds = 6"
proof -
  have "source_ok FOURCC_I420 2 2 sample_picture sample_planes sample_heap"
    by (simp add: source_ok_def sample_picture_def sample_planes_def sample_heap_def empty_frame_def plane_def line_def
        rows_of_def cols_of_def less_Suc_eq numeral_3_eq_3 lazy_media_type_video_def)
  moreover have "dims_ok 2 2" "FOURCC_I420 \<in> set planar" by code_simp+
  ultimately show ?thesis using planar_clone_exact by fastforce
qed

end
