(* ===== verification/Steps.thy ===== *)
theory Steps
  imports Prelude
begin

text \<open>
  Step relations: what a property that every step keeps gives for runs. The machines of the web
  socket, of the threads and of the capture are interpretations.
\<close>

text \<open>A property that a step does not lose.\<close>

locale closed_under =
  fixes step :: "'s \<Rightarrow> 's \<Rightarrow> bool" and P :: "'s \<Rightarrow> bool"
  assumes closed: "step s s' \<Longrightarrow> P s \<Longrightarrow> P s'"
begin

lemma closed_run: "step\<^sup>*\<^sup>* s s' \<Longrightarrow> P s \<Longrightarrow> P s'"
  by (induction rule: rtranclp_induct) (auto intro: closed)

text \<open>What holds of a run and its states holds as long as the property does.\<close>

lemma closed_all: "P s \<Longrightarrow> (\<And>t. P t \<Longrightarrow> Q t) \<Longrightarrow> \<forall>s'. step\<^sup>*\<^sup>* s s' \<longrightarrow> Q s'"
  using closed_run by blast

end

text \<open>A machine with a first state and an invariant.\<close>

locale step_system = closed_under step inv for step :: "'s \<Rightarrow> 's \<Rightarrow> bool" and inv :: "'s \<Rightarrow> bool" +
  fixes first :: 's
  assumes inv_first: "inv first"
begin

lemma invariant: "step\<^sup>*\<^sup>* first s \<Longrightarrow> inv s"
  using closed_run inv_first by blast

end

lemma run_step: "r\<^sup>*\<^sup>* a b \<Longrightarrow> r b c \<Longrightarrow> r\<^sup>*\<^sup>* a c"
  by (rule rtranclp.rtrancl_into_rtrancl)

end
