(* ===== verification/LazyThread.thy ===== *)
theory LazyThread
  imports Steps
begin

text \<open>
  Threads (\<open>mssdk/lazyutil/lazythread.h\<close>): the life of \<open>LazyThread\<close> as a step relation between
  the caller of \<open>Run\<close> and \<open>Stop\<close> and the threads it has created. The flags \<open>m_bRun\<close> and
  \<open>m_bExit\<close> are plain integers that both sides read and write; a step is one access.
\<close>

section \<open>States\<close>

text \<open>The caller holds the lock while it waits. A worker has been created, runs \<open>ThreadProc\<close>, has
  returned from it, has cleared \<open>m_bRun\<close>, and is done when it has set \<open>m_bExit\<close>.\<close>

datatype caller = Idle | Waiting
datatype worker = Created | Running | Returned | Cleared | Done

record lazy_thread =
  m_bRun :: bool
  m_bExit :: bool
  caller :: caller
  workers :: "worker list"

definition LazyThread :: lazy_thread where
  "LazyThread = \<lparr>m_bRun = False, m_bExit = False, caller = Idle, workers = []\<rparr>"

section \<open>Operations\<close>

text \<open>\<open>Run\<close> creates a thread unless the flag is set. \<open>Stop\<close> clears the flag and waits; without
  the flag it returns at once. \<open>Stop_check\<close> is a turn of its loop.\<close>

definition Create :: "lazy_thread \<Rightarrow> int \<times> lazy_thread" where
  "Create s = (if \<not> m_bRun s then (0, s\<lparr>workers := workers s @ [Created]\<rparr>) else (- 1, s))"

definition Run :: "lazy_thread \<Rightarrow> int \<times> lazy_thread" where
  "Run s = (if \<not> m_bRun s then (case Create s of (ret, s') \<Rightarrow> (ret, s'\<lparr>m_bRun := True\<rparr>)) else (0, s))"

definition Stop :: "lazy_thread \<Rightarrow> lazy_thread" where
  "Stop s = (if m_bRun s then s\<lparr>m_bRun := False, caller := Waiting\<rparr> else s)"

definition Stop_check :: "lazy_thread \<Rightarrow> lazy_thread" where
  "Stop_check s = (if m_bExit s then s\<lparr>caller := Idle\<rparr> else s)"

definition IsAlive :: "lazy_thread \<Rightarrow> bool" where
  "IsAlive s = m_bRun s"

text \<open>\<open>InitThreadProc\<close> of the worker \<open>i\<close>: it sets the flag, runs \<open>ThreadProc\<close> when
  \<open>OnThreadStart\<close> returns zero, clears the flag and sets \<open>m_bExit\<close>. \<open>m_bExit\<close> is never reset.\<close>

definition worker_begin :: "nat \<Rightarrow> bool \<Rightarrow> lazy_thread \<Rightarrow> lazy_thread" where
  "worker_begin i started s = s\<lparr>m_bRun := True, workers := (workers s)[i := if started then Running else Returned]\<rparr>"

definition worker_clear :: "nat \<Rightarrow> lazy_thread \<Rightarrow> lazy_thread" where
  "worker_clear i s = s\<lparr>m_bRun := False, workers := (workers s)[i := Cleared]\<rparr>"

definition worker_exit :: "nat \<Rightarrow> lazy_thread \<Rightarrow> lazy_thread" where
  "worker_exit i s = s\<lparr>m_bExit := True, workers := (workers s)[i := Done]\<rparr>"

text \<open>\<open>LazyTimer::ThreadProc\<close> loops while the thread is alive: its only way out is the flag.\<close>

definition timer_turn :: "nat \<Rightarrow> lazy_thread \<Rightarrow> lazy_thread" where
  "timer_turn i s = (if IsAlive s then s else s\<lparr>workers := (workers s)[i := Returned]\<rparr>)"

text \<open>The next call of a timer: \<open>due\<close> says whether the interval has passed since the last call,
  or the call has been asked for at once; otherwise the thread sleeps.\<close>

definition timer_due :: "int \<Rightarrow> int \<Rightarrow> int \<Rightarrow> bool \<Rightarrow> bool" where
  "timer_due now last_timestamp interval_ms bexec_immediately \<longleftrightarrow>
     \<not> (now - last_timestamp < interval_ms \<and> \<not> bexec_immediately)"

definition timer_sleep :: "int \<Rightarrow> int" where
  "timer_sleep interval_ms = (if interval_ms > 20 then 20 else interval_ms)"

section \<open>Steps\<close>

inductive thread_step :: "lazy_thread \<Rightarrow> lazy_thread \<Rightarrow> bool" where
  run: "caller s = Idle \<Longrightarrow> thread_step s (snd (Run s))"
| stop: "caller s = Idle \<Longrightarrow> thread_step s (Stop s)"
| check: "caller s = Waiting \<Longrightarrow> thread_step s (Stop_check s)"
| begins: "i < length (workers s) \<Longrightarrow> workers s ! i = Created \<Longrightarrow> thread_step s (worker_begin i started s)"
| turn: "i < length (workers s) \<Longrightarrow> workers s ! i = Running \<Longrightarrow> thread_step s (timer_turn i s)"
| clears: "i < length (workers s) \<Longrightarrow> workers s ! i = Returned \<Longrightarrow> thread_step s (worker_clear i s)"
| exits: "i < length (workers s) \<Longrightarrow> workers s ! i = Cleared \<Longrightarrow> thread_step s (worker_exit i s)"

inductive thread_reachable :: "lazy_thread \<Rightarrow> bool" where
  start: "thread_reachable LazyThread"
| step: "thread_reachable s \<Longrightarrow> thread_step s s' \<Longrightarrow> thread_reachable s'"

inductive_cases thread_stepE: "thread_step s s'"

section \<open>The first run\<close>

text \<open>While there is at most one worker, \<open>m_bExit\<close> says that it is done.\<close>

definition single_ok :: "lazy_thread \<Rightarrow> bool" where
  "single_ok s \<longleftrightarrow> (workers s = [] \<longrightarrow> \<not> m_bRun s \<and> \<not> m_bExit s \<and> caller s = Idle)
     \<and> (\<forall>w. workers s = [w] \<longrightarrow> (m_bExit s \<longleftrightarrow> w = Done))"

lemma workers_grow: "thread_step s s' \<Longrightarrow> length (workers s) \<le> length (workers s')"
  by (erule thread_stepE)
    (auto simp: Run_def Create_def Stop_def Stop_check_def worker_begin_def timer_turn_def worker_clear_def worker_exit_def)

lemma single_step:
  assumes "thread_step s s'" "single_ok s" "length (workers s) \<le> 1"
  shows "length (workers s') \<le> 1 \<longrightarrow> single_ok s'"
  using assms
  by cases
    (auto simp: single_ok_def Run_def Create_def Stop_def Stop_check_def worker_begin_def timer_turn_def
      worker_clear_def worker_exit_def le_Suc_eq length_Suc_conv)

lemma single_reachable: "thread_reachable s \<Longrightarrow> length (workers s) \<le> 1 \<longrightarrow> single_ok s"
proof (induction rule: thread_reachable.induct)
  case start
  then show ?case by (simp add: single_ok_def LazyThread_def)
next
  case (step s s')
  then show ?case using single_step workers_grow by (meson order.trans)
qed

lemma stop_returns_done:
  assumes "thread_reachable s" "length (workers s) = 1" "caller s = Waiting" "thread_step s s'" "caller s' = Idle"
  shows "workers s' = [Done]"
proof -
  have ok: "single_ok s" using single_reachable [OF assms(1)] assms(2) by simp
  have "s' = Stop_check s"
    using assms(4,3,5) by cases (auto simp: worker_begin_def timer_turn_def worker_clear_def worker_exit_def split: if_splits)
  then have "m_bExit s" "workers s' = workers s" using assms(3,5) by (auto simp: Stop_check_def split: if_splits)
  then show ?thesis using ok assms(2) by (auto simp: single_ok_def length_Suc_conv)
qed

section \<open>Races\<close>

text \<open>The thread that begins after \<open>Stop\<close> has cleared the flag sets it again.\<close>

definition hung :: lazy_thread where
  "hung = \<lparr>m_bRun = True, m_bExit = False, caller = Waiting, workers = [Running]\<rparr>"

definition overtaken :: lazy_thread where
  "overtaken = \<lparr>m_bRun = False, m_bExit = True, caller = Idle, workers = [Done, Running]\<rparr>"

lemmas thread_ops = Run_def Create_def Stop_def Stop_check_def worker_begin_def timer_turn_def worker_clear_def
  worker_exit_def IsAlive_def LazyThread_def

lemma hung_reachable: "thread_reachable hung"
proof -
  let ?s1 = "snd (Run LazyThread)" and ?s2 = "Stop (snd (Run LazyThread))"
  have "thread_reachable ?s1" by (rule step [OF start run]) (simp add: LazyThread_def)
  then have "thread_reachable ?s2" by (rule step [OF _ stop]) (simp add: thread_ops)
  moreover have "worker_begin 0 True ?s2 = hung" by (simp add: thread_ops hung_def)
  moreover have "thread_step ?s2 (worker_begin 0 True ?s2)" by (rule begins) (simp_all add: thread_ops)
  ultimately show ?thesis using step by metis
qed

lemma hung_stays: "thread_step hung s \<Longrightarrow> s = hung"
  by (erule thread_stepE) (auto simp: hung_def thread_ops)

interpretation hanging: closed_under thread_step "\<lambda>s. s = hung"
  by unfold_locales (auto dest: hung_stays)

lemma hung_forever: "thread_step\<^sup>*\<^sup>* hung s \<Longrightarrow> s = hung"
  by (rule hanging.closed_run) simp_all

text \<open>The first run to its end, and the second one: its \<open>Stop\<close> finds \<open>m_bExit\<close> set.\<close>

definition second_stop :: lazy_thread where
  "second_stop = \<lparr>m_bRun = False, m_bExit = True, caller = Waiting, workers = [Done, Running]\<rparr>"


definition stopped_once :: lazy_thread where
  "stopped_once = \<lparr>m_bRun = False, m_bExit = True, caller = Idle, workers = [Done]\<rparr>"

lemma stopped_once_reachable: "thread_reachable stopped_once"
proof -
  let ?a = "\<lparr>m_bRun = True, m_bExit = False, caller = Idle, workers = [Created]\<rparr>"
  let ?b = "?a\<lparr>workers := [Running]\<rparr>" and ?c = "\<lparr>m_bRun = False, m_bExit = False, caller = Waiting, workers = [Running]\<rparr>"
  have "thread_reachable ?a" using step [OF start run] by (simp add: thread_ops)
  then have "thread_reachable ?b" using step [OF _ begins [of 0 _ True]] by (force simp: thread_ops)
  then have "thread_reachable ?c" using step [OF _ stop] by (force simp: thread_ops)
  then have "thread_reachable (?c\<lparr>workers := [Returned]\<rparr>)" using step [OF _ turn [of 0]] by (force simp: thread_ops)
  then have "thread_reachable (?c\<lparr>workers := [Cleared]\<rparr>)" using step [OF _ clears [of 0]] by (force simp: thread_ops)
  then have "thread_reachable (?c\<lparr>workers := [Done], m_bExit := True\<rparr>)" using step [OF _ exits [of 0]] by (force simp: thread_ops)
  then show ?thesis using step [OF _ check] by (force simp: thread_ops stopped_once_def)
qed

lemma second_stop_reachable: "thread_reachable second_stop"
proof -
  let ?a = "\<lparr>m_bRun = True, m_bExit = True, caller = Idle, workers = [Done, Created]\<rparr>"
  have "thread_reachable ?a" using step [OF stopped_once_reachable run] by (simp add: thread_ops stopped_once_def)
  then have "thread_reachable (?a\<lparr>workers := [Done, Running]\<rparr>)" using step [OF _ begins [of 1 _ True]] by (force simp: thread_ops)
  then show ?thesis using step [OF _ stop] by (force simp: thread_ops second_stop_def)
qed

lemma second_stop_returns: "thread_step second_stop overtaken"
  using check [of second_stop] by (simp add: thread_ops second_stop_def overtaken_def)

end
