(* ===== verification/LazyThreadProps.thy ===== *)
theory LazyThreadProps
  imports LazyThread
begin

text \<open>
  The property of threads.
\<close>





end
