(* ===== verification/Crop.thy ===== *)
theory Crop
  imports FrameCopy
begin

text \<open>
  Cropping a frame (\<open>lazyscale::crop\<close> in \<open>mssdk/lazyutil/lbscale.h\<close>): the part of the picture is
  copied into a new block, which the frame then owns.
\<close>

section \<open>The operation\<close>

text \<open>\<open>x - x % 2\<close>\<close>

definition even_part :: "int \<Rightarrow> int" where
  "even_part x = cdiv x 2 * 2"

text \<open>The width that is left, in 32 bits without sign and read as an \<open>int\<close>.\<close>

definition crop_side :: "32 word \<Rightarrow> int \<Rightarrow> int \<Rightarrow> int" where
  "crop_side side off wanted = (let left = sint (side - of_int off) in even_part (if left > wanted then wanted else left))"

text \<open>The offsets \<open>crop_y * pframe->_width + crop_x\<close>, and the same for a plane of chroma: the product
  is without sign.\<close>

definition luma_start :: "32 word \<Rightarrow> int \<Rightarrow> int \<Rightarrow> int" where
  "luma_start width x y = uint (of_int y * width) + x"

definition chroma_start :: "32 word \<Rightarrow> int \<Rightarrow> int \<Rightarrow> int" where
  "chroma_start width x y = uint (of_int y * width div 4) + cdiv x 2"

definition drop_old :: "lbframe \<Rightarrow> unit frame_op" where
  "drop_old old = (if bref old then returnS () else on_heap (heap_delete (plane 0 old)))"

definition part_planes :: "ptr \<Rightarrow> ptr \<Rightarrow> ptr \<Rightarrow> int \<Rightarrow> int \<Rightarrow> lbframe \<Rightarrow> lbframe" where
  "part_planes new second third cw cols fr = set_line 2 cols (set_line 1 cols (set_line 0 cw
     (if pix_format fr = FOURCC_I420 then set_plane 2 third (set_plane 1 second (set_plane 0 new fr))
      else set_plane 1 third (set_plane 2 second (set_plane 0 new fr)))))"

definition crop_planar :: "int \<Rightarrow> int \<Rightarrow> int \<Rightarrow> int \<Rightarrow> lbframe \<Rightarrow> unit frame_op" where
  "crop_planar x y cw ch old =
     bindS (liftS (area32 cw ch 3)) (\<lambda>a3.
     bindS (liftS (area32 cw ch 5)) (\<lambda>a5.
     bindS (new_block (cdiv a3 2)) (\<lambda>new.
     let second = ptr_add new (cw * ch); third = ptr_add new (cdiv a5 4);
         cols = cdiv cw 2; rows = nat (cdiv ch 2); start = chroma_start (fr_width old) x y in
     bindS (on_heap (copy_rows (nat ch) cw (new, cw) (ptr_add (plane 0 old) (luma_start (fr_width old) x y), line 0 old))) (\<lambda>_.
     bindS (on_heap (copy_rows rows cols (second, cols) (ptr_add (plane 1 old) start, line 1 old))) (\<lambda>_.
     bindS (on_heap (copy_rows rows cols (third, cols) (ptr_add (plane 2 old) start, line 2 old))) (\<lambda>_.
     bindS (on_frame (part_planes new second third cw cols)) (\<lambda>_.
     drop_old old)))))))"

text \<open>The rows of the second plane are read behind those of the first, and written to lines of
  half their length.\<close>

definition crop_biplanar :: "int \<Rightarrow> int \<Rightarrow> int \<Rightarrow> int \<Rightarrow> lbframe \<Rightarrow> unit frame_op" where
  "crop_biplanar x y cw ch old =
     bindS (liftS (area32 cw ch 3)) (\<lambda>a3.
     bindS (new_block (cdiv a3 2)) (\<lambda>new.
     let src = ptr_add (plane 0 old) (luma_start (fr_width old) x y);
         second = ptr_add new (int (nat ch) * cw) in
     bindS (on_heap (copy_rows (nat ch) cw (new, cw) (src, line 0 old))) (\<lambda>_.
     bindS (on_heap (copy_rows (nat (cdiv ch 2)) cw (second, cdiv cw 2)
       (ptr_add src (int (nat ch) * line 0 old), line 1 old))) (\<lambda>_.
     bindS (drop_old old) (\<lambda>_.
     on_frame (\<lambda>fr. set_line 1 cw (set_plane 1 (ptr_add new (cw * ch)) (set_line 0 cw (set_plane 0 new fr)))))))))"

definition crop_packed :: "int \<Rightarrow> int \<Rightarrow> int \<Rightarrow> int \<Rightarrow> lbframe \<Rightarrow> unit frame_op" where
  "crop_packed x y cw ch old =
     (let bytes = (if pix_format old \<in> set packed3 then 3 else 4) in
     bindS (liftS (format_size (pix_format old) cw ch)) (\<lambda>bytes_needed.
     bindS (new_block bytes_needed) (\<lambda>new.
     bindS (liftS (times32 cw bytes)) (\<lambda>n.
     bindS (on_heap (copy_rows (nat ch) n (new, n)
       (ptr_add (plane 0 old) (uint ((of_int y * fr_width old + of_int x) * of_int bytes)), line 0 old))) (\<lambda>_.
     bindS (drop_old old) (\<lambda>_.
     on_frame (set_line 0 n \<circ> set_plane 0 new)))))))"

definition crop :: "int \<Rightarrow> int \<Rightarrow> int \<Rightarrow> int \<Rightarrow> int frame_op" where
  "crop crop_x crop_y crop_w crop_h =
     bindS (get_frame id) (\<lambda>old.
     let x = even_part crop_x; y = even_part crop_y;
         cw = crop_side (fr_width old) x (even_part crop_w); ch = crop_side (fr_height old) y (even_part crop_h) in
     bindS (if pix_format old \<in> set planar then crop_planar x y cw ch old
            else if pix_format old \<in> set biplanar then crop_biplanar x y cw ch old
            else if pix_format old \<in> set (packed3 @ packed4) then crop_packed x y cw ch old
            else liftS (Inl AssertionFailed)) (\<lambda>_.
     bindS (on_frame (\<lambda>fr. fr\<lparr>fr_width := of_int cw, fr_height := of_int ch, bref := False\<rparr>)) (\<lambda>_.
     returnS 0)))"

section \<open>Numbers\<close>

lemma even_part_nonneg: "0 \<le> x \<Longrightarrow> even_part x = x div 2 * 2"
  by (simp add: even_part_def cdiv_nonneg)

lemma even_part_props:
  assumes "0 \<le> x"
  shows "0 \<le> even_part x" "even_part x \<le> x" "even (even_part x)" "even_part x div 2 * 2 = even_part x"
  using assms by (simp_all add: even_part_nonneg)

lemma crop_side_ok:
  assumes "0 \<le> off" "off \<le> side" "side < 2 ^ 31" "0 \<le> wanted"
  shows "crop_side (of_int side) off wanted = even_part (min (side - off) wanted)"
proof -
  have "sint (of_int side - of_int off :: 32 word) = side - off"
    using sint_of_int [of "side - off"] assms by (simp add: of_int_diff)
  then show ?thesis by (simp add: crop_side_def min_def)
qed

lemma luma_start_ok:
  assumes "0 \<le> y * w" "y * w < 2 ^ 31"
  shows "luma_start (of_int w) x y = y * w + x"
  using uint_of_int [OF assms] by (simp add: luma_start_def)

lemma chroma_start_ok:
  assumes "0 \<le> x" "0 \<le> y * w" "y * w < 2 ^ 31"
  shows "chroma_start (of_int w) x y = y * w div 4 + x div 2"
proof -
  have "uint (of_int (y * w) div 4 :: 32 word) = uint (of_int (y * w) :: 32 word) div uint (4 :: 32 word)" by (rule uint_div)
  also have "\<dots> = y * w div 4" using uint_of_int [OF assms(2,3)] by simp
  finally show ?thesis by (simp add: chroma_start_def cdiv_nonneg assms(1))
qed

end
