(* ===== verification/CropFacts.thy ===== *)
theory CropFacts
  imports Crop
begin

text \<open>
  Facts on cropping: a planar picture in the order of I420 is cut exactly, and what goes wrong
  with the other orders.
\<close>

section \<open>The part that is cut out\<close>

definition crop_size :: "int \<Rightarrow> int \<Rightarrow> int \<Rightarrow> int" where
  "crop_size side off wanted = even_part (min (side - even_part off) (even_part wanted))"

lemma crop_size_props:
  assumes "0 \<le> off" "off \<le> side" "0 \<le> wanted"
  shows "0 \<le> crop_size side off wanted" "even_part off + crop_size side off wanted \<le> side"
    "crop_size side off wanted \<le> side" "even (crop_size side off wanted)" "crop_size side off wanted \<le> wanted"
proof -
  let ?m = "min (side - even_part off) (even_part wanted)"
  have e: "0 \<le> even_part off" "even_part off \<le> off" "0 \<le> even_part wanted" "even_part wanted \<le> wanted"
    using even_part_props [OF assms(1)] even_part_props [OF assms(3)] by simp_all
  have m: "0 \<le> ?m" using e assms(2) by simp
  show "0 \<le> crop_size side off wanted" "even (crop_size side off wanted)"
    using even_part_props(1,3) [OF m] by (simp_all add: crop_size_def)
  have le: "crop_size side off wanted \<le> ?m" using even_part_props(2) [OF m] by (simp add: crop_size_def)
  then show "even_part off + crop_size side off wanted \<le> side" "crop_size side off wanted \<le> side"
    "crop_size side off wanted \<le> wanted" using e by simp_all
qed

lemma dims_ok_mono:
  assumes "dims_ok w h" "0 \<le> w'" "w' \<le> w" "0 \<le> h'" "h' \<le> h"
  shows "dims_ok w' h'"
proof -
  have "w' * h' \<le> w * h" using assms by (intro mult_mono) (auto simp: dims_ok_def)
  then show ?thesis using assms by (auto simp: dims_ok_def)
qed

text \<open>Where the part starts in a plane.\<close>

definition part_start :: "int \<Rightarrow> int \<Rightarrow> int \<Rightarrow> nat \<Rightarrow> int" where
  "part_start w x y i = rows_of y i * cols_of w i + cols_of x i"

lemma part_starts:
  assumes "dims_ok w h" "even w" "0 \<le> x" "x \<le> w" "even x" "0 \<le> y" "y \<le> h" "even y"
  shows "luma_start (of_int w) x y = part_start w x y 0"
    "i \<noteq> 0 \<Longrightarrow> chroma_start (of_int w) x y = part_start w x y i"
proof -
  have a: "0 \<le> w" "0 \<le> h" "w * 4 < 2 ^ 31" "w * h * 5 < 2 ^ 31" using assms(1) by (auto simp: dims_ok_def)
  have "y * w \<le> h * w" using assms(7) a(1) by (rule mult_right_mono)
  moreover have "h * w = w * h" "0 \<le> y * w" using assms(6) a(1) by simp_all
  ultimately have lt: "0 \<le> y * w" "y * w < 2 ^ 31" using a assms(4) by simp_all
  show "luma_start (of_int w) x y = part_start w x y 0"
    using luma_start_ok [OF lt] by (simp add: part_start_def rows_of_def cols_of_def)
  obtain p q where pq: "y = 2 * p" "w = 2 * q" using assms(2,8) by (elim evenE)
  then have "y * w div 4 = (y div 2) * (w div 2)" by simp
  then show "i \<noteq> 0 \<Longrightarrow> chroma_start (of_int w) x y = part_start w x y i"
    using chroma_start_ok [OF assms(3) lt] by (simp add: part_start_def rows_of_def cols_of_def)
qed

text \<open>The rows of the part lie in the plane.\<close>

lemma part_inside:
  assumes dims: "dims_ok w h" and i: "i < 3" and ev: "even x" "even y"
    and x: "0 \<le> x" "0 \<le> cw" "x + cw \<le> w" and y: "0 \<le> y" "0 \<le> ch" "y + ch \<le> h" and r: "r < nat (rows_of ch i)"
  shows "plane_offset fmt w h i + part_start w x y i + int r * cols_of w i + cols_of cw i \<le> w * h * 3 div 2"
proof -
  have cols: "0 \<le> cols_of w i" "cols_of x i + cols_of cw i \<le> cols_of w i"
  proof -
    show "0 \<le> cols_of w i" using dims by (simp add: cols_of_def dims_ok_def)
    have "x div 2 + cw div 2 \<le> w div 2" using x ev(1) by presburger
    then show "cols_of x i + cols_of cw i \<le> cols_of w i" using x(3) by (simp add: cols_of_def)
  qed
  have rows: "rows_of y i + int r + 1 \<le> rows_of h i"
  proof -
    have "y div 2 + ch div 2 \<le> h div 2" using y ev(2) by presburger
    then have "rows_of y i + rows_of ch i \<le> rows_of h i" using y(3) by (simp add: rows_of_def)
    moreover have "int r + 1 \<le> rows_of ch i" using r by simp
    ultimately show ?thesis by simp
  qed
  have "(rows_of y i + int r + 1) * cols_of w i \<le> rows_of h i * cols_of w i" using rows cols(1) by (rule mult_right_mono)
  then have "part_start w x y i + int r * cols_of w i + cols_of cw i \<le> rows_of h i * cols_of w i"
    using cols(2) by (simp add: part_start_def algebra_simps)
  then show ?thesis using planar_inside(2) [OF dims i, of fmt] by linarith
qed

section \<open>Planar pictures\<close>

lemma copy_plane_iff:
  "copy_plane i rows n src (fr, h) = (Inr (), (fr, h')) \<longleftrightarrow>
     copy_rows rows n (plane i fr, line i fr) (plane i src, line i src) h = Inr h'"
  by (auto simp: copy_plane_def on_heap_def split: sum.splits)

text \<open>The part as a picture with the lines of the whole.\<close>

definition part_picture :: "int \<Rightarrow> int \<Rightarrow> int \<Rightarrow> int \<Rightarrow> int \<Rightarrow> int \<Rightarrow> nat \<Rightarrow> lbframe" where
  "part_picture w h x y cw ch b = empty_frame\<lparr>pix_format := FOURCC_I420, fr_width := of_int cw, fr_height := of_int ch,
     planes := map (\<lambda>i. Some (b, plane_offset FOURCC_I420 w h i + part_start w x y i)) [0, 1, 2],
     linesize := map (\<lambda>i. of_int (cols_of w i)) [0, 1, 2]\<rparr>"

lemma part_picture_plane:
  assumes "dims_ok w h" "i < 3"
  shows "plane i (part_picture w h x y cw ch b) = Some (b, plane_offset FOURCC_I420 w h i + part_start w x y i)"
    "line i (part_picture w h x y cw ch b) = cols_of w i"
proof -
  have i: "i = 0 \<or> i = 1 \<or> i = 2" using assms(2) by auto
  have "uint (of_int (cols_of w i) :: 32 word) = cols_of w i"
    using assms(1) by (intro uint_of_int) (auto simp: cols_of_def dims_ok_def)
  then show "line i (part_picture w h x y cw ch b) = cols_of w i"
    using i by (auto simp: part_picture_def line_def)
  show "plane i (part_picture w h x y cw ch b) = Some (b, plane_offset FOURCC_I420 w h i + part_start w x y i)"
    using i by (auto simp: part_picture_def plane_def)
qed

lemma part_source:
  assumes dims: "dims_ok w h" and ev: "even x" "even y"
    and x: "0 \<le> x" "0 \<le> cw" "x + cw \<le> w" and y: "0 \<le> y" "0 \<le> ch" "y + ch \<le> h"
    and b: "b < length hp" "hp ! b = Some bs" "int (length bs) = w * h * 3 div 2"
  shows "source_ok FOURCC_I420 cw ch (part_picture w h x y cw ch b)
    (\<lambda>i. (b, plane_offset FOURCC_I420 w h i + part_start w x y i, bs)) hp"
proof -
  have "0 \<le> plane_offset FOURCC_I420 w h i + part_start w x y i" "cols_of cw i \<le> cols_of w i" if "i < 3" for i
  proof -
    have "0 \<le> rows_of y i * cols_of w i" "0 \<le> cols_of x i" using x y dims by (simp_all add: rows_of_def cols_of_def dims_ok_def)
    then show "0 \<le> plane_offset FOURCC_I420 w h i + part_start w x y i"
      using planar_inside(1) [OF dims that] by (simp add: part_start_def)
    show "cols_of cw i \<le> cols_of w i" using x by (simp add: cols_of_def zdiv_mono1)
  qed
  moreover have "\<forall>r < nat (rows_of ch i). plane_offset FOURCC_I420 w h i + part_start w x y i + int r * cols_of w i + cols_of cw i
      \<le> int (length bs)" if "i < 3" for i
    using part_inside [OF dims that ev x y] b(3) by simp
  ultimately show ?thesis
    using b(1,2) part_picture_plane [OF dims]
    by (auto simp: source_ok_def part_picture_def empty_frame_def)
qed

text \<open>A block for the part, and a frame over it.\<close>

definition part_frame :: "int \<Rightarrow> int \<Rightarrow> nat \<Rightarrow> lbframe" where
  "part_frame cw ch b = empty_frame\<lparr>pix_format := FOURCC_I420, fr_width := of_int cw, fr_height := of_int ch,
     planes := map (\<lambda>i. Some (b, plane_offset FOURCC_I420 cw ch i)) [0, 1, 2],
     linesize := map (\<lambda>i. of_int (cols_of cw i)) [0, 1, 2]\<rparr>"

lemma part_frame_planar: "dims_ok cw ch \<Longrightarrow> planar_frame FOURCC_I420 cw ch b (part_frame cw ch b)"
  using uint_of_int [of cw] uint_of_int [of "cw div 2"]
  by (auto simp: planar_frame_def part_frame_def plane_def line_def less_Suc_eq numeral_3_eq_3 numeral_2_eq_2 cols_of_def dims_ok_def)

text \<open>The copies of \<open>crop\<close>.\<close>

lemma crop_rows:
  assumes dims: "dims_ok w h" "even w" and ev: "even x" "even y" "even cw" "even ch"
    and x: "0 \<le> x" "0 \<le> cw" "x + cw \<le> w" and y: "0 \<le> y" "0 \<le> ch" "y + ch \<le> h"
    and b: "b < length hp" "hp ! b = Some bs" "int (length bs) = w * h * 3 div 2"
  shows "\<exists>h1 h2 ds. copy_rows (nat ch) cw (Some (length hp, 0), cw) (Some (b, part_start w x y 0), w)
        (hp @ [Some (replicate (nat (cw * ch * 3 div 2)) None)]) = Inr h1
     \<and> copy_rows (nat (ch div 2)) (cw div 2) (Some (length hp, cw * ch), cw div 2)
        (Some (b, w * h + part_start w x y 1), w div 2) h1 = Inr h2
     \<and> copy_rows (nat (ch div 2)) (cw div 2) (Some (length hp, cw * ch * 5 div 4), cw div 2)
        (Some (b, w * h * 5 div 4 + part_start w x y 2), w div 2) h2 = Inr (hp @ [Some ds])
     \<and> int (length ds) = cw * ch * 3 div 2
     \<and> (\<forall>i < 3. same_plane cw ch i (plane_offset FOURCC_I420 cw ch i, cols_of cw i, ds)
          (plane_offset FOURCC_I420 w h i + part_start w x y i, cols_of w i, bs))"
proof -
  have cdims: "dims_ok cw ch" using dims_ok_mono [OF dims(1)] x y by simp
  let ?n = "length hp" and ?src = "part_picture w h x y cw ch b"
  let ?at = "\<lambda>i. (b, plane_offset FOURCC_I420 w h i + part_start w x y i, bs)"
  let ?nb = "replicate (nat (cw * ch * 3 div 2)) None :: byte list" and ?hp = "hp @ [Some (replicate (nat (cw * ch * 3 div 2)) None)]"
  have src: "source_ok FOURCC_I420 cw ch ?src ?at ?hp"
    using part_source [OF dims(1) ev(1,2) x y b] by (rule source_ok_append)
  have ne: "\<forall>i < 3. fst (?at i) \<noteq> ?n" using b(1) by simp
  have len: "int (length ?nb) = cw * ch * 3 div 2" using x(2) y(2) by simp
  obtain h1 h2 ds where c: "copy_plane 0 (nat ch) cw ?src (part_frame cw ch ?n, ?hp) = (Inr (), (part_frame cw ch ?n, h1))"
    "copy_plane 1 (nat ch div 2) (cw div 2) ?src (part_frame cw ch ?n, h1) = (Inr (), (part_frame cw ch ?n, h2))"
    "copy_plane 2 (nat ch div 2) (cw div 2) ?src (part_frame cw ch ?n, h2) = (Inr (), (part_frame cw ch ?n, ?hp[?n := Some ds]))"
    "length ds = length ?nb"
    "\<forall>i < 3. same_plane cw ch i (plane_offset FOURCC_I420 cw ch i, cols_of cw i, ds)
       (fst (snd (?at i)), line i ?src, snd (snd (?at i)))"
    using copy_three_planes [OF cdims part_frame_planar [OF cdims] src ne, of ?nb] len by auto
  have p: "plane i (part_frame cw ch ?n) = Some (?n, plane_offset FOURCC_I420 cw ch i)"
    "line i (part_frame cw ch ?n) = cols_of cw i" if "i < 3" for i
    using part_frame_planar [OF cdims, of ?n] that by (simp_all add: planar_frame_def)
  note rows = c(1-3) [unfolded copy_plane_iff]
  have off: "plane_offset FOURCC_I420 a c 0 = 0" "plane_offset FOURCC_I420 a c 1 = a * c"
    "plane_offset FOURCC_I420 a c 2 = a * c * 5 div 4" "cols_of a 0 = a" "cols_of a 1 = a div 2" "cols_of a 2 = a div 2" for a c
    by (simp_all add: plane_offset_def cols_of_def)
  have half: "nat (ch div 2) = nat ch div 2" using y(2) by (simp add: nat_div_distrib)
  have lines: "\<forall>i < 3. same_plane cw ch i (plane_offset FOURCC_I420 cw ch i, cols_of cw i, ds)
      (plane_offset FOURCC_I420 w h i + part_start w x y i, cols_of w i, bs)"
    using c(5) by (simp add: part_picture_plane(2) [OF dims(1)])
  show ?thesis
    using rows c(4) len lines
    by - (rule exI [of _ h1], rule exI [of _ h2], rule exI [of _ ds],
        simp add: p part_picture_plane [OF dims(1)] off half del: One_nat_def)
qed

lemma crop_i420:
  assumes dims: "dims_ok w h" "even w" and fr: "planar_frame FOURCC_I420 w h b fr" "length (planes fr) = 4" "length (linesize fr) = 4"
    and off: "0 \<le> x" "x \<le> w" "0 \<le> y" "y \<le> h" "0 \<le> rw" "0 \<le> rh"
    and b: "b < length hp" "hp ! b = Some bs" "int (length bs) = w * h * 3 div 2"
    and c: "cw = crop_size w x rw" "ch = crop_size h y rh"
  shows "\<exists>fr' ds. crop x y rw rh (fr, hp) = (Inr 0, (fr', (if bref fr then hp else hp[b := None]) @ [Some ds]))
     \<and> planar_frame FOURCC_I420 cw ch (length hp) fr' \<and> \<not> bref fr' \<and> int (length ds) = cw * ch * 3 div 2
     \<and> (\<forall>i < 3. same_plane cw ch i (plane_offset FOURCC_I420 cw ch i, cols_of cw i, ds)
          (plane_offset FOURCC_I420 w h i + part_start w (even_part x) (even_part y) i, cols_of w i, bs))"
proof -
  let ?x = "even_part x" and ?y = "even_part y"
  note px = even_part_props [OF off(1)] and py = even_part_props [OF off(3)]
  note pw = crop_size_props [OF off(1,2,5), folded c(1)] and ph = crop_size_props [OF off(3,4,6), folded c(2)]
  have cdims: "dims_ok cw ch" using dims_ok_mono [OF dims(1) pw(1,3) ph(1,3)] .
  have lim: "w < 2 ^ 31" "h < 2 ^ 31" "0 \<le> w" "0 \<le> h" using dims(1) by (auto simp: dims_ok_def)
  have m: "pix_format fr = FOURCC_I420" "fr_width fr = of_int w" "fr_height fr = of_int h"
    "plane 0 fr = Some (b, 0)" "plane 1 fr = Some (b, w * h)" "plane 2 fr = Some (b, w * h * 5 div 4)"
    "line 0 fr = w" "line 1 fr = w div 2" "line 2 fr = w div 2"
    using fr(1) by (simp_all add: planar_frame_def plane_offset_def cols_of_def)
  have side: "crop_side (of_int w) ?x (even_part rw) = cw" "crop_side (of_int h) ?y (even_part rh) = ch"
    using crop_side_ok [of ?x w "even_part rw"] crop_side_ok [of ?y h "even_part rh"] px py off lim
      even_part_props(1) [OF off(5)] even_part_props(1) [OF off(6)]
    by (simp_all add: c crop_size_def)
  have start: "luma_start (of_int w) ?x ?y = part_start w ?x ?y 0" "chroma_start (of_int w) ?x ?y = part_start w ?x ?y 1"
    "part_start w ?x ?y 2 = part_start w ?x ?y 1"
    using part_starts(1) [OF dims px(1) _ px(3) py(1) _ py(3)] part_starts(2) [OF dims px(1) _ px(3) py(1) _ py(3), of 1]
      px(2) py(2) off
    by (simp_all add: part_start_def rows_of_def cols_of_def)
  obtain h1 h2 ds where rows: "copy_rows (nat ch) cw (Some (length hp, 0), cw) (Some (b, part_start w ?x ?y 0), w)
        (hp @ [Some (replicate (nat (cw * ch * 3 div 2)) None)]) = Inr h1"
     "copy_rows (nat (ch div 2)) (cw div 2) (Some (length hp, cw * ch), cw div 2)
        (Some (b, w * h + part_start w ?x ?y 1), w div 2) h1 = Inr h2"
     "copy_rows (nat (ch div 2)) (cw div 2) (Some (length hp, cw * ch * 5 div 4), cw div 2)
        (Some (b, w * h * 5 div 4 + part_start w ?x ?y 1), w div 2) h2 = Inr (hp @ [Some ds])"
     "int (length ds) = cw * ch * 3 div 2"
     "\<forall>i < 3. same_plane cw ch i (plane_offset FOURCC_I420 cw ch i, cols_of cw i, ds)
          (plane_offset FOURCC_I420 w h i + part_start w ?x ?y i, cols_of w i, bs)"
    using crop_rows [OF dims px(3) py(3) pw(4) ph(4) px(1) pw(1,2) py(1) ph(1,2) b] unfolding start(3) by blast
  have areas: "area32 cw ch 3 = Inr (cw * ch * 3)" "area32 cw ch 5 = Inr (cw * ch * 5)" "0 \<le> cw * ch"
    using dims_area(2,4) [OF cdims] by simp_all
  have nonneg: "\<not> ch * cw < 0" "0 \<le> ch * cw" using areas(3) by (simp_all add: mult.commute)
  obtain p0 p1 p2 p3 l0 l1 l2 l3 where l: "planes fr = [p0, p1, p2, p3]" "linesize fr = [l0, l1, l2, l3]"
    using fr(2,3) by (elim four_cases)
  let ?n = "length hp"
  let ?fr = "fr\<lparr>planes := [Some (?n, 0), Some (?n, cw * ch), Some (?n, cw * ch * 5 div 4), p3],
     linesize := [of_int cw, of_int (cw div 2), of_int (cw div 2), l3]\<rparr>"
  have parts: "part_planes (Some (?n, 0)) (Some (?n, cw * ch)) (Some (?n, cw * ch * 5 div 4)) cw (cw div 2) fr = ?fr"
    using m(1) l by (simp add: part_planes_def set_line_def set_plane_def numeral_2_eq_2)
  have planar: "crop_planar ?x ?y cw ch fr (fr, hp) = (Inr (), (?fr, (if bref fr then hp else hp[b := None]) @ [Some ds]))"
    using rows(1-3) areas b pw(1) ph(1) m(1)
    by (cases "bref fr") (simp_all add: crop_planar_def bindS_def new_block_def heap_new_def Let_def m(2,4-9) start cdiv_nonneg ptr_add_def
        on_heap_def on_frame_def drop_old_def heap_delete_def block_at_def nth_append list_update_append parts nonneg(1) del: One_nat_def)
  let ?fr' = "?fr\<lparr>fr_width := of_int cw, fr_height := of_int ch, bref := False\<rparr>"
  have "FOURCC_I420 \<in> set planar" by (simp add: planar_def)
  then have "crop x y rw rh (fr, hp) = (Inr 0, (?fr', (if bref fr then hp else hp[b := None]) @ [Some ds]))"
    using planar by (simp add: crop_def get_frame_def Let_def m(1-3) side bindS_def on_frame_def)
  moreover have "planar_frame FOURCC_I420 cw ch ?n ?fr'"
    using m(1) uint_of_int [of cw] uint_of_int [of "cw div 2"] cdims
    by (auto simp: planar_frame_def plane_def line_def less_Suc_eq numeral_3_eq_3 plane_offset_def cols_of_def dims_ok_def)
  ultimately show ?thesis using rows(4,5) by auto
qed

section \<open>Other orders\<close>

text \<open>The whole of a picture of 4 by 4 in NV12: the second row of chroma is written over the first.
  A picture of 2 by 2 in YV12, whose planes of chroma are exchanged.\<close>

definition nv12_picture :: lbframe where
  "nv12_picture = empty_frame\<lparr>pix_format := FOURCC_NV12, fr_width := 4, fr_height := 4,
     planes := [Some (0, 0), Some (0, 16), None, None], linesize := [4, 4, 0, 0]\<rparr>"

definition yv12_picture :: lbframe where
  "yv12_picture = empty_frame\<lparr>pix_format := FOURCC_YV12, fr_width := 2, fr_height := 2,
     planes := [Some (0, 0), Some (0, 5), Some (0, 4), None], linesize := [2, 1, 1, 0]\<rparr>"

lemma crop_nv12_whole:
  "snd (snd (crop 0 0 4 4 (nv12_picture, [Some (map (Some \<circ> of_nat) [1..<25])]))) =
     [None, Some (map (Some \<circ> of_nat) ([1..<19] @ [21..<25]) @ [None, None])]"
  by code_simp
lemma crop_yv12_swaps:
  "case crop 0 0 2 2 (yv12_picture, [Some (map Some [1, 2, 3, 4, 5, 6])]) of (r, (fr, hp)) \<Rightarrow>
     r = Inr 0 \<and> planes fr = [Some (1, 0), Some (1, 5), Some (1, 4), None] \<and> hp = [None, Some (map Some [1, 2, 3, 4, 6, 5])]"
  by code_simp
end
