(* ===== verification/Scale.thy ===== *)
theory Scale
  imports CropFacts
begin

text \<open>
  The scaler (\<open>lazyscale\<close> in \<open>mssdk/lazyutil/lbscale.h\<close>): pictures are converted to I420, scaled
  and converted to the wanted format, by way of two blocks that the scaler keeps. The conversions
  and the scaling of libyuv are a parameter: they get pointers with their lines, and a width and a
  height, and return a code.
\<close>

section \<open>The library\<close>

datatype conversion =
    NV12ToI420 | NV21ToI420 | YUY2ToI420 | ARGBToI420 | RGB24ToI420 | RAWToI420 | ABGRToI420 | RGBAToI420
  | I420ToNV21 | I420ToNV12 | I420ToYUY2 | I420ToBGRA | I420ToARGB | I420ToRGB24 | I420ToRAW | I420ToABGR

type_synonym plane_arg = "ptr \<times> int"

record libyuv =
  convert :: "conversion \<Rightarrow> plane_arg list \<Rightarrow> plane_arg list \<Rightarrow> int \<Rightarrow> int \<Rightarrow> heap \<Rightarrow> (int \<times> heap) res"
  ARGBScale :: "plane_arg \<Rightarrow> int \<Rightarrow> int \<Rightarrow> plane_arg \<Rightarrow> int \<Rightarrow> int \<Rightarrow> heap \<Rightarrow> (int \<times> heap) res"
  I420Scale :: "plane_arg list \<Rightarrow> int \<Rightarrow> int \<Rightarrow> plane_arg list \<Rightarrow> int \<Rightarrow> int \<Rightarrow> heap \<Rightarrow> (int \<times> heap) res"

definition FOURCC_YUY2 :: "32 word" where "FOURCC_YUY2 = fourcc ''YUY2''"

section \<open>Conversions\<close>

text \<open>Widths, heights and their products are \<open>uint32_t\<close>; a parameter \<open>int\<close> gets their value as a
  signed integer.\<close>

definition i420_planes :: "ptr \<Rightarrow> 32 word \<Rightarrow> 32 word \<Rightarrow> plane_arg list" where
  "i420_planes p w h = [(p, sint w), (ptr_add p (uint (w * h)), sint (w div 2)), (ptr_add p (uint (w * h * 5 div 4)), sint (w div 2))]"

definition one_plane :: "ptr \<Rightarrow> 32 word \<Rightarrow> plane_arg list" where
  "one_plane p pitch = [(p, sint pitch)]"

definition two_planes :: "ptr \<Rightarrow> 32 word \<Rightarrow> 32 word \<Rightarrow> plane_arg list" where
  "two_planes p w h = [(p, sint w), (ptr_add p (uint (w * h)), sint w)]"

type_synonym 'a mem_op = "heap \<Rightarrow> ('a \<times> heap) res"

definition copies :: "(ptr \<times> ptr \<times> int) list \<Rightarrow> int \<Rightarrow> int mem_op" where
  "copies cs ret h = bindE (foldl (\<lambda>r (dst, src, n). bindE r (memcpy dst src n)) (Inr h) cs) (\<lambda>h'. Inr (ret, h'))"

text \<open>The source of a conversion to I420; the case of YV12 leaves the code at \<open>-1\<close>.\<close>

definition to_i420_call :: "32 word \<Rightarrow> ptr \<Rightarrow> 32 word \<Rightarrow> 32 word \<Rightarrow> (conversion \<times> plane_arg list) option" where
  "to_i420_call fmt p w h =
     (if fmt = FOURCC_NV12 then Some (NV12ToI420, two_planes p w h)
      else if fmt = FOURCC_NV21 then Some (NV21ToI420, two_planes p w h)
      else if fmt = FOURCC_YUY2 then Some (YUY2ToI420, one_plane p (w * 2))
      else if fmt = FOURCC_ARGB then Some (ARGBToI420, one_plane p (w * 4))
      else if fmt = FOURCC_BGRA then Some (ARGBToI420, one_plane p (w * 4))
      else if fmt = FOURCC_BGR3 then Some (RGB24ToI420, one_plane p (w * 3))
      else if fmt = FOURCC_RGB3 then Some (RAWToI420, one_plane p (w * 3))
      else if fmt = FOURCC_RGBA then Some (ABGRToI420, one_plane p (w * 4))
      else if fmt = FOURCC_ABGR then Some (RGBAToI420, one_plane p (w * 4))
      else None)"

definition toi420 :: "libyuv \<Rightarrow> ptr \<Rightarrow> 32 word \<Rightarrow> 32 word \<Rightarrow> 32 word \<Rightarrow> ptr \<Rightarrow> int \<Rightarrow> int mem_op" where
  "toi420 lib psrc fmt w h pdst n hp =
     (if of_int n < w * h * 3 div 2 then Inl AssertionFailed
      else if fmt = FOURCC_I420 then copies [(pdst, psrc, n)] 1 hp
      else if fmt = FOURCC_YV12 then
        (let len = sint (w * h) in bindE (times32 len 5) (\<lambda>five.
         copies [(pdst, psrc, len), (ptr_add pdst (uint (w * h * 5 div 4)), ptr_add psrc len, cdiv len 4),
           (ptr_add pdst (uint (w * h)), ptr_add psrc (cdiv five 4), cdiv len 4)] (- 1) hp))
      else case to_i420_call fmt psrc w h of
        None \<Rightarrow> Inr (- 1, hp)
      | Some (c, src) \<Rightarrow> convert lib c src (i420_planes pdst w h) (sint w) (sint h) hp)"

text \<open>The target of a conversion from I420, with the bytes that are asked for.\<close>

definition from_i420_call :: "32 word \<Rightarrow> ptr \<Rightarrow> 32 word \<Rightarrow> 32 word \<Rightarrow> (32 word \<times> conversion \<times> plane_arg list) option" where
  "from_i420_call fmt p w h =
     (if fmt = FOURCC_NV21 then Some (w * h * 2, I420ToNV21, two_planes p w h)
      else if fmt = FOURCC_NV12 then Some (w * h * 2, I420ToNV12, two_planes p w h)
      else if fmt = FOURCC_YUY2 then Some (w * h * 2, I420ToYUY2, one_plane p (w * 2))
      else if fmt = FOURCC_ARGB then Some (w * h * 4, I420ToBGRA, one_plane p (w * 4))
      else if fmt = FOURCC_BGRA then Some (w * h * 4, I420ToARGB, one_plane p (w * 4))
      else if fmt = FOURCC_BGR3 then Some (w * h * 3, I420ToRGB24, one_plane p (w * 3))
      else if fmt = FOURCC_RGB3 then Some (w * h * 3, I420ToRAW, one_plane p (w * 3))
      else if fmt = FOURCC_RGBA then Some (w * h * 4, I420ToABGR, one_plane p (w * 4))
      else None)"

text \<open>To I420 the copy has its arguments exchanged.\<close>

definition fromi420 :: "libyuv \<Rightarrow> ptr \<Rightarrow> 32 word \<Rightarrow> 32 word \<Rightarrow> ptr \<Rightarrow> int \<Rightarrow> 32 word \<Rightarrow> int mem_op" where
  "fromi420 lib psrc w h pdst n fmt hp =
     (if fmt = FOURCC_I420 then
        (let cp_len = sint (w * h * 3 div 2) in
         if n < cp_len then Inl AssertionFailed else copies [(psrc, pdst, cp_len)] 1 hp)
      else if fmt = FOURCC_YV12 then
        (let cp_len = sint (w * h) in
         bindE (times32 cp_len 3) (\<lambda>three. if n < cdiv three 2 then Inl AssertionFailed else
         bindE (times32 cp_len 5) (\<lambda>five.
         copies [(pdst, psrc, cp_len), (ptr_add pdst cp_len, ptr_add psrc (uint (w * h * 5 div 4)), cdiv cp_len 4),
           (ptr_add pdst (cdiv five 4), ptr_add psrc (uint (w * h)), cdiv cp_len 4)] 1 hp)))
      else case from_i420_call fmt pdst w h of
        None \<Rightarrow> Inr (- 1, hp)
      | Some (needed, c, dst) \<Rightarrow>
          if of_int n < needed then Inl AssertionFailed
          else convert lib c (i420_planes psrc w h) dst (sint w) (sint h) hp)"

definition scalei420 :: "libyuv \<Rightarrow> ptr \<Rightarrow> 32 word \<Rightarrow> 32 word \<Rightarrow> ptr \<Rightarrow> 32 word \<Rightarrow> 32 word \<Rightarrow> int mem_op" where
  "scalei420 lib psrc srcw srch pdst dstw dsth =
     I420Scale lib (i420_planes psrc srcw srch) (sint srcw) (sint srch) (i420_planes pdst dstw dsth) (sint dstw) (sint dsth)"

section \<open>The scaler\<close>

record lazyscale =
  i420_data :: ptr
  i420_data_len :: "32 word"
  scale_data :: ptr
  scale_data_len :: "32 word"

definition new_lazyscale :: lazyscale where
  "new_lazyscale = \<lparr>i420_data = None, i420_data_len = 0, scale_data = None, scale_data_len = 0\<rparr>"

type_synonym 'a scale_op = "(lazyscale \<times> heap, 'a) op"

definition on_mem :: "'a mem_op \<Rightarrow> 'a scale_op" where
  "on_mem f = (\<lambda>(sc, h). case f h of Inl e \<Rightarrow> (Inl e, (sc, h)) | Inr (x, h') \<Rightarrow> (Inr x, (sc, h')))"

definition delete_lazyscale :: "unit scale_op" where
  "delete_lazyscale =
     bindS (getS fst) (\<lambda>sc.
     bindS (on_mem (\<lambda>h. bindE (heap_delete (i420_data sc) h) (\<lambda>h'. Inr ((), h')))) (\<lambda>_.
     bindS (on_mem (\<lambda>h. bindE (heap_delete (scale_data sc) h) (\<lambda>h'. Inr ((), h')))) (\<lambda>_.
     updS (\<lambda>(_, h). (new_lazyscale, h)))))"

text \<open>The two blocks: a block that is too short is replaced. The length that is kept is the one
  last asked for.\<close>

definition renew :: "ptr \<Rightarrow> 32 word \<Rightarrow> 32 word \<Rightarrow> ptr mem_op" where
  "renew p len needed h = (if len < needed then bindE (heap_delete p h) (heap_new (uint needed)) else Inr (p, h))"

definition i420_block :: "32 word \<Rightarrow> ptr scale_op" where
  "i420_block needed =
     bindS (getS fst) (\<lambda>sc.
     bindS (on_mem (renew (i420_data sc) (i420_data_len sc) needed)) (\<lambda>p.
     bindS (updS (\<lambda>(sc, h). (sc\<lparr>i420_data := p, i420_data_len := needed\<rparr>, h))) (\<lambda>_. returnS p)))"

definition scale_block :: "32 word \<Rightarrow> ptr scale_op" where
  "scale_block needed =
     bindS (getS fst) (\<lambda>sc.
     bindS (on_mem (renew (scale_data sc) (scale_data_len sc) needed)) (\<lambda>p.
     bindS (updS (\<lambda>(sc, h). (sc\<lparr>scale_data := p, scale_data_len := needed\<rparr>, h))) (\<lambda>_. returnS p)))"

text \<open>After the conversion to I420: scaling, and the conversion to the target. \<open>ret\<close> is the last
  code.\<close>

definition scale_from_i420 :: "libyuv \<Rightarrow> ptr \<Rightarrow> 32 word \<Rightarrow> 32 word \<Rightarrow> ptr \<Rightarrow> int \<Rightarrow> 32 word \<Rightarrow> 32 word \<Rightarrow> 32 word \<Rightarrow> int \<Rightarrow> int scale_op" where
  "scale_from_i420 lib psrc srcw srch pdst n dstfmt dstw dsth ret =
     bindS (if srcw \<noteq> dstw \<or> srch \<noteq> dsth then
              bindS (if dstfmt = FOURCC_I420 then returnS pdst else scale_block (dstw * dsth * 3 div 2)) (\<lambda>p.
              bindS (on_mem (scalei420 lib psrc srcw srch p dstw dsth)) (\<lambda>ret'. returnS (ret', p, ret' < 0)))
            else returnS (ret, psrc, False)) (\<lambda>(ret', p, failed).
     if failed \<or> dstfmt = FOURCC_I420 then returnS ret'
     else on_mem (fromi420 lib p dstw dsth pdst n dstfmt))"

definition scale :: "libyuv \<Rightarrow> ptr \<Rightarrow> 32 word \<Rightarrow> 32 word \<Rightarrow> 32 word \<Rightarrow> ptr \<Rightarrow> int \<Rightarrow> 32 word \<Rightarrow> 32 word \<Rightarrow> 32 word \<Rightarrow> int scale_op" where
  "scale lib psrc srcfmt srcw srch pdst n dstfmt dstw0 dsth0 =
     (let (dstw, dsth) = (if dstw0 = 0 \<or> dsth0 = 0 then (srcw, srch) else (dstw0, dsth0)) in
      if srcfmt \<noteq> dstfmt then
        (let needed = srcw * srch * 3 div 2 in
         if srcfmt \<noteq> FOURCC_I420 then
           bindS (if srcw = dstw \<and> srch = dsth \<and> dstfmt = FOURCC_I420 then returnS pdst else i420_block needed) (\<lambda>p.
           bindS (on_mem (toi420 lib psrc srcfmt srcw srch p (sint needed))) (\<lambda>ret.
           if ret < 0 then returnS ret else scale_from_i420 lib p srcw srch pdst n dstfmt dstw dsth ret))
         else scale_from_i420 lib psrc srcw srch pdst n dstfmt dstw dsth (- 1))
      else if srcfmt \<in> set packed4 then
        (if srcw = dstw \<and> srch = dsth then
           (let pic_size = sint (srcw * 4 * srch) in
            if n < pic_size then liftS (Inl AssertionFailed) else on_mem (copies [(pdst, psrc, pic_size)] 0))
         else on_mem (ARGBScale lib (psrc, sint (srcw * 4)) (sint srcw) (sint srch) (pdst, sint (dstw * 4)) (sint dstw) (sint dsth)))
      else scale_from_i420 lib psrc srcw srch pdst n dstfmt dstw dsth (- 1))"

section \<open>Scaling a frame\<close>

text \<open>The scaler, a frame and the heap. The frame gets the new block whatever the code is; its old
  block is released. \<open>None\<close> stands for the default format.\<close>

definition scale_frame :: "libyuv \<Rightarrow> int \<Rightarrow> int \<Rightarrow> 32 word option \<Rightarrow> (lazyscale \<times> lbframe \<times> heap, int) op" where
  "scale_frame lib width height wanted = (\<lambda>(sc, fr, hp).
     let fmt = (case wanted of None \<Rightarrow> pix_format fr | Some f \<Rightarrow> f) in
     if fr_width fr = of_int width \<and> fr_height fr = of_int height \<and> fmt = pix_format fr then (Inr height, (sc, fr, hp))
     else case bindE (format_size fmt width height) (\<lambda>n. bindE (heap_new n hp) (\<lambda>(new, hp1). Inr (n, new, hp1))) of
       Inl e \<Rightarrow> (Inl e, (sc, fr, hp))
     | Inr (n, new, hp1) \<Rightarrow>
         (case scale lib (plane 0 fr) (pix_format fr) (fr_width fr) (fr_height fr) new n fmt (of_int width) (of_int height) (sc, hp1) of
            (Inl e, (sc', hp2)) \<Rightarrow> (Inl e, (sc', fr, hp2))
          | (Inr ret, (sc', hp2)) \<Rightarrow>
              (case bindS reset_frame (\<lambda>_. fill_video fmt width height new (timestamp fr) False) (fr, hp2) of
                 (Inl e, (fr', hp3)) \<Rightarrow> (Inl e, (sc', fr', hp3))
               | (Inr _, (fr', hp3)) \<Rightarrow> (Inr ret, (sc', fr', hp3)))))"

end
