(* ===== verification/ScaleFacts.thy ===== *)
theory ScaleFacts
  imports Scale
begin

text \<open>
  Facts on the scaler: the blocks that it keeps are as long as it says, whatever it has scaled
  before; and which pictures it cannot scale.
\<close>

section \<open>The shape of the heap\<close>

text \<open>Which blocks are alive, and their lengths. Copies keep it, and so must the library.\<close>

definition shape :: "heap \<Rightarrow> nat option list" where
  "shape h = map (map_option length) h"

definition shapely :: "'a mem_op \<Rightarrow> bool" where
  "shapely f \<longleftrightarrow> (\<forall>h x h'. f h = Inr (x, h') \<longrightarrow> shape h' = shape h)"

definition lib_ok :: "libyuv \<Rightarrow> bool" where
  "lib_ok lib \<longleftrightarrow> (\<forall>c src dst w h. shapely (convert lib c src dst w h))
     \<and> (\<forall>src sw sh dst dw dh. shapely (ARGBScale lib src sw sh dst dw dh))
     \<and> (\<forall>src sw sh dst dw dh. shapely (I420Scale lib src sw sh dst dw dh))"

lemma shapely_returns: "shapely (\<lambda>h. Inr (x, h))" "shapely (\<lambda>h. Inl e)"
  by (simp_all add: shapely_def)

lemma heap_write_shape: "heap_write p vs h = Inr h' \<Longrightarrow> shape h' = shape h"
  by (auto simp: heap_write_def block_at_def shape_def bindE_Inr_iff map_update list_update_same_conv
      split: option.splits if_splits)

lemma memcpy_shape: "memcpy dst src n h = Inr h' \<Longrightarrow> shape h' = shape h"
  using heap_write_shape by (auto simp: memcpy_def bindE_Inr_iff split: if_splits)

lemma foldl_error: "foldl (\<lambda>r (dst, src, n). bindE r (memcpy dst src n)) (Inl e) cs = Inl e"
  by (induction cs) auto

lemma copies_shape: "foldl (\<lambda>r (dst, src, n). bindE r (memcpy dst src n)) (Inr h) cs = Inr h' \<Longrightarrow> shape h' = shape h"
proof (induction cs arbitrary: h)
  case (Cons c cs)
  obtain dst src n where c: "c = (dst, src, n)" by (cases c)
  then show ?case
    using Cons memcpy_shape [of dst src n h] by (cases "memcpy dst src n h") (auto simp: foldl_error)
qed simp

lemma shapely_copies: "shapely (copies cs ret)"
  using copies_shape by (auto simp: shapely_def copies_def bindE_Inr_iff)

lemma shapely_if: "(c \<Longrightarrow> shapely f) \<Longrightarrow> (\<not> c \<Longrightarrow> shapely g) \<Longrightarrow> shapely (\<lambda>h. if c then f h else g h)"
  by (cases c) simp_all

lemma shapely_prod: "(\<And>a b. x = (a, b) \<Longrightarrow> shapely (f a b)) \<Longrightarrow> shapely (\<lambda>h. case x of (a, b) \<Rightarrow> f a b h)"
  by (cases x) simp

lemma shapely_bindE: "(\<And>y. shapely (f y)) \<Longrightarrow> shapely (\<lambda>h. bindE r (\<lambda>y. f y h))"
  by (auto simp: shapely_def bindE_Inr_iff)

lemma shapely_option:
  "shapely f \<Longrightarrow> (\<And>y. shapely (g y)) \<Longrightarrow> shapely (\<lambda>h. case v of None \<Rightarrow> f h | Some y \<Rightarrow> g y h)"
  by (cases v) simp_all

lemma shapely_convert: "lib_ok lib \<Longrightarrow> shapely (convert lib c src dst w h)"
  and shapely_ARGBScale: "lib_ok lib \<Longrightarrow> shapely (ARGBScale lib p sw sh q dw dh)"
  and shapely_I420Scale: "lib_ok lib \<Longrightarrow> shapely (I420Scale lib src sw sh dst dw dh)"
  unfolding lib_ok_def by blast+

lemma shapely_toi420: "lib_ok lib \<Longrightarrow> shapely (toi420 lib psrc fmt w h pdst n)"
  unfolding toi420_def Let_def
  by (intro shapely_if shapely_returns shapely_copies shapely_bindE shapely_option shapely_prod shapely_convert)

lemma shapely_fromi420: "lib_ok lib \<Longrightarrow> shapely (fromi420 lib psrc w h pdst n fmt)"
  unfolding fromi420_def Let_def
  by (intro shapely_if shapely_returns shapely_copies shapely_bindE shapely_option shapely_prod shapely_convert)

lemma shapely_scalei420: "lib_ok lib \<Longrightarrow> shapely (scalei420 lib psrc sw sh pdst dw dh)"
  by (simp add: scalei420_def [abs_def] shapely_I420Scale)

section \<open>The blocks\<close>

text \<open>A pointer to the start of a block that has at least the bytes; none without bytes.\<close>

definition holds :: "heap \<Rightarrow> ptr \<Rightarrow> 32 word \<Rightarrow> bool" where
  "holds h p len \<longleftrightarrow> (case p of None \<Rightarrow> len = 0
     | Some (b, off) \<Rightarrow> off = 0 \<and> (\<exists>bs. b < length h \<and> h ! b = Some bs \<and> uint len \<le> int (length bs)))"

definition scaler_ok :: "lazyscale \<times> heap \<Rightarrow> bool" where
  "scaler_ok = (\<lambda>(sc, h). holds h (i420_data sc) (i420_data_len sc) \<and> holds h (scale_data sc) (scale_data_len sc)
     \<and> (i420_data sc \<noteq> None \<longrightarrow> i420_data sc \<noteq> scale_data sc))"

lemma holds_iff:
  "holds h p len \<longleftrightarrow> (case p of None \<Rightarrow> len = 0
     | Some (b, off) \<Rightarrow> off = 0 \<and> (\<exists>n. b < length (shape h) \<and> shape h ! b = Some n \<and> uint len \<le> int n))"
  by (cases p) (auto simp: holds_def shape_def)

lemma holds_shape: "shape h' = shape h \<Longrightarrow> holds h' p len = holds h p len"
  by (simp only: holds_iff)

lemma scaler_ok_shape: "shape h' = shape h \<Longrightarrow> scaler_ok (sc, h') = scaler_ok (sc, h)"
  by (simp only: scaler_ok_def holds_shape [of h' h] prod.case)

lemma keeps_mem: "shapely f \<Longrightarrow> keeps scaler_ok (on_mem f)"
  unfolding keeps_def
proof (intro allI impI)
  fix s assume f: "shapely f" and s: "scaler_ok s"
  obtain sc h where sh: "s = (sc, h)" by (cases s)
  show "scaler_ok (snd (on_mem f s))"
  proof (cases "f h")
    case (Inl e)
    then show ?thesis using s sh by (simp add: on_mem_def)
  next
    case (Inr r)
    obtain x h' where r: "r = (x, h')" by (cases r)
    have "shape h' = shape h" using f Inr r by (simp add: shapely_def)
    then have "scaler_ok (sc, h')" using s sh scaler_ok_shape by blast
    then show ?thesis using Inr r sh by (simp add: on_mem_def)
  qed
qed

text \<open>Replacing one block leaves the other.\<close>

lemma renew_ok:
  assumes "holds h p len" "holds h q m" "p \<noteq> None \<longrightarrow> p \<noteq> q" "renew p len needed h = Inr (p', h')"
  shows "holds h' p' needed" "holds h' q m" "p' \<noteq> None \<longrightarrow> p' \<noteq> q"
proof -
  have all: "holds h' p' needed \<and> holds h' q m \<and> (p' \<noteq> None \<longrightarrow> p' \<noteq> q)"
  proof (cases "len < needed")
    case False
    then have "uint needed \<le> uint len" by (simp add: word_le_def not_less)
    moreover have "needed = 0" if "len = 0" using False that by (simp add: word_gt_0)
    ultimately have "holds h p needed" using assms(1) by (auto simp: holds_def split: option.splits)
    then show ?thesis using assms False by (simp add: renew_def)
  next
    case True
    obtain h1 where h1: "heap_delete p h = Inr h1" "heap_new (uint needed) h1 = Inr (p', h')"
      using assms(4) True by (auto simp: renew_def bindE_Inr_iff)
    have h': "p' = Some (length h1, 0)" "h' = h1 @ [Some (replicate (nat (uint needed)) None)]"
      using h1(2) by (auto simp: heap_new_def split: if_splits)
    have "holds h1 q m \<and> length h1 = length h"
      using h1(1) assms(1-3)
      by (fastforce simp: heap_delete_def holds_def bindE_Inr_iff nth_list_update split: option.splits if_splits)
    then show ?thesis
      using h' assms(2) by (auto simp: holds_def nth_append split: option.splits)
  qed
  then show "holds h' p' needed" "holds h' q m" "p' \<noteq> None \<longrightarrow> p' \<noteq> q" by simp_all
qed

lemma i420_block_ok:
  assumes "scaler_ok s"
  shows "scaler_ok (snd (i420_block needed s))"
    "i420_block needed s = (Inr p, s') \<Longrightarrow> holds (snd s') p needed"
proof -
  obtain sc h where s: "s = (sc, h)" by (cases s)
  have ok: "holds h (i420_data sc) (i420_data_len sc)" "holds h (scale_data sc) (scale_data_len sc)"
    "i420_data sc \<noteq> None \<longrightarrow> i420_data sc \<noteq> scale_data sc"
    using assms s by (simp_all add: scaler_ok_def)
  show "scaler_ok (snd (i420_block needed s))"
    "i420_block needed s = (Inr p, s') \<Longrightarrow> holds (snd s') p needed"
    using assms s renew_ok [OF ok] by (auto simp: i420_block_def on_mem_def bindS_def scaler_ok_def split: sum.splits)
qed

lemma scale_block_ok:
  assumes "scaler_ok s"
  shows "scaler_ok (snd (scale_block needed s))"
    "scale_block needed s = (Inr p, s') \<Longrightarrow> holds (snd s') p needed"
proof -
  obtain sc h where s: "s = (sc, h)" by (cases s)
  have ok: "holds h (scale_data sc) (scale_data_len sc)" "holds h (i420_data sc) (i420_data_len sc)"
    "scale_data sc \<noteq> None \<longrightarrow> scale_data sc \<noteq> i420_data sc"
    using assms s by (auto simp: scaler_ok_def)
  show "scaler_ok (snd (scale_block needed s))"
    "scale_block needed s = (Inr p, s') \<Longrightarrow> holds (snd s') p needed"
    using assms s renew_ok [OF ok]
    by (auto simp: scale_block_def on_mem_def bindS_def scaler_ok_def split: sum.splits) metis+
qed

lemma keeps_blocks [keeps_rules]: "keeps scaler_ok (i420_block needed)" "keeps scaler_ok (scale_block needed)"
  using i420_block_ok(1) scale_block_ok(1) by (simp_all add: keeps_def)

lemma keeps_scale_from_i420:
  "lib_ok lib \<Longrightarrow> keeps scaler_ok (scale_from_i420 lib psrc sw sh pdst n fmt dw dh ret)"
  unfolding scale_from_i420_def
  by (intro keeps_rules keeps_mem shapely_scalei420 shapely_fromi420)

lemma keeps_scale: "lib_ok lib \<Longrightarrow> keeps scaler_ok (scale lib psrc sfmt sw sh pdst n dfmt dw dh)"
  unfolding scale_def Let_def
  by (intro keeps_rules keeps_mem shapely_toi420 shapely_copies shapely_ARGBScale keeps_scale_from_i420)

section \<open>What cannot be scaled\<close>

text \<open>A picture in I420 is not copied to one of the same size; one in YV12 is converted with a code
  that says that it is not; and a picture that keeps its format NV12 is taken for one in I420.\<close>

lemma scale_i420_same: "scale lib psrc FOURCC_I420 w h pdst n FOURCC_I420 w h s = (Inr (- 1), s)"
proof -
  have "FOURCC_I420 \<notin> set packed4" by code_simp
  then show ?thesis by (simp add: scale_def scale_from_i420_def)
qed

lemma toi420_yv12: "toi420 lib psrc FOURCC_YV12 w h pdst n hp = Inr (ret, hp') \<Longrightarrow> ret = - 1"
proof -
  have "FOURCC_YV12 \<noteq> FOURCC_I420" by code_simp
  then show "toi420 lib psrc FOURCC_YV12 w h pdst n hp = Inr (ret, hp') \<Longrightarrow> ret = - 1"
    by (auto simp: toi420_def copies_def Let_def bindE_Inr_iff split: if_splits)
qed

lemma scale_yv12_fails:
  assumes "scale lib psrc FOURCC_YV12 w h pdst n dfmt dw dh s = (Inr ret, s')" "dfmt \<noteq> FOURCC_YV12"
  shows "ret = - 1"
proof -
  have ne: "FOURCC_YV12 \<noteq> FOURCC_I420" by code_simp
  show ?thesis
    using assms ne
    by (auto simp: scale_def Let_def bindS_Inr_iff on_mem_def dest!: toi420_yv12 split: if_splits prod.splits sum.splits)
qed

lemma scale_nv12_as_i420:
  "scale lib psrc FOURCC_NV12 w h pdst n FOURCC_NV12 dw dh =
     (let (dw', dh') = (if dw = 0 \<or> dh = 0 then (w, h) else (dw, dh))
      in scale_from_i420 lib psrc w h pdst n FOURCC_NV12 dw' dh' (- 1))"
proof -
  have "FOURCC_NV12 \<notin> set packed4" by code_simp
  then show ?thesis by (simp add: scale_def)
qed

end
