(* ===== verification/Overlay.thy ===== *)
theory Overlay
  imports Scale
begin

text \<open>
  Overlays (\<open>lazyscale::overlay\<close>, \<open>overlay_argb_to_i420\<close>, \<open>high_light\<close> in
  \<open>mssdk/lazyutil/lbscale.h\<close>): one picture laid over another, and a frame drawn into a picture. The
  colours are computed in double precision and cut to integers.
\<close>

section \<open>Colours\<close>

text \<open>A double as a fraction; every operation rounds.\<close>

type_synonym dbl = "int \<times> nat"

definition dround :: "dbl \<Rightarrow> dbl" where
  "dround x = (case fp_ratio 53 (- 1074) (dbl_mag (nat \<bar>fst x\<bar>, snd x)) of (n, d) \<Rightarrow> (sgn (fst x) * int n, d))"

definition dmul :: "dbl \<Rightarrow> dbl \<Rightarrow> dbl" where
  "dmul x y = dround (fst x * fst y, snd x * snd y)"

definition dadd :: "dbl \<Rightarrow> dbl \<Rightarrow> dbl" where
  "dadd x y = dround (fst x * int (snd y) + fst y * int (snd x), snd x * snd y)"

definition dneg :: "dbl \<Rightarrow> dbl" where
  "dneg x = (- fst x, snd x)"

definition dcut :: "dbl \<Rightarrow> int" where
  "dcut x = cdiv (fst x) (int (snd x))"

text \<open>A literal with four decimals.\<close>

definition dlit :: "int \<Rightarrow> dbl" where
  "dlit n = dround (n, 10000)"

definition RGB2Y :: "int \<Rightarrow> int \<Rightarrow> int \<Rightarrow> dbl" where
  "RGB2Y r g b = dadd (dadd (dadd (dmul (dlit 2990) (r, 1)) (dmul (dlit 5870) (g, 1))) (dmul (dlit 1140) (b, 1))) (16, 1)"

definition RGB2U :: "int \<Rightarrow> int \<Rightarrow> int \<Rightarrow> dbl" where
  "RGB2U r g b = dadd (dadd (dadd (dmul (dneg (dlit 1684)) (r, 1)) (dneg (dmul (dlit 3316) (g, 1)))) (dmul (dlit 5000) (b, 1))) (128, 1)"

definition RGB2V :: "int \<Rightarrow> int \<Rightarrow> int \<Rightarrow> dbl" where
  "RGB2V r g b = dadd (dadd (dadd (dmul (dlit 5000) (r, 1)) (dneg (dmul (dlit 4187) (g, 1)))) (dneg (dmul (dlit 813) (b, 1)))) (128, 1)"

text \<open>A double that does not fit into a \<open>uint8_t\<close> must not be converted.\<close>

definition byte_of_dbl :: "dbl \<Rightarrow> 8 word res" where
  "byte_of_dbl x = (if 0 \<le> dcut x \<and> dcut x \<le> 255 then Inr (of_int (dcut x)) else Inl (Undefined ''double to uint8_t''))"

record pixel_yuv =
  y_part :: "8 word"
  u_part :: "8 word"
  v_part :: "8 word"

text \<open>The bytes of the colour from the highest: alpha, red, green, blue.\<close>

definition colour_byte :: "nat \<Rightarrow> 32 word \<Rightarrow> int" where
  "colour_byte i argb = uint (ucast (drop_bit (8 * i) argb) :: 8 word)"

definition rgb2yuv :: "32 word \<Rightarrow> pixel_yuv res" where
  "rgb2yuv argb = (let r = colour_byte 2 argb; g = colour_byte 1 argb; b = colour_byte 0 argb in
     bindE (byte_of_dbl (RGB2Y r g b)) (\<lambda>y. bindE (byte_of_dbl (RGB2U r g b)) (\<lambda>u.
     bindE (byte_of_dbl (RGB2V r g b)) (\<lambda>v. Inr \<lparr>y_part = y, u_part = u, v_part = v\<rparr>))))"

text \<open>\<open>lbmin\<close>, and \<open>lblimit\<close> as it expands: \<open>a > b ? a : b\<close> put for \<open>a\<close> in \<open>a > b ? b : a\<close> without
  parentheses.\<close>

definition lbmin :: "int \<Rightarrow> int \<Rightarrow> int" where
  "lbmin a b = (if a > b then b else a)"

definition lblimit :: "int \<Rightarrow> int \<Rightarrow> int \<Rightarrow> int" where
  "lblimit v lo hi = (if v > lo then v else if lo > hi then hi else if v > lo then v else lo)"

section \<open>A picture with an alpha channel over one in I420\<close>

definition is_rgba_format :: "32 word \<Rightarrow> bool" where
  "is_rgba_format fmt \<longleftrightarrow> fmt \<in> {FOURCC_BGRA, FOURCC_RGBA, FOURCC_ARGB, FOURCC_ABGR}"

text \<open>The indices of alpha, red, green and blue.\<close>

definition channel_order :: "32 word \<Rightarrow> nat \<times> nat \<times> nat \<times> nat" where
  "channel_order fmt = (if fmt = FOURCC_ARGB then (0, 1, 2, 3) else if fmt = FOURCC_RGBA then (3, 0, 1, 2)
     else if fmt = FOURCC_ABGR then (0, 3, 2, 1) else (3, 2, 1, 0))"

definition byte_at :: "ptr \<Rightarrow> int \<Rightarrow> heap \<Rightarrow> int res" where
  "byte_at p i h = bindE (heap_read (ptr_add p i) 1 h) (\<lambda>bs. case hd bs of
     None \<Rightarrow> Inl (Undefined ''indeterminate'') | Some v \<Rightarrow> Inr (uint v))"

definition put_byte :: "ptr \<Rightarrow> int \<Rightarrow> heap \<Rightarrow> heap res" where
  "put_byte p v = heap_write p [Some (of_int v)]"

definition read_rgb :: "nat \<times> nat \<times> nat \<times> nat \<Rightarrow> ptr \<Rightarrow> heap \<Rightarrow> (int \<times> int \<times> int) res" where
  "read_rgb order p h = (case order of (_, r, g, b) \<Rightarrow>
     bindE (byte_at p (int r) h) (\<lambda>red. bindE (byte_at p (int g) h) (\<lambda>green. bindE (byte_at p (int b) h) (\<lambda>blue.
     Inr (red, green, blue)))))"

text \<open>A pixel of luma and one of chroma: a pixel whose alpha is zero is left alone.\<close>

definition luma_pixel :: "nat \<times> nat \<times> nat \<times> nat \<Rightarrow> ptr \<Rightarrow> ptr \<Rightarrow> heap \<Rightarrow> heap res" where
  "luma_pixel order src py h =
     bindE (byte_at src (int (fst order)) h) (\<lambda>alpha. if alpha = 0 then Inr h else
     bindE (read_rgb order src h) (\<lambda>(r, g, b). put_byte py (lbmin (dcut (RGB2Y r g b)) 240) h))"

definition chroma_pixel :: "nat \<times> nat \<times> nat \<times> nat \<Rightarrow> ptr \<Rightarrow> ptr \<Rightarrow> ptr \<Rightarrow> heap \<Rightarrow> heap res" where
  "chroma_pixel order src pu pv h =
     bindE (byte_at src (int (fst order)) h) (\<lambda>alpha. if alpha = 0 then Inr h else
     bindE (read_rgb order src h) (\<lambda>(r, g, b).
     bindE (put_byte pu (lblimit (dcut (RGB2U r g b)) (- 127) 127) h) (\<lambda>h1.
     bindE (read_rgb order src h1) (\<lambda>(r, g, b). put_byte pv (lblimit (dcut (RGB2V r g b)) (- 127) 127) h1))))"

fun luma_row :: "nat \<Rightarrow> nat \<times> nat \<times> nat \<times> nat \<Rightarrow> ptr \<Rightarrow> ptr \<Rightarrow> heap \<Rightarrow> heap res" where
  "luma_row 0 order src py h = Inr h"
| "luma_row (Suc n) order src py h =
     bindE (luma_pixel order src py h) (luma_row n order (ptr_add src 4) (ptr_add py 1))"

fun chroma_row :: "nat \<Rightarrow> nat \<times> nat \<times> nat \<times> nat \<Rightarrow> ptr \<Rightarrow> ptr \<Rightarrow> ptr \<Rightarrow> heap \<Rightarrow> heap res" where
  "chroma_row 0 order src pu pv h = Inr h"
| "chroma_row (Suc n) order src pu pv h =
     bindE (chroma_pixel order src pu pv h) (chroma_row n order (ptr_add src 8) (ptr_add pu 1) (ptr_add pv 1))"

text \<open>The rows: \<open>j\<close> is that of the target, \<open>q\<close> goes up by 4 and by 2.\<close>

fun luma_rows :: "nat \<Rightarrow> nat \<Rightarrow> int \<Rightarrow> int \<Rightarrow> int \<Rightarrow> lbframe \<Rightarrow> lbframe \<Rightarrow> heap \<Rightarrow> heap res" where
  "luma_rows 0 cols x j q src dst h = Inr h"
| "luma_rows (Suc n) cols x j q src dst h =
     bindE (luma_row cols (channel_order (pix_format src)) (ptr_add (plane 0 src) (uint (of_int q * fr_width src)))
        (ptr_add (plane 0 dst) (uint (of_int j * fr_width dst) + x)) h)
       (luma_rows n cols x (j + 1) (q + 4) src dst)"

fun chroma_rows :: "nat \<Rightarrow> nat \<Rightarrow> int \<Rightarrow> int \<Rightarrow> int \<Rightarrow> lbframe \<Rightarrow> lbframe \<Rightarrow> heap \<Rightarrow> heap res" where
  "chroma_rows 0 cols x j q src dst h = Inr h"
| "chroma_rows (Suc n) cols x j q src dst h =
     bindE (chroma_row cols (channel_order (pix_format src)) (ptr_add (plane 0 src) (uint (of_int q * fr_width src * 4)))
        (ptr_add (plane 1 dst) (uint (of_int j * fr_width dst div 2) + cdiv x 2))
        (ptr_add (plane 2 dst) (uint (of_int j * fr_width dst div 2) + cdiv x 2)) h)
       (chroma_rows n cols x (j + 1) (q + 2) src dst)"

definition overlay_argb_to_i420 :: "lbframe \<Rightarrow> lbframe \<Rightarrow> int \<Rightarrow> int \<Rightarrow> int mem_op" where
  "overlay_argb_to_i420 src dst x y h =
     (if \<not> is_rgba_format (pix_format src) \<or> pix_format dst \<noteq> FOURCC_I420 then Inr (- 1, h)
      else bindE (int32 (x + sint (fr_width src))) (\<lambda>sw_max. bindE (int32 (y + sint (fr_height src))) (\<lambda>sh_max.
        bindE (luma_rows (nat (sh_max - y)) (nat (sw_max - x)) x y 0 src dst h) (\<lambda>h1.
        bindE (chroma_rows (nat (cdiv sh_max 2 - cdiv y 2)) (nat (cdiv sw_max 2 - cdiv x 2)) x (cdiv y 2) 0 src dst h1) (\<lambda>h2.
        Inr (0, h2))))))"

section \<open>A picture over another one of the same format\<close>

definition overlay_planar :: "lbframe \<Rightarrow> lbframe \<Rightarrow> int \<Rightarrow> int \<Rightarrow> heap \<Rightarrow> heap res" where
  "overlay_planar src dst x y h =
     (let w = fr_width src; rows = unat (fr_height src); half = unat (fr_height src div 2); cols = uint (w div 2);
          luma = luma_start (fr_width dst) x y; chroma = chroma_start (fr_width dst) x y in
      bindE (copy_rows rows (uint w) (ptr_add (plane 0 dst) luma, line 0 dst) (plane 0 src, line 0 src) h) (\<lambda>h1.
      bindE (copy_rows half cols (ptr_add (plane 1 dst) chroma, line 1 dst) (plane 1 src, line 1 src) h1) (\<lambda>h2.
      copy_rows half cols (ptr_add (plane 2 dst) chroma, line 2 dst) (plane 2 src, line 2 src) h2)))"

text \<open>The second plane of the source is read by the lines of the first.\<close>

definition overlay_biplanar :: "lbframe \<Rightarrow> lbframe \<Rightarrow> int \<Rightarrow> int \<Rightarrow> heap \<Rightarrow> heap res" where
  "overlay_biplanar src dst x y h =
     (let w = uint (fr_width src) in
      bindE (copy_rows (unat (fr_height src)) w (ptr_add (plane 0 dst) (luma_start (fr_width dst) x y), line 0 dst)
        (plane 0 src, line 0 src) h) (\<lambda>h1.
      copy_rows (unat (fr_height src div 2)) w (ptr_add (plane 1 dst) (uint (of_int (cdiv y 2) * fr_width dst) + x), line 1 dst)
        (plane 1 src, line 0 src) h1))"

text \<open>The pointer of the target is made from the plane of the source.\<close>

definition packed_target :: "lbframe \<Rightarrow> lbframe \<Rightarrow> int \<Rightarrow> int \<Rightarrow> int \<Rightarrow> ptr" where
  "packed_target src dst x y bytes = ptr_add (plane 0 src) (uint ((of_int y * fr_width dst + of_int x) * of_int bytes))"

definition overlay_packed :: "int \<Rightarrow> lbframe \<Rightarrow> lbframe \<Rightarrow> int \<Rightarrow> int \<Rightarrow> heap \<Rightarrow> heap res" where
  "overlay_packed bytes src dst x y h =
     copy_rows (unat (fr_height src)) (uint (fr_width src * of_int bytes)) (packed_target src dst x y bytes, line 0 dst)
       (plane 0 src, line 0 src) h"

text \<open>For ARGB every fourth column is looked at, and the copy goes the other way.\<close>

fun argb_columns :: "nat list \<Rightarrow> ptr \<Rightarrow> ptr \<Rightarrow> heap \<Rightarrow> heap res" where
  "argb_columns [] src dst h = Inr h"
| "argb_columns (j # js) src dst h =
     bindE (byte_at src (int j) h) (\<lambda>alpha.
     bindE (if alpha = 0 then Inr h else memcpy (ptr_add src (int j)) (ptr_add dst (int j)) 4 h) (argb_columns js src dst))"

fun argb_rows :: "nat \<Rightarrow> nat list \<Rightarrow> ptr \<times> int \<Rightarrow> ptr \<times> int \<Rightarrow> heap \<Rightarrow> heap res" where
  "argb_rows 0 js src dst h = Inr h"
| "argb_rows (Suc n) js (src, sl) (dst, dl) h =
     bindE (argb_columns js src dst h) (argb_rows n js (ptr_add src sl, sl) (ptr_add dst dl, dl))"

definition every_fourth :: "nat \<Rightarrow> nat list" where
  "every_fourth n = map (\<lambda>i. 4 * i) [0..<(n + 3) div 4]"

definition overlay :: "lbframe \<Rightarrow> lbframe \<Rightarrow> int \<Rightarrow> int \<Rightarrow> int mem_op" where
  "overlay src dst x y h =
     (let fmt = pix_format dst; done = (\<lambda>r. bindE r (\<lambda>h'. Inr (0, h'))) in
      if \<not> (of_int x + fr_width src \<le> fr_width dst \<and> of_int y + fr_height src \<le> fr_height dst) then Inl AssertionFailed
      else if fmt = FOURCC_I420 \<and> is_rgba_format (pix_format src) then overlay_argb_to_i420 src dst x y h
      else if fmt \<noteq> pix_format src then Inr (- 1, h)
      else if fmt \<in> set planar then done (overlay_planar src dst x y h)
      else if fmt \<in> set biplanar then done (overlay_biplanar src dst x y h)
      else if fmt \<in> set packed3 then done (overlay_packed 3 src dst x y h)
      else if fmt = FOURCC_BGRA \<or> fmt = FOURCC_RGBA then done (overlay_packed 4 src dst x y h)
      else if fmt = FOURCC_ARGB then
        done (argb_rows (unat (fr_height src)) (every_fourth (unat (fr_width src))) (plane 0 src, line 0 src)
          (packed_target src dst x y 4, line 0 dst) h)
      else Inl AssertionFailed)"

section \<open>A frame around a part of a picture\<close>

text \<open>A row of \<open>high_light\<close>, with the column \<open>i\<close> and the pointers into the three planes: \<open>edge\<close> is the
  width of the frame. At the inner border the columns inside are skipped. The loop goes up at each
  turn, so that its fuel, the width, is enough.\<close>

record brush =
  b_width :: int
  b_height :: int
  edge :: int
  colour :: pixel_yuv
  limit :: "32 word"

definition offset_in :: "ptr \<Rightarrow> ptr \<Rightarrow> int res" where
  "offset_in p q = (case (p, q) of
     (Some (b, i), Some (c, j)) \<Rightarrow> if b = c then Inr (i - j) else Inl (Undefined ''difference of pointers'')
   | _ \<Rightarrow> Inl (Undefined ''null''))"

definition check_offset :: "brush \<Rightarrow> ptr \<Rightarrow> ptr \<Rightarrow> unit res" where
  "check_offset br p q = bindE (offset_in p q) (\<lambda>off. if of_int off \<le> limit br then Inr () else Inl AssertionFailed)"

definition on_border :: "brush \<Rightarrow> int \<Rightarrow> int \<Rightarrow> bool" where
  "on_border br i j \<longleftrightarrow> i < edge br \<or> j < edge br \<or> i \<ge> b_width br - edge br \<or> j \<ge> b_height br - edge br"

definition inner :: "brush \<Rightarrow> int" where
  "inner br = b_width br - 2 * edge br"

fun high_light_row :: "nat \<Rightarrow> brush \<Rightarrow> ptr \<times> ptr \<Rightarrow> int \<Rightarrow> int \<Rightarrow> ptr \<Rightarrow> ptr \<Rightarrow> ptr \<Rightarrow> heap \<Rightarrow> heap res" where
  "high_light_row 0 br uv j i py pu pv h = Inr h"
| "high_light_row (Suc n) br uv j i py pu pv h =
     (if i \<ge> b_width br then Inr h
      else if on_border br i j then
        bindE (heap_write py [Some (y_part (colour br))] h) (\<lambda>h1.
        if even i \<and> even j then
          bindE (heap_write pu [Some (u_part (colour br))] h1) (\<lambda>h2.
          bindE (heap_write pv [Some (v_part (colour br))] h2)
            (high_light_row n br uv j (i + 1) (ptr_add py 1) (ptr_add pu 1) (ptr_add pv 1)))
        else high_light_row n br uv j (i + 1) (ptr_add py 1) pu pv h1)
      else if i = edge br then
        (let py' = ptr_add py (inner br - 1); i' = i + (inner br - 1) in
         if even j then
           (let pu' = ptr_add pu (cdiv (inner br) 2); pv' = ptr_add pv (cdiv (inner br) 2) in
            bindE (check_offset br pu' (fst uv)) (\<lambda>_. bindE (check_offset br pv' (snd uv)) (\<lambda>_.
            high_light_row n br uv j (i' + 1) (ptr_add py' 1) pu' pv' h)))
         else high_light_row n br uv j (i' + 1) (ptr_add py' 1) pu pv h)
      else high_light_row n br uv j (i + 1) (ptr_add py 1) pu pv h)"

fun high_light_rows :: "nat \<Rightarrow> brush \<Rightarrow> lbframe \<Rightarrow> int \<Rightarrow> int \<Rightarrow> int \<Rightarrow> heap \<Rightarrow> heap res" where
  "high_light_rows 0 br fr x y j h = Inr h"
| "high_light_rows (Suc n) br fr x y j h =
     (let p1 = ptr_add (plane 1 fr) (chroma_start (fr_width fr) x (j + y));
          p2 = ptr_add (plane 2 fr) (chroma_start (fr_width fr) x (j + y));
          (pu, pv) = (if pix_format fr = FOURCC_YV12 then (p2, p1) else (p1, p2)) in
      bindE (high_light_row (nat (b_width br)) br (plane 1 fr, plane 2 fr) j 0
        (ptr_add (plane 0 fr) (luma_start (fr_width fr) x (j + y))) pu pv h)
        (high_light_rows n br fr x y (j + 1)))"

definition high_light :: "lbframe option \<Rightarrow> int \<Rightarrow> int \<Rightarrow> int \<Rightarrow> int \<Rightarrow> 32 word \<Rightarrow> int \<Rightarrow> heap \<Rightarrow> heap res" where
  "high_light pframe x y width height argb_color pixel_size h = (case pframe of
     None \<Rightarrow> Inr h
   | Some fr \<Rightarrow> bindE (times32 2 pixel_size) (\<lambda>two. if \<not> width > two then Inl AssertionFailed else
       bindE (rgb2yuv argb_color) (\<lambda>yuv.
       if pix_format fr \<in> set planar then
         high_light_rows (nat height) \<lparr>b_width = width, b_height = height, edge = even_part pixel_size, colour = yuv,
           limit = fr_width fr * fr_height fr div 2\<rparr> fr x y 0 h
       else Inr h)))"

end
