(* ===== verification/OverlayFacts.thy ===== *)
theory OverlayFacts
  imports Overlay ScaleFacts
begin

text \<open>
  Facts on overlays: where they write, and which colours cannot be converted.
\<close>

section \<open>Where is written\<close>

text \<open>Two heaps that agree but on one block.\<close>

definition agree_but :: "nat \<Rightarrow> heap \<Rightarrow> heap \<Rightarrow> bool" where
  "agree_but s h h' \<longleftrightarrow> length h' = length h \<and> (\<forall>b. b \<noteq> s \<longrightarrow> h' ! b = h ! b)"

lemma agree_but_refl [intro!]: "agree_but s h h"
  by (simp add: agree_but_def)

lemma agree_but_trans: "agree_but s h h1 \<Longrightarrow> agree_but s h1 h2 \<Longrightarrow> agree_but s h h2"
  by (simp add: agree_but_def)

lemma memcpy_agree: "memcpy (Some (s, i)) src n h = Inr h' \<Longrightarrow> agree_but s h h'"
  by (auto simp: memcpy_def heap_write_def bindE_Inr_iff agree_but_def split: if_splits)

lemma ptr_add_simp [simp]: "ptr_add (Some (b, i)) n = Some (b, i + n)"
  by (simp add: ptr_add_def)

lemma copy_rows_agree:
  "copy_rows rows n (Some (s, i), dl) src h = Inr h' \<Longrightarrow> agree_but s h h'"
proof (induction rows arbitrary: i src h)
  case (Suc rows)
  obtain p sl where "src = (p, sl)" by (cases src)
  then show ?case
    using Suc by (auto simp: bindE_Inr_iff intro: agree_but_trans memcpy_agree)
qed auto

lemma argb_columns_agree: "argb_columns js (Some (s, i)) dst h = Inr h' \<Longrightarrow> agree_but s h h'"
proof (induction js arbitrary: h)
  case (Cons j js)
  then show ?case
    by (auto simp: bindE_Inr_iff split: if_splits intro: agree_but_trans memcpy_agree)
qed auto

lemma argb_rows_agree: "argb_rows n js (Some (s, i), sl) dst h = Inr h' \<Longrightarrow> agree_but s h h'"
proof (induction n arbitrary: i dst h)
  case (Suc n)
  obtain p dl where "dst = (p, dl)" by (cases dst)
  then show ?case
    using Suc by (auto simp: bindE_Inr_iff intro: agree_but_trans argb_columns_agree)
qed auto

lemma packed_not_planar:
  "fmt \<in> set (packed3 @ packed4) \<Longrightarrow> fmt \<notin> set planar \<and> fmt \<notin> set biplanar \<and> fmt \<noteq> FOURCC_I420"
  using formats_distinct by (auto simp: planar_def disjoint_iff)

text \<open>An overlay of packed pictures writes into the block of the picture that is laid over: every
  other block, that of the target too, is as before.\<close>

lemma overlay_packed_agree:
  assumes "pix_format dst \<in> set (packed3 @ packed4)" "plane 0 src = Some (s, i)" "overlay src dst x y h = Inr (ret, h')"
  shows "agree_but s h h'"
  using assms(3) packed_not_planar [OF assms(1)] copy_rows_agree [of _ _ s] argb_rows_agree [of _ _ s]
  by (auto simp: overlay_def Let_def assms(2) overlay_packed_def packed_target_def bindE_Inr_iff split: if_splits)

section \<open>Packed pictures\<close>

lemma memcpy_fits:
  assumes "memcpy (Some (s, i)) src n h = Inr h'" "s < length h" "h ! s = Some ss" "0 \<le> n"
  shows "i + n \<le> int (length ss)" "\<exists>ss'. h' ! s = Some ss' \<and> length ss' = length ss" "length h' = length h"
proof -
  obtain vs where vs: "heap_read src n h = Inr vs" "heap_write (Some (s, i)) vs h = Inr h'"
    using assms(1) by (auto simp: memcpy_def bindE_Inr_iff split: if_splits)
  have "length vs = nat n"
    using vs(1) by (auto simp: heap_read_def bindE_Inr_iff split: option.splits if_splits)
  then show "i + n \<le> int (length ss)" "\<exists>ss'. h' ! s = Some ss' \<and> length ss' = length ss" "length h' = length h"
    using vs(2) assms(2-4) by (auto simp: heap_write_def block_at_def split: if_splits)
qed

lemma copy_rows_fits:
  assumes "copy_rows rows n (Some (s, i), dl) src h = Inr h'" "s < length h" "h ! s = Some ss" "0 \<le> n" "r < rows"
  shows "i + int r * dl + n \<le> int (length ss)"
  using assms
proof (induction rows arbitrary: i src h ss r)
  case (Suc rows)
  obtain p sl where src: "src = (p, sl)" by (cases src)
  obtain h1 where h1: "memcpy (Some (s, i)) p n h = Inr h1"
    "copy_rows rows n (Some (s, i + dl), dl) (ptr_add p sl, sl) h1 = Inr h'"
    using Suc.prems(1) src by (auto simp: bindE_Inr_iff)
  note fits = memcpy_fits [OF h1(1) Suc.prems(2-4)]
  show ?case
  proof (cases r)
    case 0
    then show ?thesis using fits(1) by simp
  next
    case (Suc q)
    obtain ss' where ss': "h1 ! s = Some ss'" "length ss' = length ss" using fits(2) by blast
    have "i + dl + int q * dl + n \<le> int (length ss')"
      using Suc.IH [OF h1(2) _ ss'(1)] Suc.prems(2,4,5) fits(3) Suc by simp
    then show ?thesis using Suc ss'(2) by (simp add: algebra_simps)
  qed
qed simp

text \<open>The rows of a picture that fills its block cannot be copied into it by longer lines.\<close>

lemma copy_rows_onto_itself:
  assumes "s < length h" "h ! s = Some ss" "0 < n" "0 < rows" "int (length ss) = int rows * n" "n \<le> dl" "0 \<le> i"
  shows "\<exists>e. copy_rows rows n (Some (s, i), dl) (Some (s, 0), sl) h = Inl e"
proof (cases "copy_rows rows n (Some (s, i), dl) (Some (s, 0), sl) h")
  case (Inr h')
  obtain m where m: "rows = Suc m" using assms(4) by (cases rows) auto
  have "i + int m * dl + n \<le> int rows * n"
    using copy_rows_fits [OF Inr assms(1,2), of m] assms(3,5) m by simp
  moreover have "int m * n \<le> int m * dl" using assms(6) by (intro mult_left_mono) auto
  ultimately have "i = 0" using m assms(7) by (simp add: algebra_simps)
  then show ?thesis using m assms(3) by (simp add: memcpy_def overlap_def)
qed simp

lemma overlay_packed_fails:
  assumes bytes: "bytes = 3 \<or> bytes = 4" and dims: "dims_ok W H" and pos: "0 < w" "0 < hh" "0 \<le> x" "0 \<le> y" "x + w \<le> W" "y + hh \<le> H"
    and src: "fr_width src = of_int w" "fr_height src = of_int hh" "plane 0 src = Some (s, 0)" "s < length h" "h ! s = Some ss"
      "int (length ss) = w * hh * bytes"
    and dst: "fr_width dst = of_int W" "line 0 dst = W * bytes"
  shows "\<exists>e. overlay_packed bytes src dst x y h = Inl e"
proof -
  have lim: "0 \<le> W" "0 \<le> H" "H < 2 ^ 31" "W * 4 < 2 ^ 31" "W * H * 5 < 2 ^ 31" using dims by (auto simp: dims_ok_def)
  have "y * W + x \<le> W * H"
  proof -
    have "y * W \<le> (H - 1) * W" using pos lim by (intro mult_right_mono) auto
    then show ?thesis using pos by (simp add: algebra_simps)
  qed
  moreover have "0 \<le> y * W + x" using pos lim by simp
  ultimately have off: "0 \<le> (y * W + x) * bytes" "(y * W + x) * bytes < 2 ^ 31"
    using bytes lim(5) by auto
  have n: "0 < w * bytes" "w * bytes < 2 ^ 31" "w * bytes \<le> W * bytes" "hh < 2 ^ 31"
    using bytes pos lim by auto
  have u: "uint (of_int w * of_int bytes :: 32 word) = w * bytes"
    "uint ((of_int y * of_int W + of_int x) * of_int bytes :: 32 word) = (y * W + x) * bytes"
    using uint_of_int [of "w * bytes"] uint_of_int [OF off] n(1,2) by simp_all
  have rows: "unat (of_int hh :: 32 word) = nat hh" using unat_of_int pos(2) n(4) by simp
  have "int (length ss) = int (nat hh) * (w * bytes)" using src(6) pos(2) by (simp add: ac_simps)
  then have "\<exists>e. copy_rows (nat hh) (w * bytes) (Some (s, (y * W + x) * bytes), W * bytes) (Some (s, 0), line 0 src) h = Inl e"
    using copy_rows_onto_itself [OF src(4,5) n(1) _ _ n(3) off(1), of "nat hh"] pos(2) by simp
  then show ?thesis
    by (simp add: overlay_packed_def packed_target_def src(1-3) dst u rows)
qed

section \<open>Colours\<close>

text \<open>The upper limit of \<open>lblimit\<close> is never applied.\<close>

lemma lblimit_no_upper: "lo \<le> hi \<Longrightarrow> lblimit v lo hi = max v lo"
  by (simp add: lblimit_def max_def)

text \<open>White is brighter than a byte can say; the luma of an overlay is limited.\<close>

lemmas dbl_eval = dround_def dbl_mag_def fp_round_def fp_ratio_def scale2_def round_half_even_def blen.simps Let_def

lemma white_luma: "dcut (RGB2Y 255 255 255) = 271"
  by (simp add: RGB2Y_def dlit_def dmul_def dadd_def dcut_def cdiv_def dbl_eval)

lemma white_undefined: "rgb2yuv 0xFFFFFFFF = Inl (Undefined ''double to uint8_t'')"
  by (simp add: rgb2yuv_def colour_byte_def byte_of_dbl_def white_luma)

lemma lbmin_le: "lbmin a b \<le> b"
  by (simp add: lbmin_def)

section \<open>The loop over a row\<close>

lemma high_light_row_fuel:
  assumes "0 < inner br" "nat (b_width br - i) \<le> n"
  shows "high_light_row (n + k) br uv j i py pu pv h = high_light_row n br uv j i py pu pv h"
  using assms(2)
proof (induction n arbitrary: i py pu pv h)
  case 0
  then show ?case by (cases k) simp_all
next
  case (Suc n)
  show ?case
  proof (cases "i \<ge> b_width br")
    case False
    then have le: "nat (b_width br - (i + 1)) \<le> n" "nat (b_width br - (i + (inner br - 1) + 1)) \<le> n"
      using Suc.prems assms(1) by simp_all
    have "high_light_row (n + k) br uv j i' = high_light_row n br uv j i'" if "nat (b_width br - i') \<le> n" for i'
      using Suc.IH [OF that] by (intro ext)
    note this [OF le(1)] this [OF le(2)]
    then show ?thesis by (simp only: add_Suc high_light_row.simps Let_def)
  qed simp
qed

end
