(* ===== verification/ScaleProps.thy ===== *)
theory ScaleProps
  imports ScaleFacts OverlayFacts
begin

text \<open>
  The properties of the scaler: cropping, the blocks that it keeps, and overlays.
\<close>




text \<open>C18: whatever is scaled, also when it fails or is undefined, the two blocks that the scaler
  keeps are alive, apart, and at least as long as it remembers, as long as the library does not
  change the lengths of blocks; and a block that it takes for a picture has the bytes that it asks
  for.\<close>

theorem scaler_blocks:
  assumes "lib_ok lib" "scaler_ok s"
  shows "scaler_ok (snd (scale lib psrc sfmt sw sh pdst n dfmt dw dh s))
    \<and> (case i420_block needed s of (Inr p, s') \<Rightarrow> holds (snd s') p needed | _ \<Rightarrow> True)
    \<and> (case scale_block needed s of (Inr p, s') \<Rightarrow> holds (snd s') p needed | _ \<Rightarrow> True)"
proof -
  have "scaler_ok (snd (scale lib psrc sfmt sw sh pdst n dfmt dw dh s))"
    using keeps_scale [OF assms(1)] assms(2) unfolding keeps_def by blast
  then show ?thesis
    using i420_block_ok(2) [OF assms(2), of needed] scale_block_ok(2) [OF assms(2), of needed]
    by (auto split: sum.splits)
qed

text \<open>A library that touches nothing.\<close>

definition still_lib :: libyuv where
  "still_lib = \<lparr>convert = (\<lambda>_ _ _ _ _ h. Inr (0, h)), ARGBScale = (\<lambda>_ _ _ _ _ _ h. Inr (0, h)), I420Scale = (\<lambda>_ _ _ _ _ _ h. Inr (0, h))\<rparr>"

theorem scaler_blocks_witness:
  "scaler_ok (snd (scale still_lib (Some (0, 0)) FOURCC_BGRA 2 2 (Some (0, 0)) 16 FOURCC_NV12 4 4 (new_lazyscale, [Some (replicate 16 None)])))"
proof -
  have "lib_ok still_lib" by (simp add: lib_ok_def still_lib_def shapely_def)
  moreover have "scaler_ok (new_lazyscale, [Some (replicate 16 None)])" by (simp add: scaler_ok_def new_lazyscale_def holds_def)
  ultimately show ?thesis using scaler_blocks by blast
qed

text \<open>Laying a picture in a packed format over another one of the same format always fails:
  the pointer of the target is made from the picture that is laid over, whose block the copy
  overlaps or leaves.\<close>

theorem overlay_packed_undefined:
  assumes "pix_format dst \<in> {FOURCC_RGB3, FOURCC_BGR3, FOURCC_BGRA, FOURCC_RGBA}" "pix_format src = pix_format dst"
    and "bytes = (if pix_format dst \<in> set packed3 then 3 else 4)"
    and "dims_ok W H" "0 < w" "0 < hh" "0 \<le> x" "0 \<le> y" "x + w \<le> W" "y + hh \<le> H"
    and "fr_width src = of_int w" "fr_height src = of_int hh" "plane 0 src = Some (s, 0)" "s < length h" "h ! s = Some ss"
      "int (length ss) = w * hh * bytes"
    and "fr_width dst = of_int W" "line 0 dst = W * bytes"
  shows "\<exists>e. overlay src dst x y h = Inl e"
proof -
  have b: "bytes = 3 \<or> bytes = 4" using assms(3) by simp
  have f: "pix_format dst \<in> set (packed3 @ packed4)" "pix_format dst \<notin> set packed3 \<longrightarrow> pix_format dst \<in> {FOURCC_BGRA, FOURCC_RGBA}"
    using assms(1) by (auto simp: packed3_def packed4_def)
  have "\<exists>e. overlay_packed bytes src dst x y h = Inl e"
    using overlay_packed_fails [OF b assms(4-18)] .
  then show ?thesis
    using packed_not_planar [OF f(1)] f(2) assms(2,3) by (auto simp: overlay_def Let_def split: if_splits)
qed

text \<open>One pixel over a picture of 2 by 2.\<close>

definition sample_packed :: "int \<Rightarrow> nat \<Rightarrow> lbframe" where
  "sample_packed side b = empty_frame\<lparr>pix_format := FOURCC_RGB3, fr_width := of_int side, fr_height := of_int side,
     planes := [Some (b, 0), None, None, None], linesize := [of_int (side * 3), 0, 0, 0]\<rparr>"

theorem overlay_packed_undefined_witness:
  "\<exists>e. overlay (sample_packed 1 0) (sample_packed 2 1) 1 0 [Some (replicate 3 (Some 9)), Some (replicate 12 (Some 0))] = Inl e"
proof (rule overlay_packed_undefined [where W = 2 and H = 2 and w = 1 and hh = 1 and s = 0 and ss = "replicate 3 (Some 9)" and bytes = 3])
  show "dims_ok 2 2" by code_simp
  have "FOURCC_RGB3 \<in> set packed3" by (simp add: packed3_def)
  then show "3 = (if pix_format (sample_packed 2 1) \<in> set packed3 then 3 else (4 :: int))" by (simp add: sample_packed_def)
qed (simp_all add: sample_packed_def plane_def line_def)

end
