(* ===== verification/WebSocket.thy ===== *)
theory WebSocket
  imports Effects Steps
begin

text \<open>
  The web socket of the signaling session (\<open>mssdk/websocket\<close>). \<open>WSClient\<close> and \<open>WSSClient\<close> hold one
  connection of the library websocketpp, without and with TLS, by the same code; \<open>WSPPClient\<close>
  chooses one of them, keeps what arrives, hands it to the observer and lets a caller wait for the
  connection. What the library answers is an argument: an error code is a flag, the values that it
  reports of a connection are given. The frames that are sent and the calls of the observer are
  kept in the state.
\<close>

section \<open>One connection\<close>

datatype WEBSOCKET_STATUS = WS_STATUS_UNINIT | WS_STATUS_INIT | WS_STATUS_CONNECTING | WS_STATUS_CONNECTED
  | WS_STATUS_DISCONNECT

datatype ws_frame = TextFrame string | BinaryFrame "8 word list" | PingFrame string | PongFrame string

text \<open>The calls of \<open>IWSObserver\<close>.\<close>

datatype ws_call = Open | Fail int string | Close int string | Validate | Text string | Binary "8 word list"
  | Ping string | Pong string | PongTimeout string

record endpoint =
  tls :: bool
  lib_client :: bool
  ws_observer :: bool
  handl :: bool
  io_stopped :: bool
  sent :: "ws_frame list"

definition WSClient :: "bool \<Rightarrow> endpoint" where
  "WSClient secure = \<lparr>tls = secure, lib_client = False, ws_observer = False, handl = False, io_stopped = False, sent = []\<rparr>"

text \<open>\<open>close\<close> stops the loop of the library before it asks for the closing handshake; an error is
  only logged.\<close>

definition endpoint_close :: "endpoint \<Rightarrow> endpoint" where
  "endpoint_close e = (if lib_client e then e\<lparr>io_stopped := True\<rparr> else e)"

definition endpoint_deinit :: "endpoint \<Rightarrow> endpoint" where
  "endpoint_deinit e = (endpoint_close e)\<lparr>lib_client := False\<rparr>"

definition endpoint_init :: "endpoint \<Rightarrow> endpoint" where
  "endpoint_init e = (endpoint_deinit e)\<lparr>lib_client := True, io_stopped := False\<rparr>"

text \<open>\<open>no_con\<close>, \<open>no_sub\<close>: the errors of \<open>get_connection\<close> and \<open>add_subprotocol\<close>.\<close>

definition endpoint_connect :: "bool \<Rightarrow> bool \<Rightarrow> bool \<Rightarrow> string \<Rightarrow> endpoint \<Rightarrow> int \<times> endpoint" where
  "endpoint_connect no_con no_sub observer subprotocol e =
     (let e1 = e\<lparr>ws_observer := observer\<rparr>;
          e2 = (if lib_client e1 then e1 else endpoint_init e1)
      in if no_con then (- 1, e2)
         else if subprotocol \<noteq> [] \<and> no_sub then (- 1, e2)
         else (0, e2\<lparr>handl := True\<rparr>))"

definition endpoint_send :: "bool \<Rightarrow> ws_frame \<Rightarrow> (endpoint, int) op" where
  "endpoint_send ec f = (\<lambda>e.
     if \<not> lib_client e then (Inl AssertionFailed, e)
     else if ec then (Inr (- 1), e) else (Inr 0, e\<lparr>sent := sent e @ [f]\<rparr>))"

definition endpoint_send_text :: "bool \<Rightarrow> string \<Rightarrow> (endpoint, int) op" where
  "endpoint_send_text ec data = endpoint_send ec (TextFrame data)"

definition endpoint_send_binary :: "bool \<Rightarrow> 8 word list \<Rightarrow> (endpoint, int) op" where
  "endpoint_send_binary ec data = endpoint_send ec (BinaryFrame data)"

definition endpoint_send_ping :: "bool \<Rightarrow> string \<Rightarrow> (endpoint, int) op" where
  "endpoint_send_ping ec data = endpoint_send ec (PingFrame data)"

definition endpoint_send_pong :: "bool \<Rightarrow> string \<Rightarrow> (endpoint, unit) op" where
  "endpoint_send_pong ec data = bindS (endpoint_send ec (PongFrame data)) (\<lambda>_. returnS ())"

text \<open>The handlers of the connection: what the observer is called with. \<open>code\<close> and \<open>reason\<close> are
  those of the connection.\<close>

definition endpoint_on_open :: "endpoint \<Rightarrow> ws_call option" where
  "endpoint_on_open e = (if ws_observer e then Some Open else None)"

definition endpoint_on_fail :: "int \<Rightarrow> string \<Rightarrow> endpoint \<Rightarrow> ws_call option" where
  "endpoint_on_fail code reason e = (if ws_observer e then Some (Fail code reason) else None)"

definition endpoint_on_close :: "int \<Rightarrow> string \<Rightarrow> endpoint \<Rightarrow> ws_call option" where
  "endpoint_on_close code reason e = (if ws_observer e then Some (Close code reason) else None)"

definition endpoint_on_validate :: "endpoint \<Rightarrow> ws_call option" where
  "endpoint_on_validate e = (if ws_observer e then Some Validate else None)"

definition endpoint_on_message :: "ws_frame \<Rightarrow> endpoint \<Rightarrow> ws_call option" where
  "endpoint_on_message msg e = (if \<not> ws_observer e then None else case msg of
     TextFrame t \<Rightarrow> Some (Text t) | BinaryFrame d \<Rightarrow> Some (Binary d) | _ \<Rightarrow> None)"

definition endpoint_on_ping :: "string \<Rightarrow> endpoint \<Rightarrow> ws_call option" where
  "endpoint_on_ping t e = (if ws_observer e then Some (Ping t) else None)"

definition endpoint_on_pong :: "string \<Rightarrow> endpoint \<Rightarrow> ws_call option" where
  "endpoint_on_pong t e = (if ws_observer e then Some (Pong t) else None)"

definition endpoint_on_pong_timeout :: "string \<Rightarrow> endpoint \<Rightarrow> ws_call option" where
  "endpoint_on_pong_timeout t e = (if ws_observer e then Some (PongTimeout t) else None)"

section \<open>Certificates\<close>

text \<open>The alternative names of a certificate: whether each is a DNS name, and its bytes. The result
  is that of the last name looked at; a name with a NUL ends the loop. A host name has no NUL.\<close>

fun alt_names :: "string \<Rightarrow> (bool \<times> string) list \<Rightarrow> bool \<Rightarrow> bool" where
  "alt_names hostname [] result = result"
| "alt_names hostname ((dns, name) # names) result =
     (if \<not> dns then alt_names hostname names result
      else if CHR 0x00 \<in> set name then result
      else alt_names hostname names (hostname = name))"

definition verify_subject_alternative_name :: "string \<Rightarrow> (bool \<times> string) list option \<Rightarrow> bool" where
  "verify_subject_alternative_name hostname names = (case names of None \<Rightarrow> False | Some ns \<Rightarrow> alt_names hostname ns False)"

definition verify_common_name :: "string \<Rightarrow> string option \<Rightarrow> bool" where
  "verify_common_name hostname cn = (case cn of None \<Rightarrow> False
     | Some name \<Rightarrow> if CHR 0x00 \<in> set name then False else hostname = name)"

record certificate =
  san :: "(bool \<times> string) list option"
  common_name :: "string option"

definition verify_certificate :: "string \<Rightarrow> bool \<Rightarrow> int \<Rightarrow> certificate \<Rightarrow> bool" where
  "verify_certificate hostname preverified depth cert =
     (if depth = 0 \<and> preverified then
        (if verify_subject_alternative_name hostname (san cert) then True
         else if verify_common_name hostname (common_name cert) then True else False)
      else preverified)"

text \<open>\<open>init\<close> binds the empty host name, and asks for no verification.\<close>

definition tls_hostname :: string where "tls_hostname = []"

section \<open>The client\<close>

text \<open>A promise is a number. The constructor does not initialise the pointer \<open>promise_\<close>; it is
  never set to null, and \<open>deleted\<close> are the promises that it may still point to.\<close>

record wspp =
  connection :: "endpoint option"
  observer :: bool
  promise_ptr :: "nat option"
  deleted :: "nat list"
  promise_values :: "(nat \<times> int) list"
  fresh :: nat
  recv_text_que :: "string list"
  recv_binary_que :: "8 word list list"
  ws_status :: WEBSOCKET_STATUS
  told :: "ws_call list"

type_synonym 'a ws_op = "(wspp, 'a) op"

definition WSPPClient :: wspp where
  "WSPPClient = \<lparr>connection = None, observer = False, promise_ptr = None, deleted = [], promise_values = [], fresh = 0,
     recv_text_que = [], recv_binary_que = [], ws_status = WS_STATUS_INIT, told = []\<rparr>"

text \<open>The inner client is released, not deleted: it stays with its loop stopped.\<close>

definition wspp_close :: "unit ws_op" where
  "wspp_close = updS (\<lambda>w. w\<lparr>connection := None, ws_status := WS_STATUS_DISCONNECT\<rparr>)"

text \<open>\<open>scheme\<close> is that of the URL.\<close>

definition wspp_connect :: "string \<Rightarrow> bool \<Rightarrow> bool \<Rightarrow> string \<Rightarrow> int ws_op" where
  "wspp_connect scheme no_con no_sub subprotocol =
     bindS wspp_close (\<lambda>_.
     bindS (updS (\<lambda>w. w\<lparr>observer := True\<rparr>)) (\<lambda>_.
     let (ret, e) = endpoint_connect no_con no_sub True subprotocol (WSClient (scheme = ''https'' \<or> scheme = ''wss''))
     in bindS (updS (\<lambda>w. w\<lparr>connection := Some e, ws_status := WS_STATUS_CONNECTING\<rparr>)) (\<lambda>_. returnS ret)))"

definition on_endpoint :: "(endpoint, 'a) op \<Rightarrow> 'a \<Rightarrow> 'a ws_op" where
  "on_endpoint f otherwise = (\<lambda>w. case connection w of None \<Rightarrow> (Inr otherwise, w)
     | Some e \<Rightarrow> (case f e of (r, e') \<Rightarrow> (r, w\<lparr>connection := Some e'\<rparr>)))"

definition wspp_send_text :: "bool \<Rightarrow> string \<Rightarrow> int ws_op" where
  "wspp_send_text ec data = on_endpoint (endpoint_send_text ec data) (- 1)"

definition wspp_send_binary :: "bool \<Rightarrow> 8 word list \<Rightarrow> int ws_op" where
  "wspp_send_binary ec data = on_endpoint (endpoint_send_binary ec data) (- 1)"

definition wspp_send_ping :: "bool \<Rightarrow> string \<Rightarrow> int ws_op" where
  "wspp_send_ping ec data = on_endpoint (endpoint_send_ping ec data) (- 1)"

text \<open>A pong is sent as a text.\<close>

definition wspp_send_pong :: "bool \<Rightarrow> string \<Rightarrow> unit ws_op" where
  "wspp_send_pong ec data = bindS (on_endpoint (endpoint_send_text ec data) (- 1)) (\<lambda>_. returnS ())"

definition wspp_status :: "wspp \<Rightarrow> WEBSOCKET_STATUS" where
  "wspp_status w = ws_status w"

definition recv_text :: "string ws_op" where
  "recv_text = (\<lambda>w. case recv_text_que w of [] \<Rightarrow> (Inr [], w) | msg # rest \<Rightarrow> (Inr msg, w\<lparr>recv_text_que := rest\<rparr>))"

definition recv_binary :: "8 word list ws_op" where
  "recv_binary = (\<lambda>w. case recv_binary_que w of
     [] \<Rightarrow> (Inl (Undefined ''front of an empty queue''), w)
   | data # rest \<Rightarrow> (Inr data, w\<lparr>recv_binary_que := rest\<rparr>))"

section \<open>What arrives\<close>

definition tell :: "ws_call \<Rightarrow> unit ws_op" where
  "tell c = updS (\<lambda>w. if observer w then w\<lparr>told := told w @ [c]\<rparr> else w)"

text \<open>\<open>if (promise_) promise_->set_value(v)\<close>\<close>

definition set_promise :: "int \<Rightarrow> unit ws_op" where
  "set_promise v = (\<lambda>w. case promise_ptr w of
     None \<Rightarrow> (Inl (Undefined ''promise_''), w)
   | Some p \<Rightarrow>
       if p \<in> set (deleted w) then (Inl (Undefined ''use after delete''), w)
       else if map_of (promise_values w) p \<noteq> None then (Inl FutureError, w)
       else (Inr (), w\<lparr>promise_values := (p, v) # promise_values w\<rparr>))"

definition wspp_on_open :: "unit ws_op" where
  "wspp_on_open =
     bindS (updS (\<lambda>w. w\<lparr>ws_status := WS_STATUS_CONNECTED\<rparr>)) (\<lambda>_. bindS (tell Open) (\<lambda>_. set_promise 0))"

definition wspp_on_fail :: "int \<Rightarrow> string \<Rightarrow> unit ws_op" where
  "wspp_on_fail code reason =
     bindS (updS (\<lambda>w. w\<lparr>ws_status := WS_STATUS_DISCONNECT\<rparr>)) (\<lambda>_.
     bindS (tell (Fail code reason)) (\<lambda>_. set_promise code))"

text \<open>A closed connection is reported as a failed one.\<close>

definition wspp_on_close :: "int \<Rightarrow> string \<Rightarrow> unit ws_op" where
  "wspp_on_close code reason =
     bindS (updS (\<lambda>w. w\<lparr>ws_status := WS_STATUS_DISCONNECT\<rparr>)) (\<lambda>_. tell (Fail code reason))"

text \<open>\<open>answer\<close> is that of the observer.\<close>

definition ask_observer :: "ws_call \<Rightarrow> bool \<Rightarrow> bool ws_op" where
  "ask_observer c answer = bindS (getS observer) (\<lambda>obs. bindS (tell c) (\<lambda>_. returnS (obs \<and> answer)))"

definition wspp_on_validate :: "bool \<Rightarrow> bool ws_op" where
  "wspp_on_validate answer = ask_observer Validate answer"

definition wspp_on_text_message :: "string \<Rightarrow> unit ws_op" where
  "wspp_on_text_message t =
     bindS (updS (\<lambda>w. w\<lparr>recv_text_que := recv_text_que w @ [t]\<rparr>)) (\<lambda>_. tell (Text t))"

definition wspp_on_binary_message :: "8 word list \<Rightarrow> unit ws_op" where
  "wspp_on_binary_message d =
     bindS (updS (\<lambda>w. w\<lparr>recv_binary_que := recv_binary_que w @ [d]\<rparr>)) (\<lambda>_. tell (Binary d))"

definition wspp_on_ping :: "string \<Rightarrow> bool \<Rightarrow> bool ws_op" where
  "wspp_on_ping t answer = ask_observer (Ping t) answer"

definition wspp_on_pong :: "string \<Rightarrow> unit ws_op" where
  "wspp_on_pong t = tell (Pong t)"

definition wspp_on_pong_timeout :: "string \<Rightarrow> unit ws_op" where
  "wspp_on_pong_timeout t = tell (PongTimeout t)"

section \<open>Waiting for the connection\<close>

text \<open>\<open>connect_sync\<close> and the thread of the library, which answers a connection once, with
  \<open>on_open\<close> or \<open>on_fail\<close>. The caller is outside, behind \<open>connect\<close>, waiting for its promise,
  or has returned. A handler that throws or has undefined behaviour ends the run.\<close>

datatype sync_pc = Outside | Behind | Awaiting nat | Came_back int

record sync =
  pc :: sync_pc
  client :: wspp
  unanswered :: bool
  answers :: "int list"
  fault :: "exn option"

definition sync_connect :: "string \<Rightarrow> bool \<Rightarrow> bool \<Rightarrow> string \<Rightarrow> sync \<Rightarrow> sync" where
  "sync_connect scheme no_con no_sub subprotocol s = (case wspp_connect scheme no_con no_sub subprotocol (client s) of
     (Inl e, w) \<Rightarrow> s\<lparr>client := w, fault := Some e\<rparr>
   | (Inr ret, w) \<Rightarrow> if ret \<noteq> 0 then s\<lparr>client := w, pc := Came_back ret\<rparr>
       else s\<lparr>client := w, pc := Behind, unanswered := True, answers := []\<rparr>)"

definition sync_promise :: "sync \<Rightarrow> sync" where
  "sync_promise s = (let p = fresh (client s) in
     s\<lparr>client := (client s)\<lparr>promise_ptr := Some p, fresh := p + 1\<rparr>, pc := Awaiting p\<rparr>)"

text \<open>\<open>get\<close> returns; the promise is deleted, the pointer keeps its value.\<close>

definition sync_return :: "int \<Rightarrow> sync \<Rightarrow> sync" where
  "sync_return v s = (case promise_ptr (client s) of
     None \<Rightarrow> s\<lparr>fault := Some (Undefined ''promise_'')\<rparr>
   | Some p \<Rightarrow> s\<lparr>client := (client s)\<lparr>deleted := p # deleted (client s)\<rparr>, pc := Came_back v\<rparr>)"

definition net_answer :: "int \<Rightarrow> unit ws_op \<Rightarrow> sync \<Rightarrow> sync" where
  "net_answer v handler s = (case handler (client s) of
     (Inl e, w) \<Rightarrow> s\<lparr>client := w, unanswered := False, answers := answers s @ [v], fault := Some e\<rparr>
   | (Inr _, w) \<Rightarrow> s\<lparr>client := w, unanswered := False, answers := answers s @ [v]\<rparr>)"

inductive sync_step :: "sync \<Rightarrow> sync \<Rightarrow> bool" where
  connect: "fault s = None \<Longrightarrow> pc s = Outside \<or> (\<exists>v. pc s = Came_back v) \<Longrightarrow>
     sync_step s (sync_connect scheme no_con no_sub subprotocol s)"
| promise: "fault s = None \<Longrightarrow> pc s = Behind \<Longrightarrow> sync_step s (sync_promise s)"
| wake: "fault s = None \<Longrightarrow> pc s = Awaiting p \<Longrightarrow> map_of (promise_values (client s)) p = Some v \<Longrightarrow>
     sync_step s (sync_return v s)"
| opened: "fault s = None \<Longrightarrow> unanswered s \<Longrightarrow> sync_step s (net_answer 0 wspp_on_open s)"
| failed: "fault s = None \<Longrightarrow> unanswered s \<Longrightarrow> sync_step s (net_answer code (wspp_on_fail code reason) s)"

definition no_sync :: sync where
  "no_sync = \<lparr>pc = Outside, client = WSPPClient, unanswered = False, answers = [], fault = None\<rparr>"

definition sync_reachable :: "sync \<Rightarrow> bool" where
  "sync_reachable s \<longleftrightarrow> sync_step\<^sup>*\<^sup>* no_sync s"

lemma sync_reachable_first: "sync_reachable no_sync"
  by (simp add: sync_reachable_def)

lemma sync_reachable_step: "sync_reachable s \<Longrightarrow> sync_step s s' \<Longrightarrow> sync_reachable s'"
  unfolding sync_reachable_def by (rule run_step)

inductive_cases sync_stepE: "sync_step s s'"

end
