(* ===== verification/WebSocketProps.thy ===== *)
theory WebSocketProps
  imports WebSocket
begin

text \<open>
  The properties of the web socket: waiting for the connection, the names of a certificate, and
  what the observer is told.
\<close>

section \<open>Operations\<close>

lemma set_promise_stale:
  "(\<forall>p. promise_ptr w = Some p \<longrightarrow> p \<in> set (deleted w)) \<Longrightarrow> \<exists>u. set_promise v w = (Inl (Undefined u), w)"
  by (auto simp: set_promise_def split: option.splits)

lemma set_promise_new:
  "promise_ptr w = Some p \<Longrightarrow> p \<notin> set (deleted w) \<Longrightarrow> map_of (promise_values w) p = None \<Longrightarrow>
     set_promise v w = (Inr (), w\<lparr>promise_values := (p, v) # promise_values w\<rparr>)"
  by (simp add: set_promise_def)

lemma set_promise_fresh: "fresh (snd (set_promise v w)) = fresh w"
  by (simp add: set_promise_def split: option.splits)

text \<open>What leaves the promises alone.\<close>

definition same_promises :: "wspp \<Rightarrow> wspp \<Rightarrow> bool" where
  "same_promises w w' \<longleftrightarrow> promise_ptr w' = promise_ptr w \<and> deleted w' = deleted w
     \<and> promise_values w' = promise_values w \<and> fresh w' = fresh w"

lemma on_open_run: "\<exists>w'. wspp_on_open w = set_promise 0 w' \<and> same_promises w w'"
  by (rule exI [of _ "snd (tell Open (w\<lparr>ws_status := WS_STATUS_CONNECTED\<rparr>))"])
    (simp add: wspp_on_open_def tell_def same_promises_def)

lemma on_fail_run: "\<exists>w'. wspp_on_fail code reason w = set_promise code w' \<and> same_promises w w'"
  by (rule exI [of _ "snd (tell (Fail code reason) (w\<lparr>ws_status := WS_STATUS_DISCONNECT\<rparr>))"])
    (simp add: wspp_on_fail_def tell_def same_promises_def)

lemma wspp_connect_run:
  "\<exists>ret w'. wspp_connect scheme no_con no_sub sub w = (Inr ret, w') \<and> same_promises w w'"
  by (cases "endpoint_connect no_con no_sub True sub (WSClient (scheme = ''https'' \<or> scheme = ''wss''))")
    (simp add: wspp_connect_def wspp_close_def same_promises_def)

text \<open>A pong leaves as a text frame, and the end of a connection is reported as a failure.\<close>

lemma pong_is_text:
  assumes "connection w = Some e" "lib_client e"
  shows "wspp_send_pong False data w = (Inr (), w\<lparr>connection := Some (e\<lparr>sent := sent e @ [TextFrame data]\<rparr>)\<rparr>)"
  using assms by (simp add: wspp_send_pong_def on_endpoint_def endpoint_send_text_def endpoint_send_def bindS_def)

lemma close_reported_as_fail:
  "observer w \<Longrightarrow> told (snd (wspp_on_close code reason w)) = told w @ [Fail code reason]"
  by (simp add: wspp_on_close_def tell_def)

section \<open>Waiting\<close>

text \<open>The pointer \<open>promise_\<close> names no promise that can be set.\<close>

definition stale :: "wspp \<Rightarrow> bool" where
  "stale w \<longleftrightarrow> (\<forall>p. promise_ptr w = Some p \<longrightarrow> p \<in> set (deleted w))"

definition known :: "wspp \<Rightarrow> bool" where
  "known w \<longleftrightarrow> (\<forall>p \<in> set (deleted w) \<union> fst ` set (promise_values w). p < fresh w)"

definition sync_ok :: "sync \<Rightarrow> bool" where
  "sync_ok s \<longleftrightarrow> known (client s) \<and> (case fault s of
     Some e \<Rightarrow> pc s = Behind \<and> answers s \<noteq> [] \<and> (\<exists>u. e = Undefined u)
   | None \<Rightarrow> (case pc s of
       Awaiting p \<Rightarrow> promise_ptr (client s) = Some p \<and> p \<notin> set (deleted (client s))
         \<and> (if unanswered s then answers s = [] \<and> map_of (promise_values (client s)) p = None
            else \<exists>v. answers s = [v] \<and> map_of (promise_values (client s)) p = Some v)
     | Behind \<Rightarrow> stale (client s) \<and> unanswered s \<and> answers s = []
     | _ \<Rightarrow> stale (client s) \<and> \<not> unanswered s))"

lemma answer_behind:
  assumes "sync_ok s" "fault s = None" "unanswered s" "pc s = Behind"
    and "\<exists>w'. h (client s) = set_promise v w' \<and> same_promises (client s) w'"
  shows "sync_ok (net_answer v h s)"
proof -
  obtain w' where w': "h (client s) = set_promise v w'" "promise_ptr w' = promise_ptr (client s)"
    "deleted w' = deleted (client s)" "promise_values w' = promise_values (client s)" "fresh w' = fresh (client s)"
    using assms(5) by (auto simp: same_promises_def)
  have "stale w'" using assms(1,2,4) w' by (simp add: sync_ok_def stale_def)
  then obtain u where "set_promise v w' = (Inl (Undefined u), w')" using set_promise_stale [of w' v] by (auto simp: stale_def)
  then show ?thesis using assms(1,2,4) w' by (simp add: net_answer_def sync_ok_def known_def)
qed

lemma answer_waiting:
  assumes "sync_ok s" "fault s = None" "unanswered s" "pc s = Awaiting p"
    and "\<exists>w'. h (client s) = set_promise v w' \<and> same_promises (client s) w'"
    and "p < fresh (client s)"
  shows "sync_ok (net_answer v h s)"
proof -
  obtain w' where w': "h (client s) = set_promise v w'" "promise_ptr w' = promise_ptr (client s)"
    "deleted w' = deleted (client s)" "promise_values w' = promise_values (client s)" "fresh w' = fresh (client s)"
    using assms(5) by (auto simp: same_promises_def)
  have "set_promise v w' = (Inr (), w'\<lparr>promise_values := (p, v) # promise_values w'\<rparr>)"
    using assms(1-4) w' by (intro set_promise_new) (simp_all add: sync_ok_def)
  then show ?thesis using assms(1-4,6) w' by (simp add: net_answer_def sync_ok_def known_def)
qed

text \<open>The promise that is waited for is an old one.\<close>

definition sync_inv :: "sync \<Rightarrow> bool" where
  "sync_inv s \<longleftrightarrow> sync_ok s \<and> (\<forall>p. pc s = Awaiting p \<longrightarrow> p < fresh (client s))"

lemma answer_inv:
  assumes "sync_inv s" "fault s = None" "unanswered s"
    and "\<exists>w'. h (client s) = set_promise v w' \<and> same_promises (client s) w'"
  shows "sync_inv (net_answer v h s)"
proof -
  have inv: "sync_ok s" using assms(1) by (simp add: sync_inv_def)
  have "pc (net_answer v h s) = pc s" by (simp add: net_answer_def split: prod.splits sum.splits)
  moreover have "fresh (client (net_answer v h s)) = fresh (client s)"
  proof -
    have "fresh (client (net_answer v h s)) = fresh (snd (h (client s)))"
      by (simp add: net_answer_def split: prod.splits sum.splits)
    then show ?thesis using assms(4) set_promise_fresh by (metis same_promises_def)
  qed
  moreover have "sync_ok (net_answer v h s)"
  proof (cases "pc s")
    case Behind
    then show ?thesis using answer_behind inv assms(2-4) by blast
  next
    case (Awaiting p)
    then show ?thesis using answer_waiting inv assms by (auto simp: sync_inv_def)
  qed (use inv assms(2,3) in \<open>simp_all add: sync_ok_def\<close>)
  ultimately show ?thesis using assms(1) by (simp add: sync_inv_def)
qed

lemma sync_step_inv: "sync_step s s' \<Longrightarrow> sync_inv s \<Longrightarrow> sync_inv s'"
proof (induction rule: sync_step.induct)
  case (connect s scheme no_con no_sub sub)
  obtain ret w' where "wspp_connect scheme no_con no_sub sub (client s) = (Inr ret, w')"
    "promise_ptr w' = promise_ptr (client s)" "deleted w' = deleted (client s)"
    "promise_values w' = promise_values (client s)" "fresh w' = fresh (client s)"
    using wspp_connect_run by (fastforce simp: same_promises_def)
  then show ?case
    using connect by (auto simp: sync_connect_def sync_inv_def sync_ok_def known_def stale_def)
next
  case (promise s)
  then have "stale (client s)" "known (client s)" "unanswered s" "answers s = []"
    by (auto simp: sync_inv_def sync_ok_def)
  moreover from this have "fresh (client s) \<notin> set (deleted (client s))" "map_of (promise_values (client s)) (fresh (client s)) = None"
    by (auto simp: known_def map_of_eq_None_iff)
  ultimately show ?case
    using promise by (auto simp: sync_promise_def sync_inv_def sync_ok_def known_def Let_def less_Suc_eq)
next
  case (wake s p v)
  then show ?case
    by (auto simp: sync_return_def sync_inv_def sync_ok_def known_def stale_def split: if_splits)
next
  case (opened s)
  then show ?case by (intro answer_inv on_open_run)
next
  case (failed s code reason)
  then show ?case by (intro answer_inv on_fail_run)
qed

interpretation waiting: step_system sync_step sync_inv no_sync
  by unfold_locales (use sync_step_inv in \<open>auto simp: no_sync_def sync_inv_def sync_ok_def known_def stale_def WSPPClient_def\<close>)

lemma sync_reachable_inv: "sync_reachable s \<Longrightarrow> sync_inv s"
  unfolding sync_reachable_def by (rule waiting.invariant)

text \<open>The first connection, answered before the promise exists.\<close>

definition connecting :: sync where
  "connecting = sync_connect ''wss'' False False ''protoo'' no_sync"

lemma connecting_reachable: "sync_reachable connecting" "fault connecting = None" "pc connecting = Behind" "unanswered connecting"
proof -
  show "sync_reachable connecting"
    unfolding connecting_def by (rule sync_reachable_step [OF sync_reachable_first connect]) (simp_all add: no_sync_def)
  show "fault connecting = None" "pc connecting = Behind" "unanswered connecting" by code_simp+
qed

lemma overtaken_fault: "fault (net_answer 0 wspp_on_open connecting) = Some (Undefined ''promise_'')"
  by code_simp

text \<open>C16: \<open>connect_sync\<close>. A caller that waits while the connection has been answered can return,
  and returns this answer: none is lost. The only fault is an answer that arrives between
  \<open>connect\<close> and the creation of the promise: then the handler uses a pointer that is
  indeterminate or dangling, and this can happen to the first connection.\<close>

theorem connect_sync_answered:
  "(\<forall>s p. sync_reachable s \<longrightarrow> fault s = None \<longrightarrow> pc s = Awaiting p \<longrightarrow> \<not> unanswered s \<longrightarrow>
      (\<exists>v. answers s = [v] \<and> sync_step s (sync_return v s) \<and> pc (sync_return v s) = Came_back v
        \<and> (\<forall>s'. sync_step s s' \<longrightarrow> s' = sync_return v s)))
   \<and> (\<forall>s. sync_reachable s \<longrightarrow> (fault s \<noteq> None \<longleftrightarrow> pc s = Behind \<and> answers s \<noteq> []))
   \<and> (\<exists>s. sync_reachable s \<and> fault s = Some (Undefined ''promise_''))"
proof (intro conjI allI impI)
  fix s p assume r: "sync_reachable s" and s: "fault s = None" "pc s = Awaiting p" "\<not> unanswered s"
  obtain v where v: "promise_ptr (client s) = Some p" "answers s = [v]" "map_of (promise_values (client s)) p = Some v"
    using sync_reachable_inv [OF r] s by (auto simp: sync_inv_def sync_ok_def)
  have only: "s' = sync_return v s" if "sync_step s s'" for s'
    using that by cases (use s v in simp_all)
  show "\<exists>v. answers s = [v] \<and> sync_step s (sync_return v s) \<and> pc (sync_return v s) = Came_back v
      \<and> (\<forall>s'. sync_step s s' \<longrightarrow> s' = sync_return v s)"
  proof (intro exI conjI allI impI)
    show "answers s = [v]" "sync_step s (sync_return v s)" "pc (sync_return v s) = Came_back v"
      using v wake [OF s(1,2) v(3)] by (simp_all add: sync_return_def)
  qed (rule only)
next
  show "\<exists>s. sync_reachable s \<and> fault s = Some (Undefined ''promise_'')"
    by (rule exI [of _ "net_answer 0 wspp_on_open connecting"], rule conjI,
        rule sync_reachable_step [OF connecting_reachable(1) opened [OF connecting_reachable(2,4)]], rule overtaken_fault)
next
  fix s assume "sync_reachable s"
  then have "sync_ok s" using sync_reachable_inv by (simp add: sync_inv_def)
  then show "fault s \<noteq> None \<longleftrightarrow> pc s = Behind \<and> answers s \<noteq> []"
    by (cases "fault s") (auto simp: sync_ok_def)
qed

text \<open>The first connection, opened while the caller waits.\<close>

definition sample_wait :: sync where
  "sample_wait = net_answer 0 wspp_on_open (sync_promise connecting)"

lemma sample_wait_reachable: "sync_reachable sample_wait"
proof -
  have "sync_reachable (sync_promise connecting)"
    by (rule sync_reachable_step [OF connecting_reachable(1) promise [OF connecting_reachable(2,3)]])
  then show ?thesis unfolding sample_wait_def
    by (rule sync_reachable_step [OF _ opened]) code_simp+
qed

theorem connect_sync_answered_witness: "pc (sync_return 0 sample_wait) = Came_back 0 \<and> sync_step sample_wait (sync_return 0 sample_wait)"
proof -
  have s: "fault sample_wait = None" "pc sample_wait = Awaiting 0" "\<not> unanswered sample_wait" "answers sample_wait = [0]"
    by code_simp+
  obtain v where v: "answers sample_wait = [v]" "sync_step sample_wait (sync_return v sample_wait)"
    "pc (sync_return v sample_wait) = Came_back v"
    using conjunct1 [OF connect_sync_answered, rule_format, OF sample_wait_reachable s(1-3)] by (elim exE conjE)
  then show ?thesis using s(4) by simp
qed

section \<open>Certificates\<close>

text \<open>The DNS names of a certificate that are looked at: those before the first with a NUL.\<close>

definition dns_names :: "(bool \<times> string) list \<Rightarrow> string list" where
  "dns_names names = takeWhile (\<lambda>name. CHR 0x00 \<notin> set name) (map snd (filter fst names))"

lemma alt_names_last:
  "alt_names hostname names result =
     (if dns_names names = [] then result else last (dns_names names) = hostname)"
proof (induction names arbitrary: result)
  case (Cons a names)
  then show ?case by (cases a) (auto simp: dns_names_def)
qed (simp add: dns_names_def)

lemma verify_certificate_iff:
  "verify_certificate hostname preverified depth cert \<longleftrightarrow> preverified \<and>
     (if depth = 0 then
        (\<exists>names. san cert = Some names \<and> dns_names names \<noteq> [] \<and> last (dns_names names) = hostname)
        \<or> (common_name cert = Some hostname \<and> CHR 0x00 \<notin> set hostname)
      else True)"
  by (auto simp: verify_certificate_def verify_subject_alternative_name_def verify_common_name_def alt_names_last
      split: option.splits if_splits)

lemma earlier_name_rejected:
  "CHR 0x00 \<notin> set a \<union> set b \<Longrightarrow> a \<noteq> b \<Longrightarrow>
     \<not> verify_certificate a True 0 \<lparr>san = Some [(True, a), (True, b)], common_name = None\<rparr>"
  by (auto simp: verify_certificate_iff dns_names_def)


end
