(* ===== verification/Capture.thy ===== *)
theory Capture
  imports ScaleFacts Steps
begin

text \<open>
  Desktop capture (\<open>DestopCapture\<close> in \<open>mssdk/peerconnection/video_capture.cpp\<close>): the image that the
  calls of the window system fill, its delivery through the scaler, and the life of the thread of
  the capture. What the window system says of the window is an argument, and what it writes into
  the image a parameter.
\<close>

section \<open>The image\<close>

record image =
  image_data :: ptr
  image_data_size :: "32 word"
  image_width :: int
  image_height :: int

definition no_image :: image where
  "no_image = \<lparr>image_data = None, image_data_size = 0, image_width = 0, image_height = 0\<rparr>"

type_synonym 'a image_op = "(image \<times> heap, 'a) op"

definition image_mem :: "(heap \<Rightarrow> heap res) \<Rightarrow> unit image_op" where
  "image_mem f = (\<lambda>(im, h). case f h of Inl e \<Rightarrow> (Inl e, (im, h)) | Inr h' \<Rightarrow> (Inr (), (im, h')))"

record bitmap_info =
  biWidth :: int
  biHeight :: int
  biBitCount :: int
  biSizeImage :: "32 word"

definition InitBitMapInfo :: "int \<Rightarrow> int \<Rightarrow> bool \<Rightarrow> int \<Rightarrow> bitmap_info res" where
  "InitBitMapInfo width height top2bottom bit_count =
     bindE (area32 width height 4) (\<lambda>a.
     Inr \<lparr>biWidth = width, biHeight = (if top2bottom then - height else height), biBitCount = bit_count, biSizeImage = of_int a\<rparr>)"

text \<open>A new image when the size in bytes is another one: \<open>allocated\<close> is whether there is memory.
  The width and the height are only taken over then.\<close>

definition resize_image :: "bool \<Rightarrow> int \<Rightarrow> int \<Rightarrow> bitmap_info \<Rightarrow> bool image_op" where
  "resize_image allocated width height bmi =
     bindS (getS fst) (\<lambda>im.
     if biSizeImage bmi \<noteq> image_data_size im \<and> biWidth bmi \<noteq> 0 \<and> biHeight bmi \<noteq> 0 then
       bindS (image_mem (heap_delete (image_data im))) (\<lambda>_.
       bindS (updS (\<lambda>(im, h). (im\<lparr>image_data := None, image_data_size := biSizeImage bmi, image_width := width, image_height := height\<rparr>, h))) (\<lambda>_.
       if \<not> allocated then returnS False
       else bindS (updS (\<lambda>(im, h). (im\<lparr>image_data := Some (length h, 0)\<rparr>, h @ [Some (replicate (unat (biSizeImage bmi)) (Some 0))]))) (\<lambda>_.
            returnS True)))
     else returnS True)"

text \<open>\<open>bitmap\<close>: the size of the bitmap of the window, if it has one; \<open>window\<close>: that of the window;
  \<open>stretched\<close>: whether the picture could be taken; \<open>get_di_bits\<close>: its bits, written into the image.\<close>

definition UpdateImage ::
  "(int \<Rightarrow> int \<Rightarrow> int \<Rightarrow> ptr \<Rightarrow> heap \<Rightarrow> heap res) \<Rightarrow> (int \<times> int) option \<Rightarrow> int \<times> int \<Rightarrow> bool \<Rightarrow> int \<Rightarrow> bool \<Rightarrow> unit image_op" where
  "UpdateImage get_di_bits bitmap window stretched bit_count allocated =
     (let (width, height) = (case bitmap of Some s \<Rightarrow> s | None \<Rightarrow> window) in
      if width = 0 \<or> height = 0 \<or> \<not> stretched then returnS ()
      else bindS (liftS (InitBitMapInfo width height True bit_count)) (\<lambda>bmi.
           bindS (resize_image allocated width height bmi) (\<lambda>ready.
           if \<not> ready then returnS ()
           else bindS (getS fst) (\<lambda>im. image_mem (get_di_bits width height bit_count (image_data im))))))"

text \<open>The delivery: the image is scaled into the buffer of the frame that is sent. The code of the
  scaler is not looked at.\<close>

definition DeliverImage :: "libyuv \<Rightarrow> image \<Rightarrow> ptr \<Rightarrow> 32 word \<Rightarrow> 32 word \<Rightarrow> int scale_op" where
  "DeliverImage lib im buffer width height =
     bindS (scale lib (image_data im) FOURCC_BGRA (of_int (image_width im)) (of_int (image_height im)) buffer
       (sint (width * height * 3 div 2)) FOURCC_I420 width height) (\<lambda>_. returnS 0)"

text \<open>\<open>CaptureWindowsImage\<close> takes a picture only while there is none, and scales it with the size of the
  window.\<close>

type_synonym 'a capture_op = "(image \<times> lazyscale \<times> heap, 'a) op"

definition on_image :: "'a image_op \<Rightarrow> 'a capture_op" where
  "on_image m = (\<lambda>(im, sc, h). case m (im, h) of (r, (im', h')) \<Rightarrow> (r, (im', sc, h')))"

definition on_scaler :: "'a scale_op \<Rightarrow> 'a capture_op" where
  "on_scaler m = (\<lambda>(im, sc, h). case m (sc, h) of (r, (sc', h')) \<Rightarrow> (r, (im, sc', h')))"

definition CaptureWindowsImage ::
  "libyuv \<Rightarrow> (int \<Rightarrow> int \<Rightarrow> int \<Rightarrow> ptr \<Rightarrow> heap \<Rightarrow> heap res) \<Rightarrow> (int \<times> int) option \<Rightarrow> int \<times> int \<Rightarrow> bool \<Rightarrow> int \<Rightarrow> bool
     \<Rightarrow> ptr \<times> 32 word \<times> 32 word \<Rightarrow> int capture_op" where
  "CaptureWindowsImage lib get_di_bits bitmap window stretched bit_count allocated = (\<lambda>(buffer, bw, bh).
     bindS (getS fst) (\<lambda>im.
     let (width, height) = (case bitmap of Some s \<Rightarrow> s | None \<Rightarrow> window) in
     if image_data im \<noteq> None then returnS 0
     else if width = 0 \<or> height = 0 then returnS (- 1)
     else if \<not> stretched then returnS 0
     else bindS (liftS (InitBitMapInfo width height True bit_count)) (\<lambda>bmi.
          bindS (on_image (resize_image allocated width height bmi)) (\<lambda>ready.
          if \<not> ready then returnS (- 1)
          else bindS (on_image (\<lambda>s. image_mem (get_di_bits width height bit_count (image_data (fst s))) s)) (\<lambda>_.
               bindS (getS fst) (\<lambda>im.
               bindS (on_scaler (scale lib (image_data im) FOURCC_BGRA (of_int width) (of_int height) buffer
                 (sint (bw * bh * 3 div 2)) FOURCC_I420 bw bh)) (\<lambda>_. returnS 0)))))))"

section \<open>The thread\<close>

text \<open>The caller is idle, joins the thread, or has used a null pointer. The thread has been started,
  loops or has ended.\<close>

datatype capturing = Starting | Looping | Ended
datatype capture_caller = AtRest | Joining | Crashed

record desktop =
  bRunning :: bool
  cap_thread :: "capturing option"
  user :: capture_caller

definition DestopCapture :: desktop where
  "DestopCapture = \<lparr>bRunning = False, cap_thread = None, user = AtRest\<rparr>"

definition capture_Start :: "desktop \<Rightarrow> int \<times> desktop" where
  "capture_Start d = (if cap_thread d = None then (0, d\<lparr>cap_thread := Some Starting\<rparr>) else (1, d))"

definition capture_Stop :: "desktop \<Rightarrow> desktop" where
  "capture_Stop d = (if cap_thread d = None then d\<lparr>user := Crashed\<rparr> else d\<lparr>user := Joining\<rparr>)"

definition capture_Deinit :: "desktop \<Rightarrow> desktop" where
  "capture_Deinit d = capture_Stop (d\<lparr>bRunning := False\<rparr>)"

text \<open>\<open>join\<close> returns, and \<open>reset\<close>.\<close>

definition capture_joined :: "desktop \<Rightarrow> desktop" where
  "capture_joined d = d\<lparr>cap_thread := None, user := AtRest\<rparr>"

text \<open>\<open>WindowCaptureProgress\<close>: it sets the flag, and loops while it is set.\<close>

definition capture_begin :: "desktop \<Rightarrow> desktop" where
  "capture_begin d = d\<lparr>bRunning := True, cap_thread := Some Looping\<rparr>"

definition capture_turn :: "desktop \<Rightarrow> desktop" where
  "capture_turn d = (if bRunning d then d else d\<lparr>cap_thread := Some Ended\<rparr>)"

inductive capture_step :: "desktop \<Rightarrow> desktop \<Rightarrow> bool" where
  start: "user d = AtRest \<Longrightarrow> capture_step d (snd (capture_Start d))"
| stop: "user d = AtRest \<Longrightarrow> capture_step d (capture_Stop d)"
| deinit: "user d = AtRest \<Longrightarrow> capture_step d (capture_Deinit d)"
| joined: "user d = Joining \<Longrightarrow> cap_thread d = Some Ended \<Longrightarrow> capture_step d (capture_joined d)"
| begins: "cap_thread d = Some Starting \<Longrightarrow> capture_step d (capture_begin d)"
| turn: "cap_thread d = Some Looping \<Longrightarrow> capture_step d (capture_turn d)"

definition capture_reachable :: "desktop \<Rightarrow> bool" where
  "capture_reachable d \<longleftrightarrow> capture_step\<^sup>*\<^sup>* DestopCapture d"

lemma capture_reachable_first: "capture_reachable DestopCapture"
  by (simp add: capture_reachable_def)

lemma capture_reachable_step: "capture_reachable d \<Longrightarrow> capture_step d d' \<Longrightarrow> capture_reachable d'"
  unfolding capture_reachable_def by (rule run_step)

inductive_cases capture_stepE: "capture_step d d'"

end
