(* ===== verification/CaptureProps.thy ===== *)
theory CaptureProps
  imports Capture
begin

text \<open>
  The properties of desktop capture: the image, and the end of the thread.
\<close>

section \<open>The image\<close>

text \<open>An image is a block of its size, which is that of a picture of its width and height.\<close>

definition image_ok :: "image \<times> heap \<Rightarrow> bool" where
  "image_ok = (\<lambda>(im, h). image_data_size im = of_int (image_width im * image_height im * 4)
     \<and> (case image_data im of None \<Rightarrow> True
        | Some (b, off) \<Rightarrow> off = 0 \<and> (\<exists>bs. b < length h \<and> h ! b = Some bs \<and> length bs = unat (image_data_size im))))"

lemma area32_value: "area32 w h n = Inr a \<Longrightarrow> a = w * h * n"
  by (auto simp: area32_def times32_def int32_def bindE_Inr_iff split: if_splits)

lemma resize_image_keeps:
  assumes "InitBitMapInfo width height True bits = Inr bmi"
  shows "keeps image_ok (resize_image allocated width height bmi)"
proof -
  have "biSizeImage bmi = of_int (width * height * 4)"
    using assms by (auto simp: InitBitMapInfo_def bindE_Inr_iff dest: area32_value)
  then show ?thesis
    by (auto simp: keeps_def resize_image_def image_mem_def image_ok_def bindS_def heap_delete_def block_at_def nth_append
        split: option.splits sum.splits prod.splits)
qed

text \<open>The window system must not change the lengths of blocks.\<close>

definition bits_ok :: "(int \<Rightarrow> int \<Rightarrow> int \<Rightarrow> ptr \<Rightarrow> heap \<Rightarrow> heap res) \<Rightarrow> bool" where
  "bits_ok get_di_bits \<longleftrightarrow> (\<forall>w h bits p hp hp'. get_di_bits w h bits p hp = Inr hp' \<longrightarrow> shape hp' = shape hp)"

lemma image_ok_shape:
  assumes "shape h' = shape h" "image_ok (im, h)"
  shows "image_ok (im, h')"
proof -
  have iff: "(\<exists>bs. b < length k \<and> k ! b = Some bs \<and> length bs = n) \<longleftrightarrow> b < length (shape k) \<and> shape k ! b = Some n"
    for b n and k :: heap
    by (auto simp: shape_def)
  show ?thesis using assms(2) unfolding image_ok_def iff
    by (cases "image_data im") (auto simp: assms(1))
qed

lemma keeps_bits:
  assumes "\<And>h h'. f h = Inr h' \<Longrightarrow> shape h' = shape h"
  shows "keeps image_ok (image_mem f)"
  unfolding keeps_def
proof (intro allI impI)
  fix s assume "image_ok s"
  then show "image_ok (snd (image_mem f s))"
    using assms image_ok_shape by (cases s) (auto simp: image_mem_def split: sum.splits)
qed

lemma keeps_liftS_bind:
  "(\<And>x. r = Inr x \<Longrightarrow> keeps P (f x)) \<Longrightarrow> keeps P (bindS (liftS r) f)"
  by (cases r) (auto simp: keeps_def)

lemma UpdateImage_keeps:
  assumes "bits_ok get_di_bits"
  shows "keeps image_ok (UpdateImage get_di_bits bitmap window stretched bits allocated)"
proof -
  have m: "keeps image_ok (image_mem (get_di_bits w h b p))" for w h b p
    using assms by (intro keeps_bits) (auto simp: bits_ok_def)
  show ?thesis unfolding UpdateImage_def Let_def
    by (intro keeps_prod keeps_if keeps_return keeps_liftS_bind keeps_bind resize_image_keeps keeps_get m)
qed

text \<open>A window that is turned, so that its bytes are as many as before, is read into the image
  while the image keeps the old width and height.\<close>

lemma turned_window:
  assumes "InitBitMapInfo width height True bits = Inr bmi" "image_data_size im = of_int (width * height * 4)"
  shows "resize_image allocated width height bmi (im, h) = (Inr True, (im, h))"
  using assms by (auto simp: resize_image_def InitBitMapInfo_def bindE_Inr_iff dest!: area32_value)

text \<open>\<open>CaptureWindowsImage\<close> never takes a second picture.\<close>

lemma first_picture_stays:
  "image_data im \<noteq> None \<Longrightarrow>
     CaptureWindowsImage lib get_di_bits bitmap window stretched bits allocated target (im, sc, h) = (Inr 0, (im, sc, h))"
  by (cases target) (simp add: CaptureWindowsImage_def Let_def split: prod.split)

section \<open>The thread\<close>

text \<open>While no one joins, the thread will loop or loops with the flag set; no one waits for a thread
  that is not there.\<close>

definition desktop_ok :: "desktop \<Rightarrow> bool" where
  "desktop_ok d \<longleftrightarrow> (user d = AtRest \<longrightarrow> (case cap_thread d of None \<Rightarrow> True | Some c \<Rightarrow> c = Starting \<or> c = Looping \<and> bRunning d))
     \<and> (user d = Joining \<longrightarrow> cap_thread d \<noteq> None)"

lemmas capture_ops = capture_Start_def capture_Stop_def capture_Deinit_def capture_joined_def capture_begin_def
  capture_turn_def

lemma desktop_step: "capture_step d d' \<Longrightarrow> desktop_ok d \<Longrightarrow> desktop_ok d'"
  by (erule capture_stepE) (auto simp: desktop_ok_def capture_ops split: option.splits)

interpretation capturing: step_system capture_step desktop_ok DestopCapture
  by unfold_locales (use desktop_step in \<open>auto simp: desktop_ok_def DestopCapture_def\<close>)

lemma desktop_reachable: "capture_reachable d \<Longrightarrow> desktop_ok d"
  unfolding capture_reachable_def by (rule capturing.invariant)

text \<open>A thread that begins, or loops with the flag set, is joined for ever.\<close>

definition joins_forever :: "desktop \<Rightarrow> bool" where
  "joins_forever d \<longleftrightarrow> user d = Joining \<and> (cap_thread d = Some Starting \<or> cap_thread d = Some Looping \<and> bRunning d)"

lemma joins_forever_step: "capture_step d d' \<Longrightarrow> joins_forever d \<Longrightarrow> joins_forever d'"
  by (erule capture_stepE) (auto simp: joins_forever_def capture_ops)

interpretation joining: closed_under capture_step joins_forever
  by unfold_locales (rule joins_forever_step)

lemma stop_joins_forever:
  assumes "capture_reachable d" "user d = AtRest" "cap_thread d \<noteq> None"
  shows "joins_forever (capture_Stop d)"
  using desktop_reachable [OF assms(1)] assms(2,3)
  by (auto simp: desktop_ok_def joins_forever_def capture_Stop_def)

text \<open>\<open>Deinit\<close> while the thread loops: it ends at its next turn, and is joined.\<close>

lemma deinit_returns:
  assumes "user d = AtRest" "cap_thread d = Some Looping"
  shows "capture_step (capture_Deinit d) ((capture_Deinit d)\<lparr>cap_thread := Some Ended\<rparr>)"
    "capture_step ((capture_Deinit d)\<lparr>cap_thread := Some Ended\<rparr>) (d\<lparr>bRunning := False, cap_thread := None\<rparr>)"
proof -
  let ?e = "(capture_Deinit d)\<lparr>cap_thread := Some Ended\<rparr>"
  have "capture_turn (capture_Deinit d) = ?e" using assms by (simp add: capture_ops)
  then show "capture_step (capture_Deinit d) ?e"
    using turn [of "capture_Deinit d"] assms by (simp add: capture_ops)
  have j: "capture_joined ?e = d\<lparr>bRunning := False, cap_thread := None\<rparr>"
    using assms by (cases d) (simp add: capture_ops)
  show "capture_step ?e (d\<lparr>bRunning := False, cap_thread := None\<rparr>)"
    unfolding j [symmetric] by (rule joined) (simp_all add: assms capture_ops)
qed

text \<open>C38: the end of a capture. \<open>Stop\<close> on a running capture never returns: only \<open>Deinit\<close> clears the
  flag of the thread. \<open>Deinit\<close> returns when the thread is in its loop, never when it overtakes the
  beginning of the thread, and uses a null pointer without a thread, so also after a first
  \<open>Deinit\<close>, as the destructor does.\<close>

theorem capture_end:
  assumes "capture_reachable d" "user d = AtRest"
  shows "(case cap_thread d of
      None \<Rightarrow> user (capture_Stop d) = Crashed \<and> user (capture_Deinit d) = Crashed
    | Some c \<Rightarrow> (\<forall>d'. capture_step\<^sup>*\<^sup>* (capture_Stop d) d' \<longrightarrow> user d' = Joining)
        \<and> (if c = Looping then capture_step\<^sup>*\<^sup>* (capture_Deinit d) (d\<lparr>bRunning := False, cap_thread := None\<rparr>)
           else \<forall>d'. capture_step\<^sup>*\<^sup>* (capture_Deinit d) d' \<longrightarrow> user d' = Joining))"
proof (cases "cap_thread d")
  case None
  then show ?thesis by (simp add: capture_ops)
next
  case (Some c)
  have stop: "joins_forever (capture_Stop d)" using stop_joins_forever [OF assms] Some by simp
  have "c = Starting \<or> c = Looping" using desktop_reachable [OF assms(1)] assms(2) Some by (auto simp: desktop_ok_def)
  moreover have "capture_step\<^sup>*\<^sup>* (capture_Deinit d) (d\<lparr>bRunning := False, cap_thread := None\<rparr>)" if "c = Looping"
    using deinit_returns [OF assms(2)] Some that by (meson converse_rtranclp_into_rtranclp r_into_rtranclp)
  moreover have "joins_forever (capture_Deinit d)" if "c = Starting"
    using Some that by (simp add: joins_forever_def capture_ops)
  ultimately show ?thesis
    using stop joining.closed_run Some by (auto simp: joins_forever_def)
qed

theorem capture_end_witness:
  "capture_step\<^sup>*\<^sup>* (capture_Deinit \<lparr>bRunning = True, cap_thread = Some Looping, user = AtRest\<rparr>)
     \<lparr>bRunning = False, cap_thread = None, user = AtRest\<rparr>"
proof -
  have "capture_reachable (snd (capture_Start DestopCapture))"
    by (rule capture_reachable_step [OF capture_reachable_first start]) (simp add: DestopCapture_def)
  then have "capture_reachable (capture_begin (snd (capture_Start DestopCapture)))"
    by (rule capture_reachable_step [OF _ begins]) (simp add: DestopCapture_def capture_ops)
  then have "capture_reachable \<lparr>bRunning = True, cap_thread = Some Looping, user = AtRest\<rparr>"
    by (simp add: DestopCapture_def capture_ops)
  from capture_end [OF this] show ?thesis by simp
qed

text \<open>Capturing a window keeps the image sound: its block has the bytes that a picture of its
  width and height needs, whatever the size of the window, and whether the picture is taken, the
  memory is there, or the call is undefined.\<close>

theorem image_sound:
  assumes "bits_ok get_di_bits" "image_ok s"
  shows "image_ok (snd (UpdateImage get_di_bits bitmap window stretched bits allocated s))"
  using UpdateImage_keeps [OF assms(1)] assms(2) unfolding keeps_def by blast

theorem image_sound_witness:
  "image_ok (snd (UpdateImage (\<lambda>_ _ _ _ h. Inr h) (Some (4, 2)) (0, 0) True 32 True (no_image, [])))"
proof -
  have "bits_ok (\<lambda>_ _ _ _ h. Inr h)" "image_ok (no_image, [])" by (simp_all add: bits_ok_def image_ok_def no_image_def)
  then show ?thesis by (rule image_sound)
qed

end
