(* ===== verification/PeerConnection.thy ===== *)
theory PeerConnection
  imports MediaControl
begin

text \<open>
  The peer connection of the client (\<open>mssdk/peerconnection/peer_connection_client.cpp\<close>). The calls of
  WebRTC are a parameter over an abstract type of peer connections and one of session descriptions.
  A call with an observer hands over its outcome once; the wrapper waits for it, and turns a failure
  into an exception with its message. The wrappers together are an instance of the calls that the
  client is modelled on (\<open>webrtc_of\<close>).
\<close>

section \<open>The library\<close>

datatype SdpType = OFFER | PRANSWER | ANSWER

text \<open>\<open>sdpType2String\<close>\<close>

fun sdp_type_string :: "SdpType \<Rightarrow> string" where
  "sdp_type_string OFFER = ''offer''"
| "sdp_type_string PRANSWER = ''pranswer''"
| "sdp_type_string ANSWER = ''answer''"

text \<open>The outcome of a call: the error is a message. \<open>new_connection\<close> is the connection that the
  factory makes, which the wrapper asks for with the semantics of the unified plan.\<close>

type_synonym 'a outcome = "string + 'a"

record ('pc, 'd) native =
  new_connection :: 'pc
  parse_description :: "string \<Rightarrow> string \<Rightarrow> 'd outcome"
  description_text :: "'d \<Rightarrow> string"
  nCreateOffer :: "'pc \<Rightarrow> 'd outcome \<times> 'pc"
  nCreateAnswer :: "'pc \<Rightarrow> 'd outcome \<times> 'pc"
  nSetLocalDescription :: "'d \<Rightarrow> 'pc \<Rightarrow> unit outcome \<times> 'pc"
  nSetRemoteDescription :: "'d \<Rightarrow> 'pc \<Rightarrow> unit outcome \<times> 'pc"
  nSetBitrate :: "int \<Rightarrow> int \<Rightarrow> int \<Rightarrow> 'pc \<Rightarrow> 'pc"
  nlocal_description :: "'pc \<Rightarrow> 'd option"
  nremote_description :: "'pc \<Rightarrow> 'd option"
  nAddTransceiver :: "string \<Rightarrow> 'pc \<Rightarrow> nat outcome \<times> 'pc"
  nAddTrackTransceiver :: "string \<Rightarrow> rtp_encoding list \<Rightarrow> string list \<Rightarrow> 'pc \<Rightarrow> nat outcome \<times> 'pc"
  nTransceivers :: "'pc \<Rightarrow> (string \<times> string option) list"
  nCreateTrack :: "string \<Rightarrow> 'pc \<Rightarrow> bool \<times> 'pc"
  nSetConfiguration :: "'pc \<Rightarrow> unit outcome \<times> 'pc"
  nGetStats :: "'pc \<Rightarrow> string"
  nCreateDataChannel :: "string \<Rightarrow> 'pc \<Rightarrow> bool \<times> 'pc"
  nClose :: "'pc \<Rightarrow> 'pc"

section \<open>Observers\<close>

text \<open>The future of an observer: \<open>Reject\<close> makes an exception of the message.\<close>

definition future_result :: "'a outcome \<Rightarrow> 'a res" where
  "future_result r = (case r of Inl message \<Rightarrow> Inl (LazyException message) | Inr x \<Rightarrow> Inr x)"

definition observed_call :: "('pc \<Rightarrow> 'a outcome \<times> 'pc) \<Rightarrow> ('pc, 'a) op" where
  "observed_call f = (\<lambda>pc. case f pc of (r, pc') \<Rightarrow> (future_result r, pc'))"

section \<open>The wrapper\<close>

definition pcc_CreateOffer :: "('pc, 'd) native \<Rightarrow> ('pc, string) op" where
  "pcc_CreateOffer n = bindS (observed_call (nCreateOffer n)) (\<lambda>desc. returnS (description_text n desc))"

definition pcc_CreateAnswer :: "('pc, 'd) native \<Rightarrow> ('pc, string) op" where
  "pcc_CreateAnswer n = bindS (observed_call (nCreateAnswer n)) (\<lambda>desc. returnS (description_text n desc))"

definition pcc_SetLocalDescription :: "('pc, 'd) native \<Rightarrow> SdpType \<Rightarrow> string \<Rightarrow> ('pc, unit) op" where
  "pcc_SetLocalDescription n type sdp = (case parse_description n (sdp_type_string type) sdp of
     Inl description \<Rightarrow> liftS (future_result (Inl description))
   | Inr desc \<Rightarrow> observed_call (nSetLocalDescription n desc))"

text \<open>The bit rate is set in any case: between 0 and 2 megabits, to start with 500000.\<close>

definition pcc_SetRemoteDescription :: "('pc, 'd) native \<Rightarrow> SdpType \<Rightarrow> string \<Rightarrow> ('pc, unit) op" where
  "pcc_SetRemoteDescription n type sdp =
     bindS (updS (nSetBitrate n 0 500000 (2 * 1024 * 1024))) (\<lambda>_.
     case parse_description n (sdp_type_string type) sdp of
       Inl description \<Rightarrow> liftS (future_result (Inl description))
     | Inr desc \<Rightarrow> observed_call (nSetRemoteDescription n desc))"

text \<open>A description that is not there is dereferenced.\<close>

definition pcc_GetLocalDescription :: "('pc, 'd) native \<Rightarrow> 'pc \<Rightarrow> string res" where
  "pcc_GetLocalDescription n pc = (case nlocal_description n pc of
     None \<Rightarrow> Inl (Undefined ''null'') | Some desc \<Rightarrow> Inr (description_text n desc))"

definition pcc_GetRemoteDescription :: "('pc, 'd) native \<Rightarrow> 'pc \<Rightarrow> string res" where
  "pcc_GetRemoteDescription n pc = (case nremote_description n pc of
     None \<Rightarrow> Inl (Undefined ''null'') | Some desc \<Rightarrow> Inr (description_text n desc))"

text \<open>A transceiver that cannot be added is a null pointer. With a track it gets a stream.\<close>

definition outcome_option :: "'a outcome \<Rightarrow> 'a option" where
  "outcome_option r = (case r of Inl _ \<Rightarrow> None | Inr x \<Rightarrow> Some x)"

definition pcc_AddTransceiver :: "('pc, 'd) native \<Rightarrow> string \<Rightarrow> ('pc, nat option) op" where
  "pcc_AddTransceiver n kind = (\<lambda>pc. case nAddTransceiver n kind pc of (r, pc') \<Rightarrow> (Inr (outcome_option r), pc'))"

definition pcc_AddTrackTransceiver :: "('pc, 'd) native \<Rightarrow> string \<Rightarrow> rtp_encoding list \<Rightarrow> string list \<Rightarrow> ('pc, nat option) op" where
  "pcc_AddTrackTransceiver n track encs stream_ids = (\<lambda>pc.
     case nAddTrackTransceiver n track encs (stream_ids @ [''0'']) pc of (r, pc') \<Rightarrow> (Inr (outcome_option r), pc'))"

definition pcc_SetConfiguration :: "('pc, 'd) native \<Rightarrow> ('pc, bool) op" where
  "pcc_SetConfiguration n = (\<lambda>pc. case nSetConfiguration n pc of (r, pc') \<Rightarrow> (Inr (outcome_option r \<noteq> None), pc'))"

text \<open>No statistics are an empty array.\<close>

definition pcc_GetStats :: "('pc, 'd) native \<Rightarrow> json_lib \<Rightarrow> 'pc \<Rightarrow> json res" where
  "pcc_GetStats n lib pc = (let s = nGetStats n pc in if s = [] then Inr jarray_empty else parse_json lib s)"

definition pcc_CreateDataChannel :: "('pc, 'd) native \<Rightarrow> string \<Rightarrow> ('pc, unit) op" where
  "pcc_CreateDataChannel n label = (\<lambda>pc. case nCreateDataChannel n label pc of (made, pc') \<Rightarrow>
     (if made then Inr () else Inl (LazyException ''Failed creating data channel''), pc'))"

section \<open>The object\<close>

text \<open>The connection exists when the object could be constructed. The factory is made unless a
  thread does not start; the constructor does not look at the result.\<close>

record 'pc peer_connection =
  pc_factory :: bool
  pc_object :: "'pc option"
  adm :: bool

definition pcc_init :: "bool \<Rightarrow> ('pc peer_connection, int) op" where
  "pcc_init started = bindS (getS pc_factory) (\<lambda>made.
     if made then returnS 0
     else if \<not> started then returnS (- 1)
     else bindS (updS (\<lambda>c. c\<lparr>pc_factory := True, adm := True\<rparr>)) (\<lambda>_. returnS 0))"

definition PeerConnectionClient :: "('pc, 'd) native \<Rightarrow> bool \<Rightarrow> ('pc peer_connection, unit) op" where
  "PeerConnectionClient n started =
     bindS (updS (\<lambda>_. \<lparr>pc_factory = False, pc_object = None, adm = False\<rparr>)) (\<lambda>_.
     bindS (pcc_init started) (\<lambda>_.
     bindS (getS pc_factory) (\<lambda>made.
     if \<not> made then liftS (Inl (Undefined ''null''))
     else updS (\<lambda>c. c\<lparr>pc_object := Some (new_connection n)\<rparr>))))"

definition pcc_close :: "('pc, 'd) native \<Rightarrow> ('pc peer_connection, unit) op" where
  "pcc_close n = updS (\<lambda>c. c\<lparr>pc_object := map_option (nClose n) (pc_object c)\<rparr>)"

definition pcc_deinit :: "('pc, 'd) native \<Rightarrow> ('pc peer_connection, unit) op" where
  "pcc_deinit n = bindS (pcc_close n) (\<lambda>_. updS (\<lambda>c. c\<lparr>pc_factory := False, adm := False\<rparr>))"

text \<open>\<open>GetNativeRtpCapabilities\<close>: a connection of its own, with an audio and a video transceiver,
  whose offer is read. The transceivers are not looked at.\<close>

definition native_offer_of :: "('pc, 'd) native \<Rightarrow> string res" where
  "native_offer_of n = fst (bindS (pcc_AddTransceiver n ''audio'') (\<lambda>_.
     bindS (pcc_AddTransceiver n ''video'') (\<lambda>_. pcc_CreateOffer n)) (new_connection n))"

section \<open>The calls of the client\<close>

definition sdp_type_of :: "string \<Rightarrow> SdpType" where
  "sdp_type_of t = (if t = ''answer'' then ANSWER else if t = ''pranswer'' then PRANSWER else OFFER)"

definition webrtc_of :: "('pc, 'd) native \<Rightarrow> rtp_encoding \<Rightarrow> 'pc webrtc" where
  "webrtc_of n enc = \<lparr>create_pc = new_connection n,
     create_track = (\<lambda>kind pc. case nCreateTrack n kind pc of (r, pc') \<Rightarrow> (Inr r, pc')),
     add_transceiver = (\<lambda>kind encs. pcc_AddTrackTransceiver n kind encs []),
     create_offer = pcc_CreateOffer n, create_answer = pcc_CreateAnswer n,
     set_local = (\<lambda>type. pcc_SetLocalDescription n (sdp_type_of type)),
     set_remote = (\<lambda>type. pcc_SetRemoteDescription n (sdp_type_of type)),
     local_description = (\<lambda>pc. case pcc_GetLocalDescription n pc of Inl _ \<Rightarrow> [] | Inr t \<Rightarrow> t),
     transceiver_mid = (\<lambda>t pc. if t < length (nTransceivers n pc) then snd (nTransceivers n pc ! t) else None),
     transceivers = nTransceivers n, default_encoding = enc\<rparr>"

section \<open>Facts\<close>

text \<open>A description that cannot be parsed is refused with the message of the parser: the connection
  is as before, but for the bit rate.\<close>

lemma unparsable_local:
  "parse_description n (sdp_type_string type) sdp = Inl message \<Longrightarrow>
     pcc_SetLocalDescription n type sdp pc = (Inl (LazyException message), pc)"
  by (simp add: pcc_SetLocalDescription_def future_result_def)

lemma unparsable_remote:
  "parse_description n (sdp_type_string type) sdp = Inl message \<Longrightarrow>
     pcc_SetRemoteDescription n type sdp pc = (Inl (LazyException message), nSetBitrate n 0 500000 2097152 pc)"
  by (simp add: pcc_SetRemoteDescription_def future_result_def)

text \<open>Exceptions come only from the library: a call succeeds exactly when its outcome does.\<close>

lemma future_result_iff: "future_result r = Inr x \<longleftrightarrow> r = Inr x"
  by (cases r) (simp_all add: future_result_def)

lemma set_local_iff:
  "pcc_SetLocalDescription n type sdp pc = (Inr (), pc') \<longleftrightarrow>
     (\<exists>desc. parse_description n (sdp_type_string type) sdp = Inr desc \<and> nSetLocalDescription n desc pc = (Inr (), pc'))"
  by (auto simp: pcc_SetLocalDescription_def observed_call_def future_result_iff future_result_def
      split: sum.splits prod.splits)

text \<open>A thread that does not start makes the constructor use the factory that is not there.\<close>

lemma constructor_unstarted: "fst (PeerConnectionClient n False c) = Inl (Undefined ''null'')"
  by (simp add: PeerConnectionClient_def pcc_init_def bindS_def)

lemma constructor_started:
  "PeerConnectionClient n True c = (Inr (), \<lparr>pc_factory = True, pc_object = Some (new_connection n), adm = True\<rparr>)"
  by (simp add: PeerConnectionClient_def pcc_init_def bindS_def)

lemma sdp_type_of_string [simp]: "sdp_type_of (sdp_type_string t) = t"
  by (cases t) (simp_all add: sdp_type_of_def)

end
