(* ===== verification/Log.thy ===== *)
theory Log
  imports CxxNum Effects "HOL-Library.Word"
begin

text \<open>
  The log (\<open>mssdk/lazyutil/lazylog.cpp\<close>, \<open>lazylog.h\<close>): the context with its level, its buffer of
  fixed size and its file, which is rotated when it has grown; the files and the console that it
  writes to. The build is the one of the project: \<open>_MSC_VER\<close> and \<open>NDEBUG\<close>, so that assertions are
  dropped. What the system answers during a call (time, thread, errors, whether a file can be
  opened) is a record of arguments; a text that \<open>vsprintf\<close> formats is the argument \<open>msg\<close>. Writing to
  an open file succeeds. The contents of a file are what was written, flushed or not.
\<close>

section \<open>The context\<close>

type_synonym buffer = "char option list"

record log_ctx =
  pfd_open :: bool
  llast_log_time :: int
  llwrite_size :: int
  nlog_level :: int
  nlog_output_flag :: int
  plog_path :: string
  plog_dir :: "string option"
  plog_buf :: buffer
  nlog_buf_size :: nat
  nmayjor_version :: int
  nminor_version :: int
  nmicro_version :: int
  ntiny_version :: int
  ngmtime :: bool
  nlog_file_rotation_size :: int
  nlog_rotation_index :: int
  benable_log_function :: bool
  nlog_dir_chmod_mode :: int
  nlog_file_chmod_mode :: int

record disk =
  files :: "string \<Rightarrow> string option"
  console :: string

type_synonym 'a log_op = "(log_ctx \<times> disk, 'a) op"

definition on_ctx :: "(log_ctx \<Rightarrow> log_ctx) \<Rightarrow> unit log_op" where
  "on_ctx f = updS (\<lambda>(c, d). (f c, d))"

definition on_disk :: "(disk \<Rightarrow> disk) \<Rightarrow> unit log_op" where
  "on_disk f = updS (\<lambda>(c, d). (c, f d))"

text \<open>The broken-down time; the place in the source; what the system answers.\<close>

record tm =
  tm_year :: int
  tm_mon :: int
  tm_mday :: int
  tm_hour :: int
  tm_min :: int
  tm_sec :: int

record site =
  ptag :: "string option"
  pfilepath :: "string option"
  src_line :: int
  pfun :: "string option"

record system =
  calendar :: "tm option"
  ms_timestamp :: nat
  utc_timestamp :: int
  threadid :: nat
  errno :: int
  strerror :: string
  can_open :: "string \<Rightarrow> bool"
  time_zone :: int
  build_time :: string
  system_version :: string

definition LOG_LEVEL_VERB :: int where "LOG_LEVEL_VERB = 1"
definition LOG_LEVEL_INFO :: int where "LOG_LEVEL_INFO = 2"
definition LOG_LEVEL_TRACE :: int where "LOG_LEVEL_TRACE = 3"
definition LOG_LEVEL_WARN :: int where "LOG_LEVEL_WARN = 4"
definition LOG_LEVEL_ERROR :: int where "LOG_LEVEL_ERROR = 5"
definition MAX_LOG_SIZE :: nat where "MAX_LOG_SIZE = 10240"

lemmas log_levels = LOG_LEVEL_VERB_def LOG_LEVEL_INFO_def LOG_LEVEL_TRACE_def LOG_LEVEL_WARN_def LOG_LEVEL_ERROR_def

text \<open>\<open>LOG_OUTPUT_FLAG_CONSOLE\<close> and \<open>LOG_OUTPUT_FLAG_FILE\<close>\<close>

definition to_console :: "log_ctx \<Rightarrow> bool" where "to_console c \<longleftrightarrow> bit (nlog_output_flag c) 0"
definition to_file :: "log_ctx \<Rightarrow> bool" where "to_file c \<longleftrightarrow> bit (nlog_output_flag c) 1"

section \<open>Text in a buffer\<close>

abbreviation NUL :: char where "NUL \<equiv> CHR 0x00"

definition put_at :: "nat \<Rightarrow> string \<Rightarrow> buffer \<Rightarrow> buffer res" where
  "put_at off s buf = (if off + length s \<le> length buf
     then Inr (take off buf @ map Some s @ drop (off + length s) buf) else Inl (Undefined ''buffer overflow''))"

text \<open>A string ends at the first NUL; a byte that was never written must not be read.\<close>

fun c_text :: "buffer \<Rightarrow> string res" where
  "c_text [] = Inl (Undefined ''no end of string'')"
| "c_text (None # _) = Inl (Undefined ''indeterminate byte'')"
| "c_text (Some c # buf) = (if c = NUL then Inr [] else bindE (c_text buf) (\<lambda>s. Inr (c # s)))"

definition get_at :: "nat \<Rightarrow> buffer \<Rightarrow> char res" where
  "get_at i buf = (if i < length buf then case buf ! i of None \<Rightarrow> Inl (Undefined ''indeterminate byte'') | Some c \<Rightarrow> Inr c
     else Inl (Undefined ''read behind a buffer''))"

definition raw_text :: "nat \<Rightarrow> buffer \<Rightarrow> string res" where
  "raw_text n buf = mapE (\<lambda>i. get_at i buf) [0..<n]"

text \<open>\<open>%s\<close> of the C library of the platform, and \<open>%0wd\<close>\<close>

definition shown_text :: "string option \<Rightarrow> string" where
  "shown_text s = (case s of None \<Rightarrow> ''(null)'' | Some t \<Rightarrow> t)"

definition zpad :: "nat \<Rightarrow> int \<Rightarrow> string" where
  "zpad w i = (let s = int_str i in replicate (w - length s) (CHR ''0'') @ s)"

section \<open>Files\<close>

definition file_text :: "disk \<Rightarrow> string \<Rightarrow> string" where
  "file_text d f = (case files d f of None \<Rightarrow> [] | Some t \<Rightarrow> t)"

text \<open>\<open>fopen\<close> for appending creates the file.\<close>

definition log_fopen :: "system \<Rightarrow> unit log_op" where
  "log_fopen sys = (\<lambda>(c, d). (Inr (), if can_open sys (plog_path c)
     then (c\<lparr>pfd_open := True\<rparr>, d\<lparr>files := (files d)(plog_path c \<mapsto> file_text d (plog_path c))\<rparr>)
     else (c\<lparr>pfd_open := False\<rparr>, d)))"

definition log_fwrite :: "string \<Rightarrow> unit log_op" where
  "log_fwrite s = (\<lambda>(c, d). (Inr (), (c, d\<lparr>files := (files d)(plog_path c \<mapsto> file_text d (plog_path c) @ s)\<rparr>)))"

text \<open>\<open>rename\<close> fails when the new name is taken.\<close>

definition log_rename :: "string \<Rightarrow> string \<Rightarrow> disk \<Rightarrow> disk" where
  "log_rename old new d = (if files d old = None \<or> files d new \<noteq> None then d
     else d\<lparr>files := (files d)(new := files d old, old := None)\<rparr>)"

text \<open>\<open>ftell\<close> has the type \<open>long\<close> of 32 bits, and fails beyond.\<close>

definition log_ftell :: "log_ctx \<Rightarrow> disk \<Rightarrow> int" where
  "log_ftell c d = (let n = int (length (file_text d (plog_path c))) in if n < 2 ^ 31 then n else - 1)"

definition print_console :: "string \<Rightarrow> unit log_op" where
  "print_console s = on_disk (\<lambda>d. d\<lparr>console := console d @ s\<rparr>)"

text \<open>\<open>strrchr\<close>: what comes before and after the last occurrence\<close>

definition after_last :: "char \<Rightarrow> string \<Rightarrow> string option" where
  "after_last ch s = (if ch \<in> set s then Some (rev (takeWhile (\<lambda>x. x \<noteq> ch) (rev s))) else None)"

definition before_last :: "char \<Rightarrow> string \<Rightarrow> string option" where
  "before_last ch s = map_option (\<lambda>t. take (length s - length t - 1) s) (after_last ch s)"

definition rotated_name :: "string \<Rightarrow> int \<Rightarrow> string" where
  "rotated_name path idx =
     (case before_last (CHR ''.'') path of None \<Rightarrow> path | Some p \<Rightarrow> p) @ ''_'' @ int_str idx @ ''.log''"

definition rotate :: "system \<Rightarrow> unit log_op" where
  "rotate sys =
     bindS (on_ctx (\<lambda>c. c\<lparr>pfd_open := False\<rparr>)) (\<lambda>_.
     bindS (getS fst) (\<lambda>c.
     let name = rotated_name (plog_path c) (nlog_rotation_index c) in
     if length name \<ge> 256 then liftS (Inl (Undefined ''name''))
     else bindS (on_ctx (\<lambda>c. c\<lparr>nlog_rotation_index := nlog_rotation_index c + 1\<rparr>)) (\<lambda>_.
          bindS (on_disk (log_rename (plog_path c) name)) (\<lambda>_. log_fopen sys))))"

section \<open>Writing\<close>

definition write_console :: "int \<Rightarrow> string \<Rightarrow> unit log_op" where
  "write_console level s = print_console
     (if level \<le> LOG_LEVEL_TRACE then s
      else if level = LOG_LEVEL_WARN then CHR 0x1B # ''[33m'' @ s @ CHR 0x1B # ''[0m''
      else CHR 0x1B # ''[31m'' @ s @ CHR 0x1B # ''[0m'')"

definition write_file :: "system \<Rightarrow> int \<Rightarrow> string \<Rightarrow> unit log_op" where
  "write_file sys level s =
     bindS (log_fwrite s) (\<lambda>_.
     bindS (on_ctx (\<lambda>c. if level \<ge> LOG_LEVEL_ERROR \<or> utc_timestamp sys - llast_log_time c > 3000
                        then c\<lparr>llast_log_time := utc_timestamp sys\<rparr> else c)) (\<lambda>_.
     bindS (getS (\<lambda>(c, d). log_ftell c d \<ge> nlog_file_rotation_size c)) (\<lambda>full.
     if full then rotate sys else returnS ())))"

text \<open>\<open>write_log\<close> completes the line in the buffer that it is given, of which \<open>nloglen\<close> characters are
  the text; the buffer is returned.\<close>

definition write_log :: "system \<Rightarrow> int \<Rightarrow> buffer \<Rightarrow> nat \<Rightarrow> (int \<times> buffer) log_op" where
  "write_log sys level buf nloglen =
     bindS (getS fst) (\<lambda>c.
     if nloglen = 0 \<or> nlog_output_flag c = 0 then returnS (- 1, buf)
     else let capped = min nloglen (nlog_buf_size c - 1) in
       bindS (liftS (get_at (capped - 1) buf)) (\<lambda>ch.
       bindS (liftS (if ch = CHR 0x0A then Inr buf else put_at capped [CHR 0x0A, NUL] buf)) (\<lambda>buf'.
       let loglen = (if ch = CHR 0x0A then capped else capped + 1) in
       bindS (on_ctx (\<lambda>c. c\<lparr>llwrite_size := llwrite_size c + int loglen\<rparr>)) (\<lambda>_.
       bindS (liftS (c_text buf')) (\<lambda>s.
       bindS (if to_console c then write_console level (if level \<le> LOG_LEVEL_TRACE then s else take loglen s) else returnS ()) (\<lambda>_.
       bindS (if pfd_open c \<and> to_file c then bindS (liftS (raw_text loglen buf')) (write_file sys level) else returnS ()) (\<lambda>_.
       returnS (0, buf'))))))))"

section \<open>The header of a line\<close>

definition source_name :: "string option \<Rightarrow> string option" where
  "source_name path = (case path of None \<Rightarrow> None
     | Some p \<Rightarrow> Some (case after_last (CHR ''/'') p of Some n \<Rightarrow> n
         | None \<Rightarrow> (case after_last (CHR 0x5C) p of Some n \<Rightarrow> n | None \<Rightarrow> p)))"

definition header_place :: "log_ctx \<Rightarrow> site \<Rightarrow> string" where
  "header_place c at =
     (case ptag at of None \<Rightarrow> [] | Some t \<Rightarrow> t @ '' '') @ shown_text (source_name (pfilepath at)) @ '':'' @ int_str (src_line at)
     @ (if benable_log_function c then '' '' @ shown_text (pfun at) else [])"

definition level_name :: "int \<Rightarrow> string option" where
  "level_name level =
     (if level = LOG_LEVEL_VERB then Some ''verb'' else if level = LOG_LEVEL_INFO then Some ''info''
      else if level = LOG_LEVEL_TRACE then Some ''trace'' else if level = LOG_LEVEL_WARN then Some ''warn''
      else if level = LOG_LEVEL_ERROR then Some ''error'' else None)"

definition header_text :: "system \<Rightarrow> tm \<Rightarrow> int \<Rightarrow> string \<Rightarrow> string \<Rightarrow> string" where
  "header_text sys t level lname place =
     ''['' @ int_str (1900 + tm_year t) @ ''-'' @ zpad 2 (1 + tm_mon t) @ ''-'' @ zpad 2 (tm_mday t) @ '' ''
     @ zpad 2 (tm_hour t) @ '':'' @ zpad 2 (tm_min t) @ '':'' @ zpad 2 (tm_sec t) @ ''.'' @ zpad 3 (int (ms_timestamp sys mod 1000))
     @ ''][''  @ lname @ ''][''  @ place @ ''][''  @ nat_str (threadid sys) @ '']''
     @ (if level \<ge> LOG_LEVEL_ERROR then ''['' @ int_str (errno sys) @ ''][''  @ strerror sys @ ''] '' else [])"

definition no_time :: "log_ctx \<Rightarrow> string" where
  "no_time c = (if ngmtime c then ''tm:0000000000000000 = gmtime'' else ''ptm:0000000000000000 = localtime'')
     @ ''(&tv.tv_sec) failed'' @ [CHR 0x0A]"

text \<open>The result of the function and the size of the header, which is the size of the buffer when
  the time is not known. A header that does not fit ends the program in \<open>sprintf_s\<close>.\<close>

definition generate_header :: "system \<Rightarrow> site \<Rightarrow> int \<Rightarrow> (int \<times> nat) log_op" where
  "generate_header sys at level =
     bindS (getS fst) (\<lambda>c.
     let place = header_place c at; size = nlog_buf_size c in
     if length place \<ge> 256 then liftS (Inl (Undefined ''loghdr''))
     else case calendar sys of None \<Rightarrow> bindS (print_console (no_time c)) (\<lambda>_. returnS (- 1, size))
     | Some t \<Rightarrow> (case level_name level of None \<Rightarrow> returnS (0, size)
         | Some lname \<Rightarrow>
             let h = header_text sys t level lname place in
             if length h \<ge> size then liftS (Inl (Undefined ''sprintf_s''))
             else bindS (liftS (put_at 0 (h @ [NUL]) (plog_buf c))) (\<lambda>buf.
                  bindS (on_ctx (\<lambda>c. c\<lparr>plog_buf := buf\<rparr>)) (\<lambda>_. returnS (int (length h), length h)))))"

section \<open>Lines\<close>

definition version_text :: "system \<Rightarrow> log_ctx \<Rightarrow> string" where
  "version_text sys c =
     ''version:'' @ int_str (nmayjor_version c) @ ''.'' @ int_str (nminor_version c) @ ''.'' @ int_str (nmicro_version c) @ ''.''
     @ int_str (ntiny_version c) @ '', timezone:'' @ int_str (time_zone sys) @ '', build time:'' @ build_time sys
     @ '', system version:'' @ system_version sys"

text \<open>The file is opened by the first line, and by each line after it could not be opened; then it
  gets a line with the version.\<close>

definition open_failed :: "system \<Rightarrow> log_ctx \<Rightarrow> string" where
  "open_failed sys c = ''create file:'' @ plog_path c @ '' failed, errno:'' @ int_str (errno sys) @ '', reason:'' @ strerror sys @ [CHR 0x0A]"

definition open_file :: "system \<Rightarrow> int \<Rightarrow> unit log_op" where
  "open_file sys level =
     bindS (getS fst) (\<lambda>c.
     if pfd_open c \<or> \<not> to_file c then returnS ()
     else bindS (log_fopen sys) (\<lambda>_.
       bindS (if can_open sys (plog_path c) then returnS () else print_console (open_failed sys c)) (\<lambda>_.
       let v = version_text sys c in
       if length v \<ge> 256 then liftS (Inl (Undefined ''loghdr''))
       else bindS (write_log sys level (map Some v @ replicate (256 - length v) (Some NUL)) (length v)) (\<lambda>_. returnS ()))))"

definition write_line :: "system \<Rightarrow> int \<Rightarrow> nat \<Rightarrow> unit log_op" where
  "write_line sys level n =
     bindS (getS (\<lambda>(c, _). plog_buf c)) (\<lambda>buf.
     bindS (write_log sys level buf n) (\<lambda>(_, buf').
     on_ctx (\<lambda>c. c\<lparr>plog_buf := buf'\<rparr>)))"

text \<open>\<open>vsprintf\<close> does not know the end of the buffer.\<close>

definition log_format :: "system \<Rightarrow> int \<Rightarrow> site \<Rightarrow> string \<Rightarrow> unit log_op" where
  "log_format sys level at msg =
     bindS (getS fst) (\<lambda>c.
     if nlog_level c > level then returnS ()
     else bindS (generate_header sys at level) (\<lambda>(ret, size).
       if ret = 0 then returnS ()
       else bindS (getS (\<lambda>(c, _). plog_buf c)) (\<lambda>buf.
         bindS (liftS (put_at size (msg @ [NUL]) buf)) (\<lambda>buf'.
         bindS (on_ctx (\<lambda>c. c\<lparr>plog_buf := buf'\<rparr>)) (\<lambda>_.
         bindS (open_file sys level) (\<lambda>_.
         write_line sys level (size + length msg)))))))"

text \<open>\<open>memcpy\<close> copies the bytes without an end of the string.\<close>

definition too_long :: "nat \<Rightarrow> nat \<Rightarrow> nat \<Rightarrow> string" where
  "too_long room off n = ''(plogctx->nlog_buf_size:'' @ nat_str room @ '' - nlog_buf_offset:'' @ nat_str off @ ''):''
     @ nat_str (room - off) @ '' < size:'' @ nat_str n @ [CHR 0x0A]"

definition log_buf :: "system \<Rightarrow> int \<Rightarrow> site \<Rightarrow> string \<Rightarrow> unit log_op" where
  "log_buf sys level at bytes =
     bindS (getS fst) (\<lambda>c.
     if nlog_level c > level then returnS ()
     else bindS (generate_header sys at level) (\<lambda>(ret, off).
       if ret = 0 then returnS ()
       else if nlog_buf_size c - off < length bytes then print_console (too_long (nlog_buf_size c) off (length bytes))
       else bindS (getS (\<lambda>(c, _). plog_buf c)) (\<lambda>buf.
         bindS (liftS (put_at off bytes buf)) (\<lambda>buf'.
         bindS (on_ctx (\<lambda>c. c\<lparr>plog_buf := buf'\<rparr>)) (\<lambda>_.
         bindS (open_file sys level) (\<lambda>_.
         write_line sys level (off + length bytes)))))))"

text \<open>Bytes as hexadecimal digits. The check of the loop does not count what is written next.\<close>

definition hex_digit :: "nat \<Rightarrow> char" where
  "hex_digit n = (if n < 10 then char_of (48 + n) else char_of (87 + n))"

definition hex2 :: "8 word \<Rightarrow> string" where
  "hex2 b = [hex_digit (unat b div 16), hex_digit (unat b mod 16)]"

fun memory_loop :: "nat \<Rightarrow> 8 word list \<Rightarrow> buffer \<Rightarrow> buffer res" where
  "memory_loop room [] buf = Inr buf"
| "memory_loop room (b # bs) buf = bindE (c_text buf) (\<lambda>s.
     if length s < room then bindE (put_at (length s) (hex2 b @ [NUL]) buf) (memory_loop room bs) else Inr buf)"

definition memory_prefix :: "nat \<Rightarrow> string" where
  "memory_prefix n = ''size:'' @ nat_str n @ '', memory:''"

definition log_memory :: "system \<Rightarrow> int \<Rightarrow> 8 word list \<Rightarrow> unit log_op" where
  "log_memory sys level bytes =
     bindS (getS fst) (\<lambda>c.
     if nlog_level c > level then returnS ()
     else bindS (liftS (put_at 0 (memory_prefix (length bytes) @ [NUL]) (replicate (nlog_buf_size c) (Some NUL)))) (\<lambda>buf.
       bindS (liftS (memory_loop (nlog_buf_size c) bytes buf)) (\<lambda>buf'.
       bindS (on_ctx (\<lambda>c. c\<lparr>plog_buf := buf'\<rparr>)) (\<lambda>_.
       bindS (liftS (c_text buf')) (\<lambda>s.
       write_line sys level (length s))))))"

end
