(* ===== verification/LogContext.thy ===== *)
theory LogContext
  imports Log
begin

text \<open>
  The life of the context of the log (\<open>mssdk/lazyutil/lazylog.cpp\<close>): \<open>init_log\<close> with the pattern of
  its path, the setters, the end; the functions on the global context, which does nothing when it
  is null; and the helpers that log under a condition or wait for a time. What \<open>init_log\<close> prints on
  the console is left out.
\<close>

section \<open>Opening\<close>

definition new_log_ctx :: "system \<Rightarrow> int \<Rightarrow> int \<Rightarrow> string \<Rightarrow> log_ctx" where
  "new_log_ctx sys level flag path =
     \<lparr>pfd_open = False, llast_log_time = utc_timestamp sys, llwrite_size = 0, nlog_level = level, nlog_output_flag = flag,
      plog_path = path, plog_dir = None, plog_buf = replicate MAX_LOG_SIZE None, nlog_buf_size = MAX_LOG_SIZE,
      nmayjor_version = 0, nminor_version = 0, nmicro_version = 0, ntiny_version = 0, ngmtime = False,
      nlog_file_rotation_size = 1024 * 1024 * 100, nlog_rotation_index = 0, benable_log_function = False,
      nlog_dir_chmod_mode = 511, nlog_file_chmod_mode = 420\<rparr>"

text \<open>Without a path there is no context when a file is asked for, and the length of a null string
  otherwise.\<close>

definition open_log_contex :: "system \<Rightarrow> int \<Rightarrow> int \<Rightarrow> string option \<Rightarrow> log_ctx option res" where
  "open_log_contex sys level flag path = (case path of
     None \<Rightarrow> if bit flag 1 then Inr None else Inl (Undefined ''strlen'')
   | Some p \<Rightarrow> Inr (Some (new_log_ctx sys level flag p)))"

definition gen_datetime :: "tm \<Rightarrow> string" where
  "gen_datetime t = zpad 4 (1900 + tm_year t) @ zpad 2 (1 + tm_mon t) @ zpad 2 (tm_mday t) @ ''-''
     @ zpad 2 (tm_hour t) @ zpad 2 (tm_min t) @ zpad 2 (tm_sec t)"

text \<open>\<open>strstr\<close>: what comes before and after the first occurrence\<close>

fun split_at :: "string \<Rightarrow> string \<Rightarrow> (string \<times> string) option" where
  "split_at pat s = (if take (length pat) s = pat then Some ([], drop (length pat) s)
     else case s of [] \<Rightarrow> None | ch # s' \<Rightarrow> map_option (\<lambda>(a, b). (ch # a, b)) (split_at pat s'))"

declare split_at.simps [simp del]

text \<open>The path is kept when the result does not fit. The text after the pattern is copied over the
  end of the date.\<close>

definition convert_from_pattern :: "system \<Rightarrow> string \<Rightarrow> nat \<Rightarrow> string \<Rightarrow> string res" where
  "convert_from_pattern sys path len pat = (case split_at pat path of
     None \<Rightarrow> Inr path
   | Some (a, b) \<Rightarrow> (case calendar sys of
       None \<Rightarrow> Inl (Undefined ''localtime'')
     | Some t \<Rightarrow> (let new = a @ gen_datetime t @ b in Inr (if length new < len then new else path))))"

definition set_version :: "int \<Rightarrow> int \<Rightarrow> int \<Rightarrow> int \<Rightarrow> log_ctx \<Rightarrow> log_ctx" where
  "set_version nmayjor nminor nmicro ntiny c =
     c\<lparr>nmayjor_version := nmayjor, nminor_version := nminor, nmicro_version := nmicro, ntiny_version := ntiny\<rparr>"

text \<open>The path of the file: the pattern is looked for after the last slash, without which a null
  pointer is subtracted from.\<close>

definition log_path_of :: "system \<Rightarrow> string \<Rightarrow> string res" where
  "log_path_of sys dir =
     (if length dir \<ge> 256 then Inl (Undefined ''logpath'')
      else case before_last (CHR ''/'') dir of
        None \<Rightarrow> Inl (Undefined ''ptmp - logpath'')
      | Some p \<Rightarrow> bindE (convert_from_pattern sys (drop (length p) dir) (256 - length p) ''[datetime]'') (\<lambda>rest. Inr (p @ rest)))"

definition init_log :: "system \<Rightarrow> string option \<Rightarrow> int \<Rightarrow> int \<Rightarrow> int \<Rightarrow> int \<Rightarrow> int \<Rightarrow> int \<Rightarrow> log_ctx option res" where
  "init_log sys logdir level mode nmayjor nminor nmicro ntiny =
     bindE (case logdir of Some dir \<Rightarrow> if bit mode 1 then log_path_of sys dir else Inr [] | None \<Rightarrow> Inr []) (\<lambda>path.
     bindE (open_log_contex sys level mode (Some path)) (\<lambda>c.
     Inr (map_option (\<lambda>c. (if nmayjor \<ge> 0 then set_version nmayjor nminor nmicro ntiny else id)
       (c\<lparr>plog_dir := (if bit mode 1 then logdir else None)\<rparr>)) c)))"

definition init_log2 :: "system \<Rightarrow> string option \<Rightarrow> int \<Rightarrow> int \<Rightarrow> log_ctx option res" where
  "init_log2 sys logdir level mode = init_log sys logdir level mode (- 1) (- 1) (- 1) (- 1)"

section \<open>The global context\<close>

type_synonym 'a global_op = "(log_ctx option \<times> disk, 'a) op"

definition at_ctx :: "'a \<Rightarrow> 'a log_op \<Rightarrow> 'a global_op" where
  "at_ctx none m = (\<lambda>(g, d). case g of None \<Rightarrow> (Inr none, (None, d))
     | Some c \<Rightarrow> (case m (c, d) of (r, (c', d')) \<Rightarrow> (r, (Some c', d'))))"

definition set_current_version :: "int \<Rightarrow> int \<Rightarrow> int \<Rightarrow> int \<Rightarrow> int global_op" where
  "set_current_version nmayjor nminor nmicro ntiny =
     at_ctx (- 1) (bindS (on_ctx (set_version nmayjor nminor nmicro ntiny)) (\<lambda>_. returnS 0))"

definition set_log_rotation_size :: "int \<Rightarrow> unit global_op" where
  "set_log_rotation_size n = at_ctx () (on_ctx (\<lambda>c. c\<lparr>nlog_file_rotation_size := n\<rparr>))"

definition set_log_file_chmod_mode :: "int \<Rightarrow> int \<Rightarrow> int global_op" where
  "set_log_file_chmod_mode dir file =
     at_ctx (- 1) (bindS (on_ctx (\<lambda>c. c\<lparr>nlog_dir_chmod_mode := dir, nlog_file_chmod_mode := file\<rparr>)) (\<lambda>_. returnS 0))"

definition log_trace :: "system \<Rightarrow> int \<Rightarrow> site \<Rightarrow> string \<Rightarrow> unit global_op" where
  "log_trace sys level at msg = at_ctx () (log_format sys level at msg)"

text \<open>A file that is not open must not be closed.\<close>

definition force_flush :: "system \<Rightarrow> unit global_op" where
  "force_flush sys = at_ctx ()
     (bindS (getS fst) (\<lambda>c. if pfd_open c then log_fopen sys else liftS (Inl (Undefined ''fclose''))))"

definition get_log_path :: "log_ctx option \<Rightarrow> string option" where
  "get_log_path g = (case g of None \<Rightarrow> None | Some c \<Rightarrow> plog_dir c)"

definition end_line :: string where
  "end_line = CHR 0x0A # ''************************** program safety exit ****************************'' @ [CHR 0x0A]"

definition close_log_contex :: "unit global_op" where
  "close_log_contex =
     bindS (at_ctx () (bindS (getS (pfd_open \<circ> fst)) (\<lambda>op. if op then log_fwrite end_line else returnS ()))) (\<lambda>_.
     updS (\<lambda>(_, d). (None, d)))"

section \<open>Helpers\<close>

definition no_site :: site where
  "no_site = \<lparr>ptag = None, pfilepath = None, src_line = - 1, pfun = None\<rparr>"

definition default_log_callback :: "system \<Rightarrow> int \<Rightarrow> string \<Rightarrow> unit global_op" where
  "default_log_callback sys level msg = at_ctx () (log_format sys level no_site msg)"

definition ffmpeg_level :: "int \<Rightarrow> int option" where
  "ffmpeg_level level =
     (if level \<le> 16 then Some LOG_LEVEL_ERROR else if level = 24 then Some LOG_LEVEL_WARN
      else if level = 32 then Some LOG_LEVEL_TRACE else None)"

definition ffmpeg_log_callback :: "system \<Rightarrow> int \<Rightarrow> string \<Rightarrow> unit global_op" where
  "ffmpeg_log_callback sys level msg =
     (case ffmpeg_level level of None \<Rightarrow> returnS () | Some l \<Rightarrow> default_log_callback sys l msg)"

text \<open>\<open>lblogi\<close>: one of every \<open>per\<close> calls of an object is logged. The counts are those of the place of
  the macro.\<close>

definition lblogi ::
  "system \<Rightarrow> int \<Rightarrow> nat \<Rightarrow> int \<Rightarrow> site \<Rightarrow> string \<Rightarrow> ((nat \<Rightarrow> int option) \<times> log_ctx option \<times> disk, unit) op" where
  "lblogi sys per this level at msg = (\<lambda>(mp, s).
     let n = (case mp this of None \<Rightarrow> 0 | Some n \<Rightarrow> n) in
     if per > 0 then
       (if n mod per = 0 then (case log_trace sys level at msg s of (r, s') \<Rightarrow> (r, (mp(this \<mapsto> n + 1), s')))
        else (Inr (), (mp(this \<mapsto> n + 1), s)))
     else (Inr (), (mp(this \<mapsto> n), s)))"

text \<open>\<open>LazyTimeOut\<close> warns when its object has lived too long. Times are 64 bits without sign.\<close>

record lazy_timeout =
  begin_time :: "64 word"
  timeout :: "64 word"
  timeout_info :: "string option"

definition LazyTimeOut :: "system \<Rightarrow> 64 word \<Rightarrow> string option \<Rightarrow> lazy_timeout" where
  "LazyTimeOut sys ms func = \<lparr>begin_time = of_nat (ms_timestamp sys), timeout = ms, timeout_info = func\<rparr>"

definition delete_LazyTimeOut :: "system \<Rightarrow> site \<Rightarrow> lazy_timeout \<Rightarrow> unit global_op" where
  "delete_LazyTimeOut sys at t =
     (let past = of_nat (ms_timestamp sys) - begin_time t in
      if past \<ge> timeout t
      then log_trace sys LOG_LEVEL_WARN at (shown_text (timeout_info t) @ '' timeout:'' @ nat_str (unat past) @ [CHR 0x0A])
      else returnS ())"

text \<open>\<open>lazysleepto\<close> reads the clock and sleeps until the time has come; the argument of a sleep has
  32 bits. The readings are a list; the result is the answer and the sleeps, None when the list
  ends first. The message about a long sleep is left out.\<close>

fun sleep_loop :: "int \<Rightarrow> int list \<Rightarrow> (bool \<times> 32 word list) option" where
  "sleep_loop until [] = None"
| "sleep_loop until (now # later) =
     (if now \<ge> until then Some (True, [])
      else map_option (\<lambda>(b, naps). (b, of_int (until - now) # naps)) (sleep_loop until later))"

fun lazysleepto :: "int \<Rightarrow> int list \<Rightarrow> (bool \<times> 32 word list) option" where
  "lazysleepto until [] = None"
| "lazysleepto until (now # later) =
     (if now > until then Some (False, [])
      else map_option (\<lambda>(b, naps). (b, (if until - now > 1 then [of_int (until - now)] else []) @ naps)) (sleep_loop until later))"

end
