(* ===== verification/LogFacts.thy ===== *)
theory LogFacts
  imports LogContext
begin

text \<open>
  The log: what a call leaves in the buffer, in the files and on the console.
\<close>

section \<open>Text in a buffer\<close>

definition ended :: "string \<Rightarrow> string" where
  "ended s = (if last s = CHR 0x0A then s else s @ [CHR 0x0A])"

lemma c_text_map: "NUL \<notin> set s \<Longrightarrow> c_text (map Some s @ Some NUL # r) = Inr s"
  by (induction s) auto

lemma get_at_map: "i < length s \<Longrightarrow> get_at i (map Some s @ r) = Inr (s ! i)"
  by (simp add: get_at_def nth_append)

lemma raw_text_map: "n \<le> length s \<Longrightarrow> raw_text n (map Some s @ r) = Inr (take n s)"
  by (simp add: raw_text_def mapE_Inr_iff list_all2_conv_all_nth get_at_map)

lemma put_at_map:
  "put_at (length s) t (map Some s @ r) = (if length t \<le> length r then Inr (map Some (s @ t) @ drop (length t) r) else Inl (Undefined ''buffer overflow''))"
  by (simp add: put_at_def)

text \<open>What \<open>write_log\<close> makes of the text of a buffer: the line is complete, and ends with a NUL.\<close>

lemma complete_line:
  assumes "s \<noteq> []" "NUL \<notin> set s"
  shows "ended s \<noteq> []" "NUL \<notin> set (ended s)" "last (ended s) = CHR 0x0A"
  using assms by (auto simp: ended_def)

definition written_by :: "log_ctx \<Rightarrow> system \<Rightarrow> int \<Rightarrow> string \<Rightarrow> unit log_op" where
  "written_by c sys level s =
     bindS (on_ctx (\<lambda>c. c\<lparr>llwrite_size := llwrite_size c + int (length s)\<rparr>)) (\<lambda>_.
     bindS (if to_console c then write_console level s else returnS ()) (\<lambda>_.
     if pfd_open c \<and> to_file c then write_file sys level s else returnS ()))"

lemma bindS_assoc: "bindS (bindS m f) g = bindS m (\<lambda>x. bindS (f x) g)"
  and bindS_lift: "bindS (liftS (Inr x)) k = k x"
  by (auto simp: bindS_def fun_eq_iff split: prod.splits sum.splits)

lemma write_log_line:
  assumes "s \<noteq> []" "NUL \<notin> set s" "length s < nlog_buf_size c" "nlog_output_flag c \<noteq> 0"
    and "buf = map Some s @ Some NUL # r"
  shows "write_log sys level buf (length s) (c, d) =
    (if length (ended s) < length buf
     then bindS (written_by c sys level (ended s)) (\<lambda>_. returnS (0, map Some (ended s) @ Some NUL # drop (length (ended s) + 1) buf)) (c, d)
     else (Inl (Undefined ''buffer overflow''), (c, d)))"
proof -
  have cap: "min (length s) (nlog_buf_size c - Suc 0) = length s" using assms(3) by simp
  have g: "get_at (length s - Suc 0) buf = Inr (last s)"
    using assms(1) get_at_map [of "length s - 1" s] by (simp add: assms(5) last_conv_nth)
  have open_flag: "\<not> (s = [] \<or> nlog_output_flag c = 0)" using assms(1,4) by simp
  show ?thesis
  proof (cases "last s = CHR 0x0A")
    case True
    have "buf = map Some (ended s) @ Some NUL # drop (length (ended s) + 1) buf" using True by (simp add: assms(5) ended_def)
    moreover have "length (ended s) < length buf" "ended s = s" using True by (simp_all add: assms(5) ended_def)
    ultimately show ?thesis
      using True open_flag g
      by (simp add: write_log_def cap Let_def bindS_lift c_text_map [OF assms(2)] raw_text_map written_by_def bindS_assoc assms(5)
          cong: if_cong)
  next
    case False
    have p: "put_at (length s) [CHR 0x0A, NUL] buf = (if Suc (length s) < length buf
        then Inr (map Some (ended s) @ Some NUL # drop (length (ended s) + 1) buf) else Inl (Undefined ''buffer overflow''))"
      using put_at_map [of s "[CHR 0x0A, NUL]" "Some NUL # r"] False by (cases r) (simp_all add: assms(5) ended_def)
    have n: "NUL \<notin> set (ended s)" and l: "length (ended s) = Suc (length s)" using assms(1,2) False by (auto simp: ended_def)
    have raw: "raw_text (Suc (length s)) (map Some (ended s) @ q) = Inr (ended s)" "take (Suc (length s)) (ended s) = ended s" for q
      using raw_text_map [of "length (ended s)" "ended s" q] by (simp_all add: l)
    show ?thesis
      using open_flag False
      by (simp add: write_log_def cap Let_def g p bindS_lift c_text_map [OF n] raw l written_by_def bindS_assoc cong: if_cong)
  qed
qed

section \<open>Rotation\<close>

lemma before_last_Some:
  assumes "before_last ch s = Some p"
  obtains t where "s = p @ ch # t" "ch \<notin> set t"
proof -
  have ch: "ch \<in> set (rev s)" using assms by (auto simp: before_last_def after_last_def split: if_splits)
  then obtain xs ys where r: "rev s = xs @ ch # ys" "ch \<notin> set xs" by (metis split_list_first)
  then have s: "s = rev ys @ ch # rev xs" by (metis rev_rev_ident rev_append rev.simps(2) append_assoc append_Cons append_Nil)
  have "takeWhile (\<lambda>x. x \<noteq> ch) (rev s) = xs" unfolding r(1) using r(2) by (subst takeWhile_append2) auto
  then have "p = rev ys" using assms ch by (auto simp: before_last_def after_last_def s)
  then show thesis using that s r(2) by simp
qed

lemma rotated_name_other: "rotated_name path i \<noteq> path"
  by (auto simp: rotated_name_def split: option.splits elim!: before_last_Some)

lemma int_str_inj: "0 \<le> i \<Longrightarrow> 0 \<le> j \<Longrightarrow> int_str i = int_str j \<longleftrightarrow> i = j"
  by (auto simp: int_str_def nat_str_inj)

lemma rotated_name_inj: "0 \<le> i \<Longrightarrow> 0 \<le> j \<Longrightarrow> rotated_name path i = rotated_name path j \<longleftrightarrow> i = j"
  by (auto simp: rotated_name_def int_str_inj split: option.splits)

text \<open>The text of the log: the files that were rotated, then the one that is written.\<close>

definition log_text :: "log_ctx \<times> disk \<Rightarrow> string" where
  "log_text = (\<lambda>(c, d). concat (map (\<lambda>i. file_text d (rotated_name (plog_path c) (int i))) [0..<nat (nlog_rotation_index c)])
     @ file_text d (plog_path c))"

text \<open>No file has a name that a rotation will use.\<close>

definition fresh_names :: "log_ctx \<times> disk \<Rightarrow> bool" where
  "fresh_names = (\<lambda>(c, d). 0 \<le> nlog_rotation_index c
     \<and> (\<forall>i \<ge> nlog_rotation_index c. files d (rotated_name (plog_path c) i) = None))"

text \<open>What no call changes of the context.\<close>

definition settings :: "log_ctx \<Rightarrow> log_ctx" where
  "settings c = c\<lparr>pfd_open := False, llast_log_time := 0, llwrite_size := 0, plog_buf := [], nlog_rotation_index := 0\<rparr>"

lemma settings_fields:
  assumes "settings c' = settings c"
  shows "plog_path c' = plog_path c" "nlog_output_flag c' = nlog_output_flag c" "nlog_level c' = nlog_level c"
    "nlog_buf_size c' = nlog_buf_size c" "nlog_file_rotation_size c' = nlog_file_rotation_size c"
  using assms by (auto simp: settings_def dest: arg_cong [where f = plog_path] arg_cong [where f = nlog_output_flag]
      arg_cong [where f = nlog_level] arg_cong [where f = nlog_buf_size] arg_cong [where f = nlog_file_rotation_size])

definition names_fit :: "nat \<Rightarrow> log_ctx \<Rightarrow> bool" where
  "names_fit n c \<longleftrightarrow> (\<forall>k < n. length (rotated_name (plog_path c) (nlog_rotation_index c + int k)) < 256)"

lemma log_text_append:
  assumes "fresh_names (c, d)"
  shows "log_text (c, d\<lparr>files := (files d)(plog_path c \<mapsto> file_text d (plog_path c) @ s)\<rparr>) = log_text (c, d) @ s"
    "fresh_names (c, d\<lparr>files := (files d)(plog_path c \<mapsto> file_text d (plog_path c) @ s)\<rparr>)"
  using assms rotated_name_other [of "plog_path c"]
  by (simp_all add: log_text_def fresh_names_def file_text_def)

lemma rotate_text:
  assumes "fresh_names (c, d)" "files d (plog_path c) \<noteq> None" "can_open sys (plog_path c)" "names_fit (Suc n) c"
  obtains c' d' where "rotate sys (c, d) = (Inr (), (c', d'))" "settings c' = settings c" "pfd_open c'" "plog_buf c' = plog_buf c"
    "log_text (c', d') = log_text (c, d)" "fresh_names (c', d')" "names_fit n c'" "files d' (plog_path c') \<noteq> None"
proof -
  define name where "name = rotated_name (plog_path c) (nlog_rotation_index c)"
  have len: "length name < 256" using assms(4) by (auto simp: names_fit_def name_def dest: spec [of _ 0])
  have other: "name \<noteq> plog_path c" and free: "files d name = None"
    using assms(1) rotated_name_other by (auto simp: name_def fresh_names_def)
  have idx: "0 \<le> nlog_rotation_index c" using assms(1) by (simp add: fresh_names_def)
  define c' where "c' = c\<lparr>pfd_open := True, nlog_rotation_index := nlog_rotation_index c + 1\<rparr>"
  define d' where "d' = d\<lparr>files := (files d)(name := files d (plog_path c), plog_path c := Some [])\<rparr>"
  have run: "rotate sys (c, d) = (Inr (), (c', d'))"
    using len other free assms(2,3)
    by (auto simp: rotate_def on_ctx_def on_disk_def log_rename_def log_fopen_def Let_def file_text_def name_def c'_def d'_def fun_eq_iff
        split: option.splits)
  have old: "file_text d' (rotated_name (plog_path c) (int i)) = file_text d (rotated_name (plog_path c) (int i))"
    if "i < nat (nlog_rotation_index c)" for i
    using that idx rotated_name_inj [of "int i" "nlog_rotation_index c" "plog_path c"] rotated_name_other [of "plog_path c"]
    by (auto simp: file_text_def d'_def name_def)
  have new: "file_text d' name = file_text d (plog_path c)" "file_text d' (plog_path c) = []"
    using other by (auto simp: file_text_def d'_def)
  have "concat (map (\<lambda>i. file_text d' (rotated_name (plog_path c) (int i))) [0..<nat (nlog_rotation_index c)])
      = concat (map (\<lambda>i. file_text d (rotated_name (plog_path c) (int i))) [0..<nat (nlog_rotation_index c)])"
    using old by (intro arg_cong [where f = concat] map_cong) simp_all
  then have "log_text (c', d') = log_text (c, d)"
    using idx new by (simp add: log_text_def c'_def nat_add_distrib name_def)
  moreover have "fresh_names (c', d')"
    using assms(1) rotated_name_inj [of _ "nlog_rotation_index c" "plog_path c"] rotated_name_other [of "plog_path c"]
    by (auto simp: fresh_names_def c'_def d'_def name_def)
  moreover have "names_fit n c'"
    unfolding names_fit_def
  proof (intro allI impI)
    fix k assume "k < n"
    then have "length (rotated_name (plog_path c) (nlog_rotation_index c + int (Suc k))) < 256"
      using assms(4) unfolding names_fit_def by blast
    then show "length (rotated_name (plog_path c') (nlog_rotation_index c' + int k)) < 256" by (simp add: c'_def add.assoc)
  qed
  ultimately show thesis
    using run by (intro that [of c' d']) (simp_all add: c'_def d'_def settings_def)
qed

text \<open>Text that is written to an open file is the end of the log, whether the file is rotated or not.\<close>

lemma write_file_text:
  assumes "fresh_names (c, d)" "pfd_open c" "can_open sys (plog_path c)" "names_fit (Suc n) c"
  obtains c' d' where "write_file sys level s (c, d) = (Inr (), (c', d'))" "settings c' = settings c" "pfd_open c'" "plog_buf c' = plog_buf c"
    "log_text (c', d') = log_text (c, d) @ s" "fresh_names (c', d')" "names_fit n c'"
proof -
  define d1 where "d1 = d\<lparr>files := (files d)(plog_path c \<mapsto> file_text d (plog_path c) @ s)\<rparr>"
  define c1 where "c1 = (if level \<ge> LOG_LEVEL_ERROR \<or> utc_timestamp sys - llast_log_time c > 3000
                        then c\<lparr>llast_log_time := utc_timestamp sys\<rparr> else c)"
  have c1: "plog_path c1 = plog_path c" "settings c1 = settings c" "pfd_open c1" "plog_buf c1 = plog_buf c"
    "nlog_rotation_index c1 = nlog_rotation_index c"
    using assms(2) by (simp_all add: c1_def settings_def)
  have t: "log_text (c1, d1) = log_text (c, d) @ s" "fresh_names (c1, d1)"
    using log_text_append [OF assms(1), of s] c1 unfolding d1_def log_text_def fresh_names_def by simp_all
  have fit: "names_fit (Suc n) c1" "names_fit n c1" using assms(4) c1 by (simp_all add: names_fit_def)
  have w: "write_file sys level s (c, d) =
      (if log_ftell c1 d1 \<ge> nlog_file_rotation_size c1 then rotate sys (c1, d1) else (Inr (), (c1, d1)))"
    by (simp add: write_file_def log_fwrite_def on_ctx_def bindS_def c1_def [symmetric] d1_def [symmetric])
  show thesis
  proof (cases "log_ftell c1 d1 \<ge> nlog_file_rotation_size c1")
    case True
    have "files d1 (plog_path c1) \<noteq> None" "can_open sys (plog_path c1)" using c1 assms(3) by (simp_all add: d1_def)
    from rotate_text [OF t(2) this fit(1)] obtain c' d' where
      "rotate sys (c1, d1) = (Inr (), (c', d'))" "settings c' = settings c1" "pfd_open c'" "plog_buf c' = plog_buf c1"
      "log_text (c', d') = log_text (c1, d1)" "fresh_names (c', d')" "names_fit n c'"
      by metis
    then show thesis using that [of c' d'] w True c1 t(1) by simp
  next
    case False
    then show thesis using that [of c1 d1] w c1 t fit(2) by simp
  qed
qed

lemma to_file_on: "to_file c \<Longrightarrow> nlog_output_flag c \<noteq> 0"
  by (auto simp: to_file_def)

lemma log_state_fields:
  "log_text (c\<lparr>llwrite_size := n\<rparr>, d\<lparr>console := t\<rparr>) = log_text (c, d)" "log_text (c\<lparr>llwrite_size := n\<rparr>, d) = log_text (c, d)"
  "fresh_names (c\<lparr>llwrite_size := n\<rparr>, d\<lparr>console := t\<rparr>) = fresh_names (c, d)" "fresh_names (c\<lparr>llwrite_size := n\<rparr>, d) = fresh_names (c, d)"
  "log_text (c, d\<lparr>console := t\<rparr>) = log_text (c, d)" "fresh_names (c, d\<lparr>console := t\<rparr>) = fresh_names (c, d)"
  "log_text (c\<lparr>plog_buf := b\<rparr>, d) = log_text (c, d)" "fresh_names (c\<lparr>plog_buf := b\<rparr>, d) = fresh_names (c, d)"
  "names_fit k (c\<lparr>llwrite_size := n\<rparr>) = names_fit k c" "names_fit k (c\<lparr>plog_buf := b\<rparr>) = names_fit k c"
  "settings (c\<lparr>llwrite_size := n\<rparr>) = settings c" "settings (c\<lparr>plog_buf := b\<rparr>) = settings c"
  by (simp_all add: log_text_def fresh_names_def names_fit_def file_text_def settings_def)

lemma write_log_text:
  assumes "s \<noteq> []" "NUL \<notin> set s" "length s < nlog_buf_size c" "to_file c" "pfd_open c" "fresh_names (c, d)"
    and "can_open sys (plog_path c)" "names_fit (Suc n) c" "length (ended s) < length (map Some s @ Some NUL # r)"
  obtains c' d' r' where
    "write_log sys level (map Some s @ Some NUL # r) (length s) (c, d) = (Inr (0, map Some (ended s) @ Some NUL # r'), (c', d'))"
    "length (map Some (ended s) @ Some NUL # r') = length (map Some s @ Some NUL # r)"
    "settings c' = settings c" "pfd_open c'" "plog_buf c' = plog_buf c"
    "log_text (c', d') = log_text (c, d) @ ended s" "fresh_names (c', d')" "names_fit n c'"
proof -
  define c1 where "c1 = c\<lparr>llwrite_size := llwrite_size c + int (length (ended s))\<rparr>"
  obtain d1 where d1: "bindS (on_ctx (\<lambda>c. c\<lparr>llwrite_size := llwrite_size c + int (length (ended s))\<rparr>)) (\<lambda>_.
      if to_console c then write_console level (ended s) else returnS ()) (c, d) = (Inr (), (c1, d1))"
    "log_text (c1, d1) = log_text (c, d)" "fresh_names (c1, d1)"
    using assms(6) by (cases "to_console c") (auto simp: on_ctx_def c1_def write_console_def print_console_def on_disk_def log_state_fields)
  have c1: "pfd_open c1" "can_open sys (plog_path c1)" "names_fit (Suc n) c1" "plog_buf c1 = plog_buf c" "settings c1 = settings c"
    using assms(5,7,8) by (simp_all add: c1_def log_state_fields)
  obtain c' d' where w: "write_file sys level (ended s) (c1, d1) = (Inr (), (c', d'))" "settings c' = settings c1" "pfd_open c'"
    "plog_buf c' = plog_buf c1" "log_text (c', d') = log_text (c1, d1) @ ended s" "fresh_names (c', d')" "names_fit n c'"
    using write_file_text [OF d1(3) c1(1-3), of level "ended s"] by metis
  have "written_by c sys level (ended s) (c, d) = (Inr (), (c', d'))"
  proof -
    let ?first = "bindS
        (on_ctx (\<lambda>c. c\<lparr>llwrite_size := llwrite_size c + int (length (ended s))\<rparr>))
        (\<lambda>_. if to_console c then write_console level (ended s) else returnS ())"
    have "written_by c sys level (ended s) (c, d) = bindS ?first (\<lambda>_. write_file sys level (ended s)) (c, d)"
      using assms(4,5) by (simp add: written_by_def bindS_assoc)
    also have "\<dots> = write_file sys level (ended s) (c1, d1)" by (rule bindS_run(2)) (rule d1(1))
    finally show ?thesis using w(1) by simp
  qed
  then have "write_log sys level (map Some s @ Some NUL # r) (length s) (c, d) =
      (Inr (0, map Some (ended s) @ Some NUL # drop (length (ended s) + 1) (map Some s @ Some NUL # r)), (c', d'))"
    using write_log_line [OF assms(1-3) to_file_on [OF assms(4)] refl] assms(9) by (simp add: bindS_def)
  then show thesis
    using that [of "drop (length (ended s) + 1) (map Some s @ Some NUL # r)" c' d'] assms(9) w c1 d1(2) by simp
qed

section \<open>Lines\<close>

lemma generate_header_run:
  assumes "calendar sys = Some t" "level_name level = Some lname" "length (header_place c at) < 256"
    and "h = header_text sys t level lname (header_place c at)" "length h < nlog_buf_size c" "length (plog_buf c) = nlog_buf_size c"
  shows "generate_header sys at level (c, d) =
    (Inr (int (length h), length h), (c\<lparr>plog_buf := map Some h @ Some NUL # drop (length h + 1) (plog_buf c)\<rparr>, d))"
  using assms by (simp add: generate_header_def Let_def put_at_def on_ctx_def bindS_def)

text \<open>A context in use: its buffer has its size, and the names of the next two rotations are free
  and fit.\<close>

definition log_ok :: "log_ctx \<times> disk \<Rightarrow> bool" where
  "log_ok = (\<lambda>(c, d). nlog_buf_size c = MAX_LOG_SIZE \<and> length (plog_buf c) = MAX_LOG_SIZE \<and> fresh_names (c, d))"

text \<open>The first line opens the file and writes the version.\<close>

lemma open_file_text:
  assumes "to_file c" "fresh_names (c, d)" "can_open sys (plog_path c)" "names_fit (Suc n) c" "nlog_buf_size c = MAX_LOG_SIZE"
    and "NUL \<notin> set (version_text sys c)" "length (version_text sys c) < 255"
  obtains c' d' where "open_file sys level (c, d) = (Inr (), (c', d'))" "settings c' = settings c" "pfd_open c'" "plog_buf c' = plog_buf c"
    "log_text (c', d') = log_text (c, d) @ (if pfd_open c then [] else ended (version_text sys c))" "fresh_names (c', d')" "names_fit n c'"
proof (cases "pfd_open c")
  case True
  moreover have "names_fit n c" using assms(4) by (simp add: names_fit_def)
  ultimately show thesis using that [of c d] assms(1,2) by (simp add: open_file_def)
next
  case False
  let ?v = "version_text sys c"
  define c1 where "c1 = c\<lparr>pfd_open := True\<rparr>"
  define d1 where "d1 = d\<lparr>files := (files d)(plog_path c \<mapsto> file_text d (plog_path c))\<rparr>"
  have c1: "to_file c1" "pfd_open c1" "can_open sys (plog_path c1)" "names_fit (Suc n) c1" "settings c1 = settings c" "plog_buf c1 = plog_buf c"
    using assms(1,3,4) by (simp_all add: c1_def to_file_def names_fit_def settings_def)
  have t: "log_text (c1, d1) = log_text (c, d)" "fresh_names (c1, d1)"
    using log_text_append [OF assms(2), of "[]"] by (simp_all add: c1_def d1_def log_text_def fresh_names_def)
  have v: "?v \<noteq> []" "length (ended ?v) < 256" "length ?v < nlog_buf_size c1"
    using assms(5,7) by (auto simp: version_text_def ended_def c1_def MAX_LOG_SIZE_def)
  have r: "replicate (256 - length ?v) (Some NUL) = Some NUL # replicate (255 - length ?v) (Some NUL)"
    using assms(7) by (simp add: replicate_Suc [symmetric] Suc_diff_le del: replicate_Suc)
  have fits: "length (ended ?v) < length (map Some ?v @ Some NUL # replicate (255 - length ?v) (Some NUL))"
    using v(2) assms(7) by simp
  obtain c' d' r' where w: "write_log sys level (map Some ?v @ Some NUL # replicate (255 - length ?v) (Some NUL)) (length ?v) (c1, d1)
      = (Inr (0, map Some (ended ?v) @ Some NUL # r'), (c', d'))"
    "settings c' = settings c1" "pfd_open c'" "plog_buf c' = plog_buf c1" "log_text (c', d') = log_text (c1, d1) @ ended ?v"
    "fresh_names (c', d')" "names_fit n c'"
    by (rule write_log_text [OF v(1) assms(6) v(3) c1(1,2) t(2) c1(3,4) fits, of level])
  have "open_file sys level (c, d) = (Inr (), (c', d'))"
    using False assms(1,3,7) w(1)
    by (simp add: open_file_def bindS_def log_fopen_def c1_def [symmetric] d1_def [symmetric] r Let_def)
  then show thesis using that [of c' d'] w c1 t False by simp
qed

text \<open>A line that fits into the buffer is the end of the log; one that does not overflows it.\<close>

definition log_ready :: "system \<Rightarrow> int \<Rightarrow> site \<Rightarrow> log_ctx \<times> disk \<Rightarrow> bool" where
  "log_ready sys level at = (\<lambda>(c, d). log_ok (c, d) \<and> calendar sys \<noteq> None \<and> level_name level \<noteq> None \<and> nlog_level c \<le> level
     \<and> to_file c \<and> can_open sys (plog_path c) \<and> names_fit 2 c \<and> length (header_place c at) < 256
     \<and> NUL \<notin> set (version_text sys c) \<and> length (version_text sys c) < 255)"

definition header :: "system \<Rightarrow> int \<Rightarrow> site \<Rightarrow> log_ctx \<Rightarrow> string" where
  "header sys level at c = header_text sys (the (calendar sys)) level (the (level_name level)) (header_place c at)"

lemma header_nonempty: "header sys level at c \<noteq> []"
  by (simp add: header_def header_text_def)

lemma header_run:
  assumes "log_ready sys level at (c, d)" "h = header sys level at c"
  shows "generate_header sys at level (c, d) =
    (if length h < MAX_LOG_SIZE
     then (Inr (int (length h), length h), (c\<lparr>plog_buf := map Some h @ Some NUL # drop (length h + 1) (plog_buf c)\<rparr>, d))
     else (Inl (Undefined ''sprintf_s''), (c, d)))"
  using assms by (auto simp: log_ready_def log_ok_def header_def generate_header_def Let_def put_at_def on_ctx_def bindS_def)

text \<open>Up to the writing of the line.\<close>

lemma line_formatted:
  assumes ready: "log_ready sys level at (c, d)" and len: "length (header sys level at c) + length msg < MAX_LOG_SIZE"
  obtains c' d' q where
    "log_format sys level at msg (c, d) = write_line sys level (length (header sys level at c @ msg)) (c', d')"
    "plog_buf c' = map Some (header sys level at c @ msg) @ Some NUL # q" "length (plog_buf c') = MAX_LOG_SIZE"
    "settings c' = settings c" "pfd_open c'" "to_file c'" "can_open sys (plog_path c')" "nlog_buf_size c' = MAX_LOG_SIZE"
    "log_text (c', d') = log_text (c, d) @ (if pfd_open c then [] else ended (version_text sys c))"
    "fresh_names (c', d')" "names_fit 1 c'"
proof -
  let ?h = "header sys level at c"
  define c1 where "c1 = c\<lparr>plog_buf := map Some ?h @ Some NUL # drop (length ?h + 1) (plog_buf c)\<rparr>"
  have size: "nlog_buf_size c = MAX_LOG_SIZE" "length (plog_buf c) = MAX_LOG_SIZE" "fresh_names (c, d)"
    and file_on: "to_file c" and opens: "can_open sys (plog_path c)" and names: "names_fit 2 c"
    and version: "NUL \<notin> set (version_text sys c)" "length (version_text sys c) < 255" and loud: "nlog_level c \<le> level"
    using ready by (simp_all add: log_ready_def log_ok_def)
  have header: "generate_header sys at level (c, d) = (Inr (int (length ?h), length ?h), (c1, d))"
    using header_run [OF ready refl] len by (simp add: c1_def)
  define q where "q = drop (length msg + 1) (Some NUL # drop (length ?h + 1) (plog_buf c))"
  have put: "put_at (length ?h) (msg @ [NUL]) (plog_buf c1) = Inr (map Some (?h @ msg) @ Some NUL # q)"
    using put_at_map [of ?h "msg @ [NUL]"] len size(2) by (simp add: c1_def q_def)
  define c2 where "c2 = c1\<lparr>plog_buf := map Some (?h @ msg) @ Some NUL # q\<rparr>"
  have c2: "to_file c2" "fresh_names (c2, d)" "can_open sys (plog_path c2)" "names_fit (Suc 1) c2" "nlog_buf_size c2 = MAX_LOG_SIZE"
    "version_text sys c2 = version_text sys c" "settings c2 = settings c" "pfd_open c2 = pfd_open c" "log_text (c2, d) = log_text (c, d)"
    "plog_buf c2 = map Some (?h @ msg) @ Some NUL # q"
    using file_on opens names size
    by (simp_all add: c2_def c1_def to_file_def version_text_def log_state_fields numeral_2_eq_2 settings_def)
  obtain c3 d3 where o: "open_file sys level (c2, d) = (Inr (), (c3, d3))" "settings c3 = settings c2" "pfd_open c3" "plog_buf c3 = plog_buf c2"
    "log_text (c3, d3) = log_text (c2, d) @ (if pfd_open c2 then [] else ended (version_text sys c2))" "fresh_names (c3, d3)" "names_fit 1 c3"
    by (rule open_file_text [OF c2(1-5), of level]) (use version in \<open>simp_all add: c2(6)\<close>)
  have "log_format sys level at msg (c, d) = write_line sys level (length (?h @ msg)) (c3, d3)"
    using header header_nonempty [of sys level at c] loud o(1) [unfolded c2_def] put
    by (simp add: log_format_def bindS_def on_ctx_def)
  moreover have "length (plog_buf c3) = MAX_LOG_SIZE" using len size(2) o(4) c2(10) by (simp add: q_def)
  ultimately show thesis
    using that [of c3 d3 q] o c2 settings_fields [OF o(2)] by (simp add: to_file_def)
qed

lemma line_written:
  assumes ready: "log_ready sys level at (c, d)"
    and "NUL \<notin> set (header sys level at c @ msg)" "length (ended (header sys level at c @ msg)) < MAX_LOG_SIZE"
  obtains c' d' where "log_format sys level at msg (c, d) = (Inr (), (c', d'))" "log_ok (c', d')" "settings c' = settings c" "pfd_open c'"
    "log_text (c', d') = log_text (c, d) @ (if pfd_open c then [] else ended (version_text sys c)) @ ended (header sys level at c @ msg)"
proof -
  let ?s = "header sys level at c @ msg"
  have "length (header sys level at c) + length msg < MAX_LOG_SIZE" using assms(3) by (auto simp: ended_def split: if_splits)
  from line_formatted [OF ready this] obtain c3 d3 q where
    f: "log_format sys level at msg (c, d) = write_line sys level (length ?s) (c3, d3)"
    "plog_buf c3 = map Some ?s @ Some NUL # q" "length (plog_buf c3) = MAX_LOG_SIZE"
    "settings c3 = settings c" "pfd_open c3" "to_file c3" "can_open sys (plog_path c3)" "nlog_buf_size c3 = MAX_LOG_SIZE"
    "log_text (c3, d3) = log_text (c, d) @ (if pfd_open c then [] else ended (version_text sys c))"
    "fresh_names (c3, d3)" "names_fit (Suc 0) c3" by auto
  have line: "?s \<noteq> []" "length ?s < nlog_buf_size c3" and fits: "length (ended ?s) < length (map Some ?s @ Some NUL # q)"
    using header_nonempty assms(3) f(2,3,8) by (auto simp: ended_def split: if_splits)
  obtain c4 d4 r' where w: "write_log sys level (map Some ?s @ Some NUL # q) (length ?s) (c3, d3)
      = (Inr (0, map Some (ended ?s) @ Some NUL # r'), (c4, d4))"
    "length (map Some (ended ?s) @ Some NUL # r') = length (map Some ?s @ Some NUL # q)"
    "settings c4 = settings c3" "pfd_open c4" "plog_buf c4 = plog_buf c3"
    "log_text (c4, d4) = log_text (c3, d3) @ ended ?s" "fresh_names (c4, d4)" "names_fit 0 c4"
    by (rule write_log_text [OF line(1) assms(2) line(2) f(6,5,10,7,11) fits, of level])
  define c5 where "c5 = c4\<lparr>plog_buf := map Some (ended ?s) @ Some NUL # r'\<rparr>"
  have run: "log_format sys level at msg (c, d) = (Inr (), (c5, d4))"
    using w(1) f(1,2) by (simp add: write_line_def bindS_def on_ctx_def c5_def)
  have "log_ok (c5, d4)"
    using w(2,7) f(2,3,8) settings_fields(4) [OF w(3)] by (simp add: log_ok_def c5_def log_state_fields)
  then show thesis
    using that [OF run] w f by (simp add: c5_def log_state_fields)
qed

lemma line_overflows:
  assumes ready: "log_ready sys level at (c, d)"
    and "NUL \<notin> set (header sys level at c @ msg)" "\<not> length (ended (header sys level at c @ msg)) < MAX_LOG_SIZE"
  shows "\<exists>e. fst (log_format sys level at msg (c, d)) = Inl e"
proof (cases "length (header sys level at c) + length msg < MAX_LOG_SIZE")
  case True
  let ?s = "header sys level at c @ msg"
  from line_formatted [OF ready True] obtain c3 d3 q where
    f: "log_format sys level at msg (c, d) = write_line sys level (length ?s) (c3, d3)"
    "plog_buf c3 = map Some ?s @ Some NUL # q" "length (plog_buf c3) = MAX_LOG_SIZE" "to_file c3" "nlog_buf_size c3 = MAX_LOG_SIZE"
    by metis
  have "write_log sys level (map Some ?s @ Some NUL # q) (length ?s) (c3, d3) = (Inl (Undefined ''buffer overflow''), (c3, d3))"
    using write_log_line [OF _ assms(2) _ to_file_on [OF f(4)] refl] header_nonempty True assms(3) f(2,3,5) by simp
  then show ?thesis using f(1,2) by (simp add: write_line_def bindS_def)
next
  case False
  have "nlog_level c \<le> level" "length (plog_buf c) = MAX_LOG_SIZE" using ready by (simp_all add: log_ready_def log_ok_def)
  then show ?thesis
    using False header_run [OF ready refl] header_nonempty [of sys level at c] put_at_map [of "header sys level at c" "msg @ [NUL]"]
    by (auto simp: log_format_def bindS_def)
qed

section \<open>Memory\<close>

definition hex_text :: "8 word list \<Rightarrow> string" where
  "hex_text bytes = concat (map hex2 bytes)"

lemma length_hex_text: "length (hex_text bytes) = 2 * length bytes"
  by (induction bytes) (simp_all add: hex_text_def hex2_def)

lemma hex_digit_ok: "n < 16 \<Longrightarrow> hex_digit n \<noteq> NUL \<and> hex_digit n \<noteq> CHR 0x0A"
  by (auto simp: hex_digit_def char_of_eq_iff take_bit_eq_mod)

lemma hex2_ok: "NUL \<notin> set (hex2 b)" "CHR 0x0A \<notin> set (hex2 b)"
proof -
  have "unat b < 2 ^ LENGTH(8)" by (rule unsigned_less)
  then have "unat b div 16 < 16" "unat b mod 16 < 16" by simp_all
  from this [THEN hex_digit_ok] show "NUL \<notin> set (hex2 b)" "CHR 0x0A \<notin> set (hex2 b)" by (auto simp: hex2_def)
qed

lemma hex_text_ok: "NUL \<notin> set (hex_text bytes)" "CHR 0x0A \<notin> set (hex_text bytes)"
  using hex2_ok by (auto simp: hex_text_def)

lemma memory_loop_run:
  assumes "NUL \<notin> set s" "0 < k" "length s + k = room"
  shows "if 2 * length bytes < k
    then memory_loop room bytes (map Some s @ replicate k (Some NUL))
      = Inr (map Some (s @ hex_text bytes) @ replicate (k - 2 * length bytes) (Some NUL))
    else \<exists>e. memory_loop room bytes (map Some s @ replicate k (Some NUL)) = Inl e"
  using assms
proof (induction bytes arbitrary: s k)
  case (Cons b bytes)
  have k: "replicate k (Some NUL) = Some NUL # replicate (k - 1) (Some NUL)"
    using Cons.prems(2) by (cases k) simp_all
  have t: "c_text (map Some s @ replicate k (Some NUL)) = Inr s"
    using c_text_map [OF Cons.prems(1)] by (simp add: k)
  have p: "put_at (length s) (hex2 b @ [NUL]) (map Some s @ replicate k (Some NUL)) =
      (if 3 \<le> k then Inr (map Some (s @ hex2 b) @ replicate (k - 2) (Some NUL)) else Inl (Undefined ''buffer overflow''))"
    using put_at_map [of s "hex2 b @ [NUL]" "replicate k (Some NUL)"]
    by (auto simp: hex2_def replicate_Suc [symmetric] Suc_diff_le numeral_2_eq_2 numeral_3_eq_3 simp del: replicate_Suc)
  show ?case
  proof (cases "3 \<le> k")
    case True
    have "NUL \<notin> set (s @ hex2 b)" "0 < k - 2" "length (s @ hex2 b) + (k - 2) = room"
      using Cons.prems True hex2_ok by (auto simp: hex2_def)
    note loop = Cons.IH [OF this]
    show ?thesis
    proof (cases "2 * length bytes < k - 2")
      case True
      then have "memory_loop room bytes (map Some (s @ hex2 b) @ replicate (k - 2) (Some NUL))
          = Inr (map Some ((s @ hex2 b) @ hex_text bytes) @ replicate (k - 2 - 2 * length bytes) (Some NUL))"
        using loop by simp
      moreover have "2 * length (b # bytes) < k" using True by simp
      ultimately show ?thesis using \<open>3 \<le> k\<close> Cons.prems(3) t p by (simp add: hex_text_def)
    next
      case False
      then obtain e where "memory_loop room bytes (map Some (s @ hex2 b) @ replicate (k - 2) (Some NUL)) = Inl e"
        using loop by auto
      then show ?thesis using \<open>3 \<le> k\<close> False Cons.prems(3) t p by auto
    qed
  next
    case False
    then show ?thesis using t p Cons.prems(2,3) by auto
  qed
qed (simp add: hex_text_def)

lemma memory_prefix_ok: "NUL \<notin> set (memory_prefix n)"
  using nat_str_digits [of n] by (auto simp: memory_prefix_def list_all_iff is_digit_def)

lemma memory_line:
  assumes "log_ok (c, d)" "nlog_level c \<le> level" "to_file c" "pfd_open c" "can_open sys (plog_path c)" "names_fit 1 c"
    and "s = memory_prefix (length bytes) @ hex_text bytes"
  shows "if length s + 1 < MAX_LOG_SIZE
    then \<exists>c' d'. log_memory sys level bytes (c, d) = (Inr (), (c', d')) \<and> log_ok (c', d') \<and> settings c' = settings c \<and> pfd_open c'
      \<and> log_text (c', d') = log_text (c, d) @ s @ [CHR 0x0A]
    else \<exists>e. fst (log_memory sys level bytes (c, d)) = Inl e"
proof -
  let ?p = "memory_prefix (length bytes)" and ?M = "MAX_LOG_SIZE"
  have size: "nlog_buf_size c = ?M" "fresh_names (c, d)" using assms(1) by (simp_all add: log_ok_def)
  have start: "put_at 0 (?p @ [NUL]) (replicate ?M (Some NUL)) =
      (if length ?p < ?M then Inr (map Some ?p @ replicate (?M - length ?p) (Some NUL)) else Inl (Undefined ''buffer overflow''))"
    by (auto simp: put_at_def replicate_Suc [symmetric] Suc_diff_Suc simp del: replicate_Suc)
  have e: "ended s = s @ [CHR 0x0A]"
  proof -
    have "last (hex_text bytes) \<noteq> CHR 0x0A" if "hex_text bytes \<noteq> []"
      using hex_text_ok(2) [of bytes] last_in_set [OF that] by metis
    then show ?thesis by (cases "hex_text bytes = []") (simp_all add: ended_def assms(7) memory_prefix_def)
  qed
  have nul: "NUL \<notin> set s" "s \<noteq> []" using memory_prefix_ok hex_text_ok(1) by (auto simp: assms(7) memory_prefix_def)
  show ?thesis
  proof (cases "length ?p < ?M \<and> 2 * length bytes < ?M - length ?p")
    case False
    then have "\<not> length s + 1 < ?M" by (auto simp: assms(7) length_hex_text)
    moreover have "\<exists>e. fst (log_memory sys level bytes (c, d)) = Inl e"
      using False memory_loop_run [OF memory_prefix_ok, of "?M - length ?p" "length bytes" ?M bytes] start assms(2) size(1)
      by (auto simp: log_memory_def bindS_def split: if_splits)
    ultimately show ?thesis by simp
  next
    case True
    define r where "r = replicate (?M - length s - 1) (Some NUL)"
    have r: "map Some s @ Some NUL # r = map Some (?p @ hex_text bytes) @ replicate (?M - length ?p - 2 * length bytes) (Some NUL)"
    proof -
      have "?M - length ?p - 2 * length bytes = Suc (?M - length s - 1)" using True by (auto simp: assms(7) length_hex_text)
      then show ?thesis by (simp add: r_def assms(7))
    qed
    define c1 where "c1 = c\<lparr>plog_buf := map Some s @ Some NUL # r\<rparr>"
    have c1: "to_file c1" "pfd_open c1" "fresh_names (c1, d)" "can_open sys (plog_path c1)" "names_fit (Suc 0) c1" "nlog_buf_size c1 = ?M"
      "settings c1 = settings c" "log_text (c1, d) = log_text (c, d)"
      using assms(3-6) size by (simp_all add: c1_def to_file_def log_state_fields)
    have "memory_loop ?M bytes (map Some ?p @ replicate (?M - length ?p) (Some NUL)) = Inr (map Some s @ Some NUL # r)"
      using memory_loop_run [OF memory_prefix_ok, of "?M - length ?p" "length bytes" ?M bytes] True by (simp add: r)
    then have run: "log_memory sys level bytes (c, d) = write_line sys level (length s) (c1, d)"
      using start True assms(2) size(1) c_text_map [OF nul(1)]
      by (simp add: log_memory_def bindS_def on_ctx_def c1_def del: map_append)
    have total: "length (map Some s @ Some NUL # r) = ?M" "length s < ?M"
      using True by (auto simp: r_def assms(7) length_hex_text)
    show ?thesis
    proof (cases "length s + 1 < ?M")
      case True
      have fits: "length (ended s) < length (map Some s @ Some NUL # r)" unfolding total(1) using True e by simp
      have len: "length s < nlog_buf_size c1" using True c1(6) by simp
      obtain c2 d2 r' where w: "write_log sys level (map Some s @ Some NUL # r) (length s) (c1, d)
          = (Inr (0, map Some (ended s) @ Some NUL # r'), (c2, d2))"
        "length (map Some (ended s) @ Some NUL # r') = length (map Some s @ Some NUL # r)" "settings c2 = settings c1" "pfd_open c2"
        "log_text (c2, d2) = log_text (c1, d) @ ended s" "fresh_names (c2, d2)"
        by (rule write_log_text [OF nul(2,1) len c1(1-5) fits, of level])
      define c3 where "c3 = c2\<lparr>plog_buf := map Some (ended s) @ Some NUL # r'\<rparr>"
      have "write_line sys level (length s) (c1, d) = (Inr (), (c3, d2))"
        using w(1) by (simp add: write_line_def bindS_def on_ctx_def c3_def c1_def)
      moreover have "log_ok (c3, d2)"
        using w(2,6) total(1) settings_fields(4) [OF w(3)] c1(6) by (simp add: log_ok_def c3_def log_state_fields)
      ultimately show ?thesis
        using True run w c1 e by (auto simp: c3_def log_state_fields)
    next
      case False
      then have "r = []" by (simp add: r_def)
      then have "write_log sys level (map Some s @ Some NUL # r) (length s) (c1, d) = (Inl (Undefined ''buffer overflow''), (c1, d))"
        using write_log_line [OF nul(2,1) _ to_file_on [OF c1(1)] refl] False total c1(6) e by simp
      then show ?thesis using False run by (simp add: write_line_def bindS_def c1_def)
    qed
  qed
qed

end
