(* ===== verification/LogProps.thy ===== *)
theory LogProps
  imports LogFacts
begin

text \<open>
  The properties of the log: what a line leaves in the files, and where the buffer ends.
\<close>

section \<open>Nothing to write\<close>

lemma log_below_level:
  assumes "level < nlog_level c"
  shows "log_format sys level at msg (c, d) = (Inr (), (c, d))" "log_buf sys level at msg (c, d) = (Inr (), (c, d))"
    "log_memory sys level bytes (c, d) = (Inr (), (c, d))"
  using assms by (simp_all add: log_format_def log_buf_def log_memory_def)

lemma log_disabled:
  assumes "level_name level = None" "calendar sys \<noteq> None" "length (header_place c at) < 256"
  shows "log_format sys level at msg (c, d) = (Inr (), (c, d))"
  using assms by (auto simp: log_format_def generate_header_def bindS_def)

lemma no_context: "log_trace sys level at msg (None, d) = (Inr (), (None, d))" "close_log_contex (None, d) = (Inr (), (None, d))"
  by (simp_all add: log_trace_def close_log_contex_def at_ctx_def bindS_def)

text \<open>Closing a log leaves its text with the last line.\<close>

lemma close_log_text:
  assumes "pfd_open c" "fresh_names (c, d)"
  obtains d' where "close_log_contex (Some c, d) = (Inr (), (None, d'))" "log_text (c, d') = log_text (c, d) @ end_line"
proof
  show "close_log_contex (Some c, d) = (Inr (), (None, d\<lparr>files := (files d)(plog_path c \<mapsto> file_text d (plog_path c) @ end_line)\<rparr>))"
    using assms(1) by (simp add: close_log_contex_def at_ctx_def bindS_def log_fwrite_def)
qed (rule log_text_append(1) [OF assms(2)])

section \<open>The path of a log\<close>

lemma path_without_slash:
  assumes "bit mode 1" "CHR ''/'' \<notin> set dir"
  shows "\<exists>e. init_log sys (Some dir) level mode v1 v2 v3 v4 = Inl e"
  using assms by (simp add: init_log_def log_path_of_def before_last_def after_last_def)

definition sample_tm :: tm where
  "sample_tm = \<lparr>tm_year = 121, tm_mon = 2, tm_mday = 9, tm_hour = 8, tm_min = 5, tm_sec = 7\<rparr>"

definition sample_system :: system where
  "sample_system = \<lparr>calendar = Some sample_tm, ms_timestamp = 12, utc_timestamp = 0, threadid = 3, errno = 0, strerror = ''No error'',
     can_open = (\<lambda>_. True), time_zone = 8, build_time = ''Mar  9 2021-08:00:00'', system_version = ''10.0.19041''\<rparr>"

lemma dated_path: "log_path_of sample_system ''logs/a_[datetime].log'' = Inr ''logs/a_20210309-080507.log''"
  by code_simp

lemma no_extension: "rotated_name ''./log/app'' 0 = ''_0.log''" "rotated_name ''./log/app.log'' 0 = ''./log/app_0.log''"
  by code_simp+

text \<open>A file that is not open is closed by a flush.\<close>

lemma flush_first: "\<not> pfd_open c \<Longrightarrow> \<exists>e. fst (force_flush sys (Some c, d)) = Inl e"
  by (simp add: force_flush_def at_ctx_def bindS_def)

section \<open>Bytes without an end\<close>

lemma c_text_runs_on: "NUL \<notin> set s \<Longrightarrow> c_text (map Some s @ None # r) = Inl (Undefined ''indeterminate byte'')"
  by (induction s) auto

text \<open>The first buffer that ends with a new line is read behind its end.\<close>

lemma log_buf_unterminated:
  assumes "calendar sys = Some t" "level_name level = Some lname" "nlog_level c \<le> level" "\<not> to_file c" "nlog_output_flag c \<noteq> 0"
    and "length (header_place c at) < 256" "plog_buf c = replicate MAX_LOG_SIZE None" "nlog_buf_size c = MAX_LOG_SIZE"
    and "h = header_text sys t level lname (header_place c at)" "NUL \<notin> set (h @ bytes)" "bytes \<noteq> []" "last bytes = CHR 0x0A"
    and "length (h @ bytes) + 1 < MAX_LOG_SIZE"
  shows "\<exists>e. fst (log_buf sys level at bytes (c, d)) = Inl e"
proof -
  define n where "n = length h + length bytes"
  have n: "n < MAX_LOG_SIZE" using assms(13) by (simp add: n_def)
  define c1 where "c1 = c\<lparr>plog_buf := map Some h @ Some NUL # drop (length h + 1) (plog_buf c)\<rparr>"
  have g: "generate_header sys at level (c, d) = (Inr (int (length h), length h), (c1, d))" "h \<noteq> []"
    using generate_header_run [OF assms(1,2,6,9)] assms(7,8,13) by (simp_all add: c1_def assms(9) header_text_def)
  have "length bytes - 1 < length (drop (length h + 1) (plog_buf c))" using assms(7,11,13) by (cases bytes) simp_all
  then have p: "put_at (length h) bytes (plog_buf c1) = Inr (map Some (h @ bytes) @ replicate (MAX_LOG_SIZE - n) None)"
    using put_at_map [of h bytes "Some NUL # drop (length h + 1) (plog_buf c)"] assms(7,11,13)
    by (cases bytes) (auto simp: c1_def n_def)
  obtain k where k: "MAX_LOG_SIZE - n = Suc k" using n by (metis Suc_diff_Suc)
  define buf where "buf = map Some (h @ bytes) @ None # replicate k None"
  have last: "get_at (n - 1) buf = Inr (CHR 0x0A)"
  proof -
    have "get_at (n - 1) buf = Inr ((h @ bytes) ! (n - 1))" unfolding buf_def by (rule get_at_map) (use assms(11) in \<open>simp add: n_def\<close>)
    moreover have "(h @ bytes) ! (n - 1) = last (h @ bytes)" using last_conv_nth [of "h @ bytes"] assms(11) by (simp add: n_def)
    ultimately show ?thesis using assms(11,12) by simp
  qed
  have "\<exists>e. fst (write_log sys level buf n (c2, d)) = Inl e" if "nlog_output_flag c2 \<noteq> 0" "nlog_buf_size c2 = MAX_LOG_SIZE" for c2
  proof -
    have "min n (MAX_LOG_SIZE - Suc 0) = n" "n \<noteq> 0" using n assms(11) by (auto simp: n_def)
    then show ?thesis
      using that last c_text_runs_on [OF assms(10), of "replicate k None"]
      by (simp add: write_log_def Let_def bindS_def on_ctx_def buf_def del: map_append)
  qed
  from this [of "c1\<lparr>plog_buf := buf\<rparr>"] obtain e where "fst (write_log sys level buf n (c1\<lparr>plog_buf := buf\<rparr>, d)) = Inl e"
    using assms(5,8) by (auto simp: c1_def)
  then have "\<exists>e. fst (write_line sys level n (c1\<lparr>plog_buf := buf\<rparr>, d)) = Inl e"
    by (cases "write_log sys level buf n (c1\<lparr>plog_buf := buf\<rparr>, d)") (simp add: write_line_def bindS_def)
  then show ?thesis
    using g p assms(3,4,8,13) k
    by (auto simp: log_buf_def bindS_def on_ctx_def open_file_def to_file_def c1_def buf_def n_def)
qed

section \<open>Waiting\<close>

lemma sleep_loop_ends: "sleep_loop until readings \<noteq> None \<longleftrightarrow> (\<exists>now \<in> set readings. until \<le> now)"
  by (induction readings) auto

section \<open>A line of the log\<close>

text \<open>C39: a line that is logged. When the header, the text and a new line fit into the buffer, the call
  returns and the files, those that were rotated and then the one that is written, hold what they
  held before, the version when the file was not open, and the line; nothing is lost when the file
  is rotated, and the log is ready for the next call. When the line does not fit, the call
  overflows the buffer. The bound counts the NUL at the end.\<close>

theorem log_line:
  assumes "log_ready sys level at (c, d)" "NUL \<notin> set (header sys level at c @ msg)" "text = ended (header sys level at c @ msg)"
  shows "if length text < MAX_LOG_SIZE
    then \<exists>c' d'. log_format sys level at msg (c, d) = (Inr (), (c', d')) \<and> log_ok (c', d') \<and> settings c' = settings c \<and> pfd_open c'
      \<and> log_text (c', d') = log_text (c, d) @ (if pfd_open c then [] else ended (version_text sys c)) @ text
    else \<exists>e. fst (log_format sys level at msg (c, d)) = Inl e"
proof (cases "length text < MAX_LOG_SIZE")
  case True
  from line_written [OF assms(1,2)] True show ?thesis unfolding assms(3) by (metis (no_types, lifting))
next
  case False
  then show ?thesis using line_overflows [OF assms(1,2)] assms(3) by simp
qed

definition sample_site :: site where
  "sample_site = \<lparr>ptag = None, pfilepath = Some ''mssdk/main.cpp'', src_line = 20, pfun = Some ''main''\<rparr>"

definition sample_log :: log_ctx where
  "sample_log = new_log_ctx sample_system LOG_LEVEL_INFO 2 ''a.log''"

definition no_files :: disk where
  "no_files = \<lparr>files = (\<lambda>_. None), console = []\<rparr>"

lemma sample_log_fields:
  "plog_path sample_log = ''a.log''" "nlog_rotation_index sample_log = 0" "nlog_level sample_log = 2" "\<not> pfd_open sample_log"
  "nlog_buf_size sample_log = MAX_LOG_SIZE" "length (plog_buf sample_log) = MAX_LOG_SIZE" "to_file sample_log"
  "can_open sample_system f" "calendar sample_system = Some sample_tm" "files no_files f = None"
  by (simp_all add: sample_log_def new_log_ctx_def to_file_def log_levels bit_iff_odd sample_system_def no_files_def)

theorem log_line_witness:
  "\<exists>c' d'. log_format sample_system LOG_LEVEL_WARN sample_site ''late'' (sample_log, no_files) = (Inr (), (c', d'))
     \<and> log_text (c', d') = ''version:0.0.0.0, timezone:8, build time:Mar  9 2021-08:00:00, system version:10.0.19041'' @ [CHR 0x0A]
         @ ''[2021-03-09 08:05:07.012][warn][main.cpp:20][3]late'' @ [CHR 0x0A]"
proof -
  let ?line = "''[2021-03-09 08:05:07.012][warn][main.cpp:20][3]late'' @ [CHR 0x0A]"
  have v: "version_text sample_system sample_log = ''version:0.0.0.0, timezone:8, build time:Mar  9 2021-08:00:00, system version:10.0.19041''"
    by (simp add: version_text_def sample_log_def new_log_ctx_def) code_simp
  have place: "header_place sample_log sample_site = ''main.cpp:20''"
    by (simp add: header_place_def sample_log_def new_log_ctx_def) code_simp
  have h: "header sample_system LOG_LEVEL_WARN sample_site sample_log = ''[2021-03-09 08:05:07.012][warn][main.cpp:20][3]''"
    unfolding header_def place by code_simp
  have names: "length (rotated_name ''a.log'' 0) < 256" "length (rotated_name ''a.log'' 1) < 256" by code_simp+
  have start: "log_ready sample_system LOG_LEVEL_WARN sample_site (sample_log, no_files)"
    unfolding log_ready_def using names
    by (simp add: v place log_ok_def fresh_names_def names_fit_def level_name_def log_levels sample_log_fields less_Suc_eq numeral_2_eq_2)
  have e: "ended (''[2021-03-09 08:05:07.012][warn][main.cpp:20][3]'' @ ''late'') = ?line"
    "ended (version_text sample_system sample_log) = version_text sample_system sample_log @ [CHR 0x0A]"
    unfolding v by code_simp+
  have "NUL \<notin> set (''[2021-03-09 08:05:07.012][warn][main.cpp:20][3]'' @ ''late'')" "length ?line < MAX_LOG_SIZE"
    by (simp_all add: MAX_LOG_SIZE_def)
  then show ?thesis
    using log_line [OF start, of "''late''"] unfolding h e
    by (auto simp: v log_text_def file_text_def sample_log_fields)
qed

end
