(* ===== verification/Spec2Isabelle.thy ===== *)
theory Spec2Isabelle
  imports SdpProps OrtcProps OfferProps RemoteProps SignalProps SessionProps MsApiProps ControlProps FrameProps LazyThreadProps
    ScaleProps WebSocketProps CaptureProps PeerConnection LogProps
begin

text \<open>
  A model of the mediasoup client under \<open>mssdk/\<close>, and the theorems that make it correct.

  \<^bold>\<open>The program.\<close> The client talks to a mediasoup server in JSON over a web socket and drives
  WebRTC peer connections with SDP. From the bottom: a translation between SDP text and JSON
  (\<open>json/\<close>), the validation and negotiation of RTP capabilities and the remote description that a
  peer connection is given (\<open>sdputil/\<close>), the messages of the protocol, the session that matches
  answers to requests, and the API on top of it (\<open>mssignal/\<close>), the web socket (\<open>websocket/\<close>), the
  client with its peer connections and the capture of the desktop (\<open>peerconnection/\<close>), and
  utilities: frames, scaling, threads, the log (\<open>lazyutil/\<close>). The client publishes by asking the API
  for transports and producers, and writes into the remote description what the API has
  negotiated; the API sends its requests through the session, and the session through the web
  socket.

  \<^bold>\<open>Shared theories.\<close>
  \<^item> \<open>Prelude\<close>: exceptions as values, the error monad \<open>bindE\<close>, maps in key order (the locale
    \<open>ordered_map\<close>), lines, splitting and joining (\<open>json/Utils.hpp\<close>). \<open>Effects\<close>: operations that
    change an object and may throw, invariants and triples of them. \<open>Steps\<close>: step relations, the
    locales \<open>closed_under\<close> and \<open>step_system\<close>.
  \<^item> \<open>CxxNum\<close>, \<open>FloatFacts\<close>: the conversions of the C++ library between text and numbers, on words;
    IEEE 754 rounding is computed, and is exact on the numbers of a format.
  \<^item> \<open>Json\<close>: the JSON value and the accessors of \<open>json/json.hpp\<close> that the program uses, with
    their exceptions; undefined behaviour is the error \<open>Undefined\<close>.
  \<^item> \<open>Regex\<close>, \<open>RegexFacts\<close>: ECMAScript regular expressions by backtracking, with a compiler
    from the source text of a pattern; lemmas that solve the patterns of the program.

  \<^bold>\<open>SDP and ORTC.\<close>
  \<^item> \<open>GrammarRe\<close>, \<open>SdpGrammar\<close>: the rules of \<open>grammar.cpp\<close>, each with its compiled pattern.
  \<^item> \<open>SdpParser\<close>, \<open>SdpShape\<close>: \<open>parse\<close> and the parsers of attribute values; the schema of
    what is parsed, and that parsing is total. \<open>SdpWriter\<close>: \<open>write\<close>; that it cannot fail on a
    parsed session.
  \<^item> \<open>Checks\<close>, \<open>OrtcValidate\<close>, \<open>OrtcValid\<close>: the validators of \<open>jsonvalidate.cpp\<close> as lists of steps,
    and the contract they share, the locale \<open>normaliser\<close>, interpreted for each of them.
  \<^item> \<open>OrtcNegotiate\<close>: negotiation. \<open>OrtcFacts\<close>, \<open>MimeType\<close>, \<open>OrtcReceive\<close>, \<open>OrtcSend\<close>: what the
    negotiated capabilities and parameters look like.
  \<^item> \<open>SdpUtil\<close>, \<open>SdpOffer\<close>: \<open>sdputil.cpp\<close>, what is read off a parsed SDP and what is written into an
    offer or an answer. \<open>OfferFacts\<close>: the SSRC lines and groups of simulcast, read back.
  \<^item> \<open>MediaSection\<close>, \<open>MediaBuild\<close>, \<open>SectionFacts\<close>: a media section as a record of its object and its
    class, the methods of \<open>MediaSection.cpp\<close> and the constructors of the answer and the offer
    section, and what each leaves.
  \<^item> \<open>RemoteSdp\<close>: the class \<open>RemoteSdp\<close> as a record with the fields of the class, one
    definition for each operation. \<open>RemoteInv\<close>: its invariant \<open>remote_ok\<close>, and the locales
    \<open>section_op\<close>, \<open>section_update\<close> and \<open>section_close\<close> of the operations on one section, interpreted
    on the methods of the section. \<open>RemoteOps\<close>, \<open>RemoteSteps\<close>: every operation keeps the invariant
    and acts on the abstract view, the list of MIDs with their closed flags. \<open>RemoteMachine\<close>: the
    steps of the clients of the description, the states that they reach, the abstract machine.

  \<^bold>\<open>Signaling.\<close>
  \<^item> \<open>Serial\<close>, \<open>SerialFacts\<close>: the serialization of \<open>json/serialization.hpp\<close>, instantiated by the type
    of a member; what is written is read back. \<open>SignalModels\<close>, \<open>SignalFacts\<close>: the messages of
    \<open>signaling_models.h\<close> as such types.
  \<^item> \<open>Session\<close>, \<open>SessionFacts\<close>: \<open>mssignal.cpp\<close>, a record of the lists of messages and the promises,
    one step for each operation; who holds a promise along a run.
  \<^item> \<open>MsApi\<close>, \<open>MsApiFacts\<close>: \<open>msapi.cpp\<close>; the exchange of a request for its answer is a parameter, the
    requests that were sent are part of the state.
  \<^item> \<open>WebSocket\<close>: the end points (\<open>WSClient\<close> and \<open>WSSClient\<close> have one model, they differ in TLS),
    the check of certificates, \<open>WSPPClient\<close>, and \<open>connect_sync\<close> as a machine of its caller and the
    network thread.

  \<^bold>\<open>Client and platform.\<close>
  \<^item> \<open>MediaControl\<close>, \<open>ControlFacts\<close>: \<open>media_control.cpp\<close> over the calls of a peer connection; which
    requests a publication sends, and in which order. \<open>PeerConnection\<close>:
    \<open>peer_connection_client.cpp\<close>, wrappers with their observers and errors over the calls of WebRTC;
    together they give the parameter of \<open>MediaControl\<close>.
  \<^item> \<open>Frame\<close>, \<open>FrameFacts\<close>, \<open>FrameCopy\<close>: \<open>lbframe.h\<close> over a heap of blocks. \<open>Crop\<close>, \<open>CropFacts\<close>,
    \<open>Scale\<close>, \<open>ScaleFacts\<close>, \<open>Overlay\<close>, \<open>OverlayFacts\<close>: \<open>lbscale.h\<close>, over libyuv as a parameter.
  \<^item> \<open>Capture\<close>: the image, its delivery and the thread of \<open>DestopCapture\<close> in \<open>video_capture.cpp\<close>.
  \<^item> \<open>LazyThread\<close>: \<open>lazythread.h\<close> as steps of a caller and its threads.
  \<^item> \<open>Log\<close>, \<open>LogContext\<close>, \<open>LogFacts\<close>: \<open>lazylog.cpp\<close>, the context, its buffer and its files.

  \<^bold>\<open>Properties.\<close> The theories whose names end in \<open>Props\<close> hold the properties: for SDP that parsing
  is total and what is parsed can be written; for ORTC that validators are normalisers and that
  what is negotiated can be received; for the remote description its invariant and a refinement;
  for the session that answers reach their requests, once; for messages a round trip; for the
  client the order of its requests; for frames, scaling and the log the exact bytes and their
  bounds; for threads, capture and the web socket when a wait ends. Several theorems show where
  the code does not do what it means to do.

  \<^bold>\<open>State and errors.\<close> A function that changes its JSON argument returns the argument as it
  leaves it. An operation that throws is \<open>Inl\<close> with the exception; so is undefined behaviour,
  after which nothing is said of the state.

  \<^bold>\<open>Bounds.\<close> Integers have the width of the code where it matters (\<open>long\<close> has 32 bits on the platform
  of the program); the fields of the log are unbounded but for \<open>ftell\<close>. The loops of the code are
  structural recursions. Fuel is used twice: by the matcher of regular expressions, the length of
  the text, which suffices because a round of a repetition must consume (\<open>RegexFacts\<close>); and by a row
  of \<open>high_light\<close>, its width, which suffices by \<open>high_light_row_fuel\<close>. The sleeps of \<open>lazysleepto\<close>
  follow a list of readings of the clock; they end when one is late enough (\<open>sleep_loop_ends\<close>).

  \<^bold>\<open>Parameters.\<close> Code that is not in the sources is an argument: the two H264 functions of WebRTC
  (\<open>h264_lib\<close>), the text of nested JSON values in SDP (\<open>dump\<close>), the parsers and printers of the JSON
  libraries, the calls of WebRTC (\<open>webrtc\<close>, \<open>native\<close>), libyuv (\<open>libyuv\<close>), the answers of websocketpp,
  OpenSSL, Windows and the server, the clock, and random IDs.

  \<^bold>\<open>Not modelled.\<close> The camera and the broadcaster of frames, the tracks, threads and transceiver lists
  of a peer connection, which are objects of WebRTC; the functions of the log that only ask the
  system; the demo under \<open>sdkdemo/\<close>; the vendored libraries under \<open>deps/\<close>. Locks have no
  counterpart: an operation is one step, or a machine has a step for each access. The branches
  that the project does not compile (\<open>ENABLE_AUTO_SUBSCRIBE\<close>, \<open>ENABLE_PTHREAD\<close>, Android) are left out;
  cropping and overlays are compiled where \<open>lbframe.h\<close> is included first. The directory
  \<open>sdptransform/\<close>, \<open>sdputil/Utils.cpp\<close> and the functions at the end of \<open>parser.cpp\<close> are copies of
  code that is modelled. In the client, a call on the remote description that throws leaves it as it
  was; in the scaler, the doubles of the colours are fractions, rounded where the code rounds.
\<close>

end
